(* ===== verification/Prelude.thy ===== *)
theory Prelude
  imports Main "HOL-Library.Word"
begin

text \<open>
  Shared vocabulary of the development: the Go integer widths as words, the result type that
  stands for Go's \<open>(value, error)\<close> pairs with its sequencing operator, the loop over a slice
  that stops at the first error, and the little-endian byte order of \<open>encoding/binary\<close>.
  The collections declared here (\<open>res_simps\<close>, \<open>le_simps\<close>) are what the component proofs
  simplify with.
\<close>

unbundle bit_operations_syntax

section \<open>Machine integers of Go\<close>

text \<open>
  A Go \<open>uintN\<close> and a Go \<open>intN\<close> are both \<open>N word\<close>; the signed reading is \<open>sint\<close>, the
  unsigned one \<open>uint\<close> or \<open>unat\<close>. A conversion \<open>uintM(x)\<close> of an unsigned \<open>x\<close> is \<open>ucast\<close>; a
  conversion of a signed \<open>x\<close> to a wider type sign-extends (\<open>scast\<close>), to a narrower one drops
  the high bits (either cast). \<open>int\<close> and \<open>uint\<close> are 64 bits wide (the server is built for
  64-bit targets).
\<close>

type_synonym byte = "8 word"
type_synonym u16 = "16 word"
type_synonym u32 = "32 word"
type_synonym u64 = "64 word"
type_synonym i32 = "32 word"
type_synonym i64 = "64 word"

lemma ucast_down_scast_up:
  "LENGTH('a) \<le> LENGTH('b) \<Longrightarrow>
     (ucast (scast (x :: 'a::len word) :: 'b::len word) :: 'a word) = x"
  by (rule bit_word_eqI) (auto simp: bit_simps)

lemma ucast_down_ucast_up:
  "LENGTH('a) \<le> LENGTH('b) \<Longrightarrow>
     (ucast (ucast (x :: 'a::len word) :: 'b::len word) :: 'a word) = x"
  by (rule bit_word_eqI) (auto simp: bit_simps)

lemma u16_ucast_cast [simp]:
  "(ucast (ucast (x :: u16) :: u64) :: u16) = x"
  "(ucast (scast (x :: u16) :: u64) :: u16) = x"
  by (simp_all add: ucast_down_ucast_up ucast_down_scast_up)

lemma u32_ucast_cast [simp]:
  "(ucast (ucast (x :: u32) :: u64) :: u32) = x"
  "(ucast (scast (x :: u32) :: u64) :: u32) = x"
  by (simp_all add: ucast_down_ucast_up ucast_down_scast_up)

lemma u8_ucast_cast [simp]:
  "(ucast (ucast (x :: byte) :: u64) :: byte) = x"
  "(ucast (scast (x :: byte) :: u64) :: byte) = x"
  by (simp_all add: ucast_down_ucast_up ucast_down_scast_up)

section \<open>Results\<close>

text \<open>
  A Go function that returns \<open>(T, error)\<close> returns \<open>'e + 'a\<close> here: \<open>Inl e\<close> where the code
  returns a non-nil error, \<open>Inr x\<close> where the error is nil. \<open>rbind\<close> is the
  \<open>if err != nil { return err }\<close> between two calls.
\<close>

named_theorems res_simps

definition rbind :: "'e + 'a \<Rightarrow> ('a \<Rightarrow> 'e + 'b) \<Rightarrow> 'e + 'b" where
  "rbind m f = (case m of Inl e \<Rightarrow> Inl e | Inr x \<Rightarrow> f x)"

lemma rbind_simps [simp, res_simps]:
  "rbind (Inl e) f = Inl e"
  "rbind (Inr x) f = f x"
  by (simp_all add: rbind_def)

lemma rbind_eq_Inr [res_simps]:
  "rbind m f = Inr y \<longleftrightarrow> (\<exists>x. m = Inr x \<and> f x = Inr y)"
  by (simp add: rbind_def split: sum.splits)

lemma rbind_eq_Inl [res_simps]:
  "rbind m f = Inl e \<longleftrightarrow> m = Inl e \<or> (\<exists>x. m = Inr x \<and> f x = Inl e)"
  by (auto simp: rbind_def split: sum.splits)

lemma rbind_cong [fundef_cong]:
  "m = m' \<Longrightarrow> (\<And>x. m' = Inr x \<Longrightarrow> f x = g x) \<Longrightarrow> rbind m f = rbind m' g"
  by (auto simp: rbind_def split: sum.splits)

definition is_ok :: "'e + 'a \<Rightarrow> bool" where
  "is_ok m = (case m of Inl _ \<Rightarrow> False | Inr _ \<Rightarrow> True)"

lemma is_ok_simps [simp, res_simps]:
  "\<not> is_ok (Inl e)" "is_ok (Inr x)"
  by (simp_all add: is_ok_def)

lemma is_ok_iff: "is_ok m \<longleftrightarrow> (\<exists>x. m = Inr x)"
  by (cases m) simp_all

lemma is_ok_rbind: "is_ok (rbind m f) \<longleftrightarrow> (\<exists>x. m = Inr x \<and> is_ok (f x))"
  by (cases m) simp_all

text \<open>The loop \<open>for _, x := range xs { y, err := f(x); if err != nil { return err } ... }\<close>.\<close>

primrec map_res :: "('a \<Rightarrow> 'e + 'b) \<Rightarrow> 'a list \<Rightarrow> 'e + 'b list" where
  "map_res f [] = Inr []"
| "map_res f (x # xs) = rbind (f x) (\<lambda>y. rbind (map_res f xs) (\<lambda>ys. Inr (y # ys)))"

lemma map_res_Inr_iff:
  "map_res f xs = Inr ys \<longleftrightarrow> list_all2 (\<lambda>x y. f x = Inr y) xs ys"
proof (induction xs arbitrary: ys)
  case Nil
  then show ?case by auto
next
  case (Cons x xs)
  then show ?case by (cases ys) (auto simp: rbind_eq_Inr)
qed

lemma map_res_length: "map_res f xs = Inr ys \<Longrightarrow> length ys = length xs"
  by (auto simp: map_res_Inr_iff dest: list_all2_lengthD)

lemma is_ok_map_res: "is_ok (map_res f xs) \<longleftrightarrow> (\<forall>x\<in>set xs. is_ok (f x))"
proof (induction xs)
  case (Cons x xs)
  then show ?case by (cases "f x"; cases "map_res f xs") simp_all
qed simp

lemma map_res_cong [fundef_cong]:
  "xs = ys \<Longrightarrow> (\<And>x. x \<in> set ys \<Longrightarrow> f x = g x) \<Longrightarrow> map_res f xs = map_res g ys"
proof (induction ys arbitrary: xs)
  case Nil
  then show ?case by simp
next
  case (Cons y ys)
  from Cons.prems(2) have "f y = g y" by simp
  moreover have "map_res f ys = map_res g ys"
    by (rule Cons.IH) (use Cons.prems(2) in auto)
  ultimately show ?case using Cons.prems(1) by simp
qed

lemma map_res_Inr_map: "(\<And>x. x \<in> set xs \<Longrightarrow> f x = Inr (g x)) \<Longrightarrow> map_res f xs = Inr (map g xs)"
  by (induction xs) auto

section \<open>Little-endian byte order\<close>

text \<open>
  \<open>binary.LittleEndian\<close>: \<open>le_bytes n w\<close> are the \<open>n\<close> low bytes of \<open>w\<close>, least significant
  first (\<open>AppendUintN\<close>, \<open>PutUintN\<close>); \<open>le_word bs\<close> is the word they spell (\<open>UintN\<close>).
\<close>

named_theorems le_simps

definition le_bytes :: "nat \<Rightarrow> 'a::len word \<Rightarrow> byte list" where
  "le_bytes n w = map (\<lambda>i. ucast (drop_bit (8 * i) w)) [0..<n]"

primrec le_word :: "byte list \<Rightarrow> 'a::len word" where
  "le_word [] = 0"
| "le_word (b # bs) = ucast b OR push_bit 8 (le_word bs)"

lemma length_le_bytes [simp, le_simps]: "length (le_bytes n w) = n"
  by (simp add: le_bytes_def)

lemma bit_le_word:
  "bit (le_word bs :: 'a::len word) n \<longleftrightarrow>
     n < LENGTH('a) \<and> n div 8 < length bs \<and> bit (bs ! (n div 8)) (n mod 8)"
proof (induction bs arbitrary: n)
  case Nil
  then show ?case by simp
next
  case (Cons b bs)
  show ?case
  proof (cases "n < 8")
    case True
    then show ?thesis by (auto simp: bit_simps)
  next
    case False
    then obtain m where n: "n = 8 + m" by (metis le_iff_add linorder_not_less)
    have "\<not> bit b n"
      using False by (auto dest: bit_imp_le_length)
    moreover have "(8 + m) div 8 = Suc (m div 8)" "(8 + m) mod 8 = m mod 8" by simp_all
    ultimately show ?thesis
      using n by (auto simp: bit_simps Cons.IH)
  qed
qed

lemma bit_le_bytes_nth:
  "i < n \<Longrightarrow> bit (le_bytes n w ! i) k \<longleftrightarrow> k < 8 \<and> bit w (8 * i + k)"
  by (auto simp: le_bytes_def bit_simps)

lemma le_word_le_bytes:
  assumes "LENGTH('a) = 8 * n"
  shows "le_word (le_bytes n (w :: 'a::len word)) = w"
proof (rule bit_word_eqI)
  fix k assume k: "k < LENGTH('a)"
  then have "k div 8 < n" using assms by (simp add: less_mult_imp_div_less mult.commute)
  then show "bit (le_word (le_bytes n w) :: 'a word) k = bit w k"
    using k by (simp add: bit_le_word bit_le_bytes_nth)
qed

lemma le_bytes_le_word:
  assumes "length bs = n" "LENGTH('a) = 8 * n"
  shows "le_bytes n (le_word bs :: 'a::len word) = bs"
proof (rule nth_equalityI)
  fix i assume "i < length (le_bytes n (le_word bs :: 'a word))"
  then have i: "i < n" by simp
  show "le_bytes n (le_word bs :: 'a word) ! i = bs ! i"
  proof (rule bit_word_eqI)
    fix k assume "k < LENGTH(8)"
    then have k: "k < 8" by simp
    have "(8 * i + k) div 8 = i" "(8 * i + k) mod 8 = k" using k by simp_all
    moreover have "8 * i + k < LENGTH('a)" using i k assms(2) by simp
    ultimately show "bit (le_bytes n (le_word bs :: 'a word) ! i) k = bit (bs ! i) k"
      using i k assms by (simp add: bit_le_bytes_nth bit_le_word)
  qed
qed (simp add: assms)

lemmas le_word_le_bytes_widths [simp, le_simps] =
  le_word_le_bytes [where 'a = 8 and n = 1, simplified]
  le_word_le_bytes [where 'a = 16 and n = 2, simplified]
  le_word_le_bytes [where 'a = 32 and n = 4, simplified]
  le_word_le_bytes [where 'a = 64 and n = 8, simplified]

lemma le_bytes_Suc: "le_bytes (Suc n) w = ucast w # le_bytes n (drop_bit 8 w)"
  by (simp add: le_bytes_def upt_conv_Cons map_Suc_upt [symmetric] o_def drop_bit_drop_bit
      add.commute del: upt_Suc)

lemma le_bytes_0 [simp]: "le_bytes 0 w = []"
  by (simp add: le_bytes_def)

text \<open>Evaluation rules for the four widths the program uses.\<close>

lemma le_bytes_unfold:
  "le_bytes 1 w = [ucast w]"
  "le_bytes 2 w = [ucast w, ucast (drop_bit 8 w)]"
  "le_bytes 4 w = [ucast w, ucast (drop_bit 8 w), ucast (drop_bit 16 w), ucast (drop_bit 24 w)]"
  "le_bytes 8 w = [ucast w, ucast (drop_bit 8 w), ucast (drop_bit 16 w), ucast (drop_bit 24 w),
     ucast (drop_bit 32 w), ucast (drop_bit 40 w), ucast (drop_bit 48 w), ucast (drop_bit 56 w)]"
  by (simp_all add: le_bytes_def upt_rec)

section \<open>Lists and slices\<close>

lemma take_length_append [simp]: "take (length xs) (xs @ ys) = xs"
  by simp

end
