(* ===== verification/GoStrings.thy ===== *)
theory GoStrings
  imports Prelude
begin

text \<open>
  Go strings. A Go \<open>string\<close> is a sequence of bytes, and so is a HOL \<open>string\<close> (a \<open>char\<close> is a
  byte); it need not be UTF-8. This theory models what the program uses of the language and of
  \<open>unicode/utf8\<close>, \<open>unicode/utf16\<close> and \<open>strings\<close>: the conversions \<open>[]rune(s)\<close> and
  \<open>string(runes)\<close>, UTF-16 encoding and decoding with their replacement character, rune
  counting and \<open>strings.TrimSpace\<close>; and proves the round trips the codec rests on.
\<close>

section \<open>Runes and UTF-8\<close>

type_synonym rune = nat

definition rune_error :: rune where
  "rune_error = 0xFFFD"

text \<open>The code points UTF-8 and UTF-16 can carry: everything but surrogates, up to 0x10FFFF.\<close>

definition is_scalar :: "rune \<Rightarrow> bool" where
  "is_scalar r \<longleftrightarrow> r < 0xD800 \<or> (0xE000 \<le> r \<and> r < 0x110000)"

definition in_range :: "char \<Rightarrow> nat \<Rightarrow> nat \<Rightarrow> bool" where
  "in_range c lo hi \<longleftrightarrow> lo \<le> of_char c \<and> of_char c \<le> hi"

definition low6 :: "char \<Rightarrow> nat" where
  "low6 c = of_char c - 0x80"

text \<open>
  \<open>utf8.DecodeRuneInString\<close>: the first rune and its width; an invalid sequence is
  \<open>(RuneError, 1)\<close>, the empty string \<open>(RuneError, 0)\<close>. The second byte's range excludes
  overlong forms, surrogates and values above 0x10FFFF.
\<close>

fun decode_rune :: "string \<Rightarrow> rune \<times> nat" where
  "decode_rune [] = (rune_error, 0)"
| "decode_rune (c # cs) =
     (let b0 = of_char c in
      if b0 < 0x80 then (b0, 1)
      else if 0xC2 \<le> b0 \<and> b0 \<le> 0xDF then
        (case cs of
           c1 # _ \<Rightarrow>
             if in_range c1 0x80 0xBF then ((b0 - 0xC0) * 64 + low6 c1, 2) else (rune_error, 1)
         | _ \<Rightarrow> (rune_error, 1))
      else if 0xE0 \<le> b0 \<and> b0 \<le> 0xEF then
        (case cs of
           c1 # c2 # _ \<Rightarrow>
             if in_range c1 (if b0 = 0xE0 then 0xA0 else 0x80) (if b0 = 0xED then 0x9F else 0xBF)
                \<and> in_range c2 0x80 0xBF
             then ((b0 - 0xE0) * 4096 + low6 c1 * 64 + low6 c2, 3) else (rune_error, 1)
         | _ \<Rightarrow> (rune_error, 1))
      else if 0xF0 \<le> b0 \<and> b0 \<le> 0xF4 then
        (case cs of
           c1 # c2 # c3 # _ \<Rightarrow>
             if in_range c1 (if b0 = 0xF0 then 0x90 else 0x80) (if b0 = 0xF4 then 0x8F else 0xBF)
                \<and> in_range c2 0x80 0xBF \<and> in_range c3 0x80 0xBF
             then ((b0 - 0xF0) * 262144 + low6 c1 * 4096 + low6 c2 * 64 + low6 c3, 4)
             else (rune_error, 1)
         | _ \<Rightarrow> (rune_error, 1))
      else (rune_error, 1))"

text \<open>\<open>utf8.AppendRune\<close>: a value that is not a scalar is encoded as the replacement character.\<close>

definition encode_rune :: "rune \<Rightarrow> string" where
  "encode_rune r0 =
     (let r = (if is_scalar r0 then r0 else rune_error) in
      if r < 0x80 then [char_of r]
      else if r < 0x800 then [char_of (0xC0 + r div 64), char_of (0x80 + r mod 64)]
      else if r < 0x10000 then
        [char_of (0xE0 + r div 4096), char_of (0x80 + r div 64 mod 64), char_of (0x80 + r mod 64)]
      else
        [char_of (0xF0 + r div 262144), char_of (0x80 + r div 4096 mod 64),
         char_of (0x80 + r div 64 mod 64), char_of (0x80 + r mod 64)])"

lemma decode_rune_width:
  "s \<noteq> [] \<Longrightarrow> 1 \<le> snd (decode_rune s) \<and> snd (decode_rune s) \<le> length s"
  by (cases s) (auto simp: Let_def split: list.splits)

text \<open>The conversions \<open>[]rune(s)\<close> and \<open>string(runes)\<close>.\<close>

function runes_of :: "string \<Rightarrow> rune list" where
  "runes_of [] = []"
| "runes_of (c # cs) =
     fst (decode_rune (c # cs)) # runes_of (drop (snd (decode_rune (c # cs)) - 1) cs)"
  by pat_completeness auto
termination
  by (relation "measure length") auto

declare runes_of.simps(2) [simp del]

definition string_of_runes :: "rune list \<Rightarrow> string" where
  "string_of_runes rs = concat (map encode_rune rs)"

text \<open>\<open>utf8.ValidString\<close>: decoding loses nothing, that is, no byte had to be replaced.\<close>

definition valid_utf8 :: "string \<Rightarrow> bool" where
  "valid_utf8 s \<longleftrightarrow> string_of_runes (runes_of s) = s"

lemma string_of_runes_simps [simp]:
  "string_of_runes [] = []"
  "string_of_runes (r # rs) = encode_rune r @ string_of_runes rs"
  "string_of_runes (rs @ rs') = string_of_runes rs @ string_of_runes rs'"
  by (simp_all add: string_of_runes_def)

lemma is_scalar_rune_error [simp]: "is_scalar rune_error"
  by (simp add: is_scalar_def rune_error_def)

lemma encode_rune_nonempty [simp]: "encode_rune r \<noteq> []"
  by (simp add: encode_rune_def Let_def)

lemma of_char_lt_256: "of_char c < (256 :: nat)"
  using of_char_mod_256 [of c] by (metis mod_less_divisor zero_less_numeral)

lemma of_char_of_lt [simp]: "n < 256 \<Longrightarrow> of_char (char_of (n :: nat)) = n"
  by simp

text \<open>Every rune the decoder yields is a scalar.\<close>

lemma scalar3:
  assumes "0xE0 \<le> b0" "b0 \<le> 0xEF" "(if b0 = 0xE0 then 0xA0 else 0x80) \<le> b1"
    "b1 \<le> (if b0 = 0xED then 0x9F else 0xBF)" "0x80 \<le> b2" "b2 \<le> (0xBF :: nat)"
  shows "is_scalar ((b0 - 0xE0) * 4096 + (b1 - 0x80) * 64 + (b2 - 0x80))"
proof -
  have "0x80 \<le> b1" using assms(3) by (simp split: if_splits)
  then obtain x y z where v: "b0 = 0xE0 + x" "b1 = 0x80 + y" "b2 = 0x80 + z"
    using assms(1,5) by (metis le_iff_add)
  have "x = 13 \<Longrightarrow> y < 32" "x < 16" "y < 64" "z < 64"
    using assms v by (simp_all split: if_splits)
  moreover from this have "x * 4096 + y * 64 + z < 0xD800 \<or> 0xE000 \<le> x * 4096 + y * 64 + z"
    by (cases "x \<le> 12"; cases "x = 13") linarith+
  moreover have "x * 4096 + y * 64 + z < 0x110000"
    using calculation by linarith
  ultimately have "x * 4096 + y * 64 + z < 0xD800 \<or> 0xE000 \<le> x * 4096 + y * 64 + z"
    "x * 4096 + y * 64 + z < 0x110000" by simp_all
  then show ?thesis by (auto simp: is_scalar_def v)
qed

lemma scalar4:
  assumes "0xF0 \<le> b0" "b0 \<le> 0xF4" "(if b0 = 0xF0 then 0x90 else 0x80) \<le> b1"
    "b1 \<le> (if b0 = 0xF4 then 0x8F else 0xBF)" "0x80 \<le> b2" "b2 \<le> 0xBF"
    "0x80 \<le> b3" "b3 \<le> (0xBF :: nat)"
  shows "is_scalar ((b0 - 0xF0) * 262144 + (b1 - 0x80) * 4096 + (b2 - 0x80) * 64 + (b3 - 0x80))"
proof -
  have "0x80 \<le> b1" using assms(3) by (simp split: if_splits)
  then obtain x y z t where v: "b0 = 0xF0 + x" "b1 = 0x80 + y" "b2 = 0x80 + z" "b3 = 0x80 + t"
    using assms(1,5,7) by (metis le_iff_add)
  have "x = 4 \<Longrightarrow> y < 16" "x = 0 \<Longrightarrow> 16 \<le> y" "x < 5" "y < 64" "z < 64" "t < 64"
    using assms v by (simp_all split: if_splits)
  then have "0x10000 \<le> x * 262144 + y * 4096 + z * 64 + t"
    "x * 262144 + y * 4096 + z * 64 + t < 0x110000"
    by linarith+
  then show ?thesis by (auto simp: is_scalar_def v)
qed

lemma scalar2:
  assumes "0xC2 \<le> b0" "b0 \<le> 0xDF" "0x80 \<le> b1" "b1 \<le> (0xBF :: nat)"
  shows "is_scalar ((b0 - 0xC0) * 64 + (b1 - 0x80))"
  using assms by (auto simp: is_scalar_def)

lemma scalar_fst_if:
  "(P \<Longrightarrow> is_scalar (fst a)) \<Longrightarrow> (\<not> P \<Longrightarrow> is_scalar (fst b)) \<Longrightarrow>
     is_scalar (fst (if P then a else b))"
  by simp

lemma scalar_fst_case:
  "(xs = [] \<Longrightarrow> is_scalar (fst a)) \<Longrightarrow> (\<And>y ys. xs = y # ys \<Longrightarrow> is_scalar (fst (f y ys))) \<Longrightarrow>
     is_scalar (fst (case xs of [] \<Rightarrow> a | y # ys \<Rightarrow> f y ys))"
  by (simp split: list.split)

lemma scalar_ascii: "b < (0x80 :: nat) \<Longrightarrow> is_scalar b"
  by (simp add: is_scalar_def)

lemma decode_rune_scalar: "is_scalar (fst (decode_rune s))"
proof (cases s)
  case (Cons c cs)
  show ?thesis
    unfolding Cons decode_rune.simps Let_def in_range_def low6_def
    apply (intro scalar_fst_if scalar_fst_case; unfold fst_conv)
    apply (blast intro: scalar_ascii scalar2 scalar3 scalar4 is_scalar_rune_error)+
    done
qed simp

lemma runes_of_scalar: "r \<in> set (runes_of s) \<Longrightarrow> is_scalar r"
proof (induction s rule: runes_of.induct)
  case (2 c cs)
  then show ?case
    using decode_rune_scalar [of "c # cs"] by (auto simp: runes_of.simps(2))
qed simp

text \<open>Decoding what was encoded: the first rune comes back, whatever follows.\<close>

lemma decode2:
  "2 \<le> x \<Longrightarrow> x < 32 \<Longrightarrow> y < 64 \<Longrightarrow>
     decode_rune (char_of (0xC0 + x) # char_of (0x80 + y) # rest) = (x * 64 + y, 2)"
  by (simp add: in_range_def low6_def Let_def)

lemma decode3:
  "x < 16 \<Longrightarrow> y < 64 \<Longrightarrow> z < 64 \<Longrightarrow> (x = 0 \<Longrightarrow> 32 \<le> y) \<Longrightarrow> (x = 13 \<Longrightarrow> y < 32) \<Longrightarrow>
     decode_rune (char_of (0xE0 + x) # char_of (0x80 + y) # char_of (0x80 + z) # rest) =
       (x * 4096 + y * 64 + z, 3)"
  by (auto simp: in_range_def low6_def Let_def)

lemma decode4:
  "x < 5 \<Longrightarrow> y < 64 \<Longrightarrow> z < 64 \<Longrightarrow> t < 64 \<Longrightarrow> (x = 0 \<Longrightarrow> 16 \<le> y) \<Longrightarrow> (x = 4 \<Longrightarrow> y < 16) \<Longrightarrow>
     decode_rune (char_of (0xF0 + x) # char_of (0x80 + y) # char_of (0x80 + z)
         # char_of (0x80 + t) # rest) =
       (x * 262144 + y * 4096 + z * 64 + t, 4)"
  by (auto simp: in_range_def low6_def Let_def)

lemma decode_encode_rune:
  assumes "is_scalar r"
  shows "decode_rune (encode_rune r @ rest) = (r, length (encode_rune r))"
proof -
  consider "r < 0x80" | "0x80 \<le> r" "r < 0x800" | "0x800 \<le> r" "r < 0x10000"
    | "0x10000 \<le> r" "r < 0x110000"
    using assms unfolding is_scalar_def by linarith
  then show ?thesis
  proof cases
    case 1
    then show ?thesis using assms by (simp add: encode_rune_def Let_def)
  next
    case 2
    have e: "encode_rune r = [char_of (0xC0 + r div 64), char_of (0x80 + r mod 64)]"
      using assms 2 by (simp add: encode_rune_def Let_def)
    have "2 \<le> r div 64" "r div 64 < 32" using 2 by auto
    then show ?thesis unfolding e append.simps
      by (subst decode2) simp_all
  next
    case 3
    have e: "encode_rune r = [char_of (0xE0 + r div 4096), char_of (0x80 + r div 64 mod 64),
        char_of (0x80 + r mod 64)]"
      using assms 3 by (simp add: encode_rune_def Let_def)
    have b: "r div 4096 < 16" using 3 by auto
    have "r div 64 div 64 = r div 4096" by (simp add: div_mult2_eq [symmetric])
    then have v: "r div 4096 * 4096 + r div 64 mod 64 * 64 + r mod 64 = r"
      using div_mult_mod_eq [of "r div 64" 64] div_mult_mod_eq [of r 64] by linarith
    have lo: "r div 4096 = 0 \<Longrightarrow> 32 \<le> r div 64 mod 64"
      using 3 v mod_less_divisor [of 64 r] by linarith
    have hi: "r div 4096 = 13 \<Longrightarrow> r div 64 mod 64 < 32"
      using assms 3 v unfolding is_scalar_def by linarith
    show ?thesis unfolding e append.simps
      by (subst decode3 [OF b _ _ lo hi]) (simp_all only: v mod_less_divisor, simp_all)
  next
    case 4
    have e: "encode_rune r = [char_of (0xF0 + r div 262144), char_of (0x80 + r div 4096 mod 64),
        char_of (0x80 + r div 64 mod 64), char_of (0x80 + r mod 64)]"
      using assms 4 by (simp add: encode_rune_def Let_def)
    have b: "r div 262144 < 5" using 4 by auto
    have "r div 64 div 64 = r div 4096" "r div 4096 div 64 = r div 262144"
      by (simp_all add: div_mult2_eq [symmetric])
    then have v: "r div 262144 * 262144 + r div 4096 mod 64 * 4096 + r div 64 mod 64 * 64
        + r mod 64 = r"
      using div_mult_mod_eq [of "r div 4096" 64] div_mult_mod_eq [of "r div 64" 64]
        div_mult_mod_eq [of r 64] by linarith
    have lo: "r div 262144 = 0 \<Longrightarrow> 16 \<le> r div 4096 mod 64"
      using 4 v mod_less_divisor [of 64 r] mod_less_divisor [of 64 "r div 64"] by linarith
    have hi: "r div 262144 = 4 \<Longrightarrow> r div 4096 mod 64 < 16"
      using 4 v by linarith
    show ?thesis unfolding e append.simps
      by (subst decode4 [OF b _ _ _ lo hi]) (simp_all only: v mod_less_divisor, simp_all)
  qed
qed

lemma runes_of_encode_append:
  assumes "is_scalar r"
  shows "runes_of (encode_rune r @ rest) = r # runes_of rest"
proof (cases "encode_rune r")
  case (Cons c cs)
  then show ?thesis
    using decode_encode_rune [OF assms, of rest] by (simp add: runes_of.simps(2))
qed simp

lemma runes_of_string_of_runes:
  "(\<And>r. r \<in> set rs \<Longrightarrow> is_scalar r) \<Longrightarrow> runes_of (string_of_runes rs) = rs"
  by (induction rs) (simp_all add: runes_of_encode_append)

lemma valid_utf8_string_of_runes:
  "(\<And>r. r \<in> set rs \<Longrightarrow> is_scalar r) \<Longrightarrow> valid_utf8 (string_of_runes rs)"
  by (simp add: valid_utf8_def runes_of_string_of_runes)

lemma runes_of_ascii: "of_char c < (0x80 :: nat) \<Longrightarrow> runes_of (c # cs) = of_char c # runes_of cs"
  by (simp add: runes_of.simps(2))

lemma valid_utf8_Nil [simp]: "valid_utf8 []"
  by (simp add: valid_utf8_def)

lemma valid_utf8_ascii: "of_char c < (0x80 :: nat) \<Longrightarrow> valid_utf8 (c # cs) \<longleftrightarrow> valid_utf8 cs"
  by (simp add: valid_utf8_def runes_of_ascii encode_rune_def is_scalar_def Let_def)

section \<open>UTF-16\<close>

text \<open>\<open>utf16.Encode\<close>: one unit below 0x10000, a surrogate pair above; anything else is replaced.\<close>

fun utf16_units :: "rune \<Rightarrow> u16 list" where
  "utf16_units r =
     (if r < 0xD800 \<or> (0xE000 \<le> r \<and> r < 0x10000) then [of_nat r]
      else if 0x10000 \<le> r \<and> r \<le> 0x10FFFF then
        [of_nat (0xD800 + (r - 0x10000) div 1024), of_nat (0xDC00 + (r - 0x10000) mod 1024)]
      else [of_nat rune_error])"

declare utf16_units.simps [simp del]

definition utf16_encode :: "rune list \<Rightarrow> u16 list" where
  "utf16_encode rs = concat (map utf16_units rs)"

text \<open>\<open>utf16.Decode\<close>: a surrogate that is not part of a pair becomes the replacement character.\<close>

fun utf16_decode :: "u16 list \<Rightarrow> rune list" where
  "utf16_decode [] = []"
| "utf16_decode (u # us) =
     (if unat u < 0xD800 \<or> 0xE000 \<le> unat u then unat u # utf16_decode us
      else case us of
        [] \<Rightarrow> [rune_error]
      | v # vs \<Rightarrow>
          if unat u < 0xDC00 \<and> 0xDC00 \<le> unat v \<and> unat v < 0xE000
          then ((unat u - 0xD800) * 1024 + (unat v - 0xDC00) + 0x10000) # utf16_decode vs
          else rune_error # utf16_decode us)"

lemma unat_of_nat_u16: "n < 65536 \<Longrightarrow> unat (of_nat n :: u16) = n"
  by (simp add: unat_of_nat take_bit_nat_eq_self)

lemma utf16_encode_simps [simp]:
  "utf16_encode [] = []"
  "utf16_encode (r # rs) = utf16_units r @ utf16_encode rs"
  by (simp_all add: utf16_encode_def)

lemma utf16_decode_units:
  assumes "is_scalar r"
  shows "utf16_decode (utf16_units r @ us) = r # utf16_decode us"
proof (cases "r < 0x10000")
  case True
  then have "utf16_units r = [of_nat r]"
    using assms by (auto simp: utf16_units.simps is_scalar_def)
  then show ?thesis using assms True by (auto simp: unat_of_nat_u16 is_scalar_def)
next
  case False
  then obtain q where q: "r = 0x10000 + q" by (metis le_iff_add linorder_not_less)
  have "q < 1048576" using assms q by (simp add: is_scalar_def)
  then have d: "q div 1024 < 1024" by auto
  have "utf16_units r = [of_nat (0xD800 + q div 1024), of_nat (0xDC00 + q mod 1024)]"
    using \<open>q < 1048576\<close> q by (simp add: utf16_units.simps)
  moreover have "unat (of_nat (0xD800 + q div 1024) :: u16) = 0xD800 + q div 1024"
    "unat (of_nat (0xDC00 + q mod 1024) :: u16) = 0xDC00 + q mod 1024"
    using d by (intro unat_of_nat_u16; simp add: order_less_le_trans [OF mod_less_divisor])+
  moreover have "q mod 1024 < 1024" by simp
  ultimately show ?thesis using d q by (simp del: of_nat_add)
qed

lemma utf16_decode_encode:
  "(\<And>r. r \<in> set rs \<Longrightarrow> is_scalar r) \<Longrightarrow> utf16_decode (utf16_encode rs) = rs"
  by (induction rs) (simp_all add: utf16_decode_units)

lemma utf16_decode_scalar: "r \<in> set (utf16_decode us) \<Longrightarrow> is_scalar r"
proof (induction us rule: utf16_decode.induct)
  case (2 u us)
  have b: "unat u < 65536" using unsigned_less [of u, where 'a = nat] by simp
  show ?case
  proof (cases "unat u < 0xD800 \<or> 0xE000 \<le> unat u")
    case True
    then show ?thesis using 2 b by (auto simp: is_scalar_def)
  next
    case False
    show ?thesis
    proof (cases us)
      case Nil
      then show ?thesis using 2 False by auto
    next
      case (Cons v vs)
      have "unat u < 0xDC00 \<Longrightarrow> unat v < 0xE000 \<Longrightarrow>
          is_scalar ((unat u - 0xD800) * 1024 + (unat v - 0xDC00) + 0x10000)"
        using False by (auto simp: is_scalar_def)
      then show ?thesis using 2 False Cons by (auto split: if_splits)
    qed
  qed
qed simp

lemma u16_of_nat_eq_0: "n < 65536 \<Longrightarrow> (of_nat n :: u16) = 0 \<longleftrightarrow> n = 0"
  using unat_of_nat_u16 [of n] by (auto simp: unsigned_eq_0_iff)

lemma utf16_units_nul: "(0 :: u16) \<in> set (utf16_units r) \<longleftrightarrow> r = 0"
proof -
  have "(r - 0x10000) div 1024 < 1024" if "r \<le> 0x10FFFF" "0x10000 \<le> r"
    using that by auto
  moreover have "(r - 0x10000) mod 1024 < 1024" by simp
  ultimately have "of_nat (0xD800 + (r - 0x10000) div 1024) \<noteq> (0 :: u16)"
      "of_nat (0xDC00 + (r - 0x10000) mod 1024) \<noteq> (0 :: u16)"
    if "r \<le> 0x10FFFF" "0x10000 \<le> r"
    using that by (subst u16_of_nat_eq_0; simp)+
  moreover have "of_nat rune_error \<noteq> (0 :: u16)" by (simp add: rune_error_def)
  ultimately show ?thesis
    by (auto simp: utf16_units.simps u16_of_nat_eq_0 eq_commute [of "0 :: u16"]
        simp del: of_nat_add split: if_splits)
qed

lemma utf16_encode_nul: "(0 :: u16) \<in> set (utf16_encode rs) \<longleftrightarrow> 0 \<in> set rs"
  by (induction rs) (auto simp: utf16_units_nul)

lemma utf16_decode_nul: "0 \<in> set (utf16_decode us) \<Longrightarrow> (0 :: u16) \<in> set us"
proof (induction us rule: utf16_decode.induct)
  case (2 u us)
  have z: "unat u = 0 \<Longrightarrow> u = 0" by (simp add: unsigned_eq_0_iff)
  show ?case
  proof (cases "unat u < 0xD800 \<or> 0xE000 \<le> unat u")
    case True
    then have "utf16_decode (u # us) = unat u # utf16_decode us" by simp
    with "2.prems" have "unat u = 0 \<or> 0 \<in> set (utf16_decode us)" by auto
    with "2.IH"(1) True z show ?thesis by auto
  next
    case False
    with 2 show ?thesis
      by (cases us) (auto simp: rune_error_def split: if_splits)
  qed
qed simp

lemma length_utf16_units: "length (utf16_units r) = (if 0x10000 \<le> r \<and> r \<le> 0x10FFFF then 2 else 1)"
  by (auto simp: utf16_units.simps)

lemma length_utf16_reencode: "length (utf16_encode (utf16_decode us)) \<le> length us"
proof (induction us rule: utf16_decode.induct)
  case (2 u us)
  have b: "unat u < 65536" using unsigned_less [of u, where 'a = nat] by simp
  show ?case
  proof (cases "unat u < 0xD800 \<or> 0xE000 \<le> unat u")
    case True
    then have "length (utf16_units (unat u)) = 1" using b by (simp add: length_utf16_units)
    then show ?thesis using 2 True by simp
  next
    case False
    have r: "length (utf16_units rune_error) = 1" by (simp add: length_utf16_units rune_error_def)
    have p: "length (utf16_units n) \<le> 2" for n by (simp add: length_utf16_units)
    show ?thesis
      using 2 False r
      by (cases us) (auto intro: order_trans [OF add_mono [OF p]])
  qed
qed simp

lemma length_utf16_encode: "length (utf16_encode rs) \<le> 2 * length rs"
  by (induction rs) (auto simp: utf16_units.simps)

text \<open>
  What the wire does to a Go string: the units are those of its runes, and decoding them gives
  the string back when it is valid UTF-8, and its repaired form (\<open>strings.ToValidUTF8\<close> with the
  replacement character) otherwise.
\<close>

definition units_of_string :: "string \<Rightarrow> u16 list" where
  "units_of_string s = utf16_encode (runes_of s)"

definition string_of_units :: "u16 list \<Rightarrow> string" where
  "string_of_units us = string_of_runes (utf16_decode us)"

lemma string_of_units_of_string:
  "string_of_units (units_of_string s) = string_of_runes (runes_of s)"
  by (simp add: string_of_units_def units_of_string_def utf16_decode_encode runes_of_scalar)

lemma string_of_units_of_string_valid [simp]:
  "valid_utf8 s \<Longrightarrow> string_of_units (units_of_string s) = s"
  by (simp add: string_of_units_of_string valid_utf8_def)

lemma valid_utf8_string_of_units [simp]: "valid_utf8 (string_of_units us)"
  by (simp add: string_of_units_def valid_utf8_string_of_runes utf16_decode_scalar)

lemma runes_of_string_of_units [simp]: "runes_of (string_of_units us) = utf16_decode us"
  by (simp add: string_of_units_def runes_of_string_of_runes utf16_decode_scalar)

section \<open>Trimming and counting\<close>

text \<open>\<open>utf8.RuneCountInString\<close> counts an invalid byte as one rune, as \<open>[]rune(s)\<close> does.\<close>

definition rune_count :: "string \<Rightarrow> nat" where
  "rune_count s = length (runes_of s)"

text \<open>\<open>unicode.IsSpace\<close>.\<close>

definition is_space :: "rune \<Rightarrow> bool" where
  "is_space r \<longleftrightarrow>
     (9 \<le> r \<and> r \<le> 13) \<or> (0x2000 \<le> r \<and> r \<le> 0x200A) \<or>
     r \<in> {0x20, 0x85, 0xA0, 0x1680, 0x2028, 0x2029, 0x202F, 0x205F, 0x3000}"

text \<open>\<open>strings.TrimLeftFunc\<close> with \<open>unicode.IsSpace\<close>.\<close>

function trim_left :: "string \<Rightarrow> string" where
  "trim_left [] = []"
| "trim_left (c # cs) =
     (if is_space (fst (decode_rune (c # cs)))
      then trim_left (drop (snd (decode_rune (c # cs)) - 1) cs) else c # cs)"
  by pat_completeness auto
termination
  by (relation "measure length") auto

declare trim_left.simps(2) [simp del]

text \<open>
  \<open>utf8.DecodeLastRuneInString\<close>: looks back for the last byte that can start a rune (at most
  \<open>utf8.UTFMax = 4\<close> bytes), decodes there, and reports an invalid byte unless that rune ends
  the string.
\<close>

definition rune_start :: "char \<Rightarrow> bool" where
  "rune_start c \<longleftrightarrow> \<not> in_range c 0x80 0xBF"

definition last_start :: "string \<Rightarrow> nat" where
  "last_start s =
     (let n = length s; starts = (\<lambda>k. k \<le> n \<and> rune_start (s ! (n - k))) in
      if starts 2 then n - 2 else if starts 3 then n - 3 else if starts 4 then n - 4 else n - 5)"

definition decode_last_rune :: "string \<Rightarrow> rune \<times> nat" where
  "decode_last_rune s =
     (if s = [] then (rune_error, 0)
      else if of_char (last s) < (0x80 :: nat) then (of_char (last s), 1)
      else let start = last_start s; (r, size) = decode_rune (drop start s) in
        if start + size = length s then (r, size) else (rune_error, 1))"

text \<open>\<open>strings.TrimRightFunc\<close> with \<open>unicode.IsSpace\<close>, and \<open>strings.TrimSpace\<close>.\<close>

lemma decode_last_rune_width: "s \<noteq> [] \<Longrightarrow> 1 \<le> snd (decode_last_rune s)"
proof -
  assume s: "s \<noteq> []"
  then have "last_start s < length s" by (auto simp: last_start_def Let_def)
  then have "1 \<le> snd (decode_rune (drop (last_start s) s))"
    by (intro decode_rune_width [THEN conjunct1]) simp
  with s show ?thesis by (auto simp: decode_last_rune_def Let_def split: prod.split)
qed

function trim_right :: "string \<Rightarrow> string" where
  "trim_right s =
     (if s \<noteq> [] \<and> is_space (fst (decode_last_rune s))
      then trim_right (take (length s - snd (decode_last_rune s)) s) else s)"
  by pat_completeness auto
termination
proof (relation "measure length")
  fix s :: string
  assume "s \<noteq> [] \<and> is_space (fst (decode_last_rune s))"
  then have "0 < length s" "1 \<le> snd (decode_last_rune s)"
    using decode_last_rune_width [of s] by simp_all
  then show "(take (length s - snd (decode_last_rune s)) s, s) \<in> measure length" by simp
qed simp

declare trim_right.simps [simp del]

definition trim_space :: "string \<Rightarrow> string" where
  "trim_space s = trim_right (trim_left s)"

text \<open>
  On strings of whole runes both trims work rune by rune, so \<open>TrimSpace\<close> of a valid string is
  valid, holds no rune the string did not hold, and neither starts nor ends with a space.
\<close>

definition trim_runes :: "rune list \<Rightarrow> rune list" where
  "trim_runes rs = rev (dropWhile is_space (rev (dropWhile is_space rs)))"

lemma trim_left_runes:
  "(\<And>r. r \<in> set rs \<Longrightarrow> is_scalar r) \<Longrightarrow>
     trim_left (string_of_runes rs) = string_of_runes (dropWhile is_space rs)"
proof (induction rs)
  case (Cons r rs)
  then have d: "decode_rune (encode_rune r @ string_of_runes rs) = (r, length (encode_rune r))"
    by (simp add: decode_encode_rune)
  obtain c cs where e: "encode_rune r = c # cs" by (cases "encode_rune r") auto
  have "trim_left (encode_rune r @ string_of_runes rs) =
      (if is_space r then trim_left (string_of_runes rs) else encode_rune r @ string_of_runes rs)"
    using d by (simp add: e trim_left.simps(2))
  then show ?case using Cons by simp
qed simp

lemma encode_rune_shape:
  "encode_rune r = c # cs \<Longrightarrow>
     (cs = [] \<longrightarrow> of_char c < (0x80 :: nat)) \<and>
     (cs \<noteq> [] \<longrightarrow> rune_start c \<and> 0xC0 \<le> (of_char c :: nat)) \<and>
     list_all (\<lambda>d. in_range d 0x80 0xBF) cs \<and> length cs \<le> 3"
proof -
  assume e: "encode_rune r = c # cs"
  define q where "q = (if is_scalar r then r else rune_error)"
  have q: "q < 0x110000" by (auto simp: q_def is_scalar_def rune_error_def)
  have m: "n mod 64 \<le> (63 :: nat)" for n
    using mod_less_divisor [of 64 n] by linarith
  have "q < 0x800 \<Longrightarrow> q div 64 < 32" "q < 0x10000 \<Longrightarrow> q div 4096 < 16" "q div 262144 < 5"
    using q by auto
  then show ?thesis
    using e m unfolding encode_rune_def q_def [symmetric] Let_def
    by (auto simp: in_range_def rune_start_def split: if_splits)
qed

lemma decode_last_rune_append:
  assumes "is_scalar r"
  shows "decode_last_rune (s @ encode_rune r) = (r, length (encode_rune r))"
proof -
  obtain c cs where e: "encode_rune r = c # cs" by (cases "encode_rune r") auto
  note sh = encode_rune_shape [OF e]
  have d: "decode_rune (c # cs) = (r, Suc (length cs))"
    using decode_encode_rune [OF assms, of "[]"] by (simp add: e)
  show ?thesis
  proof (cases "cs = []")
    case True
    then show ?thesis using sh d by (simp add: e decode_last_rune_def)
  next
    case False
    have cont: "\<And>d. d \<in> set cs \<Longrightarrow> \<not> rune_start d"
      using sh by (auto simp: list_all_iff rune_start_def)
    have st: "last_start (s @ c # cs) = length s"
    proof -
      have nth: "(s @ c # cs) ! (length s + Suc (length cs) - k) = cs ! (length cs - k)"
        if "k \<le> length cs" for k
        using that by (subst nth_append_right) (simp_all add: Suc_diff_le)
      consider "length cs = 1" | "length cs = 2" | "length cs = 3"
        using sh False by (cases "length cs") (auto simp: le_Suc_eq numeral_eq_Suc)
      then show ?thesis
      proof cases
        case 1
        then show ?thesis using sh False by (simp add: last_start_def Let_def nth_append)
      next
        case 2
        then show ?thesis using sh False cont nth [of 2]
          by (simp add: last_start_def Let_def nth_append)
      next
        case 3
        then show ?thesis using sh False cont nth [of 2] nth [of 3]
          by (simp add: last_start_def Let_def nth_append)
      qed
    qed
    have "\<not> of_char (last cs) < (0x80 :: nat)"
      using sh last_in_set [OF False] by (simp add: list_all_iff in_range_def linorder_not_less)
    then show ?thesis using False d st by (simp add: e decode_last_rune_def)
  qed
qed

lemma trim_right_runes:
  "(\<And>r. r \<in> set rs \<Longrightarrow> is_scalar r) \<Longrightarrow>
     trim_right (string_of_runes rs) = string_of_runes (rev (dropWhile is_space (rev rs)))"
proof (induction rs rule: rev_induct)
  case Nil
  then show ?case by (simp add: trim_right.simps)
next
  case (snoc r rs)
  have "decode_last_rune (string_of_runes rs @ encode_rune r) = (r, length (encode_rune r))"
    using snoc.prems by (intro decode_last_rune_append) simp
  then have "trim_right (string_of_runes rs @ encode_rune r) =
      (if is_space r then trim_right (string_of_runes rs) else string_of_runes rs @ encode_rune r)"
    by (subst trim_right.simps) simp
  then show ?case using snoc by simp
qed

lemma trim_space_runes:
  "(\<And>r. r \<in> set rs \<Longrightarrow> is_scalar r) \<Longrightarrow>
     trim_space (string_of_runes rs) = string_of_runes (trim_runes rs)"
  unfolding trim_space_def trim_runes_def
  by (simp add: trim_left_runes) (rule trim_right_runes, auto dest: set_dropWhileD)

lemma set_trim_runes: "r \<in> set (trim_runes rs) \<Longrightarrow> r \<in> set rs"
  by (auto simp: trim_runes_def dest!: set_dropWhileD)

lemma runes_of_trim_space:
  assumes "valid_utf8 s"
  shows "runes_of (trim_space s) = trim_runes (runes_of s)"
proof -
  have s: "s = string_of_runes (runes_of s)" using assms by (simp add: valid_utf8_def)
  have "runes_of (trim_space (string_of_runes (runes_of s))) = trim_runes (runes_of s)"
    by (subst trim_space_runes)
      (auto intro!: runes_of_string_of_runes dest: set_trim_runes simp: runes_of_scalar)
  then show ?thesis using s by simp
qed

lemma valid_utf8_trim_space:
  assumes "valid_utf8 s"
  shows "valid_utf8 (trim_space s)"
proof -
  have s: "s = string_of_runes (runes_of s)" using assms by (simp add: valid_utf8_def)
  have "valid_utf8 (trim_space (string_of_runes (runes_of s)))"
    by (subst trim_space_runes)
      (auto intro!: valid_utf8_string_of_runes dest: set_trim_runes simp: runes_of_scalar)
  then show ?thesis using s by simp
qed

lemma trim_runes_ends:
  "trim_runes rs \<noteq> [] \<Longrightarrow>
     \<not> is_space (hd (trim_runes rs)) \<and> \<not> is_space (last (trim_runes rs))"
proof -
  assume ne: "trim_runes rs \<noteq> []"
  define m where "m = dropWhile is_space rs"
  have "m \<noteq> []" using ne unfolding trim_runes_def m_def [symmetric] by auto
  then have hm: "\<not> is_space (hd m)" unfolding m_def by (rule hd_dropWhile)
  have ne': "dropWhile is_space (rev m) \<noteq> []"
    using ne unfolding trim_runes_def m_def [symmetric] by simp
  have "\<not> is_space (last (trim_runes rs))"
    using hd_dropWhile [OF ne'] by (simp add: trim_runes_def m_def [symmetric] last_rev)
  moreover have "hd (trim_runes rs) = hd m"
  proof -
    have "m = trim_runes rs @ rev (takeWhile is_space (rev m))"
      unfolding trim_runes_def m_def [symmetric]
      by (metis rev_append rev_rev_ident takeWhile_dropWhile_id)
    then show ?thesis using ne by (metis hd_append2)
  qed
  ultimately show ?thesis using hm by simp
qed

end
