(* ===== verification/Catalog.thy ===== *)
theory Catalog
  imports GoStrings
begin

text \<open>
  The message catalog of \<open>internal/protocol/catalog.go\<close>: fields, messages, and the lookups over
  the generated tables. The four generated variables (\<open>messages\<close>, \<open>structs\<close>, \<open>fixedArrays\<close>,
  \<open>messageFullNames\<close>) are one record here, so that the codec's lemmas hold for any catalog;
  the theory \<open>RomCatalog\<close> gives the record of this repository.
\<close>

datatype field = Field (fName: string) (fType: string)

record message =
  msgName :: string
  msgDir :: string
  msgID :: u32
  msgFields :: "field list"

record catalog =
  messages :: "(u32 \<times> message) list"
  structs :: "(string \<times> field list) list"
  fixedArrays :: "(string \<times> nat) list"
  messageFullNames :: "string list"

text \<open>
  The package variable \<open>byName\<close>: built by inserting every message of the table under its name.
  Go ranges over the table in any order; the order only matters when two messages share a name,
  which a coherent catalog (below) excludes.
\<close>

definition byName :: "catalog \<Rightarrow> string \<Rightarrow> message option" where
  "byName cat = foldl (\<lambda>m msg. m(msgName msg \<mapsto> msg)) Map.empty (map snd (messages cat))"

definition Lookup :: "catalog \<Rightarrow> u32 \<Rightarrow> message option" where
  "Lookup cat opcode = map_of (messages cat) opcode"

definition LookupName :: "catalog \<Rightarrow> string \<Rightarrow> message option" where
  "LookupName cat name = byName cat name"

definition OpcodeOf :: "catalog \<Rightarrow> string \<Rightarrow> u32 \<times> bool" where
  "OpcodeOf cat name =
     (case byName cat name of Some m \<Rightarrow> (msgID m, True) | None \<Rightarrow> (0, False))"

text \<open>
  A catalog is coherent when no opcode, message name or struct name is declared twice and every
  message sits under its own opcode: what the Go compiler and the generator guarantee of the
  map literals.
\<close>

definition coherent :: "catalog \<Rightarrow> bool" where
  "coherent cat \<longleftrightarrow>
     distinct (map fst (messages cat)) \<and>
     distinct (map (msgName \<circ> snd) (messages cat)) \<and>
     list_all (\<lambda>(k, m). k = msgID m) (messages cat) \<and>
     distinct (map fst (structs cat))"

lemma foldl_byName:
  "foldl (\<lambda>m msg. m(msgName msg \<mapsto> msg)) m0 ms n =
     (case filter (\<lambda>m. msgName m = n) ms of [] \<Rightarrow> m0 n | xs \<Rightarrow> Some (last xs))"
proof (induction ms arbitrary: m0)
  case (Cons m ms)
  then show ?case by (auto split: list.splits)
qed simp

lemma byName_SomeD: "byName cat name = Some m \<Longrightarrow> msgName m = name \<and> m \<in> snd ` set (messages cat)"
proof -
  assume "byName cat name = Some m"
  then have ne: "filter (\<lambda>m. msgName m = name) (map snd (messages cat)) \<noteq> []"
    and m: "m = last (filter (\<lambda>m. msgName m = name) (map snd (messages cat)))"
    by (auto simp: byName_def foldl_byName split: list.splits)
  have "m \<in> set (filter (\<lambda>m. msgName m = name) (map snd (messages cat)))"
    unfolding m by (rule last_in_set [OF ne])
  then show ?thesis by auto
qed

lemma byName_eq:
  assumes "coherent cat" "(k, m) \<in> set (messages cat)"
  shows "byName cat (msgName m) = Some m"
proof -
  let ?xs = "filter (\<lambda>x. msgName x = msgName m) (map snd (messages cat))"
  have d: "distinct (map msgName (map snd (messages cat)))"
    using assms(1) by (simp add: coherent_def o_def)
  have m: "m \<in> set (map snd (messages cat))" using assms(2) by force
  have "inj_on msgName (set (map snd (messages cat)))" using d by (simp only: distinct_map)
  then have "\<forall>x \<in> set ?xs. x = m"
    using m unfolding inj_on_def set_filter by blast
  moreover have "?xs \<noteq> []" using m by (auto simp: filter_empty_conv)
  ultimately have "last ?xs = m" using last_in_set [of ?xs] by blast
  with \<open>?xs \<noteq> []\<close> show ?thesis
    by (auto simp: byName_def foldl_byName split: list.split)
qed

lemma Lookup_eq:
  "coherent cat \<Longrightarrow> (k, m) \<in> set (messages cat) \<Longrightarrow> Lookup cat k = Some m"
  by (simp add: coherent_def Lookup_def)

text \<open>The two indexes agree: the opcode a name has leads back to the message of that name.\<close>

lemma Lookup_byName:
  assumes "coherent cat" "byName cat name = Some m"
  shows "Lookup cat (msgID m) = Some m"
proof -
  from assms(2) obtain k where k: "(k, m) \<in> set (messages cat)"
    using byName_SomeD by fastforce
  then have "k = msgID m" using assms(1) by (auto simp: coherent_def list_all_iff)
  then show ?thesis using Lookup_eq [OF assms(1) k] by simp
qed

end
