(* ===== verification/CatalogData.thy ===== *)
theory CatalogData
  imports Catalog
begin

text \<open>
  The generated tables of \<open>internal/protocol/catalog_gen.go\<close>, entry by entry and in the order of
  the file. Every type string the tables use is a constant \<open>ty_...\<close> (a list or array type in terms of
  its element type), so that proofs about the catalog need not look into the strings; the tables are cut into pieces of at most 150 lines of
  the file, which \<open>RomCatalog\<close> joins.
\<close>

section \<open>Type strings\<close>

definition ty_AbilitySkillLevelInfo :: string where
  "ty_AbilitySkillLevelInfo = ''Protocol.AbilitySkillLevelInfo''"
definition ty_AbilityValue :: string where
  "ty_AbilityValue = ''Protocol.AbilityValue''"
definition ty_AchieveData :: string where
  "ty_AchieveData = ''Protocol.AchieveData''"
definition ty_AdventureMapInfo :: string where
  "ty_AdventureMapInfo = ''Protocol.AdventureMapInfo''"
definition ty_AttachedData :: string where
  "ty_AttachedData = ''Protocol.AttachedData''"
definition ty_AttendanceData :: string where
  "ty_AttendanceData = ''Protocol.AttendanceData''"
definition ty_AuctionElement :: string where
  "ty_AuctionElement = ''Protocol.AuctionElement''"
definition ty_AuctionFixRecord :: string where
  "ty_AuctionFixRecord = ''Protocol.AuctionFixRecord''"
definition ty_AuctionRecentPrice :: string where
  "ty_AuctionRecentPrice = ''Protocol.AuctionRecentPrice''"
definition ty_AutoStoreSettingInfo :: string where
  "ty_AutoStoreSettingInfo = ''Protocol.AutoStoreSettingInfo''"
definition ty_AutoUseInfo :: string where
  "ty_AutoUseInfo = ''Protocol.AutoUseInfo''"
definition ty_BankCardInfo :: string where
  "ty_BankCardInfo = ''Protocol.BankCardInfo''"
definition ty_BankDepositRankInfo :: string where
  "ty_BankDepositRankInfo = ''Protocol.BankDepositRankInfo''"
definition ty_BossAuctionInfo :: string where
  "ty_BossAuctionInfo = ''Protocol.BossAuctionInfo''"
definition ty_BossAuctionItemInfo :: string where
  "ty_BossAuctionItemInfo = ''Protocol.BossAuctionItemInfo''"
definition ty_BroadCastInfo :: string where
  "ty_BroadCastInfo = ''Protocol.BroadCastInfo''"
definition ty_BuffData :: string where
  "ty_BuffData = ''Protocol.BuffData''"
definition ty_BuyItemData :: string where
  "ty_BuyItemData = ''Protocol.BuyItemData''"
definition ty_ClassChangeItemInfo :: string where
  "ty_ClassChangeItemInfo = ''Protocol.ClassChangeItemInfo''"
definition ty_ClassChangeSkillInfo :: string where
  "ty_ClassChangeSkillInfo = ''Protocol.ClassChangeSkillInfo''"
definition ty_CollectionCountInfo :: string where
  "ty_CollectionCountInfo = ''Protocol.CollectionCountInfo''"
definition ty_CollectionInfo :: string where
  "ty_CollectionInfo = ''Protocol.CollectionInfo''"
definition ty_CollectionPart :: string where
  "ty_CollectionPart = ''Protocol.CollectionPart''"
definition ty_CommissionInfo :: string where
  "ty_CommissionInfo = ''Protocol.CommissionInfo''"
definition ty_ComposeFailedParam :: string where
  "ty_ComposeFailedParam = ''Protocol.ComposeFailedParam''"
definition ty_ComposeInputInfo :: string where
  "ty_ComposeInputInfo = ''Protocol.ComposeInputInfo''"
definition ty_ConquestDungeon :: string where
  "ty_ConquestDungeon = ''Protocol.ConquestDungeon''"
definition ty_ConquestDungeonApply :: string where
  "ty_ConquestDungeonApply = ''Protocol.ConquestDungeonApply''"
definition ty_ContributionRewardInfo :: string where
  "ty_ContributionRewardInfo = ''Protocol.ContributionRewardInfo''"
definition ty_CoolInfo :: string where
  "ty_CoolInfo = ''Protocol.CoolInfo''"
definition ty_CostumeInfo :: string where
  "ty_CostumeInfo = ''Protocol.CostumeInfo''"
definition ty_DissolveData :: string where
  "ty_DissolveData = ''Protocol.DissolveData''"
definition ty_DissolveRewardData :: string where
  "ty_DissolveRewardData = ''Protocol.DissolveRewardData''"
definition ty_DistributionMemberDetailInfo :: string where
  "ty_DistributionMemberDetailInfo = ''Protocol.DistributionMemberDetailInfo''"
definition ty_DistributionMemberInfo :: string where
  "ty_DistributionMemberInfo = ''Protocol.DistributionMemberInfo''"
definition ty_DominionBriefData :: string where
  "ty_DominionBriefData = ''Protocol.DominionBriefData''"
definition ty_DominionGuildData :: string where
  "ty_DominionGuildData = ''Protocol.DominionGuildData''"
definition ty_DominionIngameMemberPoint :: string where
  "ty_DominionIngameMemberPoint = ''Protocol.DominionIngameMemberPoint''"
definition ty_DominionIngameTeamPoint :: string where
  "ty_DominionIngameTeamPoint = ''Protocol.DominionIngameTeamPoint''"
definition ty_DominionKillComboInfo :: string where
  "ty_DominionKillComboInfo = ''Protocol.DominionKillComboInfo''"
definition ty_DominionMemberData :: string where
  "ty_DominionMemberData = ''Protocol.DominionMemberData''"
definition ty_DominionMoneyData :: string where
  "ty_DominionMoneyData = ''Protocol.DominionMoneyData''"
definition ty_DominionProductData :: string where
  "ty_DominionProductData = ''Protocol.DominionProductData''"
definition ty_DominionResultData :: string where
  "ty_DominionResultData = ''Protocol.DominionResultData''"
definition ty_DominionTaxInfo :: string where
  "ty_DominionTaxInfo = ''Protocol.DominionTaxInfo''"
definition ty_EndTimeInfo :: string where
  "ty_EndTimeInfo = ''Protocol.EndTimeInfo''"
definition ty_EntertainmentInfo :: string where
  "ty_EntertainmentInfo = ''Protocol.EntertainmentInfo''"
definition ty_EquipItemData :: string where
  "ty_EquipItemData = ''Protocol.EquipItemData''"
definition ty_EryndorImprintingInfo :: string where
  "ty_EryndorImprintingInfo = ''Protocol.EryndorImprintingInfo''"
definition ty_EventBingoStatus :: string where
  "ty_EventBingoStatus = ''Protocol.EventBingoStatus''"
definition ty_EventGameRandomBoxSlotInfo :: string where
  "ty_EventGameRandomBoxSlotInfo = ''Protocol.EventGameRandomBoxSlotInfo''"
definition ty_EventMissionInfo :: string where
  "ty_EventMissionInfo = ''Protocol.EventMissionInfo''"
definition ty_EventSubMissionInfo :: string where
  "ty_EventSubMissionInfo = ''Protocol.EventSubMissionInfo''"
definition ty_FriendRequestInfo :: string where
  "ty_FriendRequestInfo = ''Protocol.FriendRequestInfo''"
definition ty_GuardListInfo :: string where
  "ty_GuardListInfo = ''Protocol.GuardListInfo''"
definition ty_GuardMemberInfo :: string where
  "ty_GuardMemberInfo = ''Protocol.GuardMemberInfo''"
definition ty_GuardMyInfo :: string where
  "ty_GuardMyInfo = ''Protocol.GuardMyInfo''"
definition ty_GuildAttendanceInfo :: string where
  "ty_GuildAttendanceInfo = ''Protocol.GuildAttendanceInfo''"
definition ty_GuildBuffInfo :: string where
  "ty_GuildBuffInfo = ''Protocol.GuildBuffInfo''"
definition ty_GuildContentResearchInfo :: string where
  "ty_GuildContentResearchInfo = ''Protocol.GuildContentResearchInfo''"
definition ty_GuildContributeTypeInfo :: string where
  "ty_GuildContributeTypeInfo = ''Protocol.GuildContributeTypeInfo''"
definition ty_GuildDistributionMoneyInfo :: string where
  "ty_GuildDistributionMoneyInfo = ''Protocol.GuildDistributionMoneyInfo''"
definition ty_GuildDistributionSetting :: string where
  "ty_GuildDistributionSetting = ''Protocol.GuildDistributionSetting''"
definition ty_GuildDungeonInfo :: string where
  "ty_GuildDungeonInfo = ''Protocol.GuildDungeonInfo''"
definition ty_GuildGuardInfo :: string where
  "ty_GuildGuardInfo = ''Protocol.GuildGuardInfo''"
definition ty_GuildHistoryInfo :: string where
  "ty_GuildHistoryInfo = ''Protocol.GuildHistoryInfo''"
definition ty_GuildJoinRequestGuildInfo :: string where
  "ty_GuildJoinRequestGuildInfo = ''Protocol.GuildJoinRequestGuildInfo''"
definition ty_GuildJoinRequestPlayerInfo :: string where
  "ty_GuildJoinRequestPlayerInfo = ''Protocol.GuildJoinRequestPlayerInfo''"
definition ty_GuildMemberSimpleInfo :: string where
  "ty_GuildMemberSimpleInfo = ''Protocol.GuildMemberSimpleInfo''"
definition ty_GuildPVPRecord :: string where
  "ty_GuildPVPRecord = ''Protocol.GuildPVPRecord''"
definition ty_GuildQuestData :: string where
  "ty_GuildQuestData = ''Protocol.GuildQuestData''"
definition ty_GuildRelationInfo :: string where
  "ty_GuildRelationInfo = ''Protocol.GuildRelationInfo''"
definition ty_GuildShopBuyLimitData :: string where
  "ty_GuildShopBuyLimitData = ''Protocol.GuildShopBuyLimitData''"
definition ty_GuildShopItemData :: string where
  "ty_GuildShopItemData = ''Protocol.GuildShopItemData''"
definition ty_GuildSimpleInfo :: string where
  "ty_GuildSimpleInfo = ''Protocol.GuildSimpleInfo''"
definition ty_HostileFunctionSimpleInfo :: string where
  "ty_HostileFunctionSimpleInfo = ''Protocol.HostileFunctionSimpleInfo''"
definition ty_HostileUnionGuildInfo :: string where
  "ty_HostileUnionGuildInfo = ''Protocol.HostileUnionGuildInfo''"
definition ty_HostileUnionInfo :: string where
  "ty_HostileUnionInfo = ''Protocol.HostileUnionInfo''"
definition ty_ItemBrokenGiveData :: string where
  "ty_ItemBrokenGiveData = ''Protocol.ItemBrokenGiveData''"
definition ty_ItemCollectionSlotRegQty :: string where
  "ty_ItemCollectionSlotRegQty = ''Protocol.ItemCollectionSlotRegQty''"
definition ty_ItemCollectionSlots :: string where
  "ty_ItemCollectionSlots = ''Protocol.ItemCollectionSlots''"
definition ty_ItemData :: string where
  "ty_ItemData = ''Protocol.ItemData''"
definition ty_ItemEnchantRequest :: string where
  "ty_ItemEnchantRequest = ''Protocol.ItemEnchantRequest''"
definition ty_ItemEnchantResult :: string where
  "ty_ItemEnchantResult = ''Protocol.ItemEnchantResult''"
definition ty_ItemMakeLimitInfo :: string where
  "ty_ItemMakeLimitInfo = ''Protocol.ItemMakeLimitInfo''"
definition ty_ItemMakeResultInfo :: string where
  "ty_ItemMakeResultInfo = ''Protocol.ItemMakeResultInfo''"
definition ty_ItemOidAndCount :: string where
  "ty_ItemOidAndCount = ''Protocol.ItemOidAndCount''"
definition ty_ItemOptions :: string where
  "ty_ItemOptions = ''Protocol.ItemOptions''"
definition ty_JewelCraftOptionData :: string where
  "ty_JewelCraftOptionData = ''Protocol.JewelCraftOptionData''"
definition ty_KillerInfo :: string where
  "ty_KillerInfo = ''Protocol.KillerInfo''"
definition ty_LegacyCollection :: string where
  "ty_LegacyCollection = ''Protocol.LegacyCollection''"
definition ty_LegacyCollectionGroup :: string where
  "ty_LegacyCollectionGroup = ''Protocol.LegacyCollectionGroup''"
definition ty_LobbyPlayerInfo :: string where
  "ty_LobbyPlayerInfo = ''Protocol.LobbyPlayerInfo''"
definition ty_MapLimitData :: string where
  "ty_MapLimitData = ''Protocol.MapLimitData''"
definition ty_MasteryData :: string where
  "ty_MasteryData = ''Protocol.MasteryData''"
definition ty_MercenaryApplyInfo :: string where
  "ty_MercenaryApplyInfo = ''Protocol.MercenaryApplyInfo''"
definition ty_MercenaryRecruitInfo :: string where
  "ty_MercenaryRecruitInfo = ''Protocol.MercenaryRecruitInfo''"
definition ty_MoneyData :: string where
  "ty_MoneyData = ''Protocol.MoneyData''"
definition ty_MonsterCollectionInfo :: string where
  "ty_MonsterCollectionInfo = ''Protocol.MonsterCollectionInfo''"
definition ty_MonsterCollectionOptionReward :: string where
  "ty_MonsterCollectionOptionReward = ''Protocol.MonsterCollectionOptionReward''"
definition ty_MyAuctionElement :: string where
  "ty_MyAuctionElement = ''Protocol.MyAuctionElement''"
definition ty_MyGuildInfo :: string where
  "ty_MyGuildInfo = ''Protocol.MyGuildInfo''"
definition ty_MyPlayerInfo :: string where
  "ty_MyPlayerInfo = ''Protocol.MyPlayerInfo''"
definition ty_NetworkObjData :: string where
  "ty_NetworkObjData = ''Protocol.NetworkObjData''"
definition ty_PVPLostItemInfo :: string where
  "ty_PVPLostItemInfo = ''Protocol.PVPLostItemInfo''"
definition ty_PVPRecord :: string where
  "ty_PVPRecord = ''Protocol.PVPRecord''"
definition ty_ParcelInfo :: string where
  "ty_ParcelInfo = ''Protocol.ParcelInfo''"
definition ty_ParcelTradeRecord :: string where
  "ty_ParcelTradeRecord = ''Protocol.ParcelTradeRecord''"
definition ty_PartyBuffData :: string where
  "ty_PartyBuffData = ''Protocol.PartyBuffData''"
definition ty_PartyDungeonMemberInfo :: string where
  "ty_PartyDungeonMemberInfo = ''Protocol.PartyDungeonMemberInfo''"
definition ty_PartyInfo :: string where
  "ty_PartyInfo = ''Protocol.PartyInfo''"
definition ty_PartyMemberData :: string where
  "ty_PartyMemberData = ''Protocol.PartyMemberData''"
definition ty_PetAdventureInfo :: string where
  "ty_PetAdventureInfo = ''Protocol.PetAdventureInfo''"
definition ty_PetInfo :: string where
  "ty_PetInfo = ''Protocol.PetInfo''"
definition ty_PetPartyInfo :: string where
  "ty_PetPartyInfo = ''Protocol.PetPartyInfo''"
definition ty_PetSlotInfo :: string where
  "ty_PetSlotInfo = ''Protocol.PetSlotInfo''"
definition ty_PickResultInfo :: string where
  "ty_PickResultInfo = ''Protocol.PickResultInfo''"
definition ty_PlayerData :: string where
  "ty_PlayerData = ''Protocol.PlayerData''"
definition ty_PlayerRankInfo :: string where
  "ty_PlayerRankInfo = ''Protocol.PlayerRankInfo''"
definition ty_PostInfo :: string where
  "ty_PostInfo = ''Protocol.PostInfo''"
definition ty_PropertyData :: string where
  "ty_PropertyData = ''Protocol.PropertyData''"
definition ty_QuestData :: string where
  "ty_QuestData = ''Protocol.QuestData''"
definition ty_QuickSlotInfo :: string where
  "ty_QuickSlotInfo = ''Protocol.QuickSlotInfo''"
definition ty_RankInfo :: string where
  "ty_RankInfo = ''Protocol.RankInfo''"
definition ty_RankerStatueInfo :: string where
  "ty_RankerStatueInfo = ''Protocol.RankerStatueInfo''"
definition ty_RePickResultInfo :: string where
  "ty_RePickResultInfo = ''Protocol.RePickResultInfo''"
definition ty_RealmMapInfo :: string where
  "ty_RealmMapInfo = ''Protocol.RealmMapInfo''"
definition ty_RealmProgressInfo :: string where
  "ty_RealmProgressInfo = ''Protocol.RealmProgressInfo''"
definition ty_ReceivedPostInfo :: string where
  "ty_ReceivedPostInfo = ''Protocol.ReceivedPostInfo''"
definition ty_RelationPlayerInfo :: string where
  "ty_RelationPlayerInfo = ''Protocol.RelationPlayerInfo''"
definition ty_RestoreData :: string where
  "ty_RestoreData = ''Protocol.RestoreData''"
definition ty_RestoreSimpleData :: string where
  "ty_RestoreSimpleData = ''Protocol.RestoreSimpleData''"
definition ty_RewardData :: string where
  "ty_RewardData = ''Protocol.RewardData''"
definition ty_RuneInfo :: string where
  "ty_RuneInfo = ''Protocol.RuneInfo''"
definition ty_RuneLineInfo :: string where
  "ty_RuneLineInfo = ''Protocol.RuneLineInfo''"
definition ty_RunePanelInfo :: string where
  "ty_RunePanelInfo = ''Protocol.RunePanelInfo''"
definition ty_RunePanelSlotInfo :: string where
  "ty_RunePanelSlotInfo = ''Protocol.RunePanelSlotInfo''"
definition ty_S2C_MoveNotice :: string where
  "ty_S2C_MoveNotice = ''Protocol.S2C_MoveNotice''"
definition ty_ScheduleBossDashboardData :: string where
  "ty_ScheduleBossDashboardData = ''Protocol.ScheduleBossDashboardData''"
definition ty_ScheduleBossInfo :: string where
  "ty_ScheduleBossInfo = ''Protocol.ScheduleBossInfo''"
definition ty_SelectPlayerInfo :: string where
  "ty_SelectPlayerInfo = ''Protocol.SelectPlayerInfo''"
definition ty_ServerTransferDateInfo :: string where
  "ty_ServerTransferDateInfo = ''Protocol.ServerTransferDateInfo''"
definition ty_ShopItemData :: string where
  "ty_ShopItemData = ''Protocol.ShopItemData''"
definition ty_SiegeWarDominionTaxInfo :: string where
  "ty_SiegeWarDominionTaxInfo = ''Protocol.SiegeWarDominionTaxInfo''"
definition ty_SiegeWarGuardInfo :: string where
  "ty_SiegeWarGuardInfo = ''Protocol.SiegeWarGuardInfo''"
definition ty_SiegeWarInfo :: string where
  "ty_SiegeWarInfo = ''Protocol.SiegeWarInfo''"
definition ty_SiegeWarMemberBoardInfo :: string where
  "ty_SiegeWarMemberBoardInfo = ''Protocol.SiegeWarMemberBoardInfo''"
definition ty_SiegeWarMemberInfo :: string where
  "ty_SiegeWarMemberInfo = ''Protocol.SiegeWarMemberInfo''"
definition ty_SiegeWarMemberScoreInfo :: string where
  "ty_SiegeWarMemberScoreInfo = ''Protocol.SiegeWarMemberScoreInfo''"
definition ty_SiegeWarObjectInfo :: string where
  "ty_SiegeWarObjectInfo = ''Protocol.SiegeWarObjectInfo''"
definition ty_SiegeWarPlayInfo :: string where
  "ty_SiegeWarPlayInfo = ''Protocol.SiegeWarPlayInfo''"
definition ty_SkillData :: string where
  "ty_SkillData = ''Protocol.SkillData''"
definition ty_SkillEffectValue :: string where
  "ty_SkillEffectValue = ''Protocol.SkillEffectValue''"
definition ty_SlayerInfo :: string where
  "ty_SlayerInfo = ''Protocol.SlayerInfo''"
definition ty_SoulStoneInfo :: string where
  "ty_SoulStoneInfo = ''Protocol.SoulStoneInfo''"
definition ty_SoulStoneRootInfo :: string where
  "ty_SoulStoneRootInfo = ''Protocol.SoulStoneRootInfo''"
definition ty_SoulStoneSlotInfo :: string where
  "ty_SoulStoneSlotInfo = ''Protocol.SoulStoneSlotInfo''"
definition ty_StatInfo :: string where
  "ty_StatInfo = ''Protocol.StatInfo''"
definition ty_StepUpCountRewardInfo :: string where
  "ty_StepUpCountRewardInfo = ''Protocol.StepUpCountRewardInfo''"
definition ty_StorageBoxData :: string where
  "ty_StorageBoxData = ''Protocol.StorageBoxData''"
definition ty_StoreHotDealData :: string where
  "ty_StoreHotDealData = ''Protocol.StoreHotDealData''"
definition ty_StoreItemData :: string where
  "ty_StoreItemData = ''Protocol.StoreItemData''"
definition ty_StoreSequenceItemData :: string where
  "ty_StoreSequenceItemData = ''Protocol.StoreSequenceItemData''"
definition ty_SubSkillPointData :: string where
  "ty_SubSkillPointData = ''Protocol.SubSkillPointData''"
definition ty_TotalPresetInfo :: string where
  "ty_TotalPresetInfo = ''Protocol.TotalPresetInfo''"
definition ty_TotalPresetSet :: string where
  "ty_TotalPresetSet = ''Protocol.TotalPresetSet''"
definition ty_TowerInfo :: string where
  "ty_TowerInfo = ''Protocol.TowerInfo''"
definition ty_TransferCheckData :: string where
  "ty_TransferCheckData = ''Protocol.TransferCheckData''"
definition ty_TransferServerState :: string where
  "ty_TransferServerState = ''Protocol.TransferServerState''"
definition ty_UnequipItemParam :: string where
  "ty_UnequipItemParam = ''Protocol.UnequipItemParam''"
definition ty_UnionGuildInfo :: string where
  "ty_UnionGuildInfo = ''Protocol.UnionGuildInfo''"
definition ty_UnionInfo :: string where
  "ty_UnionInfo = ''Protocol.UnionInfo''"
definition ty_UnionSimpleInfo :: string where
  "ty_UnionSimpleInfo = ''Protocol.UnionSimpleInfo''"
definition ty_UniqueItemInfo :: string where
  "ty_UniqueItemInfo = ''Protocol.UniqueItemInfo''"
definition ty_UserBlockInfo :: string where
  "ty_UserBlockInfo = ''Protocol.UserBlockInfo''"
definition ty_Vector :: string where
  "ty_Vector = ''Protocol.Vector''"
definition ty_WStorageInfo :: string where
  "ty_WStorageInfo = ''Protocol.WStorageInfo''"
definition ty_WantedInfo :: string where
  "ty_WantedInfo = ''Protocol.WantedInfo''"
definition ty_WarehouseItemMove :: string where
  "ty_WarehouseItemMove = ''Protocol.WarehouseItemMove''"
definition ty_Boolean :: string where
  "ty_Boolean = ''System.Boolean''"
definition ty_Byte :: string where
  "ty_Byte = ''System.Byte''"
definition ty_Chars :: string where
  "ty_Chars = ''System.Char[]''"
definition ty_Double :: string where
  "ty_Double = ''System.Double''"
definition ty_Int16 :: string where
  "ty_Int16 = ''System.Int16''"
definition ty_Int32 :: string where
  "ty_Int32 = ''System.Int32''"
definition ty_Int64 :: string where
  "ty_Int64 = ''System.Int64''"
definition ty_Single :: string where
  "ty_Single = ''System.Single''"
definition ty_String :: string where
  "ty_String = ''System.String''"
definition ty_UInt16 :: string where
  "ty_UInt16 = ''System.UInt16''"
definition ty_UInt32 :: string where
  "ty_UInt32 = ''System.UInt32''"
definition ty_PetInfo_arr :: string where
  "ty_PetInfo_arr = ty_PetInfo @ ''[]''"
definition ty_SoulStoneInfo_arr :: string where
  "ty_SoulStoneInfo_arr = ty_SoulStoneInfo @ ''[]''"
definition ty_Byte_arr :: string where
  "ty_Byte_arr = ty_Byte @ ''[]''"
definition ty_List_AbilitySkillLevelInfo :: string where
  "ty_List_AbilitySkillLevelInfo = ''System.Collections.Generic.List<'' @ ty_AbilitySkillLevelInfo @ ''>''"
definition ty_List_AchieveData :: string where
  "ty_List_AchieveData = ''System.Collections.Generic.List<'' @ ty_AchieveData @ ''>''"
definition ty_List_AdventureMapInfo :: string where
  "ty_List_AdventureMapInfo = ''System.Collections.Generic.List<'' @ ty_AdventureMapInfo @ ''>''"
definition ty_List_AttachedData :: string where
  "ty_List_AttachedData = ''System.Collections.Generic.List<'' @ ty_AttachedData @ ''>''"
definition ty_List_AttendanceData :: string where
  "ty_List_AttendanceData = ''System.Collections.Generic.List<'' @ ty_AttendanceData @ ''>''"
definition ty_List_AuctionElement :: string where
  "ty_List_AuctionElement = ''System.Collections.Generic.List<'' @ ty_AuctionElement @ ''>''"
definition ty_List_AuctionFixRecord :: string where
  "ty_List_AuctionFixRecord = ''System.Collections.Generic.List<'' @ ty_AuctionFixRecord @ ''>''"
definition ty_List_AuctionRecentPrice :: string where
  "ty_List_AuctionRecentPrice = ''System.Collections.Generic.List<'' @ ty_AuctionRecentPrice @ ''>''"
definition ty_List_AutoStoreSettingInfo :: string where
  "ty_List_AutoStoreSettingInfo = ''System.Collections.Generic.List<'' @ ty_AutoStoreSettingInfo @ ''>''"
definition ty_List_AutoUseInfo :: string where
  "ty_List_AutoUseInfo = ''System.Collections.Generic.List<'' @ ty_AutoUseInfo @ ''>''"
definition ty_List_BankCardInfo :: string where
  "ty_List_BankCardInfo = ''System.Collections.Generic.List<'' @ ty_BankCardInfo @ ''>''"
definition ty_List_BankDepositRankInfo :: string where
  "ty_List_BankDepositRankInfo = ''System.Collections.Generic.List<'' @ ty_BankDepositRankInfo @ ''>''"
definition ty_List_BossAuctionInfo :: string where
  "ty_List_BossAuctionInfo = ''System.Collections.Generic.List<'' @ ty_BossAuctionInfo @ ''>''"
definition ty_List_BossAuctionItemInfo :: string where
  "ty_List_BossAuctionItemInfo = ''System.Collections.Generic.List<'' @ ty_BossAuctionItemInfo @ ''>''"
definition ty_List_BroadCastInfo :: string where
  "ty_List_BroadCastInfo = ''System.Collections.Generic.List<'' @ ty_BroadCastInfo @ ''>''"
definition ty_List_BuffData :: string where
  "ty_List_BuffData = ''System.Collections.Generic.List<'' @ ty_BuffData @ ''>''"
definition ty_List_BuyItemData :: string where
  "ty_List_BuyItemData = ''System.Collections.Generic.List<'' @ ty_BuyItemData @ ''>''"
definition ty_List_ClassChangeItemInfo :: string where
  "ty_List_ClassChangeItemInfo = ''System.Collections.Generic.List<'' @ ty_ClassChangeItemInfo @ ''>''"
definition ty_List_ClassChangeSkillInfo :: string where
  "ty_List_ClassChangeSkillInfo = ''System.Collections.Generic.List<'' @ ty_ClassChangeSkillInfo @ ''>''"
definition ty_List_CollectionCountInfo :: string where
  "ty_List_CollectionCountInfo = ''System.Collections.Generic.List<'' @ ty_CollectionCountInfo @ ''>''"
definition ty_List_CollectionInfo :: string where
  "ty_List_CollectionInfo = ''System.Collections.Generic.List<'' @ ty_CollectionInfo @ ''>''"
definition ty_List_CollectionPart :: string where
  "ty_List_CollectionPart = ''System.Collections.Generic.List<'' @ ty_CollectionPart @ ''>''"
definition ty_List_ComposeFailedParam :: string where
  "ty_List_ComposeFailedParam = ''System.Collections.Generic.List<'' @ ty_ComposeFailedParam @ ''>''"
definition ty_List_ComposeInputInfo :: string where
  "ty_List_ComposeInputInfo = ''System.Collections.Generic.List<'' @ ty_ComposeInputInfo @ ''>''"
definition ty_List_ConquestDungeon :: string where
  "ty_List_ConquestDungeon = ''System.Collections.Generic.List<'' @ ty_ConquestDungeon @ ''>''"
definition ty_List_ConquestDungeonApply :: string where
  "ty_List_ConquestDungeonApply = ''System.Collections.Generic.List<'' @ ty_ConquestDungeonApply @ ''>''"
definition ty_List_ContributionRewardInfo :: string where
  "ty_List_ContributionRewardInfo = ''System.Collections.Generic.List<'' @ ty_ContributionRewardInfo @ ''>''"
definition ty_List_CoolInfo :: string where
  "ty_List_CoolInfo = ''System.Collections.Generic.List<'' @ ty_CoolInfo @ ''>''"
definition ty_List_CostumeInfo :: string where
  "ty_List_CostumeInfo = ''System.Collections.Generic.List<'' @ ty_CostumeInfo @ ''>''"
definition ty_List_DissolveData :: string where
  "ty_List_DissolveData = ''System.Collections.Generic.List<'' @ ty_DissolveData @ ''>''"
definition ty_List_DissolveRewardData :: string where
  "ty_List_DissolveRewardData = ''System.Collections.Generic.List<'' @ ty_DissolveRewardData @ ''>''"
definition ty_List_DistributionMemberDetailInfo :: string where
  "ty_List_DistributionMemberDetailInfo = ''System.Collections.Generic.List<'' @ ty_DistributionMemberDetailInfo @ ''>''"
definition ty_List_DistributionMemberInfo :: string where
  "ty_List_DistributionMemberInfo = ''System.Collections.Generic.List<'' @ ty_DistributionMemberInfo @ ''>''"
definition ty_List_DominionBriefData :: string where
  "ty_List_DominionBriefData = ''System.Collections.Generic.List<'' @ ty_DominionBriefData @ ''>''"
definition ty_List_DominionGuildData :: string where
  "ty_List_DominionGuildData = ''System.Collections.Generic.List<'' @ ty_DominionGuildData @ ''>''"
definition ty_List_DominionIngameMemberPoint :: string where
  "ty_List_DominionIngameMemberPoint = ''System.Collections.Generic.List<'' @ ty_DominionIngameMemberPoint @ ''>''"
definition ty_List_DominionIngameTeamPoint :: string where
  "ty_List_DominionIngameTeamPoint = ''System.Collections.Generic.List<'' @ ty_DominionIngameTeamPoint @ ''>''"
definition ty_List_DominionKillComboInfo :: string where
  "ty_List_DominionKillComboInfo = ''System.Collections.Generic.List<'' @ ty_DominionKillComboInfo @ ''>''"
definition ty_List_DominionMemberData :: string where
  "ty_List_DominionMemberData = ''System.Collections.Generic.List<'' @ ty_DominionMemberData @ ''>''"
definition ty_List_DominionMoneyData :: string where
  "ty_List_DominionMoneyData = ''System.Collections.Generic.List<'' @ ty_DominionMoneyData @ ''>''"
definition ty_List_DominionProductData :: string where
  "ty_List_DominionProductData = ''System.Collections.Generic.List<'' @ ty_DominionProductData @ ''>''"
definition ty_List_DominionResultData :: string where
  "ty_List_DominionResultData = ''System.Collections.Generic.List<'' @ ty_DominionResultData @ ''>''"
definition ty_List_DominionTaxInfo :: string where
  "ty_List_DominionTaxInfo = ''System.Collections.Generic.List<'' @ ty_DominionTaxInfo @ ''>''"
definition ty_List_EndTimeInfo :: string where
  "ty_List_EndTimeInfo = ''System.Collections.Generic.List<'' @ ty_EndTimeInfo @ ''>''"
definition ty_List_EntertainmentInfo :: string where
  "ty_List_EntertainmentInfo = ''System.Collections.Generic.List<'' @ ty_EntertainmentInfo @ ''>''"
definition ty_List_EquipItemData :: string where
  "ty_List_EquipItemData = ''System.Collections.Generic.List<'' @ ty_EquipItemData @ ''>''"
definition ty_List_EryndorImprintingInfo :: string where
  "ty_List_EryndorImprintingInfo = ''System.Collections.Generic.List<'' @ ty_EryndorImprintingInfo @ ''>''"
definition ty_List_EventGameRandomBoxSlotInfo :: string where
  "ty_List_EventGameRandomBoxSlotInfo = ''System.Collections.Generic.List<'' @ ty_EventGameRandomBoxSlotInfo @ ''>''"
definition ty_List_EventMissionInfo :: string where
  "ty_List_EventMissionInfo = ''System.Collections.Generic.List<'' @ ty_EventMissionInfo @ ''>''"
definition ty_List_EventSubMissionInfo :: string where
  "ty_List_EventSubMissionInfo = ''System.Collections.Generic.List<'' @ ty_EventSubMissionInfo @ ''>''"
definition ty_List_FriendRequestInfo :: string where
  "ty_List_FriendRequestInfo = ''System.Collections.Generic.List<'' @ ty_FriendRequestInfo @ ''>''"
definition ty_List_GuardListInfo :: string where
  "ty_List_GuardListInfo = ''System.Collections.Generic.List<'' @ ty_GuardListInfo @ ''>''"
definition ty_List_GuardMemberInfo :: string where
  "ty_List_GuardMemberInfo = ''System.Collections.Generic.List<'' @ ty_GuardMemberInfo @ ''>''"
definition ty_List_GuildBuffInfo :: string where
  "ty_List_GuildBuffInfo = ''System.Collections.Generic.List<'' @ ty_GuildBuffInfo @ ''>''"
definition ty_List_GuildContentResearchInfo :: string where
  "ty_List_GuildContentResearchInfo = ''System.Collections.Generic.List<'' @ ty_GuildContentResearchInfo @ ''>''"
definition ty_List_GuildContributeTypeInfo :: string where
  "ty_List_GuildContributeTypeInfo = ''System.Collections.Generic.List<'' @ ty_GuildContributeTypeInfo @ ''>''"
definition ty_List_GuildDungeonInfo :: string where
  "ty_List_GuildDungeonInfo = ''System.Collections.Generic.List<'' @ ty_GuildDungeonInfo @ ''>''"
definition ty_List_GuildHistoryInfo :: string where
  "ty_List_GuildHistoryInfo = ''System.Collections.Generic.List<'' @ ty_GuildHistoryInfo @ ''>''"
definition ty_List_GuildJoinRequestGuildInfo :: string where
  "ty_List_GuildJoinRequestGuildInfo = ''System.Collections.Generic.List<'' @ ty_GuildJoinRequestGuildInfo @ ''>''"
definition ty_List_GuildJoinRequestPlayerInfo :: string where
  "ty_List_GuildJoinRequestPlayerInfo = ''System.Collections.Generic.List<'' @ ty_GuildJoinRequestPlayerInfo @ ''>''"
definition ty_List_GuildMemberSimpleInfo :: string where
  "ty_List_GuildMemberSimpleInfo = ''System.Collections.Generic.List<'' @ ty_GuildMemberSimpleInfo @ ''>''"
definition ty_List_GuildPVPRecord :: string where
  "ty_List_GuildPVPRecord = ''System.Collections.Generic.List<'' @ ty_GuildPVPRecord @ ''>''"
definition ty_List_GuildQuestData :: string where
  "ty_List_GuildQuestData = ''System.Collections.Generic.List<'' @ ty_GuildQuestData @ ''>''"
definition ty_List_GuildRelationInfo :: string where
  "ty_List_GuildRelationInfo = ''System.Collections.Generic.List<'' @ ty_GuildRelationInfo @ ''>''"
definition ty_List_GuildShopBuyLimitData :: string where
  "ty_List_GuildShopBuyLimitData = ''System.Collections.Generic.List<'' @ ty_GuildShopBuyLimitData @ ''>''"
definition ty_List_GuildShopItemData :: string where
  "ty_List_GuildShopItemData = ''System.Collections.Generic.List<'' @ ty_GuildShopItemData @ ''>''"
definition ty_List_GuildSimpleInfo :: string where
  "ty_List_GuildSimpleInfo = ''System.Collections.Generic.List<'' @ ty_GuildSimpleInfo @ ''>''"
definition ty_List_HostileFunctionSimpleInfo :: string where
  "ty_List_HostileFunctionSimpleInfo = ''System.Collections.Generic.List<'' @ ty_HostileFunctionSimpleInfo @ ''>''"
definition ty_List_HostileUnionGuildInfo :: string where
  "ty_List_HostileUnionGuildInfo = ''System.Collections.Generic.List<'' @ ty_HostileUnionGuildInfo @ ''>''"
definition ty_List_HostileUnionInfo :: string where
  "ty_List_HostileUnionInfo = ''System.Collections.Generic.List<'' @ ty_HostileUnionInfo @ ''>''"
definition ty_List_ItemBrokenGiveData :: string where
  "ty_List_ItemBrokenGiveData = ''System.Collections.Generic.List<'' @ ty_ItemBrokenGiveData @ ''>''"
definition ty_List_ItemCollectionSlotRegQty :: string where
  "ty_List_ItemCollectionSlotRegQty = ''System.Collections.Generic.List<'' @ ty_ItemCollectionSlotRegQty @ ''>''"
definition ty_List_ItemCollectionSlots :: string where
  "ty_List_ItemCollectionSlots = ''System.Collections.Generic.List<'' @ ty_ItemCollectionSlots @ ''>''"
definition ty_List_ItemData :: string where
  "ty_List_ItemData = ''System.Collections.Generic.List<'' @ ty_ItemData @ ''>''"
definition ty_List_ItemEnchantRequest :: string where
  "ty_List_ItemEnchantRequest = ''System.Collections.Generic.List<'' @ ty_ItemEnchantRequest @ ''>''"
definition ty_List_ItemEnchantResult :: string where
  "ty_List_ItemEnchantResult = ''System.Collections.Generic.List<'' @ ty_ItemEnchantResult @ ''>''"
definition ty_List_ItemMakeLimitInfo :: string where
  "ty_List_ItemMakeLimitInfo = ''System.Collections.Generic.List<'' @ ty_ItemMakeLimitInfo @ ''>''"
definition ty_List_ItemMakeResultInfo :: string where
  "ty_List_ItemMakeResultInfo = ''System.Collections.Generic.List<'' @ ty_ItemMakeResultInfo @ ''>''"
definition ty_List_ItemOidAndCount :: string where
  "ty_List_ItemOidAndCount = ''System.Collections.Generic.List<'' @ ty_ItemOidAndCount @ ''>''"
definition ty_List_JewelCraftOptionData :: string where
  "ty_List_JewelCraftOptionData = ''System.Collections.Generic.List<'' @ ty_JewelCraftOptionData @ ''>''"
definition ty_List_LegacyCollection :: string where
  "ty_List_LegacyCollection = ''System.Collections.Generic.List<'' @ ty_LegacyCollection @ ''>''"
definition ty_List_LegacyCollectionGroup :: string where
  "ty_List_LegacyCollectionGroup = ''System.Collections.Generic.List<'' @ ty_LegacyCollectionGroup @ ''>''"
definition ty_List_LobbyPlayerInfo :: string where
  "ty_List_LobbyPlayerInfo = ''System.Collections.Generic.List<'' @ ty_LobbyPlayerInfo @ ''>''"
definition ty_List_MapLimitData :: string where
  "ty_List_MapLimitData = ''System.Collections.Generic.List<'' @ ty_MapLimitData @ ''>''"
definition ty_List_MasteryData :: string where
  "ty_List_MasteryData = ''System.Collections.Generic.List<'' @ ty_MasteryData @ ''>''"
definition ty_List_MercenaryApplyInfo :: string where
  "ty_List_MercenaryApplyInfo = ''System.Collections.Generic.List<'' @ ty_MercenaryApplyInfo @ ''>''"
definition ty_List_MercenaryRecruitInfo :: string where
  "ty_List_MercenaryRecruitInfo = ''System.Collections.Generic.List<'' @ ty_MercenaryRecruitInfo @ ''>''"
definition ty_List_MonsterCollectionInfo :: string where
  "ty_List_MonsterCollectionInfo = ''System.Collections.Generic.List<'' @ ty_MonsterCollectionInfo @ ''>''"
definition ty_List_MonsterCollectionOptionReward :: string where
  "ty_List_MonsterCollectionOptionReward = ''System.Collections.Generic.List<'' @ ty_MonsterCollectionOptionReward @ ''>''"
definition ty_List_MyAuctionElement :: string where
  "ty_List_MyAuctionElement = ''System.Collections.Generic.List<'' @ ty_MyAuctionElement @ ''>''"
definition ty_List_NetworkObjData :: string where
  "ty_List_NetworkObjData = ''System.Collections.Generic.List<'' @ ty_NetworkObjData @ ''>''"
definition ty_List_PVPLostItemInfo :: string where
  "ty_List_PVPLostItemInfo = ''System.Collections.Generic.List<'' @ ty_PVPLostItemInfo @ ''>''"
definition ty_List_PVPRecord :: string where
  "ty_List_PVPRecord = ''System.Collections.Generic.List<'' @ ty_PVPRecord @ ''>''"
definition ty_List_ParcelInfo :: string where
  "ty_List_ParcelInfo = ''System.Collections.Generic.List<'' @ ty_ParcelInfo @ ''>''"
definition ty_List_ParcelTradeRecord :: string where
  "ty_List_ParcelTradeRecord = ''System.Collections.Generic.List<'' @ ty_ParcelTradeRecord @ ''>''"
definition ty_List_PartyBuffData :: string where
  "ty_List_PartyBuffData = ''System.Collections.Generic.List<'' @ ty_PartyBuffData @ ''>''"
definition ty_List_PartyDungeonMemberInfo :: string where
  "ty_List_PartyDungeonMemberInfo = ''System.Collections.Generic.List<'' @ ty_PartyDungeonMemberInfo @ ''>''"
definition ty_List_PartyMemberData :: string where
  "ty_List_PartyMemberData = ''System.Collections.Generic.List<'' @ ty_PartyMemberData @ ''>''"
definition ty_List_PetAdventureInfo :: string where
  "ty_List_PetAdventureInfo = ''System.Collections.Generic.List<'' @ ty_PetAdventureInfo @ ''>''"
definition ty_List_PetInfo :: string where
  "ty_List_PetInfo = ''System.Collections.Generic.List<'' @ ty_PetInfo @ ''>''"
definition ty_List_PetPartyInfo :: string where
  "ty_List_PetPartyInfo = ''System.Collections.Generic.List<'' @ ty_PetPartyInfo @ ''>''"
definition ty_List_PetSlotInfo :: string where
  "ty_List_PetSlotInfo = ''System.Collections.Generic.List<'' @ ty_PetSlotInfo @ ''>''"
definition ty_List_PickResultInfo :: string where
  "ty_List_PickResultInfo = ''System.Collections.Generic.List<'' @ ty_PickResultInfo @ ''>''"
definition ty_List_PlayerData :: string where
  "ty_List_PlayerData = ''System.Collections.Generic.List<'' @ ty_PlayerData @ ''>''"
definition ty_List_PlayerRankInfo :: string where
  "ty_List_PlayerRankInfo = ''System.Collections.Generic.List<'' @ ty_PlayerRankInfo @ ''>''"
definition ty_List_PostInfo :: string where
  "ty_List_PostInfo = ''System.Collections.Generic.List<'' @ ty_PostInfo @ ''>''"
definition ty_List_PropertyData :: string where
  "ty_List_PropertyData = ''System.Collections.Generic.List<'' @ ty_PropertyData @ ''>''"
definition ty_List_QuestData :: string where
  "ty_List_QuestData = ''System.Collections.Generic.List<'' @ ty_QuestData @ ''>''"
definition ty_List_QuickSlotInfo :: string where
  "ty_List_QuickSlotInfo = ''System.Collections.Generic.List<'' @ ty_QuickSlotInfo @ ''>''"
definition ty_List_RankInfo :: string where
  "ty_List_RankInfo = ''System.Collections.Generic.List<'' @ ty_RankInfo @ ''>''"
definition ty_List_RankerStatueInfo :: string where
  "ty_List_RankerStatueInfo = ''System.Collections.Generic.List<'' @ ty_RankerStatueInfo @ ''>''"
definition ty_List_RePickResultInfo :: string where
  "ty_List_RePickResultInfo = ''System.Collections.Generic.List<'' @ ty_RePickResultInfo @ ''>''"
definition ty_List_RealmMapInfo :: string where
  "ty_List_RealmMapInfo = ''System.Collections.Generic.List<'' @ ty_RealmMapInfo @ ''>''"
definition ty_List_RealmProgressInfo :: string where
  "ty_List_RealmProgressInfo = ''System.Collections.Generic.List<'' @ ty_RealmProgressInfo @ ''>''"
definition ty_List_ReceivedPostInfo :: string where
  "ty_List_ReceivedPostInfo = ''System.Collections.Generic.List<'' @ ty_ReceivedPostInfo @ ''>''"
definition ty_List_RelationPlayerInfo :: string where
  "ty_List_RelationPlayerInfo = ''System.Collections.Generic.List<'' @ ty_RelationPlayerInfo @ ''>''"
definition ty_List_RestoreData :: string where
  "ty_List_RestoreData = ''System.Collections.Generic.List<'' @ ty_RestoreData @ ''>''"
definition ty_List_RestoreSimpleData :: string where
  "ty_List_RestoreSimpleData = ''System.Collections.Generic.List<'' @ ty_RestoreSimpleData @ ''>''"
definition ty_List_RewardData :: string where
  "ty_List_RewardData = ''System.Collections.Generic.List<'' @ ty_RewardData @ ''>''"
definition ty_List_RuneInfo :: string where
  "ty_List_RuneInfo = ''System.Collections.Generic.List<'' @ ty_RuneInfo @ ''>''"
definition ty_List_RuneLineInfo :: string where
  "ty_List_RuneLineInfo = ''System.Collections.Generic.List<'' @ ty_RuneLineInfo @ ''>''"
definition ty_List_RunePanelInfo :: string where
  "ty_List_RunePanelInfo = ''System.Collections.Generic.List<'' @ ty_RunePanelInfo @ ''>''"
definition ty_List_RunePanelSlotInfo :: string where
  "ty_List_RunePanelSlotInfo = ''System.Collections.Generic.List<'' @ ty_RunePanelSlotInfo @ ''>''"
definition ty_List_S2C_MoveNotice :: string where
  "ty_List_S2C_MoveNotice = ''System.Collections.Generic.List<'' @ ty_S2C_MoveNotice @ ''>''"
definition ty_List_ScheduleBossDashboardData :: string where
  "ty_List_ScheduleBossDashboardData = ''System.Collections.Generic.List<'' @ ty_ScheduleBossDashboardData @ ''>''"
definition ty_List_ScheduleBossInfo :: string where
  "ty_List_ScheduleBossInfo = ''System.Collections.Generic.List<'' @ ty_ScheduleBossInfo @ ''>''"
definition ty_List_ShopItemData :: string where
  "ty_List_ShopItemData = ''System.Collections.Generic.List<'' @ ty_ShopItemData @ ''>''"
definition ty_List_SiegeWarDominionTaxInfo :: string where
  "ty_List_SiegeWarDominionTaxInfo = ''System.Collections.Generic.List<'' @ ty_SiegeWarDominionTaxInfo @ ''>''"
definition ty_List_SiegeWarGuardInfo :: string where
  "ty_List_SiegeWarGuardInfo = ''System.Collections.Generic.List<'' @ ty_SiegeWarGuardInfo @ ''>''"
definition ty_List_SiegeWarMemberBoardInfo :: string where
  "ty_List_SiegeWarMemberBoardInfo = ''System.Collections.Generic.List<'' @ ty_SiegeWarMemberBoardInfo @ ''>''"
definition ty_List_SiegeWarObjectInfo :: string where
  "ty_List_SiegeWarObjectInfo = ''System.Collections.Generic.List<'' @ ty_SiegeWarObjectInfo @ ''>''"
definition ty_List_SkillData :: string where
  "ty_List_SkillData = ''System.Collections.Generic.List<'' @ ty_SkillData @ ''>''"
definition ty_List_SkillEffectValue :: string where
  "ty_List_SkillEffectValue = ''System.Collections.Generic.List<'' @ ty_SkillEffectValue @ ''>''"
definition ty_List_SlayerInfo :: string where
  "ty_List_SlayerInfo = ''System.Collections.Generic.List<'' @ ty_SlayerInfo @ ''>''"
definition ty_List_SoulStoneRootInfo :: string where
  "ty_List_SoulStoneRootInfo = ''System.Collections.Generic.List<'' @ ty_SoulStoneRootInfo @ ''>''"
definition ty_List_SoulStoneSlotInfo :: string where
  "ty_List_SoulStoneSlotInfo = ''System.Collections.Generic.List<'' @ ty_SoulStoneSlotInfo @ ''>''"
definition ty_List_StepUpCountRewardInfo :: string where
  "ty_List_StepUpCountRewardInfo = ''System.Collections.Generic.List<'' @ ty_StepUpCountRewardInfo @ ''>''"
definition ty_List_StorageBoxData :: string where
  "ty_List_StorageBoxData = ''System.Collections.Generic.List<'' @ ty_StorageBoxData @ ''>''"
definition ty_List_StoreHotDealData :: string where
  "ty_List_StoreHotDealData = ''System.Collections.Generic.List<'' @ ty_StoreHotDealData @ ''>''"
definition ty_List_StoreItemData :: string where
  "ty_List_StoreItemData = ''System.Collections.Generic.List<'' @ ty_StoreItemData @ ''>''"
definition ty_List_StoreSequenceItemData :: string where
  "ty_List_StoreSequenceItemData = ''System.Collections.Generic.List<'' @ ty_StoreSequenceItemData @ ''>''"
definition ty_List_SubSkillPointData :: string where
  "ty_List_SubSkillPointData = ''System.Collections.Generic.List<'' @ ty_SubSkillPointData @ ''>''"
definition ty_List_TotalPresetInfo :: string where
  "ty_List_TotalPresetInfo = ''System.Collections.Generic.List<'' @ ty_TotalPresetInfo @ ''>''"
definition ty_List_TotalPresetSet :: string where
  "ty_List_TotalPresetSet = ''System.Collections.Generic.List<'' @ ty_TotalPresetSet @ ''>''"
definition ty_List_TransferCheckData :: string where
  "ty_List_TransferCheckData = ''System.Collections.Generic.List<'' @ ty_TransferCheckData @ ''>''"
definition ty_List_TransferServerState :: string where
  "ty_List_TransferServerState = ''System.Collections.Generic.List<'' @ ty_TransferServerState @ ''>''"
definition ty_List_UnequipItemParam :: string where
  "ty_List_UnequipItemParam = ''System.Collections.Generic.List<'' @ ty_UnequipItemParam @ ''>''"
definition ty_List_UnionGuildInfo :: string where
  "ty_List_UnionGuildInfo = ''System.Collections.Generic.List<'' @ ty_UnionGuildInfo @ ''>''"
definition ty_List_UnionSimpleInfo :: string where
  "ty_List_UnionSimpleInfo = ''System.Collections.Generic.List<'' @ ty_UnionSimpleInfo @ ''>''"
definition ty_List_UniqueItemInfo :: string where
  "ty_List_UniqueItemInfo = ''System.Collections.Generic.List<'' @ ty_UniqueItemInfo @ ''>''"
definition ty_List_Vector :: string where
  "ty_List_Vector = ''System.Collections.Generic.List<'' @ ty_Vector @ ''>''"
definition ty_List_WStorageInfo :: string where
  "ty_List_WStorageInfo = ''System.Collections.Generic.List<'' @ ty_WStorageInfo @ ''>''"
definition ty_List_WantedInfo :: string where
  "ty_List_WantedInfo = ''System.Collections.Generic.List<'' @ ty_WantedInfo @ ''>''"
definition ty_List_WarehouseItemMove :: string where
  "ty_List_WarehouseItemMove = ''System.Collections.Generic.List<'' @ ty_WarehouseItemMove @ ''>''"
definition ty_List_Byte :: string where
  "ty_List_Byte = ''System.Collections.Generic.List<'' @ ty_Byte @ ''>''"
definition ty_List_Int32 :: string where
  "ty_List_Int32 = ''System.Collections.Generic.List<'' @ ty_Int32 @ ''>''"
definition ty_List_Int64 :: string where
  "ty_List_Int64 = ''System.Collections.Generic.List<'' @ ty_Int64 @ ''>''"
definition ty_Int32_arr :: string where
  "ty_Int32_arr = ty_Int32 @ ''[]''"
definition ty_List_EquipItemData_arr :: string where
  "ty_List_EquipItemData_arr = ty_List_EquipItemData @ ''[]''"
definition ty_List_TotalPresetInfo_arr :: string where
  "ty_List_TotalPresetInfo_arr = ty_List_TotalPresetInfo @ ''[]''"

section \<open>Opcode constants\<close>

text \<open>The constants \<open>Op<name>\<close>, by name.\<close>

definition opcodes_1 :: "(string \<times> u32) list" where
  "opcodes_1 =
   [(''C2S_AchieveReward'', 0x2A151F04),
    (''C2S_AchievementList'', 0x132E5359),
    (''C2S_AddItemCollection'', 0x31BFE498),
    (''C2S_AlertAdd'', 0x125366E1),
    (''C2S_AlertDelete'', 0x12B8561C),
    (''C2S_AttendanceCheck'', 0x2445A15B),
    (''C2S_AttendanceList'', 0x2C63441F),
    (''C2S_AuctionBuy'', 0x00D541DE),
    (''C2S_AuctionFix'', 0x0F27734B),
    (''C2S_AuctionFixRecord'', 0x17D1936C),
    (''C2S_AuctionList'', 0x26734C2A),
    (''C2S_AuctionMarketPrice'', 0x1C17E236),
    (''C2S_AuctionMyList'', 0x0F1C728B),
    (''C2S_AuctionReRegister'', 0x29B06963),
    (''C2S_AuctionRegister'', 0x0284E45C),
    (''C2S_AuctionWithdraw'', 0x146D6593),
    (''C2S_AutoStoreSetting'', 0x0DB2694A),
    (''C2S_AutoStoreSettingList'', 0x3115ECE7),
    (''C2S_BankCardList'', 0x32A88BFB),
    (''C2S_BankDeposit'', 0x2D2A5556),
    (''C2S_BankDepositRankList'', 0x34F82602),
    (''C2S_BossAuctionBid'', 0x08224083),
    (''C2S_BossAuctionCheckAlarmNoti'', 0x1E7DDD49),
    (''C2S_BossAuctionInfo'', 0x1A556FD0),
    (''C2S_BossAuctionWithdraw'', 0x15DDF4E5),
    (''C2S_BuffList'', 0x293E09EA),
    (''C2S_CancelParcel'', 0x25454949),
    (''C2S_CancelRequestPartyInGuild'', 0x33A242C8),
    (''C2S_CastleTaxRateChange'', 0x3248193D),
    (''C2S_ChangePreset'', 0x1987E061),
    (''C2S_ChangeSubClass'', 0x2A4EEA68),
    (''C2S_ChatMsg'', 0x01B6F9CE),
    (''C2S_CheatKeyCommand'', 0x324D717B),
    (''C2S_CheckGuildName'', 0x2E168C10),
    (''C2S_CollectionCountReward'', 0x06C1747A),
    (''C2S_CollectionCountRewardList'', 0x0CDA8312),
    (''C2S_CommissionQuestRefresh'', 0x26976F8E),
    (''C2S_ConquestDungeonAccept'', 0x1BF97245),
    (''C2S_ConquestDungeonApply'', 0x10F85676),
    (''C2S_ConquestDungeonChangeCost'', 0x3601334B),
    (''C2S_ConquestDungeonChangeLock'', 0x2E54A925),
    (''C2S_ConquestDungeonDetail'', 0x26143FF7),
    (''C2S_ConquestDungeonList'', 0x256795C6),
    (''C2S_ConquestDungeonSimpleInfo'', 0x1F6AC37E),
    (''C2S_CostumeCollectionList'', 0x16752332),
    (''C2S_CostumeCompose'', 0x19797009),
    (''C2S_CostumeEquip'', 0x092A8751),
    (''C2S_CostumeExtract'', 0x10E0D30B),
    (''C2S_CostumeFailedReward'', 0x30133E89),
    (''C2S_CostumeList'', 0x3AB833A0),
    (''C2S_CostumeLookSet'', 0x2321406A),
    (''C2S_CostumeReCompose'', 0x23933A3A),
    (''C2S_CostumeReComposeCheck'', 0x287EA831),
    (''C2S_CostumeRepick'', 0x05675370),
    (''C2S_CostumeRepickConfirm'', 0x20BD0321),
    (''C2S_CostumeRepickList'', 0x366F511D),
    (''C2S_CostumeStepUp'', 0x0B76FC17),
    (''C2S_CostumeStepUpCountReward'', 0x0DF49FC6),
    (''C2S_CostumeStepUpCountRewardList'', 0x1CCC58DA),
    (''C2S_CreateDummyPlayer'', 0x18EB5FB1),
    (''C2S_CreatePlayer'', 0x3A009026),
    (''C2S_CreatePlayerWithPreemption'', 0x26E196D2),
    (''C2S_CreditViewComplete'', 0x1C3F75A1),
    (''C2S_CrossTokenExchangeCancel'', 0x1C44B1ED),
    (''C2S_CrossTokenExchangeInfo'', 0x3A93ABEF),
    (''C2S_CrossWalletInfo'', 0x29EDC1C1),
    (''C2S_DeleteItem'', 0x051EC147),
    (''C2S_DeletePlayer'', 0x31A054F5),
    (''C2S_DeletePlayerCancel'', 0x2F9390CE),
    (''C2S_DoGoldenBell'', 0x38C00BA1),
    (''C2S_DominionBriefList'', 0x0E41A8AE),
    (''C2S_DominionExit'', 0x07389AD3),
    (''C2S_DominionInfo'', 0x218F82E2),
    (''C2S_DominionReward'', 0x0580F138),
    (''C2S_DominionSetColor'', 0x036345AD),
    (''C2S_DominionSubscription'', 0x2002D12D),
    (''C2S_DominionTaxList'', 0x39D9524E),
    (''C2S_DominionTaxRateChange'', 0x0BBE89C4),
    (''C2S_EngraveSoulStone'', 0x2CE9F917),
    (''C2S_EnterWorld'', 0x0A8477ED),
    (''C2S_EntertainmentList'', 0x356C2B7A),
    (''C2S_EntertainmentPlay'', 0x38A44F79),
    (''C2S_EquipItem'', 0x24C42973),
    (''C2S_EventGameBingoBoard'', 0x21664473),
    (''C2S_EventGameBingoBoardOpen'', 0x281BBE08),
    (''C2S_EventGameBingoBoardReward'', 0x38A067F0),
    (''C2S_EventGameNotifyList'', 0x328C6A7F),
    (''C2S_EventGameRandomBox'', 0x165986BD),
    (''C2S_EventGameRandomBoxOpen'', 0x06B54944),
    (''C2S_EventGameRandomBoxReset'', 0x24F2F7C9),
    (''C2S_EventMissionList'', 0x1FB260DD),
    (''C2S_EventMissionReward'', 0x3A54AF50),
    (''C2S_ExitWorld'', 0x1272C57F),
    (''C2S_FriendDelete'', 0x1088AE47),
    (''C2S_FriendRequest'', 0x1A61AABF),
    (''C2S_FriendRequestCancel'', 0x2C31CBB0),
    (''C2S_FriendRequestReply'', 0x20724726),
    (''C2S_GameGuardCheck'', 0x1CE8214E),
    (''C2S_GuardDisband'', 0x164358BC),
    (''C2S_GuardExtension'', 0x1D571A7E),
    (''C2S_GuardGuildGrowthReward'', 0x09502437),
    (''C2S_GuardGuildList'', 0x116ABD89),
    (''C2S_GuardHelpRequest'', 0x2E4BC77C),
    (''C2S_GuardHelpResponse'', 0x0A0B85AF),
    (''C2S_GuardMyInfo'', 0x03BC83A5),
    (''C2S_GuardRequest'', 0x0265F369),
    (''C2S_GuardRequestAnswer'', 0x3AECF4ED),
    (''C2S_GuardRequestCancel'', 0x1A77FBF7),
    (''C2S_GuardUserGrowthReward'', 0x3814BD2E),
    (''C2S_GuildAddHostile'', 0x0DBBC0BB),
    (''C2S_GuildAddWorldRelation'', 0x269AEA46),
    (''C2S_GuildAgitRent'', 0x330714A3),
    (''C2S_GuildAttendanceInfo'', 0x0AF1A481),
    (''C2S_GuildBuffBuy'', 0x20EBD73E),
    (''C2S_GuildCancelAlliance'', 0x375B5D98),
    (''C2S_GuildCancelHostile'', 0x32BDE678),
    (''C2S_GuildContentResearchEnchant'', 0x020D68D6),
    (''C2S_GuildContentResearchList'', 0x1347D8F9),
    (''C2S_GuildContentResearchRecommendUpdate'', 0x1CAAAC02),
    (''C2S_GuildCreate'', 0x347BC133),
    (''C2S_GuildDisband'', 0x1011C709),
    (''C2S_GuildDisbandAlliance'', 0x0CF6A120),
    (''C2S_GuildDistributionContribution'', 0x376E37AC),
    (''C2S_GuildDistributionDetailInfo'', 0x14936E70),
    (''C2S_GuildDistributionExecute'', 0x272F2981),
    (''C2S_GuildDistributionInfo'', 0x20EC3360),
    (''C2S_GuildDistributionMoney'', 0x0D4865DC),
    (''C2S_GuildDistributionType'', 0x1BAACB05),
    (''C2S_GuildDonate'', 0x12EBBFC0),
    (''C2S_GuildDonationCount'', 0x2EF6AA07),
    (''C2S_GuildDungeonList'', 0x00F05D89),
    (''C2S_GuildDungeonOpen'', 0x2C6CDB76),
    (''C2S_GuildGuardInfo'', 0x366E0874),
    (''C2S_GuildHistoryGift'', 0x28CFE3C1),
    (''C2S_GuildHistoryList'', 0x2B74F7A1),
    (''C2S_GuildHostileFunctionAdd'', 0x35A3CD2B),
    (''C2S_GuildHostileFunctionDelete'', 0x312BD2D2),
    (''C2S_GuildIntroUpdate'', 0x08E58D75),
    (''C2S_GuildJoin'', 0x29C98410),
    (''C2S_GuildJoinRequestAnswer'', 0x32DF6D4F),
    (''C2S_GuildJoinRequestCancel'', 0x3B09E61C),
    (''C2S_GuildJoinRequestGuildList'', 0x292C5531),
    (''C2S_GuildJoinRequestPlayerList'', 0x2A33B3BB),
    (''C2S_GuildList'', 0x1CCB7CBB),
    (''C2S_GuildManageAttendanceGift'', 0x2A969791),
    (''C2S_GuildMarkUpdate'', 0x3332426B),
    (''C2S_GuildMasterDelegate'', 0x263AD208),
    (''C2S_GuildMemberExpel'', 0x3500D1DA),
    (''C2S_GuildMemberGradeUpdate'', 0x01626835),
    (''C2S_GuildMemberList'', 0x1E91CB3E)]"

definition opcodes_2 :: "(string \<times> u32) list" where
  "opcodes_2 =
   [(''C2S_GuildModifyRelationMemo'', 0x2B5C6A34),
    (''C2S_GuildMyIntroUpdate'', 0x063CEC34),
    (''C2S_GuildNoticeUpdate'', 0x16223B86),
    (''C2S_GuildOpenAttendanceGift'', 0x05AE46C2),
    (''C2S_GuildPVPRecordList'', 0x177A74BD),
    (''C2S_GuildQuestList'', 0x38714286),
    (''C2S_GuildRelationList'', 0x0845DA4B),
    (''C2S_GuildRelationSearch'', 0x2B45839E),
    (''C2S_GuildRemoveWorldRelation'', 0x2A63B2BC),
    (''C2S_GuildRequestAlliance'', 0x0536F86E),
    (''C2S_GuildResponseAskedAlliance'', 0x3889EC9A),
    (''C2S_GuildSettingUpdate'', 0x3AC92ED7),
    (''C2S_GuildSharePosition'', 0x1C0D5D94),
    (''C2S_GuildShopAddDominionProduct'', 0x206134A3),
    (''C2S_GuildShopBuyItem'', 0x35CCE135),
    (''C2S_GuildShopDominionProductInfo'', 0x0BE1FF84),
    (''C2S_GuildShopGrant'', 0x04B51DAB),
    (''C2S_GuildShopItemList'', 0x220D9620),
    (''C2S_GuildShopManage'', 0x3B1F0D1F),
    (''C2S_GuildShopRegisterItem'', 0x0A9BA3FD),
    (''C2S_GuildSimpleInfo'', 0x23F42CFC),
    (''C2S_GuildTakeAttendanceGift'', 0x2D950008),
    (''C2S_GuildTakeAttendanceReward'', 0x00B2BDF7),
    (''C2S_GuildTakeDominionMoney'', 0x066E7730),
    (''C2S_GuildUnionCreate'', 0x3888EF78),
    (''C2S_GuildUnionDisband'', 0x22CD2A2F),
    (''C2S_GuildUnionExpel'', 0x37B3387B),
    (''C2S_GuildUnionHostileAdd'', 0x2086B995),
    (''C2S_GuildUnionHostileRemove'', 0x172F9F8E),
    (''C2S_GuildUnionInfo'', 0x32E89348),
    (''C2S_GuildUnionInvite'', 0x17831C16),
    (''C2S_GuildUnionInviteAnswer'', 0x07CCC6BE),
    (''C2S_GuildUnionInviteCancel'', 0x32D0A62E),
    (''C2S_GuildUnionList'', 0x38F5B833),
    (''C2S_GuildUnionMarkUpdate'', 0x2E9DDD77),
    (''C2S_GuildUnionMasterDelegate'', 0x3B0E898D),
    (''C2S_GuildUnionWithdraw'', 0x21360D01),
    (''C2S_GuildWithdraw'', 0x20EFF763),
    (''C2S_GuildWorldSearch'', 0x04EB9C46),
    (''C2S_HallOfHeroesList'', 0x38CB72B8),
    (''C2S_HotDealSaleList'', 0x021450AB),
    (''C2S_InventoryItemSorting'', 0x2A350183),
    (''C2S_InventorySlotExpansion'', 0x186FEECF),
    (''C2S_InvestSoulStone'', 0x35238F40),
    (''C2S_ItemAwakening'', 0x2A021262),
    (''C2S_ItemCollectionList'', 0x2F5B4A9B),
    (''C2S_ItemCompose'', 0x077573E9),
    (''C2S_ItemComposeBoardInfo'', 0x29F05F16),
    (''C2S_ItemDissolve'', 0x1362250D),
    (''C2S_ItemEnchant'', 0x0D83EE30),
    (''C2S_ItemEryndorEnchant'', 0x0C59A2F3),
    (''C2S_ItemEryndorImprinting'', 0x34C1F2CC),
    (''C2S_ItemEryndorImprintingList'', 0x3AFA08CF),
    (''C2S_ItemEryndorImprintingReset'', 0x254160E1),
    (''C2S_ItemEryndorPromotion'', 0x2B951290),
    (''C2S_ItemEryndorRegrant'', 0x171A387D),
    (''C2S_ItemMake'', 0x1810D590),
    (''C2S_ItemMakeLimitList'', 0x2F15141A),
    (''C2S_ItemMakeLimitListRefresh'', 0x01BE8DCC),
    (''C2S_ItemPickup'', 0x07780D1C),
    (''C2S_JewelCraft'', 0x07604CB2),
    (''C2S_JewelCraftConfirm'', 0x0FE64976),
    (''C2S_LegacyCollectionList'', 0x12DD9EFA),
    (''C2S_LevelupLegacyCollection'', 0x33D209B9),
    (''C2S_Login'', 0x020CDD24),
    (''C2S_Logout'', 0x37A7F889),
    (''C2S_MapBuffOrderBuy'', 0x1374431D),
    (''C2S_MapBuffOrderInfo'', 0x17F4A28B),
    (''C2S_MapEnter'', 0x25FCD5AD),
    (''C2S_MapEnterByReconnect'', 0x3005ECBD),
    (''C2S_MapEnterComplete'', 0x2D0C11E8),
    (''C2S_MapEnterPreComplete'', 0x00B131E9),
    (''C2S_MapLimitNoti'', 0x1C0B18CD),
    (''C2S_MonolithEquipItem'', 0x081E3D17),
    (''C2S_MonolithUnequipItem'', 0x29493949),
    (''C2S_MonsterCollectionCategoryReward'', 0x16442C9D),
    (''C2S_MonsterCollectionCompose'', 0x1B7F88CF),
    (''C2S_MonsterCollectionList'', 0x20400483),
    (''C2S_MonsterCollectionOptionReward'', 0x102CFE54),
    (''C2S_MonsterCollectionOptionRewardList'', 0x12ACB15E),
    (''C2S_MonsterCollectionReAdd'', 0x22F00013),
    (''C2S_MonsterCollectionRewardedList'', 0x269DAC9F),
    (''C2S_MonsterCollectionSeal'', 0x12047E9A),
    (''C2S_MonsterCollectionToRewardList'', 0x12F9AD6A),
    (''C2S_MonsterCollectionToggleLock'', 0x11FDA8AD),
    (''C2S_MoveNotice'', 0x229E8E27),
    (''C2S_MyGuildInfo'', 0x0BEC463D),
    (''C2S_NetPing'', 0x1A472D01),
    (''C2S_ObjectAppearNotice'', 0x24D9B608),
    (''C2S_OpenPaidAttendance'', 0x292F7313),
    (''C2S_PVPRecordList'', 0x002C0CFE),
    (''C2S_PVPRevenge'', 0x2B08BA45),
    (''C2S_PVPRevengeCheck'', 0x3349E61E),
    (''C2S_ParcelHistoryList'', 0x28F3D267),
    (''C2S_ParcelList'', 0x01533322),
    (''C2S_ParcelTradeReply'', 0x3097B90F),
    (''C2S_PartyAcceptNoti'', 0x1888F546),
    (''C2S_PartyCancelNoti'', 0x2CCC0E6F),
    (''C2S_PartyDungeonEnter'', 0x3ACEE854),
    (''C2S_PartyDungeonEntryStatus'', 0x0A18E857),
    (''C2S_PartyExist'', 0x2CBB6C9C),
    (''C2S_PartyExpelNoti'', 0x272F3A96),
    (''C2S_PartyInvite'', 0x23BCFA4B),
    (''C2S_PartyLeaveNoti'', 0x2F43F18A),
    (''C2S_PartyLootChangeNoti'', 0x17D7B73D),
    (''C2S_PartyMasterChangeNoti'', 0x3AF66A55),
    (''C2S_PartyTargetNoti'', 0x11A76804),
    (''C2S_PetAdventureList'', 0x30B1F01B),
    (''C2S_PetAdventureReward'', 0x303D7BDC),
    (''C2S_PetAdventureStart'', 0x19807961),
    (''C2S_PetAdventureTimeShorten'', 0x2B57744C),
    (''C2S_PetAdvetureMapCharge'', 0x2EC0BDCC),
    (''C2S_PetCollectionList'', 0x3129EB72),
    (''C2S_PetCompose'', 0x26C865BC),
    (''C2S_PetEquip'', 0x0D1CBE5A),
    (''C2S_PetEquipItem'', 0x2E79AF83),
    (''C2S_PetExtract'', 0x0DD65C3F),
    (''C2S_PetFailedReward'', 0x1A03F6F8),
    (''C2S_PetLearnSkill'', 0x3463FE13),
    (''C2S_PetList'', 0x18CC6C91),
    (''C2S_PetLookSet'', 0x06D8F9E7),
    (''C2S_PetPartySet'', 0x351F5D60),
    (''C2S_PetPartySlotOpen'', 0x0C82B4CE),
    (''C2S_PetReCompose'', 0x355DE29E),
    (''C2S_PetReComposeCheck'', 0x2FF940CE),
    (''C2S_PetRepick'', 0x040925BA),
    (''C2S_PetRepickConfirm'', 0x24345AD3),
    (''C2S_PetRepickList'', 0x2FBCB74A),
    (''C2S_PetStatusCure'', 0x24CCCDF8),
    (''C2S_PetStepUp'', 0x219C69AE),
    (''C2S_PetStepUpCountReward'', 0x22055D5E),
    (''C2S_PetStepUpCountRewardList'', 0x1B58A304),
    (''C2S_PlayerAction'', 0x271622C0),
    (''C2S_PlayerChangeNickname'', 0x0CF0EF8B),
    (''C2S_PlayerList'', 0x2C5F6EBA),
    (''C2S_PlayerLoadFirstCall'', 0x0D3307ED),
    (''C2S_PlayerRevival'', 0x3841F4DC),
    (''C2S_PlayerWarp'', 0x397CBE29),
    (''C2S_PostList'', 0x131677B7),
    (''C2S_PreResetSoulStone'', 0x155A2DF2),
    (''C2S_PurchaseRealMoneyStoreItemDevOnly'', 0x2046F2DA),
    (''C2S_PurchaseStoreItem'', 0x1169ACED),
    (''C2S_QuestAction'', 0x0110EF73),
    (''C2S_QuestCompleteImmediately'', 0x2BC7D3D3),
    (''C2S_QuestList'', 0x1F851436),
    (''C2S_RankingList'', 0x0326E3F3),
    (''C2S_RealmInfo'', 0x036D12AE),
    (''C2S_RealmProgressInfo'', 0x1A95A5CD),
    (''C2S_ReceivePost'', 0x2B8C5717),
    (''C2S_ReceiveWStorage'', 0x2ECBE616)]"

definition opcodes_3 :: "(string \<times> u32) list" where
  "opcodes_3 =
   [(''C2S_RegistWanted'', 0x303729C7),
    (''C2S_RegisterCrossWallet'', 0x20EBA4DE),
    (''C2S_RegisterLegacyCollection'', 0x34C5574E),
    (''C2S_RegisterParcel'', 0x1D33A6EF),
    (''C2S_RegisterWallet'', 0x17426FF0),
    (''C2S_RelationAlertList'', 0x177C7A69),
    (''C2S_RelationList'', 0x03A52F56),
    (''C2S_ReportChat'', 0x36D661DF),
    (''C2S_ReportPlayer'', 0x3290DE55),
    (''C2S_RequestCrossTokenExchange'', 0x3612DF48),
    (''C2S_RequestPartyInGuild'', 0x03B4B048),
    (''C2S_ResetSoulStone'', 0x19DD95B0),
    (''C2S_ResetStatPoint'', 0x26A351DD),
    (''C2S_ResponseTokenSignedTx'', 0x2C7DD25B),
    (''C2S_RestorableItemList'', 0x2CE26A14),
    (''C2S_Restoration'', 0x025CC81D),
    (''C2S_RestorationCharge'', 0x1EBEE7D3),
    (''C2S_RestorationList'', 0x176BDFD6),
    (''C2S_RestorationSimpleList'', 0x24840C8F),
    (''C2S_RetrieveParcel'', 0x0AD813D4),
    (''C2S_RuneCompose'', 0x295DEEFC),
    (''C2S_RuneConvert'', 0x00828EEF),
    (''C2S_RuneEquip'', 0x0B17797C),
    (''C2S_RuneInvenList'', 0x39131DD2),
    (''C2S_RuneLineChange'', 0x192ADB1D),
    (''C2S_RunePanelClear'', 0x3988BC60),
    (''C2S_RunePanelInfo'', 0x0C530110),
    (''C2S_RunePanelLineChange'', 0x19B7FA6A),
    (''C2S_RuneToggleLock'', 0x148854EC),
    (''C2S_RuneUnequip'', 0x09CF3845),
    (''C2S_ScheduleBossDashboardNoti'', 0x0C2A37EF),
    (''C2S_SealAccountItemUse'', 0x1C909354),
    (''C2S_SealAccountItemUseCheck'', 0x3B6232B8),
    (''C2S_SecurityReport'', 0x10BE5D8E),
    (''C2S_SelectPlayerInfo'', 0x0FFB78CA),
    (''C2S_SessionAuthLogin'', 0x11C4978B),
    (''C2S_SessionAuthLoginWithPreemption'', 0x2D15D6E4),
    (''C2S_SessionLogin'', 0x1A8BD1E6),
    (''C2S_SetOptions'', 0x0F5C0EFA),
    (''C2S_SetSoulStonePreset'', 0x395C41BD),
    (''C2S_SetTotalPreset'', 0x1402EE5E),
    (''C2S_ShopBuyItem'', 0x2EEDD8EC),
    (''C2S_ShopBuyRandBuff'', 0x38BD217A),
    (''C2S_ShopCheck'', 0x0A277B4F),
    (''C2S_ShopSellItem'', 0x366515AF),
    (''C2S_SiegeWarBoard'', 0x08CBBA8A),
    (''C2S_SiegeWarExit'', 0x2397BCF8),
    (''C2S_SiegeWarGuardList'', 0x0D5E13A1),
    (''C2S_SiegeWarGuardSetup'', 0x2A3C3311),
    (''C2S_SiegeWarInfo'', 0x191A40AD),
    (''C2S_SiegeWarMercenaryAccept'', 0x203D7F02),
    (''C2S_SiegeWarMercenaryApply'', 0x0D232120),
    (''C2S_SiegeWarMercenaryApplyList'', 0x00783AFE),
    (''C2S_SiegeWarMercenaryExpel'', 0x3906CC2A),
    (''C2S_SiegeWarMercenaryPage'', 0x275435E5),
    (''C2S_SiegeWarMercenaryRecruit'', 0x06A02361),
    (''C2S_SiegeWarMercenaryWithdraw'', 0x29C5AA42),
    (''C2S_SiegeWarRewardDetail'', 0x2A03D9AB),
    (''C2S_SkillCasting'', 0x14580630),
    (''C2S_SkillLevelUp'', 0x31BF1C12),
    (''C2S_SkillList'', 0x079F1C07),
    (''C2S_SkillUse'', 0x28B80A37),
    (''C2S_SlayerApplyForBail'', 0x1F1129BF),
    (''C2S_SlayerList'', 0x160A999E),
    (''C2S_SoulStoneList'', 0x2AE64316),
    (''C2S_StoreItemInStorageBoxList'', 0x0C3FF087),
    (''C2S_StoreItemList'', 0x38377582),
    (''C2S_StoreLumpSumItemList'', 0x0341462B),
    (''C2S_SubSkillLevelUp'', 0x0A4615B0),
    (''C2S_SubSkillReset'', 0x24B41586),
    (''C2S_TakeBankDepositReward'', 0x2AFD84F8),
    (''C2S_TakeBankRoundReward'', 0x06DBA73E),
    (''C2S_TakeParcelTradeIncome'', 0x0022A8A9),
    (''C2S_TakeStoreItemInStorageBox'', 0x33F8472A),
    (''C2S_ToggleItemLock'', 0x0B7A817C),
    (''C2S_TokenBalanceInfo'', 0x1D192700),
    (''C2S_TokenExchange'', 0x34793542),
    (''C2S_TokenExchangeCancel'', 0x2D988B7A),
    (''C2S_TokenExchangeInfo'', 0x2F06AF0E),
    (''C2S_TotalPresetList'', 0x37CD7D63),
    (''C2S_TowerInfo'', 0x05E6D21A),
    (''C2S_TowerPassClear'', 0x2EACECF1),
    (''C2S_TowerPointReward'', 0x11456566),
    (''C2S_TowerShopBuy'', 0x0C7BC709),
    (''C2S_TowerShopCheck'', 0x11D3E01A),
    (''C2S_TowerSweep'', 0x3136569E),
    (''C2S_TransferCheck'', 0x14F9716F),
    (''C2S_TransferExecute'', 0x1DE7700B),
    (''C2S_TransferServerList'', 0x37966C63),
    (''C2S_UnequipItem'', 0x2891F8E9),
    (''C2S_UniqueItemInfoList'', 0x340C7F51),
    (''C2S_UpdateAutoUse'', 0x14FDDF14),
    (''C2S_UpdateQuickSlot'', 0x36323212),
    (''C2S_UseClassChangeItem'', 0x1E8DF103),
    (''C2S_UseCoupon'', 0x2302FEF4),
    (''C2S_UseEquipmentRestorationItem'', 0x2F40100C),
    (''C2S_UseItem'', 0x22DCE3F2),
    (''C2S_UseJumpTicket'', 0x1BA50D29),
    (''C2S_UseMapObject'', 0x19493AE1),
    (''C2S_UseSelectBoxItem'', 0x08FCC48E),
    (''C2S_UseStatPoint'', 0x1C8ECB63),
    (''C2S_VersionCheck'', 0x1CC28AAC),
    (''C2S_WStorageList'', 0x070F0C54),
    (''C2S_WaitingUserCount'', 0x0EFBF0B4),
    (''C2S_WalletInfo'', 0x333D1F46),
    (''C2S_WantedList'', 0x1A0E64F2),
    (''C2S_WarehouseItemMove'', 0x074D4A97),
    (''C2S_WarehouseItemSorting'', 0x22FBE2D9),
    (''C2S_WarehouseSlotExpansion'', 0x33F2CF9D),
    (''S2C_AbilitySkillLevelNoti'', 0x12C5D916),
    (''S2C_AchieveCompleteNotify'', 0x33D7279B),
    (''S2C_AchieveReward'', 0x35D6A5D0),
    (''S2C_AchievementList'', 0x22D80610),
    (''S2C_AddItemCollection'', 0x07B024FA),
    (''S2C_AlertAdd'', 0x2F6D9EC4),
    (''S2C_AlertDelete'', 0x09B7C21A),
    (''S2C_AttendanceAvailableNoti'', 0x05131B27),
    (''S2C_AttendanceCheck'', 0x34E68311),
    (''S2C_AttendanceList'', 0x2349ED61),
    (''S2C_AuctionAddNoti'', 0x26EA248B),
    (''S2C_AuctionBuy'', 0x21D829B5),
    (''S2C_AuctionFix'', 0x19985138),
    (''S2C_AuctionFixRecord'', 0x31A62D25),
    (''S2C_AuctionList'', 0x22DFA9E7),
    (''S2C_AuctionMarketPrice'', 0x0B09AD87),
    (''S2C_AuctionMyList'', 0x31538078),
    (''S2C_AuctionReRegister'', 0x1774E58A),
    (''S2C_AuctionRegister'', 0x193DAA33),
    (''S2C_AuctionUpdateNoti'', 0x387E9672),
    (''S2C_AuctionWithdraw'', 0x233679EA),
    (''S2C_AutoStoreSetting'', 0x396BB73F),
    (''S2C_AutoStoreSettingList'', 0x093F874B),
    (''S2C_AutoUseList'', 0x10F9D638),
    (''S2C_BankCardList'', 0x19A0E189),
    (''S2C_BankDeposit'', 0x1DDB5B0D),
    (''S2C_BankDepositRankList'', 0x0ED4765F),
    (''S2C_BossAuctionAlarmNoti'', 0x0B61F53B),
    (''S2C_BossAuctionBid'', 0x00EBC473),
    (''S2C_BossAuctionBidChangeNoti'', 0x091AB9F8),
    (''S2C_BossAuctionGetItemNoti'', 0x1DF843BE),
    (''S2C_BossAuctionInfo'', 0x31F1D779),
    (''S2C_BossAuctionStateChangeNoti'', 0x065CA1AB),
    (''S2C_BossAuctionWithdraw'', 0x29A42628),
    (''S2C_BossKillContributionRewardNoti'', 0x17C050AF),
    (''S2C_BossRespawnNotice'', 0x3B032C8E),
    (''S2C_BroadCastNotify'', 0x31DEA7A7),
    (''S2C_BuffAddNoti'', 0x392D6325),
    (''S2C_BuffDelNoti'', 0x345E016A),
    (''S2C_BuffList'', 0x205FAE8F),
    (''S2C_CancelParcel'', 0x00E1FA4F)]"

definition opcodes_4 :: "(string \<times> u32) list" where
  "opcodes_4 =
   [(''S2C_CancelPartyInGuildNoti'', 0x239A2DE0),
    (''S2C_CancelRequestPartyInGuild'', 0x14F0C34C),
    (''S2C_CastleTaxRateChange'', 0x21874DDA),
    (''S2C_ChangePreset'', 0x3B1E74D5),
    (''S2C_ChangeSubClass'', 0x0FD9BA4A),
    (''S2C_ChatMsg'', 0x29CD0F03),
    (''S2C_ChatMsgNotify'', 0x316E9960),
    (''S2C_ChatPenaltyEndTimeNoti'', 0x27A02D2C),
    (''S2C_CheatKeyCommand'', 0x103DE0B8),
    (''S2C_CheckConnection'', 0x32E4591F),
    (''S2C_CheckGuildName'', 0x29A1771B),
    (''S2C_CollectionCountReward'', 0x14B2458E),
    (''S2C_CollectionCountRewardList'', 0x37082E35),
    (''S2C_ColosseumClearWaveIndexNoti'', 0x0DBE7F44),
    (''S2C_ColosseumDealAmount'', 0x2D266106),
    (''S2C_CommissionInfo'', 0x10D8E485),
    (''S2C_CommissionQuestRefresh'', 0x121694C2),
    (''S2C_ConquestDungeonAccept'', 0x180AABCC),
    (''S2C_ConquestDungeonApply'', 0x12F8739D),
    (''S2C_ConquestDungeonChangeCost'', 0x16C6E057),
    (''S2C_ConquestDungeonChangeLock'', 0x049C16AB),
    (''S2C_ConquestDungeonDetail'', 0x39DC3178),
    (''S2C_ConquestDungeonList'', 0x2473F0C8),
    (''S2C_ConquestDungeonNoti'', 0x2C1B8C72),
    (''S2C_ConquestDungeonSimpleInfo'', 0x0C4D933A),
    (''S2C_ContentsSetting'', 0x003FDD11),
    (''S2C_ContentsSettingUpdateNotify'', 0x2564BD45),
    (''S2C_CoolInfo'', 0x346EAD40),
    (''S2C_CoolInfoList'', 0x250B0738),
    (''S2C_CostumeAddNotify'', 0x3B805D15),
    (''S2C_CostumeCollectionCompleteNoti'', 0x33D0E994),
    (''S2C_CostumeCollectionList'', 0x13F1B7D6),
    (''S2C_CostumeCompose'', 0x137C4D58),
    (''S2C_CostumeEquip'', 0x0D7826D6),
    (''S2C_CostumeExtract'', 0x2873120D),
    (''S2C_CostumeFailedReward'', 0x1B86BB9C),
    (''S2C_CostumeList'', 0x199326EE),
    (''S2C_CostumeLookSet'', 0x29F1C44A),
    (''S2C_CostumePickResultNotify'', 0x0ED2EF72),
    (''S2C_CostumeReCompose'', 0x3957898E),
    (''S2C_CostumeReComposeCheck'', 0x1F4AE091),
    (''S2C_CostumeRepick'', 0x257C9CA8),
    (''S2C_CostumeRepickConfirm'', 0x24A7ABC8),
    (''S2C_CostumeRepickList'', 0x15A6D367),
    (''S2C_CostumeStepUp'', 0x0C858145),
    (''S2C_CostumeStepUpCountReward'', 0x18243DA2),
    (''S2C_CostumeStepUpCountRewardList'', 0x30282A88),
    (''S2C_CreateDummyPlayer'', 0x398E453D),
    (''S2C_CreatePlayer'', 0x16AF8260),
    (''S2C_CreatePlayerWithPreemption'', 0x1DDD3F90),
    (''S2C_CrossTokenExchangeCancel'', 0x12833ACF),
    (''S2C_CrossTokenExchangeInfo'', 0x0B7EAB1A),
    (''S2C_CrossWalletInfo'', 0x2F081664),
    (''S2C_DeleteItem'', 0x1265F99D),
    (''S2C_DeletePlayer'', 0x0AECB561),
    (''S2C_DeletePlayerCancel'', 0x368F990E),
    (''S2C_DoGoldenBell'', 0x17EF1785),
    (''S2C_DominionAlarmNoti'', 0x13845131),
    (''S2C_DominionBossKillNoti'', 0x09F5362E),
    (''S2C_DominionBossUpdateNoti'', 0x20A003D9),
    (''S2C_DominionBriefList'', 0x21507C8F),
    (''S2C_DominionEndNoti'', 0x3A8A52AB),
    (''S2C_DominionExit'', 0x0BD1AF19),
    (''S2C_DominionInfo'', 0x311F9551),
    (''S2C_DominionIngameMemberPointNoti'', 0x0853DD66),
    (''S2C_DominionIngameTeamPointNoti'', 0x2E5D9ECB),
    (''S2C_DominionKillComboTargetAddNoti'', 0x0B129A4C),
    (''S2C_DominionKillComboTargetListNoti'', 0x309570AB),
    (''S2C_DominionKillComboTargetRemoveNoti'', 0x2E143F53),
    (''S2C_DominionMyPointNoti'', 0x3A78B065),
    (''S2C_DominionMyTeamIndex'', 0x0034E1F7),
    (''S2C_DominionReward'', 0x0483EBB3),
    (''S2C_DominionRewardNoti'', 0x2FAA9FEC),
    (''S2C_DominionSetColor'', 0x299FF425),
    (''S2C_DominionSubscription'', 0x01FC6F7C),
    (''S2C_DominionTaxList'', 0x30870207),
    (''S2C_DominionTaxRateChange'', 0x00AA8ACC),
    (''S2C_EngraveSoulStone'', 0x3B2CCBE3),
    (''S2C_EnterWorld'', 0x31AFB19A),
    (''S2C_EnterWorldComplete'', 0x13DFE454),
    (''S2C_EntertainmentList'', 0x232F907D),
    (''S2C_EntertainmentPlay'', 0x276BEFDE),
    (''S2C_EquipItem'', 0x04F39A21),
    (''S2C_EquipList'', 0x189276E9),
    (''S2C_EventGameBingoBoard'', 0x161E14CD),
    (''S2C_EventGameBingoBoardOpen'', 0x2FFDC042),
    (''S2C_EventGameBingoBoardReward'', 0x1CE62965),
    (''S2C_EventGameNotifyList'', 0x200DCE0A),
    (''S2C_EventGameRandomBox'', 0x1BE12AA6),
    (''S2C_EventGameRandomBoxOpen'', 0x0015BC21),
    (''S2C_EventGameRandomBoxReset'', 0x1240F597),
    (''S2C_EventMissionCompleteNotify'', 0x22768542),
    (''S2C_EventMissionList'', 0x001C763D),
    (''S2C_EventMissionReward'', 0x125F4718),
    (''S2C_ExitWorld'', 0x2495679A),
    (''S2C_FriendDelete'', 0x1185D802),
    (''S2C_FriendRequest'', 0x3186BA94),
    (''S2C_FriendRequestCancel'', 0x316A05A5),
    (''S2C_FriendRequestReply'', 0x101FE3B5),
    (''S2C_GameGuardCheck'', 0x0EB1A577),
    (''S2C_GameNotice'', 0x19ED32A7),
    (''S2C_GoldenBellEnableNotify'', 0x16554CB2),
    (''S2C_GoldenBellNotify'', 0x00D9F1AC),
    (''S2C_GuardDisband'', 0x096D9E39),
    (''S2C_GuardDisbandNotify'', 0x37B74741),
    (''S2C_GuardExtension'', 0x0464A5ED),
    (''S2C_GuardExtensionNotify'', 0x0E927E0E),
    (''S2C_GuardGrowthPointNotify'', 0x09D9193D),
    (''S2C_GuardGuildGrowthReward'', 0x0DAC35C8),
    (''S2C_GuardGuildList'', 0x0B619159),
    (''S2C_GuardHelpRequest'', 0x371514F2),
    (''S2C_GuardHelpRequestNotify'', 0x18326906),
    (''S2C_GuardHelpResponse'', 0x2B1D87E1),
    (''S2C_GuardHelpResponseNotify'', 0x163D9ABF),
    (''S2C_GuardMyInfo'', 0x2995E2FD),
    (''S2C_GuardRequest'', 0x29C9623A),
    (''S2C_GuardRequestAnswer'', 0x1428EA1B),
    (''S2C_GuardRequestAnswerNotify'', 0x06E6FFED),
    (''S2C_GuardRequestCancel'', 0x3093A382),
    (''S2C_GuardUserGrowthReward'', 0x066399B8),
    (''S2C_GuildAddAllianceNotify'', 0x1A103C08),
    (''S2C_GuildAddHostile'', 0x1F6393D8),
    (''S2C_GuildAddHostileNotify'', 0x27F01071),
    (''S2C_GuildAddWorldRelation'', 0x2C04A7EF),
    (''S2C_GuildAddWorldRelationNotify'', 0x1C9E713B),
    (''S2C_GuildAgitRent'', 0x388409CE),
    (''S2C_GuildAgitUpdateNotify'', 0x385246CF),
    (''S2C_GuildAttendanceInfo'', 0x3AC21BC7),
    (''S2C_GuildBuffBuy'', 0x21CF4A25),
    (''S2C_GuildBuffUpdateNotify'', 0x1D6D1B4B),
    (''S2C_GuildCancelAlliance'', 0x242760B6),
    (''S2C_GuildCancelHostile'', 0x03090D9A),
    (''S2C_GuildCancelHostileNotify'', 0x05A82BEF),
    (''S2C_GuildContentResearchEnchant'', 0x18DEA88C),
    (''S2C_GuildContentResearchList'', 0x2FA4B1C9),
    (''S2C_GuildContentResearchRecommendUpdate'', 0x09921FEF),
    (''S2C_GuildContentResearchRecommendUpdateNotify'', 0x25BEB72A),
    (''S2C_GuildContentResearchUpdateNotify'', 0x0FF0B0AE),
    (''S2C_GuildCreate'', 0x23B33802),
    (''S2C_GuildDisband'', 0x3526DE64),
    (''S2C_GuildDisbandAlliance'', 0x3B7E7A6D),
    (''S2C_GuildDisbandAllianceNotify'', 0x09790F3F),
    (''S2C_GuildDistributionContribution'', 0x36774215),
    (''S2C_GuildDistributionDetailInfo'', 0x0232DD5F),
    (''S2C_GuildDistributionExecute'', 0x1D42C9EE),
    (''S2C_GuildDistributionInfo'', 0x2F70CED5),
    (''S2C_GuildDistributionMemberNoti'', 0x2F6985F4),
    (''S2C_GuildDistributionMoney'', 0x0665A4AD),
    (''S2C_GuildDistributionSettingNoti'', 0x3100E728),
    (''S2C_GuildDistributionType'', 0x34492655)]"

definition opcodes_5 :: "(string \<times> u32) list" where
  "opcodes_5 =
   [(''S2C_GuildDonate'', 0x35B81097),
    (''S2C_GuildDonationCount'', 0x29C9020E),
    (''S2C_GuildDungeonAttributeNoti'', 0x0F1F153C),
    (''S2C_GuildDungeonClearNotify'', 0x026E7D8A),
    (''S2C_GuildDungeonDealingPointNotify'', 0x39037FE3),
    (''S2C_GuildDungeonList'', 0x34EDA476),
    (''S2C_GuildDungeonResultNotify'', 0x2BF40C0B),
    (''S2C_GuildDungeonWaveNoti'', 0x2FB4382A),
    (''S2C_GuildDungoenCloseNotify'', 0x29D143CF),
    (''S2C_GuildDungoenOpen'', 0x344B501E),
    (''S2C_GuildDungoenOpenNotify'', 0x373B3758),
    (''S2C_GuildExpelNotify'', 0x1AFD3E7E),
    (''S2C_GuildGiftEnableNotify'', 0x3592106F),
    (''S2C_GuildGuardInfo'', 0x1236BD75),
    (''S2C_GuildHistoryGift'', 0x368542E7),
    (''S2C_GuildHistoryList'', 0x06A94E3C),
    (''S2C_GuildHostileFunctionAdd'', 0x1AAB2A96),
    (''S2C_GuildHostileFunctionDelete'', 0x2F9A0446),
    (''S2C_GuildIntroUpdate'', 0x37CA507C),
    (''S2C_GuildJoin'', 0x0870BEF7),
    (''S2C_GuildJoinRequestAnswer'', 0x168ED0F2),
    (''S2C_GuildJoinRequestCancel'', 0x14D7F3B1),
    (''S2C_GuildJoinRequestGuildList'', 0x2F7348A7),
    (''S2C_GuildJoinRequestNewNotify'', 0x117504D9),
    (''S2C_GuildJoinRequestPlayerList'', 0x2CAF9E1B),
    (''S2C_GuildJoinedNotify'', 0x13470F47),
    (''S2C_GuildList'', 0x2C9EBD5B),
    (''S2C_GuildManageAttendanceGift'', 0x12483C07),
    (''S2C_GuildMarkUpdate'', 0x0989EC66),
    (''S2C_GuildMarkUpdateNotify'', 0x110B51EB),
    (''S2C_GuildMasterDelegate'', 0x2AC9CC90),
    (''S2C_GuildMemberExpel'', 0x035BBA32),
    (''S2C_GuildMemberExpelNotify'', 0x25B4F93B),
    (''S2C_GuildMemberGradeUpdate'', 0x0329C803),
    (''S2C_GuildMemberGradeUpdateNotify'', 0x382C5E3D),
    (''S2C_GuildMemberList'', 0x3A24EF92),
    (''S2C_GuildModifyRelationMemo'', 0x3AB40657),
    (''S2C_GuildMyIntroUpdate'', 0x2DFAE2AA),
    (''S2C_GuildNoticeUpdate'', 0x30BE3326),
    (''S2C_GuildOpenAttendanceGift'', 0x3AD9FF21),
    (''S2C_GuildPVPRecordList'', 0x00A8E745),
    (''S2C_GuildQuestList'', 0x27501102),
    (''S2C_GuildRelationList'', 0x07F71263),
    (''S2C_GuildRelationSearch'', 0x288DB7F9),
    (''S2C_GuildRemoveWorldRelation'', 0x161B4710),
    (''S2C_GuildRemoveWorldRelationNotify'', 0x1CA42063),
    (''S2C_GuildRequestAlliance'', 0x307B2A5C),
    (''S2C_GuildRequestAllianceNotify'', 0x29BDC974),
    (''S2C_GuildResponseAskedAlliance'', 0x170EAE35),
    (''S2C_GuildResponseAskedAllianceNotify'', 0x01769871),
    (''S2C_GuildSettingUpdate'', 0x0B24E9AC),
    (''S2C_GuildSharePosition'', 0x2D35FDCC),
    (''S2C_GuildShopAddDominionProduct'', 0x04E0A3BC),
    (''S2C_GuildShopBuyItem'', 0x243B2F54),
    (''S2C_GuildShopDominionProductInfo'', 0x2D5DB0ED),
    (''S2C_GuildShopGrant'', 0x15DB30D3),
    (''S2C_GuildShopItemList'', 0x0DAB0ED4),
    (''S2C_GuildShopManage'', 0x04CFD83B),
    (''S2C_GuildShopRegisterItem'', 0x18CAF53A),
    (''S2C_GuildSimpleInfo'', 0x1C3B3D39),
    (''S2C_GuildTakeAttendanceGift'', 0x31CAE44F),
    (''S2C_GuildTakeAttendanceReward'', 0x0C54ADDA),
    (''S2C_GuildTakeDominionMoney'', 0x02A24969),
    (''S2C_GuildUnionAddMemberNotify'', 0x129638FA),
    (''S2C_GuildUnionCreate'', 0x0FCC0A1E),
    (''S2C_GuildUnionCreateNotify'', 0x0A89AB68),
    (''S2C_GuildUnionDisband'', 0x356EB09D),
    (''S2C_GuildUnionDisbandNotify'', 0x0F13A54E),
    (''S2C_GuildUnionExpel'', 0x186ECA05),
    (''S2C_GuildUnionExpelNotify'', 0x2EEC0E68),
    (''S2C_GuildUnionHostileAdd'', 0x0A8DF9DA),
    (''S2C_GuildUnionHostileAddNotify'', 0x25AC827A),
    (''S2C_GuildUnionHostileRemove'', 0x06298DAC),
    (''S2C_GuildUnionHostileRemoveNotify'', 0x16360A77),
    (''S2C_GuildUnionInfo'', 0x04B6C540),
    (''S2C_GuildUnionInvite'', 0x29DF0B99),
    (''S2C_GuildUnionInviteAnswer'', 0x25603EE7),
    (''S2C_GuildUnionInviteCancel'', 0x05F75F46),
    (''S2C_GuildUnionInviteeNotify'', 0x01BF7360),
    (''S2C_GuildUnionJoinNotify'', 0x191C2002),
    (''S2C_GuildUnionList'', 0x32E479F3),
    (''S2C_GuildUnionMarkUpdate'', 0x22AA69D2),
    (''S2C_GuildUnionMarkUpdateNotify'', 0x2A5EF137),
    (''S2C_GuildUnionMasterDelegate'', 0x016E732F),
    (''S2C_GuildUnionRemoveMemberNotify'', 0x020507CA),
    (''S2C_GuildUnionWithdraw'', 0x23C6D018),
    (''S2C_GuildUnionWithdrawNotify'', 0x0A35A981),
    (''S2C_GuildWithdraw'', 0x20D6A08F),
    (''S2C_GuildWithdrawNotify'', 0x1BE9F81E),
    (''S2C_GuildWorldSearch'', 0x24175D42),
    (''S2C_HallOfHeroesList'', 0x1B4545FC),
    (''S2C_HotDealSaleList'', 0x0E6AFA4A),
    (''S2C_InventoryItemSorting'', 0x22A0CF10),
    (''S2C_InventorySlotExpansion'', 0x0B13C28A),
    (''S2C_InvestSoulStone'', 0x2E5DD400),
    (''S2C_ItemAwakening'', 0x1A8F92FD),
    (''S2C_ItemCollectionEndNoti'', 0x2E5FD928),
    (''S2C_ItemCollectionList'', 0x2AFCF8A7),
    (''S2C_ItemCollectionSeaonListNoti'', 0x097FCA85),
    (''S2C_ItemCompose'', 0x17C5015C),
    (''S2C_ItemComposeBoardInfo'', 0x2150C57B),
    (''S2C_ItemDissolve'', 0x044E1411),
    (''S2C_ItemEnchant'', 0x3866AE7A),
    (''S2C_ItemEnchantBrokenGiveNotify'', 0x138583DF),
    (''S2C_ItemEryndorEnchant'', 0x107C8053),
    (''S2C_ItemEryndorImprinting'', 0x16199E22),
    (''S2C_ItemEryndorImprintingList'', 0x0A5EE21A),
    (''S2C_ItemEryndorImprintingReset'', 0x0F43D59A),
    (''S2C_ItemEryndorPromotion'', 0x15BA70FE),
    (''S2C_ItemEryndorRegrant'', 0x0BD2853A),
    (''S2C_ItemList'', 0x04BB4114),
    (''S2C_ItemMake'', 0x11A1C7F5),
    (''S2C_ItemMakeLimitList'', 0x10C72BCF),
    (''S2C_ItemMakeLimitListRefresh'', 0x068DEB65),
    (''S2C_ItemManipulateNotify'', 0x0E0A4E11),
    (''S2C_ItemPickup'', 0x2D614666),
    (''S2C_JewelCraft'', 0x3AB56AF4),
    (''S2C_JewelCraftConfirm'', 0x145027BC),
    (''S2C_LegacyCollectionList'', 0x30FC7233),
    (''S2C_LevelupLegacyCollection'', 0x2020A5D9),
    (''S2C_Login'', 0x1714FF26),
    (''S2C_Logout'', 0x22790A26),
    (''S2C_MapBuffOrderBuy'', 0x1F2C9324),
    (''S2C_MapBuffOrderInfo'', 0x2A2CDC85),
    (''S2C_MapEnter'', 0x37ED9D11),
    (''S2C_MapEnterComplete'', 0x1D23867A),
    (''S2C_MapEnterPreComplete'', 0x26FC6EE4),
    (''S2C_MapEntryOpenNoti'', 0x304F7C01),
    (''S2C_MapLeaveNoti'', 0x0E823A3B),
    (''S2C_MapLimitNoti'', 0x17AC7E21),
    (''S2C_MoneyInfo'', 0x237343E2),
    (''S2C_MonolithEquipItem'', 0x0C39595F),
    (''S2C_MonolithUnequipItem'', 0x36E29259),
    (''S2C_MonsterCollectionAddNotify'', 0x1F177C4D),
    (''S2C_MonsterCollectionCategoryReward'', 0x18122DF2),
    (''S2C_MonsterCollectionCompose'', 0x2D8CEA15),
    (''S2C_MonsterCollectionList'', 0x0538CEB9),
    (''S2C_MonsterCollectionOptionReward'', 0x242C394C),
    (''S2C_MonsterCollectionOptionRewardList'', 0x1CC073A6),
    (''S2C_MonsterCollectionReAdd'', 0x33B301D7),
    (''S2C_MonsterCollectionRewardedList'', 0x00DF4225),
    (''S2C_MonsterCollectionSeal'', 0x3B579C56),
    (''S2C_MonsterCollectionToRewardList'', 0x377BCD2F),
    (''S2C_MonsterCollectionToggleLock'', 0x155E0AD7),
    (''S2C_MoveListNotice'', 0x2B81CA0A),
    (''S2C_MoveNotice'', 0x0287FBAD),
    (''S2C_MyAbilityNoti'', 0x0B8C9719),
    (''S2C_MyGuildInfo'', 0x2181A60C),
    (''S2C_MyHPMPNoti'', 0x227D84AD),
    (''S2C_NPCDieNotice'', 0x1A97C5FC)]"

definition opcodes_6 :: "(string \<times> u32) list" where
  "opcodes_6 =
   [(''S2C_NetPing'', 0x27541FDB),
    (''S2C_NewHotDealSale'', 0x09CC9A4C),
    (''S2C_NewNotifyList'', 0x01ADE3AC),
    (''S2C_NewPostNotify'', 0x308C4A1A),
    (''S2C_ObjectAppearNotice'', 0x37A57AFB),
    (''S2C_ObjectDisappearNotice'', 0x1C84C0DC),
    (''S2C_ObjectUpdateNotice'', 0x269AE608),
    (''S2C_OpenPaidAttendance'', 0x0233E9C5),
    (''S2C_PVPRecordList'', 0x0286230E),
    (''S2C_PVPRevenge'', 0x3ACC6812),
    (''S2C_PVPRevengeCheck'', 0x3B96CE32),
    (''S2C_ParcelHistoryList'', 0x28CC2E9E),
    (''S2C_ParcelList'', 0x18CF65F0),
    (''S2C_ParcelStatusNoti'', 0x27F83572),
    (''S2C_ParcelTradeReply'', 0x20056C3B),
    (''S2C_PartyAcceptNoti'', 0x36217B7C),
    (''S2C_PartyCancelNoti'', 0x17D2379F),
    (''S2C_PartyDungeonEnter'', 0x1D8E3BCB),
    (''S2C_PartyDungeonEnterNoti'', 0x352FB8B9),
    (''S2C_PartyDungeonEntryStatus'', 0x332858FC),
    (''S2C_PartyDungeonPlayerCountNoti'', 0x37603B87),
    (''S2C_PartyDungeonTowerInfoNoti'', 0x0A637598),
    (''S2C_PartyExist'', 0x312556D2),
    (''S2C_PartyExitNoti'', 0x3943A38D),
    (''S2C_PartyInfoNoti'', 0x2472ECC2),
    (''S2C_PartyInvite'', 0x0F3140D0),
    (''S2C_PartyInviteNoti'', 0x33D41B63),
    (''S2C_PartyMemberGetItemNotify'', 0x20EAE2D3),
    (''S2C_PartyTargetNoti'', 0x222DD9E8),
    (''S2C_PetAddNotify'', 0x186E02BA),
    (''S2C_PetAdventureCompleteNotify'', 0x32683B17),
    (''S2C_PetAdventureList'', 0x3698AFA2),
    (''S2C_PetAdventureMapCharge'', 0x1FC44F28),
    (''S2C_PetAdventureReward'', 0x1AC3BF37),
    (''S2C_PetAdventureStart'', 0x27D70C38),
    (''S2C_PetAdventureTimeShorten'', 0x2CEEC675),
    (''S2C_PetCollectionCompleteNoti'', 0x28836B19),
    (''S2C_PetCollectionList'', 0x2A4AE2B1),
    (''S2C_PetCompose'', 0x0FDC39C4),
    (''S2C_PetEquip'', 0x32F25C46),
    (''S2C_PetEquipItem'', 0x17284442),
    (''S2C_PetExtract'', 0x1018EC83),
    (''S2C_PetFailedReward'', 0x00A22C57),
    (''S2C_PetLearnSkill'', 0x028801E3),
    (''S2C_PetList'', 0x00AB9901),
    (''S2C_PetLookSet'', 0x38589801),
    (''S2C_PetPartySet'', 0x39E98384),
    (''S2C_PetPartySlotOpen'', 0x06078582),
    (''S2C_PetPickResultNotify'', 0x39897CE4),
    (''S2C_PetReCompose'', 0x3AAD8E75),
    (''S2C_PetReComposeCheck'', 0x2454EF80),
    (''S2C_PetRepick'', 0x2327D7D2),
    (''S2C_PetRepickConfirm'', 0x2D9958E3),
    (''S2C_PetRepickList'', 0x2C8817B1),
    (''S2C_PetStatusCure'', 0x05360DE1),
    (''S2C_PetStepUp'', 0x33A89259),
    (''S2C_PetStepUpCountReward'', 0x2E091464),
    (''S2C_PetStepUpCountRewardList'', 0x1B9AC1B9),
    (''S2C_PlayerActionNotify'', 0x3197A880),
    (''S2C_PlayerChangeNickname'', 0x27D2EE6F),
    (''S2C_PlayerChangeNicknameNotify'', 0x1A928D17),
    (''S2C_PlayerDataLoadComplete'', 0x2D7A8E3C),
    (''S2C_PlayerDieNoti'', 0x211AB6A4),
    (''S2C_PlayerList'', 0x173B37EF),
    (''S2C_PlayerLoadFirstCall'', 0x334D1A49),
    (''S2C_PlayerLoginNotify'', 0x07530A39),
    (''S2C_PlayerLogoutNotify'', 0x3B2392E6),
    (''S2C_PlayerRevival'', 0x201E6070),
    (''S2C_PlayerStandUpNoti'', 0x089DC854),
    (''S2C_PlayerWarp'', 0x1F45F5A7),
    (''S2C_PostList'', 0x38DCD219),
    (''S2C_PreResetSoulStone'', 0x1CD61CB6),
    (''S2C_PurchaseStoreItem'', 0x2C99615C),
    (''S2C_QuestAction'', 0x169B50C6),
    (''S2C_QuestAddList'', 0x38139A4F),
    (''S2C_QuestCompleteImmediately'', 0x1D224C42),
    (''S2C_QuestList'', 0x1146016C),
    (''S2C_QuestProgressList'', 0x19542FEF),
    (''S2C_QuestRemoveList'', 0x12BB58A8),
    (''S2C_QuestUpdateList'', 0x2819A08A),
    (''S2C_QuickSlotList'', 0x03F16BF9),
    (''S2C_RandomTeleportNoti'', 0x2808A60D),
    (''S2C_RankRewardNoti'', 0x08AFA8F0),
    (''S2C_RankingList'', 0x25E48A07),
    (''S2C_RankingUpdateNotify'', 0x1651899A),
    (''S2C_RealmInfo'', 0x1B3DBEA7),
    (''S2C_RealmInfoNoti'', 0x26CE8D79),
    (''S2C_RealmProgressInfo'', 0x25AB9AB9),
    (''S2C_ReceivePost'', 0x1D06117E),
    (''S2C_ReceiveWStorage'', 0x0DE2BE0C),
    (''S2C_RegistWanted'', 0x3560DCD0),
    (''S2C_RegistWantedNotify'', 0x30B28FE3),
    (''S2C_RegisterCrossWallet'', 0x39A84FC2),
    (''S2C_RegisterLegacyCollection'', 0x38D12DD8),
    (''S2C_RegisterParcel'', 0x2C4F9C4E),
    (''S2C_RegisterWallet'', 0x1DFD729D),
    (''S2C_RelationAlertList'', 0x22576806),
    (''S2C_RelationList'', 0x05AFFA31),
    (''S2C_ReportChat'', 0x2AC3BF0E),
    (''S2C_ReportPlayer'', 0x08E4E1FD),
    (''S2C_RequestCrossTokenExchange'', 0x2DD94726),
    (''S2C_RequestPartyInGuild'', 0x303FC3DF),
    (''S2C_RequestPartyInGuildNoti'', 0x1DDE45A3),
    (''S2C_RequestTokenSignedTx'', 0x17E1E905),
    (''S2C_ResetGuildIntroNotify'', 0x380AC334),
    (''S2C_ResetSoulStone'', 0x063DDE3C),
    (''S2C_ResetStatPoint'', 0x223BE416),
    (''S2C_ResponseCrossTokenExchange'', 0x2538A21D),
    (''S2C_RestorableItemList'', 0x3A91AEC6),
    (''S2C_Restoration'', 0x2897F19D),
    (''S2C_RestorationCharge'', 0x2696BFD7),
    (''S2C_RestorationList'', 0x2A16748D),
    (''S2C_RestorationSimpleList'', 0x32B25885),
    (''S2C_RetrieveParcel'', 0x04DF29A9),
    (''S2C_RuneCompose'', 0x2E5B63C0),
    (''S2C_RuneConvert'', 0x1EEF9EA3),
    (''S2C_RuneEquip'', 0x289C9481),
    (''S2C_RuneInvenList'', 0x384F5A46),
    (''S2C_RuneInvenUpdateNotify'', 0x35437CB9),
    (''S2C_RuneLineChange'', 0x20A6E977),
    (''S2C_RunePanelClear'', 0x37DE31B5),
    (''S2C_RunePanelInfo'', 0x32F4BAED),
    (''S2C_RunePanelLineChange'', 0x2A997919),
    (''S2C_RuneToggleLock'', 0x30E4DE70),
    (''S2C_RuneUnequip'', 0x06CFA077),
    (''S2C_ScheduleBossDashboardNoti'', 0x1D0C80BF),
    (''S2C_ScheduleBossInfoListNotice'', 0x28F0FE1C),
    (''S2C_SealAccountItemUse'', 0x0F8D2CAA),
    (''S2C_SealAccountItemUseCheck'', 0x0DED7C02),
    (''S2C_SelectPlayerInfo'', 0x0447E188),
    (''S2C_ServerDisconnect'', 0x1DBC12CF),
    (''S2C_SessionAuthLogin'', 0x1D6DAFB5),
    (''S2C_SessionAuthLoginWithPreemption'', 0x2432DD91),
    (''S2C_SessionLogin'', 0x05A734FA),
    (''S2C_SetSoulStonePreset'', 0x354C7D51),
    (''S2C_SetTotalPreset'', 0x05795B5B),
    (''S2C_ShopBuyItem'', 0x206B9F62),
    (''S2C_ShopBuyRandBuff'', 0x2FCB1D2D),
    (''S2C_ShopCheck'', 0x1A37318B),
    (''S2C_ShopSellItem'', 0x328F86B8),
    (''S2C_SiegeWarBoard'', 0x30D6BE74),
    (''S2C_SiegeWarChangeDefenderNoti'', 0x0BC7065B),
    (''S2C_SiegeWarExit'', 0x1B90A967),
    (''S2C_SiegeWarGuardList'', 0x0A68CF47),
    (''S2C_SiegeWarGuardSetup'', 0x38CFFA7B),
    (''S2C_SiegeWarInfo'', 0x3B167C60),
    (''S2C_SiegeWarInfoNotify'', 0x22D64B54),
    (''S2C_SiegeWarMemberInfoNoti'', 0x2A17710E),
    (''S2C_SiegeWarMercenaryAccept'', 0x28970338),
    (''S2C_SiegeWarMercenaryAcceptNoti'', 0x03C9D9A9)]"

definition opcodes_7 :: "(string \<times> u32) list" where
  "opcodes_7 =
   [(''S2C_SiegeWarMercenaryApply'', 0x0A25F9F4),
    (''S2C_SiegeWarMercenaryApplyList'', 0x15274680),
    (''S2C_SiegeWarMercenaryApplyNoti'', 0x04A35008),
    (''S2C_SiegeWarMercenaryExpel'', 0x1B34018F),
    (''S2C_SiegeWarMercenaryExpelNoti'', 0x2BA1B0CA),
    (''S2C_SiegeWarMercenaryPage'', 0x287C1266),
    (''S2C_SiegeWarMercenaryRecruit'', 0x1515C5F9),
    (''S2C_SiegeWarMercenaryWithdraw'', 0x189EA176),
    (''S2C_SiegeWarMyInfoNoti'', 0x2FD4DB92),
    (''S2C_SiegeWarPlayInfoNoti'', 0x25A613B5),
    (''S2C_SiegeWarResultNoti'', 0x09214F67),
    (''S2C_SiegeWarRewardDetail'', 0x2BE9C315),
    (''S2C_SiegeWarStateNoti'', 0x0E3C85C8),
    (''S2C_SkillCasting'', 0x379EBEBC),
    (''S2C_SkillCastingNoti'', 0x0E0965DF),
    (''S2C_SkillGetNoti'', 0x0D5D0928),
    (''S2C_SkillLevelUp'', 0x2F88CCAA),
    (''S2C_SkillList'', 0x228CB8E6),
    (''S2C_SkillUse'', 0x2A89FAA1),
    (''S2C_SkillUseNotice'', 0x1C7467B7),
    (''S2C_SlayerApplyForBail'', 0x18EA0D3F),
    (''S2C_SlayerList'', 0x0E6F24E5),
    (''S2C_SoulStoneList'', 0x209C3842),
    (''S2C_SpecialDungeonWaveNoti'', 0x102A7F48),
    (''S2C_StoreItemInStorageBoxList'', 0x32566FDC),
    (''S2C_StoreItemList'', 0x28E03174),
    (''S2C_StoreLumpSumItemList'', 0x30261610),
    (''S2C_SubSkillLevelUp'', 0x1E979FC0),
    (''S2C_SubSkillReset'', 0x16783880),
    (''S2C_SystemMessageNoti'', 0x1E1C4FF1),
    (''S2C_TakeBankDepositReward'', 0x2652BAA6),
    (''S2C_TakeBankRoundReward'', 0x0282CB50),
    (''S2C_TakeParcelTradeIncome'', 0x1B1164AB),
    (''S2C_TakeStoreItemInStorageBox'', 0x04548454),
    (''S2C_ToggleItemLock'', 0x29A93DF5),
    (''S2C_TokenBalanceInfo'', 0x0629E7A2),
    (''S2C_TokenExchange'', 0x25BAF7D0),
    (''S2C_TokenExchangeCancel'', 0x20B7F00E),
    (''S2C_TokenExchangeInfo'', 0x378B2F3B),
    (''S2C_TotalPresetList'', 0x1B33ACD8),
    (''S2C_TowerClearNoti'', 0x2DDA74F4),
    (''S2C_TowerInfo'', 0x02CC3654),
    (''S2C_TowerInfoNoti'', 0x0D8A27FD),
    (''S2C_TowerPassClear'', 0x01073D27),
    (''S2C_TowerPointReward'', 0x29E70F52),
    (''S2C_TowerShopBuy'', 0x0F691A14),
    (''S2C_TowerShopCheck'', 0x1FD14E24),
    (''S2C_TowerSweep'', 0x03E92A71),
    (''S2C_TransferCheck'', 0x128302EF),
    (''S2C_TransferExecute'', 0x1B86BD1C),
    (''S2C_TransferServerList'', 0x1E390C74),
    (''S2C_UnequipItem'', 0x0D28AD4C),
    (''S2C_UniqueItemInfoList'', 0x12C346AF),
    (''S2C_UpdateAutoUse'', 0x0F3F8B48),
    (''S2C_UpdateCrystalGetInfo'', 0x00134E55),
    (''S2C_UpdateItemAttributeNotify'', 0x3A8E7CDD),
    (''S2C_UpdateLevelNotify'', 0x10D18F06),
    (''S2C_UpdateMapObjectNoti'', 0x0CF71510),
    (''S2C_UpdatePetLevelNotify'', 0x2107F399),
    (''S2C_UpdatePlayerLookNotify'', 0x10A3D022),
    (''S2C_UpdatePropertyNotify'', 0x21115DFE),
    (''S2C_UpdateQuickSlot'', 0x21B616B5),
    (''S2C_UpdateSlayerNotify'', 0x0FA8E73F),
    (''S2C_UpdateStatNotify'', 0x1415225C),
    (''S2C_UseBoxItemResult'', 0x06E59FE8),
    (''S2C_UseClassChangeItem'', 0x2197DC9E),
    (''S2C_UseCoupon'', 0x2A8EE30E),
    (''S2C_UseEquipmentRestorationItem'', 0x026FAD13),
    (''S2C_UseItem'', 0x07878144),
    (''S2C_UseItemNotify'', 0x11959381),
    (''S2C_UseJumpTicket'', 0x33025F6D),
    (''S2C_UseMapObject'', 0x191616EB),
    (''S2C_UseSelectBoxItem'', 0x166315E2),
    (''S2C_UseStatPoint'', 0x150DF540),
    (''S2C_VersionCheck'', 0x30A5DEED),
    (''S2C_WStorageList'', 0x25D84C00),
    (''S2C_WaitingUserCount'', 0x2A1BF607),
    (''S2C_WalletInfo'', 0x00476B8D),
    (''S2C_WantedList'', 0x0F3D3780),
    (''S2C_WantedPlayerNotify'', 0x061AD291),
    (''S2C_WarehouseItemMove'', 0x0C3BDEF0),
    (''S2C_WarehouseItemSorting'', 0x15833178),
    (''S2C_WarehouseSlotExpansion'', 0x07C9BC86),
    (''S2C_WaveClearNoti'', 0x2DC68285),
    (''S2C_WaveStartNoti'', 0x2DCF205F)]"

section \<open>Messages\<close>

definition messages_1 :: "(u32 \<times> message) list" where
  "messages_1 =
   [(0x2A151F04, \<lparr>msgName = ''C2S_AchieveReward'', msgDir = ''C2S'', msgID = 0x2A151F04, msgFields =
     [Field ''m_achieveIndex'' ty_Int32]\<rparr>),
    (0x132E5359, \<lparr>msgName = ''C2S_AchievementList'', msgDir = ''C2S'', msgID = 0x132E5359, msgFields =
     []\<rparr>),
    (0x31BFE498, \<lparr>msgName = ''C2S_AddItemCollection'', msgDir = ''C2S'', msgID = 0x31BFE498, msgFields =
     [Field ''m_collectionIndex'' ty_Int32,
     Field ''m_slotIndex'' ty_Byte,
     Field ''m_itemOID'' ty_Int64,
     Field ''m_count'' ty_Int32]\<rparr>),
    (0x125366E1, \<lparr>msgName = ''C2S_AlertAdd'', msgDir = ''C2S'', msgID = 0x125366E1, msgFields =
     [Field ''m_targetPlayerOID'' ty_Int64,
     Field ''m_targetPlayerName'' ty_String]\<rparr>),
    (0x12B8561C, \<lparr>msgName = ''C2S_AlertDelete'', msgDir = ''C2S'', msgID = 0x12B8561C, msgFields =
     [Field ''m_targetPlayerOID'' ty_Int64]\<rparr>),
    (0x2445A15B, \<lparr>msgName = ''C2S_AttendanceCheck'', msgDir = ''C2S'', msgID = 0x2445A15B, msgFields =
     [Field ''m_index'' ty_Int32]\<rparr>),
    (0x2C63441F, \<lparr>msgName = ''C2S_AttendanceList'', msgDir = ''C2S'', msgID = 0x2C63441F, msgFields =
     []\<rparr>),
    (0x00D541DE, \<lparr>msgName = ''C2S_AuctionBuy'', msgDir = ''C2S'', msgID = 0x00D541DE, msgFields =
     [Field ''m_auctionDBID'' ty_Int64]\<rparr>),
    (0x0F27734B, \<lparr>msgName = ''C2S_AuctionFix'', msgDir = ''C2S'', msgID = 0x0F27734B, msgFields =
     []\<rparr>),
    (0x17D1936C, \<lparr>msgName = ''C2S_AuctionFixRecord'', msgDir = ''C2S'', msgID = 0x17D1936C, msgFields =
     []\<rparr>),
    (0x26734C2A, \<lparr>msgName = ''C2S_AuctionList'', msgDir = ''C2S'', msgID = 0x26734C2A, msgFields =
     [Field ''m_listType'' ty_Int32,
     Field ''m_mainCategory'' ty_Int32,
     Field ''m_subCategory'' ty_Int32,
     Field ''m_itemIndex'' ty_Int32,
     Field ''m_enchantLevel'' ty_Int32]\<rparr>),
    (0x1C17E236, \<lparr>msgName = ''C2S_AuctionMarketPrice'', msgDir = ''C2S'', msgID = 0x1C17E236, msgFields =
     [Field ''m_itemIndex'' ty_Int32,
     Field ''m_enchantLevel'' ty_Byte]\<rparr>),
    (0x0F1C728B, \<lparr>msgName = ''C2S_AuctionMyList'', msgDir = ''C2S'', msgID = 0x0F1C728B, msgFields =
     [Field ''m_myListType'' ty_Int32]\<rparr>),
    (0x29B06963, \<lparr>msgName = ''C2S_AuctionReRegister'', msgDir = ''C2S'', msgID = 0x29B06963, msgFields =
     [Field ''m_auctionDBIDList'' ty_List_Int64]\<rparr>),
    (0x0284E45C, \<lparr>msgName = ''C2S_AuctionRegister'', msgDir = ''C2S'', msgID = 0x0284E45C, msgFields =
     [Field ''m_itemOID'' ty_Int64,
     Field ''m_itemCount'' ty_Int32,
     Field ''m_saleAmount'' ty_Int64,
     Field ''m_distributeType'' ty_Byte,
     Field ''m_selectMemberList'' ty_List_Int64]\<rparr>),
    (0x146D6593, \<lparr>msgName = ''C2S_AuctionWithdraw'', msgDir = ''C2S'', msgID = 0x146D6593, msgFields =
     [Field ''m_auctionDBID'' ty_Int64]\<rparr>),
    (0x0DB2694A, \<lparr>msgName = ''C2S_AutoStoreSetting'', msgDir = ''C2S'', msgID = 0x0DB2694A, msgFields =
     [Field ''m_autoStoreSettingList'' ty_List_AutoStoreSettingInfo]\<rparr>),
    (0x3115ECE7, \<lparr>msgName = ''C2S_AutoStoreSettingList'', msgDir = ''C2S'', msgID = 0x3115ECE7, msgFields =
     []\<rparr>),
    (0x32A88BFB, \<lparr>msgName = ''C2S_BankCardList'', msgDir = ''C2S'', msgID = 0x32A88BFB, msgFields =
     []\<rparr>),
    (0x2D2A5556, \<lparr>msgName = ''C2S_BankDeposit'', msgDir = ''C2S'', msgID = 0x2D2A5556, msgFields =
     [Field ''m_bankIndex'' ty_Int32,
     Field ''m_depositCount'' ty_Int64]\<rparr>),
    (0x34F82602, \<lparr>msgName = ''C2S_BankDepositRankList'', msgDir = ''C2S'', msgID = 0x34F82602, msgFields =
     [Field ''m_bankIndex'' ty_Int32]\<rparr>),
    (0x08224083, \<lparr>msgName = ''C2S_BossAuctionBid'', msgDir = ''C2S'', msgID = 0x08224083, msgFields =
     [Field ''m_bossAuctionID'' ty_Int64,
     Field ''m_slotIndex'' ty_Byte,
     Field ''m_bidAmount'' ty_Int64]\<rparr>),
    (0x1E7DDD49, \<lparr>msgName = ''C2S_BossAuctionCheckAlarmNoti'', msgDir = ''C2S'', msgID = 0x1E7DDD49, msgFields =
     []\<rparr>),
    (0x1A556FD0, \<lparr>msgName = ''C2S_BossAuctionInfo'', msgDir = ''C2S'', msgID = 0x1A556FD0, msgFields =
     []\<rparr>),
    (0x15DDF4E5, \<lparr>msgName = ''C2S_BossAuctionWithdraw'', msgDir = ''C2S'', msgID = 0x15DDF4E5, msgFields =
     [Field ''m_bossAuctionID'' ty_Int64,
     Field ''m_slotIndex'' ty_Byte]\<rparr>),
    (0x293E09EA, \<lparr>msgName = ''C2S_BuffList'', msgDir = ''C2S'', msgID = 0x293E09EA, msgFields =
     []\<rparr>),
    (0x25454949, \<lparr>msgName = ''C2S_CancelParcel'', msgDir = ''C2S'', msgID = 0x25454949, msgFields =
     [Field ''m_parcelDBID'' ty_Int64]\<rparr>),
    (0x33A242C8, \<lparr>msgName = ''C2S_CancelRequestPartyInGuild'', msgDir = ''C2S'', msgID = 0x33A242C8, msgFields =
     []\<rparr>),
    (0x3248193D, \<lparr>msgName = ''C2S_CastleTaxRateChange'', msgDir = ''C2S'', msgID = 0x3248193D, msgFields =
     [Field ''m_nextTaxRate'' ty_Byte]\<rparr>),
    (0x1987E061, \<lparr>msgName = ''C2S_ChangePreset'', msgDir = ''C2S'', msgID = 0x1987E061, msgFields =
     [Field ''m_presetType'' ty_Byte,
     Field ''m_selectPresetSlot'' ty_Byte]\<rparr>),
    (0x2A4EEA68, \<lparr>msgName = ''C2S_ChangeSubClass'', msgDir = ''C2S'', msgID = 0x2A4EEA68, msgFields =
     [Field ''m_selectSubClassType'' ty_Byte,
     Field ''m_npcBatchIndex'' ty_Int32]\<rparr>),
    (0x01B6F9CE, \<lparr>msgName = ''C2S_ChatMsg'', msgDir = ''C2S'', msgID = 0x01B6F9CE, msgFields =
     [Field ''m_chatType'' ty_Byte,
     Field ''m_chatMsg'' ty_String,
     Field ''m_toPlayerName'' ty_String,
     Field ''m_languageType'' ty_Byte]\<rparr>),
    (0x324D717B, \<lparr>msgName = ''C2S_CheatKeyCommand'', msgDir = ''C2S'', msgID = 0x324D717B, msgFields =
     [Field ''m_command'' ty_String,
     Field ''m_param'' ty_String,
     Field ''m_targetOID'' ty_Int64]\<rparr>),
    (0x2E168C10, \<lparr>msgName = ''C2S_CheckGuildName'', msgDir = ''C2S'', msgID = 0x2E168C10, msgFields =
     [Field ''m_guildName'' ty_Chars]\<rparr>),
    (0x06C1747A, \<lparr>msgName = ''C2S_CollectionCountReward'', msgDir = ''C2S'', msgID = 0x06C1747A, msgFields =
     [Field ''m_countInfo'' ty_CollectionCountInfo]\<rparr>),
    (0x0CDA8312, \<lparr>msgName = ''C2S_CollectionCountRewardList'', msgDir = ''C2S'', msgID = 0x0CDA8312, msgFields =
     []\<rparr>),
    (0x26976F8E, \<lparr>msgName = ''C2S_CommissionQuestRefresh'', msgDir = ''C2S'', msgID = 0x26976F8E, msgFields =
     [Field ''m_moneyType'' ty_Byte]\<rparr>),
    (0x1BF97245, \<lparr>msgName = ''C2S_ConquestDungeonAccept'', msgDir = ''C2S'', msgID = 0x1BF97245, msgFields =
     [Field ''m_npcIndex'' ty_Int32,
     Field ''m_mapIndex'' ty_Int32,
     Field ''m_targetGuildOID'' ty_Int64,
     Field ''m_isAccept'' ty_Boolean]\<rparr>),
    (0x10F85676, \<lparr>msgName = ''C2S_ConquestDungeonApply'', msgDir = ''C2S'', msgID = 0x10F85676, msgFields =
     [Field ''m_npcIndex'' ty_Int32,
     Field ''m_mapIndex'' ty_Int32,
     Field ''m_isCancel'' ty_Boolean,
     Field ''m_applyCost'' ty_Int64]\<rparr>),
    (0x3601334B, \<lparr>msgName = ''C2S_ConquestDungeonChangeCost'', msgDir = ''C2S'', msgID = 0x3601334B, msgFields =
     [Field ''m_npcIndex'' ty_Int32,
     Field ''m_mapIndex'' ty_Int32,
     Field ''m_applyCost'' ty_Int64]\<rparr>),
    (0x2E54A925, \<lparr>msgName = ''C2S_ConquestDungeonChangeLock'', msgDir = ''C2S'', msgID = 0x2E54A925, msgFields =
     [Field ''m_npcIndex'' ty_Int32,
     Field ''m_mapIndex'' ty_Int32,
     Field ''m_applyLock'' ty_Boolean]\<rparr>),
    (0x26143FF7, \<lparr>msgName = ''C2S_ConquestDungeonDetail'', msgDir = ''C2S'', msgID = 0x26143FF7, msgFields =
     [Field ''m_npcIndex'' ty_Int32,
     Field ''m_mapIndex'' ty_Int32]\<rparr>),
    (0x256795C6, \<lparr>msgName = ''C2S_ConquestDungeonList'', msgDir = ''C2S'', msgID = 0x256795C6, msgFields =
     []\<rparr>),
    (0x1F6AC37E, \<lparr>msgName = ''C2S_ConquestDungeonSimpleInfo'', msgDir = ''C2S'', msgID = 0x1F6AC37E, msgFields =
     [Field ''m_mapIndex'' ty_Int32]\<rparr>),
    (0x16752332, \<lparr>msgName = ''C2S_CostumeCollectionList'', msgDir = ''C2S'', msgID = 0x16752332, msgFields =
     []\<rparr>),
    (0x19797009, \<lparr>msgName = ''C2S_CostumeCompose'', msgDir = ''C2S'', msgID = 0x19797009, msgFields =
     [Field ''m_composeList'' ty_List_ComposeInputInfo,
     Field ''m_grade'' ty_Byte]\<rparr>)]"

definition messages_2 :: "(u32 \<times> message) list" where
  "messages_2 =
   [(0x092A8751, \<lparr>msgName = ''C2S_CostumeEquip'', msgDir = ''C2S'', msgID = 0x092A8751, msgFields =
     [Field ''m_costumeIndex'' ty_Int32]\<rparr>),
    (0x10E0D30B, \<lparr>msgName = ''C2S_CostumeExtract'', msgDir = ''C2S'', msgID = 0x10E0D30B, msgFields =
     [Field ''m_costumeIndex'' ty_Int32,
     Field ''m_count'' ty_Int32]\<rparr>),
    (0x30133E89, \<lparr>msgName = ''C2S_CostumeFailedReward'', msgDir = ''C2S'', msgID = 0x30133E89, msgFields =
     [Field ''m_grade'' ty_Byte]\<rparr>),
    (0x3AB833A0, \<lparr>msgName = ''C2S_CostumeList'', msgDir = ''C2S'', msgID = 0x3AB833A0, msgFields =
     []\<rparr>),
    (0x2321406A, \<lparr>msgName = ''C2S_CostumeLookSet'', msgDir = ''C2S'', msgID = 0x2321406A, msgFields =
     [Field ''m_costumeIndex'' ty_Int32]\<rparr>),
    (0x23933A3A, \<lparr>msgName = ''C2S_CostumeReCompose'', msgDir = ''C2S'', msgID = 0x23933A3A, msgFields =
     [Field ''m_materialItemOID'' ty_Int64,
     Field ''m_grade'' ty_Byte]\<rparr>),
    (0x287EA831, \<lparr>msgName = ''C2S_CostumeReComposeCheck'', msgDir = ''C2S'', msgID = 0x287EA831, msgFields =
     [Field ''m_materialItemOID'' ty_Int64]\<rparr>),
    (0x05675370, \<lparr>msgName = ''C2S_CostumeRepick'', msgDir = ''C2S'', msgID = 0x05675370, msgFields =
     [Field ''m_index'' ty_Int64]\<rparr>),
    (0x20BD0321, \<lparr>msgName = ''C2S_CostumeRepickConfirm'', msgDir = ''C2S'', msgID = 0x20BD0321, msgFields =
     [Field ''m_index'' ty_Int64]\<rparr>),
    (0x366F511D, \<lparr>msgName = ''C2S_CostumeRepickList'', msgDir = ''C2S'', msgID = 0x366F511D, msgFields =
     []\<rparr>),
    (0x0B76FC17, \<lparr>msgName = ''C2S_CostumeStepUp'', msgDir = ''C2S'', msgID = 0x0B76FC17, msgFields =
     [Field ''m_targetCostumeIndex'' ty_Int32,
     Field ''m_materialCostumeIndex'' ty_Int32]\<rparr>),
    (0x0DF49FC6, \<lparr>msgName = ''C2S_CostumeStepUpCountReward'', msgDir = ''C2S'', msgID = 0x0DF49FC6, msgFields =
     [Field ''m_grade'' ty_Byte,
     Field ''m_count'' ty_Int32]\<rparr>),
    (0x1CCC58DA, \<lparr>msgName = ''C2S_CostumeStepUpCountRewardList'', msgDir = ''C2S'', msgID = 0x1CCC58DA, msgFields =
     []\<rparr>),
    (0x18EB5FB1, \<lparr>msgName = ''C2S_CreateDummyPlayer'', msgDir = ''C2S'', msgID = 0x18EB5FB1, msgFields =
     [Field ''m_createType'' ty_Byte,
     Field ''m_name'' ty_Chars,
     Field ''m_classType'' ty_Byte,
     Field ''m_headType'' ty_Byte,
     Field ''m_level'' ty_Int32]\<rparr>),
    (0x3A009026, \<lparr>msgName = ''C2S_CreatePlayer'', msgDir = ''C2S'', msgID = 0x3A009026, msgFields =
     [Field ''m_name'' ty_Chars,
     Field ''m_classType'' ty_Byte,
     Field ''m_headType'' ty_Byte]\<rparr>),
    (0x26E196D2, \<lparr>msgName = ''C2S_CreatePlayerWithPreemption'', msgDir = ''C2S'', msgID = 0x26E196D2, msgFields =
     [Field ''m_classType'' ty_Byte,
     Field ''m_headType'' ty_Byte]\<rparr>),
    (0x1C3F75A1, \<lparr>msgName = ''C2S_CreditViewComplete'', msgDir = ''C2S'', msgID = 0x1C3F75A1, msgFields =
     []\<rparr>),
    (0x1C44B1ED, \<lparr>msgName = ''C2S_CrossTokenExchangeCancel'', msgDir = ''C2S'', msgID = 0x1C44B1ED, msgFields =
     []\<rparr>),
    (0x3A93ABEF, \<lparr>msgName = ''C2S_CrossTokenExchangeInfo'', msgDir = ''C2S'', msgID = 0x3A93ABEF, msgFields =
     []\<rparr>),
    (0x29EDC1C1, \<lparr>msgName = ''C2S_CrossWalletInfo'', msgDir = ''C2S'', msgID = 0x29EDC1C1, msgFields =
     []\<rparr>),
    (0x051EC147, \<lparr>msgName = ''C2S_DeleteItem'', msgDir = ''C2S'', msgID = 0x051EC147, msgFields =
     [Field ''m_itemOID'' ty_Int64,
     Field ''m_itemCount'' ty_Int32]\<rparr>),
    (0x31A054F5, \<lparr>msgName = ''C2S_DeletePlayer'', msgDir = ''C2S'', msgID = 0x31A054F5, msgFields =
     [Field ''m_playerSlotIndex'' ty_Byte]\<rparr>),
    (0x2F9390CE, \<lparr>msgName = ''C2S_DeletePlayerCancel'', msgDir = ''C2S'', msgID = 0x2F9390CE, msgFields =
     [Field ''m_playerSlotIndex'' ty_Byte]\<rparr>),
    (0x38C00BA1, \<lparr>msgName = ''C2S_DoGoldenBell'', msgDir = ''C2S'', msgID = 0x38C00BA1, msgFields =
     [Field ''m_goldenBellIndex'' ty_Int32,
     Field ''m_isHideChar'' ty_Boolean]\<rparr>),
    (0x0E41A8AE, \<lparr>msgName = ''C2S_DominionBriefList'', msgDir = ''C2S'', msgID = 0x0E41A8AE, msgFields =
     []\<rparr>),
    (0x07389AD3, \<lparr>msgName = ''C2S_DominionExit'', msgDir = ''C2S'', msgID = 0x07389AD3, msgFields =
     []\<rparr>),
    (0x218F82E2, \<lparr>msgName = ''C2S_DominionInfo'', msgDir = ''C2S'', msgID = 0x218F82E2, msgFields =
     [Field ''m_mapIndex'' ty_Int32]\<rparr>),
    (0x0580F138, \<lparr>msgName = ''C2S_DominionReward'', msgDir = ''C2S'', msgID = 0x0580F138, msgFields =
     []\<rparr>),
    (0x036345AD, \<lparr>msgName = ''C2S_DominionSetColor'', msgDir = ''C2S'', msgID = 0x036345AD, msgFields =
     [Field ''m_colorIndex'' ty_Byte]\<rparr>),
    (0x2002D12D, \<lparr>msgName = ''C2S_DominionSubscription'', msgDir = ''C2S'', msgID = 0x2002D12D, msgFields =
     [Field ''m_mapIndex'' ty_Int32]\<rparr>),
    (0x39D9524E, \<lparr>msgName = ''C2S_DominionTaxList'', msgDir = ''C2S'', msgID = 0x39D9524E, msgFields =
     []\<rparr>),
    (0x0BBE89C4, \<lparr>msgName = ''C2S_DominionTaxRateChange'', msgDir = ''C2S'', msgID = 0x0BBE89C4, msgFields =
     [Field ''m_nextTaxRate'' ty_Byte,
     Field ''m_mapList'' ty_List_Int32]\<rparr>),
    (0x2CE9F917, \<lparr>msgName = ''C2S_EngraveSoulStone'', msgDir = ''C2S'', msgID = 0x2CE9F917, msgFields =
     [Field ''m_presetSlot'' ty_Byte,
     Field ''m_soulStoneIndex'' ty_Int32,
     Field ''m_slotIndex'' ty_Byte]\<rparr>),
    (0x0A8477ED, \<lparr>msgName = ''C2S_EnterWorld'', msgDir = ''C2S'', msgID = 0x0A8477ED, msgFields =
     [Field ''m_playerSlotIndex'' ty_Byte]\<rparr>),
    (0x356C2B7A, \<lparr>msgName = ''C2S_EntertainmentList'', msgDir = ''C2S'', msgID = 0x356C2B7A, msgFields =
     [Field ''m_entIndex'' ty_Int32]\<rparr>),
    (0x38A44F79, \<lparr>msgName = ''C2S_EntertainmentPlay'', msgDir = ''C2S'', msgID = 0x38A44F79, msgFields =
     [Field ''m_entIndex'' ty_Int32,
     Field ''m_costValue'' ty_Int32]\<rparr>),
    (0x24C42973, \<lparr>msgName = ''C2S_EquipItem'', msgDir = ''C2S'', msgID = 0x24C42973, msgFields =
     [Field ''m_equipSlot'' ty_Byte,
     Field ''m_itemOID'' ty_Int64]\<rparr>),
    (0x21664473, \<lparr>msgName = ''C2S_EventGameBingoBoard'', msgDir = ''C2S'', msgID = 0x21664473, msgFields =
     [Field ''m_eventIndex'' ty_Int32]\<rparr>),
    (0x281BBE08, \<lparr>msgName = ''C2S_EventGameBingoBoardOpen'', msgDir = ''C2S'', msgID = 0x281BBE08, msgFields =
     [Field ''m_eventIndex'' ty_Int32,
     Field ''m_itemOID'' ty_Int64]\<rparr>),
    (0x38A067F0, \<lparr>msgName = ''C2S_EventGameBingoBoardReward'', msgDir = ''C2S'', msgID = 0x38A067F0, msgFields =
     [Field ''m_eventIndex'' ty_Int32,
     Field ''m_lineNum'' ty_Int32]\<rparr>),
    (0x328C6A7F, \<lparr>msgName = ''C2S_EventGameNotifyList'', msgDir = ''C2S'', msgID = 0x328C6A7F, msgFields =
     []\<rparr>),
    (0x165986BD, \<lparr>msgName = ''C2S_EventGameRandomBox'', msgDir = ''C2S'', msgID = 0x165986BD, msgFields =
     [Field ''m_eventIndex'' ty_Int32]\<rparr>),
    (0x06B54944, \<lparr>msgName = ''C2S_EventGameRandomBoxOpen'', msgDir = ''C2S'', msgID = 0x06B54944, msgFields =
     [Field ''m_eventIndex'' ty_Int32,
     Field ''m_itemOID'' ty_Int64]\<rparr>),
    (0x24F2F7C9, \<lparr>msgName = ''C2S_EventGameRandomBoxReset'', msgDir = ''C2S'', msgID = 0x24F2F7C9, msgFields =
     [Field ''m_eventIndex'' ty_Int32]\<rparr>),
    (0x1FB260DD, \<lparr>msgName = ''C2S_EventMissionList'', msgDir = ''C2S'', msgID = 0x1FB260DD, msgFields =
     []\<rparr>),
    (0x3A54AF50, \<lparr>msgName = ''C2S_EventMissionReward'', msgDir = ''C2S'', msgID = 0x3A54AF50, msgFields =
     [Field ''m_index'' ty_Int32,
     Field ''m_type'' ty_Byte]\<rparr>),
    (0x1272C57F, \<lparr>msgName = ''C2S_ExitWorld'', msgDir = ''C2S'', msgID = 0x1272C57F, msgFields =
     []\<rparr>),
    (0x1088AE47, \<lparr>msgName = ''C2S_FriendDelete'', msgDir = ''C2S'', msgID = 0x1088AE47, msgFields =
     [Field ''m_targetPlayerOID'' ty_Int64]\<rparr>),
    (0x1A61AABF, \<lparr>msgName = ''C2S_FriendRequest'', msgDir = ''C2S'', msgID = 0x1A61AABF, msgFields =
     [Field ''m_targetPlayerOID'' ty_Int64,
     Field ''m_targetPlayerName'' ty_String]\<rparr>),
    (0x2C31CBB0, \<lparr>msgName = ''C2S_FriendRequestCancel'', msgDir = ''C2S'', msgID = 0x2C31CBB0, msgFields =
     [Field ''m_targetPlayerOID'' ty_Int64]\<rparr>),
    (0x20724726, \<lparr>msgName = ''C2S_FriendRequestReply'', msgDir = ''C2S'', msgID = 0x20724726, msgFields =
     [Field ''m_accept'' ty_Boolean,
     Field ''m_targetPlayerOID'' ty_Int64]\<rparr>)]"

definition messages_3 :: "(u32 \<times> message) list" where
  "messages_3 =
   [(0x1CE8214E, \<lparr>msgName = ''C2S_GameGuardCheck'', msgDir = ''C2S'', msgID = 0x1CE8214E, msgFields =
     [Field ''m_responseKey'' ty_Byte_arr,
     Field ''m_keySize'' ty_UInt32,
     Field ''m_serverNum'' ty_Int32]\<rparr>),
    (0x164358BC, \<lparr>msgName = ''C2S_GuardDisband'', msgDir = ''C2S'', msgID = 0x164358BC, msgFields =
     [Field ''m_isSelf'' ty_Boolean,
     Field ''m_targetPlayerOID'' ty_Int64]\<rparr>),
    (0x1D571A7E, \<lparr>msgName = ''C2S_GuardExtension'', msgDir = ''C2S'', msgID = 0x1D571A7E, msgFields =
     []\<rparr>),
    (0x09502437, \<lparr>msgName = ''C2S_GuardGuildGrowthReward'', msgDir = ''C2S'', msgID = 0x09502437, msgFields =
     []\<rparr>),
    (0x116ABD89, \<lparr>msgName = ''C2S_GuardGuildList'', msgDir = ''C2S'', msgID = 0x116ABD89, msgFields =
     []\<rparr>),
    (0x2E4BC77C, \<lparr>msgName = ''C2S_GuardHelpRequest'', msgDir = ''C2S'', msgID = 0x2E4BC77C, msgFields =
     []\<rparr>),
    (0x0A0B85AF, \<lparr>msgName = ''C2S_GuardHelpResponse'', msgDir = ''C2S'', msgID = 0x0A0B85AF, msgFields =
     [Field ''m_targetAccountOID'' ty_Int64,
     Field ''m_targetPlayerOID'' ty_Int64]\<rparr>),
    (0x03BC83A5, \<lparr>msgName = ''C2S_GuardMyInfo'', msgDir = ''C2S'', msgID = 0x03BC83A5, msgFields =
     []\<rparr>),
    (0x0265F369, \<lparr>msgName = ''C2S_GuardRequest'', msgDir = ''C2S'', msgID = 0x0265F369, msgFields =
     [Field ''m_guildOID'' ty_Int64]\<rparr>),
    (0x3AECF4ED, \<lparr>msgName = ''C2S_GuardRequestAnswer'', msgDir = ''C2S'', msgID = 0x3AECF4ED, msgFields =
     [Field ''m_targetPlayerOID'' ty_Int64,
     Field ''m_isAccept'' ty_Boolean]\<rparr>),
    (0x1A77FBF7, \<lparr>msgName = ''C2S_GuardRequestCancel'', msgDir = ''C2S'', msgID = 0x1A77FBF7, msgFields =
     [Field ''m_guildOID'' ty_Int64]\<rparr>),
    (0x3814BD2E, \<lparr>msgName = ''C2S_GuardUserGrowthReward'', msgDir = ''C2S'', msgID = 0x3814BD2E, msgFields =
     []\<rparr>),
    (0x0DBBC0BB, \<lparr>msgName = ''C2S_GuildAddHostile'', msgDir = ''C2S'', msgID = 0x0DBBC0BB, msgFields =
     [Field ''m_guildDBID'' ty_Int64,
     Field ''m_memoType'' ty_Byte]\<rparr>),
    (0x269AEA46, \<lparr>msgName = ''C2S_GuildAddWorldRelation'', msgDir = ''C2S'', msgID = 0x269AEA46, msgFields =
     [Field ''m_relationType'' ty_Byte,
     Field ''m_targetWorldID'' ty_Int32,
     Field ''m_targetType'' ty_Byte,
     Field ''m_targetOID'' ty_Int64]\<rparr>),
    (0x330714A3, \<lparr>msgName = ''C2S_GuildAgitRent'', msgDir = ''C2S'', msgID = 0x330714A3, msgFields =
     [Field ''m_npcShopBatchIndex'' ty_Int32,
     Field ''m_shopSlotIndex'' ty_Byte]\<rparr>),
    (0x0AF1A481, \<lparr>msgName = ''C2S_GuildAttendanceInfo'', msgDir = ''C2S'', msgID = 0x0AF1A481, msgFields =
     []\<rparr>),
    (0x20EBD73E, \<lparr>msgName = ''C2S_GuildBuffBuy'', msgDir = ''C2S'', msgID = 0x20EBD73E, msgFields =
     [Field ''m_slotIndex'' ty_Byte,
     Field ''m_isUseItem'' ty_Boolean]\<rparr>),
    (0x375B5D98, \<lparr>msgName = ''C2S_GuildCancelAlliance'', msgDir = ''C2S'', msgID = 0x375B5D98, msgFields =
     [Field ''m_guildDBID'' ty_Int64]\<rparr>),
    (0x32BDE678, \<lparr>msgName = ''C2S_GuildCancelHostile'', msgDir = ''C2S'', msgID = 0x32BDE678, msgFields =
     [Field ''m_guildDBID'' ty_Int64]\<rparr>),
    (0x020D68D6, \<lparr>msgName = ''C2S_GuildContentResearchEnchant'', msgDir = ''C2S'', msgID = 0x020D68D6, msgFields =
     [Field ''m_contentGroupIndex'' ty_Int32,
     Field ''m_guildLabIndex'' ty_Int32,
     Field ''m_enchantCount'' ty_Int32]\<rparr>),
    (0x1347D8F9, \<lparr>msgName = ''C2S_GuildContentResearchList'', msgDir = ''C2S'', msgID = 0x1347D8F9, msgFields =
     []\<rparr>),
    (0x1CAAAC02, \<lparr>msgName = ''C2S_GuildContentResearchRecommendUpdate'', msgDir = ''C2S'', msgID = 0x1CAAAC02, msgFields =
     [Field ''m_contentGroupIndex'' ty_Int32,
     Field ''m_guildLabIndex'' ty_Int32,
     Field ''m_isRecommend'' ty_Boolean]\<rparr>),
    (0x347BC133, \<lparr>msgName = ''C2S_GuildCreate'', msgDir = ''C2S'', msgID = 0x347BC133, msgFields =
     [Field ''m_markIndex'' ty_Int32,
     Field ''m_tendencyTag'' ty_UInt16,
     Field ''m_joinType'' ty_Byte,
     Field ''m_guildName'' ty_Chars]\<rparr>),
    (0x1011C709, \<lparr>msgName = ''C2S_GuildDisband'', msgDir = ''C2S'', msgID = 0x1011C709, msgFields =
     []\<rparr>),
    (0x0CF6A120, \<lparr>msgName = ''C2S_GuildDisbandAlliance'', msgDir = ''C2S'', msgID = 0x0CF6A120, msgFields =
     [Field ''m_guildDBID'' ty_Int64]\<rparr>),
    (0x376E37AC, \<lparr>msgName = ''C2S_GuildDistributionContribution'', msgDir = ''C2S'', msgID = 0x376E37AC, msgFields =
     [Field ''m_activeTypeList'' ty_List_GuildContributeTypeInfo]\<rparr>),
    (0x14936E70, \<lparr>msgName = ''C2S_GuildDistributionDetailInfo'', msgDir = ''C2S'', msgID = 0x14936E70, msgFields =
     []\<rparr>),
    (0x272F2981, \<lparr>msgName = ''C2S_GuildDistributionExecute'', msgDir = ''C2S'', msgID = 0x272F2981, msgFields =
     [Field ''m_cancel'' ty_Boolean]\<rparr>),
    (0x20EC3360, \<lparr>msgName = ''C2S_GuildDistributionInfo'', msgDir = ''C2S'', msgID = 0x20EC3360, msgFields =
     [Field ''m_thisWeek'' ty_Boolean]\<rparr>),
    (0x0D4865DC, \<lparr>msgName = ''C2S_GuildDistributionMoney'', msgDir = ''C2S'', msgID = 0x0D4865DC, msgFields =
     [Field ''m_money'' ty_GuildDistributionMoneyInfo]\<rparr>),
    (0x1BAACB05, \<lparr>msgName = ''C2S_GuildDistributionType'', msgDir = ''C2S'', msgID = 0x1BAACB05, msgFields =
     [Field ''m_type'' ty_Byte,
     Field ''m_selectMemberList'' ty_List_Int64]\<rparr>),
    (0x12EBBFC0, \<lparr>msgName = ''C2S_GuildDonate'', msgDir = ''C2S'', msgID = 0x12EBBFC0, msgFields =
     [Field ''m_donationPropertyType'' ty_Byte,
     Field ''m_donationCount'' ty_Byte]\<rparr>),
    (0x2EF6AA07, \<lparr>msgName = ''C2S_GuildDonationCount'', msgDir = ''C2S'', msgID = 0x2EF6AA07, msgFields =
     []\<rparr>),
    (0x00F05D89, \<lparr>msgName = ''C2S_GuildDungeonList'', msgDir = ''C2S'', msgID = 0x00F05D89, msgFields =
     []\<rparr>),
    (0x2C6CDB76, \<lparr>msgName = ''C2S_GuildDungeonOpen'', msgDir = ''C2S'', msgID = 0x2C6CDB76, msgFields =
     [Field ''m_dungeonIndex'' ty_Int32,
     Field ''m_attributeType'' ty_Int32]\<rparr>),
    (0x366E0874, \<lparr>msgName = ''C2S_GuildGuardInfo'', msgDir = ''C2S'', msgID = 0x366E0874, msgFields =
     []\<rparr>),
    (0x28CFE3C1, \<lparr>msgName = ''C2S_GuildHistoryGift'', msgDir = ''C2S'', msgID = 0x28CFE3C1, msgFields =
     [Field ''m_historyDBID'' ty_Int64,
     Field ''m_giftIndex'' ty_Int32]\<rparr>),
    (0x2B74F7A1, \<lparr>msgName = ''C2S_GuildHistoryList'', msgDir = ''C2S'', msgID = 0x2B74F7A1, msgFields =
     [Field ''m_requestPage'' ty_Byte,
     Field ''m_lastHistoryDBID'' ty_Int64]\<rparr>),
    (0x35A3CD2B, \<lparr>msgName = ''C2S_GuildHostileFunctionAdd'', msgDir = ''C2S'', msgID = 0x35A3CD2B, msgFields =
     [Field ''m_hostileGuildOID'' ty_Int64,
     Field ''m_functionIndex'' ty_Int32]\<rparr>),
    (0x312BD2D2, \<lparr>msgName = ''C2S_GuildHostileFunctionDelete'', msgDir = ''C2S'', msgID = 0x312BD2D2, msgFields =
     [Field ''m_hostileGuildOID'' ty_Int64,
     Field ''m_functionIndex'' ty_Int32]\<rparr>),
    (0x08E58D75, \<lparr>msgName = ''C2S_GuildIntroUpdate'', msgDir = ''C2S'', msgID = 0x08E58D75, msgFields =
     [Field ''m_intro'' ty_String]\<rparr>),
    (0x29C98410, \<lparr>msgName = ''C2S_GuildJoin'', msgDir = ''C2S'', msgID = 0x29C98410, msgFields =
     [Field ''m_guildOID'' ty_Int64,
     Field ''m_intro'' ty_String]\<rparr>),
    (0x32DF6D4F, \<lparr>msgName = ''C2S_GuildJoinRequestAnswer'', msgDir = ''C2S'', msgID = 0x32DF6D4F, msgFields =
     [Field ''m_requestPlayerOID'' ty_Int64,
     Field ''m_isAccept'' ty_Boolean]\<rparr>),
    (0x3B09E61C, \<lparr>msgName = ''C2S_GuildJoinRequestCancel'', msgDir = ''C2S'', msgID = 0x3B09E61C, msgFields =
     [Field ''m_requestGuildOID'' ty_Int64]\<rparr>),
    (0x292C5531, \<lparr>msgName = ''C2S_GuildJoinRequestGuildList'', msgDir = ''C2S'', msgID = 0x292C5531, msgFields =
     []\<rparr>),
    (0x2A33B3BB, \<lparr>msgName = ''C2S_GuildJoinRequestPlayerList'', msgDir = ''C2S'', msgID = 0x2A33B3BB, msgFields =
     []\<rparr>),
    (0x1CCB7CBB, \<lparr>msgName = ''C2S_GuildList'', msgDir = ''C2S'', msgID = 0x1CCB7CBB, msgFields =
     [Field ''m_type'' ty_Byte,
     Field ''m_searchGuildName'' ty_String]\<rparr>),
    (0x2A969791, \<lparr>msgName = ''C2S_GuildManageAttendanceGift'', msgDir = ''C2S'', msgID = 0x2A969791, msgFields =
     []\<rparr>),
    (0x3332426B, \<lparr>msgName = ''C2S_GuildMarkUpdate'', msgDir = ''C2S'', msgID = 0x3332426B, msgFields =
     [Field ''m_newMarkIndex'' ty_Int32]\<rparr>),
    (0x263AD208, \<lparr>msgName = ''C2S_GuildMasterDelegate'', msgDir = ''C2S'', msgID = 0x263AD208, msgFields =
     [Field ''m_delegateePlayerOID'' ty_Int64]\<rparr>),
    (0x3500D1DA, \<lparr>msgName = ''C2S_GuildMemberExpel'', msgDir = ''C2S'', msgID = 0x3500D1DA, msgFields =
     [Field ''m_expelleePlayerOID'' ty_Int64]\<rparr>)]"

definition messages_4 :: "(u32 \<times> message) list" where
  "messages_4 =
   [(0x01626835, \<lparr>msgName = ''C2S_GuildMemberGradeUpdate'', msgDir = ''C2S'', msgID = 0x01626835, msgFields =
     [Field ''m_memberPlayerOID'' ty_Int64,
     Field ''m_memberGrade'' ty_Byte]\<rparr>),
    (0x1E91CB3E, \<lparr>msgName = ''C2S_GuildMemberList'', msgDir = ''C2S'', msgID = 0x1E91CB3E, msgFields =
     []\<rparr>),
    (0x2B5C6A34, \<lparr>msgName = ''C2S_GuildModifyRelationMemo'', msgDir = ''C2S'', msgID = 0x2B5C6A34, msgFields =
     [Field ''m_guildDBID'' ty_Int64,
     Field ''m_relationType'' ty_Byte,
     Field ''m_memoType'' ty_Byte]\<rparr>),
    (0x063CEC34, \<lparr>msgName = ''C2S_GuildMyIntroUpdate'', msgDir = ''C2S'', msgID = 0x063CEC34, msgFields =
     [Field ''m_myIntro'' ty_String]\<rparr>),
    (0x16223B86, \<lparr>msgName = ''C2S_GuildNoticeUpdate'', msgDir = ''C2S'', msgID = 0x16223B86, msgFields =
     [Field ''m_notice'' ty_String]\<rparr>),
    (0x05AE46C2, \<lparr>msgName = ''C2S_GuildOpenAttendanceGift'', msgDir = ''C2S'', msgID = 0x05AE46C2, msgFields =
     [Field ''m_guildGiftIndex'' ty_Int32]\<rparr>),
    (0x177A74BD, \<lparr>msgName = ''C2S_GuildPVPRecordList'', msgDir = ''C2S'', msgID = 0x177A74BD, msgFields =
     []\<rparr>),
    (0x38714286, \<lparr>msgName = ''C2S_GuildQuestList'', msgDir = ''C2S'', msgID = 0x38714286, msgFields =
     []\<rparr>),
    (0x0845DA4B, \<lparr>msgName = ''C2S_GuildRelationList'', msgDir = ''C2S'', msgID = 0x0845DA4B, msgFields =
     [Field ''m_isWorldRelation'' ty_Boolean,
     Field ''m_relationType'' ty_Byte]\<rparr>),
    (0x2B45839E, \<lparr>msgName = ''C2S_GuildRelationSearch'', msgDir = ''C2S'', msgID = 0x2B45839E, msgFields =
     [Field ''m_relationType'' ty_Byte,
     Field ''m_searchWord'' ty_Chars]\<rparr>),
    (0x2A63B2BC, \<lparr>msgName = ''C2S_GuildRemoveWorldRelation'', msgDir = ''C2S'', msgID = 0x2A63B2BC, msgFields =
     [Field ''m_relationType'' ty_Byte,
     Field ''m_targetWorldID'' ty_Int32,
     Field ''m_targetGuildOID'' ty_Int64]\<rparr>),
    (0x0536F86E, \<lparr>msgName = ''C2S_GuildRequestAlliance'', msgDir = ''C2S'', msgID = 0x0536F86E, msgFields =
     [Field ''m_guildDBID'' ty_Int64,
     Field ''m_memoType'' ty_Byte]\<rparr>),
    (0x3889EC9A, \<lparr>msgName = ''C2S_GuildResponseAskedAlliance'', msgDir = ''C2S'', msgID = 0x3889EC9A, msgFields =
     [Field ''m_guildDBID'' ty_Int64,
     Field ''m_memoType'' ty_Byte,
     Field ''m_response'' ty_Boolean]\<rparr>),
    (0x3AC92ED7, \<lparr>msgName = ''C2S_GuildSettingUpdate'', msgDir = ''C2S'', msgID = 0x3AC92ED7, msgFields =
     [Field ''m_tendencyTag'' ty_UInt16,
     Field ''m_joinType'' ty_Byte]\<rparr>),
    (0x1C0D5D94, \<lparr>msgName = ''C2S_GuildSharePosition'', msgDir = ''C2S'', msgID = 0x1C0D5D94, msgFields =
     [Field ''m_mapIndex'' ty_Int32,
     Field ''m_posX'' ty_Single,
     Field ''m_posZ'' ty_Single]\<rparr>),
    (0x206134A3, \<lparr>msgName = ''C2S_GuildShopAddDominionProduct'', msgDir = ''C2S'', msgID = 0x206134A3, msgFields =
     [Field ''m_dominionMapIndex'' ty_Int32,
     Field ''m_shopItemIndex'' ty_Int32,
     Field ''m_addCount'' ty_Int32]\<rparr>),
    (0x35CCE135, \<lparr>msgName = ''C2S_GuildShopBuyItem'', msgDir = ''C2S'', msgID = 0x35CCE135, msgFields =
     [Field ''m_npcShopBatchIndex'' ty_Int32,
     Field ''m_shopItemIndex'' ty_Int32,
     Field ''m_buyCount'' ty_Int32]\<rparr>),
    (0x0BE1FF84, \<lparr>msgName = ''C2S_GuildShopDominionProductInfo'', msgDir = ''C2S'', msgID = 0x0BE1FF84, msgFields =
     [Field ''m_shopItemIndex'' ty_Int32]\<rparr>),
    (0x04B51DAB, \<lparr>msgName = ''C2S_GuildShopGrant'', msgDir = ''C2S'', msgID = 0x04B51DAB, msgFields =
     [Field ''m_shopItemIndex'' ty_Int32,
     Field ''m_enableGrade'' ty_Byte,
     Field ''m_enablePlayerOID'' ty_Int64]\<rparr>),
    (0x220D9620, \<lparr>msgName = ''C2S_GuildShopItemList'', msgDir = ''C2S'', msgID = 0x220D9620, msgFields =
     [Field ''m_npcShopBatchIndex'' ty_Int32]\<rparr>),
    (0x3B1F0D1F, \<lparr>msgName = ''C2S_GuildShopManage'', msgDir = ''C2S'', msgID = 0x3B1F0D1F, msgFields =
     []\<rparr>),
    (0x0A9BA3FD, \<lparr>msgName = ''C2S_GuildShopRegisterItem'', msgDir = ''C2S'', msgID = 0x0A9BA3FD, msgFields =
     [Field ''m_shopItemIndex'' ty_Int32,
     Field ''m_buyCount'' ty_Int32]\<rparr>),
    (0x23F42CFC, \<lparr>msgName = ''C2S_GuildSimpleInfo'', msgDir = ''C2S'', msgID = 0x23F42CFC, msgFields =
     [Field ''m_guildOID'' ty_Int64]\<rparr>),
    (0x2D950008, \<lparr>msgName = ''C2S_GuildTakeAttendanceGift'', msgDir = ''C2S'', msgID = 0x2D950008, msgFields =
     []\<rparr>),
    (0x00B2BDF7, \<lparr>msgName = ''C2S_GuildTakeAttendanceReward'', msgDir = ''C2S'', msgID = 0x00B2BDF7, msgFields =
     []\<rparr>),
    (0x066E7730, \<lparr>msgName = ''C2S_GuildTakeDominionMoney'', msgDir = ''C2S'', msgID = 0x066E7730, msgFields =
     [Field ''m_dominionMapIndex'' ty_Int32,
     Field ''m_propertySubType'' ty_Byte]\<rparr>),
    (0x3888EF78, \<lparr>msgName = ''C2S_GuildUnionCreate'', msgDir = ''C2S'', msgID = 0x3888EF78, msgFields =
     [Field ''m_markIndex'' ty_Int32,
     Field ''m_unionName'' ty_Chars]\<rparr>),
    (0x22CD2A2F, \<lparr>msgName = ''C2S_GuildUnionDisband'', msgDir = ''C2S'', msgID = 0x22CD2A2F, msgFields =
     []\<rparr>),
    (0x37B3387B, \<lparr>msgName = ''C2S_GuildUnionExpel'', msgDir = ''C2S'', msgID = 0x37B3387B, msgFields =
     [Field ''m_expelGuildOID'' ty_Int64]\<rparr>),
    (0x2086B995, \<lparr>msgName = ''C2S_GuildUnionHostileAdd'', msgDir = ''C2S'', msgID = 0x2086B995, msgFields =
     [Field ''m_hostileUnionName'' ty_Chars]\<rparr>),
    (0x172F9F8E, \<lparr>msgName = ''C2S_GuildUnionHostileRemove'', msgDir = ''C2S'', msgID = 0x172F9F8E, msgFields =
     [Field ''m_hostileUnionOID'' ty_Int64]\<rparr>),
    (0x32E89348, \<lparr>msgName = ''C2S_GuildUnionInfo'', msgDir = ''C2S'', msgID = 0x32E89348, msgFields =
     []\<rparr>),
    (0x17831C16, \<lparr>msgName = ''C2S_GuildUnionInvite'', msgDir = ''C2S'', msgID = 0x17831C16, msgFields =
     [Field ''m_guildName'' ty_Chars]\<rparr>),
    (0x07CCC6BE, \<lparr>msgName = ''C2S_GuildUnionInviteAnswer'', msgDir = ''C2S'', msgID = 0x07CCC6BE, msgFields =
     [Field ''m_unionOID'' ty_Int64,
     Field ''m_isAccept'' ty_Boolean]\<rparr>),
    (0x32D0A62E, \<lparr>msgName = ''C2S_GuildUnionInviteCancel'', msgDir = ''C2S'', msgID = 0x32D0A62E, msgFields =
     [Field ''m_inviteeGuildOID'' ty_Int64]\<rparr>),
    (0x38F5B833, \<lparr>msgName = ''C2S_GuildUnionList'', msgDir = ''C2S'', msgID = 0x38F5B833, msgFields =
     [Field ''m_type'' ty_Byte,
     Field ''m_searchUnionName'' ty_String]\<rparr>),
    (0x2E9DDD77, \<lparr>msgName = ''C2S_GuildUnionMarkUpdate'', msgDir = ''C2S'', msgID = 0x2E9DDD77, msgFields =
     [Field ''m_newMarkIndex'' ty_Int32]\<rparr>),
    (0x3B0E898D, \<lparr>msgName = ''C2S_GuildUnionMasterDelegate'', msgDir = ''C2S'', msgID = 0x3B0E898D, msgFields =
     [Field ''m_delegateGuildOID'' ty_Int64]\<rparr>),
    (0x21360D01, \<lparr>msgName = ''C2S_GuildUnionWithdraw'', msgDir = ''C2S'', msgID = 0x21360D01, msgFields =
     []\<rparr>),
    (0x20EFF763, \<lparr>msgName = ''C2S_GuildWithdraw'', msgDir = ''C2S'', msgID = 0x20EFF763, msgFields =
     []\<rparr>),
    (0x04EB9C46, \<lparr>msgName = ''C2S_GuildWorldSearch'', msgDir = ''C2S'', msgID = 0x04EB9C46, msgFields =
     [Field ''m_relationType'' ty_Byte,
     Field ''m_searchWord'' ty_Chars]\<rparr>),
    (0x38CB72B8, \<lparr>msgName = ''C2S_HallOfHeroesList'', msgDir = ''C2S'', msgID = 0x38CB72B8, msgFields =
     []\<rparr>),
    (0x021450AB, \<lparr>msgName = ''C2S_HotDealSaleList'', msgDir = ''C2S'', msgID = 0x021450AB, msgFields =
     []\<rparr>),
    (0x2A350183, \<lparr>msgName = ''C2S_InventoryItemSorting'', msgDir = ''C2S'', msgID = 0x2A350183, msgFields =
     []\<rparr>),
    (0x186FEECF, \<lparr>msgName = ''C2S_InventorySlotExpansion'', msgDir = ''C2S'', msgID = 0x186FEECF, msgFields =
     [Field ''m_expansionSlotCount'' ty_UInt16,
     Field ''m_paymentMethod'' ty_Byte]\<rparr>),
    (0x35238F40, \<lparr>msgName = ''C2S_InvestSoulStone'', msgDir = ''C2S'', msgID = 0x35238F40, msgFields =
     [Field ''m_presetSlot'' ty_Byte,
     Field ''m_soulStoneIndex'' ty_Int32,
     Field ''m_slotIndex'' ty_Byte,
     Field ''m_costItemIndex'' ty_Int32]\<rparr>),
    (0x2A021262, \<lparr>msgName = ''C2S_ItemAwakening'', msgDir = ''C2S'', msgID = 0x2A021262, msgFields =
     [Field ''m_awakeningItemOID'' ty_Int64,
     Field ''m_materialList'' ty_List_Int64]\<rparr>),
    (0x2F5B4A9B, \<lparr>msgName = ''C2S_ItemCollectionList'', msgDir = ''C2S'', msgID = 0x2F5B4A9B, msgFields =
     []\<rparr>),
    (0x077573E9, \<lparr>msgName = ''C2S_ItemCompose'', msgDir = ''C2S'', msgID = 0x077573E9, msgFields =
     [Field ''m_slotTableIndex'' ty_Int32,
     Field ''m_materialItemOIDList'' ty_List_Int64]\<rparr>)]"

definition messages_5 :: "(u32 \<times> message) list" where
  "messages_5 =
   [(0x29F05F16, \<lparr>msgName = ''C2S_ItemComposeBoardInfo'', msgDir = ''C2S'', msgID = 0x29F05F16, msgFields =
     [Field ''m_isRefresh'' ty_Boolean]\<rparr>),
    (0x1362250D, \<lparr>msgName = ''C2S_ItemDissolve'', msgDir = ''C2S'', msgID = 0x1362250D, msgFields =
     [Field ''m_dissolveList'' ty_List_DissolveData]\<rparr>),
    (0x0D83EE30, \<lparr>msgName = ''C2S_ItemEnchant'', msgDir = ''C2S'', msgID = 0x0D83EE30, msgFields =
     [Field ''m_itemList'' ty_List_ItemEnchantRequest,
     Field ''m_materialList'' ty_List_Int64]\<rparr>),
    (0x0C59A2F3, \<lparr>msgName = ''C2S_ItemEryndorEnchant'', msgDir = ''C2S'', msgID = 0x0C59A2F3, msgFields =
     [Field ''m_itemList'' ty_List_Int64,
     Field ''m_materialList'' ty_List_Int64,
     Field ''m_isConfirmed'' ty_Boolean]\<rparr>),
    (0x34C1F2CC, \<lparr>msgName = ''C2S_ItemEryndorImprinting'', msgDir = ''C2S'', msgID = 0x34C1F2CC, msgFields =
     [Field ''m_materialList'' ty_List_Int64,
     Field ''m_protectType'' ty_List_Byte,
     Field ''m_protectMaterialType'' ty_Byte]\<rparr>),
    (0x3AFA08CF, \<lparr>msgName = ''C2S_ItemEryndorImprintingList'', msgDir = ''C2S'', msgID = 0x3AFA08CF, msgFields =
     []\<rparr>),
    (0x254160E1, \<lparr>msgName = ''C2S_ItemEryndorImprintingReset'', msgDir = ''C2S'', msgID = 0x254160E1, msgFields =
     [Field ''m_protectSlotIndex'' ty_List_Byte,
     Field ''m_protectMaterialType'' ty_Byte]\<rparr>),
    (0x2B951290, \<lparr>msgName = ''C2S_ItemEryndorPromotion'', msgDir = ''C2S'', msgID = 0x2B951290, msgFields =
     [Field ''m_targetItem'' ty_Int64,
     Field ''m_materialItemList'' ty_List_Int64]\<rparr>),
    (0x171A387D, \<lparr>msgName = ''C2S_ItemEryndorRegrant'', msgDir = ''C2S'', msgID = 0x171A387D, msgFields =
     [Field ''m_targetItem'' ty_Int64,
     Field ''m_materialItem'' ty_Int64,
     Field ''m_selectSlot'' ty_Int32]\<rparr>),
    (0x1810D590, \<lparr>msgName = ''C2S_ItemMake'', msgDir = ''C2S'', msgID = 0x1810D590, msgFields =
     [Field ''m_makeItemIndex'' ty_Int32,
     Field ''m_makeCount'' ty_Int32,
     Field ''m_belongType'' ty_Byte,
     Field ''m_alternateItemIndexList'' ty_List_Int32]\<rparr>),
    (0x2F15141A, \<lparr>msgName = ''C2S_ItemMakeLimitList'', msgDir = ''C2S'', msgID = 0x2F15141A, msgFields =
     [Field ''m_requestType'' ty_Byte]\<rparr>),
    (0x01BE8DCC, \<lparr>msgName = ''C2S_ItemMakeLimitListRefresh'', msgDir = ''C2S'', msgID = 0x01BE8DCC, msgFields =
     [Field ''m_requestType'' ty_Byte]\<rparr>),
    (0x07780D1C, \<lparr>msgName = ''C2S_ItemPickup'', msgDir = ''C2S'', msgID = 0x07780D1C, msgFields =
     [Field ''m_propertyEventType'' ty_Int32,
     Field ''m_itemOID'' ty_Int64]\<rparr>),
    (0x07604CB2, \<lparr>msgName = ''C2S_JewelCraft'', msgDir = ''C2S'', msgID = 0x07604CB2, msgFields =
     [Field ''m_sourceItemOID'' ty_Int64,
     Field ''m_jewelItemOID'' ty_Int64,
     Field ''m_jewelType'' ty_Byte,
     Field ''m_lockSlotIndexList'' ty_List_Byte]\<rparr>),
    (0x0FE64976, \<lparr>msgName = ''C2S_JewelCraftConfirm'', msgDir = ''C2S'', msgID = 0x0FE64976, msgFields =
     [Field ''m_sourceItemOID'' ty_Int64,
     Field ''m_isChangeOption'' ty_Boolean,
     Field ''m_jewelType'' ty_Byte]\<rparr>),
    (0x12DD9EFA, \<lparr>msgName = ''C2S_LegacyCollectionList'', msgDir = ''C2S'', msgID = 0x12DD9EFA, msgFields =
     []\<rparr>),
    (0x33D209B9, \<lparr>msgName = ''C2S_LevelupLegacyCollection'', msgDir = ''C2S'', msgID = 0x33D209B9, msgFields =
     [Field ''m_groupIndex'' ty_Int32,
     Field ''m_level'' ty_Byte]\<rparr>),
    (0x020CDD24, \<lparr>msgName = ''C2S_Login'', msgDir = ''C2S'', msgID = 0x020CDD24, msgFields =
     [Field ''m_accountCode'' ty_String,
     Field ''m_accountPW'' ty_String]\<rparr>),
    (0x37A7F889, \<lparr>msgName = ''C2S_Logout'', msgDir = ''C2S'', msgID = 0x37A7F889, msgFields =
     [Field ''m_sessionKey'' ty_Int32]\<rparr>),
    (0x1374431D, \<lparr>msgName = ''C2S_MapBuffOrderBuy'', msgDir = ''C2S'', msgID = 0x1374431D, msgFields =
     [Field ''m_limitGroupIndex'' ty_Int32,
     Field ''m_order'' ty_Int32]\<rparr>),
    (0x17F4A28B, \<lparr>msgName = ''C2S_MapBuffOrderInfo'', msgDir = ''C2S'', msgID = 0x17F4A28B, msgFields =
     [Field ''m_limitGroupIndex'' ty_Int32,
     Field ''m_mapIndex'' ty_Int32]\<rparr>),
    (0x25FCD5AD, \<lparr>msgName = ''C2S_MapEnter'', msgDir = ''C2S'', msgID = 0x25FCD5AD, msgFields =
     [Field ''m_mapIndex'' ty_Int32,
     Field ''m_batchIndex'' ty_Int32,
     Field ''m_warpToken'' ty_Int64]\<rparr>),
    (0x3005ECBD, \<lparr>msgName = ''C2S_MapEnterByReconnect'', msgDir = ''C2S'', msgID = 0x3005ECBD, msgFields =
     [Field ''m_mapIndex'' ty_Int32,
     Field ''m_pos'' ty_Vector,
     Field ''m_dir'' ty_Single]\<rparr>),
    (0x2D0C11E8, \<lparr>msgName = ''C2S_MapEnterComplete'', msgDir = ''C2S'', msgID = 0x2D0C11E8, msgFields =
     []\<rparr>),
    (0x00B131E9, \<lparr>msgName = ''C2S_MapEnterPreComplete'', msgDir = ''C2S'', msgID = 0x00B131E9, msgFields =
     []\<rparr>),
    (0x1C0B18CD, \<lparr>msgName = ''C2S_MapLimitNoti'', msgDir = ''C2S'', msgID = 0x1C0B18CD, msgFields =
     []\<rparr>),
    (0x081E3D17, \<lparr>msgName = ''C2S_MonolithEquipItem'', msgDir = ''C2S'', msgID = 0x081E3D17, msgFields =
     [Field ''m_slotType'' ty_Byte,
     Field ''m_itemOID'' ty_Int64]\<rparr>),
    (0x29493949, \<lparr>msgName = ''C2S_MonolithUnequipItem'', msgDir = ''C2S'', msgID = 0x29493949, msgFields =
     [Field ''m_slotType'' ty_Byte,
     Field ''m_itemOID'' ty_Int64]\<rparr>),
    (0x16442C9D, \<lparr>msgName = ''C2S_MonsterCollectionCategoryReward'', msgDir = ''C2S'', msgID = 0x16442C9D, msgFields =
     [Field ''m_categoryIndex'' ty_Int32]\<rparr>),
    (0x1B7F88CF, \<lparr>msgName = ''C2S_MonsterCollectionCompose'', msgDir = ''C2S'', msgID = 0x1B7F88CF, msgFields =
     [Field ''m_composeList'' ty_List_ComposeInputInfo]\<rparr>),
    (0x20400483, \<lparr>msgName = ''C2S_MonsterCollectionList'', msgDir = ''C2S'', msgID = 0x20400483, msgFields =
     []\<rparr>),
    (0x102CFE54, \<lparr>msgName = ''C2S_MonsterCollectionOptionReward'', msgDir = ''C2S'', msgID = 0x102CFE54, msgFields =
     [Field ''m_rewardInfo'' ty_MonsterCollectionOptionReward]\<rparr>),
    (0x12ACB15E, \<lparr>msgName = ''C2S_MonsterCollectionOptionRewardList'', msgDir = ''C2S'', msgID = 0x12ACB15E, msgFields =
     []\<rparr>),
    (0x22F00013, \<lparr>msgName = ''C2S_MonsterCollectionReAdd'', msgDir = ''C2S'', msgID = 0x22F00013, msgFields =
     [Field ''m_type'' ty_Byte,
     Field ''m_monsterIndex'' ty_Int32,
     Field ''m_itemOID'' ty_Int64,
     Field ''m_protectType'' ty_Byte,
     Field ''m_isAwakening'' ty_Boolean]\<rparr>),
    (0x269DAC9F, \<lparr>msgName = ''C2S_MonsterCollectionRewardedList'', msgDir = ''C2S'', msgID = 0x269DAC9F, msgFields =
     []\<rparr>),
    (0x12047E9A, \<lparr>msgName = ''C2S_MonsterCollectionSeal'', msgDir = ''C2S'', msgID = 0x12047E9A, msgFields =
     [Field ''m_monsterIndex'' ty_Int32,
     Field ''m_count'' ty_Int32]\<rparr>),
    (0x12F9AD6A, \<lparr>msgName = ''C2S_MonsterCollectionToRewardList'', msgDir = ''C2S'', msgID = 0x12F9AD6A, msgFields =
     []\<rparr>),
    (0x11FDA8AD, \<lparr>msgName = ''C2S_MonsterCollectionToggleLock'', msgDir = ''C2S'', msgID = 0x11FDA8AD, msgFields =
     [Field ''m_monsterIndex'' ty_Int32]\<rparr>),
    (0x229E8E27, \<lparr>msgName = ''C2S_MoveNotice'', msgDir = ''C2S'', msgID = 0x229E8E27, msgFields =
     [Field ''m_seq'' ty_Int32,
     Field ''m_dir'' ty_Single,
     Field ''m_currentPos'' ty_Vector,
     Field ''m_moveType'' ty_Byte,
     Field ''m_moveDir'' ty_Vector,
     Field ''m_movePath'' ty_List_Vector]\<rparr>),
    (0x0BEC463D, \<lparr>msgName = ''C2S_MyGuildInfo'', msgDir = ''C2S'', msgID = 0x0BEC463D, msgFields =
     []\<rparr>),
    (0x1A472D01, \<lparr>msgName = ''C2S_NetPing'', msgDir = ''C2S'', msgID = 0x1A472D01, msgFields =
     [Field ''m_pingTime'' ty_Int64]\<rparr>),
    (0x24D9B608, \<lparr>msgName = ''C2S_ObjectAppearNotice'', msgDir = ''C2S'', msgID = 0x24D9B608, msgFields =
     [Field ''m_objectOID'' ty_Int64]\<rparr>),
    (0x292F7313, \<lparr>msgName = ''C2S_OpenPaidAttendance'', msgDir = ''C2S'', msgID = 0x292F7313, msgFields =
     [Field ''m_index'' ty_Int32]\<rparr>),
    (0x002C0CFE, \<lparr>msgName = ''C2S_PVPRecordList'', msgDir = ''C2S'', msgID = 0x002C0CFE, msgFields =
     []\<rparr>)]"

definition messages_6 :: "(u32 \<times> message) list" where
  "messages_6 =
   [(0x2B08BA45, \<lparr>msgName = ''C2S_PVPRevenge'', msgDir = ''C2S'', msgID = 0x2B08BA45, msgFields =
     [Field ''m_pvpID'' ty_Int64]\<rparr>),
    (0x3349E61E, \<lparr>msgName = ''C2S_PVPRevengeCheck'', msgDir = ''C2S'', msgID = 0x3349E61E, msgFields =
     [Field ''m_pvpID'' ty_Int64,
     Field ''m_pvpType'' ty_Byte]\<rparr>),
    (0x28F3D267, \<lparr>msgName = ''C2S_ParcelHistoryList'', msgDir = ''C2S'', msgID = 0x28F3D267, msgFields =
     []\<rparr>),
    (0x01533322, \<lparr>msgName = ''C2S_ParcelList'', msgDir = ''C2S'', msgID = 0x01533322, msgFields =
     []\<rparr>),
    (0x3097B90F, \<lparr>msgName = ''C2S_ParcelTradeReply'', msgDir = ''C2S'', msgID = 0x3097B90F, msgFields =
     [Field ''m_parcelDBID'' ty_Int64,
     Field ''m_acceptTrade'' ty_Boolean]\<rparr>),
    (0x1888F546, \<lparr>msgName = ''C2S_PartyAcceptNoti'', msgDir = ''C2S'', msgID = 0x1888F546, msgFields =
     [Field ''m_type'' ty_Byte]\<rparr>),
    (0x2CCC0E6F, \<lparr>msgName = ''C2S_PartyCancelNoti'', msgDir = ''C2S'', msgID = 0x2CCC0E6F, msgFields =
     [Field ''m_inviteeOID'' ty_Int64]\<rparr>),
    (0x3ACEE854, \<lparr>msgName = ''C2S_PartyDungeonEnter'', msgDir = ''C2S'', msgID = 0x3ACEE854, msgFields =
     [Field ''m_mapIndex'' ty_Int32]\<rparr>),
    (0x0A18E857, \<lparr>msgName = ''C2S_PartyDungeonEntryStatus'', msgDir = ''C2S'', msgID = 0x0A18E857, msgFields =
     []\<rparr>),
    (0x2CBB6C9C, \<lparr>msgName = ''C2S_PartyExist'', msgDir = ''C2S'', msgID = 0x2CBB6C9C, msgFields =
     []\<rparr>),
    (0x272F3A96, \<lparr>msgName = ''C2S_PartyExpelNoti'', msgDir = ''C2S'', msgID = 0x272F3A96, msgFields =
     [Field ''m_expelMemberOID'' ty_Int64]\<rparr>),
    (0x23BCFA4B, \<lparr>msgName = ''C2S_PartyInvite'', msgDir = ''C2S'', msgID = 0x23BCFA4B, msgFields =
     [Field ''m_inviteeOID'' ty_Int64,
     Field ''m_inviteeName'' ty_Chars,
     Field ''m_isRequestParty'' ty_Boolean]\<rparr>),
    (0x2F43F18A, \<lparr>msgName = ''C2S_PartyLeaveNoti'', msgDir = ''C2S'', msgID = 0x2F43F18A, msgFields =
     []\<rparr>),
    (0x17D7B73D, \<lparr>msgName = ''C2S_PartyLootChangeNoti'', msgDir = ''C2S'', msgID = 0x17D7B73D, msgFields =
     [Field ''m_newLootType'' ty_Int32]\<rparr>),
    (0x3AF66A55, \<lparr>msgName = ''C2S_PartyMasterChangeNoti'', msgDir = ''C2S'', msgID = 0x3AF66A55, msgFields =
     [Field ''m_newMasterOID'' ty_Int64]\<rparr>),
    (0x11A76804, \<lparr>msgName = ''C2S_PartyTargetNoti'', msgDir = ''C2S'', msgID = 0x11A76804, msgFields =
     [Field ''m_targetOID'' ty_Int64]\<rparr>),
    (0x30B1F01B, \<lparr>msgName = ''C2S_PetAdventureList'', msgDir = ''C2S'', msgID = 0x30B1F01B, msgFields =
     []\<rparr>),
    (0x303D7BDC, \<lparr>msgName = ''C2S_PetAdventureReward'', msgDir = ''C2S'', msgID = 0x303D7BDC, msgFields =
     [Field ''m_partyNum'' ty_Byte]\<rparr>),
    (0x19807961, \<lparr>msgName = ''C2S_PetAdventureStart'', msgDir = ''C2S'', msgID = 0x19807961, msgFields =
     [Field ''m_partyNum'' ty_Byte,
     Field ''m_mapIndex'' ty_Int32]\<rparr>),
    (0x2B57744C, \<lparr>msgName = ''C2S_PetAdventureTimeShorten'', msgDir = ''C2S'', msgID = 0x2B57744C, msgFields =
     [Field ''m_partyNum'' ty_Byte,
     Field ''m_itemOID'' ty_Int64,
     Field ''m_count'' ty_Int32]\<rparr>),
    (0x2EC0BDCC, \<lparr>msgName = ''C2S_PetAdvetureMapCharge'', msgDir = ''C2S'', msgID = 0x2EC0BDCC, msgFields =
     [Field ''m_mapIndex'' ty_Int32]\<rparr>),
    (0x3129EB72, \<lparr>msgName = ''C2S_PetCollectionList'', msgDir = ''C2S'', msgID = 0x3129EB72, msgFields =
     []\<rparr>),
    (0x26C865BC, \<lparr>msgName = ''C2S_PetCompose'', msgDir = ''C2S'', msgID = 0x26C865BC, msgFields =
     [Field ''m_composeList'' ty_List_ComposeInputInfo,
     Field ''m_grade'' ty_Byte]\<rparr>),
    (0x0D1CBE5A, \<lparr>msgName = ''C2S_PetEquip'', msgDir = ''C2S'', msgID = 0x0D1CBE5A, msgFields =
     [Field ''m_petIndex'' ty_Int32]\<rparr>),
    (0x2E79AF83, \<lparr>msgName = ''C2S_PetEquipItem'', msgDir = ''C2S'', msgID = 0x2E79AF83, msgFields =
     [Field ''m_itemOID'' ty_Int64,
     Field ''m_equipSlot'' ty_Byte]\<rparr>),
    (0x0DD65C3F, \<lparr>msgName = ''C2S_PetExtract'', msgDir = ''C2S'', msgID = 0x0DD65C3F, msgFields =
     [Field ''m_petIndex'' ty_Int32,
     Field ''m_count'' ty_Int32]\<rparr>),
    (0x1A03F6F8, \<lparr>msgName = ''C2S_PetFailedReward'', msgDir = ''C2S'', msgID = 0x1A03F6F8, msgFields =
     [Field ''m_grade'' ty_Byte]\<rparr>),
    (0x3463FE13, \<lparr>msgName = ''C2S_PetLearnSkill'', msgDir = ''C2S'', msgID = 0x3463FE13, msgFields =
     [Field ''m_petIndex'' ty_Int32,
     Field ''m_skillIndex'' ty_Int32]\<rparr>),
    (0x18CC6C91, \<lparr>msgName = ''C2S_PetList'', msgDir = ''C2S'', msgID = 0x18CC6C91, msgFields =
     []\<rparr>),
    (0x06D8F9E7, \<lparr>msgName = ''C2S_PetLookSet'', msgDir = ''C2S'', msgID = 0x06D8F9E7, msgFields =
     [Field ''m_petIndex'' ty_Int32]\<rparr>),
    (0x351F5D60, \<lparr>msgName = ''C2S_PetPartySet'', msgDir = ''C2S'', msgID = 0x351F5D60, msgFields =
     [Field ''m_petPartyList'' ty_List_PetPartyInfo]\<rparr>),
    (0x0C82B4CE, \<lparr>msgName = ''C2S_PetPartySlotOpen'', msgDir = ''C2S'', msgID = 0x0C82B4CE, msgFields =
     [Field ''m_partyNum'' ty_Byte]\<rparr>),
    (0x355DE29E, \<lparr>msgName = ''C2S_PetReCompose'', msgDir = ''C2S'', msgID = 0x355DE29E, msgFields =
     [Field ''m_materialItemOID'' ty_Int64,
     Field ''m_grade'' ty_Byte]\<rparr>),
    (0x2FF940CE, \<lparr>msgName = ''C2S_PetReComposeCheck'', msgDir = ''C2S'', msgID = 0x2FF940CE, msgFields =
     [Field ''m_materialItemOID'' ty_Int64]\<rparr>),
    (0x040925BA, \<lparr>msgName = ''C2S_PetRepick'', msgDir = ''C2S'', msgID = 0x040925BA, msgFields =
     [Field ''m_index'' ty_Int64]\<rparr>),
    (0x24345AD3, \<lparr>msgName = ''C2S_PetRepickConfirm'', msgDir = ''C2S'', msgID = 0x24345AD3, msgFields =
     [Field ''m_index'' ty_Int64]\<rparr>),
    (0x2FBCB74A, \<lparr>msgName = ''C2S_PetRepickList'', msgDir = ''C2S'', msgID = 0x2FBCB74A, msgFields =
     []\<rparr>),
    (0x24CCCDF8, \<lparr>msgName = ''C2S_PetStatusCure'', msgDir = ''C2S'', msgID = 0x24CCCDF8, msgFields =
     [Field ''m_petIndex'' ty_Int32]\<rparr>),
    (0x219C69AE, \<lparr>msgName = ''C2S_PetStepUp'', msgDir = ''C2S'', msgID = 0x219C69AE, msgFields =
     [Field ''m_targetPetIndex'' ty_Int32,
     Field ''m_materialPetIndex'' ty_Int32]\<rparr>),
    (0x22055D5E, \<lparr>msgName = ''C2S_PetStepUpCountReward'', msgDir = ''C2S'', msgID = 0x22055D5E, msgFields =
     [Field ''m_grade'' ty_Byte,
     Field ''m_count'' ty_Int32]\<rparr>),
    (0x1B58A304, \<lparr>msgName = ''C2S_PetStepUpCountRewardList'', msgDir = ''C2S'', msgID = 0x1B58A304, msgFields =
     []\<rparr>),
    (0x271622C0, \<lparr>msgName = ''C2S_PlayerAction'', msgDir = ''C2S'', msgID = 0x271622C0, msgFields =
     [Field ''m_actionType'' ty_Byte,
     Field ''m_index'' ty_Int32,
     Field ''m_value'' ty_Int32,
     Field ''m_targetOID'' ty_Int64,
     Field ''m_pos'' ty_Vector,
     Field ''m_dir'' ty_Single]\<rparr>),
    (0x0CF0EF8B, \<lparr>msgName = ''C2S_PlayerChangeNickname'', msgDir = ''C2S'', msgID = 0x0CF0EF8B, msgFields =
     [Field ''m_useItemOID'' ty_Int64,
     Field ''m_changedNickname'' ty_Chars]\<rparr>),
    (0x2C5F6EBA, \<lparr>msgName = ''C2S_PlayerList'', msgDir = ''C2S'', msgID = 0x2C5F6EBA, msgFields =
     []\<rparr>),
    (0x0D3307ED, \<lparr>msgName = ''C2S_PlayerLoadFirstCall'', msgDir = ''C2S'', msgID = 0x0D3307ED, msgFields =
     []\<rparr>),
    (0x3841F4DC, \<lparr>msgName = ''C2S_PlayerRevival'', msgDir = ''C2S'', msgID = 0x3841F4DC, msgFields =
     [Field ''m_type'' ty_Int32]\<rparr>),
    (0x397CBE29, \<lparr>msgName = ''C2S_PlayerWarp'', msgDir = ''C2S'', msgID = 0x397CBE29, msgFields =
     [Field ''m_index'' ty_Int32,
     Field ''m_checkSum'' ty_Int32,
     Field ''m_warpType'' ty_Int32,
     Field ''m_npcBatchIndex'' ty_Int32]\<rparr>),
    (0x131677B7, \<lparr>msgName = ''C2S_PostList'', msgDir = ''C2S'', msgID = 0x131677B7, msgFields =
     [Field ''m_type'' ty_Byte]\<rparr>),
    (0x155A2DF2, \<lparr>msgName = ''C2S_PreResetSoulStone'', msgDir = ''C2S'', msgID = 0x155A2DF2, msgFields =
     [Field ''m_presetSlot'' ty_Byte,
     Field ''m_soulStoneIndex'' ty_Int32]\<rparr>)]"

definition messages_7 :: "(u32 \<times> message) list" where
  "messages_7 =
   [(0x2046F2DA, \<lparr>msgName = ''C2S_PurchaseRealMoneyStoreItemDevOnly'', msgDir = ''C2S'', msgID = 0x2046F2DA, msgFields =
     [Field ''m_storeIndex'' ty_Int32,
     Field ''m_count'' ty_Int32]\<rparr>),
    (0x1169ACED, \<lparr>msgName = ''C2S_PurchaseStoreItem'', msgDir = ''C2S'', msgID = 0x1169ACED, msgFields =
     [Field ''m_storeIndex'' ty_Int32,
     Field ''m_count'' ty_Int32]\<rparr>),
    (0x0110EF73, \<lparr>msgName = ''C2S_QuestAction'', msgDir = ''C2S'', msgID = 0x0110EF73, msgFields =
     [Field ''m_questType'' ty_Byte,
     Field ''m_questIndex'' ty_Int32,
     Field ''m_actionType'' ty_Byte]\<rparr>),
    (0x2BC7D3D3, \<lparr>msgName = ''C2S_QuestCompleteImmediately'', msgDir = ''C2S'', msgID = 0x2BC7D3D3, msgFields =
     [Field ''m_questType'' ty_Byte,
     Field ''m_isUseItem'' ty_Boolean]\<rparr>),
    (0x1F851436, \<lparr>msgName = ''C2S_QuestList'', msgDir = ''C2S'', msgID = 0x1F851436, msgFields =
     [Field ''m_questType'' ty_Byte]\<rparr>),
    (0x0326E3F3, \<lparr>msgName = ''C2S_RankingList'', msgDir = ''C2S'', msgID = 0x0326E3F3, msgFields =
     [Field ''m_type'' ty_Byte,
     Field ''m_subType'' ty_Byte]\<rparr>),
    (0x036D12AE, \<lparr>msgName = ''C2S_RealmInfo'', msgDir = ''C2S'', msgID = 0x036D12AE, msgFields =
     []\<rparr>),
    (0x1A95A5CD, \<lparr>msgName = ''C2S_RealmProgressInfo'', msgDir = ''C2S'', msgID = 0x1A95A5CD, msgFields =
     []\<rparr>),
    (0x2B8C5717, \<lparr>msgName = ''C2S_ReceivePost'', msgDir = ''C2S'', msgID = 0x2B8C5717, msgFields =
     [Field ''m_type'' ty_Byte,
     Field ''m_postDBID'' ty_Int64]\<rparr>),
    (0x2ECBE616, \<lparr>msgName = ''C2S_ReceiveWStorage'', msgDir = ''C2S'', msgID = 0x2ECBE616, msgFields =
     [Field ''m_storageID'' ty_Int64]\<rparr>),
    (0x303729C7, \<lparr>msgName = ''C2S_RegistWanted'', msgDir = ''C2S'', msgID = 0x303729C7, msgFields =
     [Field ''m_pvpID'' ty_Int64]\<rparr>),
    (0x20EBA4DE, \<lparr>msgName = ''C2S_RegisterCrossWallet'', msgDir = ''C2S'', msgID = 0x20EBA4DE, msgFields =
     [Field ''m_walletAddress'' ty_String]\<rparr>),
    (0x34C5574E, \<lparr>msgName = ''C2S_RegisterLegacyCollection'', msgDir = ''C2S'', msgID = 0x34C5574E, msgFields =
     [Field ''m_groupIndex'' ty_Int32]\<rparr>),
    (0x1D33A6EF, \<lparr>msgName = ''C2S_RegisterParcel'', msgDir = ''C2S'', msgID = 0x1D33A6EF, msgFields =
     [Field ''m_receiptPlayerOID'' ty_Int64,
     Field ''m_itemOID'' ty_Int64,
     Field ''m_itemCount'' ty_Int32,
     Field ''m_billingAmount'' ty_Int32]\<rparr>),
    (0x17426FF0, \<lparr>msgName = ''C2S_RegisterWallet'', msgDir = ''C2S'', msgID = 0x17426FF0, msgFields =
     [Field ''m_walletAddress'' ty_String]\<rparr>),
    (0x177C7A69, \<lparr>msgName = ''C2S_RelationAlertList'', msgDir = ''C2S'', msgID = 0x177C7A69, msgFields =
     []\<rparr>),
    (0x03A52F56, \<lparr>msgName = ''C2S_RelationList'', msgDir = ''C2S'', msgID = 0x03A52F56, msgFields =
     [Field ''m_firstCall'' ty_Boolean]\<rparr>),
    (0x36D661DF, \<lparr>msgName = ''C2S_ReportChat'', msgDir = ''C2S'', msgID = 0x36D661DF, msgFields =
     [Field ''m_reportType'' ty_Byte,
     Field ''m_chatType'' ty_Byte,
     Field ''m_targetPlayerWorldID'' ty_Int32,
     Field ''m_targetPlayerName'' ty_Chars,
     Field ''m_chatContents'' ty_String,
     Field ''m_chatTime'' ty_Int64]\<rparr>),
    (0x3290DE55, \<lparr>msgName = ''C2S_ReportPlayer'', msgDir = ''C2S'', msgID = 0x3290DE55, msgFields =
     [Field ''m_targetPlayerOID'' ty_Int64,
     Field ''m_reportType'' ty_Byte]\<rparr>),
    (0x3612DF48, \<lparr>msgName = ''C2S_RequestCrossTokenExchange'', msgDir = ''C2S'', msgID = 0x3612DF48, msgFields =
     []\<rparr>),
    (0x03B4B048, \<lparr>msgName = ''C2S_RequestPartyInGuild'', msgDir = ''C2S'', msgID = 0x03B4B048, msgFields =
     []\<rparr>),
    (0x19DD95B0, \<lparr>msgName = ''C2S_ResetSoulStone'', msgDir = ''C2S'', msgID = 0x19DD95B0, msgFields =
     [Field ''m_presetSlot'' ty_Byte,
     Field ''m_soulStoneIndex'' ty_Int32]\<rparr>),
    (0x26A351DD, \<lparr>msgName = ''C2S_ResetStatPoint'', msgDir = ''C2S'', msgID = 0x26A351DD, msgFields =
     []\<rparr>),
    (0x2C7DD25B, \<lparr>msgName = ''C2S_ResponseTokenSignedTx'', msgDir = ''C2S'', msgID = 0x2C7DD25B, msgFields =
     [Field ''m_exchangeType'' ty_Byte,
     Field ''m_tokenType'' ty_Byte,
     Field ''m_signature'' ty_String]\<rparr>),
    (0x2CE26A14, \<lparr>msgName = ''C2S_RestorableItemList'', msgDir = ''C2S'', msgID = 0x2CE26A14, msgFields =
     [Field ''m_materialItemOID'' ty_Int64]\<rparr>),
    (0x025CC81D, \<lparr>msgName = ''C2S_Restoration'', msgDir = ''C2S'', msgID = 0x025CC81D, msgFields =
     [Field ''m_type'' ty_Int32,
     Field ''m_restoreUID'' ty_Int64]\<rparr>),
    (0x1EBEE7D3, \<lparr>msgName = ''C2S_RestorationCharge'', msgDir = ''C2S'', msgID = 0x1EBEE7D3, msgFields =
     [Field ''m_chargeCount'' ty_Int32]\<rparr>),
    (0x176BDFD6, \<lparr>msgName = ''C2S_RestorationList'', msgDir = ''C2S'', msgID = 0x176BDFD6, msgFields =
     []\<rparr>),
    (0x24840C8F, \<lparr>msgName = ''C2S_RestorationSimpleList'', msgDir = ''C2S'', msgID = 0x24840C8F, msgFields =
     []\<rparr>),
    (0x0AD813D4, \<lparr>msgName = ''C2S_RetrieveParcel'', msgDir = ''C2S'', msgID = 0x0AD813D4, msgFields =
     [Field ''m_parcelDBID'' ty_Int64]\<rparr>),
    (0x295DEEFC, \<lparr>msgName = ''C2S_RuneCompose'', msgDir = ''C2S'', msgID = 0x295DEEFC, msgFields =
     [Field ''m_selectRune'' ty_List_Int64]\<rparr>),
    (0x00828EEF, \<lparr>msgName = ''C2S_RuneConvert'', msgDir = ''C2S'', msgID = 0x00828EEF, msgFields =
     [Field ''m_runeDBID'' ty_Int64,
     Field ''m_useItem'' ty_Boolean]\<rparr>),
    (0x0B17797C, \<lparr>msgName = ''C2S_RuneEquip'', msgDir = ''C2S'', msgID = 0x0B17797C, msgFields =
     [Field ''m_runeDBID'' ty_Int64,
     Field ''m_panelIndex'' ty_Int32,
     Field ''m_slotIndex'' ty_Byte]\<rparr>),
    (0x39131DD2, \<lparr>msgName = ''C2S_RuneInvenList'', msgDir = ''C2S'', msgID = 0x39131DD2, msgFields =
     [Field ''m_onlyRuneCount'' ty_Boolean]\<rparr>),
    (0x192ADB1D, \<lparr>msgName = ''C2S_RuneLineChange'', msgDir = ''C2S'', msgID = 0x192ADB1D, msgFields =
     [Field ''m_runeDBID'' ty_Int64,
     Field ''m_isEquipped'' ty_Boolean,
     Field ''m_changeType'' ty_Byte,
     Field ''m_useItem'' ty_Boolean]\<rparr>),
    (0x3988BC60, \<lparr>msgName = ''C2S_RunePanelClear'', msgDir = ''C2S'', msgID = 0x3988BC60, msgFields =
     [Field ''m_panelIndex'' ty_Int32]\<rparr>),
    (0x0C530110, \<lparr>msgName = ''C2S_RunePanelInfo'', msgDir = ''C2S'', msgID = 0x0C530110, msgFields =
     []\<rparr>),
    (0x19B7FA6A, \<lparr>msgName = ''C2S_RunePanelLineChange'', msgDir = ''C2S'', msgID = 0x19B7FA6A, msgFields =
     [Field ''m_panelIndex'' ty_Int32,
     Field ''m_useItem'' ty_Boolean,
     Field ''m_selectSlot'' ty_List_Byte]\<rparr>),
    (0x148854EC, \<lparr>msgName = ''C2S_RuneToggleLock'', msgDir = ''C2S'', msgID = 0x148854EC, msgFields =
     [Field ''m_runeDBID'' ty_Int64,
     Field ''m_isEquipped'' ty_Boolean,
     Field ''m_lock'' ty_Boolean]\<rparr>),
    (0x09CF3845, \<lparr>msgName = ''C2S_RuneUnequip'', msgDir = ''C2S'', msgID = 0x09CF3845, msgFields =
     [Field ''m_panelIndex'' ty_Int32,
     Field ''m_slotIndex'' ty_Byte]\<rparr>),
    (0x0C2A37EF, \<lparr>msgName = ''C2S_ScheduleBossDashboardNoti'', msgDir = ''C2S'', msgID = 0x0C2A37EF, msgFields =
     []\<rparr>),
    (0x1C909354, \<lparr>msgName = ''C2S_SealAccountItemUse'', msgDir = ''C2S'', msgID = 0x1C909354, msgFields =
     [Field ''m_itemOID'' ty_Int64,
     Field ''m_code'' ty_String,
     Field ''m_pw'' ty_String]\<rparr>),
    (0x3B6232B8, \<lparr>msgName = ''C2S_SealAccountItemUseCheck'', msgDir = ''C2S'', msgID = 0x3B6232B8, msgFields =
     [Field ''m_itemOID'' ty_Int64]\<rparr>),
    (0x10BE5D8E, \<lparr>msgName = ''C2S_SecurityReport'', msgDir = ''C2S'', msgID = 0x10BE5D8E, msgFields =
     [Field ''m_type'' ty_Byte,
     Field ''m_errorCode'' ty_Int32]\<rparr>),
    (0x0FFB78CA, \<lparr>msgName = ''C2S_SelectPlayerInfo'', msgDir = ''C2S'', msgID = 0x0FFB78CA, msgFields =
     [Field ''m_selectType'' ty_Byte,
     Field ''m_selectPlayerName'' ty_Chars]\<rparr>)]"

definition messages_8 :: "(u32 \<times> message) list" where
  "messages_8 =
   [(0x11C4978B, \<lparr>msgName = ''C2S_SessionAuthLogin'', msgDir = ''C2S'', msgID = 0x11C4978B, msgFields =
     [Field ''m_worldGroupID'' ty_Int32,
     Field ''m_accountCode'' ty_String,
     Field ''m_sessionKey'' ty_Int32,
     Field ''m_deviceOS'' ty_Byte,
     Field ''m_deviceID'' ty_String,
     Field ''m_deviceLangCode'' ty_String,
     Field ''m_countryCode'' ty_String,
     Field ''m_platformType'' ty_Byte,
     Field ''m_deviceName'' ty_String,
     Field ''m_useGameGuard'' ty_Boolean,
     Field ''m_systemLan'' ty_String,
     Field ''m_processorType'' ty_String]\<rparr>),
    (0x2D15D6E4, \<lparr>msgName = ''C2S_SessionAuthLoginWithPreemption'', msgDir = ''C2S'', msgID = 0x2D15D6E4, msgFields =
     [Field ''m_worldGroupID'' ty_Int32,
     Field ''m_accountCode'' ty_String,
     Field ''m_sessionKey'' ty_Int32,
     Field ''m_deviceOS'' ty_Byte,
     Field ''m_deviceID'' ty_String,
     Field ''m_deviceLangCode'' ty_String,
     Field ''m_countryCode'' ty_String,
     Field ''m_platformType'' ty_Byte,
     Field ''m_deviceName'' ty_String,
     Field ''m_useGameGuard'' ty_Boolean,
     Field ''m_reservedName'' ty_Chars,
     Field ''m_preemptionCode'' ty_String,
     Field ''m_systemLan'' ty_String,
     Field ''m_processorType'' ty_String]\<rparr>),
    (0x1A8BD1E6, \<lparr>msgName = ''C2S_SessionLogin'', msgDir = ''C2S'', msgID = 0x1A8BD1E6, msgFields =
     [Field ''m_worldGroupID'' ty_Int32,
     Field ''m_accountCode'' ty_String,
     Field ''m_sessionKey'' ty_Int32,
     Field ''m_gameStep'' ty_Byte]\<rparr>),
    (0x0F5C0EFA, \<lparr>msgName = ''C2S_SetOptions'', msgDir = ''C2S'', msgID = 0x0F5C0EFA, msgFields =
     [Field ''m_optionValues'' ty_UInt32]\<rparr>),
    (0x395C41BD, \<lparr>msgName = ''C2S_SetSoulStonePreset'', msgDir = ''C2S'', msgID = 0x395C41BD, msgFields =
     [Field ''m_soulStoneIndex'' ty_Int32,
     Field ''m_presetSlot'' ty_Byte]\<rparr>),
    (0x1402EE5E, \<lparr>msgName = ''C2S_SetTotalPreset'', msgDir = ''C2S'', msgID = 0x1402EE5E, msgFields =
     [Field ''m_presetSetList'' ty_List_TotalPresetSet]\<rparr>),
    (0x2EEDD8EC, \<lparr>msgName = ''C2S_ShopBuyItem'', msgDir = ''C2S'', msgID = 0x2EEDD8EC, msgFields =
     [Field ''m_npcIdx'' ty_Int32,
     Field ''m_buyList'' ty_List_ShopItemData]\<rparr>),
    (0x38BD217A, \<lparr>msgName = ''C2S_ShopBuyRandBuff'', msgDir = ''C2S'', msgID = 0x38BD217A, msgFields =
     [Field ''m_npcBatchIndex'' ty_Int32]\<rparr>),
    (0x0A277B4F, \<lparr>msgName = ''C2S_ShopCheck'', msgDir = ''C2S'', msgID = 0x0A277B4F, msgFields =
     [Field ''m_npcIdx'' ty_Int32]\<rparr>),
    (0x366515AF, \<lparr>msgName = ''C2S_ShopSellItem'', msgDir = ''C2S'', msgID = 0x366515AF, msgFields =
     [Field ''m_npcIdx'' ty_Int32,
     Field ''m_sellList'' ty_List_ItemOidAndCount]\<rparr>),
    (0x08CBBA8A, \<lparr>msgName = ''C2S_SiegeWarBoard'', msgDir = ''C2S'', msgID = 0x08CBBA8A, msgFields =
     []\<rparr>),
    (0x2397BCF8, \<lparr>msgName = ''C2S_SiegeWarExit'', msgDir = ''C2S'', msgID = 0x2397BCF8, msgFields =
     []\<rparr>),
    (0x0D5E13A1, \<lparr>msgName = ''C2S_SiegeWarGuardList'', msgDir = ''C2S'', msgID = 0x0D5E13A1, msgFields =
     []\<rparr>),
    (0x2A3C3311, \<lparr>msgName = ''C2S_SiegeWarGuardSetup'', msgDir = ''C2S'', msgID = 0x2A3C3311, msgFields =
     [Field ''m_guardBuyList'' ty_List_SiegeWarGuardInfo]\<rparr>),
    (0x191A40AD, \<lparr>msgName = ''C2S_SiegeWarInfo'', msgDir = ''C2S'', msgID = 0x191A40AD, msgFields =
     []\<rparr>),
    (0x203D7F02, \<lparr>msgName = ''C2S_SiegeWarMercenaryAccept'', msgDir = ''C2S'', msgID = 0x203D7F02, msgFields =
     [Field ''m_applyPlayerOID'' ty_Int64,
     Field ''m_isAccept'' ty_Boolean]\<rparr>),
    (0x0D232120, \<lparr>msgName = ''C2S_SiegeWarMercenaryApply'', msgDir = ''C2S'', msgID = 0x0D232120, msgFields =
     [Field ''m_guildOID'' ty_Int64,
     Field ''m_isApply'' ty_Boolean]\<rparr>),
    (0x00783AFE, \<lparr>msgName = ''C2S_SiegeWarMercenaryApplyList'', msgDir = ''C2S'', msgID = 0x00783AFE, msgFields =
     []\<rparr>),
    (0x3906CC2A, \<lparr>msgName = ''C2S_SiegeWarMercenaryExpel'', msgDir = ''C2S'', msgID = 0x3906CC2A, msgFields =
     [Field ''m_mercenaryOID'' ty_Int64]\<rparr>),
    (0x275435E5, \<lparr>msgName = ''C2S_SiegeWarMercenaryPage'', msgDir = ''C2S'', msgID = 0x275435E5, msgFields =
     []\<rparr>),
    (0x06A02361, \<lparr>msgName = ''C2S_SiegeWarMercenaryRecruit'', msgDir = ''C2S'', msgID = 0x06A02361, msgFields =
     [Field ''m_totalReward'' ty_Int64,
     Field ''m_weeklyRewardRate'' ty_Int32,
     Field ''m_requirPower'' ty_Int32]\<rparr>),
    (0x29C5AA42, \<lparr>msgName = ''C2S_SiegeWarMercenaryWithdraw'', msgDir = ''C2S'', msgID = 0x29C5AA42, msgFields =
     []\<rparr>),
    (0x2A03D9AB, \<lparr>msgName = ''C2S_SiegeWarRewardDetail'', msgDir = ''C2S'', msgID = 0x2A03D9AB, msgFields =
     []\<rparr>),
    (0x14580630, \<lparr>msgName = ''C2S_SkillCasting'', msgDir = ''C2S'', msgID = 0x14580630, msgFields =
     [Field ''m_skillIndex'' ty_Int32,
     Field ''m_targetOID'' ty_Int64,
     Field ''m_pos'' ty_Vector,
     Field ''m_dir'' ty_Single]\<rparr>),
    (0x31BF1C12, \<lparr>msgName = ''C2S_SkillLevelUp'', msgDir = ''C2S'', msgID = 0x31BF1C12, msgFields =
     [Field ''m_skillIndex'' ty_Int32,
     Field ''m_belongType'' ty_Byte]\<rparr>),
    (0x079F1C07, \<lparr>msgName = ''C2S_SkillList'', msgDir = ''C2S'', msgID = 0x079F1C07, msgFields =
     []\<rparr>),
    (0x28B80A37, \<lparr>msgName = ''C2S_SkillUse'', msgDir = ''C2S'', msgID = 0x28B80A37, msgFields =
     [Field ''m_skillIndex'' ty_Int32,
     Field ''m_targetOID'' ty_Int64,
     Field ''m_pos'' ty_Vector,
     Field ''m_dir'' ty_Single,
     Field ''m_areaSkillTargetKind'' ty_Int32]\<rparr>),
    (0x1F1129BF, \<lparr>msgName = ''C2S_SlayerApplyForBail'', msgDir = ''C2S'', msgID = 0x1F1129BF, msgFields =
     [Field ''m_npcBatchIndex'' ty_Int32]\<rparr>),
    (0x160A999E, \<lparr>msgName = ''C2S_SlayerList'', msgDir = ''C2S'', msgID = 0x160A999E, msgFields =
     []\<rparr>),
    (0x2AE64316, \<lparr>msgName = ''C2S_SoulStoneList'', msgDir = ''C2S'', msgID = 0x2AE64316, msgFields =
     []\<rparr>),
    (0x0C3FF087, \<lparr>msgName = ''C2S_StoreItemInStorageBoxList'', msgDir = ''C2S'', msgID = 0x0C3FF087, msgFields =
     []\<rparr>),
    (0x38377582, \<lparr>msgName = ''C2S_StoreItemList'', msgDir = ''C2S'', msgID = 0x38377582, msgFields =
     [Field ''m_tabIndex'' ty_Byte]\<rparr>),
    (0x0341462B, \<lparr>msgName = ''C2S_StoreLumpSumItemList'', msgDir = ''C2S'', msgID = 0x0341462B, msgFields =
     []\<rparr>),
    (0x0A4615B0, \<lparr>msgName = ''C2S_SubSkillLevelUp'', msgDir = ''C2S'', msgID = 0x0A4615B0, msgFields =
     [Field ''m_skillIndex'' ty_Int32]\<rparr>),
    (0x24B41586, \<lparr>msgName = ''C2S_SubSkillReset'', msgDir = ''C2S'', msgID = 0x24B41586, msgFields =
     [Field ''m_resetSubClassType'' ty_Byte]\<rparr>),
    (0x2AFD84F8, \<lparr>msgName = ''C2S_TakeBankDepositReward'', msgDir = ''C2S'', msgID = 0x2AFD84F8, msgFields =
     [Field ''m_bankIndex'' ty_Int32,
     Field ''m_rewardType'' ty_Byte]\<rparr>),
    (0x06DBA73E, \<lparr>msgName = ''C2S_TakeBankRoundReward'', msgDir = ''C2S'', msgID = 0x06DBA73E, msgFields =
     [Field ''m_bankIndex'' ty_Int32,
     Field ''m_rewardCount'' ty_Int64]\<rparr>),
    (0x0022A8A9, \<lparr>msgName = ''C2S_TakeParcelTradeIncome'', msgDir = ''C2S'', msgID = 0x0022A8A9, msgFields =
     [Field ''m_parcelDBID'' ty_Int64]\<rparr>),
    (0x33F8472A, \<lparr>msgName = ''C2S_TakeStoreItemInStorageBox'', msgDir = ''C2S'', msgID = 0x33F8472A, msgFields =
     [Field ''m_purchaseOIDList'' ty_List_Int64]\<rparr>),
    (0x0B7A817C, \<lparr>msgName = ''C2S_ToggleItemLock'', msgDir = ''C2S'', msgID = 0x0B7A817C, msgFields =
     [Field ''m_itemOID'' ty_Int64,
     Field ''m_isLock'' ty_Boolean]\<rparr>),
    (0x1D192700, \<lparr>msgName = ''C2S_TokenBalanceInfo'', msgDir = ''C2S'', msgID = 0x1D192700, msgFields =
     []\<rparr>),
    (0x34793542, \<lparr>msgName = ''C2S_TokenExchange'', msgDir = ''C2S'', msgID = 0x34793542, msgFields =
     [Field ''m_exchangeType'' ty_Byte,
     Field ''m_tokenType'' ty_Byte,
     Field ''m_amount'' ty_Int32]\<rparr>),
    (0x2D988B7A, \<lparr>msgName = ''C2S_TokenExchangeCancel'', msgDir = ''C2S'', msgID = 0x2D988B7A, msgFields =
     [Field ''m_exchangeType'' ty_Byte,
     Field ''m_tokenType'' ty_Byte]\<rparr>)]"

definition messages_9 :: "(u32 \<times> message) list" where
  "messages_9 =
   [(0x2F06AF0E, \<lparr>msgName = ''C2S_TokenExchangeInfo'', msgDir = ''C2S'', msgID = 0x2F06AF0E, msgFields =
     [Field ''m_exchangeType'' ty_Byte,
     Field ''m_tokenType'' ty_Byte]\<rparr>),
    (0x37CD7D63, \<lparr>msgName = ''C2S_TotalPresetList'', msgDir = ''C2S'', msgID = 0x37CD7D63, msgFields =
     []\<rparr>),
    (0x05E6D21A, \<lparr>msgName = ''C2S_TowerInfo'', msgDir = ''C2S'', msgID = 0x05E6D21A, msgFields =
     []\<rparr>),
    (0x2EACECF1, \<lparr>msgName = ''C2S_TowerPassClear'', msgDir = ''C2S'', msgID = 0x2EACECF1, msgFields =
     [Field ''m_towerIndex'' ty_Int32]\<rparr>),
    (0x11456566, \<lparr>msgName = ''C2S_TowerPointReward'', msgDir = ''C2S'', msgID = 0x11456566, msgFields =
     [Field ''m_rewardType'' ty_Byte,
     Field ''m_targetRewardStep'' ty_Byte]\<rparr>),
    (0x0C7BC709, \<lparr>msgName = ''C2S_TowerShopBuy'', msgDir = ''C2S'', msgID = 0x0C7BC709, msgFields =
     [Field ''m_towerIndex'' ty_Int32,
     Field ''m_buyShopItem'' ty_ShopItemData]\<rparr>),
    (0x11D3E01A, \<lparr>msgName = ''C2S_TowerShopCheck'', msgDir = ''C2S'', msgID = 0x11D3E01A, msgFields =
     [Field ''m_towerIndex'' ty_Int32]\<rparr>),
    (0x3136569E, \<lparr>msgName = ''C2S_TowerSweep'', msgDir = ''C2S'', msgID = 0x3136569E, msgFields =
     [Field ''m_mapIndex'' ty_Int32,
     Field ''m_useType'' ty_Byte,
     Field ''m_sweepCount'' ty_Byte]\<rparr>),
    (0x14F9716F, \<lparr>msgName = ''C2S_TransferCheck'', msgDir = ''C2S'', msgID = 0x14F9716F, msgFields =
     [Field ''m_storeIndex'' ty_Int32,
     Field ''m_destWorldID'' ty_Int32]\<rparr>),
    (0x1DE7700B, \<lparr>msgName = ''C2S_TransferExecute'', msgDir = ''C2S'', msgID = 0x1DE7700B, msgFields =
     [Field ''m_storeIndex'' ty_Int32,
     Field ''m_destWorldID'' ty_Int32]\<rparr>),
    (0x37966C63, \<lparr>msgName = ''C2S_TransferServerList'', msgDir = ''C2S'', msgID = 0x37966C63, msgFields =
     [Field ''m_storeIndex'' ty_Int32]\<rparr>),
    (0x2891F8E9, \<lparr>msgName = ''C2S_UnequipItem'', msgDir = ''C2S'', msgID = 0x2891F8E9, msgFields =
     [Field ''m_unequipSlot'' ty_Byte,
     Field ''m_itemOID'' ty_Int64]\<rparr>),
    (0x340C7F51, \<lparr>msgName = ''C2S_UniqueItemInfoList'', msgDir = ''C2S'', msgID = 0x340C7F51, msgFields =
     [Field ''m_itemGroupIndex'' ty_Int32]\<rparr>),
    (0x14FDDF14, \<lparr>msgName = ''C2S_UpdateAutoUse'', msgDir = ''C2S'', msgID = 0x14FDDF14, msgFields =
     [Field ''m_autoUseList'' ty_List_AutoUseInfo]\<rparr>),
    (0x36323212, \<lparr>msgName = ''C2S_UpdateQuickSlot'', msgDir = ''C2S'', msgID = 0x36323212, msgFields =
     [Field ''m_slotIndex'' ty_Byte,
     Field ''m_regType'' ty_Byte,
     Field ''m_regIndex'' ty_Int32,
     Field ''m_regOID'' ty_Int64]\<rparr>),
    (0x1E8DF103, \<lparr>msgName = ''C2S_UseClassChangeItem'', msgDir = ''C2S'', msgID = 0x1E8DF103, msgFields =
     [Field ''m_useItemOID'' ty_Int64,
     Field ''m_targetClassType'' ty_Byte,
     Field ''m_changeItemInfoList'' ty_List_ClassChangeItemInfo,
     Field ''m_changeSkillInfoList'' ty_List_ClassChangeSkillInfo]\<rparr>),
    (0x2302FEF4, \<lparr>msgName = ''C2S_UseCoupon'', msgDir = ''C2S'', msgID = 0x2302FEF4, msgFields =
     [Field ''m_couponSerial'' ty_String]\<rparr>),
    (0x2F40100C, \<lparr>msgName = ''C2S_UseEquipmentRestorationItem'', msgDir = ''C2S'', msgID = 0x2F40100C, msgFields =
     [Field ''m_materialItemOID'' ty_Int64,
     Field ''m_restoreItemOID'' ty_Int64]\<rparr>),
    (0x22DCE3F2, \<lparr>msgName = ''C2S_UseItem'', msgDir = ''C2S'', msgID = 0x22DCE3F2, msgFields =
     [Field ''m_itemOID'' ty_Int64,
     Field ''m_repeatCount'' ty_Int32,
     Field ''m_targetOID'' ty_Int64]\<rparr>),
    (0x1BA50D29, \<lparr>msgName = ''C2S_UseJumpTicket'', msgDir = ''C2S'', msgID = 0x1BA50D29, msgFields =
     [Field ''m_jumpTicketOID'' ty_Int64]\<rparr>),
    (0x19493AE1, \<lparr>msgName = ''C2S_UseMapObject'', msgDir = ''C2S'', msgID = 0x19493AE1, msgFields =
     [Field ''m_useType'' ty_Int32,
     Field ''m_mapObjectOID'' ty_Int64,
     Field ''m_pos'' ty_Vector,
     Field ''m_dir'' ty_Single]\<rparr>),
    (0x08FCC48E, \<lparr>msgName = ''C2S_UseSelectBoxItem'', msgDir = ''C2S'', msgID = 0x08FCC48E, msgFields =
     [Field ''m_itemOID'' ty_Int64,
     Field ''m_repeatCount'' ty_Int32,
     Field ''m_selectIndex'' ty_Int32]\<rparr>),
    (0x1C8ECB63, \<lparr>msgName = ''C2S_UseStatPoint'', msgDir = ''C2S'', msgID = 0x1C8ECB63, msgFields =
     [Field ''m_deltaStatSTR'' ty_Int32,
     Field ''m_deltaStatCON'' ty_Int32,
     Field ''m_deltaStatDEX'' ty_Int32,
     Field ''m_deltaStatINT'' ty_Int32,
     Field ''m_deltaStatWIZ'' ty_Int32,
     Field ''m_deltaElixirSTR'' ty_Int32,
     Field ''m_deltaElixirCON'' ty_Int32,
     Field ''m_deltaElixirDEX'' ty_Int32,
     Field ''m_deltaElixirINT'' ty_Int32,
     Field ''m_deltaElixirWIZ'' ty_Int32]\<rparr>),
    (0x1CC28AAC, \<lparr>msgName = ''C2S_VersionCheck'', msgDir = ''C2S'', msgID = 0x1CC28AAC, msgFields =
     [Field ''m_protocolVer'' ty_Int32,
     Field ''m_socketUID'' ty_Int64,
     Field ''m_connectionKey'' ty_Int64]\<rparr>),
    (0x070F0C54, \<lparr>msgName = ''C2S_WStorageList'', msgDir = ''C2S'', msgID = 0x070F0C54, msgFields =
     []\<rparr>),
    (0x0EFBF0B4, \<lparr>msgName = ''C2S_WaitingUserCount'', msgDir = ''C2S'', msgID = 0x0EFBF0B4, msgFields =
     []\<rparr>),
    (0x333D1F46, \<lparr>msgName = ''C2S_WalletInfo'', msgDir = ''C2S'', msgID = 0x333D1F46, msgFields =
     []\<rparr>),
    (0x1A0E64F2, \<lparr>msgName = ''C2S_WantedList'', msgDir = ''C2S'', msgID = 0x1A0E64F2, msgFields =
     []\<rparr>),
    (0x074D4A97, \<lparr>msgName = ''C2S_WarehouseItemMove'', msgDir = ''C2S'', msgID = 0x074D4A97, msgFields =
     [Field ''m_npcBatchIndex'' ty_Int32,
     Field ''m_toRepositoryType'' ty_Byte,
     Field ''m_itemList'' ty_List_WarehouseItemMove]\<rparr>),
    (0x22FBE2D9, \<lparr>msgName = ''C2S_WarehouseItemSorting'', msgDir = ''C2S'', msgID = 0x22FBE2D9, msgFields =
     []\<rparr>),
    (0x33F2CF9D, \<lparr>msgName = ''C2S_WarehouseSlotExpansion'', msgDir = ''C2S'', msgID = 0x33F2CF9D, msgFields =
     [Field ''m_expansionSlotCount'' ty_UInt16,
     Field ''m_paymentMethod'' ty_Byte]\<rparr>),
    (0x12C5D916, \<lparr>msgName = ''S2C_AbilitySkillLevelNoti'', msgDir = ''S2C'', msgID = 0x12C5D916, msgFields =
     [Field ''m_abilitySkillLevelList'' ty_List_AbilitySkillLevelInfo]\<rparr>),
    (0x33D7279B, \<lparr>msgName = ''S2C_AchieveCompleteNotify'', msgDir = ''S2C'', msgID = 0x33D7279B, msgFields =
     [Field ''m_achieveInfo'' ty_AchieveData]\<rparr>),
    (0x35D6A5D0, \<lparr>msgName = ''S2C_AchieveReward'', msgDir = ''S2C'', msgID = 0x35D6A5D0, msgFields =
     [Field ''m_result'' ty_Int32,
     Field ''m_achieveIndex'' ty_Int32,
     Field ''m_achieveNextInfo'' ty_AchieveData]\<rparr>),
    (0x22D80610, \<lparr>msgName = ''S2C_AchievementList'', msgDir = ''S2C'', msgID = 0x22D80610, msgFields =
     [Field ''m_result'' ty_Int32,
     Field ''m_achieveList'' ty_List_AchieveData]\<rparr>),
    (0x07B024FA, \<lparr>msgName = ''S2C_AddItemCollection'', msgDir = ''S2C'', msgID = 0x07B024FA, msgFields =
     [Field ''m_result'' ty_Int32,
     Field ''m_collectionIndex'' ty_Int32,
     Field ''m_slotIndex'' ty_Byte,
     Field ''m_isCollectionCompleted'' ty_Boolean,
     Field ''m_endTime'' ty_Int64,
     Field ''m_registrationQuantity'' ty_Int32]\<rparr>),
    (0x2F6D9EC4, \<lparr>msgName = ''S2C_AlertAdd'', msgDir = ''S2C'', msgID = 0x2F6D9EC4, msgFields =
     [Field ''m_result'' ty_Int32,
     Field ''m_alertPlayerInfo'' ty_RelationPlayerInfo]\<rparr>),
    (0x09B7C21A, \<lparr>msgName = ''S2C_AlertDelete'', msgDir = ''S2C'', msgID = 0x09B7C21A, msgFields =
     [Field ''m_result'' ty_Int32,
     Field ''m_targetPlayerOID'' ty_Int64]\<rparr>),
    (0x05131B27, \<lparr>msgName = ''S2C_AttendanceAvailableNoti'', msgDir = ''S2C'', msgID = 0x05131B27, msgFields =
     []\<rparr>)]"

definition messages_10 :: "(u32 \<times> message) list" where
  "messages_10 =
   [(0x34E68311, \<lparr>msgName = ''S2C_AttendanceCheck'', msgDir = ''S2C'', msgID = 0x34E68311, msgFields =
     [Field ''m_result'' ty_Int32,
     Field ''m_index'' ty_Int32,
     Field ''m_dayCount'' ty_Byte,
     Field ''m_passDayCount'' ty_Byte]\<rparr>),
    (0x2349ED61, \<lparr>msgName = ''S2C_AttendanceList'', msgDir = ''S2C'', msgID = 0x2349ED61, msgFields =
     [Field ''m_attendanceList'' ty_List_AttendanceData]\<rparr>),
    (0x26EA248B, \<lparr>msgName = ''S2C_AuctionAddNoti'', msgDir = ''S2C'', msgID = 0x26EA248B, msgFields =
     [Field ''m_myAuctionElement'' ty_MyAuctionElement]\<rparr>),
    (0x21D829B5, \<lparr>msgName = ''S2C_AuctionBuy'', msgDir = ''S2C'', msgID = 0x21D829B5, msgFields =
     [Field ''m_result'' ty_Int32,
     Field ''m_auctionDBID'' ty_Int64,
     Field ''m_itemData'' ty_ItemData]\<rparr>),
    (0x19985138, \<lparr>msgName = ''S2C_AuctionFix'', msgDir = ''S2C'', msgID = 0x19985138, msgFields =
     [Field ''m_result'' ty_Int32]\<rparr>),
    (0x31A62D25, \<lparr>msgName = ''S2C_AuctionFixRecord'', msgDir = ''S2C'', msgID = 0x31A62D25, msgFields =
     [Field ''m_result'' ty_Int32,
     Field ''m_fixRecord'' ty_List_AuctionFixRecord]\<rparr>),
    (0x22DFA9E7, \<lparr>msgName = ''S2C_AuctionList'', msgDir = ''S2C'', msgID = 0x22DFA9E7, msgFields =
     [Field ''__state__'' ty_Byte,
     Field ''m_result'' ty_Int32,
     Field ''m_dailyBuyCount'' ty_Int32,
     Field ''m_listType'' ty_Int32,
     Field ''m_realData'' ty_Boolean,
     Field ''m_auctionLevel'' ty_Int32,
     Field ''m_auctionElementList'' ty_List_AuctionElement]\<rparr>),
    (0x0B09AD87, \<lparr>msgName = ''S2C_AuctionMarketPrice'', msgDir = ''S2C'', msgID = 0x0B09AD87, msgFields =
     [Field ''m_result'' ty_Int32,
     Field ''m_averagePrice'' ty_Single,
     Field ''m_minPrice'' ty_Single,
     Field ''m_maxPrice'' ty_Single,
     Field ''m_currMinPrice'' ty_Single,
     Field ''m_auctionLevel'' ty_Int32,
     Field ''m_recentPriceList'' ty_List_AuctionRecentPrice]\<rparr>),
    (0x31538078, \<lparr>msgName = ''S2C_AuctionMyList'', msgDir = ''S2C'', msgID = 0x31538078, msgFields =
     [Field ''m_result'' ty_Int32,
     Field ''m_dailyTradeCount'' ty_Int32,
     Field ''m_auctionLevel'' ty_Int32,
     Field ''m_myAuctionElementList'' ty_List_MyAuctionElement]\<rparr>),
    (0x1774E58A, \<lparr>msgName = ''S2C_AuctionReRegister'', msgDir = ''S2C'', msgID = 0x1774E58A, msgFields =
     [Field ''m_result'' ty_Int32,
     Field ''m_myAuctionElementList'' ty_List_MyAuctionElement]\<rparr>),
    (0x193DAA33, \<lparr>msgName = ''S2C_AuctionRegister'', msgDir = ''S2C'', msgID = 0x193DAA33, msgFields =
     [Field ''m_result'' ty_Int32]\<rparr>),
    (0x387E9672, \<lparr>msgName = ''S2C_AuctionUpdateNoti'', msgDir = ''S2C'', msgID = 0x387E9672, msgFields =
     [Field ''m_auctionDBID'' ty_Int64,
     Field ''m_tradeStatus'' ty_Byte,
     Field ''m_remainSec'' ty_Int32]\<rparr>),
    (0x233679EA, \<lparr>msgName = ''S2C_AuctionWithdraw'', msgDir = ''S2C'', msgID = 0x233679EA, msgFields =
     [Field ''m_result'' ty_Int32,
     Field ''m_auctionDBID'' ty_Int64]\<rparr>),
    (0x396BB73F, \<lparr>msgName = ''S2C_AutoStoreSetting'', msgDir = ''S2C'', msgID = 0x396BB73F, msgFields =
     [Field ''m_result'' ty_Int32]\<rparr>),
    (0x093F874B, \<lparr>msgName = ''S2C_AutoStoreSettingList'', msgDir = ''S2C'', msgID = 0x093F874B, msgFields =
     [Field ''m_autoStoreSettingList'' ty_List_AutoStoreSettingInfo]\<rparr>),
    (0x10F9D638, \<lparr>msgName = ''S2C_AutoUseList'', msgDir = ''S2C'', msgID = 0x10F9D638, msgFields =
     [Field ''m_autoUseList'' ty_List_AutoUseInfo]\<rparr>),
    (0x19A0E189, \<lparr>msgName = ''S2C_BankCardList'', msgDir = ''S2C'', msgID = 0x19A0E189, msgFields =
     [Field ''m_result'' ty_Int32,
     Field ''m_cardList'' ty_List_BankCardInfo]\<rparr>),
    (0x1DDB5B0D, \<lparr>msgName = ''S2C_BankDeposit'', msgDir = ''S2C'', msgID = 0x1DDB5B0D, msgFields =
     [Field ''m_result'' ty_Int32,
     Field ''m_bankIndex'' ty_Int32,
     Field ''m_depositCount'' ty_Int64,
     Field ''m_cardInfo'' ty_BankCardInfo]\<rparr>),
    (0x0ED4765F, \<lparr>msgName = ''S2C_BankDepositRankList'', msgDir = ''S2C'', msgID = 0x0ED4765F, msgFields =
     [Field ''m_result'' ty_Int32,
     Field ''m_bankIndex'' ty_Int32,
     Field ''m_rankList'' ty_List_BankDepositRankInfo]\<rparr>),
    (0x0B61F53B, \<lparr>msgName = ''S2C_BossAuctionAlarmNoti'', msgDir = ''S2C'', msgID = 0x0B61F53B, msgFields =
     []\<rparr>),
    (0x00EBC473, \<lparr>msgName = ''S2C_BossAuctionBid'', msgDir = ''S2C'', msgID = 0x00EBC473, msgFields =
     [Field ''m_result'' ty_Int32]\<rparr>),
    (0x091AB9F8, \<lparr>msgName = ''S2C_BossAuctionBidChangeNoti'', msgDir = ''S2C'', msgID = 0x091AB9F8, msgFields =
     [Field ''m_bossAuctionID'' ty_Int64,
     Field ''m_slotIndex'' ty_Byte,
     Field ''m_bidderName'' ty_Chars,
     Field ''m_bidAmount'' ty_Int64,
     Field ''m_remainSec'' ty_Int32]\<rparr>),
    (0x1DF843BE, \<lparr>msgName = ''S2C_BossAuctionGetItemNoti'', msgDir = ''S2C'', msgID = 0x1DF843BE, msgFields =
     [Field ''m_bossAuctionID'' ty_Int64,
     Field ''m_slotIndex'' ty_Byte,
     Field ''m_bidderName'' ty_Chars,
     Field ''m_itemIndex'' ty_Int32]\<rparr>),
    (0x31F1D779, \<lparr>msgName = ''S2C_BossAuctionInfo'', msgDir = ''S2C'', msgID = 0x31F1D779, msgFields =
     [Field ''m_result'' ty_Int32,
     Field ''m_auctionInfoList'' ty_List_BossAuctionInfo]\<rparr>),
    (0x065CA1AB, \<lparr>msgName = ''S2C_BossAuctionStateChangeNoti'', msgDir = ''S2C'', msgID = 0x065CA1AB, msgFields =
     [Field ''m_bossAuctionID'' ty_Int64,
     Field ''m_activeSlotIndex'' ty_Int32,
     Field ''m_state'' ty_Int32,
     Field ''m_remainSec'' ty_Int32,
     Field ''m_remainTotalSec'' ty_Int32,
     Field ''m_initAmount'' ty_Int64]\<rparr>),
    (0x29A42628, \<lparr>msgName = ''S2C_BossAuctionWithdraw'', msgDir = ''S2C'', msgID = 0x29A42628, msgFields =
     [Field ''m_result'' ty_Int32]\<rparr>),
    (0x17C050AF, \<lparr>msgName = ''S2C_BossKillContributionRewardNoti'', msgDir = ''S2C'', msgID = 0x17C050AF, msgFields =
     [Field ''m_bossIndex'' ty_Int32,
     Field ''m_rewardList'' ty_List_ContributionRewardInfo]\<rparr>),
    (0x3B032C8E, \<lparr>msgName = ''S2C_BossRespawnNotice'', msgDir = ''S2C'', msgID = 0x3B032C8E, msgFields =
     [Field ''m_bossType'' ty_Byte,
     Field ''m_noticeType'' ty_Byte,
     Field ''m_mapIndex'' ty_Int32,
     Field ''m_monsterIndex'' ty_Int32,
     Field ''m_talkID'' ty_Int32]\<rparr>),
    (0x31DEA7A7, \<lparr>msgName = ''S2C_BroadCastNotify'', msgDir = ''S2C'', msgID = 0x31DEA7A7, msgFields =
     [Field ''m_broadcastList'' ty_List_BroadCastInfo]\<rparr>),
    (0x392D6325, \<lparr>msgName = ''S2C_BuffAddNoti'', msgDir = ''S2C'', msgID = 0x392D6325, msgFields =
     [Field ''m_actorOID'' ty_Int64,
     Field ''m_buffData'' ty_BuffData]\<rparr>),
    (0x345E016A, \<lparr>msgName = ''S2C_BuffDelNoti'', msgDir = ''S2C'', msgID = 0x345E016A, msgFields =
     [Field ''m_actorOID'' ty_Int64,
     Field ''m_buffIndex'' ty_Int32,
     Field ''m_isWorld'' ty_Boolean]\<rparr>),
    (0x205FAE8F, \<lparr>msgName = ''S2C_BuffList'', msgDir = ''S2C'', msgID = 0x205FAE8F, msgFields =
     [Field ''m_playerOID'' ty_Int64,
     Field ''m_buffDataList'' ty_List_BuffData]\<rparr>)]"

definition messages_11 :: "(u32 \<times> message) list" where
  "messages_11 =
   [(0x00E1FA4F, \<lparr>msgName = ''S2C_CancelParcel'', msgDir = ''S2C'', msgID = 0x00E1FA4F, msgFields =
     [Field ''m_result'' ty_Int32,
     Field ''m_parcelDBID'' ty_Int64]\<rparr>),
    (0x239A2DE0, \<lparr>msgName = ''S2C_CancelPartyInGuildNoti'', msgDir = ''S2C'', msgID = 0x239A2DE0, msgFields =
     [Field ''m_requestorOID'' ty_Int64,
     Field ''m_requestorName'' ty_Chars]\<rparr>),
    (0x14F0C34C, \<lparr>msgName = ''S2C_CancelRequestPartyInGuild'', msgDir = ''S2C'', msgID = 0x14F0C34C, msgFields =
     [Field ''m_result'' ty_Int32]\<rparr>),
    (0x21874DDA, \<lparr>msgName = ''S2C_CastleTaxRateChange'', msgDir = ''S2C'', msgID = 0x21874DDA, msgFields =
     [Field ''m_result'' ty_Int32,
     Field ''m_taxRate'' ty_Byte,
     Field ''m_nextTaxRate'' ty_Byte]\<rparr>),
    (0x3B1E74D5, \<lparr>msgName = ''S2C_ChangePreset'', msgDir = ''S2C'', msgID = 0x3B1E74D5, msgFields =
     [Field ''m_result'' ty_Int32,
     Field ''m_presetType'' ty_Byte,
     Field ''m_usePresetSlot'' ty_Byte,
     Field ''m_equippedPetIndex'' ty_Int32,
     Field ''m_equippedCostumeIndex'' ty_Int32]\<rparr>),
    (0x0FD9BA4A, \<lparr>msgName = ''S2C_ChangeSubClass'', msgDir = ''S2C'', msgID = 0x0FD9BA4A, msgFields =
     [Field ''m_result'' ty_Int32,
     Field ''m_selectSubClassType'' ty_Byte]\<rparr>),
    (0x29CD0F03, \<lparr>msgName = ''S2C_ChatMsg'', msgDir = ''S2C'', msgID = 0x29CD0F03, msgFields =
     [Field ''m_result'' ty_Int32]\<rparr>),
    (0x316E9960, \<lparr>msgName = ''S2C_ChatMsgNotify'', msgDir = ''S2C'', msgID = 0x316E9960, msgFields =
     [Field ''m_chatType'' ty_Byte,
     Field ''m_fromPlayerWorldID'' ty_Int32,
     Field ''m_fromPlayerName'' ty_Chars,
     Field ''m_fromPlayerClassType'' ty_Byte,
     Field ''m_fromPlayerPowerRank'' ty_Int32,
     Field ''m_fromPlayerMemberType'' ty_Byte,
     Field ''m_chatMsg'' ty_String,
     Field ''m_sendTime'' ty_Int64,
     Field ''m_languageType'' ty_Byte]\<rparr>),
    (0x27A02D2C, \<lparr>msgName = ''S2C_ChatPenaltyEndTimeNoti'', msgDir = ''S2C'', msgID = 0x27A02D2C, msgFields =
     [Field ''m_penaltyEndTime'' ty_Int64]\<rparr>),
    (0x103DE0B8, \<lparr>msgName = ''S2C_CheatKeyCommand'', msgDir = ''S2C'', msgID = 0x103DE0B8, msgFields =
     [Field ''m_result'' ty_Int32,
     Field ''m_command'' ty_String,
     Field ''m_param'' ty_String,
     Field ''m_targetOID'' ty_Int64,
     Field ''m_helpMsg'' ty_String]\<rparr>),
    (0x32E4591F, \<lparr>msgName = ''S2C_CheckConnection'', msgDir = ''S2C'', msgID = 0x32E4591F, msgFields =
     [Field ''m_socketUID'' ty_Int64,
     Field ''m_connectionKey'' ty_Int64,
     Field ''m_clientSendIV'' ty_Int64,
     Field ''m_serverSendIV'' ty_Int64,
     Field ''m_encryptionKeyLow'' ty_Int64,
     Field ''m_encryptionKeyHigh'' ty_Int64]\<rparr>),
    (0x29A1771B, \<lparr>msgName = ''S2C_CheckGuildName'', msgDir = ''S2C'', msgID = 0x29A1771B, msgFields =
     [Field ''m_result'' ty_Int32,
     Field ''m_guildName'' ty_Chars]\<rparr>),
    (0x14B2458E, \<lparr>msgName = ''S2C_CollectionCountReward'', msgDir = ''S2C'', msgID = 0x14B2458E, msgFields =
     [Field ''m_result'' ty_Int32,
     Field ''m_countInfo'' ty_CollectionCountInfo]\<rparr>),
    (0x37082E35, \<lparr>msgName = ''S2C_CollectionCountRewardList'', msgDir = ''S2C'', msgID = 0x37082E35, msgFields =
     [Field ''m_costumeList'' ty_List_Int32,
     Field ''m_petList'' ty_List_Int32,
     Field ''m_itemList'' ty_List_Int32,
     Field ''m_monsterList'' ty_List_Int32,
     Field ''m_collectionCountList'' ty_List_CollectionCountInfo]\<rparr>),
    (0x0DBE7F44, \<lparr>msgName = ''S2C_ColosseumClearWaveIndexNoti'', msgDir = ''S2C'', msgID = 0x0DBE7F44, msgFields =
     [Field ''m_mapIndex'' ty_Int32,
     Field ''m_clearWaveIndex'' ty_Int32]\<rparr>),
    (0x2D266106, \<lparr>msgName = ''S2C_ColosseumDealAmount'', msgDir = ''S2C'', msgID = 0x2D266106, msgFields =
     [Field ''m_dealAmount'' ty_Int64]\<rparr>),
    (0x10D8E485, \<lparr>msgName = ''S2C_CommissionInfo'', msgDir = ''S2C'', msgID = 0x10D8E485, msgFields =
     [Field ''m_commissionInfo'' ty_CommissionInfo]\<rparr>),
    (0x121694C2, \<lparr>msgName = ''S2C_CommissionQuestRefresh'', msgDir = ''S2C'', msgID = 0x121694C2, msgFields =
     [Field ''m_result'' ty_Int32,
     Field ''m_moneyType'' ty_Byte,
     Field ''m_commissionInfo'' ty_CommissionInfo,
     Field ''m_questList'' ty_List_QuestData]\<rparr>),
    (0x180AABCC, \<lparr>msgName = ''S2C_ConquestDungeonAccept'', msgDir = ''S2C'', msgID = 0x180AABCC, msgFields =
     [Field ''m_result'' ty_Int32,
     Field ''m_mapIndex'' ty_Int32,
     Field ''m_targetGuildOID'' ty_Int64,
     Field ''m_isAccept'' ty_Boolean]\<rparr>),
    (0x12F8739D, \<lparr>msgName = ''S2C_ConquestDungeonApply'', msgDir = ''S2C'', msgID = 0x12F8739D, msgFields =
     [Field ''m_result'' ty_Int32,
     Field ''m_mapIndex'' ty_Int32,
     Field ''m_isCancel'' ty_Boolean,
     Field ''m_expireTime'' ty_Int64,
     Field ''m_applyCost'' ty_Int64,
     Field ''m_applyState'' ty_Byte]\<rparr>),
    (0x16C6E057, \<lparr>msgName = ''S2C_ConquestDungeonChangeCost'', msgDir = ''S2C'', msgID = 0x16C6E057, msgFields =
     [Field ''m_result'' ty_Int32,
     Field ''m_mapIndex'' ty_Int32,
     Field ''m_applyCost'' ty_Int64]\<rparr>),
    (0x049C16AB, \<lparr>msgName = ''S2C_ConquestDungeonChangeLock'', msgDir = ''S2C'', msgID = 0x049C16AB, msgFields =
     [Field ''m_result'' ty_Int32,
     Field ''m_mapIndex'' ty_Int32,
     Field ''m_applyLock'' ty_Boolean]\<rparr>),
    (0x39DC3178, \<lparr>msgName = ''S2C_ConquestDungeonDetail'', msgDir = ''S2C'', msgID = 0x39DC3178, msgFields =
     [Field ''m_result'' ty_Int32,
     Field ''m_info'' ty_ConquestDungeon,
     Field ''m_applyList'' ty_List_ConquestDungeonApply]\<rparr>),
    (0x2473F0C8, \<lparr>msgName = ''S2C_ConquestDungeonList'', msgDir = ''S2C'', msgID = 0x2473F0C8, msgFields =
     [Field ''m_list'' ty_List_ConquestDungeon]\<rparr>),
    (0x2C1B8C72, \<lparr>msgName = ''S2C_ConquestDungeonNoti'', msgDir = ''S2C'', msgID = 0x2C1B8C72, msgFields =
     [Field ''m_noticeType'' ty_Byte,
     Field ''m_mapIndex'' ty_Int32,
     Field ''m_guildWorldID'' ty_Int32,
     Field ''m_guildName'' ty_Chars]\<rparr>),
    (0x0C4D933A, \<lparr>msgName = ''S2C_ConquestDungeonSimpleInfo'', msgDir = ''S2C'', msgID = 0x0C4D933A, msgFields =
     [Field ''m_result'' ty_Int32,
     Field ''m_mapIndex'' ty_Int32,
     Field ''m_conquestMapIndex'' ty_Int32,
     Field ''m_occupyWorldID'' ty_Int32,
     Field ''m_occupyGuildOID'' ty_Int64,
     Field ''m_occupyGuildName'' ty_Chars]\<rparr>),
    (0x003FDD11, \<lparr>msgName = ''S2C_ContentsSetting'', msgDir = ''S2C'', msgID = 0x003FDD11, msgFields =
     [Field ''m_contentsFlags'' ty_UInt32,
     Field ''m_levelLimits'' ty_Int32_arr,
     Field ''m_values'' ty_Int32_arr]\<rparr>),
    (0x2564BD45, \<lparr>msgName = ''S2C_ContentsSettingUpdateNotify'', msgDir = ''S2C'', msgID = 0x2564BD45, msgFields =
     [Field ''m_category'' ty_Byte,
     Field ''m_type'' ty_Byte,
     Field ''m_value'' ty_Int32]\<rparr>),
    (0x346EAD40, \<lparr>msgName = ''S2C_CoolInfo'', msgDir = ''S2C'', msgID = 0x346EAD40, msgFields =
     [Field ''m_coolType'' ty_Byte,
     Field ''m_coolInfo'' ty_CoolInfo]\<rparr>)]"

definition messages_12 :: "(u32 \<times> message) list" where
  "messages_12 =
   [(0x250B0738, \<lparr>msgName = ''S2C_CoolInfoList'', msgDir = ''S2C'', msgID = 0x250B0738, msgFields =
     [Field ''m_coolType'' ty_Byte,
     Field ''m_coolInfoList'' ty_List_CoolInfo]\<rparr>),
    (0x3B805D15, \<lparr>msgName = ''S2C_CostumeAddNotify'', msgDir = ''S2C'', msgID = 0x3B805D15, msgFields =
     [Field ''m_costumeIndex'' ty_Int32]\<rparr>),
    (0x33D0E994, \<lparr>msgName = ''S2C_CostumeCollectionCompleteNoti'', msgDir = ''S2C'', msgID = 0x33D0E994, msgFields =
     [Field ''m_indexList'' ty_List_Int32,
     Field ''m_possesionCount'' ty_Int32]\<rparr>),
    (0x13F1B7D6, \<lparr>msgName = ''S2C_CostumeCollectionList'', msgDir = ''S2C'', msgID = 0x13F1B7D6, msgFields =
     [Field ''__state__'' ty_Byte,
     Field ''m_collectionList'' ty_List_CollectionInfo,
     Field ''m_possesionCount'' ty_Int32]\<rparr>),
    (0x137C4D58, \<lparr>msgName = ''S2C_CostumeCompose'', msgDir = ''S2C'', msgID = 0x137C4D58, msgFields =
     [Field ''m_result'' ty_Int32,
     Field ''m_composeResultList'' ty_List_PickResultInfo,
     Field ''m_grade'' ty_Byte,
     Field ''m_failCount'' ty_Int32]\<rparr>),
    (0x0D7826D6, \<lparr>msgName = ''S2C_CostumeEquip'', msgDir = ''S2C'', msgID = 0x0D7826D6, msgFields =
     [Field ''m_result'' ty_Int32,
     Field ''m_prevCostumeIndex'' ty_Int32,
     Field ''m_costumeIndex'' ty_Int32]\<rparr>),
    (0x2873120D, \<lparr>msgName = ''S2C_CostumeExtract'', msgDir = ''S2C'', msgID = 0x2873120D, msgFields =
     [Field ''m_result'' ty_Int32]\<rparr>),
    (0x1B86BB9C, \<lparr>msgName = ''S2C_CostumeFailedReward'', msgDir = ''S2C'', msgID = 0x1B86BB9C, msgFields =
     [Field ''m_result'' ty_Int32,
     Field ''m_rewardResultList'' ty_List_PickResultInfo,
     Field ''m_grade'' ty_Byte,
     Field ''m_failCount'' ty_Int32]\<rparr>),
    (0x199326EE, \<lparr>msgName = ''S2C_CostumeList'', msgDir = ''S2C'', msgID = 0x199326EE, msgFields =
     [Field ''m_costumeList'' ty_List_CostumeInfo,
     Field ''m_failedList'' ty_List_ComposeFailedParam]\<rparr>),
    (0x29F1C44A, \<lparr>msgName = ''S2C_CostumeLookSet'', msgDir = ''S2C'', msgID = 0x29F1C44A, msgFields =
     [Field ''m_result'' ty_Int32,
     Field ''m_costumeIndex'' ty_Int32]\<rparr>),
    (0x0ED2EF72, \<lparr>msgName = ''S2C_CostumePickResultNotify'', msgDir = ''S2C'', msgID = 0x0ED2EF72, msgFields =
     [Field ''m_pickList'' ty_List_PickResultInfo,
     Field ''m_source'' ty_Byte]\<rparr>),
    (0x3957898E, \<lparr>msgName = ''S2C_CostumeReCompose'', msgDir = ''S2C'', msgID = 0x3957898E, msgFields =
     [Field ''m_result'' ty_Int32,
     Field ''m_composeResult'' ty_PickResultInfo,
     Field ''m_grade'' ty_Byte]\<rparr>),
    (0x1F4AE091, \<lparr>msgName = ''S2C_CostumeReComposeCheck'', msgDir = ''S2C'', msgID = 0x1F4AE091, msgFields =
     [Field ''m_result'' ty_Int32,
     Field ''m_maxGrade'' ty_Byte,
     Field ''m_materialItemOID'' ty_Int64,
     Field ''m_recomposeStartTime'' ty_Int64,
     Field ''m_recomposeEndTime'' ty_Int64]\<rparr>),
    (0x257C9CA8, \<lparr>msgName = ''S2C_CostumeRepick'', msgDir = ''S2C'', msgID = 0x257C9CA8, msgFields =
     [Field ''m_result'' ty_Int32,
     Field ''m_costumeIndex'' ty_Int32,
     Field ''m_isNew'' ty_Boolean]\<rparr>),
    (0x24A7ABC8, \<lparr>msgName = ''S2C_CostumeRepickConfirm'', msgDir = ''S2C'', msgID = 0x24A7ABC8, msgFields =
     [Field ''m_result'' ty_Int32,
     Field ''m_costumeIndex'' ty_Int32,
     Field ''m_isNew'' ty_Boolean]\<rparr>),
    (0x15A6D367, \<lparr>msgName = ''S2C_CostumeRepickList'', msgDir = ''S2C'', msgID = 0x15A6D367, msgFields =
     [Field ''__state__'' ty_Byte,
     Field ''m_repickList'' ty_List_RePickResultInfo]\<rparr>),
    (0x0C858145, \<lparr>msgName = ''S2C_CostumeStepUp'', msgDir = ''S2C'', msgID = 0x0C858145, msgFields =
     [Field ''m_result'' ty_Int32,
     Field ''m_costumeIndex'' ty_Int32,
     Field ''m_beforeStepUp'' ty_Byte,
     Field ''m_addedStepUp'' ty_Byte]\<rparr>),
    (0x18243DA2, \<lparr>msgName = ''S2C_CostumeStepUpCountReward'', msgDir = ''S2C'', msgID = 0x18243DA2, msgFields =
     [Field ''m_result'' ty_Int32,
     Field ''m_grade'' ty_Byte,
     Field ''m_count'' ty_Int32]\<rparr>),
    (0x30282A88, \<lparr>msgName = ''S2C_CostumeStepUpCountRewardList'', msgDir = ''S2C'', msgID = 0x30282A88, msgFields =
     [Field ''m_list'' ty_List_StepUpCountRewardInfo]\<rparr>),
    (0x398E453D, \<lparr>msgName = ''S2C_CreateDummyPlayer'', msgDir = ''S2C'', msgID = 0x398E453D, msgFields =
     [Field ''m_result'' ty_Int32,
     Field ''m_player'' ty_LobbyPlayerInfo]\<rparr>),
    (0x16AF8260, \<lparr>msgName = ''S2C_CreatePlayer'', msgDir = ''S2C'', msgID = 0x16AF8260, msgFields =
     [Field ''m_result'' ty_Int32,
     Field ''m_player'' ty_LobbyPlayerInfo]\<rparr>),
    (0x1DDD3F90, \<lparr>msgName = ''S2C_CreatePlayerWithPreemption'', msgDir = ''S2C'', msgID = 0x1DDD3F90, msgFields =
     [Field ''m_result'' ty_Int32,
     Field ''m_player'' ty_LobbyPlayerInfo]\<rparr>),
    (0x12833ACF, \<lparr>msgName = ''S2C_CrossTokenExchangeCancel'', msgDir = ''S2C'', msgID = 0x12833ACF, msgFields =
     [Field ''m_result'' ty_Int32]\<rparr>),
    (0x0B7EAB1A, \<lparr>msgName = ''S2C_CrossTokenExchangeInfo'', msgDir = ''S2C'', msgID = 0x0B7EAB1A, msgFields =
     [Field ''m_result'' ty_Int32,
     Field ''m_walletAddress'' ty_String,
     Field ''m_walletStatus'' ty_Byte,
     Field ''m_mintedCount'' ty_Int32,
     Field ''m_remainMintCount'' ty_Int32]\<rparr>),
    (0x2F081664, \<lparr>msgName = ''S2C_CrossWalletInfo'', msgDir = ''S2C'', msgID = 0x2F081664, msgFields =
     [Field ''m_walletAddress'' ty_String,
     Field ''m_walletStatus'' ty_Byte]\<rparr>),
    (0x1265F99D, \<lparr>msgName = ''S2C_DeleteItem'', msgDir = ''S2C'', msgID = 0x1265F99D, msgFields =
     [Field ''m_result'' ty_Int32]\<rparr>),
    (0x0AECB561, \<lparr>msgName = ''S2C_DeletePlayer'', msgDir = ''S2C'', msgID = 0x0AECB561, msgFields =
     [Field ''m_result'' ty_Int32,
     Field ''m_playerSlotIndex'' ty_Byte,
     Field ''m_deletedTime'' ty_Int64]\<rparr>),
    (0x368F990E, \<lparr>msgName = ''S2C_DeletePlayerCancel'', msgDir = ''S2C'', msgID = 0x368F990E, msgFields =
     [Field ''m_result'' ty_Int32,
     Field ''m_playerSlotIndex'' ty_Byte]\<rparr>),
    (0x17EF1785, \<lparr>msgName = ''S2C_DoGoldenBell'', msgDir = ''S2C'', msgID = 0x17EF1785, msgFields =
     [Field ''m_result'' ty_Int32]\<rparr>),
    (0x13845131, \<lparr>msgName = ''S2C_DominionAlarmNoti'', msgDir = ''S2C'', msgID = 0x13845131, msgFields =
     [Field ''m_alarm'' ty_Int32,
     Field ''m_endTime'' ty_Int64]\<rparr>),
    (0x09F5362E, \<lparr>msgName = ''S2C_DominionBossKillNoti'', msgDir = ''S2C'', msgID = 0x09F5362E, msgFields =
     [Field ''m_teamIndex'' ty_Byte,
     Field ''m_monsterIndex'' ty_Int32]\<rparr>),
    (0x20A003D9, \<lparr>msgName = ''S2C_DominionBossUpdateNoti'', msgDir = ''S2C'', msgID = 0x20A003D9, msgFields =
     [Field ''m_monsterIndex'' ty_Int32,
     Field ''m_pos'' ty_Vector]\<rparr>),
    (0x21507C8F, \<lparr>msgName = ''S2C_DominionBriefList'', msgDir = ''S2C'', msgID = 0x21507C8F, msgFields =
     [Field ''m_result'' ty_Int32,
     Field ''m_briefDataList'' ty_List_DominionBriefData]\<rparr>),
    (0x3A8A52AB, \<lparr>msgName = ''S2C_DominionEndNoti'', msgDir = ''S2C'', msgID = 0x3A8A52AB, msgFields =
     [Field ''m_winnerGuildName'' ty_Chars]\<rparr>)]"

definition messages_13 :: "(u32 \<times> message) list" where
  "messages_13 =
   [(0x0BD1AF19, \<lparr>msgName = ''S2C_DominionExit'', msgDir = ''S2C'', msgID = 0x0BD1AF19, msgFields =
     [Field ''m_result'' ty_Int32]\<rparr>),
    (0x311F9551, \<lparr>msgName = ''S2C_DominionInfo'', msgDir = ''S2C'', msgID = 0x311F9551, msgFields =
     [Field ''m_result'' ty_Int32,
     Field ''m_briefData'' ty_DominionBriefData,
     Field ''m_guildDataList'' ty_List_DominionGuildData,
     Field ''m_memberDataList'' ty_List_DominionMemberData,
     Field ''m_productDataList'' ty_List_DominionProductData,
     Field ''m_moneyDataList'' ty_List_DominionMoneyData,
     Field ''m_taxRate'' ty_Byte]\<rparr>),
    (0x0853DD66, \<lparr>msgName = ''S2C_DominionIngameMemberPointNoti'', msgDir = ''S2C'', msgID = 0x0853DD66, msgFields =
     [Field ''m_memberPointList'' ty_List_DominionIngameMemberPoint]\<rparr>),
    (0x2E5D9ECB, \<lparr>msgName = ''S2C_DominionIngameTeamPointNoti'', msgDir = ''S2C'', msgID = 0x2E5D9ECB, msgFields =
     [Field ''m_occupyGuildDBID'' ty_Int64,
     Field ''m_occupyGuildName'' ty_Chars,
     Field ''m_teamPointList'' ty_List_DominionIngameTeamPoint]\<rparr>),
    (0x0B129A4C, \<lparr>msgName = ''S2C_DominionKillComboTargetAddNoti'', msgDir = ''S2C'', msgID = 0x0B129A4C, msgFields =
     [Field ''m_killCombo'' ty_DominionKillComboInfo]\<rparr>),
    (0x309570AB, \<lparr>msgName = ''S2C_DominionKillComboTargetListNoti'', msgDir = ''S2C'', msgID = 0x309570AB, msgFields =
     [Field ''m_killComboList'' ty_List_DominionKillComboInfo]\<rparr>),
    (0x2E143F53, \<lparr>msgName = ''S2C_DominionKillComboTargetRemoveNoti'', msgDir = ''S2C'', msgID = 0x2E143F53, msgFields =
     [Field ''m_comboTargetDBID'' ty_Int64]\<rparr>),
    (0x3A78B065, \<lparr>msgName = ''S2C_DominionMyPointNoti'', msgDir = ''S2C'', msgID = 0x3A78B065, msgFields =
     [Field ''m_myPoint'' ty_Int32]\<rparr>),
    (0x0034E1F7, \<lparr>msgName = ''S2C_DominionMyTeamIndex'', msgDir = ''S2C'', msgID = 0x0034E1F7, msgFields =
     [Field ''m_teamIndex'' ty_Byte]\<rparr>),
    (0x0483EBB3, \<lparr>msgName = ''S2C_DominionReward'', msgDir = ''S2C'', msgID = 0x0483EBB3, msgFields =
     [Field ''m_result'' ty_Int32,
     Field ''m_rewardDataList'' ty_List_DominionResultData]\<rparr>),
    (0x2FAA9FEC, \<lparr>msgName = ''S2C_DominionRewardNoti'', msgDir = ''S2C'', msgID = 0x2FAA9FEC, msgFields =
     [Field ''m_fixTime'' ty_Int64]\<rparr>),
    (0x299FF425, \<lparr>msgName = ''S2C_DominionSetColor'', msgDir = ''S2C'', msgID = 0x299FF425, msgFields =
     [Field ''m_result'' ty_Int32,
     Field ''m_colorIndex'' ty_Byte]\<rparr>),
    (0x01FC6F7C, \<lparr>msgName = ''S2C_DominionSubscription'', msgDir = ''S2C'', msgID = 0x01FC6F7C, msgFields =
     [Field ''m_result'' ty_Int32,
     Field ''m_briefData'' ty_DominionBriefData,
     Field ''m_guildDataList'' ty_List_DominionGuildData]\<rparr>),
    (0x30870207, \<lparr>msgName = ''S2C_DominionTaxList'', msgDir = ''S2C'', msgID = 0x30870207, msgFields =
     [Field ''m_result'' ty_Int32,
     Field ''m_dominionList'' ty_List_DominionTaxInfo]\<rparr>),
    (0x00AA8ACC, \<lparr>msgName = ''S2C_DominionTaxRateChange'', msgDir = ''S2C'', msgID = 0x00AA8ACC, msgFields =
     [Field ''m_result'' ty_Int32,
     Field ''m_nextTaxRate'' ty_Byte,
     Field ''m_dominionList'' ty_List_DominionTaxInfo]\<rparr>),
    (0x3B2CCBE3, \<lparr>msgName = ''S2C_EngraveSoulStone'', msgDir = ''S2C'', msgID = 0x3B2CCBE3, msgFields =
     [Field ''m_result'' ty_Int32,
     Field ''m_presetSlot'' ty_Byte,
     Field ''m_soulStoneIndex'' ty_Int32,
     Field ''m_soulStoneSlotInfo'' ty_SoulStoneSlotInfo]\<rparr>),
    (0x31AFB19A, \<lparr>msgName = ''S2C_EnterWorld'', msgDir = ''S2C'', msgID = 0x31AFB19A, msgFields =
     [Field ''m_result'' ty_Int32,
     Field ''m_playerSlotIndex'' ty_Byte]\<rparr>),
    (0x13DFE454, \<lparr>msgName = ''S2C_EnterWorldComplete'', msgDir = ''S2C'', msgID = 0x13DFE454, msgFields =
     [Field ''m_result'' ty_Int32,
     Field ''m_myPlayerInfo'' ty_MyPlayerInfo,
     Field ''m_warpToken'' ty_Int64]\<rparr>),
    (0x232F907D, \<lparr>msgName = ''S2C_EntertainmentList'', msgDir = ''S2C'', msgID = 0x232F907D, msgFields =
     [Field ''m_result'' ty_Int32,
     Field ''m_entIndex'' ty_Int32,
     Field ''m_entInfoList'' ty_List_EntertainmentInfo]\<rparr>),
    (0x276BEFDE, \<lparr>msgName = ''S2C_EntertainmentPlay'', msgDir = ''S2C'', msgID = 0x276BEFDE, msgFields =
     [Field ''m_result'' ty_Int32,
     Field ''m_entIndex'' ty_Int32,
     Field ''m_costValue'' ty_Int32,
     Field ''m_entResultIndex'' ty_Int32,
     Field ''m_entInfo'' ty_EntertainmentInfo]\<rparr>),
    (0x04F39A21, \<lparr>msgName = ''S2C_EquipItem'', msgDir = ''S2C'', msgID = 0x04F39A21, msgFields =
     [Field ''m_result'' ty_Int32,
     Field ''m_presetSlot'' ty_Byte,
     Field ''m_equipSlot'' ty_Byte,
     Field ''m_itemOID'' ty_Int64]\<rparr>),
    (0x189276E9, \<lparr>msgName = ''S2C_EquipList'', msgDir = ''S2C'', msgID = 0x189276E9, msgFields =
     [Field ''m_usePresetSlot'' ty_Byte_arr,
     Field ''m_equipItemList'' ty_List_EquipItemData_arr,
     Field ''m_equipCostume'' ty_Int32_arr,
     Field ''m_equipPet'' ty_PetInfo_arr,
     Field ''m_monolithEquipItemList'' ty_List_EquipItemData_arr]\<rparr>),
    (0x161E14CD, \<lparr>msgName = ''S2C_EventGameBingoBoard'', msgDir = ''S2C'', msgID = 0x161E14CD, msgFields =
     [Field ''m_result'' ty_Int32,
     Field ''m_bingoStatus'' ty_EventBingoStatus]\<rparr>),
    (0x2FFDC042, \<lparr>msgName = ''S2C_EventGameBingoBoardOpen'', msgDir = ''S2C'', msgID = 0x2FFDC042, msgFields =
     [Field ''m_result'' ty_Int32,
     Field ''m_bingoStatus'' ty_EventBingoStatus,
     Field ''m_randomPlateNum'' ty_Byte]\<rparr>),
    (0x1CE62965, \<lparr>msgName = ''S2C_EventGameBingoBoardReward'', msgDir = ''S2C'', msgID = 0x1CE62965, msgFields =
     [Field ''m_result'' ty_Int32,
     Field ''m_eventIndex'' ty_Int32,
     Field ''m_lineNum'' ty_Int32,
     Field ''m_reward'' ty_RewardData]\<rparr>),
    (0x200DCE0A, \<lparr>msgName = ''S2C_EventGameNotifyList'', msgDir = ''S2C'', msgID = 0x200DCE0A, msgFields =
     [Field ''m_eventIndexList'' ty_List_Int32]\<rparr>),
    (0x1BE12AA6, \<lparr>msgName = ''S2C_EventGameRandomBox'', msgDir = ''S2C'', msgID = 0x1BE12AA6, msgFields =
     [Field ''m_result'' ty_Int32,
     Field ''m_eventIndex'' ty_Int32,
     Field ''m_usedFreeCount'' ty_Int32,
     Field ''m_slotInfoList'' ty_List_EventGameRandomBoxSlotInfo]\<rparr>),
    (0x0015BC21, \<lparr>msgName = ''S2C_EventGameRandomBoxOpen'', msgDir = ''S2C'', msgID = 0x0015BC21, msgFields =
     [Field ''m_result'' ty_Int32,
     Field ''m_eventIndex'' ty_Int32,
     Field ''m_usedFreeCount'' ty_Int32,
     Field ''m_slotInfo'' ty_EventGameRandomBoxSlotInfo]\<rparr>),
    (0x1240F597, \<lparr>msgName = ''S2C_EventGameRandomBoxReset'', msgDir = ''S2C'', msgID = 0x1240F597, msgFields =
     [Field ''m_result'' ty_Int32,
     Field ''m_eventIndex'' ty_Int32]\<rparr>),
    (0x22768542, \<lparr>msgName = ''S2C_EventMissionCompleteNotify'', msgDir = ''S2C'', msgID = 0x22768542, msgFields =
     [Field ''m_eventMissionIndex'' ty_Int32]\<rparr>),
    (0x001C763D, \<lparr>msgName = ''S2C_EventMissionList'', msgDir = ''S2C'', msgID = 0x001C763D, msgFields =
     [Field ''m_result'' ty_Int32,
     Field ''m_eventMissionList'' ty_List_EventMissionInfo]\<rparr>),
    (0x125F4718, \<lparr>msgName = ''S2C_EventMissionReward'', msgDir = ''S2C'', msgID = 0x125F4718, msgFields =
     [Field ''m_result'' ty_Int32,
     Field ''m_eventMission'' ty_EventMissionInfo]\<rparr>),
    (0x2495679A, \<lparr>msgName = ''S2C_ExitWorld'', msgDir = ''S2C'', msgID = 0x2495679A, msgFields =
     [Field ''m_result'' ty_Int32]\<rparr>)]"

definition messages_14 :: "(u32 \<times> message) list" where
  "messages_14 =
   [(0x1185D802, \<lparr>msgName = ''S2C_FriendDelete'', msgDir = ''S2C'', msgID = 0x1185D802, msgFields =
     [Field ''m_result'' ty_Int32,
     Field ''m_targetPlayerOID'' ty_Int64]\<rparr>),
    (0x3186BA94, \<lparr>msgName = ''S2C_FriendRequest'', msgDir = ''S2C'', msgID = 0x3186BA94, msgFields =
     [Field ''m_result'' ty_Int32,
     Field ''m_requestPlayerInfo'' ty_FriendRequestInfo]\<rparr>),
    (0x316A05A5, \<lparr>msgName = ''S2C_FriendRequestCancel'', msgDir = ''S2C'', msgID = 0x316A05A5, msgFields =
     [Field ''m_result'' ty_Int32,
     Field ''m_targetPlayerOID'' ty_Int64]\<rparr>),
    (0x101FE3B5, \<lparr>msgName = ''S2C_FriendRequestReply'', msgDir = ''S2C'', msgID = 0x101FE3B5, msgFields =
     [Field ''m_result'' ty_Int32,
     Field ''m_accept'' ty_Boolean,
     Field ''m_friendPlayerInfo'' ty_RelationPlayerInfo]\<rparr>),
    (0x0EB1A577, \<lparr>msgName = ''S2C_GameGuardCheck'', msgDir = ''S2C'', msgID = 0x0EB1A577, msgFields =
     [Field ''m_requestKey'' ty_Byte_arr,
     Field ''m_keySize'' ty_UInt32,
     Field ''m_serverNum'' ty_Int32]\<rparr>),
    (0x19ED32A7, \<lparr>msgName = ''S2C_GameNotice'', msgDir = ''S2C'', msgID = 0x19ED32A7, msgFields =
     [Field ''m_noticeOID'' ty_Int64,
     Field ''m_isDeleted'' ty_Boolean,
     Field ''m_repeatCount'' ty_Byte,
     Field ''m_repeatInterval'' ty_Int32,
     Field ''m_endTime'' ty_Int64,
     Field ''m_message'' ty_String]\<rparr>),
    (0x16554CB2, \<lparr>msgName = ''S2C_GoldenBellEnableNotify'', msgDir = ''S2C'', msgID = 0x16554CB2, msgFields =
     [Field ''m_goldenBellIndex'' ty_Int32]\<rparr>),
    (0x00D9F1AC, \<lparr>msgName = ''S2C_GoldenBellNotify'', msgDir = ''S2C'', msgID = 0x00D9F1AC, msgFields =
     [Field ''m_isHideChar'' ty_Boolean,
     Field ''m_playerName'' ty_Chars,
     Field ''m_goldenBellIndex'' ty_Int32,
     Field ''m_relateIndex'' ty_Int32]\<rparr>),
    (0x096D9E39, \<lparr>msgName = ''S2C_GuardDisband'', msgDir = ''S2C'', msgID = 0x096D9E39, msgFields =
     [Field ''m_result'' ty_Int32,
     Field ''m_isSelf'' ty_Boolean,
     Field ''m_playerOID'' ty_Int64,
     Field ''m_guardGuildOID'' ty_Int64,
     Field ''m_contractEndTime'' ty_Int64]\<rparr>),
    (0x37B74741, \<lparr>msgName = ''S2C_GuardDisbandNotify'', msgDir = ''S2C'', msgID = 0x37B74741, msgFields =
     [Field ''m_guardGuildOID'' ty_Int64,
     Field ''m_contractEndTime'' ty_Int64]\<rparr>),
    (0x0464A5ED, \<lparr>msgName = ''S2C_GuardExtension'', msgDir = ''S2C'', msgID = 0x0464A5ED, msgFields =
     [Field ''m_result'' ty_Int32,
     Field ''m_contractEndTime'' ty_Int64]\<rparr>),
    (0x0E927E0E, \<lparr>msgName = ''S2C_GuardExtensionNotify'', msgDir = ''S2C'', msgID = 0x0E927E0E, msgFields =
     [Field ''m_playerOID'' ty_Int64,
     Field ''m_contractEndTime'' ty_Int64]\<rparr>),
    (0x09D9193D, \<lparr>msgName = ''S2C_GuardGrowthPointNotify'', msgDir = ''S2C'', msgID = 0x09D9193D, msgFields =
     [Field ''m_guardGuildOID'' ty_Int64,
     Field ''m_growthPoint'' ty_Int32]\<rparr>),
    (0x0DAC35C8, \<lparr>msgName = ''S2C_GuardGuildGrowthReward'', msgDir = ''S2C'', msgID = 0x0DAC35C8, msgFields =
     [Field ''m_result'' ty_Int32,
     Field ''m_guardGuildOID'' ty_Int64,
     Field ''m_guildGrowthPoint'' ty_Int32,
     Field ''m_guildRewardedPoint'' ty_Int32]\<rparr>),
    (0x0B619159, \<lparr>msgName = ''S2C_GuardGuildList'', msgDir = ''S2C'', msgID = 0x0B619159, msgFields =
     [Field ''__state__'' ty_Byte,
     Field ''m_result'' ty_Int32,
     Field ''m_guilds'' ty_List_GuardListInfo]\<rparr>),
    (0x371514F2, \<lparr>msgName = ''S2C_GuardHelpRequest'', msgDir = ''S2C'', msgID = 0x371514F2, msgFields =
     [Field ''m_result'' ty_Int32]\<rparr>),
    (0x18326906, \<lparr>msgName = ''S2C_GuardHelpRequestNotify'', msgDir = ''S2C'', msgID = 0x18326906, msgFields =
     [Field ''m_targetAccountOID'' ty_Int64,
     Field ''m_targetPlayerOID'' ty_Int64,
     Field ''m_targetPlayerName'' ty_Chars]\<rparr>),
    (0x2B1D87E1, \<lparr>msgName = ''S2C_GuardHelpResponse'', msgDir = ''S2C'', msgID = 0x2B1D87E1, msgFields =
     [Field ''m_result'' ty_Int32,
     Field ''m_targetPlayerOID'' ty_Int64]\<rparr>),
    (0x163D9ABF, \<lparr>msgName = ''S2C_GuardHelpResponseNotify'', msgDir = ''S2C'', msgID = 0x163D9ABF, msgFields =
     [Field ''m_playerOID'' ty_Int64,
     Field ''m_playerName'' ty_Chars]\<rparr>),
    (0x2995E2FD, \<lparr>msgName = ''S2C_GuardMyInfo'', msgDir = ''S2C'', msgID = 0x2995E2FD, msgFields =
     [Field ''m_result'' ty_Int32,
     Field ''m_guardMyInfo'' ty_GuardMyInfo]\<rparr>),
    (0x29C9623A, \<lparr>msgName = ''S2C_GuardRequest'', msgDir = ''S2C'', msgID = 0x29C9623A, msgFields =
     [Field ''m_result'' ty_Int32,
     Field ''m_guardMyInfo'' ty_GuardMyInfo]\<rparr>),
    (0x1428EA1B, \<lparr>msgName = ''S2C_GuardRequestAnswer'', msgDir = ''S2C'', msgID = 0x1428EA1B, msgFields =
     [Field ''m_result'' ty_Int32,
     Field ''m_isAccept'' ty_Boolean,
     Field ''m_targetPlayerOID'' ty_Int64,
     Field ''m_contractLevel'' ty_Int32,
     Field ''m_contractEndTime'' ty_Int64]\<rparr>),
    (0x06E6FFED, \<lparr>msgName = ''S2C_GuardRequestAnswerNotify'', msgDir = ''S2C'', msgID = 0x06E6FFED, msgFields =
     [Field ''m_guardGuildOID'' ty_Int64,
     Field ''m_isAccept'' ty_Boolean,
     Field ''m_contractType'' ty_Byte,
     Field ''m_contractLevel'' ty_Int32,
     Field ''m_contractEndTime'' ty_Int64]\<rparr>),
    (0x3093A382, \<lparr>msgName = ''S2C_GuardRequestCancel'', msgDir = ''S2C'', msgID = 0x3093A382, msgFields =
     [Field ''m_result'' ty_Int32]\<rparr>),
    (0x066399B8, \<lparr>msgName = ''S2C_GuardUserGrowthReward'', msgDir = ''S2C'', msgID = 0x066399B8, msgFields =
     [Field ''m_result'' ty_Int32,
     Field ''m_guardGuildOID'' ty_Int64,
     Field ''m_growthPoint'' ty_Int32,
     Field ''m_rewardedPoint'' ty_Int32]\<rparr>),
    (0x1A103C08, \<lparr>msgName = ''S2C_GuildAddAllianceNotify'', msgDir = ''S2C'', msgID = 0x1A103C08, msgFields =
     [Field ''m_allianceGuildOID'' ty_Int64]\<rparr>),
    (0x1F6393D8, \<lparr>msgName = ''S2C_GuildAddHostile'', msgDir = ''S2C'', msgID = 0x1F6393D8, msgFields =
     [Field ''m_result'' ty_Int32,
     Field ''m_guildDBID'' ty_Int64,
     Field ''m_hostileGuildName'' ty_Chars]\<rparr>),
    (0x27F01071, \<lparr>msgName = ''S2C_GuildAddHostileNotify'', msgDir = ''S2C'', msgID = 0x27F01071, msgFields =
     [Field ''m_hostileGuildOID'' ty_Int64]\<rparr>),
    (0x2C04A7EF, \<lparr>msgName = ''S2C_GuildAddWorldRelation'', msgDir = ''S2C'', msgID = 0x2C04A7EF, msgFields =
     [Field ''m_result'' ty_Int32,
     Field ''m_relationType'' ty_Byte]\<rparr>),
    (0x1C9E713B, \<lparr>msgName = ''S2C_GuildAddWorldRelationNotify'', msgDir = ''S2C'', msgID = 0x1C9E713B, msgFields =
     [Field ''m_relationType'' ty_Byte,
     Field ''m_targetWorldID'' ty_Int32,
     Field ''m_targetGuildOID'' ty_Int64,
     Field ''m_targetGuildName'' ty_Chars]\<rparr>),
    (0x388409CE, \<lparr>msgName = ''S2C_GuildAgitRent'', msgDir = ''S2C'', msgID = 0x388409CE, msgFields =
     [Field ''m_result'' ty_Int32,
     Field ''m_shopSlotIndex'' ty_Byte,
     Field ''m_agitMapIndex'' ty_Int32,
     Field ''m_agitExpireTime'' ty_Int64]\<rparr>)]"

definition messages_15 :: "(u32 \<times> message) list" where
  "messages_15 =
   [(0x385246CF, \<lparr>msgName = ''S2C_GuildAgitUpdateNotify'', msgDir = ''S2C'', msgID = 0x385246CF, msgFields =
     [Field ''m_agitMapIndex'' ty_Int32,
     Field ''m_agitExpireTime'' ty_Int64]\<rparr>),
    (0x3AC21BC7, \<lparr>msgName = ''S2C_GuildAttendanceInfo'', msgDir = ''S2C'', msgID = 0x3AC21BC7, msgFields =
     [Field ''m_result'' ty_Int32,
     Field ''m_notifyAttendanceChecked'' ty_Boolean,
     Field ''m_guildAttendanceInfo'' ty_GuildAttendanceInfo]\<rparr>),
    (0x21CF4A25, \<lparr>msgName = ''S2C_GuildBuffBuy'', msgDir = ''S2C'', msgID = 0x21CF4A25, msgFields =
     [Field ''m_result'' ty_Int32,
     Field ''m_slotIndex'' ty_Byte,
     Field ''m_buffInfo'' ty_GuildBuffInfo]\<rparr>),
    (0x1D6D1B4B, \<lparr>msgName = ''S2C_GuildBuffUpdateNotify'', msgDir = ''S2C'', msgID = 0x1D6D1B4B, msgFields =
     [Field ''m_buffInfo'' ty_GuildBuffInfo]\<rparr>),
    (0x242760B6, \<lparr>msgName = ''S2C_GuildCancelAlliance'', msgDir = ''S2C'', msgID = 0x242760B6, msgFields =
     [Field ''m_result'' ty_Int32,
     Field ''m_guildDBID'' ty_Int64]\<rparr>),
    (0x03090D9A, \<lparr>msgName = ''S2C_GuildCancelHostile'', msgDir = ''S2C'', msgID = 0x03090D9A, msgFields =
     [Field ''m_result'' ty_Int32,
     Field ''m_guildDBID'' ty_Int64]\<rparr>),
    (0x05A82BEF, \<lparr>msgName = ''S2C_GuildCancelHostileNotify'', msgDir = ''S2C'', msgID = 0x05A82BEF, msgFields =
     [Field ''m_hostileGuildOID'' ty_Int64]\<rparr>),
    (0x18DEA88C, \<lparr>msgName = ''S2C_GuildContentResearchEnchant'', msgDir = ''S2C'', msgID = 0x18DEA88C, msgFields =
     [Field ''m_result'' ty_Int32]\<rparr>),
    (0x2FA4B1C9, \<lparr>msgName = ''S2C_GuildContentResearchList'', msgDir = ''S2C'', msgID = 0x2FA4B1C9, msgFields =
     [Field ''__state__'' ty_Byte,
     Field ''m_result'' ty_Int32,
     Field ''m_contentResearchList'' ty_List_GuildContentResearchInfo]\<rparr>),
    (0x09921FEF, \<lparr>msgName = ''S2C_GuildContentResearchRecommendUpdate'', msgDir = ''S2C'', msgID = 0x09921FEF, msgFields =
     [Field ''m_result'' ty_Int32]\<rparr>),
    (0x25BEB72A, \<lparr>msgName = ''S2C_GuildContentResearchRecommendUpdateNotify'', msgDir = ''S2C'', msgID = 0x25BEB72A, msgFields =
     [Field ''m_recommendContentGroupIndex'' ty_Int32,
     Field ''m_unRecommendContentGroupIndex'' ty_Int32]\<rparr>),
    (0x0FF0B0AE, \<lparr>msgName = ''S2C_GuildContentResearchUpdateNotify'', msgDir = ''S2C'', msgID = 0x0FF0B0AE, msgFields =
     [Field ''m_contentResearchInfo'' ty_GuildContentResearchInfo,
     Field ''m_contentResearchList'' ty_List_GuildContentResearchInfo,
     Field ''m_guildContribute'' ty_Int64,
     Field ''m_guildWeelyContribute'' ty_Int64,
     Field ''m_completeGuildLabIndex'' ty_Int32]\<rparr>),
    (0x23B33802, \<lparr>msgName = ''S2C_GuildCreate'', msgDir = ''S2C'', msgID = 0x23B33802, msgFields =
     [Field ''m_result'' ty_Int32,
     Field ''m_guildInfo'' ty_MyGuildInfo]\<rparr>),
    (0x3526DE64, \<lparr>msgName = ''S2C_GuildDisband'', msgDir = ''S2C'', msgID = 0x3526DE64, msgFields =
     [Field ''m_result'' ty_Int32,
     Field ''m_guildOID'' ty_Int64]\<rparr>),
    (0x3B7E7A6D, \<lparr>msgName = ''S2C_GuildDisbandAlliance'', msgDir = ''S2C'', msgID = 0x3B7E7A6D, msgFields =
     [Field ''m_result'' ty_Int32,
     Field ''m_guildDBID'' ty_Int64]\<rparr>),
    (0x09790F3F, \<lparr>msgName = ''S2C_GuildDisbandAllianceNotify'', msgDir = ''S2C'', msgID = 0x09790F3F, msgFields =
     [Field ''m_allianceGuildOID'' ty_Int64]\<rparr>),
    (0x36774215, \<lparr>msgName = ''S2C_GuildDistributionContribution'', msgDir = ''S2C'', msgID = 0x36774215, msgFields =
     [Field ''m_result'' ty_Int32]\<rparr>),
    (0x0232DD5F, \<lparr>msgName = ''S2C_GuildDistributionDetailInfo'', msgDir = ''S2C'', msgID = 0x0232DD5F, msgFields =
     [Field ''m_result'' ty_Int32,
     Field ''m_contributionList'' ty_List_GuildContributeTypeInfo,
     Field ''m_memberList'' ty_List_DistributionMemberDetailInfo]\<rparr>),
    (0x1D42C9EE, \<lparr>msgName = ''S2C_GuildDistributionExecute'', msgDir = ''S2C'', msgID = 0x1D42C9EE, msgFields =
     [Field ''m_result'' ty_Int32]\<rparr>),
    (0x2F70CED5, \<lparr>msgName = ''S2C_GuildDistributionInfo'', msgDir = ''S2C'', msgID = 0x2F70CED5, msgFields =
     [Field ''m_result'' ty_Int32]\<rparr>),
    (0x2F6985F4, \<lparr>msgName = ''S2C_GuildDistributionMemberNoti'', msgDir = ''S2C'', msgID = 0x2F6985F4, msgFields =
     [Field ''__state__'' ty_Byte,
     Field ''m_thisWeek'' ty_Boolean,
     Field ''m_memberList'' ty_List_DistributionMemberInfo]\<rparr>),
    (0x0665A4AD, \<lparr>msgName = ''S2C_GuildDistributionMoney'', msgDir = ''S2C'', msgID = 0x0665A4AD, msgFields =
     [Field ''m_result'' ty_Int32]\<rparr>),
    (0x3100E728, \<lparr>msgName = ''S2C_GuildDistributionSettingNoti'', msgDir = ''S2C'', msgID = 0x3100E728, msgFields =
     [Field ''m_thisWeek'' ty_Boolean,
     Field ''m_settingInfo'' ty_GuildDistributionSetting]\<rparr>),
    (0x34492655, \<lparr>msgName = ''S2C_GuildDistributionType'', msgDir = ''S2C'', msgID = 0x34492655, msgFields =
     [Field ''m_result'' ty_Int32]\<rparr>),
    (0x35B81097, \<lparr>msgName = ''S2C_GuildDonate'', msgDir = ''S2C'', msgID = 0x35B81097, msgFields =
     [Field ''m_result'' ty_Int32,
     Field ''m_donationPropertyType'' ty_Byte,
     Field ''m_goldDonationCount'' ty_Byte,
     Field ''m_cashDonationCount'' ty_Byte,
     Field ''m_crystalDonationCount'' ty_Byte,
     Field ''m_guildGold'' ty_Int64,
     Field ''m_guildCash'' ty_Int64,
     Field ''m_guildCrystal'' ty_Int64]\<rparr>),
    (0x29C9020E, \<lparr>msgName = ''S2C_GuildDonationCount'', msgDir = ''S2C'', msgID = 0x29C9020E, msgFields =
     [Field ''m_result'' ty_Int32,
     Field ''m_goldDonationCount'' ty_Byte,
     Field ''m_cashDonationCount'' ty_Byte,
     Field ''m_crystalDonationCount'' ty_Byte]\<rparr>),
    (0x0F1F153C, \<lparr>msgName = ''S2C_GuildDungeonAttributeNoti'', msgDir = ''S2C'', msgID = 0x0F1F153C, msgFields =
     [Field ''m_dungeonIndex'' ty_Int32,
     Field ''m_dungeonAttributeType'' ty_Int32,
     Field ''m_dealingPoint'' ty_Int32]\<rparr>),
    (0x026E7D8A, \<lparr>msgName = ''S2C_GuildDungeonClearNotify'', msgDir = ''S2C'', msgID = 0x026E7D8A, msgFields =
     [Field ''m_dungeonIndex'' ty_Int32]\<rparr>),
    (0x39037FE3, \<lparr>msgName = ''S2C_GuildDungeonDealingPointNotify'', msgDir = ''S2C'', msgID = 0x39037FE3, msgFields =
     [Field ''m_dungeonIndex'' ty_Int32,
     Field ''m_dealingPoint'' ty_Int32]\<rparr>),
    (0x34EDA476, \<lparr>msgName = ''S2C_GuildDungeonList'', msgDir = ''S2C'', msgID = 0x34EDA476, msgFields =
     [Field ''m_result'' ty_Int32,
     Field ''m_dungeonLevel'' ty_Int32,
     Field ''m_dungeonList'' ty_List_GuildDungeonInfo]\<rparr>),
    (0x2BF40C0B, \<lparr>msgName = ''S2C_GuildDungeonResultNotify'', msgDir = ''S2C'', msgID = 0x2BF40C0B, msgFields =
     [Field ''m_dungeonIndex'' ty_Int32,
     Field ''m_dealingGrade'' ty_Int32]\<rparr>),
    (0x2FB4382A, \<lparr>msgName = ''S2C_GuildDungeonWaveNoti'', msgDir = ''S2C'', msgID = 0x2FB4382A, msgFields =
     [Field ''m_totalWaveCount'' ty_Int32,
     Field ''m_accuWaveCount'' ty_Int32,
     Field ''m_isClear'' ty_Boolean,
     Field ''m_closeRemainSec'' ty_Int32]\<rparr>),
    (0x29D143CF, \<lparr>msgName = ''S2C_GuildDungoenCloseNotify'', msgDir = ''S2C'', msgID = 0x29D143CF, msgFields =
     [Field ''m_dungeonIndex'' ty_Int32]\<rparr>),
    (0x344B501E, \<lparr>msgName = ''S2C_GuildDungoenOpen'', msgDir = ''S2C'', msgID = 0x344B501E, msgFields =
     [Field ''m_result'' ty_Int32,
     Field ''m_dungeonIndex'' ty_Int32,
     Field ''m_useOpenCount'' ty_Int32]\<rparr>),
    (0x373B3758, \<lparr>msgName = ''S2C_GuildDungoenOpenNotify'', msgDir = ''S2C'', msgID = 0x373B3758, msgFields =
     [Field ''m_dungeonIndex'' ty_Int32,
     Field ''m_dungeonExpireTime'' ty_Int64]\<rparr>)]"

definition messages_16 :: "(u32 \<times> message) list" where
  "messages_16 =
   [(0x1AFD3E7E, \<lparr>msgName = ''S2C_GuildExpelNotify'', msgDir = ''S2C'', msgID = 0x1AFD3E7E, msgFields =
     [Field ''m_guildOID'' ty_Int64]\<rparr>),
    (0x3592106F, \<lparr>msgName = ''S2C_GuildGiftEnableNotify'', msgDir = ''S2C'', msgID = 0x3592106F, msgFields =
     []\<rparr>),
    (0x1236BD75, \<lparr>msgName = ''S2C_GuildGuardInfo'', msgDir = ''S2C'', msgID = 0x1236BD75, msgFields =
     [Field ''m_result'' ty_Int32,
     Field ''m_guard'' ty_GuildGuardInfo]\<rparr>),
    (0x368542E7, \<lparr>msgName = ''S2C_GuildHistoryGift'', msgDir = ''S2C'', msgID = 0x368542E7, msgFields =
     [Field ''m_result'' ty_Int32,
     Field ''m_historyDBID'' ty_Int64]\<rparr>),
    (0x06A94E3C, \<lparr>msgName = ''S2C_GuildHistoryList'', msgDir = ''S2C'', msgID = 0x06A94E3C, msgFields =
     [Field ''m_result'' ty_Int32,
     Field ''m_page'' ty_Byte,
     Field ''m_guildHistoryList'' ty_List_GuildHistoryInfo]\<rparr>),
    (0x1AAB2A96, \<lparr>msgName = ''S2C_GuildHostileFunctionAdd'', msgDir = ''S2C'', msgID = 0x1AAB2A96, msgFields =
     [Field ''m_result'' ty_Int32]\<rparr>),
    (0x2F9A0446, \<lparr>msgName = ''S2C_GuildHostileFunctionDelete'', msgDir = ''S2C'', msgID = 0x2F9A0446, msgFields =
     [Field ''m_result'' ty_Int32]\<rparr>),
    (0x37CA507C, \<lparr>msgName = ''S2C_GuildIntroUpdate'', msgDir = ''S2C'', msgID = 0x37CA507C, msgFields =
     [Field ''m_result'' ty_Int32,
     Field ''m_intro'' ty_String]\<rparr>),
    (0x0870BEF7, \<lparr>msgName = ''S2C_GuildJoin'', msgDir = ''S2C'', msgID = 0x0870BEF7, msgFields =
     [Field ''m_result'' ty_Int32,
     Field ''m_guildOID'' ty_Int64,
     Field ''m_joinType'' ty_Byte]\<rparr>),
    (0x168ED0F2, \<lparr>msgName = ''S2C_GuildJoinRequestAnswer'', msgDir = ''S2C'', msgID = 0x168ED0F2, msgFields =
     [Field ''m_result'' ty_Int32,
     Field ''m_requestPlayerOID'' ty_Int64,
     Field ''m_isAccept'' ty_Boolean]\<rparr>),
    (0x14D7F3B1, \<lparr>msgName = ''S2C_GuildJoinRequestCancel'', msgDir = ''S2C'', msgID = 0x14D7F3B1, msgFields =
     [Field ''m_result'' ty_Int32,
     Field ''m_requestGuildOID'' ty_Int64]\<rparr>),
    (0x2F7348A7, \<lparr>msgName = ''S2C_GuildJoinRequestGuildList'', msgDir = ''S2C'', msgID = 0x2F7348A7, msgFields =
     [Field ''m_result'' ty_Int32,
     Field ''m_requestGuildList'' ty_List_GuildJoinRequestGuildInfo]\<rparr>),
    (0x117504D9, \<lparr>msgName = ''S2C_GuildJoinRequestNewNotify'', msgDir = ''S2C'', msgID = 0x117504D9, msgFields =
     []\<rparr>),
    (0x2CAF9E1B, \<lparr>msgName = ''S2C_GuildJoinRequestPlayerList'', msgDir = ''S2C'', msgID = 0x2CAF9E1B, msgFields =
     [Field ''m_result'' ty_Int32,
     Field ''m_requestPlayerList'' ty_List_GuildJoinRequestPlayerInfo]\<rparr>),
    (0x13470F47, \<lparr>msgName = ''S2C_GuildJoinedNotify'', msgDir = ''S2C'', msgID = 0x13470F47, msgFields =
     [Field ''m_guildOID'' ty_Int64,
     Field ''m_guildMarkIndex'' ty_Int32,
     Field ''m_joinerPlayerOID'' ty_Int64,
     Field ''m_joinerPlayerName'' ty_Chars]\<rparr>),
    (0x2C9EBD5B, \<lparr>msgName = ''S2C_GuildList'', msgDir = ''S2C'', msgID = 0x2C9EBD5B, msgFields =
     [Field ''__state__'' ty_Byte,
     Field ''m_result'' ty_Int32,
     Field ''m_type'' ty_Byte,
     Field ''m_guildList'' ty_List_GuildSimpleInfo]\<rparr>),
    (0x12483C07, \<lparr>msgName = ''S2C_GuildManageAttendanceGift'', msgDir = ''S2C'', msgID = 0x12483C07, msgFields =
     [Field ''m_result'' ty_Int32,
     Field ''m_guildGiftIndex'' ty_Int32,
     Field ''m_guildGiftDayCount'' ty_Byte]\<rparr>),
    (0x0989EC66, \<lparr>msgName = ''S2C_GuildMarkUpdate'', msgDir = ''S2C'', msgID = 0x0989EC66, msgFields =
     [Field ''m_result'' ty_Int32,
     Field ''m_newMarkIndex'' ty_Int32]\<rparr>),
    (0x110B51EB, \<lparr>msgName = ''S2C_GuildMarkUpdateNotify'', msgDir = ''S2C'', msgID = 0x110B51EB, msgFields =
     [Field ''m_guildOID'' ty_Int64,
     Field ''m_newMarkIndex'' ty_Int32]\<rparr>),
    (0x2AC9CC90, \<lparr>msgName = ''S2C_GuildMasterDelegate'', msgDir = ''S2C'', msgID = 0x2AC9CC90, msgFields =
     [Field ''m_result'' ty_Int32,
     Field ''m_delegateePlayerOID'' ty_Int64]\<rparr>),
    (0x035BBA32, \<lparr>msgName = ''S2C_GuildMemberExpel'', msgDir = ''S2C'', msgID = 0x035BBA32, msgFields =
     [Field ''m_result'' ty_Int32,
     Field ''m_expelleePlayerOID'' ty_Int64]\<rparr>),
    (0x25B4F93B, \<lparr>msgName = ''S2C_GuildMemberExpelNotify'', msgDir = ''S2C'', msgID = 0x25B4F93B, msgFields =
     [Field ''m_guildOID'' ty_Int64,
     Field ''m_expelleePlayerOID'' ty_Int64,
     Field ''m_expelleePlayerName'' ty_Chars]\<rparr>),
    (0x0329C803, \<lparr>msgName = ''S2C_GuildMemberGradeUpdate'', msgDir = ''S2C'', msgID = 0x0329C803, msgFields =
     [Field ''m_result'' ty_Int32,
     Field ''m_memberPlayerOID'' ty_Int64,
     Field ''m_memberGrade'' ty_Byte]\<rparr>),
    (0x382C5E3D, \<lparr>msgName = ''S2C_GuildMemberGradeUpdateNotify'', msgDir = ''S2C'', msgID = 0x382C5E3D, msgFields =
     [Field ''m_oldMemberGrade'' ty_Byte,
     Field ''m_newMemberGrade'' ty_Byte]\<rparr>),
    (0x3A24EF92, \<lparr>msgName = ''S2C_GuildMemberList'', msgDir = ''S2C'', msgID = 0x3A24EF92, msgFields =
     [Field ''__state__'' ty_Byte,
     Field ''m_result'' ty_Int32,
     Field ''m_memberList'' ty_List_GuildMemberSimpleInfo]\<rparr>),
    (0x3AB40657, \<lparr>msgName = ''S2C_GuildModifyRelationMemo'', msgDir = ''S2C'', msgID = 0x3AB40657, msgFields =
     [Field ''m_result'' ty_Int32,
     Field ''m_guildDBID'' ty_Int64]\<rparr>),
    (0x2DFAE2AA, \<lparr>msgName = ''S2C_GuildMyIntroUpdate'', msgDir = ''S2C'', msgID = 0x2DFAE2AA, msgFields =
     [Field ''m_result'' ty_Int32,
     Field ''m_myIntro'' ty_String]\<rparr>),
    (0x30BE3326, \<lparr>msgName = ''S2C_GuildNoticeUpdate'', msgDir = ''S2C'', msgID = 0x30BE3326, msgFields =
     [Field ''m_result'' ty_Int32,
     Field ''m_notice'' ty_String]\<rparr>),
    (0x3AD9FF21, \<lparr>msgName = ''S2C_GuildOpenAttendanceGift'', msgDir = ''S2C'', msgID = 0x3AD9FF21, msgFields =
     [Field ''m_result'' ty_Int32,
     Field ''m_guildGiftIndex'' ty_Int32,
     Field ''m_propertySubType'' ty_Byte,
     Field ''m_money'' ty_Int64]\<rparr>),
    (0x00A8E745, \<lparr>msgName = ''S2C_GuildPVPRecordList'', msgDir = ''S2C'', msgID = 0x00A8E745, msgFields =
     [Field ''__state__'' ty_Byte,
     Field ''m_result'' ty_Int32,
     Field ''m_recordList'' ty_List_GuildPVPRecord]\<rparr>),
    (0x27501102, \<lparr>msgName = ''S2C_GuildQuestList'', msgDir = ''S2C'', msgID = 0x27501102, msgFields =
     [Field ''m_result'' ty_Int32,
     Field ''m_completedCount'' ty_Int32,
     Field ''m_guildQuestList'' ty_List_GuildQuestData,
     Field ''m_expiredTime'' ty_Int64]\<rparr>),
    (0x07F71263, \<lparr>msgName = ''S2C_GuildRelationList'', msgDir = ''S2C'', msgID = 0x07F71263, msgFields =
     [Field ''m_result'' ty_Int32,
     Field ''m_isWorldRelation'' ty_Boolean,
     Field ''m_guildList'' ty_List_GuildRelationInfo]\<rparr>),
    (0x288DB7F9, \<lparr>msgName = ''S2C_GuildRelationSearch'', msgDir = ''S2C'', msgID = 0x288DB7F9, msgFields =
     [Field ''m_result'' ty_Int32,
     Field ''m_guildInfo'' ty_GuildRelationInfo]\<rparr>),
    (0x161B4710, \<lparr>msgName = ''S2C_GuildRemoveWorldRelation'', msgDir = ''S2C'', msgID = 0x161B4710, msgFields =
     [Field ''m_result'' ty_Int32,
     Field ''m_relationType'' ty_Byte]\<rparr>),
    (0x1CA42063, \<lparr>msgName = ''S2C_GuildRemoveWorldRelationNotify'', msgDir = ''S2C'', msgID = 0x1CA42063, msgFields =
     [Field ''m_relationType'' ty_Byte,
     Field ''m_targetWorldID'' ty_Int32,
     Field ''m_targetGuildOID'' ty_Int64,
     Field ''m_targetGuildName'' ty_Chars]\<rparr>)]"

definition messages_17 :: "(u32 \<times> message) list" where
  "messages_17 =
   [(0x307B2A5C, \<lparr>msgName = ''S2C_GuildRequestAlliance'', msgDir = ''S2C'', msgID = 0x307B2A5C, msgFields =
     [Field ''m_result'' ty_Int32,
     Field ''m_guildDBID'' ty_Int64]\<rparr>),
    (0x29BDC974, \<lparr>msgName = ''S2C_GuildRequestAllianceNotify'', msgDir = ''S2C'', msgID = 0x29BDC974, msgFields =
     [Field ''m_requestGuildOID'' ty_Int64]\<rparr>),
    (0x170EAE35, \<lparr>msgName = ''S2C_GuildResponseAskedAlliance'', msgDir = ''S2C'', msgID = 0x170EAE35, msgFields =
     [Field ''m_result'' ty_Int32,
     Field ''m_guildDBID'' ty_Int64,
     Field ''m_response'' ty_Boolean]\<rparr>),
    (0x01769871, \<lparr>msgName = ''S2C_GuildResponseAskedAllianceNotify'', msgDir = ''S2C'', msgID = 0x01769871, msgFields =
     [Field ''m_responseGuildDBID'' ty_Int64,
     Field ''m_responseGuildName'' ty_Chars,
     Field ''m_response'' ty_Boolean]\<rparr>),
    (0x0B24E9AC, \<lparr>msgName = ''S2C_GuildSettingUpdate'', msgDir = ''S2C'', msgID = 0x0B24E9AC, msgFields =
     [Field ''m_result'' ty_Int32,
     Field ''m_tendencyTag'' ty_UInt16,
     Field ''m_joinType'' ty_Byte]\<rparr>),
    (0x2D35FDCC, \<lparr>msgName = ''S2C_GuildSharePosition'', msgDir = ''S2C'', msgID = 0x2D35FDCC, msgFields =
     [Field ''m_mapIndex'' ty_Int32,
     Field ''m_posX'' ty_Single,
     Field ''m_posZ'' ty_Single]\<rparr>),
    (0x04E0A3BC, \<lparr>msgName = ''S2C_GuildShopAddDominionProduct'', msgDir = ''S2C'', msgID = 0x04E0A3BC, msgFields =
     [Field ''m_result'' ty_Int32,
     Field ''m_dominionMapIndex'' ty_Int32,
     Field ''m_shopItemIndex'' ty_Int32,
     Field ''m_addCount'' ty_Int32]\<rparr>),
    (0x243B2F54, \<lparr>msgName = ''S2C_GuildShopBuyItem'', msgDir = ''S2C'', msgID = 0x243B2F54, msgFields =
     [Field ''m_result'' ty_Int32,
     Field ''m_shopItemIndex'' ty_Int32,
     Field ''m_buyCount'' ty_Int32,
     Field ''m_count'' ty_Int32,
     Field ''m_enableGrade'' ty_Byte,
     Field ''m_enablePlayerOID'' ty_Int64]\<rparr>),
    (0x2D5DB0ED, \<lparr>msgName = ''S2C_GuildShopDominionProductInfo'', msgDir = ''S2C'', msgID = 0x2D5DB0ED, msgFields =
     [Field ''m_result'' ty_Int32,
     Field ''m_shopItemIndex'' ty_Int32,
     Field ''m_boughtCount'' ty_Int32,
     Field ''m_guildShopItemTypeCount'' ty_Int32,
     Field ''m_guildShopItemTotalCount'' ty_Int32,
     Field ''m_isInGuildShopItemList'' ty_Boolean,
     Field ''m_enableGrade'' ty_Byte,
     Field ''m_enablePlayerOID'' ty_Int64]\<rparr>),
    (0x15DB30D3, \<lparr>msgName = ''S2C_GuildShopGrant'', msgDir = ''S2C'', msgID = 0x15DB30D3, msgFields =
     [Field ''m_result'' ty_Int32,
     Field ''m_shopItemIndex'' ty_Int32,
     Field ''m_enableGrade'' ty_Byte,
     Field ''m_enablePlayerOID'' ty_Int64]\<rparr>),
    (0x0DAB0ED4, \<lparr>msgName = ''S2C_GuildShopItemList'', msgDir = ''S2C'', msgID = 0x0DAB0ED4, msgFields =
     [Field ''m_result'' ty_Int32,
     Field ''m_shopItemList'' ty_List_GuildShopItemData]\<rparr>),
    (0x04CFD83B, \<lparr>msgName = ''S2C_GuildShopManage'', msgDir = ''S2C'', msgID = 0x04CFD83B, msgFields =
     [Field ''m_result'' ty_Int32,
     Field ''m_buyLimitList'' ty_List_GuildShopBuyLimitData,
     Field ''m_shopItemList'' ty_List_GuildShopItemData,
     Field ''m_guildShopItemTotalCount'' ty_Int32,
     Field ''m_nextResetTime'' ty_Int64]\<rparr>),
    (0x18CAF53A, \<lparr>msgName = ''S2C_GuildShopRegisterItem'', msgDir = ''S2C'', msgID = 0x18CAF53A, msgFields =
     [Field ''m_result'' ty_Int32,
     Field ''m_shopItemIndex'' ty_Int32,
     Field ''m_buyCount'' ty_Int32,
     Field ''m_boughtCount'' ty_Int32,
     Field ''m_count'' ty_Int32]\<rparr>),
    (0x1C3B3D39, \<lparr>msgName = ''S2C_GuildSimpleInfo'', msgDir = ''S2C'', msgID = 0x1C3B3D39, msgFields =
     [Field ''m_result'' ty_Int32,
     Field ''m_guildOID'' ty_Int64,
     Field ''m_info'' ty_GuildSimpleInfo]\<rparr>),
    (0x31CAE44F, \<lparr>msgName = ''S2C_GuildTakeAttendanceGift'', msgDir = ''S2C'', msgID = 0x31CAE44F, msgFields =
     [Field ''m_result'' ty_Int32]\<rparr>),
    (0x0C54ADDA, \<lparr>msgName = ''S2C_GuildTakeAttendanceReward'', msgDir = ''S2C'', msgID = 0x0C54ADDA, msgFields =
     [Field ''m_result'' ty_Int32]\<rparr>),
    (0x02A24969, \<lparr>msgName = ''S2C_GuildTakeDominionMoney'', msgDir = ''S2C'', msgID = 0x02A24969, msgFields =
     [Field ''m_result'' ty_Int32,
     Field ''m_dominionMapIndex'' ty_Int32,
     Field ''m_rewardData'' ty_RewardData]\<rparr>),
    (0x129638FA, \<lparr>msgName = ''S2C_GuildUnionAddMemberNotify'', msgDir = ''S2C'', msgID = 0x129638FA, msgFields =
     [Field ''m_guildOID'' ty_Int64]\<rparr>),
    (0x0FCC0A1E, \<lparr>msgName = ''S2C_GuildUnionCreate'', msgDir = ''S2C'', msgID = 0x0FCC0A1E, msgFields =
     [Field ''m_result'' ty_Int32,
     Field ''m_unionInfo'' ty_UnionInfo]\<rparr>),
    (0x0A89AB68, \<lparr>msgName = ''S2C_GuildUnionCreateNotify'', msgDir = ''S2C'', msgID = 0x0A89AB68, msgFields =
     [Field ''m_unionOID'' ty_Int64,
     Field ''m_unionName'' ty_Chars,
     Field ''m_unionMarkIndex'' ty_Int32]\<rparr>),
    (0x356EB09D, \<lparr>msgName = ''S2C_GuildUnionDisband'', msgDir = ''S2C'', msgID = 0x356EB09D, msgFields =
     [Field ''m_result'' ty_Int32,
     Field ''m_disbandTime'' ty_Int64]\<rparr>),
    (0x0F13A54E, \<lparr>msgName = ''S2C_GuildUnionDisbandNotify'', msgDir = ''S2C'', msgID = 0x0F13A54E, msgFields =
     [Field ''m_disbandTime'' ty_Int64]\<rparr>),
    (0x186ECA05, \<lparr>msgName = ''S2C_GuildUnionExpel'', msgDir = ''S2C'', msgID = 0x186ECA05, msgFields =
     [Field ''m_result'' ty_Int32,
     Field ''m_expelGuildOID'' ty_Int64]\<rparr>),
    (0x2EEC0E68, \<lparr>msgName = ''S2C_GuildUnionExpelNotify'', msgDir = ''S2C'', msgID = 0x2EEC0E68, msgFields =
     [Field ''m_expelUnionOID'' ty_Int64]\<rparr>),
    (0x0A8DF9DA, \<lparr>msgName = ''S2C_GuildUnionHostileAdd'', msgDir = ''S2C'', msgID = 0x0A8DF9DA, msgFields =
     [Field ''m_result'' ty_Int32,
     Field ''m_hostileUnionInfo'' ty_HostileUnionInfo]\<rparr>),
    (0x25AC827A, \<lparr>msgName = ''S2C_GuildUnionHostileAddNotify'', msgDir = ''S2C'', msgID = 0x25AC827A, msgFields =
     [Field ''m_hostileUnionOID'' ty_Int64]\<rparr>),
    (0x06298DAC, \<lparr>msgName = ''S2C_GuildUnionHostileRemove'', msgDir = ''S2C'', msgID = 0x06298DAC, msgFields =
     [Field ''m_result'' ty_Int32,
     Field ''m_hostileUnionOID'' ty_Int64]\<rparr>),
    (0x16360A77, \<lparr>msgName = ''S2C_GuildUnionHostileRemoveNotify'', msgDir = ''S2C'', msgID = 0x16360A77, msgFields =
     [Field ''m_hostileUnionOID'' ty_Int64]\<rparr>),
    (0x04B6C540, \<lparr>msgName = ''S2C_GuildUnionInfo'', msgDir = ''S2C'', msgID = 0x04B6C540, msgFields =
     [Field ''m_result'' ty_Int32,
     Field ''m_unionInfo'' ty_UnionInfo,
     Field ''m_inviteeUnionList'' ty_List_UnionSimpleInfo]\<rparr>),
    (0x29DF0B99, \<lparr>msgName = ''S2C_GuildUnionInvite'', msgDir = ''S2C'', msgID = 0x29DF0B99, msgFields =
     [Field ''m_result'' ty_Int32,
     Field ''m_inviteeGuildInfo'' ty_UnionGuildInfo]\<rparr>),
    (0x25603EE7, \<lparr>msgName = ''S2C_GuildUnionInviteAnswer'', msgDir = ''S2C'', msgID = 0x25603EE7, msgFields =
     [Field ''m_result'' ty_Int32,
     Field ''m_unionOID'' ty_Int64,
     Field ''m_isAccept'' ty_Boolean,
     Field ''m_unionInfo'' ty_UnionInfo]\<rparr>),
    (0x05F75F46, \<lparr>msgName = ''S2C_GuildUnionInviteCancel'', msgDir = ''S2C'', msgID = 0x05F75F46, msgFields =
     [Field ''m_result'' ty_Int32,
     Field ''m_inviteeGuildOID'' ty_Int64]\<rparr>)]"

definition messages_18 :: "(u32 \<times> message) list" where
  "messages_18 =
   [(0x01BF7360, \<lparr>msgName = ''S2C_GuildUnionInviteeNotify'', msgDir = ''S2C'', msgID = 0x01BF7360, msgFields =
     [Field ''m_inviteUnionInfo'' ty_UnionSimpleInfo]\<rparr>),
    (0x191C2002, \<lparr>msgName = ''S2C_GuildUnionJoinNotify'', msgDir = ''S2C'', msgID = 0x191C2002, msgFields =
     [Field ''m_joinUnionOID'' ty_Int64,
     Field ''m_joinUnionName'' ty_Chars,
     Field ''m_joinUnionMarkIndex'' ty_Int32,
     Field ''m_unionMemberList'' ty_List_Int64,
     Field ''m_unionHostileList'' ty_List_Int64]\<rparr>),
    (0x32E479F3, \<lparr>msgName = ''S2C_GuildUnionList'', msgDir = ''S2C'', msgID = 0x32E479F3, msgFields =
     [Field ''__state__'' ty_Byte,
     Field ''m_result'' ty_Int32,
     Field ''m_type'' ty_Byte,
     Field ''m_unionList'' ty_List_UnionSimpleInfo]\<rparr>),
    (0x22AA69D2, \<lparr>msgName = ''S2C_GuildUnionMarkUpdate'', msgDir = ''S2C'', msgID = 0x22AA69D2, msgFields =
     [Field ''m_result'' ty_Int32,
     Field ''m_newMarkIndex'' ty_Int32]\<rparr>),
    (0x2A5EF137, \<lparr>msgName = ''S2C_GuildUnionMarkUpdateNotify'', msgDir = ''S2C'', msgID = 0x2A5EF137, msgFields =
     [Field ''m_newMarkIndex'' ty_Int32]\<rparr>),
    (0x016E732F, \<lparr>msgName = ''S2C_GuildUnionMasterDelegate'', msgDir = ''S2C'', msgID = 0x016E732F, msgFields =
     [Field ''m_result'' ty_Int32,
     Field ''m_delegateGuildOID'' ty_Int64]\<rparr>),
    (0x020507CA, \<lparr>msgName = ''S2C_GuildUnionRemoveMemberNotify'', msgDir = ''S2C'', msgID = 0x020507CA, msgFields =
     [Field ''m_guildOID'' ty_Int64]\<rparr>),
    (0x23C6D018, \<lparr>msgName = ''S2C_GuildUnionWithdraw'', msgDir = ''S2C'', msgID = 0x23C6D018, msgFields =
     [Field ''m_result'' ty_Int32]\<rparr>),
    (0x0A35A981, \<lparr>msgName = ''S2C_GuildUnionWithdrawNotify'', msgDir = ''S2C'', msgID = 0x0A35A981, msgFields =
     [Field ''m_withdrawUnionOID'' ty_Int64]\<rparr>),
    (0x20D6A08F, \<lparr>msgName = ''S2C_GuildWithdraw'', msgDir = ''S2C'', msgID = 0x20D6A08F, msgFields =
     [Field ''m_result'' ty_Int32,
     Field ''m_guildOID'' ty_Int64,
     Field ''m_withdrawTime'' ty_Int64]\<rparr>),
    (0x1BE9F81E, \<lparr>msgName = ''S2C_GuildWithdrawNotify'', msgDir = ''S2C'', msgID = 0x1BE9F81E, msgFields =
     [Field ''m_guildOID'' ty_Int64,
     Field ''m_withdrawerPlayerOID'' ty_Int64,
     Field ''m_withdrawerPlayerName'' ty_Chars]\<rparr>),
    (0x24175D42, \<lparr>msgName = ''S2C_GuildWorldSearch'', msgDir = ''S2C'', msgID = 0x24175D42, msgFields =
     [Field ''m_result'' ty_Int32,
     Field ''m_relationType'' ty_Byte,
     Field ''m_worldID'' ty_Int32,
     Field ''m_guildDBID'' ty_Int64,
     Field ''m_guildName'' ty_Chars,
     Field ''m_masterPlayerName'' ty_Chars,
     Field ''m_markIndex'' ty_Int32]\<rparr>),
    (0x1B4545FC, \<lparr>msgName = ''S2C_HallOfHeroesList'', msgDir = ''S2C'', msgID = 0x1B4545FC, msgFields =
     [Field ''m_isNotify'' ty_Boolean,
     Field ''m_worldRankStatueList'' ty_List_RankerStatueInfo,
     Field ''m_topPowerStatueList'' ty_List_RankerStatueInfo]\<rparr>),
    (0x0E6AFA4A, \<lparr>msgName = ''S2C_HotDealSaleList'', msgDir = ''S2C'', msgID = 0x0E6AFA4A, msgFields =
     [Field ''m_result'' ty_Int32,
     Field ''m_storeItemList'' ty_List_StoreHotDealData]\<rparr>),
    (0x22A0CF10, \<lparr>msgName = ''S2C_InventoryItemSorting'', msgDir = ''S2C'', msgID = 0x22A0CF10, msgFields =
     [Field ''m_result'' ty_Int32]\<rparr>),
    (0x0B13C28A, \<lparr>msgName = ''S2C_InventorySlotExpansion'', msgDir = ''S2C'', msgID = 0x0B13C28A, msgFields =
     [Field ''m_result'' ty_Int32,
     Field ''m_maxSlotCount'' ty_Int32]\<rparr>),
    (0x2E5DD400, \<lparr>msgName = ''S2C_InvestSoulStone'', msgDir = ''S2C'', msgID = 0x2E5DD400, msgFields =
     [Field ''m_result'' ty_Int32,
     Field ''m_presetSlot'' ty_Byte,
     Field ''m_soulStoneIndex'' ty_Int32,
     Field ''m_optionGroup'' ty_Int32,
     Field ''m_soulStoneSlotInfo'' ty_SoulStoneSlotInfo]\<rparr>),
    (0x1A8F92FD, \<lparr>msgName = ''S2C_ItemAwakening'', msgDir = ''S2C'', msgID = 0x1A8F92FD, msgFields =
     [Field ''m_result'' ty_Int32,
     Field ''m_awakeningItemOID'' ty_Int64,
     Field ''m_awakeningResult'' ty_Byte]\<rparr>),
    (0x2E5FD928, \<lparr>msgName = ''S2C_ItemCollectionEndNoti'', msgDir = ''S2C'', msgID = 0x2E5FD928, msgFields =
     [Field ''m_indexList'' ty_List_Int32]\<rparr>),
    (0x2AFCF8A7, \<lparr>msgName = ''S2C_ItemCollectionList'', msgDir = ''S2C'', msgID = 0x2AFCF8A7, msgFields =
     [Field ''__state__'' ty_Byte,
     Field ''m_completedSlotCount'' ty_Int32,
     Field ''m_seasonOpenList'' ty_List_Int32,
     Field ''m_completeList'' ty_List_Int32,
     Field ''m_timeLimitCompleteList'' ty_List_EndTimeInfo,
     Field ''m_proceedingList'' ty_List_ItemCollectionSlots,
     Field ''m_seasonResetTime'' ty_Int64]\<rparr>),
    (0x097FCA85, \<lparr>msgName = ''S2C_ItemCollectionSeaonListNoti'', msgDir = ''S2C'', msgID = 0x097FCA85, msgFields =
     [Field ''m_seasonOpenList'' ty_List_Int32,
     Field ''m_seasonResetTime'' ty_Int64]\<rparr>),
    (0x17C5015C, \<lparr>msgName = ''S2C_ItemCompose'', msgDir = ''S2C'', msgID = 0x17C5015C, msgFields =
     [Field ''m_result'' ty_Int32,
     Field ''m_resultItemIndex'' ty_Int32]\<rparr>),
    (0x2150C57B, \<lparr>msgName = ''S2C_ItemComposeBoardInfo'', msgDir = ''S2C'', msgID = 0x2150C57B, msgFields =
     [Field ''m_result'' ty_Int32,
     Field ''m_itemIndexList'' ty_List_Int32]\<rparr>),
    (0x044E1411, \<lparr>msgName = ''S2C_ItemDissolve'', msgDir = ''S2C'', msgID = 0x044E1411, msgFields =
     [Field ''m_result'' ty_Int32,
     Field ''m_rewardList'' ty_List_DissolveRewardData]\<rparr>),
    (0x3866AE7A, \<lparr>msgName = ''S2C_ItemEnchant'', msgDir = ''S2C'', msgID = 0x3866AE7A, msgFields =
     [Field ''m_result'' ty_Int32,
     Field ''m_itemList'' ty_List_ItemEnchantResult]\<rparr>),
    (0x138583DF, \<lparr>msgName = ''S2C_ItemEnchantBrokenGiveNotify'', msgDir = ''S2C'', msgID = 0x138583DF, msgFields =
     [Field ''m_brokenGiveList'' ty_List_ItemBrokenGiveData]\<rparr>),
    (0x107C8053, \<lparr>msgName = ''S2C_ItemEryndorEnchant'', msgDir = ''S2C'', msgID = 0x107C8053, msgFields =
     [Field ''m_result'' ty_Int32,
     Field ''m_itemList'' ty_List_ItemEnchantResult]\<rparr>),
    (0x16199E22, \<lparr>msgName = ''S2C_ItemEryndorImprinting'', msgDir = ''S2C'', msgID = 0x16199E22, msgFields =
     [Field ''m_result'' ty_Int32,
     Field ''m_state'' ty_Byte,
     Field ''m_imprintingResult'' ty_List_EryndorImprintingInfo]\<rparr>),
    (0x0A5EE21A, \<lparr>msgName = ''S2C_ItemEryndorImprintingList'', msgDir = ''S2C'', msgID = 0x0A5EE21A, msgFields =
     [Field ''m_result'' ty_Int32,
     Field ''m_state'' ty_Byte,
     Field ''m_imprintingList'' ty_List_EryndorImprintingInfo]\<rparr>),
    (0x0F43D59A, \<lparr>msgName = ''S2C_ItemEryndorImprintingReset'', msgDir = ''S2C'', msgID = 0x0F43D59A, msgFields =
     [Field ''m_result'' ty_Int32,
     Field ''m_state'' ty_Byte,
     Field ''m_imprintingList'' ty_List_EryndorImprintingInfo]\<rparr>),
    (0x15BA70FE, \<lparr>msgName = ''S2C_ItemEryndorPromotion'', msgDir = ''S2C'', msgID = 0x15BA70FE, msgFields =
     [Field ''m_result'' ty_Int32,
     Field ''m_resultItemIndex'' ty_Int32]\<rparr>),
    (0x0BD2853A, \<lparr>msgName = ''S2C_ItemEryndorRegrant'', msgDir = ''S2C'', msgID = 0x0BD2853A, msgFields =
     [Field ''m_result'' ty_Int32,
     Field ''m_targetItem'' ty_Int64,
     Field ''m_selectSlot'' ty_Int32,
     Field ''m_regrantOption'' ty_Int32]\<rparr>)]"

definition messages_19 :: "(u32 \<times> message) list" where
  "messages_19 =
   [(0x04BB4114, \<lparr>msgName = ''S2C_ItemList'', msgDir = ''S2C'', msgID = 0x04BB4114, msgFields =
     [Field ''__state__'' ty_Byte,
     Field ''m_repositoryType'' ty_Byte,
     Field ''m_maxSlotCount'' ty_Int32,
     Field ''m_totalItemCount'' ty_Int32,
     Field ''m_itemList'' ty_List_ItemData]\<rparr>),
    (0x11A1C7F5, \<lparr>msgName = ''S2C_ItemMake'', msgDir = ''S2C'', msgID = 0x11A1C7F5, msgFields =
     [Field ''m_result'' ty_Int32,
     Field ''m_makeType'' ty_Byte,
     Field ''m_makeItemIndex'' ty_Int32,
     Field ''m_makeLimitCount'' ty_Int32,
     Field ''m_totalLimitCount'' ty_Int32,
     Field ''m_makeResultList'' ty_List_ItemMakeResultInfo]\<rparr>),
    (0x10C72BCF, \<lparr>msgName = ''S2C_ItemMakeLimitList'', msgDir = ''S2C'', msgID = 0x10C72BCF, msgFields =
     [Field ''m_requestType'' ty_Byte,
     Field ''m_makeLimitList'' ty_List_ItemMakeLimitInfo,
     Field ''m_totalLimitList'' ty_List_ItemMakeLimitInfo]\<rparr>),
    (0x068DEB65, \<lparr>msgName = ''S2C_ItemMakeLimitListRefresh'', msgDir = ''S2C'', msgID = 0x068DEB65, msgFields =
     [Field ''m_requestType'' ty_Byte,
     Field ''m_totalLimitList'' ty_List_ItemMakeLimitInfo]\<rparr>),
    (0x0E0A4E11, \<lparr>msgName = ''S2C_ItemManipulateNotify'', msgDir = ''S2C'', msgID = 0x0E0A4E11, msgFields =
     [Field ''m_propertyEventType'' ty_Int32,
     Field ''m_relatedTargetOID'' ty_Int64,
     Field ''m_addItemList'' ty_List_ItemData,
     Field ''m_updateItemList'' ty_List_ItemData,
     Field ''m_deleteItemList'' ty_List_Int64]\<rparr>),
    (0x2D614666, \<lparr>msgName = ''S2C_ItemPickup'', msgDir = ''S2C'', msgID = 0x2D614666, msgFields =
     [Field ''m_result'' ty_Int32,
     Field ''m_itemOID'' ty_Int64,
     Field ''m_itemIndex'' ty_Int32,
     Field ''m_targetIndex'' ty_Int32]\<rparr>),
    (0x3AB56AF4, \<lparr>msgName = ''S2C_JewelCraft'', msgDir = ''S2C'', msgID = 0x3AB56AF4, msgFields =
     [Field ''m_result'' ty_Int32,
     Field ''m_sourceItemOID'' ty_Int64,
     Field ''m_isFirstTime'' ty_Boolean,
     Field ''m_jewelType'' ty_Byte,
     Field ''m_optionList'' ty_List_JewelCraftOptionData]\<rparr>),
    (0x145027BC, \<lparr>msgName = ''S2C_JewelCraftConfirm'', msgDir = ''S2C'', msgID = 0x145027BC, msgFields =
     [Field ''m_result'' ty_Int32,
     Field ''m_isChangeOption'' ty_Boolean,
     Field ''m_jewelType'' ty_Byte,
     Field ''m_sourceItemInfo'' ty_ItemData]\<rparr>),
    (0x30FC7233, \<lparr>msgName = ''S2C_LegacyCollectionList'', msgDir = ''S2C'', msgID = 0x30FC7233, msgFields =
     [Field ''m_collectionList'' ty_List_LegacyCollectionGroup]\<rparr>),
    (0x2020A5D9, \<lparr>msgName = ''S2C_LevelupLegacyCollection'', msgDir = ''S2C'', msgID = 0x2020A5D9, msgFields =
     [Field ''m_result'' ty_Int32,
     Field ''m_collectionGroup'' ty_LegacyCollectionGroup]\<rparr>),
    (0x1714FF26, \<lparr>msgName = ''S2C_Login'', msgDir = ''S2C'', msgID = 0x1714FF26, msgFields =
     [Field ''m_result'' ty_Int32,
     Field ''m_accountCode'' ty_String,
     Field ''m_sessionKey'' ty_Int32]\<rparr>),
    (0x22790A26, \<lparr>msgName = ''S2C_Logout'', msgDir = ''S2C'', msgID = 0x22790A26, msgFields =
     [Field ''m_result'' ty_Int32]\<rparr>),
    (0x1F2C9324, \<lparr>msgName = ''S2C_MapBuffOrderBuy'', msgDir = ''S2C'', msgID = 0x1F2C9324, msgFields =
     [Field ''m_result'' ty_Int32,
     Field ''m_limitGroupIndex'' ty_Int32,
     Field ''m_orderList'' ty_List_Int32]\<rparr>),
    (0x2A2CDC85, \<lparr>msgName = ''S2C_MapBuffOrderInfo'', msgDir = ''S2C'', msgID = 0x2A2CDC85, msgFields =
     [Field ''m_limitGroupIndex'' ty_Int32,
     Field ''m_mapIndex'' ty_Int32,
     Field ''m_orderList'' ty_List_Int32]\<rparr>),
    (0x37ED9D11, \<lparr>msgName = ''S2C_MapEnter'', msgDir = ''S2C'', msgID = 0x37ED9D11, msgFields =
     [Field ''m_result'' ty_Int32,
     Field ''m_sourcePacketID'' ty_Int32,
     Field ''m_mapIndex'' ty_Int32,
     Field ''m_layerIndex'' ty_Int32,
     Field ''m_startPos'' ty_Vector,
     Field ''m_dir'' ty_Single,
     Field ''m_serverID'' ty_Int32,
     Field ''m_serverTick'' ty_Int64]\<rparr>),
    (0x1D23867A, \<lparr>msgName = ''S2C_MapEnterComplete'', msgDir = ''S2C'', msgID = 0x1D23867A, msgFields =
     [Field ''m_result'' ty_Int32,
     Field ''m_playerOID'' ty_Int64,
     Field ''m_remainTime'' ty_Int32,
     Field ''m_randomTeleportRemainSec'' ty_Int32]\<rparr>),
    (0x26FC6EE4, \<lparr>msgName = ''S2C_MapEnterPreComplete'', msgDir = ''S2C'', msgID = 0x26FC6EE4, msgFields =
     []\<rparr>),
    (0x304F7C01, \<lparr>msgName = ''S2C_MapEntryOpenNoti'', msgDir = ''S2C'', msgID = 0x304F7C01, msgFields =
     [Field ''m_mapIndex'' ty_Int32,
     Field ''m_mapType'' ty_Int32,
     Field ''m_remainTime'' ty_Int32]\<rparr>),
    (0x0E823A3B, \<lparr>msgName = ''S2C_MapLeaveNoti'', msgDir = ''S2C'', msgID = 0x0E823A3B, msgFields =
     []\<rparr>),
    (0x17AC7E21, \<lparr>msgName = ''S2C_MapLimitNoti'', msgDir = ''S2C'', msgID = 0x17AC7E21, msgFields =
     [Field ''m_mapLimitDataList'' ty_List_MapLimitData,
     Field ''m_guildDungeonInfo'' ty_List_GuildDungeonInfo]\<rparr>),
    (0x237343E2, \<lparr>msgName = ''S2C_MoneyInfo'', msgDir = ''S2C'', msgID = 0x237343E2, msgFields =
     [Field ''m_moneyData'' ty_MoneyData]\<rparr>),
    (0x0C39595F, \<lparr>msgName = ''S2C_MonolithEquipItem'', msgDir = ''S2C'', msgID = 0x0C39595F, msgFields =
     [Field ''m_result'' ty_Int32,
     Field ''m_presetSlot'' ty_Byte,
     Field ''m_slotType'' ty_Byte,
     Field ''m_itemOID'' ty_Int64]\<rparr>),
    (0x36E29259, \<lparr>msgName = ''S2C_MonolithUnequipItem'', msgDir = ''S2C'', msgID = 0x36E29259, msgFields =
     [Field ''m_result'' ty_Int32,
     Field ''m_presetSlot'' ty_Byte,
     Field ''m_unequipItemList'' ty_List_UnequipItemParam]\<rparr>),
    (0x1F177C4D, \<lparr>msgName = ''S2C_MonsterCollectionAddNotify'', msgDir = ''S2C'', msgID = 0x1F177C4D, msgFields =
     [Field ''__state__'' ty_Byte,
     Field ''m_sourceType'' ty_Byte,
     Field ''m_collectionList'' ty_List_MonsterCollectionInfo]\<rparr>),
    (0x18122DF2, \<lparr>msgName = ''S2C_MonsterCollectionCategoryReward'', msgDir = ''S2C'', msgID = 0x18122DF2, msgFields =
     [Field ''m_result'' ty_Int32,
     Field ''m_categoryIndex'' ty_Int32]\<rparr>),
    (0x2D8CEA15, \<lparr>msgName = ''S2C_MonsterCollectionCompose'', msgDir = ''S2C'', msgID = 0x2D8CEA15, msgFields =
     [Field ''m_result'' ty_Int32,
     Field ''m_addedList'' ty_List_MonsterCollectionInfo]\<rparr>),
    (0x0538CEB9, \<lparr>msgName = ''S2C_MonsterCollectionList'', msgDir = ''S2C'', msgID = 0x0538CEB9, msgFields =
     [Field ''__state__'' ty_Byte,
     Field ''m_collectionList'' ty_List_MonsterCollectionInfo,
     Field ''m_addedCount'' ty_Int32]\<rparr>),
    (0x242C394C, \<lparr>msgName = ''S2C_MonsterCollectionOptionReward'', msgDir = ''S2C'', msgID = 0x242C394C, msgFields =
     [Field ''m_result'' ty_Int32,
     Field ''m_rewardIndex'' ty_Int32,
     Field ''m_rewardInfo'' ty_MonsterCollectionOptionReward]\<rparr>),
    (0x1CC073A6, \<lparr>msgName = ''S2C_MonsterCollectionOptionRewardList'', msgDir = ''S2C'', msgID = 0x1CC073A6, msgFields =
     [Field ''__state__'' ty_Byte,
     Field ''m_optionRewardList'' ty_List_MonsterCollectionOptionReward]\<rparr>)]"

definition messages_20 :: "(u32 \<times> message) list" where
  "messages_20 =
   [(0x33B301D7, \<lparr>msgName = ''S2C_MonsterCollectionReAdd'', msgDir = ''S2C'', msgID = 0x33B301D7, msgFields =
     [Field ''m_result'' ty_Int32,
     Field ''m_type'' ty_Byte,
     Field ''m_monsterIndex'' ty_Int32,
     Field ''m_optionIndex'' ty_Int32,
     Field ''m_optionGrade'' ty_Byte,
     Field ''m_isLocked'' ty_Boolean,
     Field ''m_isAwakening'' ty_Boolean,
     Field ''m_awakeningOptionIndex'' ty_Int32]\<rparr>),
    (0x00DF4225, \<lparr>msgName = ''S2C_MonsterCollectionRewardedList'', msgDir = ''S2C'', msgID = 0x00DF4225, msgFields =
     [Field ''m_categoryList'' ty_List_Int32]\<rparr>),
    (0x3B579C56, \<lparr>msgName = ''S2C_MonsterCollectionSeal'', msgDir = ''S2C'', msgID = 0x3B579C56, msgFields =
     [Field ''m_result'' ty_Int32,
     Field ''m_monsterIndex'' ty_Int32,
     Field ''m_count'' ty_Int32]\<rparr>),
    (0x377BCD2F, \<lparr>msgName = ''S2C_MonsterCollectionToRewardList'', msgDir = ''S2C'', msgID = 0x377BCD2F, msgFields =
     [Field ''m_categoryList'' ty_List_Int32]\<rparr>),
    (0x155E0AD7, \<lparr>msgName = ''S2C_MonsterCollectionToggleLock'', msgDir = ''S2C'', msgID = 0x155E0AD7, msgFields =
     [Field ''m_result'' ty_Int32,
     Field ''m_monsterIndex'' ty_Int32,
     Field ''m_isLocked'' ty_Boolean]\<rparr>),
    (0x2B81CA0A, \<lparr>msgName = ''S2C_MoveListNotice'', msgDir = ''S2C'', msgID = 0x2B81CA0A, msgFields =
     [Field ''m_moveList'' ty_List_S2C_MoveNotice]\<rparr>),
    (0x0287FBAD, \<lparr>msgName = ''S2C_MoveNotice'', msgDir = ''S2C'', msgID = 0x0287FBAD, msgFields =
     [Field ''m_seq'' ty_Int32,
     Field ''m_objectType'' ty_Byte,
     Field ''m_objectOID'' ty_Int64,
     Field ''m_moveType'' ty_Byte,
     Field ''m_walkType'' ty_Byte,
     Field ''m_speed'' ty_Single,
     Field ''m_currentPos'' ty_Vector,
     Field ''m_moveDir'' ty_Vector,
     Field ''m_movePath'' ty_List_Vector]\<rparr>),
    (0x0B8C9719, \<lparr>msgName = ''S2C_MyAbilityNoti'', msgDir = ''S2C'', msgID = 0x0B8C9719, msgFields =
     [Field ''m_myAbility'' ty_AbilityValue,
     Field ''m_realPower'' ty_Int32]\<rparr>),
    (0x2181A60C, \<lparr>msgName = ''S2C_MyGuildInfo'', msgDir = ''S2C'', msgID = 0x2181A60C, msgFields =
     [Field ''m_result'' ty_Int32,
     Field ''m_guildInfo'' ty_MyGuildInfo]\<rparr>),
    (0x227D84AD, \<lparr>msgName = ''S2C_MyHPMPNoti'', msgDir = ''S2C'', msgID = 0x227D84AD, msgFields =
     [Field ''m_currentHP'' ty_Int32,
     Field ''m_currentMP'' ty_Int32,
     Field ''m_currentAbsorb'' ty_Int32,
     Field ''m_currentPVPHP'' ty_Int32]\<rparr>),
    (0x1A97C5FC, \<lparr>msgName = ''S2C_NPCDieNotice'', msgDir = ''S2C'', msgID = 0x1A97C5FC, msgFields =
     [Field ''m_objectOID'' ty_Int64,
     Field ''m_attackerOID'' ty_Int64,
     Field ''m_skillIndex'' ty_Int32,
     Field ''m_skillLevel'' ty_Int32,
     Field ''m_criticalType'' ty_Int32,
     Field ''m_weaponType'' ty_Int32,
     Field ''m_isVanish'' ty_Boolean]\<rparr>),
    (0x27541FDB, \<lparr>msgName = ''S2C_NetPing'', msgDir = ''S2C'', msgID = 0x27541FDB, msgFields =
     [Field ''m_pingTime'' ty_Int64]\<rparr>),
    (0x09CC9A4C, \<lparr>msgName = ''S2C_NewHotDealSale'', msgDir = ''S2C'', msgID = 0x09CC9A4C, msgFields =
     [Field ''m_saleItem'' ty_StoreHotDealData]\<rparr>),
    (0x01ADE3AC, \<lparr>msgName = ''S2C_NewNotifyList'', msgDir = ''S2C'', msgID = 0x01ADE3AC, msgFields =
     [Field ''m_typeList'' ty_List_Byte]\<rparr>),
    (0x308C4A1A, \<lparr>msgName = ''S2C_NewPostNotify'', msgDir = ''S2C'', msgID = 0x308C4A1A, msgFields =
     [Field ''m_type'' ty_Byte]\<rparr>),
    (0x37A57AFB, \<lparr>msgName = ''S2C_ObjectAppearNotice'', msgDir = ''S2C'', msgID = 0x37A57AFB, msgFields =
     [Field ''m_playerList'' ty_List_PlayerData,
     Field ''m_networkObjList'' ty_List_NetworkObjData]\<rparr>),
    (0x1C84C0DC, \<lparr>msgName = ''S2C_ObjectDisappearNotice'', msgDir = ''S2C'', msgID = 0x1C84C0DC, msgFields =
     [Field ''m_disappearType'' ty_Byte,
     Field ''m_objectList'' ty_List_Int64]\<rparr>),
    (0x269AE608, \<lparr>msgName = ''S2C_ObjectUpdateNotice'', msgDir = ''S2C'', msgID = 0x269AE608, msgFields =
     [Field ''m_networkObjList'' ty_List_NetworkObjData]\<rparr>),
    (0x0233E9C5, \<lparr>msgName = ''S2C_OpenPaidAttendance'', msgDir = ''S2C'', msgID = 0x0233E9C5, msgFields =
     [Field ''m_result'' ty_Int32,
     Field ''m_index'' ty_Int32,
     Field ''m_isPassChecked'' ty_Boolean]\<rparr>),
    (0x0286230E, \<lparr>msgName = ''S2C_PVPRecordList'', msgDir = ''S2C'', msgID = 0x0286230E, msgFields =
     [Field ''__state__'' ty_Byte,
     Field ''m_recordList'' ty_List_PVPRecord]\<rparr>),
    (0x3ACC6812, \<lparr>msgName = ''S2C_PVPRevenge'', msgDir = ''S2C'', msgID = 0x3ACC6812, msgFields =
     [Field ''m_result'' ty_Int32]\<rparr>),
    (0x3B96CE32, \<lparr>msgName = ''S2C_PVPRevengeCheck'', msgDir = ''S2C'', msgID = 0x3B96CE32, msgFields =
     [Field ''m_result'' ty_Int32,
     Field ''m_pvpType'' ty_Byte,
     Field ''m_pvpID'' ty_Int64,
     Field ''m_level'' ty_Int32,
     Field ''m_lostExp'' ty_Int64,
     Field ''m_lostItemList'' ty_List_PVPLostItemInfo]\<rparr>),
    (0x28CC2E9E, \<lparr>msgName = ''S2C_ParcelHistoryList'', msgDir = ''S2C'', msgID = 0x28CC2E9E, msgFields =
     [Field ''m_result'' ty_Int32,
     Field ''m_tradeRecordList'' ty_List_ParcelTradeRecord]\<rparr>),
    (0x18CF65F0, \<lparr>msgName = ''S2C_ParcelList'', msgDir = ''S2C'', msgID = 0x18CF65F0, msgFields =
     [Field ''m_result'' ty_Int32,
     Field ''m_parcelList'' ty_List_ParcelInfo,
     Field ''m_sentCount'' ty_Byte,
     Field ''m_auctionLevel'' ty_Int32]\<rparr>),
    (0x27F83572, \<lparr>msgName = ''S2C_ParcelStatusNoti'', msgDir = ''S2C'', msgID = 0x27F83572, msgFields =
     [Field ''m_parcelDBID'' ty_Int64,
     Field ''m_parcelStatus'' ty_Byte]\<rparr>),
    (0x20056C3B, \<lparr>msgName = ''S2C_ParcelTradeReply'', msgDir = ''S2C'', msgID = 0x20056C3B, msgFields =
     [Field ''m_result'' ty_Int32,
     Field ''m_parcelDBID'' ty_Int64,
     Field ''m_acceptTrade'' ty_Boolean]\<rparr>),
    (0x36217B7C, \<lparr>msgName = ''S2C_PartyAcceptNoti'', msgDir = ''S2C'', msgID = 0x36217B7C, msgFields =
     [Field ''m_type'' ty_Byte,
     Field ''m_inviteeWorldID'' ty_Int32,
     Field ''m_inviteeOID'' ty_Int64,
     Field ''m_inviteeName'' ty_Chars]\<rparr>),
    (0x17D2379F, \<lparr>msgName = ''S2C_PartyCancelNoti'', msgDir = ''S2C'', msgID = 0x17D2379F, msgFields =
     []\<rparr>),
    (0x1D8E3BCB, \<lparr>msgName = ''S2C_PartyDungeonEnter'', msgDir = ''S2C'', msgID = 0x1D8E3BCB, msgFields =
     [Field ''m_result'' ty_Int32,
     Field ''m_mapIndex'' ty_Int32]\<rparr>),
    (0x352FB8B9, \<lparr>msgName = ''S2C_PartyDungeonEnterNoti'', msgDir = ''S2C'', msgID = 0x352FB8B9, msgFields =
     [Field ''m_mapIndex'' ty_Int32]\<rparr>),
    (0x332858FC, \<lparr>msgName = ''S2C_PartyDungeonEntryStatus'', msgDir = ''S2C'', msgID = 0x332858FC, msgFields =
     [Field ''m_memberInfoList'' ty_List_PartyDungeonMemberInfo]\<rparr>),
    (0x37603B87, \<lparr>msgName = ''S2C_PartyDungeonPlayerCountNoti'', msgDir = ''S2C'', msgID = 0x37603B87, msgFields =
     [Field ''m_mapIndex'' ty_Int32,
     Field ''m_playerCount'' ty_Int32]\<rparr>),
    (0x0A637598, \<lparr>msgName = ''S2C_PartyDungeonTowerInfoNoti'', msgDir = ''S2C'', msgID = 0x0A637598, msgFields =
     [Field ''m_currHP'' ty_Int64]\<rparr>)]"

definition messages_21 :: "(u32 \<times> message) list" where
  "messages_21 =
   [(0x312556D2, \<lparr>msgName = ''S2C_PartyExist'', msgDir = ''S2C'', msgID = 0x312556D2, msgFields =
     [Field ''m_result'' ty_Int32]\<rparr>),
    (0x3943A38D, \<lparr>msgName = ''S2C_PartyExitNoti'', msgDir = ''S2C'', msgID = 0x3943A38D, msgFields =
     [Field ''m_exitType'' ty_Byte,
     Field ''m_exitMemberOID'' ty_Int64]\<rparr>),
    (0x2472ECC2, \<lparr>msgName = ''S2C_PartyInfoNoti'', msgDir = ''S2C'', msgID = 0x2472ECC2, msgFields =
     [Field ''m_infoType'' ty_Int32,
     Field ''m_partyInfo'' ty_PartyInfo,
     Field ''m_memberDataList'' ty_List_PartyMemberData,
     Field ''m_warpToken'' ty_Int64]\<rparr>),
    (0x0F3140D0, \<lparr>msgName = ''S2C_PartyInvite'', msgDir = ''S2C'', msgID = 0x0F3140D0, msgFields =
     [Field ''m_result'' ty_Int32,
     Field ''m_inviteeWorldID'' ty_Int32,
     Field ''m_inviteeOID'' ty_Int64,
     Field ''m_inviteeName'' ty_Chars,
     Field ''m_inviteeClass'' ty_Byte,
     Field ''m_inviteeSubClass'' ty_Byte,
     Field ''m_inviteeMapIndex'' ty_Int32,
     Field ''m_inviteeLayerIndex'' ty_Int32,
     Field ''m_inviteeTeamIndex'' ty_Byte,
     Field ''m_inviteeTeamMemberType'' ty_Byte,
     Field ''m_inviteeTeamMemberIndex'' ty_Byte]\<rparr>),
    (0x33D41B63, \<lparr>msgName = ''S2C_PartyInviteNoti'', msgDir = ''S2C'', msgID = 0x33D41B63, msgFields =
     [Field ''m_invitorWorldID'' ty_Int32,
     Field ''m_invitorOID'' ty_Int64,
     Field ''m_invitorName'' ty_Chars,
     Field ''m_invitorClass'' ty_Byte,
     Field ''m_invitorSubClass'' ty_Byte,
     Field ''m_invitorMapIndex'' ty_Int32,
     Field ''m_invitorLayerIndex'' ty_Int32,
     Field ''m_invitorGuildOID'' ty_Int64,
     Field ''m_invitorTeamIndex'' ty_Byte,
     Field ''m_invitorTeamMemberType'' ty_Byte,
     Field ''m_invitorTeamMemberIndex'' ty_Byte]\<rparr>),
    (0x20EAE2D3, \<lparr>msgName = ''S2C_PartyMemberGetItemNotify'', msgDir = ''S2C'', msgID = 0x20EAE2D3, msgFields =
     [Field ''m_getItemMemberOID'' ty_Int64,
     Field ''m_itemIndex'' ty_Int32]\<rparr>),
    (0x222DD9E8, \<lparr>msgName = ''S2C_PartyTargetNoti'', msgDir = ''S2C'', msgID = 0x222DD9E8, msgFields =
     [Field ''m_targetOID'' ty_Int64]\<rparr>),
    (0x186E02BA, \<lparr>msgName = ''S2C_PetAddNotify'', msgDir = ''S2C'', msgID = 0x186E02BA, msgFields =
     [Field ''m_petIndex'' ty_Int32]\<rparr>),
    (0x32683B17, \<lparr>msgName = ''S2C_PetAdventureCompleteNotify'', msgDir = ''S2C'', msgID = 0x32683B17, msgFields =
     [Field ''m_partyNum'' ty_Byte,
     Field ''m_mapIndex'' ty_Int32,
     Field ''m_debuffPetList'' ty_List_Int32]\<rparr>),
    (0x3698AFA2, \<lparr>msgName = ''S2C_PetAdventureList'', msgDir = ''S2C'', msgID = 0x3698AFA2, msgFields =
     [Field ''m_petPartyList'' ty_List_PetPartyInfo,
     Field ''m_petAdventureList'' ty_List_PetAdventureInfo,
     Field ''m_mapEntryList'' ty_List_AdventureMapInfo]\<rparr>),
    (0x1FC44F28, \<lparr>msgName = ''S2C_PetAdventureMapCharge'', msgDir = ''S2C'', msgID = 0x1FC44F28, msgFields =
     [Field ''m_result'' ty_Int32,
     Field ''m_mapIndex'' ty_Int32,
     Field ''m_entryCount'' ty_Byte]\<rparr>),
    (0x1AC3BF37, \<lparr>msgName = ''S2C_PetAdventureReward'', msgDir = ''S2C'', msgID = 0x1AC3BF37, msgFields =
     [Field ''m_result'' ty_Int32,
     Field ''m_partyNum'' ty_Byte,
     Field ''m_itemRewardList'' ty_List_RewardData,
     Field ''m_mapRewardList'' ty_List_AdventureMapInfo]\<rparr>),
    (0x27D70C38, \<lparr>msgName = ''S2C_PetAdventureStart'', msgDir = ''S2C'', msgID = 0x27D70C38, msgFields =
     [Field ''m_result'' ty_Int32,
     Field ''m_adventureInfo'' ty_PetAdventureInfo,
     Field ''m_mapInfo'' ty_AdventureMapInfo]\<rparr>),
    (0x2CEEC675, \<lparr>msgName = ''S2C_PetAdventureTimeShorten'', msgDir = ''S2C'', msgID = 0x2CEEC675, msgFields =
     [Field ''m_result'' ty_Int32,
     Field ''m_partyNum'' ty_Byte,
     Field ''m_timeSaving'' ty_Int32,
     Field ''m_remainTime'' ty_Int64]\<rparr>),
    (0x28836B19, \<lparr>msgName = ''S2C_PetCollectionCompleteNoti'', msgDir = ''S2C'', msgID = 0x28836B19, msgFields =
     [Field ''m_indexList'' ty_List_Int32,
     Field ''m_possesionCount'' ty_Int32]\<rparr>),
    (0x2A4AE2B1, \<lparr>msgName = ''S2C_PetCollectionList'', msgDir = ''S2C'', msgID = 0x2A4AE2B1, msgFields =
     [Field ''__state__'' ty_Byte,
     Field ''m_collectionList'' ty_List_CollectionInfo,
     Field ''m_possesionCount'' ty_Int32]\<rparr>),
    (0x0FDC39C4, \<lparr>msgName = ''S2C_PetCompose'', msgDir = ''S2C'', msgID = 0x0FDC39C4, msgFields =
     [Field ''m_result'' ty_Int32,
     Field ''m_composeResultList'' ty_List_PickResultInfo,
     Field ''m_grade'' ty_Byte,
     Field ''m_failCount'' ty_Int32]\<rparr>),
    (0x32F25C46, \<lparr>msgName = ''S2C_PetEquip'', msgDir = ''S2C'', msgID = 0x32F25C46, msgFields =
     [Field ''m_result'' ty_Int32,
     Field ''m_prevPetIndex'' ty_Int32,
     Field ''m_petInfo'' ty_PetInfo]\<rparr>),
    (0x17284442, \<lparr>msgName = ''S2C_PetEquipItem'', msgDir = ''S2C'', msgID = 0x17284442, msgFields =
     [Field ''m_result'' ty_Int32]\<rparr>),
    (0x1018EC83, \<lparr>msgName = ''S2C_PetExtract'', msgDir = ''S2C'', msgID = 0x1018EC83, msgFields =
     [Field ''m_result'' ty_Int32]\<rparr>),
    (0x00A22C57, \<lparr>msgName = ''S2C_PetFailedReward'', msgDir = ''S2C'', msgID = 0x00A22C57, msgFields =
     [Field ''m_result'' ty_Int32,
     Field ''m_rewardResultList'' ty_List_PickResultInfo,
     Field ''m_grade'' ty_Byte,
     Field ''m_failCount'' ty_Int32]\<rparr>),
    (0x028801E3, \<lparr>msgName = ''S2C_PetLearnSkill'', msgDir = ''S2C'', msgID = 0x028801E3, msgFields =
     [Field ''m_result'' ty_Int32,
     Field ''m_petIndex'' ty_Int32]\<rparr>),
    (0x00AB9901, \<lparr>msgName = ''S2C_PetList'', msgDir = ''S2C'', msgID = 0x00AB9901, msgFields =
     [Field ''m_petList'' ty_List_PetInfo,
     Field ''m_failedList'' ty_List_ComposeFailedParam]\<rparr>),
    (0x38589801, \<lparr>msgName = ''S2C_PetLookSet'', msgDir = ''S2C'', msgID = 0x38589801, msgFields =
     [Field ''m_result'' ty_Int32,
     Field ''m_petIndex'' ty_Int32]\<rparr>),
    (0x39E98384, \<lparr>msgName = ''S2C_PetPartySet'', msgDir = ''S2C'', msgID = 0x39E98384, msgFields =
     [Field ''m_result'' ty_Int32,
     Field ''m_petPartyList'' ty_List_PetPartyInfo]\<rparr>),
    (0x06078582, \<lparr>msgName = ''S2C_PetPartySlotOpen'', msgDir = ''S2C'', msgID = 0x06078582, msgFields =
     [Field ''m_result'' ty_Int32,
     Field ''m_partyNum'' ty_Int32]\<rparr>),
    (0x39897CE4, \<lparr>msgName = ''S2C_PetPickResultNotify'', msgDir = ''S2C'', msgID = 0x39897CE4, msgFields =
     [Field ''m_pickList'' ty_List_PickResultInfo,
     Field ''m_source'' ty_Byte]\<rparr>),
    (0x3AAD8E75, \<lparr>msgName = ''S2C_PetReCompose'', msgDir = ''S2C'', msgID = 0x3AAD8E75, msgFields =
     [Field ''m_result'' ty_Int32,
     Field ''m_composeResult'' ty_PickResultInfo,
     Field ''m_grade'' ty_Byte]\<rparr>),
    (0x2454EF80, \<lparr>msgName = ''S2C_PetReComposeCheck'', msgDir = ''S2C'', msgID = 0x2454EF80, msgFields =
     [Field ''m_result'' ty_Int32,
     Field ''m_maxGrade'' ty_Byte,
     Field ''m_materialItemOID'' ty_Int64,
     Field ''m_recomposeStartTime'' ty_Int64,
     Field ''m_recomposeEndTime'' ty_Int64]\<rparr>)]"

definition messages_22 :: "(u32 \<times> message) list" where
  "messages_22 =
   [(0x2327D7D2, \<lparr>msgName = ''S2C_PetRepick'', msgDir = ''S2C'', msgID = 0x2327D7D2, msgFields =
     [Field ''m_result'' ty_Int32,
     Field ''m_petIndex'' ty_Int32,
     Field ''m_isNew'' ty_Boolean]\<rparr>),
    (0x2D9958E3, \<lparr>msgName = ''S2C_PetRepickConfirm'', msgDir = ''S2C'', msgID = 0x2D9958E3, msgFields =
     [Field ''m_result'' ty_Int32,
     Field ''m_petIndex'' ty_Int32,
     Field ''m_isNew'' ty_Boolean]\<rparr>),
    (0x2C8817B1, \<lparr>msgName = ''S2C_PetRepickList'', msgDir = ''S2C'', msgID = 0x2C8817B1, msgFields =
     [Field ''__state__'' ty_Byte,
     Field ''m_repickList'' ty_List_RePickResultInfo]\<rparr>),
    (0x05360DE1, \<lparr>msgName = ''S2C_PetStatusCure'', msgDir = ''S2C'', msgID = 0x05360DE1, msgFields =
     [Field ''m_result'' ty_Int32,
     Field ''m_petIndex'' ty_Int32]\<rparr>),
    (0x33A89259, \<lparr>msgName = ''S2C_PetStepUp'', msgDir = ''S2C'', msgID = 0x33A89259, msgFields =
     [Field ''m_result'' ty_Int32,
     Field ''m_petIndex'' ty_Int32,
     Field ''m_beforeStepUp'' ty_Byte,
     Field ''m_addedStepUp'' ty_Byte]\<rparr>),
    (0x2E091464, \<lparr>msgName = ''S2C_PetStepUpCountReward'', msgDir = ''S2C'', msgID = 0x2E091464, msgFields =
     [Field ''m_result'' ty_Int32,
     Field ''m_grade'' ty_Byte,
     Field ''m_count'' ty_Int32]\<rparr>),
    (0x1B9AC1B9, \<lparr>msgName = ''S2C_PetStepUpCountRewardList'', msgDir = ''S2C'', msgID = 0x1B9AC1B9, msgFields =
     [Field ''m_list'' ty_List_StepUpCountRewardInfo]\<rparr>),
    (0x3197A880, \<lparr>msgName = ''S2C_PlayerActionNotify'', msgDir = ''S2C'', msgID = 0x3197A880, msgFields =
     [Field ''m_actorObjectType'' ty_Byte,
     Field ''m_actorOID'' ty_Int64,
     Field ''m_actionType'' ty_Byte,
     Field ''m_index'' ty_Int32,
     Field ''m_value'' ty_Int32,
     Field ''m_targetOID'' ty_Int64,
     Field ''m_pos'' ty_Vector,
     Field ''m_dir'' ty_Single]\<rparr>),
    (0x27D2EE6F, \<lparr>msgName = ''S2C_PlayerChangeNickname'', msgDir = ''S2C'', msgID = 0x27D2EE6F, msgFields =
     [Field ''m_result'' ty_Int32]\<rparr>),
    (0x1A928D17, \<lparr>msgName = ''S2C_PlayerChangeNicknameNotify'', msgDir = ''S2C'', msgID = 0x1A928D17, msgFields =
     [Field ''m_changedPlayerOID'' ty_Int64]\<rparr>),
    (0x2D7A8E3C, \<lparr>msgName = ''S2C_PlayerDataLoadComplete'', msgDir = ''S2C'', msgID = 0x2D7A8E3C, msgFields =
     [Field ''m_result'' ty_Int32]\<rparr>),
    (0x211AB6A4, \<lparr>msgName = ''S2C_PlayerDieNoti'', msgDir = ''S2C'', msgID = 0x211AB6A4, msgFields =
     [Field ''m_playerOID'' ty_Int64,
     Field ''m_reviveCount'' ty_Int32,
     Field ''m_playerLevel'' ty_Int32,
     Field ''m_mapIndex'' ty_Int32,
     Field ''m_deadTime'' ty_Int64,
     Field ''m_decExp'' ty_Int64,
     Field ''m_nowExp'' ty_Int64,
     Field ''m_dropItemList'' ty_List_ItemData,
     Field ''m_killerInfo'' ty_KillerInfo,
     Field ''m_hostileFunctionList'' ty_List_Int32]\<rparr>),
    (0x173B37EF, \<lparr>msgName = ''S2C_PlayerList'', msgDir = ''S2C'', msgID = 0x173B37EF, msgFields =
     [Field ''m_maxSlotCount'' ty_Byte,
     Field ''m_playerList'' ty_List_LobbyPlayerInfo,
     Field ''m_enableStoarge'' ty_Boolean]\<rparr>),
    (0x334D1A49, \<lparr>msgName = ''S2C_PlayerLoadFirstCall'', msgDir = ''S2C'', msgID = 0x334D1A49, msgFields =
     [Field ''m_result'' ty_Int32]\<rparr>),
    (0x07530A39, \<lparr>msgName = ''S2C_PlayerLoginNotify'', msgDir = ''S2C'', msgID = 0x07530A39, msgFields =
     [Field ''m_type'' ty_Byte,
     Field ''m_playerOID'' ty_Int64,
     Field ''m_playerName'' ty_Chars]\<rparr>),
    (0x3B2392E6, \<lparr>msgName = ''S2C_PlayerLogoutNotify'', msgDir = ''S2C'', msgID = 0x3B2392E6, msgFields =
     [Field ''m_type'' ty_Byte,
     Field ''m_playerOID'' ty_Int64,
     Field ''m_playerName'' ty_Chars]\<rparr>),
    (0x201E6070, \<lparr>msgName = ''S2C_PlayerRevival'', msgDir = ''S2C'', msgID = 0x201E6070, msgFields =
     [Field ''m_result'' ty_Int32,
     Field ''m_type'' ty_Int32,
     Field ''m_killerOID'' ty_Int64,
     Field ''m_posX'' ty_Single,
     Field ''m_posZ'' ty_Single,
     Field ''m_currentHP'' ty_Int32,
     Field ''m_currentPVPHP'' ty_Int32,
     Field ''m_currentMP'' ty_Int32,
     Field ''m_mapIndex'' ty_Int32,
     Field ''m_startSpawn'' ty_Int32,
     Field ''m_warpToken'' ty_Int64]\<rparr>),
    (0x089DC854, \<lparr>msgName = ''S2C_PlayerStandUpNoti'', msgDir = ''S2C'', msgID = 0x089DC854, msgFields =
     []\<rparr>),
    (0x1F45F5A7, \<lparr>msgName = ''S2C_PlayerWarp'', msgDir = ''S2C'', msgID = 0x1F45F5A7, msgFields =
     [Field ''m_result'' ty_Int32,
     Field ''m_index'' ty_Int32,
     Field ''m_checkSum'' ty_Int32,
     Field ''m_warpType'' ty_Int32,
     Field ''m_posX'' ty_Single,
     Field ''m_posZ'' ty_Single,
     Field ''m_mapIndex'' ty_Int32,
     Field ''m_startSpawn'' ty_Int32,
     Field ''m_warpToken'' ty_Int64]\<rparr>),
    (0x38DCD219, \<lparr>msgName = ''S2C_PostList'', msgDir = ''S2C'', msgID = 0x38DCD219, msgFields =
     [Field ''__state__'' ty_Byte,
     Field ''m_result'' ty_Int32,
     Field ''m_type'' ty_Byte,
     Field ''m_postList'' ty_List_PostInfo]\<rparr>),
    (0x1CD61CB6, \<lparr>msgName = ''S2C_PreResetSoulStone'', msgDir = ''S2C'', msgID = 0x1CD61CB6, msgFields =
     [Field ''m_result'' ty_Int32,
     Field ''m_presetSlot'' ty_Byte,
     Field ''m_soulStoneIndex'' ty_Int32,
     Field ''m_refundRate'' ty_Byte,
     Field ''m_refundList'' ty_List_RewardData]\<rparr>),
    (0x2C99615C, \<lparr>msgName = ''S2C_PurchaseStoreItem'', msgDir = ''S2C'', msgID = 0x2C99615C, msgFields =
     [Field ''m_result'' ty_Int32,
     Field ''m_sequenceGroupIndex'' ty_Int32,
     Field ''m_storeIndex'' ty_Int32,
     Field ''m_count'' ty_Int32,
     Field ''m_purchasedCount'' ty_Int32,
     Field ''m_worldPurchasedCount'' ty_Int32,
     Field ''m_deltaStoreCoin'' ty_Int32,
     Field ''m_storePoint'' ty_Int64,
     Field ''m_storeCoin'' ty_Int32,
     Field ''m_storeCoinResetTime'' ty_Int64]\<rparr>),
    (0x169B50C6, \<lparr>msgName = ''S2C_QuestAction'', msgDir = ''S2C'', msgID = 0x169B50C6, msgFields =
     [Field ''m_result'' ty_Int32,
     Field ''m_questType'' ty_Byte,
     Field ''m_questIndex'' ty_Int32,
     Field ''m_actionType'' ty_Byte,
     Field ''m_rewardList'' ty_List_RewardData]\<rparr>),
    (0x38139A4F, \<lparr>msgName = ''S2C_QuestAddList'', msgDir = ''S2C'', msgID = 0x38139A4F, msgFields =
     [Field ''m_questList'' ty_List_QuestData]\<rparr>),
    (0x1D224C42, \<lparr>msgName = ''S2C_QuestCompleteImmediately'', msgDir = ''S2C'', msgID = 0x1D224C42, msgFields =
     [Field ''m_result'' ty_Int32,
     Field ''m_questType'' ty_Byte,
     Field ''m_isUseItem'' ty_Boolean]\<rparr>)]"

definition messages_23 :: "(u32 \<times> message) list" where
  "messages_23 =
   [(0x1146016C, \<lparr>msgName = ''S2C_QuestList'', msgDir = ''S2C'', msgID = 0x1146016C, msgFields =
     [Field ''__state__'' ty_Byte,
     Field ''m_result'' ty_Int32,
     Field ''m_questType'' ty_Byte,
     Field ''m_questList'' ty_List_QuestData]\<rparr>),
    (0x19542FEF, \<lparr>msgName = ''S2C_QuestProgressList'', msgDir = ''S2C'', msgID = 0x19542FEF, msgFields =
     [Field ''m_questList'' ty_List_QuestData]\<rparr>),
    (0x12BB58A8, \<lparr>msgName = ''S2C_QuestRemoveList'', msgDir = ''S2C'', msgID = 0x12BB58A8, msgFields =
     [Field ''m_questIndexList'' ty_List_Int32]\<rparr>),
    (0x2819A08A, \<lparr>msgName = ''S2C_QuestUpdateList'', msgDir = ''S2C'', msgID = 0x2819A08A, msgFields =
     [Field ''m_questList'' ty_List_QuestData]\<rparr>),
    (0x03F16BF9, \<lparr>msgName = ''S2C_QuickSlotList'', msgDir = ''S2C'', msgID = 0x03F16BF9, msgFields =
     [Field ''m_quickSlotList'' ty_List_QuickSlotInfo]\<rparr>),
    (0x2808A60D, \<lparr>msgName = ''S2C_RandomTeleportNoti'', msgDir = ''S2C'', msgID = 0x2808A60D, msgFields =
     [Field ''m_remainSec'' ty_Int32]\<rparr>),
    (0x08AFA8F0, \<lparr>msgName = ''S2C_RankRewardNoti'', msgDir = ''S2C'', msgID = 0x08AFA8F0, msgFields =
     [Field ''m_mapIndex'' ty_Int32,
     Field ''m_isClear'' ty_Boolean,
     Field ''m_damageDPSRank'' ty_Int32,
     Field ''m_classDPSRank'' ty_Int32,
     Field ''m_rankRewardIndex'' ty_List_Int32]\<rparr>),
    (0x25E48A07, \<lparr>msgName = ''S2C_RankingList'', msgDir = ''S2C'', msgID = 0x25E48A07, msgFields =
     [Field ''__state__'' ty_Byte,
     Field ''m_result'' ty_Int32,
     Field ''m_type'' ty_Byte,
     Field ''m_subType'' ty_Byte,
     Field ''m_myRank'' ty_Int32,
     Field ''m_myPrevRank'' ty_Int32,
     Field ''m_nextUpdateTime'' ty_Int64,
     Field ''m_nextResetTime'' ty_Int64,
     Field ''m_rankingList'' ty_List_RankInfo,
     Field ''m_rankIndex'' ty_Int32]\<rparr>),
    (0x1651899A, \<lparr>msgName = ''S2C_RankingUpdateNotify'', msgDir = ''S2C'', msgID = 0x1651899A, msgFields =
     [Field ''m_myPowerRank'' ty_Int32,
     Field ''m_myPrevPowerRank'' ty_Int32,
     Field ''m_releaseEffectPlayerList'' ty_List_Int64,
     Field ''m_infectEffectPlayerList'' ty_List_PlayerRankInfo]\<rparr>),
    (0x1B3DBEA7, \<lparr>msgName = ''S2C_RealmInfo'', msgDir = ''S2C'', msgID = 0x1B3DBEA7, msgFields =
     [Field ''m_mapInfo'' ty_List_RealmMapInfo]\<rparr>),
    (0x26CE8D79, \<lparr>msgName = ''S2C_RealmInfoNoti'', msgDir = ''S2C'', msgID = 0x26CE8D79, msgFields =
     [Field ''m_mapInfo'' ty_List_RealmMapInfo]\<rparr>),
    (0x25AB9AB9, \<lparr>msgName = ''S2C_RealmProgressInfo'', msgDir = ''S2C'', msgID = 0x25AB9AB9, msgFields =
     [Field ''m_progressInfoList'' ty_List_RealmProgressInfo]\<rparr>),
    (0x1D06117E, \<lparr>msgName = ''S2C_ReceivePost'', msgDir = ''S2C'', msgID = 0x1D06117E, msgFields =
     [Field ''m_result'' ty_Int32,
     Field ''m_type'' ty_Byte,
     Field ''m_recvPostList'' ty_List_ReceivedPostInfo]\<rparr>),
    (0x0DE2BE0C, \<lparr>msgName = ''S2C_ReceiveWStorage'', msgDir = ''S2C'', msgID = 0x0DE2BE0C, msgFields =
     [Field ''m_result'' ty_Int32,
     Field ''m_storageID'' ty_Int64]\<rparr>),
    (0x3560DCD0, \<lparr>msgName = ''S2C_RegistWanted'', msgDir = ''S2C'', msgID = 0x3560DCD0, msgFields =
     [Field ''m_result'' ty_Int32,
     Field ''m_wantedPlayerName'' ty_Chars]\<rparr>),
    (0x30B28FE3, \<lparr>msgName = ''S2C_RegistWantedNotify'', msgDir = ''S2C'', msgID = 0x30B28FE3, msgFields =
     [Field ''m_wantedRank'' ty_Byte]\<rparr>),
    (0x39A84FC2, \<lparr>msgName = ''S2C_RegisterCrossWallet'', msgDir = ''S2C'', msgID = 0x39A84FC2, msgFields =
     [Field ''m_result'' ty_Int32,
     Field ''m_walletAddress'' ty_String,
     Field ''m_walletStatus'' ty_Byte]\<rparr>),
    (0x38D12DD8, \<lparr>msgName = ''S2C_RegisterLegacyCollection'', msgDir = ''S2C'', msgID = 0x38D12DD8, msgFields =
     [Field ''m_result'' ty_Int32,
     Field ''m_collectionGroup'' ty_LegacyCollectionGroup]\<rparr>),
    (0x2C4F9C4E, \<lparr>msgName = ''S2C_RegisterParcel'', msgDir = ''S2C'', msgID = 0x2C4F9C4E, msgFields =
     [Field ''m_result'' ty_Int32,
     Field ''m_parcelDBID'' ty_Int64,
     Field ''m_sentCount'' ty_Byte]\<rparr>),
    (0x1DFD729D, \<lparr>msgName = ''S2C_RegisterWallet'', msgDir = ''S2C'', msgID = 0x1DFD729D, msgFields =
     [Field ''m_result'' ty_Int32,
     Field ''m_walletAddress'' ty_String,
     Field ''m_walletStatus'' ty_Byte,
     Field ''m_tokenBalanceCROM'' ty_String,
     Field ''m_tokenBalanceCRYSTAL'' ty_String]\<rparr>),
    (0x22576806, \<lparr>msgName = ''S2C_RelationAlertList'', msgDir = ''S2C'', msgID = 0x22576806, msgFields =
     [Field ''m_result'' ty_Int32,
     Field ''m_alertList'' ty_List_RelationPlayerInfo]\<rparr>),
    (0x05AFFA31, \<lparr>msgName = ''S2C_RelationList'', msgDir = ''S2C'', msgID = 0x05AFFA31, msgFields =
     [Field ''m_result'' ty_Int32,
     Field ''m_firstCall'' ty_Boolean,
     Field ''m_friendRequestList'' ty_List_FriendRequestInfo,
     Field ''m_friendList'' ty_List_RelationPlayerInfo,
     Field ''m_alertList'' ty_List_RelationPlayerInfo]\<rparr>),
    (0x2AC3BF0E, \<lparr>msgName = ''S2C_ReportChat'', msgDir = ''S2C'', msgID = 0x2AC3BF0E, msgFields =
     [Field ''m_result'' ty_Int32]\<rparr>),
    (0x08E4E1FD, \<lparr>msgName = ''S2C_ReportPlayer'', msgDir = ''S2C'', msgID = 0x08E4E1FD, msgFields =
     [Field ''m_result'' ty_Int32,
     Field ''m_targetPlayerOID'' ty_Int64,
     Field ''m_reportType'' ty_Byte,
     Field ''m_usedReportCount'' ty_Byte]\<rparr>),
    (0x2DD94726, \<lparr>msgName = ''S2C_RequestCrossTokenExchange'', msgDir = ''S2C'', msgID = 0x2DD94726, msgFields =
     [Field ''m_result'' ty_Int32,
     Field ''m_targetURL'' ty_String]\<rparr>),
    (0x303FC3DF, \<lparr>msgName = ''S2C_RequestPartyInGuild'', msgDir = ''S2C'', msgID = 0x303FC3DF, msgFields =
     [Field ''m_result'' ty_Int32]\<rparr>),
    (0x1DDE45A3, \<lparr>msgName = ''S2C_RequestPartyInGuildNoti'', msgDir = ''S2C'', msgID = 0x1DDE45A3, msgFields =
     [Field ''m_requestorOID'' ty_Int64,
     Field ''m_requestorName'' ty_Chars]\<rparr>),
    (0x17E1E905, \<lparr>msgName = ''S2C_RequestTokenSignedTx'', msgDir = ''S2C'', msgID = 0x17E1E905, msgFields =
     [Field ''m_result'' ty_Int32,
     Field ''m_exchangeType'' ty_Byte,
     Field ''m_tokenType'' ty_Byte,
     Field ''m_unsignedTxRawData'' ty_String]\<rparr>),
    (0x380AC334, \<lparr>msgName = ''S2C_ResetGuildIntroNotify'', msgDir = ''S2C'', msgID = 0x380AC334, msgFields =
     []\<rparr>),
    (0x063DDE3C, \<lparr>msgName = ''S2C_ResetSoulStone'', msgDir = ''S2C'', msgID = 0x063DDE3C, msgFields =
     [Field ''m_result'' ty_Int32,
     Field ''m_presetSlot'' ty_Byte,
     Field ''m_soulStoneIndex'' ty_Int32,
     Field ''m_refundList'' ty_List_RewardData]\<rparr>),
    (0x223BE416, \<lparr>msgName = ''S2C_ResetStatPoint'', msgDir = ''S2C'', msgID = 0x223BE416, msgFields =
     [Field ''m_result'' ty_Int32,
     Field ''m_statInfo'' ty_StatInfo]\<rparr>),
    (0x2538A21D, \<lparr>msgName = ''S2C_ResponseCrossTokenExchange'', msgDir = ''S2C'', msgID = 0x2538A21D, msgFields =
     [Field ''m_result'' ty_Int32,
     Field ''m_walletAddress'' ty_String,
     Field ''m_walletStatus'' ty_Byte,
     Field ''m_eventCashCount'' ty_Int64,
     Field ''m_mintedCount'' ty_Int32,
     Field ''m_remainMintCount'' ty_Int32]\<rparr>)]"

definition messages_24 :: "(u32 \<times> message) list" where
  "messages_24 =
   [(0x3A91AEC6, \<lparr>msgName = ''S2C_RestorableItemList'', msgDir = ''S2C'', msgID = 0x3A91AEC6, msgFields =
     [Field ''__state__'' ty_Byte,
     Field ''m_result'' ty_Int32,
     Field ''m_materialItemOID'' ty_Int64,
     Field ''m_materialItemSubType'' ty_Int32,
     Field ''m_restoreStartTime'' ty_Int64,
     Field ''m_restoreEndTime'' ty_Int64,
     Field ''m_restorableItemList'' ty_List_ItemData]\<rparr>),
    (0x2897F19D, \<lparr>msgName = ''S2C_Restoration'', msgDir = ''S2C'', msgID = 0x2897F19D, msgFields =
     [Field ''m_result'' ty_Int32,
     Field ''m_restoreUID'' ty_Int64,
     Field ''m_freeRestoreCount'' ty_Int32,
     Field ''m_freeRestoreCountMax'' ty_Int32,
     Field ''m_dailyChargeRestoreCount'' ty_Int32,
     Field ''m_chargeRestoreCount'' ty_Int32]\<rparr>),
    (0x2696BFD7, \<lparr>msgName = ''S2C_RestorationCharge'', msgDir = ''S2C'', msgID = 0x2696BFD7, msgFields =
     [Field ''m_result'' ty_Int32,
     Field ''m_dailyChargeRestoreCount'' ty_Int32,
     Field ''m_chargeRestoreCount'' ty_Int32]\<rparr>),
    (0x2A16748D, \<lparr>msgName = ''S2C_RestorationList'', msgDir = ''S2C'', msgID = 0x2A16748D, msgFields =
     [Field ''m_freeRestoreCount'' ty_Int32,
     Field ''m_freeRestoreCountMax'' ty_Int32,
     Field ''m_dailyChargeRestoreCount'' ty_Int32,
     Field ''m_chargeRestoreCount'' ty_Int32,
     Field ''m_restoreList'' ty_List_RestoreData]\<rparr>),
    (0x32B25885, \<lparr>msgName = ''S2C_RestorationSimpleList'', msgDir = ''S2C'', msgID = 0x32B25885, msgFields =
     [Field ''m_restoreSimpleList'' ty_List_RestoreSimpleData]\<rparr>),
    (0x04DF29A9, \<lparr>msgName = ''S2C_RetrieveParcel'', msgDir = ''S2C'', msgID = 0x04DF29A9, msgFields =
     [Field ''m_result'' ty_Int32,
     Field ''m_parcelDBID'' ty_Int64]\<rparr>),
    (0x2E5B63C0, \<lparr>msgName = ''S2C_RuneCompose'', msgDir = ''S2C'', msgID = 0x2E5B63C0, msgFields =
     [Field ''m_result'' ty_Int32]\<rparr>),
    (0x1EEF9EA3, \<lparr>msgName = ''S2C_RuneConvert'', msgDir = ''S2C'', msgID = 0x1EEF9EA3, msgFields =
     [Field ''m_result'' ty_Int32,
     Field ''m_addRuneDBID'' ty_Int64]\<rparr>),
    (0x289C9481, \<lparr>msgName = ''S2C_RuneEquip'', msgDir = ''S2C'', msgID = 0x289C9481, msgFields =
     [Field ''m_result'' ty_Int32,
     Field ''m_slotInfo'' ty_RunePanelSlotInfo]\<rparr>),
    (0x384F5A46, \<lparr>msgName = ''S2C_RuneInvenList'', msgDir = ''S2C'', msgID = 0x384F5A46, msgFields =
     [Field ''__state__'' ty_Byte,
     Field ''m_runeCount'' ty_Int32,
     Field ''m_runeList'' ty_List_RuneInfo]\<rparr>),
    (0x35437CB9, \<lparr>msgName = ''S2C_RuneInvenUpdateNotify'', msgDir = ''S2C'', msgID = 0x35437CB9, msgFields =
     [Field ''__state__'' ty_Byte,
     Field ''m_runeInvenCount'' ty_Int32,
     Field ''m_eventType'' ty_Int32,
     Field ''m_addRuneList'' ty_List_RuneInfo,
     Field ''m_deleteRuneList'' ty_List_Int64]\<rparr>),
    (0x20A6E977, \<lparr>msgName = ''S2C_RuneLineChange'', msgDir = ''S2C'', msgID = 0x20A6E977, msgFields =
     [Field ''m_result'' ty_Int32,
     Field ''m_isEquipped'' ty_Boolean,
     Field ''m_changeType'' ty_Byte,
     Field ''m_runeInfo'' ty_RuneInfo]\<rparr>),
    (0x37DE31B5, \<lparr>msgName = ''S2C_RunePanelClear'', msgDir = ''S2C'', msgID = 0x37DE31B5, msgFields =
     [Field ''m_result'' ty_Int32,
     Field ''m_panelInfo'' ty_RunePanelInfo]\<rparr>),
    (0x32F4BAED, \<lparr>msgName = ''S2C_RunePanelInfo'', msgDir = ''S2C'', msgID = 0x32F4BAED, msgFields =
     [Field ''m_panelList'' ty_List_RunePanelInfo]\<rparr>),
    (0x2A997919, \<lparr>msgName = ''S2C_RunePanelLineChange'', msgDir = ''S2C'', msgID = 0x2A997919, msgFields =
     [Field ''m_result'' ty_Int32,
     Field ''m_panelIndex'' ty_Int32,
     Field ''m_slotList'' ty_List_RunePanelSlotInfo]\<rparr>),
    (0x30E4DE70, \<lparr>msgName = ''S2C_RuneToggleLock'', msgDir = ''S2C'', msgID = 0x30E4DE70, msgFields =
     [Field ''m_result'' ty_Int32,
     Field ''m_isEquipped'' ty_Boolean,
     Field ''m_runeInfo'' ty_RuneInfo]\<rparr>),
    (0x06CFA077, \<lparr>msgName = ''S2C_RuneUnequip'', msgDir = ''S2C'', msgID = 0x06CFA077, msgFields =
     [Field ''m_result'' ty_Int32,
     Field ''m_slotInfo'' ty_RunePanelSlotInfo]\<rparr>),
    (0x1D0C80BF, \<lparr>msgName = ''S2C_ScheduleBossDashboardNoti'', msgDir = ''S2C'', msgID = 0x1D0C80BF, msgFields =
     [Field ''m_crossWorldState'' ty_Int32,
     Field ''m_board'' ty_List_ScheduleBossDashboardData]\<rparr>),
    (0x28F0FE1C, \<lparr>msgName = ''S2C_ScheduleBossInfoListNotice'', msgDir = ''S2C'', msgID = 0x28F0FE1C, msgFields =
     [Field ''m_bossType'' ty_Byte,
     Field ''m_noticeType'' ty_Byte,
     Field ''m_talkID'' ty_Int32,
     Field ''m_scheduleBossInfoList'' ty_List_ScheduleBossInfo]\<rparr>),
    (0x0F8D2CAA, \<lparr>msgName = ''S2C_SealAccountItemUse'', msgDir = ''S2C'', msgID = 0x0F8D2CAA, msgFields =
     [Field ''m_result'' ty_Int32,
     Field ''m_itemOID'' ty_Int64,
     Field ''m_code'' ty_String]\<rparr>),
    (0x0DED7C02, \<lparr>msgName = ''S2C_SealAccountItemUseCheck'', msgDir = ''S2C'', msgID = 0x0DED7C02, msgFields =
     [Field ''m_result'' ty_Int32,
     Field ''m_itemOID'' ty_Int64,
     Field ''m_code'' ty_String,
     Field ''m_limitExpire'' ty_Int64]\<rparr>),
    (0x0447E188, \<lparr>msgName = ''S2C_SelectPlayerInfo'', msgDir = ''S2C'', msgID = 0x0447E188, msgFields =
     [Field ''m_result'' ty_Int32,
     Field ''m_selectType'' ty_Byte,
     Field ''m_selectPlayerInfo'' ty_SelectPlayerInfo]\<rparr>),
    (0x1DBC12CF, \<lparr>msgName = ''S2C_ServerDisconnect'', msgDir = ''S2C'', msgID = 0x1DBC12CF, msgFields =
     [Field ''m_errorCode'' ty_Int32]\<rparr>),
    (0x1D6DAFB5, \<lparr>msgName = ''S2C_SessionAuthLogin'', msgDir = ''S2C'', msgID = 0x1D6DAFB5, msgFields =
     [Field ''m_result'' ty_Int32,
     Field ''m_accountCode'' ty_String,
     Field ''m_sessionKey'' ty_Int32,
     Field ''m_userBlockInfo'' ty_UserBlockInfo]\<rparr>),
    (0x2432DD91, \<lparr>msgName = ''S2C_SessionAuthLoginWithPreemption'', msgDir = ''S2C'', msgID = 0x2432DD91, msgFields =
     [Field ''m_result'' ty_Int32,
     Field ''m_accountCode'' ty_String,
     Field ''m_sessionKey'' ty_Int32,
     Field ''m_userBlockInfo'' ty_UserBlockInfo]\<rparr>),
    (0x05A734FA, \<lparr>msgName = ''S2C_SessionLogin'', msgDir = ''S2C'', msgID = 0x05A734FA, msgFields =
     [Field ''m_result'' ty_Int32,
     Field ''m_accountCode'' ty_String]\<rparr>),
    (0x354C7D51, \<lparr>msgName = ''S2C_SetSoulStonePreset'', msgDir = ''S2C'', msgID = 0x354C7D51, msgFields =
     [Field ''m_result'' ty_Int32,
     Field ''m_soulStoneIndex'' ty_Int32,
     Field ''m_presetSlot'' ty_Byte]\<rparr>),
    (0x05795B5B, \<lparr>msgName = ''S2C_SetTotalPreset'', msgDir = ''S2C'', msgID = 0x05795B5B, msgFields =
     [Field ''m_result'' ty_Int32,
     Field ''m_presetSetList'' ty_List_TotalPresetSet]\<rparr>),
    (0x206B9F62, \<lparr>msgName = ''S2C_ShopBuyItem'', msgDir = ''S2C'', msgID = 0x206B9F62, msgFields =
     [Field ''m_result'' ty_Int32,
     Field ''m_buyList'' ty_List_BuyItemData,
     Field ''m_buyLimitList'' ty_List_ShopItemData]\<rparr>),
    (0x2FCB1D2D, \<lparr>msgName = ''S2C_ShopBuyRandBuff'', msgDir = ''S2C'', msgID = 0x2FCB1D2D, msgFields =
     [Field ''m_result'' ty_Int32,
     Field ''m_buyBuffGrade'' ty_Byte,
     Field ''m_buyBuffIndex'' ty_Int32]\<rparr>)]"

definition messages_25 :: "(u32 \<times> message) list" where
  "messages_25 =
   [(0x1A37318B, \<lparr>msgName = ''S2C_ShopCheck'', msgDir = ''S2C'', msgID = 0x1A37318B, msgFields =
     [Field ''m_result'' ty_Int32,
     Field ''m_buyLimitList'' ty_List_ShopItemData]\<rparr>),
    (0x328F86B8, \<lparr>msgName = ''S2C_ShopSellItem'', msgDir = ''S2C'', msgID = 0x328F86B8, msgFields =
     [Field ''m_result'' ty_Int32]\<rparr>),
    (0x30D6BE74, \<lparr>msgName = ''S2C_SiegeWarBoard'', msgDir = ''S2C'', msgID = 0x30D6BE74, msgFields =
     [Field ''m_result'' ty_Int32,
     Field ''m_mercenaryCount'' ty_Int32,
     Field ''m_mercenaryMaxCount'' ty_Int32,
     Field ''m_memberList'' ty_List_SiegeWarMemberBoardInfo]\<rparr>),
    (0x0BC7065B, \<lparr>msgName = ''S2C_SiegeWarChangeDefenderNoti'', msgDir = ''S2C'', msgID = 0x0BC7065B, msgFields =
     [Field ''m_teamIndex'' ty_Byte]\<rparr>),
    (0x1B90A967, \<lparr>msgName = ''S2C_SiegeWarExit'', msgDir = ''S2C'', msgID = 0x1B90A967, msgFields =
     [Field ''m_result'' ty_Int32]\<rparr>),
    (0x0A68CF47, \<lparr>msgName = ''S2C_SiegeWarGuardList'', msgDir = ''S2C'', msgID = 0x0A68CF47, msgFields =
     [Field ''m_result'' ty_Int32,
     Field ''m_guardList'' ty_List_SiegeWarGuardInfo]\<rparr>),
    (0x38CFFA7B, \<lparr>msgName = ''S2C_SiegeWarGuardSetup'', msgDir = ''S2C'', msgID = 0x38CFFA7B, msgFields =
     [Field ''m_result'' ty_Int32,
     Field ''m_guardList'' ty_List_SiegeWarGuardInfo]\<rparr>),
    (0x3B167C60, \<lparr>msgName = ''S2C_SiegeWarInfo'', msgDir = ''S2C'', msgID = 0x3B167C60, msgFields =
     [Field ''m_castleInfo'' ty_SiegeWarInfo]\<rparr>),
    (0x22D64B54, \<lparr>msgName = ''S2C_SiegeWarInfoNotify'', msgDir = ''S2C'', msgID = 0x22D64B54, msgFields =
     [Field ''m_castleInfo'' ty_SiegeWarInfo]\<rparr>),
    (0x2A17710E, \<lparr>msgName = ''S2C_SiegeWarMemberInfoNoti'', msgDir = ''S2C'', msgID = 0x2A17710E, msgFields =
     [Field ''m_type'' ty_Byte,
     Field ''m_memberInfo'' ty_SiegeWarMemberInfo]\<rparr>),
    (0x28970338, \<lparr>msgName = ''S2C_SiegeWarMercenaryAccept'', msgDir = ''S2C'', msgID = 0x28970338, msgFields =
     [Field ''m_result'' ty_Int32,
     Field ''m_isAccept'' ty_Boolean,
     Field ''m_applyPlayerOID'' ty_Int64,
     Field ''m_memberCount'' ty_Int32]\<rparr>),
    (0x03C9D9A9, \<lparr>msgName = ''S2C_SiegeWarMercenaryAcceptNoti'', msgDir = ''S2C'', msgID = 0x03C9D9A9, msgFields =
     [Field ''m_guildOID'' ty_Int64,
     Field ''m_isAccept'' ty_Boolean]\<rparr>),
    (0x0A25F9F4, \<lparr>msgName = ''S2C_SiegeWarMercenaryApply'', msgDir = ''S2C'', msgID = 0x0A25F9F4, msgFields =
     [Field ''m_result'' ty_Int32,
     Field ''m_guildOID'' ty_Int64,
     Field ''m_isApply'' ty_Boolean]\<rparr>),
    (0x15274680, \<lparr>msgName = ''S2C_SiegeWarMercenaryApplyList'', msgDir = ''S2C'', msgID = 0x15274680, msgFields =
     [Field ''m_result'' ty_Int32,
     Field ''m_applyList'' ty_List_MercenaryApplyInfo]\<rparr>),
    (0x04A35008, \<lparr>msgName = ''S2C_SiegeWarMercenaryApplyNoti'', msgDir = ''S2C'', msgID = 0x04A35008, msgFields =
     [Field ''m_mercenaryOID'' ty_Int64,
     Field ''m_isApply'' ty_Boolean]\<rparr>),
    (0x1B34018F, \<lparr>msgName = ''S2C_SiegeWarMercenaryExpel'', msgDir = ''S2C'', msgID = 0x1B34018F, msgFields =
     [Field ''m_result'' ty_Int32,
     Field ''m_memberInfo'' ty_SiegeWarMemberInfo]\<rparr>),
    (0x2BA1B0CA, \<lparr>msgName = ''S2C_SiegeWarMercenaryExpelNoti'', msgDir = ''S2C'', msgID = 0x2BA1B0CA, msgFields =
     [Field ''m_guildOID'' ty_Int64,
     Field ''m_guildName'' ty_Chars,
     Field ''m_teamIndex'' ty_Byte]\<rparr>),
    (0x287C1266, \<lparr>msgName = ''S2C_SiegeWarMercenaryPage'', msgDir = ''S2C'', msgID = 0x287C1266, msgFields =
     [Field ''m_result'' ty_Int32,
     Field ''m_recruitList'' ty_List_MercenaryRecruitInfo,
     Field ''m_canRecruit'' ty_Boolean]\<rparr>),
    (0x1515C5F9, \<lparr>msgName = ''S2C_SiegeWarMercenaryRecruit'', msgDir = ''S2C'', msgID = 0x1515C5F9, msgFields =
     [Field ''m_result'' ty_Int32,
     Field ''m_teamIndex'' ty_Byte,
     Field ''m_totalReward'' ty_Int64,
     Field ''m_weeklyReward'' ty_Int64,
     Field ''m_weeklyRewardRate'' ty_Int32,
     Field ''m_requirPower'' ty_Int32,
     Field ''m_count'' ty_Int32,
     Field ''m_maxCount'' ty_Int32]\<rparr>),
    (0x189EA176, \<lparr>msgName = ''S2C_SiegeWarMercenaryWithdraw'', msgDir = ''S2C'', msgID = 0x189EA176, msgFields =
     [Field ''m_result'' ty_Int32]\<rparr>),
    (0x2FD4DB92, \<lparr>msgName = ''S2C_SiegeWarMyInfoNoti'', msgDir = ''S2C'', msgID = 0x2FD4DB92, msgFields =
     [Field ''m_myInfo'' ty_SiegeWarMemberInfo]\<rparr>),
    (0x25A613B5, \<lparr>msgName = ''S2C_SiegeWarPlayInfoNoti'', msgDir = ''S2C'', msgID = 0x25A613B5, msgFields =
     [Field ''m_playInfo'' ty_SiegeWarPlayInfo]\<rparr>),
    (0x09214F67, \<lparr>msgName = ''S2C_SiegeWarResultNoti'', msgDir = ''S2C'', msgID = 0x09214F67, msgFields =
     [Field ''m_isWin'' ty_Boolean,
     Field ''m_scoreInfo'' ty_SiegeWarMemberScoreInfo]\<rparr>),
    (0x2BE9C315, \<lparr>msgName = ''S2C_SiegeWarRewardDetail'', msgDir = ''S2C'', msgID = 0x2BE9C315, msgFields =
     [Field ''m_result'' ty_Int32,
     Field ''m_totalCash'' ty_Int64,
     Field ''m_totalGold'' ty_Int64,
     Field ''m_totalCrystal'' ty_Int64,
     Field ''m_dividendRate'' ty_Byte,
     Field ''m_dividendCash'' ty_Int64,
     Field ''m_weekCash'' ty_Int64,
     Field ''m_mercenaryCash'' ty_Int64,
     Field ''m_dominionList'' ty_List_SiegeWarDominionTaxInfo]\<rparr>),
    (0x0E3C85C8, \<lparr>msgName = ''S2C_SiegeWarStateNoti'', msgDir = ''S2C'', msgID = 0x0E3C85C8, msgFields =
     [Field ''m_state'' ty_Byte,
     Field ''m_stateEndTime'' ty_Int64,
     Field ''m_playWinTime'' ty_Int64]\<rparr>),
    (0x379EBEBC, \<lparr>msgName = ''S2C_SkillCasting'', msgDir = ''S2C'', msgID = 0x379EBEBC, msgFields =
     [Field ''m_result'' ty_Int32,
     Field ''m_skillIndex'' ty_Int32]\<rparr>),
    (0x0E0965DF, \<lparr>msgName = ''S2C_SkillCastingNoti'', msgDir = ''S2C'', msgID = 0x0E0965DF, msgFields =
     [Field ''m_success'' ty_Int32,
     Field ''m_casterOID'' ty_Int64,
     Field ''m_targetOID'' ty_Int64,
     Field ''m_pos'' ty_Vector,
     Field ''m_dir'' ty_Single,
     Field ''m_skillIndex'' ty_Int32,
     Field ''m_skillLevel'' ty_Int32,
     Field ''m_skillTableKind'' ty_Byte,
     Field ''m_castingTime'' ty_Int32,
     Field ''m_weaponType'' ty_Int32]\<rparr>),
    (0x0D5D0928, \<lparr>msgName = ''S2C_SkillGetNoti'', msgDir = ''S2C'', msgID = 0x0D5D0928, msgFields =
     [Field ''m_playerOID'' ty_Int64,
     Field ''m_skillData'' ty_SkillData]\<rparr>),
    (0x2F88CCAA, \<lparr>msgName = ''S2C_SkillLevelUp'', msgDir = ''S2C'', msgID = 0x2F88CCAA, msgFields =
     [Field ''m_result'' ty_Int32,
     Field ''m_skillData'' ty_SkillData,
     Field ''m_isSuccess'' ty_Boolean]\<rparr>),
    (0x228CB8E6, \<lparr>msgName = ''S2C_SkillList'', msgDir = ''S2C'', msgID = 0x228CB8E6, msgFields =
     [Field ''m_playerOID'' ty_Int64,
     Field ''m_skillDataList'' ty_List_SkillData,
     Field ''m_useSubSkillPointList'' ty_List_SubSkillPointData]\<rparr>),
    (0x2A89FAA1, \<lparr>msgName = ''S2C_SkillUse'', msgDir = ''S2C'', msgID = 0x2A89FAA1, msgFields =
     [Field ''m_result'' ty_Int32,
     Field ''m_skillIndex'' ty_Int32,
     Field ''m_targetOID'' ty_Int64,
     Field ''m_targetPos'' ty_Vector]\<rparr>)]"

definition messages_26 :: "(u32 \<times> message) list" where
  "messages_26 =
   [(0x1C7467B7, \<lparr>msgName = ''S2C_SkillUseNotice'', msgDir = ''S2C'', msgID = 0x1C7467B7, msgFields =
     [Field ''m_success'' ty_Int32,
     Field ''m_casterOID'' ty_Int64,
     Field ''m_targetOID'' ty_Int64,
     Field ''m_weaponType'' ty_Int32,
     Field ''m_pos'' ty_Vector,
     Field ''m_dir'' ty_Single,
     Field ''m_attackSpeed'' ty_Single,
     Field ''m_skillIndex'' ty_Int32,
     Field ''m_skillLevel'' ty_Int32,
     Field ''m_skillTableKind'' ty_Byte,
     Field ''m_effectValue'' ty_List_SkillEffectValue,
     Field ''m_mapIndex'' ty_Int32,
     Field ''m_fHitTime'' ty_Single,
     Field ''m_nHitCount'' ty_Int32,
     Field ''m_targetPosition'' ty_Vector,
     Field ''m_chaoExpiredTime'' ty_Int64]\<rparr>),
    (0x18EA0D3F, \<lparr>msgName = ''S2C_SlayerApplyForBail'', msgDir = ''S2C'', msgID = 0x18EA0D3F, msgFields =
     [Field ''m_result'' ty_Int32]\<rparr>),
    (0x0E6F24E5, \<lparr>msgName = ''S2C_SlayerList'', msgDir = ''S2C'', msgID = 0x0E6F24E5, msgFields =
     [Field ''__state__'' ty_Byte,
     Field ''m_isSuccess'' ty_Boolean,
     Field ''m_slayerInfoList'' ty_List_SlayerInfo]\<rparr>),
    (0x209C3842, \<lparr>msgName = ''S2C_SoulStoneList'', msgDir = ''S2C'', msgID = 0x209C3842, msgFields =
     [Field ''m_result'' ty_Int32,
     Field ''m_soulStoneList'' ty_List_SoulStoneRootInfo]\<rparr>),
    (0x102A7F48, \<lparr>msgName = ''S2C_SpecialDungeonWaveNoti'', msgDir = ''S2C'', msgID = 0x102A7F48, msgFields =
     [Field ''m_totalWaveCount'' ty_Int32,
     Field ''m_accuWaveCount'' ty_Int32,
     Field ''m_remainSec'' ty_Int32]\<rparr>),
    (0x32566FDC, \<lparr>msgName = ''S2C_StoreItemInStorageBoxList'', msgDir = ''S2C'', msgID = 0x32566FDC, msgFields =
     [Field ''m_result'' ty_Int32,
     Field ''m_storageBoxDataList'' ty_List_StorageBoxData]\<rparr>),
    (0x28E03174, \<lparr>msgName = ''S2C_StoreItemList'', msgDir = ''S2C'', msgID = 0x28E03174, msgFields =
     [Field ''m_result'' ty_Int32,
     Field ''m_hasPurchaseHistory'' ty_Boolean,
     Field ''m_tabIndex'' ty_Byte,
     Field ''m_storeItemList'' ty_List_StoreItemData,
     Field ''m_storeSequenceItemList'' ty_List_StoreSequenceItemData,
     Field ''m_storePoint'' ty_Int64,
     Field ''m_storeCoin'' ty_Int32,
     Field ''m_storeCoinResetTime'' ty_Int64,
     Field ''m_serverTransferDateInfo'' ty_ServerTransferDateInfo]\<rparr>),
    (0x30261610, \<lparr>msgName = ''S2C_StoreLumpSumItemList'', msgDir = ''S2C'', msgID = 0x30261610, msgFields =
     [Field ''m_result'' ty_Int32,
     Field ''m_lumpSumItemList'' ty_List_StoreItemData]\<rparr>),
    (0x1E979FC0, \<lparr>msgName = ''S2C_SubSkillLevelUp'', msgDir = ''S2C'', msgID = 0x1E979FC0, msgFields =
     [Field ''m_result'' ty_Int32,
     Field ''m_isNew'' ty_Boolean,
     Field ''m_isLevelUp'' ty_Boolean,
     Field ''m_skillData'' ty_SkillData,
     Field ''m_useSubSkillPoint'' ty_Int64]\<rparr>),
    (0x16783880, \<lparr>msgName = ''S2C_SubSkillReset'', msgDir = ''S2C'', msgID = 0x16783880, msgFields =
     [Field ''m_result'' ty_Int32,
     Field ''m_resetSubClassType'' ty_Byte,
     Field ''m_skillIndexList'' ty_List_Int32,
     Field ''m_useSubSkillPoint'' ty_Int64]\<rparr>),
    (0x1E1C4FF1, \<lparr>msgName = ''S2C_SystemMessageNoti'', msgDir = ''S2C'', msgID = 0x1E1C4FF1, msgFields =
     [Field ''m_result'' ty_Int32]\<rparr>),
    (0x2652BAA6, \<lparr>msgName = ''S2C_TakeBankDepositReward'', msgDir = ''S2C'', msgID = 0x2652BAA6, msgFields =
     [Field ''m_result'' ty_Int32,
     Field ''m_bankIndex'' ty_Int32,
     Field ''m_rewardType'' ty_Byte,
     Field ''m_cardInfo'' ty_BankCardInfo]\<rparr>),
    (0x0282CB50, \<lparr>msgName = ''S2C_TakeBankRoundReward'', msgDir = ''S2C'', msgID = 0x0282CB50, msgFields =
     [Field ''m_result'' ty_Int32,
     Field ''m_bankIndex'' ty_Int32,
     Field ''m_rewardCount'' ty_Int64,
     Field ''m_cardInfo'' ty_BankCardInfo]\<rparr>),
    (0x1B1164AB, \<lparr>msgName = ''S2C_TakeParcelTradeIncome'', msgDir = ''S2C'', msgID = 0x1B1164AB, msgFields =
     [Field ''m_result'' ty_Int32,
     Field ''m_realIncome'' ty_Int64,
     Field ''m_parcelList'' ty_List_Int64]\<rparr>),
    (0x04548454, \<lparr>msgName = ''S2C_TakeStoreItemInStorageBox'', msgDir = ''S2C'', msgID = 0x04548454, msgFields =
     [Field ''m_result'' ty_Int32,
     Field ''m_purchaseOIDList'' ty_List_Int64,
     Field ''m_rewardDataList'' ty_List_RewardData,
     Field ''m_deltaStoreCoin'' ty_Int32,
     Field ''m_storePoint'' ty_Int64,
     Field ''m_storeCoin'' ty_Int32,
     Field ''m_storeCoinResetTime'' ty_Int64]\<rparr>),
    (0x29A93DF5, \<lparr>msgName = ''S2C_ToggleItemLock'', msgDir = ''S2C'', msgID = 0x29A93DF5, msgFields =
     [Field ''m_result'' ty_Int32,
     Field ''m_itemOID'' ty_Int64,
     Field ''m_isLock'' ty_Boolean]\<rparr>),
    (0x0629E7A2, \<lparr>msgName = ''S2C_TokenBalanceInfo'', msgDir = ''S2C'', msgID = 0x0629E7A2, msgFields =
     [Field ''m_result'' ty_Int32,
     Field ''m_walletStatus'' ty_Byte,
     Field ''m_tokenBalanceCROM'' ty_String,
     Field ''m_tokenBalanceCRYSTAL'' ty_String]\<rparr>),
    (0x25BAF7D0, \<lparr>msgName = ''S2C_TokenExchange'', msgDir = ''S2C'', msgID = 0x25BAF7D0, msgFields =
     [Field ''m_result'' ty_Int32,
     Field ''m_exchangeType'' ty_Byte,
     Field ''m_tokenType'' ty_Byte,
     Field ''m_tokenBalance'' ty_String,
     Field ''m_amount'' ty_Int32,
     Field ''m_mintedCount'' ty_Int32,
     Field ''m_remainMintCount'' ty_Int32]\<rparr>),
    (0x20B7F00E, \<lparr>msgName = ''S2C_TokenExchangeCancel'', msgDir = ''S2C'', msgID = 0x20B7F00E, msgFields =
     [Field ''m_result'' ty_Int32,
     Field ''m_exchangeType'' ty_Byte,
     Field ''m_tokenType'' ty_Byte]\<rparr>),
    (0x378B2F3B, \<lparr>msgName = ''S2C_TokenExchangeInfo'', msgDir = ''S2C'', msgID = 0x378B2F3B, msgFields =
     [Field ''m_result'' ty_Int32,
     Field ''m_exchangeType'' ty_Byte,
     Field ''m_tokenType'' ty_Byte,
     Field ''m_tokenBalance'' ty_String,
     Field ''m_tokenAvgMarketPrice'' ty_Double,
     Field ''m_unitCount'' ty_Int32,
     Field ''m_mintedCount'' ty_Int32,
     Field ''m_remainMintCount'' ty_Int32,
     Field ''m_exchangeFee'' ty_Int64]\<rparr>),
    (0x1B33ACD8, \<lparr>msgName = ''S2C_TotalPresetList'', msgDir = ''S2C'', msgID = 0x1B33ACD8, msgFields =
     [Field ''m_presetList'' ty_List_TotalPresetInfo_arr]\<rparr>),
    (0x2DDA74F4, \<lparr>msgName = ''S2C_TowerClearNoti'', msgDir = ''S2C'', msgID = 0x2DDA74F4, msgFields =
     [Field ''m_towerInfo'' ty_TowerInfo,
     Field ''m_mapIndex'' ty_Int32,
     Field ''m_rewardType'' ty_Byte,
     Field ''m_addPost'' ty_Boolean]\<rparr>),
    (0x02CC3654, \<lparr>msgName = ''S2C_TowerInfo'', msgDir = ''S2C'', msgID = 0x02CC3654, msgFields =
     [Field ''m_result'' ty_Int32,
     Field ''m_towerInfo'' ty_TowerInfo]\<rparr>),
    (0x0D8A27FD, \<lparr>msgName = ''S2C_TowerInfoNoti'', msgDir = ''S2C'', msgID = 0x0D8A27FD, msgFields =
     [Field ''m_towerInfo'' ty_TowerInfo]\<rparr>)]"

definition messages_27 :: "(u32 \<times> message) list" where
  "messages_27 =
   [(0x01073D27, \<lparr>msgName = ''S2C_TowerPassClear'', msgDir = ''S2C'', msgID = 0x01073D27, msgFields =
     [Field ''m_result'' ty_Int32,
     Field ''m_towerInfo'' ty_TowerInfo,
     Field ''m_rewardList'' ty_List_RewardData,
     Field ''m_addPoint'' ty_Int32]\<rparr>),
    (0x29E70F52, \<lparr>msgName = ''S2C_TowerPointReward'', msgDir = ''S2C'', msgID = 0x29E70F52, msgFields =
     [Field ''m_result'' ty_Int32,
     Field ''m_rewardType'' ty_Byte,
     Field ''m_receivedStep'' ty_Byte]\<rparr>),
    (0x0F691A14, \<lparr>msgName = ''S2C_TowerShopBuy'', msgDir = ''S2C'', msgID = 0x0F691A14, msgFields =
     [Field ''m_result'' ty_Int32,
     Field ''m_towerInfo'' ty_TowerInfo,
     Field ''m_buyItem'' ty_BuyItemData,
     Field ''m_shopGroupIndex'' ty_Int32,
     Field ''m_buyLimit'' ty_ShopItemData]\<rparr>),
    (0x1FD14E24, \<lparr>msgName = ''S2C_TowerShopCheck'', msgDir = ''S2C'', msgID = 0x1FD14E24, msgFields =
     [Field ''m_result'' ty_Int32,
     Field ''m_towerIndex'' ty_Int32,
     Field ''m_shopGroupIndex'' ty_Int32,
     Field ''m_buyLimitList'' ty_List_ShopItemData]\<rparr>),
    (0x03E92A71, \<lparr>msgName = ''S2C_TowerSweep'', msgDir = ''S2C'', msgID = 0x03E92A71, msgFields =
     [Field ''m_result'' ty_Int32,
     Field ''m_addPoint'' ty_Int32,
     Field ''m_towerInfo'' ty_TowerInfo]\<rparr>),
    (0x128302EF, \<lparr>msgName = ''S2C_TransferCheck'', msgDir = ''S2C'', msgID = 0x128302EF, msgFields =
     [Field ''m_result'' ty_Int32,
     Field ''m_storeIndex'' ty_Int32,
     Field ''m_destWorldID'' ty_Int32,
     Field ''m_checkList'' ty_List_TransferCheckData]\<rparr>),
    (0x1B86BD1C, \<lparr>msgName = ''S2C_TransferExecute'', msgDir = ''S2C'', msgID = 0x1B86BD1C, msgFields =
     [Field ''m_result'' ty_Int32,
     Field ''m_storeIndex'' ty_Int32,
     Field ''m_destWorldID'' ty_Int32]\<rparr>),
    (0x1E390C74, \<lparr>msgName = ''S2C_TransferServerList'', msgDir = ''S2C'', msgID = 0x1E390C74, msgFields =
     [Field ''m_result'' ty_Int32,
     Field ''m_storeIndex'' ty_Int32,
     Field ''m_serverStateList'' ty_List_TransferServerState]\<rparr>),
    (0x0D28AD4C, \<lparr>msgName = ''S2C_UnequipItem'', msgDir = ''S2C'', msgID = 0x0D28AD4C, msgFields =
     [Field ''m_result'' ty_Int32,
     Field ''m_presetSlot'' ty_Byte,
     Field ''m_unequipSlot'' ty_Byte,
     Field ''m_itemOID'' ty_Int64]\<rparr>),
    (0x12C346AF, \<lparr>msgName = ''S2C_UniqueItemInfoList'', msgDir = ''S2C'', msgID = 0x12C346AF, msgFields =
     [Field ''m_result'' ty_Int32,
     Field ''m_itemGroupIndex'' ty_Int32,
     Field ''m_itemList'' ty_List_UniqueItemInfo]\<rparr>),
    (0x0F3F8B48, \<lparr>msgName = ''S2C_UpdateAutoUse'', msgDir = ''S2C'', msgID = 0x0F3F8B48, msgFields =
     [Field ''m_result'' ty_Int32,
     Field ''m_autoUseList'' ty_List_AutoUseInfo]\<rparr>),
    (0x00134E55, \<lparr>msgName = ''S2C_UpdateCrystalGetInfo'', msgDir = ''S2C'', msgID = 0x00134E55, msgFields =
     [Field ''m_count'' ty_Int64,
     Field ''m_maxCount'' ty_Int64,
     Field ''m_resetTime'' ty_Int64]\<rparr>),
    (0x3A8E7CDD, \<lparr>msgName = ''S2C_UpdateItemAttributeNotify'', msgDir = ''S2C'', msgID = 0x3A8E7CDD, msgFields =
     [Field ''m_itemOID'' ty_Int64,
     Field ''m_itemAttribute'' ty_Byte]\<rparr>),
    (0x10D18F06, \<lparr>msgName = ''S2C_UpdateLevelNotify'', msgDir = ''S2C'', msgID = 0x10D18F06, msgFields =
     [Field ''m_playerOID'' ty_Int64,
     Field ''m_level'' ty_Int32,
     Field ''m_prevLevel'' ty_Int32,
     Field ''m_exp'' ty_Int64,
     Field ''m_isMaxLevelup'' ty_Boolean,
     Field ''m_statInfo'' ty_StatInfo]\<rparr>),
    (0x0CF71510, \<lparr>msgName = ''S2C_UpdateMapObjectNoti'', msgDir = ''S2C'', msgID = 0x0CF71510, msgFields =
     [Field ''m_mapObjectOID'' ty_Int64,
     Field ''m_state'' ty_Int32]\<rparr>),
    (0x2107F399, \<lparr>msgName = ''S2C_UpdatePetLevelNotify'', msgDir = ''S2C'', msgID = 0x2107F399, msgFields =
     [Field ''m_petIndex'' ty_Int32,
     Field ''m_level'' ty_Int32]\<rparr>),
    (0x10A3D022, \<lparr>msgName = ''S2C_UpdatePlayerLookNotify'', msgDir = ''S2C'', msgID = 0x10A3D022, msgFields =
     [Field ''m_playerOID'' ty_Int64,
     Field ''m_weaponItemIndex'' ty_Int32,
     Field ''m_weaponEnchant'' ty_Byte,
     Field ''m_costumeIndex'' ty_Int32,
     Field ''m_costumeStepUp'' ty_Byte,
     Field ''m_summonPetIndex'' ty_Int32]\<rparr>),
    (0x21115DFE, \<lparr>msgName = ''S2C_UpdatePropertyNotify'', msgDir = ''S2C'', msgID = 0x21115DFE, msgFields =
     [Field ''m_propertyEventType'' ty_Int32,
     Field ''m_relatedTargetOID'' ty_Int64,
     Field ''m_propertyList'' ty_List_PropertyData]\<rparr>),
    (0x21B616B5, \<lparr>msgName = ''S2C_UpdateQuickSlot'', msgDir = ''S2C'', msgID = 0x21B616B5, msgFields =
     [Field ''m_result'' ty_Int32,
     Field ''m_quickSlotInfo'' ty_QuickSlotInfo]\<rparr>),
    (0x0FA8E73F, \<lparr>msgName = ''S2C_UpdateSlayerNotify'', msgDir = ''S2C'', msgID = 0x0FA8E73F, msgFields =
     [Field ''m_isSlayer'' ty_Boolean]\<rparr>),
    (0x1415225C, \<lparr>msgName = ''S2C_UpdateStatNotify'', msgDir = ''S2C'', msgID = 0x1415225C, msgFields =
     [Field ''m_playerOID'' ty_Int64,
     Field ''m_statInfo'' ty_StatInfo]\<rparr>),
    (0x06E59FE8, \<lparr>msgName = ''S2C_UseBoxItemResult'', msgDir = ''S2C'', msgID = 0x06E59FE8, msgFields =
     [Field ''m_result'' ty_Int32,
     Field ''m_resultList'' ty_List_RewardData]\<rparr>),
    (0x2197DC9E, \<lparr>msgName = ''S2C_UseClassChangeItem'', msgDir = ''S2C'', msgID = 0x2197DC9E, msgFields =
     [Field ''m_result'' ty_Int32]\<rparr>),
    (0x2A8EE30E, \<lparr>msgName = ''S2C_UseCoupon'', msgDir = ''S2C'', msgID = 0x2A8EE30E, msgFields =
     [Field ''m_result'' ty_Int32]\<rparr>),
    (0x026FAD13, \<lparr>msgName = ''S2C_UseEquipmentRestorationItem'', msgDir = ''S2C'', msgID = 0x026FAD13, msgFields =
     [Field ''m_result'' ty_Int32,
     Field ''m_materialItemOID'' ty_Int64,
     Field ''m_restoreItemOID'' ty_Int64,
     Field ''m_restoreItemIndex'' ty_Int32]\<rparr>),
    (0x07878144, \<lparr>msgName = ''S2C_UseItem'', msgDir = ''S2C'', msgID = 0x07878144, msgFields =
     [Field ''m_result'' ty_Int32,
     Field ''m_itemOID'' ty_Int64,
     Field ''m_itemIndex'' ty_Int32,
     Field ''m_repeatCount'' ty_Int32]\<rparr>),
    (0x11959381, \<lparr>msgName = ''S2C_UseItemNotify'', msgDir = ''S2C'', msgID = 0x11959381, msgFields =
     [Field ''m_actorObjectType'' ty_Byte,
     Field ''m_actorObjectOID'' ty_Int64,
     Field ''m_itemIndex'' ty_Int32]\<rparr>),
    (0x33025F6D, \<lparr>msgName = ''S2C_UseJumpTicket'', msgDir = ''S2C'', msgID = 0x33025F6D, msgFields =
     [Field ''m_result'' ty_Int32]\<rparr>),
    (0x191616EB, \<lparr>msgName = ''S2C_UseMapObject'', msgDir = ''S2C'', msgID = 0x191616EB, msgFields =
     [Field ''m_result'' ty_Int32,
     Field ''m_mapObjectOID'' ty_Int64]\<rparr>),
    (0x166315E2, \<lparr>msgName = ''S2C_UseSelectBoxItem'', msgDir = ''S2C'', msgID = 0x166315E2, msgFields =
     [Field ''m_result'' ty_Int32,
     Field ''m_itemOID'' ty_Int64,
     Field ''m_itemIndex'' ty_Int32,
     Field ''m_repeatCount'' ty_Int32,
     Field ''m_selectIndex'' ty_Int32]\<rparr>)]"

definition messages_28 :: "(u32 \<times> message) list" where
  "messages_28 =
   [(0x150DF540, \<lparr>msgName = ''S2C_UseStatPoint'', msgDir = ''S2C'', msgID = 0x150DF540, msgFields =
     [Field ''m_result'' ty_Int32,
     Field ''m_statInfo'' ty_StatInfo]\<rparr>),
    (0x30A5DEED, \<lparr>msgName = ''S2C_VersionCheck'', msgDir = ''S2C'', msgID = 0x30A5DEED, msgFields =
     [Field ''m_protocolVer'' ty_Int32,
     Field ''m_serverID'' ty_Int32,
     Field ''m_utcTimeOffset'' ty_Int32,
     Field ''m_serverTime'' ty_Int64,
     Field ''m_serverTick'' ty_Int64]\<rparr>),
    (0x25D84C00, \<lparr>msgName = ''S2C_WStorageList'', msgDir = ''S2C'', msgID = 0x25D84C00, msgFields =
     [Field ''m_storageList'' ty_List_WStorageInfo]\<rparr>),
    (0x2A1BF607, \<lparr>msgName = ''S2C_WaitingUserCount'', msgDir = ''S2C'', msgID = 0x2A1BF607, msgFields =
     [Field ''m_waitingNumber'' ty_Int32,
     Field ''m_waitingUserCount'' ty_Int32,
     Field ''m_elapsedTime'' ty_Int32,
     Field ''m_rewardItemIndex'' ty_Int32,
     Field ''m_rewardItemCount'' ty_Int32,
     Field ''m_estimatedTime'' ty_Int32,
     Field ''m_nowServerTime'' ty_Int64]\<rparr>),
    (0x00476B8D, \<lparr>msgName = ''S2C_WalletInfo'', msgDir = ''S2C'', msgID = 0x00476B8D, msgFields =
     [Field ''m_walletAddress'' ty_String,
     Field ''m_walletStatus'' ty_Byte,
     Field ''m_tokenBalanceCROM'' ty_String,
     Field ''m_tokenBalanceCRYSTAL'' ty_String]\<rparr>),
    (0x0F3D3780, \<lparr>msgName = ''S2C_WantedList'', msgDir = ''S2C'', msgID = 0x0F3D3780, msgFields =
     [Field ''__state__'' ty_Byte,
     Field ''m_wantedList'' ty_List_WantedInfo,
     Field ''m_myWantedRequestCount'' ty_Byte,
     Field ''m_isValid'' ty_Boolean]\<rparr>),
    (0x061AD291, \<lparr>msgName = ''S2C_WantedPlayerNotify'', msgDir = ''S2C'', msgID = 0x061AD291, msgFields =
     [Field ''m_wantedPlayerOID'' ty_Int64,
     Field ''m_wantedRank'' ty_Byte]\<rparr>),
    (0x0C3BDEF0, \<lparr>msgName = ''S2C_WarehouseItemMove'', msgDir = ''S2C'', msgID = 0x0C3BDEF0, msgFields =
     [Field ''m_result'' ty_Int32,
     Field ''m_toRepositoryType'' ty_Byte,
     Field ''m_spendMoney'' ty_Int64]\<rparr>),
    (0x15833178, \<lparr>msgName = ''S2C_WarehouseItemSorting'', msgDir = ''S2C'', msgID = 0x15833178, msgFields =
     [Field ''m_result'' ty_Int32]\<rparr>),
    (0x07C9BC86, \<lparr>msgName = ''S2C_WarehouseSlotExpansion'', msgDir = ''S2C'', msgID = 0x07C9BC86, msgFields =
     [Field ''m_result'' ty_Int32,
     Field ''m_maxSlotCount'' ty_Int32]\<rparr>),
    (0x2DC68285, \<lparr>msgName = ''S2C_WaveClearNoti'', msgDir = ''S2C'', msgID = 0x2DC68285, msgFields =
     [Field ''m_mapIndex'' ty_Int32,
     Field ''m_isClear'' ty_Boolean,
     Field ''m_clearRewardID'' ty_Int32,
     Field ''m_joinRewardID'' ty_Int32,
     Field ''m_scoreRewardID'' ty_Int32]\<rparr>),
    (0x2DCF205F, \<lparr>msgName = ''S2C_WaveStartNoti'', msgDir = ''S2C'', msgID = 0x2DCF205F, msgFields =
     [Field ''m_mapIndex'' ty_Int32,
     Field ''m_waveIndex'' ty_Int32,
     Field ''m_waveClearType'' ty_Int32,
     Field ''m_waveClearTargetID'' ty_Int32,
     Field ''m_waveTalkID'' ty_Int32,
     Field ''m_totalWaveCount'' ty_Int32,
     Field ''m_accuWaveCount'' ty_Int32]\<rparr>)]"

section \<open>Struct layouts\<close>

definition structs_1 :: "(string \<times> field list) list" where
  "structs_1 =
   [(ty_AbilitySkillLevelInfo,
     [Field ''m_skillIndex'' ty_Int32,
     Field ''m_skillLevel'' ty_Byte]),
    (ty_AbilityValue,
     [Field ''m_data'' ty_Int32_arr,
     Field ''m_masteryList'' ty_List_MasteryData]),
    (ty_AchieveData,
     [Field ''m_index'' ty_Int32,
     Field ''m_count'' ty_Int64,
     Field ''m_state'' ty_Byte]),
    (ty_AdventureMapInfo,
     [Field ''m_mapIndex'' ty_Int32,
     Field ''m_mapEntryCount'' ty_Byte]),
    (ty_AttachedData,
     [Field ''m_mainType'' ty_Byte,
     Field ''m_subType'' ty_Int32,
     Field ''m_value'' ty_Int64]),
    (ty_AttendanceData,
     [Field ''m_index'' ty_Int32,
     Field ''m_dayCount'' ty_Byte,
     Field ''m_isChecked'' ty_Boolean,
     Field ''m_passDayCount'' ty_Byte,
     Field ''m_isEnablePass'' ty_Boolean,
     Field ''m_isPassChecked'' ty_Boolean]),
    (ty_AuctionElement,
     [Field ''m_auctionDBID'' ty_Int64,
     Field ''m_itemIndex'' ty_Int32,
     Field ''m_itemCount'' ty_Int32,
     Field ''m_itemEnchant'' ty_Byte,
     Field ''m_itemAttribute'' ty_Byte,
     Field ''m_itemOptionIndex'' ty_Int32_arr,
     Field ''m_saleAmount'' ty_Int64,
     Field ''m_remainSec'' ty_Int32,
     Field ''m_myItem'' ty_Boolean]),
    (ty_AuctionFixRecord,
     [Field ''m_distributeType'' ty_Byte,
     Field ''m_itemData'' ty_ItemData,
     Field ''m_saleAmount'' ty_Int32,
     Field ''m_fixAmount'' ty_Int32,
     Field ''m_purchaseDate'' ty_Int64]),
    (ty_AuctionRecentPrice,
     [Field ''m_price'' ty_Single,
     Field ''m_date'' ty_Int64]),
    (ty_AutoStoreSettingInfo,
     [Field ''m_itemIndex'' ty_Int32,
     Field ''m_isCheck'' ty_Boolean]),
    (ty_AutoUseInfo,
     [Field ''m_regType'' ty_Byte,
     Field ''m_regIndex'' ty_Int32,
     Field ''m_isUse'' ty_Boolean]),
    (ty_BankCardInfo,
     [Field ''m_bankIndex'' ty_Int32,
     Field ''m_totalDepositCount'' ty_Int64,
     Field ''m_myDepositCount'' ty_Int64,
     Field ''m_cumulativeRoundRewardCount'' ty_Int64,
     Field ''m_remainRoundRewardCount'' ty_Single,
     Field ''m_depositRewardFlag'' ty_Byte,
     Field ''m_nextUpdateTime'' ty_Int64]),
    (ty_BankDepositRankInfo,
     [Field ''m_rank'' ty_Int32,
     Field ''m_depositCount'' ty_Int64]),
    (ty_BossAuctionInfo,
     [Field ''m_bossAuctionID'' ty_Int64,
     Field ''m_bossIndex'' ty_Int32,
     Field ''m_bidderName'' ty_Chars,
     Field ''m_bidAmount'' ty_Int64,
     Field ''m_useAmount'' ty_Int64,
     Field ''m_initAmount'' ty_Int64,
     Field ''m_itemInfoList'' ty_List_BossAuctionItemInfo]),
    (ty_BossAuctionItemInfo,
     [Field ''m_slotIndex'' ty_Byte,
     Field ''m_state'' ty_Byte,
     Field ''m_itemIndex'' ty_Int32,
     Field ''m_itemCount'' ty_Int32,
     Field ''m_remainSec'' ty_Int32,
     Field ''m_remainTotalSec'' ty_Int32]),
    (ty_BroadCastInfo,
     [Field ''m_broadcastType'' ty_Byte,
     Field ''m_playerName'' ty_Chars,
     Field ''m_mapIndex'' ty_Int32,
     Field ''m_articleIndex'' ty_Int32,
     Field ''m_etcValue'' ty_Int32,
     Field ''m_isHidChar'' ty_Boolean]),
    (ty_BuffData,
     [Field ''m_buffIndex'' ty_Int32,
     Field ''m_remainTime'' ty_Int64,
     Field ''m_goldenbellIndex'' ty_Int32,
     Field ''m_playerName'' ty_String,
     Field ''m_isHideChar'' ty_Boolean]),
    (ty_BuyItemData,
     [Field ''m_itemIndex'' ty_Int32,
     Field ''m_itemCount'' ty_Int32]),
    (ty_ClassChangeItemInfo,
     [Field ''m_itemOID'' ty_Int64,
     Field ''m_targetItemIndex'' ty_Int32]),
    (ty_ClassChangeSkillInfo,
     [Field ''m_tableIndex'' ty_Int32]),
    (ty_CollectionCountInfo,
     [Field ''m_type'' ty_Byte,
     Field ''m_count'' ty_Int32]),
    (ty_CollectionInfo,
     [Field ''m_index'' ty_Int32,
     Field ''m_collectionPart'' ty_List_CollectionPart,
     Field ''m_isCompleted'' ty_Boolean]),
    (ty_CollectionPart,
     [Field ''m_partIndex'' ty_Int32,
     Field ''m_isCollect'' ty_Boolean]),
    (ty_CommissionInfo,
     [Field ''m_progressCount'' ty_Byte,
     Field ''m_completeCount'' ty_Byte,
     Field ''m_maxCompleteCount'' ty_Byte,
     Field ''m_usedGoldRefreshCount'' ty_Byte,
     Field ''m_usedCashRefreshCount'' ty_Byte,
     Field ''m_resetTime'' ty_Int64]),
    (ty_ComposeFailedParam,
     [Field ''m_grade'' ty_Byte,
     Field ''m_count'' ty_Int32]),
    (ty_ComposeInputInfo,
     [Field ''m_index'' ty_Int32,
     Field ''m_count'' ty_Int32])]"

definition structs_2 :: "(string \<times> field list) list" where
  "structs_2 =
   [(ty_ConquestDungeon,
     [Field ''m_dungeonIndex'' ty_Int32,
     Field ''m_dungeonGroupIndex'' ty_Int32,
     Field ''m_openTime'' ty_Int64,
     Field ''m_closeTime'' ty_Int64,
     Field ''m_occupyWorldID'' ty_Int32,
     Field ''m_occupyGuildOID'' ty_Int64,
     Field ''m_occupyGuildName'' ty_Chars,
     Field ''m_applyCost'' ty_Int64,
     Field ''m_applyLock'' ty_Boolean,
     Field ''m_entryState'' ty_Byte]),
    (ty_ConquestDungeonApply,
     [Field ''m_guildOID'' ty_Int64,
     Field ''m_guildName'' ty_Chars,
     Field ''m_worldID'' ty_Int32,
     Field ''m_expireTime'' ty_Int64,
     Field ''m_applyCost'' ty_Int64,
     Field ''m_state'' ty_Byte]),
    (ty_ContributionRewardInfo,
     [Field ''m_type'' ty_Int32,
     Field ''m_itemIndex'' ty_Int32,
     Field ''m_itemCount'' ty_Int32]),
    (ty_CoolInfo,
     [Field ''m_index'' ty_Int32,
     Field ''m_expireTime'' ty_Int64]),
    (ty_CostumeInfo,
     [Field ''m_costumeIndex'' ty_Int32,
     Field ''m_count'' ty_Int32,
     Field ''m_stepup'' ty_Byte]),
    (ty_DissolveData,
     [Field ''m_itemOID'' ty_Int64,
     Field ''m_itemCount'' ty_Int32]),
    (ty_DissolveRewardData,
     [Field ''m_rewardType'' ty_Byte,
     Field ''m_itemIndex'' ty_Int32,
     Field ''m_itemCount'' ty_Int32]),
    (ty_DistributionMemberDetailInfo,
     [Field ''m_memberOID'' ty_Int64,
     Field ''m_memberName'' ty_Chars,
     Field ''m_classType'' ty_Byte,
     Field ''m_totalPoint'' ty_Int32,
     Field ''m_totalAddPoint'' ty_Int32,
     Field ''m_contributeList'' ty_List_GuildContributeTypeInfo]),
    (ty_DistributionMemberInfo,
     [Field ''m_memberOID'' ty_Int64,
     Field ''m_memberName'' ty_Chars,
     Field ''m_memberGrade'' ty_Byte,
     Field ''m_classType'' ty_Byte,
     Field ''m_existDistribution'' ty_Boolean,
     Field ''m_totalPoint'' ty_Int32,
     Field ''m_totalAddPoint'' ty_Int32,
     Field ''m_distributionGold'' ty_Int64,
     Field ''m_distributionCash'' ty_Int64,
     Field ''m_distributionCrystal'' ty_Int64,
     Field ''m_distributionHonorCoin'' ty_Int64]),
    (ty_DominionBriefData,
     [Field ''m_mapIndex'' ty_Int32,
     Field ''m_occupyGuildDBID'' ty_Int64,
     Field ''m_occupyUnionDBID'' ty_Int64,
     Field ''m_markIndex'' ty_Int32,
     Field ''m_colorIndex'' ty_Byte,
     Field ''m_ownerGuildName'' ty_Chars,
     Field ''m_subscriptionGuildDBID'' ty_List_Int64,
     Field ''m_subscriptionUnionDBID'' ty_List_Int64]),
    (ty_DominionGuildData,
     [Field ''m_guildDBID'' ty_Int64,
     Field ''m_unionDBID'' ty_Int64,
     Field ''m_memberCount'' ty_Int32,
     Field ''m_teamPoint'' ty_Int32]),
    (ty_DominionIngameMemberPoint,
     [Field ''m_playerDBID'' ty_Int64,
     Field ''m_guildDBID'' ty_Int64,
     Field ''m_playerPoint'' ty_Int32,
     Field ''m_isIn'' ty_Boolean,
     Field ''m_name'' ty_Chars]),
    (ty_DominionIngameTeamPoint,
     [Field ''m_guildDBID'' ty_Int64,
     Field ''m_teamIndex'' ty_Byte,
     Field ''m_teamPoint'' ty_Int32,
     Field ''m_inMemberCount'' ty_Int32]),
    (ty_DominionKillComboInfo,
     [Field ''m_playerDBID'' ty_Int64,
     Field ''m_comboCount'' ty_Int32]),
    (ty_DominionMemberData,
     [Field ''m_guildDBID'' ty_Int64,
     Field ''m_playerDBID'' ty_Int64,
     Field ''m_name'' ty_Chars,
     Field ''m_point'' ty_Int32]),
    (ty_DominionMoneyData,
     [Field ''m_propertySubType'' ty_Byte,
     Field ''m_yesterdayProduction'' ty_Int32,
     Field ''m_value'' ty_Int64]),
    (ty_DominionProductData,
     [Field ''m_shopItemIndex'' ty_Int32,
     Field ''m_itemCount'' ty_Int32]),
    (ty_DominionResultData,
     [Field ''m_mapIndex'' ty_Int32,
     Field ''m_sharePoint'' ty_Int32,
     Field ''m_lastPoint'' ty_Int32,
     Field ''m_rewardPoint'' ty_Int32]),
    (ty_DominionTaxInfo,
     [Field ''m_mapIndex'' ty_Int32,
     Field ''m_guildOID'' ty_Int64,
     Field ''m_guildName'' ty_Chars,
     Field ''m_guildMarkIndex'' ty_Int32,
     Field ''m_guildRelationType'' ty_Byte,
     Field ''m_taxRate'' ty_Byte,
     Field ''m_nextTaxRate'' ty_Byte,
     Field ''m_gold'' ty_Int64,
     Field ''m_crystal'' ty_Int64]),
    (ty_EndTimeInfo,
     [Field ''m_index'' ty_Int32,
     Field ''m_endTime'' ty_Int64]),
    (ty_EntertainmentInfo,
     [Field ''m_entIndex'' ty_Int32,
     Field ''m_usedCount'' ty_Int32]),
    (ty_EquipItemData,
     [Field ''m_presetSlot'' ty_Byte,
     Field ''m_equipSlot'' ty_Byte,
     Field ''m_itemOID'' ty_Int64,
     Field ''m_itemIndex'' ty_Int32]),
    (ty_EryndorImprintingInfo,
     [Field ''m_itemIndex'' ty_Int32,
     Field ''m_optionIndex'' ty_Int32_arr,
     Field ''m_enableOptionIndex'' ty_List_Byte,
     Field ''m_state'' ty_Byte])]"

definition structs_3 :: "(string \<times> field list) list" where
  "structs_3 =
   [(ty_EventBingoStatus,
     [Field ''m_eventIndex'' ty_Int32,
     Field ''m_bingoBoard'' ty_UInt32,
     Field ''m_lineRewardStateList'' ty_List_Byte]),
    (ty_EventGameRandomBoxSlotInfo,
     [Field ''m_slotIdx'' ty_Byte,
     Field ''m_slotOpenCount'' ty_Int32]),
    (ty_EventMissionInfo,
     [Field ''m_eventIndex'' ty_Int32,
     Field ''m_eventLevelIndex'' ty_Int32,
     Field ''m_subMissionList'' ty_List_EventSubMissionInfo,
     Field ''m_eventLevelState'' ty_Byte,
     Field ''m_eventState'' ty_Byte]),
    (ty_EventSubMissionInfo,
     [Field ''m_index'' ty_Int32,
     Field ''m_count'' ty_Int32,
     Field ''m_state'' ty_Byte]),
    (ty_FriendRequestInfo,
     [Field ''m_reqType'' ty_Byte,
     Field ''m_playerOID'' ty_Int64,
     Field ''m_playerName'' ty_Chars]),
    (ty_GuardListInfo,
     [Field ''m_contribute'' ty_Int64,
     Field ''m_guildOID'' ty_Int64,
     Field ''m_guildName'' ty_Chars,
     Field ''m_guildMarkIndex'' ty_Int32,
     Field ''m_masterPlayerName'' ty_Chars,
     Field ''m_memberCount'' ty_UInt16,
     Field ''m_maxMemberCount'' ty_UInt16,
     Field ''m_guardMemberCount'' ty_UInt16,
     Field ''m_maxGuardMemberCount'' ty_UInt16,
     Field ''m_unionName'' ty_Chars,
     Field ''m_unionMarkIndex'' ty_Int32]),
    (ty_GuardMemberInfo,
     [Field ''m_guardGuildOID'' ty_Int64,
     Field ''m_playerOID'' ty_Int64,
     Field ''m_playerName'' ty_Chars,
     Field ''m_classType'' ty_Byte,
     Field ''m_playerGuildOID'' ty_Int64,
     Field ''m_playerGuildName'' ty_Chars,
     Field ''m_playerGuildMark'' ty_Int32,
     Field ''m_contractLevel'' ty_Int32,
     Field ''m_growthPoint'' ty_Int32,
     Field ''m_contractEndTime'' ty_Int64]),
    (ty_GuardMyInfo,
     [Field ''m_contractType'' ty_Byte,
     Field ''m_guardGuildOID'' ty_Int64,
     Field ''m_guardGuildName'' ty_Chars,
     Field ''m_guildMarkIndex'' ty_Int32,
     Field ''m_contractLevel'' ty_Int32,
     Field ''m_coolTime'' ty_Int64,
     Field ''m_growthPoint'' ty_Int32,
     Field ''m_rewardedPoint'' ty_Int32,
     Field ''m_contractStartTime'' ty_Int64,
     Field ''m_contractEndTime'' ty_Int64]),
    (ty_GuildAttendanceInfo,
     [Field ''m_yesterdayAttendCount'' ty_UInt16,
     Field ''m_attendanceRewardTaken'' ty_Boolean,
     Field ''m_guildGiftIndex'' ty_Int32,
     Field ''m_guildGiftRegTime'' ty_Int64,
     Field ''m_guildGiftExpireTime'' ty_Int64,
     Field ''m_guildGiftDayCount'' ty_Byte,
     Field ''m_giftStartDayCount'' ty_Byte,
     Field ''m_giftTakenDayCount'' ty_Byte]),
    (ty_GuildBuffInfo,
     [Field ''m_buffIndex'' ty_Int32,
     Field ''m_expireTime'' ty_Int64,
     Field ''m_buyPlayerName'' ty_Chars]),
    (ty_GuildContentResearchInfo,
     [Field ''m_groupIndex'' ty_Int32,
     Field ''m_level'' ty_Int32,
     Field ''m_index'' ty_Int32,
     Field ''m_complete'' ty_Boolean,
     Field ''m_exp'' ty_Int64,
     Field ''m_isRecommend'' ty_Boolean]),
    (ty_GuildContributeTypeInfo,
     [Field ''m_index'' ty_Int32,
     Field ''m_count'' ty_Int32]),
    (ty_GuildDistributionMoneyInfo,
     [Field ''m_gold'' ty_Int64,
     Field ''m_goldToHonorCoin'' ty_Boolean,
     Field ''m_cash'' ty_Int64,
     Field ''m_cashToHonorCoin'' ty_Boolean,
     Field ''m_crystal'' ty_Int64,
     Field ''m_crystalToHonorCoin'' ty_Boolean]),
    (ty_GuildDistributionSetting,
     [Field ''m_state'' ty_Byte,
     Field ''m_distributionTime'' ty_Int64,
     Field ''m_type'' ty_Byte,
     Field ''m_contributeList'' ty_List_GuildContributeTypeInfo,
     Field ''m_money'' ty_GuildDistributionMoneyInfo]),
    (ty_GuildDungeonInfo,
     [Field ''m_dungeonIndex'' ty_Int32,
     Field ''m_dungeonExpireTime'' ty_Int64,
     Field ''m_useOpenCount'' ty_Int32,
     Field ''m_addOpenCount'' ty_Int32]),
    (ty_GuildGuardInfo,
     [Field ''m_guildOID'' ty_Int64,
     Field ''m_memberCount'' ty_UInt16,
     Field ''m_maxMemberCount'' ty_UInt16,
     Field ''m_requestCount'' ty_UInt16,
     Field ''m_maxRequestCount'' ty_UInt16,
     Field ''m_growthPoint'' ty_Int32,
     Field ''m_rewardedPoint'' ty_Int32,
     Field ''m_guardMembers'' ty_List_GuardMemberInfo,
     Field ''m_guardRequests'' ty_List_GuardMemberInfo]),
    (ty_GuildHistoryInfo,
     [Field ''m_historyDBID'' ty_Int64,
     Field ''m_category'' ty_Byte,
     Field ''m_type'' ty_Int32,
     Field ''m_time'' ty_Int64,
     Field ''m_playerName'' ty_Chars,
     Field ''m_targetGuildName'' ty_Chars,
     Field ''m_param1'' ty_Int64,
     Field ''m_param2'' ty_Int64,
     Field ''m_param3'' ty_Int64,
     Field ''m_isHideChar'' ty_Boolean,
     Field ''m_isGift'' ty_Boolean,
     Field ''m_giftIndex'' ty_Int32]),
    (ty_GuildJoinRequestGuildInfo,
     [Field ''m_info'' ty_GuildSimpleInfo,
     Field ''m_registerTime'' ty_Int64]),
    (ty_GuildJoinRequestPlayerInfo,
     [Field ''m_playerOID'' ty_Int64,
     Field ''m_playerName'' ty_Chars,
     Field ''m_classType'' ty_Byte,
     Field ''m_subClassType'' ty_Byte,
     Field ''m_intro'' ty_String,
     Field ''m_registerTime'' ty_Int64])]"

definition structs_4 :: "(string \<times> field list) list" where
  "structs_4 =
   [(ty_GuildMemberSimpleInfo,
     [Field ''m_playerOID'' ty_Int64,
     Field ''m_playerName'' ty_Chars,
     Field ''m_classType'' ty_Byte,
     Field ''m_subClassType'' ty_Byte,
     Field ''m_grade'' ty_Byte,
     Field ''m_intro'' ty_String,
     Field ''m_contribute'' ty_Int64,
     Field ''m_weeklyContribute'' ty_Int64,
     Field ''m_lastLogonTime'' ty_Int64,
     Field ''m_lastLogoffTime'' ty_Int64,
     Field ''m_joinTime'' ty_Int64]),
    (ty_GuildPVPRecord,
     [Field ''m_pvpType'' ty_Byte,
     Field ''m_playerID'' ty_Int64,
     Field ''m_PlayerName'' ty_Chars,
     Field ''m_playerClassType'' ty_Byte,
     Field ''m_playerSubClassType'' ty_Byte,
     Field ''m_enemyID'' ty_Int64,
     Field ''m_enemyWorldID'' ty_Int32,
     Field ''m_enemyName'' ty_Chars,
     Field ''m_enemyClassType'' ty_Byte,
     Field ''m_enemySubClassType'' ty_Byte,
     Field ''m_enemyGuildName'' ty_Chars,
     Field ''m_enemyGuildID'' ty_Int64,
     Field ''m_enemyGuildMarkID'' ty_Int32,
     Field ''m_mapIndex'' ty_Int32,
     Field ''m_isWantedKill'' ty_Boolean,
     Field ''m_regDate'' ty_Int64]),
    (ty_GuildQuestData,
     [Field ''m_questIndex'' ty_Int32,
     Field ''m_group'' ty_Byte,
     Field ''m_order'' ty_Byte,
     Field ''m_currentCount'' ty_Int32,
     Field ''m_status'' ty_Byte]),
    (ty_GuildRelationInfo,
     [Field ''m_worldID'' ty_Int32,
     Field ''m_guildDBID'' ty_Int64,
     Field ''m_relationType'' ty_Byte,
     Field ''m_relationStatus'' ty_Byte,
     Field ''m_guildName'' ty_Chars,
     Field ''m_masterPlayerName'' ty_Chars,
     Field ''m_memoType'' ty_Byte,
     Field ''m_markIndex'' ty_Int32,
     Field ''m_tendencyTag'' ty_UInt16,
     Field ''m_memberCount'' ty_UInt16,
     Field ''m_maxMemberCount'' ty_UInt16,
     Field ''m_functionList'' ty_List_HostileFunctionSimpleInfo]),
    (ty_GuildShopBuyLimitData,
     [Field ''m_shopItemIndex'' ty_Int32,
     Field ''m_boughtCount'' ty_Int32]),
    (ty_GuildShopItemData,
     [Field ''m_shopItemIndex'' ty_Int32,
     Field ''m_count'' ty_Int32,
     Field ''m_enableGrade'' ty_Byte,
     Field ''m_enablePlayerOID'' ty_Int64]),
    (ty_GuildSimpleInfo,
     [Field ''m_rank'' ty_Int32,
     Field ''m_guildOID'' ty_Int64,
     Field ''m_guildName'' ty_Chars,
     Field ''m_masterPlayerName'' ty_Chars,
     Field ''m_markIndex'' ty_Int32,
     Field ''m_unionOID'' ty_Int64,
     Field ''m_unionName'' ty_Chars,
     Field ''m_unionMarkIndex'' ty_Int32,
     Field ''m_tendencyTag'' ty_UInt16,
     Field ''m_joinType'' ty_Byte,
     Field ''m_intro'' ty_String,
     Field ''m_memberCount'' ty_UInt16,
     Field ''m_maxMemberCount'' ty_UInt16,
     Field ''m_isMember'' ty_Boolean,
     Field ''m_isApprovalWait'' ty_Boolean,
     Field ''m_pkCount'' ty_Int64,
     Field ''m_pvpCount'' ty_Int64,
     Field ''m_totalPower'' ty_Int64,
     Field ''m_weeklyConnectionRate'' ty_Byte,
     Field ''m_createTime'' ty_Int64,
     Field ''m_contribute'' ty_Int64]),
    (ty_HostileFunctionSimpleInfo,
     [Field ''m_type'' ty_Byte,
     Field ''m_index'' ty_Int32,
     Field ''m_expireDate'' ty_Int64]),
    (ty_HostileUnionGuildInfo,
     [Field ''m_guildOID'' ty_Int64,
     Field ''m_guildName'' ty_Chars,
     Field ''m_markIndex'' ty_Int32,
     Field ''m_registerTime'' ty_Int64]),
    (ty_HostileUnionInfo,
     [Field ''m_unionOID'' ty_Int64,
     Field ''m_unionName'' ty_Chars,
     Field ''m_markIndex'' ty_Int32,
     Field ''m_masterGuildOID'' ty_Int64,
     Field ''m_memberGuildList'' ty_List_HostileUnionGuildInfo,
     Field ''m_totalPower'' ty_Int64,
     Field ''m_registerTime'' ty_Int64]),
    (ty_ItemBrokenGiveData,
     [Field ''m_mainType'' ty_Byte,
     Field ''m_subType'' ty_Int32,
     Field ''m_value'' ty_Int32]),
    (ty_ItemCollectionSlotRegQty,
     [Field ''m_slotIdx'' ty_Byte,
     Field ''m_registrationQuantity'' ty_Int32]),
    (ty_ItemCollectionSlots,
     [Field ''m_index'' ty_Int32,
     Field ''m_slots'' ty_Byte,
     Field ''m_regQtyList'' ty_List_ItemCollectionSlotRegQty]),
    (ty_ItemData,
     [Field ''m_repositoryType'' ty_Byte,
     Field ''m_itemOID'' ty_Int64,
     Field ''m_index'' ty_Int32,
     Field ''m_count'' ty_Int32,
     Field ''m_attribute'' ty_Byte,
     Field ''m_enchant'' ty_Byte,
     Field ''m_options'' ty_ItemOptions]),
    (ty_ItemEnchantRequest,
     [Field ''m_itemOID'' ty_Int64,
     Field ''m_isSafe'' ty_Boolean,
     Field ''m_targetLevel'' ty_Byte]),
    (ty_ItemEnchantResult,
     [Field ''m_itemOID'' ty_Int64,
     Field ''m_itemIndex'' ty_Int32,
     Field ''m_isSuccess'' ty_Boolean,
     Field ''m_enchantLevel'' ty_Byte]),
    (ty_ItemMakeLimitInfo,
     [Field ''m_limitType'' ty_Byte,
     Field ''m_itemMakeIndex'' ty_Int32,
     Field ''m_makeCount'' ty_Int32]),
    (ty_ItemMakeResultInfo,
     [Field ''m_resultType'' ty_Byte,
     Field ''m_itemIndex'' ty_Int32,
     Field ''m_enchantValue'' ty_Byte,
     Field ''m_itemCount'' ty_Int32])]"

definition structs_5 :: "(string \<times> field list) list" where
  "structs_5 =
   [(ty_ItemOidAndCount,
     [Field ''m_itemOID'' ty_Int64,
     Field ''m_itemCount'' ty_Int32]),
    (ty_ItemOptions,
     [Field ''m_regrant'' ty_Byte,
     Field ''m_optionIndex'' ty_Int32_arr]),
    (ty_JewelCraftOptionData,
     [Field ''m_optionGroupIndex'' ty_Int32,
     Field ''m_abilityOptionIndex'' ty_Int32]),
    (ty_KillerInfo,
     [Field ''m_objectType'' ty_Int32,
     Field ''m_npcIndex'' ty_Int32,
     Field ''m_playerOID'' ty_Int64,
     Field ''m_playerWorldID'' ty_Int32,
     Field ''m_playerName'' ty_Chars,
     Field ''m_playerClass'' ty_Byte,
     Field ''m_playerSubClass'' ty_Byte,
     Field ''m_guildIndex'' ty_Int64,
     Field ''m_guildMark'' ty_Int32,
     Field ''m_guildName'' ty_Chars,
     Field ''m_teamIndex'' ty_Byte,
     Field ''m_memberIndex'' ty_Byte,
     Field ''m_memberType'' ty_Byte]),
    (ty_LegacyCollection,
     [Field ''m_index'' ty_Int32,
     Field ''m_currentCount'' ty_Int32,
     Field ''m_state'' ty_Byte]),
    (ty_LegacyCollectionGroup,
     [Field ''m_index'' ty_Int32,
     Field ''m_level'' ty_Byte,
     Field ''m_state'' ty_Byte,
     Field ''m_collectionList'' ty_List_LegacyCollection]),
    (ty_LobbyPlayerInfo,
     [Field ''m_slotIndex'' ty_Byte,
     Field ''m_classType'' ty_Byte,
     Field ''m_subClassType'' ty_Byte,
     Field ''m_name'' ty_Chars,
     Field ''m_headType'' ty_Byte,
     Field ''m_equipCostumeIndex'' ty_Int32,
     Field ''m_equipCostumeStepUp'' ty_Byte,
     Field ''m_weaponItemIndex'' ty_Int32,
     Field ''m_weaponEnchant'' ty_Byte,
     Field ''m_level'' ty_Int32,
     Field ''m_exp'' ty_Int64,
     Field ''m_realPower'' ty_Int32,
     Field ''m_mapIndex'' ty_Int32,
     Field ''m_latestLoginTime'' ty_Int64,
     Field ''m_latestLogoutTime'' ty_Int64,
     Field ''m_deletedTime'' ty_Int64,
     Field ''m_createdTime'' ty_Int64,
     Field ''m_guildName'' ty_Chars]),
    (ty_MapLimitData,
     [Field ''m_groupIndex'' ty_Int32,
     Field ''m_limitType'' ty_Int32,
     Field ''m_playTime'' ty_Int32,
     Field ''m_chargeTime'' ty_Int32,
     Field ''m_totalChargeTime'' ty_Int32,
     Field ''m_remainCount'' ty_Int32,
     Field ''m_remainEntryCount'' ty_Int32]),
    (ty_MasteryData,
     [Field ''m_equipSlot'' ty_Byte,
     Field ''m_masteryValue'' ty_Int32]),
    (ty_MercenaryApplyInfo,
     [Field ''m_playerOID'' ty_Int64,
     Field ''m_applyGuildOID'' ty_Int64,
     Field ''m_teamIndex'' ty_Byte,
     Field ''m_applyIndex'' ty_Int32,
     Field ''m_classType'' ty_Byte,
     Field ''m_power'' ty_Int32,
     Field ''m_applyTime'' ty_Int64,
     Field ''m_accept'' ty_Boolean,
     Field ''m_isLogin'' ty_Boolean]),
    (ty_MercenaryRecruitInfo,
     [Field ''m_guildOID'' ty_Int64,
     Field ''m_teamIndex'' ty_Byte,
     Field ''m_guildName'' ty_Chars,
     Field ''m_guildMarkIndex'' ty_Int32,
     Field ''m_totalReward'' ty_Int64,
     Field ''m_weeklyReward'' ty_Int64,
     Field ''m_weeklyRewardRate'' ty_Int32,
     Field ''m_count'' ty_Int32,
     Field ''m_maxCount'' ty_Int32,
     Field ''m_requirPower'' ty_Int32,
     Field ''m_applyState'' ty_Byte]),
    (ty_MoneyData,
     [Field ''m_type'' ty_Byte,
     Field ''m_money'' ty_Int64]),
    (ty_MonsterCollectionInfo,
     [Field ''m_monsterIndex'' ty_Int32,
     Field ''m_categoryIndex'' ty_Int32,
     Field ''m_count'' ty_Int32,
     Field ''m_optionIndex'' ty_Int32,
     Field ''m_optionGrade'' ty_Byte,
     Field ''m_isLocked'' ty_Boolean,
     Field ''m_isNew'' ty_Boolean,
     Field ''m_awakeningOptionIndex'' ty_Int32]),
    (ty_MonsterCollectionOptionReward,
     [Field ''m_category'' ty_Byte,
     Field ''m_grade'' ty_Byte,
     Field ''m_count'' ty_Int32]),
    (ty_MyAuctionElement,
     [Field ''m_distributeType'' ty_Byte,
     Field ''m_tradeStatus'' ty_Byte,
     Field ''m_auctionElem'' ty_AuctionElement,
     Field ''m_saleDate'' ty_Int64,
     Field ''m_fixAmount'' ty_Int64,
     Field ''m_purchaseDate'' ty_Int64])]"

definition structs_6 :: "(string \<times> field list) list" where
  "structs_6 =
   [(ty_MyGuildInfo,
     [Field ''m_rank'' ty_Int32,
     Field ''m_guildOID'' ty_Int64,
     Field ''m_guildName'' ty_Chars,
     Field ''m_masterPlayerName'' ty_Chars,
     Field ''m_markIndex'' ty_Int32,
     Field ''m_tendencyTag'' ty_UInt16,
     Field ''m_joinType'' ty_Byte,
     Field ''m_intro'' ty_String,
     Field ''m_notice'' ty_String,
     Field ''m_memberCount'' ty_UInt16,
     Field ''m_maxMemberCount'' ty_UInt16,
     Field ''m_agitMapIndex'' ty_Int32,
     Field ''m_agitExpireTime'' ty_Int64,
     Field ''m_contribute'' ty_Int64,
     Field ''m_weeklyContribute'' ty_Int64,
     Field ''m_pkCount'' ty_Int64,
     Field ''m_pvpCount'' ty_Int64,
     Field ''m_totalPower'' ty_Int64,
     Field ''m_weeklyConnectionRate'' ty_Byte,
     Field ''m_todayAttendCount'' ty_Int32,
     Field ''m_yesterdayAttendCount'' ty_Int32,
     Field ''m_activeDungeonIndex'' ty_Int32,
     Field ''m_activeDungeonExpireTime'' ty_Int64,
     Field ''m_buffList'' ty_List_GuildBuffInfo,
     Field ''m_contentList'' ty_List_GuildContentResearchInfo,
     Field ''m_allianceList'' ty_List_Int64,
     Field ''m_hostileList'' ty_List_Int64,
     Field ''m_worldAllianceList'' ty_List_Int64,
     Field ''m_worldHostileList'' ty_List_Int64,
     Field ''m_createTime'' ty_Int64,
     Field ''m_unionOID'' ty_Int64,
     Field ''m_unionName'' ty_String,
     Field ''m_unionMarkIndex'' ty_Int32,
     Field ''m_unionMemberList'' ty_List_Int64,
     Field ''m_hostileUnionList'' ty_List_Int64,
     Field ''m_myMemberGrade'' ty_Byte,
     Field ''m_myJoinTime'' ty_Int64,
     Field ''m_dealingType'' ty_Byte,
     Field ''m_dealingGrade'' ty_Byte]),
    (ty_MyPlayerInfo,
     [Field ''m_OID'' ty_Int64,
     Field ''m_objectType'' ty_Byte,
     Field ''m_appearType'' ty_Byte,
     Field ''m_dir'' ty_Single,
     Field ''m_pos'' ty_Vector,
     Field ''m_alive'' ty_Byte,
     Field ''m_effectBuffList'' ty_List_Int32,
     Field ''m_worldID'' ty_Int32,
     Field ''m_name'' ty_Chars,
     Field ''m_class'' ty_Byte,
     Field ''m_subClass'' ty_Byte,
     Field ''m_alignment'' ty_Int32,
     Field ''m_headIndex'' ty_Int32,
     Field ''m_costumeIndex'' ty_Int32,
     Field ''m_costumeStepUp'' ty_Byte,
     Field ''m_weaponIndex'' ty_Int32,
     Field ''m_weaponEnchant'' ty_Byte,
     Field ''m_unionOID'' ty_Int64,
     Field ''m_unionMarkIndex'' ty_Int32,
     Field ''m_guildOID'' ty_Int64,
     Field ''m_guildMarkIndex'' ty_Int32,
     Field ''m_guildMemberGrade'' ty_Byte,
     Field ''m_petIndex'' ty_Int32,
     Field ''m_titleIndex'' ty_Int32,
     Field ''m_wantedRank'' ty_Int32,
     Field ''m_isSlayer'' ty_Boolean,
     Field ''m_teamIndex'' ty_Byte,
     Field ''m_memberIndex'' ty_Byte,
     Field ''m_memberType'' ty_Byte,
     Field ''m_chaoExpiredTime'' ty_Int64,
     Field ''m_level'' ty_Int32,
     Field ''m_exp'' ty_Int64,
     Field ''m_powerRank'' ty_Int32,
     Field ''m_prevPowerRank'' ty_Int32,
     Field ''m_mapIndex'' ty_Int32,
     Field ''m_statInfo'' ty_StatInfo,
     Field ''m_useWorldAuction'' ty_Boolean,
     Field ''m_mineRemainTime'' ty_Int32,
     Field ''m_equippedCostumeIndex'' ty_Int32,
     Field ''m_equippedCostumeStepUp'' ty_Byte,
     Field ''m_equippedPetIndex'' ty_Int32]),
    (ty_NetworkObjData,
     [Field ''m_OID'' ty_Int64,
     Field ''m_objectType'' ty_Byte,
     Field ''m_appearType'' ty_Byte,
     Field ''m_dir'' ty_Single,
     Field ''m_pos'' ty_Vector,
     Field ''m_Index'' ty_Int32,
     Field ''m_batchIndex'' ty_Int32,
     Field ''m_available'' ty_Boolean,
     Field ''m_alive'' ty_Byte,
     Field ''m_effectBuffList'' ty_List_Int32,
     Field ''m_isStop'' ty_Boolean,
     Field ''m_targetOID'' ty_Int64,
     Field ''m_maxHP'' ty_Int32,
     Field ''m_curHP'' ty_Int32]),
    (ty_PVPLostItemInfo,
     [Field ''m_index'' ty_Int32,
     Field ''m_enchant'' ty_Byte]),
    (ty_PVPRecord,
     [Field ''m_pvpID'' ty_Int64,
     Field ''m_pvpType'' ty_Byte,
     Field ''m_enemyID'' ty_Int64,
     Field ''m_enemyWorldID'' ty_Int32,
     Field ''m_enemyClassType'' ty_Byte,
     Field ''m_enemySubClassType'' ty_Byte,
     Field ''m_enemyName'' ty_Chars,
     Field ''m_enemyGuildID'' ty_Int64,
     Field ''m_enemyGuildName'' ty_Chars,
     Field ''m_enemyGuildMarkID'' ty_Int32,
     Field ''m_mapIndex'' ty_Int32,
     Field ''m_revengeCount'' ty_Int32,
     Field ''m_pvpPoint'' ty_Int32,
     Field ''m_regDate'' ty_Int64,
     Field ''m_isWanted'' ty_Boolean,
     Field ''m_isWantedKill'' ty_Boolean]),
    (ty_ParcelInfo,
     [Field ''m_parcelDBID'' ty_Int64,
     Field ''m_type'' ty_Byte,
     Field ''m_playerOID'' ty_Int64,
     Field ''m_playerName'' ty_Chars,
     Field ''m_parcelStatus'' ty_Byte,
     Field ''m_billingAmount'' ty_Int32,
     Field ''m_realIncome'' ty_Int32,
     Field ''m_itemData'' ty_ItemData,
     Field ''m_parcelExpireTime'' ty_Int64,
     Field ''m_updateTime'' ty_Int64]),
    (ty_ParcelTradeRecord,
     [Field ''m_parcelDBID'' ty_Int64,
     Field ''m_receiptPlayerName'' ty_Chars,
     Field ''m_billingAmount'' ty_Int32,
     Field ''m_realIncome'' ty_Int32,
     Field ''m_itemData'' ty_ItemData,
     Field ''m_tradeCompletedTime'' ty_Int64]),
    (ty_PartyBuffData,
     [Field ''m_buffIndex'' ty_Int32,
     Field ''m_remainTime'' ty_Int64]),
    (ty_PartyDungeonMemberInfo,
     [Field ''m_playerDBID'' ty_Int64,
     Field ''m_entryState'' ty_Boolean])]"

definition structs_7 :: "(string \<times> field list) list" where
  "structs_7 =
   [(ty_PartyInfo,
     [Field ''m_partyUID'' ty_Int32,
     Field ''m_masterOID'' ty_Int64,
     Field ''m_lootType'' ty_Int32]),
    (ty_PartyMemberData,
     [Field ''m_slotIndex'' ty_Byte,
     Field ''m_serverID'' ty_Int32,
     Field ''m_worldID'' ty_Int32,
     Field ''m_playerOID'' ty_Int64,
     Field ''m_playerClass'' ty_Byte,
     Field ''m_playerSubClass'' ty_Byte,
     Field ''m_playerName'' ty_Chars,
     Field ''m_teamIndex'' ty_Byte,
     Field ''m_teamMemberType'' ty_Byte,
     Field ''m_teamMemberIndex'' ty_Byte,
     Field ''m_mapIndex'' ty_Int32,
     Field ''m_layerIndex'' ty_Int32,
     Field ''m_x'' ty_Single,
     Field ''m_z'' ty_Single,
     Field ''m_currentHP'' ty_Int32,
     Field ''m_currentMP'' ty_Int32,
     Field ''m_maxHP'' ty_Int32,
     Field ''m_maxMP'' ty_Int32,
     Field ''m_buffList'' ty_List_PartyBuffData]),
    (ty_PetAdventureInfo,
     [Field ''m_mapIndex'' ty_Int32,
     Field ''m_partyNum'' ty_Byte,
     Field ''m_remainTime'' ty_Int64,
     Field ''m_timeSaving'' ty_Int32,
     Field ''m_status'' ty_Byte]),
    (ty_PetInfo,
     [Field ''m_petIndex'' ty_Int32,
     Field ''m_count'' ty_Int32,
     Field ''m_level'' ty_Int32,
     Field ''m_exp'' ty_Int64,
     Field ''m_skillIndex'' ty_Int32,
     Field ''m_equipItemList'' ty_List_EquipItemData,
     Field ''m_stepup'' ty_Byte,
     Field ''m_status'' ty_Byte]),
    (ty_PetPartyInfo,
     [Field ''m_partyNum'' ty_Byte,
     Field ''m_petList'' ty_List_PetSlotInfo,
     Field ''m_adventureMapIndex'' ty_Int32]),
    (ty_PetSlotInfo,
     [Field ''m_petIndex'' ty_Int32,
     Field ''m_slotNum'' ty_Byte,
     Field ''m_status'' ty_Byte]),
    (ty_PickResultInfo,
     [Field ''m_pickIndex'' ty_Int32,
     Field ''m_isRepick'' ty_Boolean,
     Field ''m_isNew'' ty_Boolean]),
    (ty_PlayerData,
     [Field ''m_OID'' ty_Int64,
     Field ''m_objectType'' ty_Byte,
     Field ''m_appearType'' ty_Byte,
     Field ''m_dir'' ty_Single,
     Field ''m_pos'' ty_Vector,
     Field ''m_alive'' ty_Byte,
     Field ''m_effectBuffList'' ty_List_Int32,
     Field ''m_worldID'' ty_Int32,
     Field ''m_name'' ty_Chars,
     Field ''m_class'' ty_Byte,
     Field ''m_subClass'' ty_Byte,
     Field ''m_alignment'' ty_Int32,
     Field ''m_headIndex'' ty_Int32,
     Field ''m_costumeIndex'' ty_Int32,
     Field ''m_costumeStepUp'' ty_Byte,
     Field ''m_weaponIndex'' ty_Int32,
     Field ''m_weaponEnchant'' ty_Byte,
     Field ''m_unionOID'' ty_Int64,
     Field ''m_unionMarkIndex'' ty_Int32,
     Field ''m_guildOID'' ty_Int64,
     Field ''m_guildMarkIndex'' ty_Int32,
     Field ''m_guildMemberGrade'' ty_Byte,
     Field ''m_petIndex'' ty_Int32,
     Field ''m_titleIndex'' ty_Int32,
     Field ''m_wantedRank'' ty_Int32,
     Field ''m_isSlayer'' ty_Boolean,
     Field ''m_teamIndex'' ty_Byte,
     Field ''m_memberIndex'' ty_Byte,
     Field ''m_memberType'' ty_Byte,
     Field ''m_chaoExpiredTime'' ty_Int64]),
    (ty_PlayerRankInfo,
     [Field ''m_playerOID'' ty_Int64,
     Field ''m_classType'' ty_Byte,
     Field ''m_powerRank'' ty_Int32,
     Field ''m_prevPowerRank'' ty_Int32]),
    (ty_PostInfo,
     [Field ''m_postOID'' ty_Int64,
     Field ''m_expireTime'' ty_Int64,
     Field ''m_postIndex'' ty_Int32,
     Field ''m_senderName'' ty_Chars,
     Field ''m_attachedDataList'' ty_List_AttachedData]),
    (ty_PropertyData,
     [Field ''m_type'' ty_Byte,
     Field ''m_value'' ty_Int64]),
    (ty_QuestData,
     [Field ''m_type'' ty_Byte,
     Field ''m_index'' ty_Int32,
     Field ''m_state'' ty_Byte,
     Field ''m_count'' ty_Int32]),
    (ty_QuickSlotInfo,
     [Field ''m_slotIndex'' ty_Byte,
     Field ''m_regType'' ty_Byte,
     Field ''m_regIndex'' ty_Int32,
     Field ''m_regOID'' ty_Int64]),
    (ty_RankInfo,
     [Field ''m_rank'' ty_Int32,
     Field ''m_prevRank'' ty_Int32,
     Field ''m_worldID'' ty_Int32,
     Field ''m_playerOID'' ty_Int64,
     Field ''m_playerName'' ty_Chars,
     Field ''m_classType'' ty_Byte,
     Field ''m_guildOID'' ty_Int64,
     Field ''m_guildName'' ty_Chars,
     Field ''m_guildMarkIndex'' ty_Int32,
     Field ''m_PvPPoint'' ty_Int32,
     Field ''m_killCount'' ty_Int32,
     Field ''m_deathCount'' ty_Int32,
     Field ''m_guildMasterPlayerName'' ty_Chars,
     Field ''m_guildMemberCount'' ty_UInt16,
     Field ''m_guildMaxMemberCount'' ty_UInt16,
     Field ''m_guildWeeklyContribute'' ty_Int64,
     Field ''m_dealingType'' ty_Byte,
     Field ''m_dealingGrade'' ty_Byte]),
    (ty_RankerStatueInfo,
     [Field ''m_worldID'' ty_Int32,
     Field ''m_rankingType'' ty_Byte,
     Field ''m_rank'' ty_Byte,
     Field ''m_classType'' ty_Byte,
     Field ''m_playerName'' ty_Chars])]"

definition structs_8 :: "(string \<times> field list) list" where
  "structs_8 =
   [(ty_RePickResultInfo,
     [Field ''m_index'' ty_Int64,
     Field ''m_currentIndex'' ty_Int32,
     Field ''m_groupIndex'' ty_Int32,
     Field ''m_remainExipreTime'' ty_Int64,
     Field ''m_remainCount'' ty_Int32,
     Field ''m_isNew'' ty_Boolean]),
    (ty_RealmMapInfo,
     [Field ''m_mapIndex'' ty_Int32,
     Field ''m_endTime'' ty_Int64]),
    (ty_RealmProgressInfo,
     [Field ''m_realmGroupIndex'' ty_Int32,
     Field ''m_currentCount'' ty_Int32,
     Field ''m_maxCount'' ty_Int32,
     Field ''m_currentTime'' ty_Int64,
     Field ''m_openTime'' ty_Int64,
     Field ''m_activeMapIndexList'' ty_List_Int32]),
    (ty_ReceivedPostInfo,
     [Field ''m_result'' ty_Int32,
     Field ''m_postOID'' ty_Int64]),
    (ty_RelationPlayerInfo,
     [Field ''m_classType'' ty_Byte,
     Field ''m_subClassType'' ty_Byte,
     Field ''m_playerOID'' ty_Int64,
     Field ''m_playerName'' ty_Chars,
     Field ''m_isLogin'' ty_Boolean]),
    (ty_RestoreData,
     [Field ''m_restoreUID'' ty_Int64,
     Field ''m_level'' ty_Int32,
     Field ''m_dataType'' ty_Int32,
     Field ''m_remainSec'' ty_Int32,
     Field ''m_restoreGold'' ty_Int64,
     Field ''m_restoreCash'' ty_Int64,
     Field ''m_decreaseExp'' ty_Int64,
     Field ''m_itemData'' ty_ItemData,
     Field ''m_hostileFunctionIndex'' ty_Int32]),
    (ty_RestoreSimpleData,
     [Field ''m_dataType'' ty_Int32,
     Field ''m_remainSec'' ty_Int32]),
    (ty_RewardData,
     [Field ''m_type'' ty_Byte,
     Field ''m_itemIndex'' ty_Int32,
     Field ''m_count'' ty_Int64,
     Field ''m_enchant'' ty_Byte]),
    (ty_RuneInfo,
     [Field ''m_runeDBID'' ty_Int64,
     Field ''m_index'' ty_Int32,
     Field ''m_lock'' ty_Byte,
     Field ''m_lineList'' ty_List_RuneLineInfo]),
    (ty_RuneLineInfo,
     [Field ''m_linePos'' ty_Byte,
     Field ''m_colorType'' ty_Byte,
     Field ''m_abilityID'' ty_Int32]),
    (ty_RunePanelInfo,
     [Field ''m_panelIndex'' ty_Int32,
     Field ''m_slotList'' ty_List_RunePanelSlotInfo]),
    (ty_RunePanelSlotInfo,
     [Field ''m_panelIndex'' ty_Int32,
     Field ''m_slotIndex'' ty_Byte,
     Field ''m_slotSubType'' ty_Byte,
     Field ''m_runeInfo'' ty_RuneInfo]),
    (ty_S2C_MoveNotice,
     [Field ''m_seq'' ty_Int32,
     Field ''m_objectType'' ty_Byte,
     Field ''m_objectOID'' ty_Int64,
     Field ''m_moveType'' ty_Byte,
     Field ''m_walkType'' ty_Byte,
     Field ''m_speed'' ty_Single,
     Field ''m_currentPos'' ty_Vector,
     Field ''m_moveDir'' ty_Vector,
     Field ''m_movePath'' ty_List_Vector]),
    (ty_ScheduleBossDashboardData,
     [Field ''m_scheduleIndex'' ty_Int32,
     Field ''m_mapIndex'' ty_Int32,
     Field ''m_bossIndex'' ty_Int32,
     Field ''m_alive'' ty_Boolean,
     Field ''m_nextTime'' ty_Int64]),
    (ty_ScheduleBossInfo,
     [Field ''m_mapIndex'' ty_Int32,
     Field ''m_bossIndex'' ty_Int32]),
    (ty_SelectPlayerInfo,
     [Field ''m_worldID'' ty_Int32,
     Field ''m_OID'' ty_Int64,
     Field ''m_name'' ty_Chars,
     Field ''m_classType'' ty_Byte,
     Field ''m_subClassType'' ty_Byte,
     Field ''m_powerRank'' ty_Int32,
     Field ''m_isLogon'' ty_Boolean,
     Field ''m_guildOID'' ty_Int64,
     Field ''m_guildName'' ty_Chars,
     Field ''m_guildMarkIndex'' ty_Int32,
     Field ''m_guildMemberGrade'' ty_Byte]),
    (ty_ServerTransferDateInfo,
     [Field ''m_start'' ty_Int64,
     Field ''m_end'' ty_Int64,
     Field ''m_openTimeStart'' ty_Int32,
     Field ''m_openTimeEnd'' ty_Int32,
     Field ''m_weekDay'' ty_Byte]),
    (ty_ShopItemData,
     [Field ''m_shopItemIdx'' ty_Int32,
     Field ''m_count'' ty_Int32]),
    (ty_SiegeWarDominionTaxInfo,
     [Field ''m_mapIndex'' ty_Int32,
     Field ''m_gold'' ty_Int64,
     Field ''m_crystal'' ty_Int64]),
    (ty_SiegeWarGuardInfo,
     [Field ''m_index'' ty_Int32,
     Field ''m_npcIndex'' ty_Int32,
     Field ''m_count'' ty_Int32]),
    (ty_SiegeWarInfo,
     [Field ''m_occupyGuildOID'' ty_Int64,
     Field ''m_occupyGuildMark'' ty_Int32,
     Field ''m_occupyGuildName'' ty_Chars,
     Field ''m_occupyMasterName'' ty_Chars,
     Field ''m_readyTime'' ty_Int64,
     Field ''m_startTime'' ty_Int64,
     Field ''m_endTime'' ty_Int64,
     Field ''m_castleCash'' ty_Int64,
     Field ''m_castleWeekCash'' ty_Int64,
     Field ''m_strongHoldGold'' ty_Int64,
     Field ''m_strongHoldCrystal'' ty_Int64,
     Field ''m_overloadCash'' ty_Int64,
     Field ''m_overloadTaxRate'' ty_Byte,
     Field ''m_castleTaxRate'' ty_Byte,
     Field ''m_castleNextTaxRate'' ty_Byte]),
    (ty_SiegeWarMemberBoardInfo,
     [Field ''m_memberInfo'' ty_SiegeWarMemberInfo,
     Field ''m_scoreInfo'' ty_SiegeWarMemberScoreInfo])]"

definition structs_9 :: "(string \<times> field list) list" where
  "structs_9 =
   [(ty_SiegeWarMemberInfo,
     [Field ''m_teamIndex'' ty_Byte,
     Field ''m_memberIndex'' ty_Byte,
     Field ''m_memberType'' ty_Byte,
     Field ''m_playerOID'' ty_Int64,
     Field ''m_name'' ty_Chars,
     Field ''m_class'' ty_Byte,
     Field ''m_isIn'' ty_Boolean,
     Field ''m_isExpel'' ty_Boolean]),
    (ty_SiegeWarMemberScoreInfo,
     [Field ''m_attack'' ty_Int32,
     Field ''m_damage'' ty_Int32,
     Field ''m_heal'' ty_Int32,
     Field ''m_kill'' ty_Int32,
     Field ''m_death'' ty_Int32,
     Field ''m_point'' ty_Int64]),
    (ty_SiegeWarObjectInfo,
     [Field ''m_OID'' ty_Int64,
     Field ''m_index'' ty_Int32,
     Field ''m_teamIndex'' ty_Byte,
     Field ''m_maxHP'' ty_Int64,
     Field ''m_currHP'' ty_Int64]),
    (ty_SiegeWarPlayInfo,
     [Field ''m_state'' ty_Byte,
     Field ''m_stateEndTime'' ty_Int64,
     Field ''m_playWinTime'' ty_Int64,
     Field ''m_objectList'' ty_List_SiegeWarObjectInfo]),
    (ty_SkillData,
     [Field ''m_skillIndex'' ty_Int32,
     Field ''m_skillLevel'' ty_Byte,
     Field ''m_lastUseTime'' ty_Int64]),
    (ty_SkillEffectValue,
     [Field ''m_targetOID'' ty_Int64,
     Field ''m_hp'' ty_Int32,
     Field ''m_damage'' ty_Int32,
     Field ''m_criticalType'' ty_Byte,
     Field ''m_reactType'' ty_Byte,
     Field ''m_counterType'' ty_Byte,
     Field ''m_reactionSpeed'' ty_Single,
     Field ''m_skillOption'' ty_Boolean,
     Field ''m_barrier'' ty_Boolean]),
    (ty_SlayerInfo,
     [Field ''m_playerOID'' ty_Int64,
     Field ''m_classType'' ty_Byte,
     Field ''m_subClassType'' ty_Byte,
     Field ''m_playerName'' ty_Chars,
     Field ''m_guildOID'' ty_Int64,
     Field ''m_guildMarkIndex'' ty_Int32,
     Field ''m_guildName'' ty_Chars,
     Field ''m_killCount'' ty_Int32,
     Field ''m_slayerRegTime'' ty_Int64]),
    (ty_SoulStoneInfo,
     [Field ''m_investCount'' ty_Int32,
     Field ''m_slotInfoList'' ty_List_SoulStoneSlotInfo]),
    (ty_SoulStoneRootInfo,
     [Field ''m_soulStoneIndex'' ty_Int32,
     Field ''m_activated'' ty_Boolean,
     Field ''m_usePreset'' ty_Byte,
     Field ''m_soulStoneInfo'' ty_SoulStoneInfo_arr]),
    (ty_SoulStoneSlotInfo,
     [Field ''m_slotIndex'' ty_Byte,
     Field ''m_slotState'' ty_Byte,
     Field ''m_mastery'' ty_Int32,
     Field ''m_abilityOptionIndex'' ty_Int32]),
    (ty_StatInfo,
     [Field ''m_statPoint'' ty_Int32,
     Field ''m_statSTR'' ty_Int32,
     Field ''m_statCON'' ty_Int32,
     Field ''m_statDEX'' ty_Int32,
     Field ''m_statINT'' ty_Int32,
     Field ''m_statWIZ'' ty_Int32,
     Field ''m_elixirPoint'' ty_Int32,
     Field ''m_elixirSTR'' ty_Int32,
     Field ''m_elixirCON'' ty_Int32,
     Field ''m_elixirDEX'' ty_Int32,
     Field ''m_elixirINT'' ty_Int32,
     Field ''m_elixirWIZ'' ty_Int32]),
    (ty_StepUpCountRewardInfo,
     [Field ''m_grade'' ty_Byte,
     Field ''m_countList'' ty_List_Int32]),
    (ty_StorageBoxData,
     [Field ''m_purchaseOID'' ty_Int64,
     Field ''m_storeIndex'' ty_Int32]),
    (ty_StoreHotDealData,
     [Field ''m_hotdealIndex'' ty_Int32,
     Field ''m_buyCount'' ty_Int32,
     Field ''m_endTime'' ty_Int64]),
    (ty_StoreItemData,
     [Field ''m_storeIndex'' ty_Int32,
     Field ''m_status'' ty_Byte,
     Field ''m_recommendType'' ty_Byte,
     Field ''m_purchasedCount'' ty_Int32,
     Field ''m_deltaMaxBuyCount'' ty_Int32,
     Field ''m_worldPurchasedCount'' ty_Int32,
     Field ''m_openTime'' ty_Int64,
     Field ''m_closeTime'' ty_Int64,
     Field ''m_propertySubType'' ty_Byte,
     Field ''m_price'' ty_Int32]),
    (ty_StoreSequenceItemData,
     [Field ''m_sequenceGroupIndex'' ty_Int32,
     Field ''m_storeIndex'' ty_Int32,
     Field ''m_status'' ty_Byte,
     Field ''m_recommendType'' ty_Byte,
     Field ''m_purchasedCount'' ty_Int32,
     Field ''m_worldPurchasedCount'' ty_Int32,
     Field ''m_openTime'' ty_Int64,
     Field ''m_closeTime'' ty_Int64]),
    (ty_SubSkillPointData,
     [Field ''m_subClassType'' ty_Byte,
     Field ''m_useSubSkillPoint'' ty_Int64]),
    (ty_TotalPresetInfo,
     [Field ''m_presetIndex'' ty_Int32,
     Field ''m_activated'' ty_Boolean,
     Field ''m_usePreset'' ty_Byte]),
    (ty_TotalPresetSet,
     [Field ''m_presetSlot'' ty_Byte,
     Field ''m_presetList'' ty_List_TotalPresetInfo])]"

definition structs_10 :: "(string \<times> field list) list" where
  "structs_10 =
   [(ty_TowerInfo,
     [Field ''m_towerIndex'' ty_Int32,
     Field ''m_startTime'' ty_Int64,
     Field ''m_endTime'' ty_Int64,
     Field ''m_point'' ty_Int64,
     Field ''m_pointLevel'' ty_Byte,
     Field ''m_remainCount'' ty_Int32,
     Field ''m_clearFloor'' ty_Int16,
     Field ''m_prevClearFloor'' ty_Int16,
     Field ''m_receivedStepNormal'' ty_Byte,
     Field ''m_receivedStepSpecial'' ty_Byte,
     Field ''m_nextTowerIndex'' ty_Int32,
     Field ''m_nextStartTime'' ty_Int64,
     Field ''m_nextEndTime'' ty_Int64,
     Field ''m_shopPoint'' ty_Int64]),
    (ty_TransferCheckData,
     [Field ''m_serverTransferIndex'' ty_Int32,
     Field ''m_state'' ty_Byte]),
    (ty_TransferServerState,
     [Field ''m_worldID'' ty_Int32,
     Field ''m_state'' ty_Byte]),
    (ty_UnequipItemParam,
     [Field ''m_slotType'' ty_Byte,
     Field ''m_itemOID'' ty_Int64]),
    (ty_UnionGuildInfo,
     [Field ''m_guildOID'' ty_Int64,
     Field ''m_guildName'' ty_Chars,
     Field ''m_masterPlayerName'' ty_Chars,
     Field ''m_markIndex'' ty_Int32,
     Field ''m_totalPower'' ty_Int64,
     Field ''m_killCount'' ty_Int32,
     Field ''m_deathCount'' ty_Int32,
     Field ''m_registerTime'' ty_Int64]),
    (ty_UnionInfo,
     [Field ''m_unionOID'' ty_Int64,
     Field ''m_unionName'' ty_Chars,
     Field ''m_markIndex'' ty_Int32,
     Field ''m_masterGuildOID'' ty_Int64,
     Field ''m_totalPower'' ty_Int64,
     Field ''m_createTime'' ty_Int64,
     Field ''m_memberGuildList'' ty_List_UnionGuildInfo,
     Field ''m_inviteGuildList'' ty_List_UnionGuildInfo,
     Field ''m_hostileUnionList'' ty_List_HostileUnionInfo]),
    (ty_UnionSimpleInfo,
     [Field ''m_unionOID'' ty_Int64,
     Field ''m_unionName'' ty_Chars,
     Field ''m_markIndex'' ty_Int32,
     Field ''m_masterGuildName'' ty_Chars,
     Field ''m_totalPower'' ty_Int64,
     Field ''m_registerTime'' ty_Int64]),
    (ty_UniqueItemInfo,
     [Field ''m_itemIndex'' ty_Int32,
     Field ''m_state'' ty_Byte,
     Field ''m_ownerName'' ty_Chars]),
    (ty_UserBlockInfo,
     [Field ''m_reasonIdx'' ty_Byte,
     Field ''m_blockType'' ty_Byte,
     Field ''m_endTime'' ty_Int64]),
    (ty_Vector,
     [Field ''m_x'' ty_Single,
     Field ''m_y'' ty_Single,
     Field ''m_z'' ty_Single]),
    (ty_WStorageInfo,
     [Field ''m_storageID'' ty_Int64,
     Field ''m_storageIndex'' ty_Int32,
     Field ''m_postIndex'' ty_Int32,
     Field ''m_expireDate'' ty_Int64,
     Field ''m_attachedDataList'' ty_List_AttachedData]),
    (ty_WantedInfo,
     [Field ''m_rank'' ty_Byte,
     Field ''m_count'' ty_UInt16,
     Field ''m_playerDBID'' ty_Int64,
     Field ''m_classType'' ty_Byte,
     Field ''m_subClassType'' ty_Byte,
     Field ''m_playerName'' ty_Chars,
     Field ''m_guildDBID'' ty_Int64,
     Field ''m_guildMarkIndex'' ty_Int32,
     Field ''m_guildName'' ty_Chars,
     Field ''m_expireDate'' ty_Int64,
     Field ''m_totalReward'' ty_Int64]),
    (ty_WarehouseItemMove,
     [Field ''m_itemOID'' ty_Int64,
     Field ''m_count'' ty_Int32])]"

section \<open>Array sizes and element messages\<close>

definition fixed_arrays :: "(string \<times> nat) list" where
  "fixed_arrays =
   [(''Protocol.AbilityValue|m_data'', 249),
    (''Protocol.ItemOptions|m_optionIndex'', 10),
    (''Protocol.S2C_ContentsSetting|m_levelLimits'', 10),
    (''Protocol.S2C_ContentsSetting|m_values'', 3),
    (''Protocol.S2C_EquipList|m_equipCostume'', 2),
    (''Protocol.S2C_EquipList|m_equipItemList'', 2),
    (''Protocol.S2C_EquipList|m_equipPet'', 2),
    (''Protocol.S2C_EquipList|m_monolithEquipItemList'', 2),
    (''Protocol.S2C_EquipList|m_usePresetSlot'', 2)]"

definition message_full_names :: "string list" where
  "message_full_names = [''Protocol.S2C_MoveNotice'']"

end
