(* ===== verification/CatalogIndex.thy ===== *)
theory CatalogIndex
  imports CatalogData
begin

text \<open>
  Evidence that the tables of \<open>CatalogData\<close> declare nothing twice. \<open>id_rank\<close> finds the position
  of an opcode in the message table by nested comparisons, so that opcodes at different
  positions differ; the names of the messages and structs ascend in the byte order. The proofs
  run down the tables by resolution, one entry at a time, so that no step looks at a whole table.
\<close>

lemmas message_chunks =
  messages_1_def messages_2_def messages_3_def messages_4_def messages_5_def messages_6_def
  messages_7_def messages_8_def messages_9_def messages_10_def messages_11_def messages_12_def
  messages_13_def messages_14_def messages_15_def messages_16_def messages_17_def messages_18_def
  messages_19_def messages_20_def messages_21_def messages_22_def messages_23_def messages_24_def
  messages_25_def messages_26_def messages_27_def messages_28_def

lemmas struct_chunks =
  structs_1_def structs_2_def structs_3_def structs_4_def structs_5_def structs_6_def
  structs_7_def structs_8_def structs_9_def structs_10_def

lemmas opcode_chunks =
  opcodes_1_def opcodes_2_def opcodes_3_def opcodes_4_def opcodes_5_def opcodes_6_def
  opcodes_7_def

section \<open>Opcodes\<close>

definition id_rank_1 :: "int \<Rightarrow> int" where
  "id_rank_1 x =
  (if x < 0x00B2BDF7 then (if x < 0x00476B8D then (if x < 0x0022A8A9 then (if x < 0x0015BC21
    then 954 else (if x < 0x001C763D then 539 else 542)) else (if x < 0x0034E1F7 then (if x <
    0x002C0CFE then 372 else 240) else (if x < 0x003FDD11 then 520 else 475))) else (if x <
    0x00A8E745 then (if x < 0x00828EEF then (if x < 0x00783AFE then 977 else 352) else (if x <
    0x00A22C57 then 321 else 792)) else (if x < 0x00AB9901 then (if x < 0x00AA8ACC then 640
    else 526) else (if x < 0x00B131E9 then 794 else 221)))) else (if x < 0x0110EF73 then (if x
    < 0x00E1FA4F then (if x < 0x00D9F1AC then (if x < 0x00D541DE then 172 else 7) else (if x <
    0x00DF4225 then 552 else 740)) else (if x < 0x00F05D89 then (if x < 0x00EBC473 then 449
    else 437) else (if x < 0x01073D27 then 130 else 943))) else (if x < 0x01769871 then (if x <
    0x01626835 then (if x < 0x01533322 then 292 else 244) else (if x < 0x016E732F then 148 else
    683)) else (if x < 0x01B6F9CE then (if x < 0x01ADE3AC then 649 else 752) else (if x <
    0x01BE8DCC then 31 else 208)))))"

definition id_rank_2 :: "int \<Rightarrow> int" where
  "id_rank_2 x =
  (if x < 0x0287FBAD then (if x < 0x0233E9C5 then (if x < 0x020CDD24 then (if x < 0x01FC6F7C
    then 678 else (if x < 0x020507CA then 524 else 684)) else (if x < 0x021450AB then (if x <
    0x020D68D6 then 214 else 116) else (if x < 0x0232DD5F then 190 else 593))) else (if x <
    0x026FAD13 then (if x < 0x0265F369 then (if x < 0x025CC81D then 757 else 315) else (if x <
    0x026E7D8A then 105 else 603)) else (if x < 0x0284E45C then (if x < 0x0282CB50 then 967
    else 931) else (if x < 0x0286230E then 14 else 758)))) else (if x < 0x035BBA32 then (if x <
    0x03090D9A then (if x < 0x02A24969 then (if x < 0x028801E3 then 745 else 793) else (if x <
    0x02CC3654 then 662 else 941)) else (if x < 0x0329C803 then (if x < 0x0326E3F3 then 581
    else 295) else (if x < 0x0341462B then 633 else 367))) else (if x < 0x03B4B048 then (if x <
    0x036D12AE then (if x < 0x036345AD then 631 else 74) else (if x < 0x03A52F56 then 296 else
    306)) else (if x < 0x03C9D9A9 then (if x < 0x03BC83A5 then 310 else 104) else (if x <
    0x03E92A71 then 899 else 947)))))"

definition id_rank_3 :: "int \<Rightarrow> int" where
  "id_rank_3 x =
  (if x < 0x04EB9C46 then (if x < 0x049C16AB then (if x < 0x044E1411 then (if x < 0x040925BA
    then 830 else (if x < 0x0447E188 then 275 else 879)) else (if x < 0x0464A5ED then (if x <
    0x04548454 then 701 else 933) else (if x < 0x0483EBB3 then 555 else 521))) else (if x <
    0x04BB4114 then (if x < 0x04B51DAB then (if x < 0x04A35008 then 470 else 902) else (if x <
    0x04B6C540 then 166 else 674)) else (if x < 0x04DF29A9 then (if x < 0x04CFD83B then 710
    else 657) else (if x < 0x04E0A3BC then 863 else 652)))) else (if x < 0x05795B5B then (if x
    < 0x05360DE1 then (if x < 0x05131B27 then (if x < 0x04F39A21 then 188 else 532) else (if x
    < 0x051EC147 then 416 else 66)) else (if x < 0x0538CEB9 then (if x < 0x0536F86E then 804
    else 159) else (if x < 0x05675370 then 736 else 53))) else (if x < 0x05AE46C2 then (if x <
    0x05A734FA then (if x < 0x0580F138 then 885 else 73) else (if x < 0x05A82BEF then 883 else
    582)) else (if x < 0x05E6D21A then (if x < 0x05AFFA31 then 153 else 847) else (if x <
    0x05F75F46 then 380 else 677)))))"

definition id_rank_4 :: "int \<Rightarrow> int" where
  "id_rank_4 x =
  (if x < 0x06CFA077 then (if x < 0x066399B8 then (if x < 0x0629E7A2 then (if x < 0x061AD291
    then 797 else (if x < 0x06298DAC then 979 else 672)) else (if x < 0x063DDE3C then (if x <
    0x063CEC34 then 935 else 151) else (if x < 0x065CA1AB then 855 else 441))) else (if x <
    0x06A02361 then (if x < 0x066E7730 then (if x < 0x0665A4AD then 569 else 597) else (if x <
    0x068DEB65 then 173 else 713)) else (if x < 0x06B54944 then (if x < 0x06A94E3C then 355
    else 615) else (if x < 0x06C1747A then 88 else 34)))) else (if x < 0x07530A39 then (if x <
    0x06E6FFED then (if x < 0x06DBA73E then (if x < 0x06D8F9E7 then 874 else 270) else (if x <
    0x06E59FE8 then 371 else 964)) else (if x < 0x07389AD3 then (if x < 0x070F0C54 then 567
    else 402) else (if x < 0x074D4A97 then 71 else 406))) else (if x < 0x07878144 then (if x <
    0x077573E9 then (if x < 0x07604CB2 then 815 else 210) else (if x < 0x07780D1C then 196 else
    209)) else (if x < 0x07B024FA then (if x < 0x079F1C07 then 968 else 360) else (if x <
    0x07C9BC86 then 413 else 982)))))"

definition id_rank_5 :: "int \<Rightarrow> int" where
  "id_rank_5 x =
  (if x < 0x092A8751 then (if x < 0x089DC854 then (if x < 0x08224083 then (if x < 0x07F71263
    then 181 else (if x < 0x081E3D17 then 642 else 223)) else (if x < 0x0853DD66 then (if x <
    0x0845DA4B then 21 else 156) else (if x < 0x0870BEF7 then 514 else 619))) else (if x <
    0x08E58D75 then (if x < 0x08CBBA8A then (if x < 0x08AFA8F0 then 818 else 832) else (if x <
    0x08E4E1FD then 345 else 849)) else (if x < 0x091AB9F8 then (if x < 0x08FCC48E then 137
    else 399) else (if x < 0x09214F67 then 438 else 910)))) else (if x < 0x09B7C21A then (if x
    < 0x09790F3F then (if x < 0x09502437 then (if x < 0x093F874B then 46 else 431) else (if x <
    0x096D9E39 then 100 else 553)) else (if x < 0x0989EC66 then (if x < 0x097FCA85 then 591
    else 698) else (if x < 0x09921FEF then 628 else 585))) else (if x < 0x09F5362E then (if x <
    0x09CF3845 then (if x < 0x09CC9A4C then 415 else 751) else (if x < 0x09D9193D then 329 else
    557)) else (if x < 0x0A18E857 then (if x < 0x0A0B85AF then 508 else 103) else (if x <
    0x0A25F9F4 then 249 else 900)))))"

definition id_rank_6 :: "int \<Rightarrow> int" where
  "id_rank_6 x =
  (if x < 0x0B13C28A then (if x < 0x0A89AB68 then (if x < 0x0A5EE21A then (if x < 0x0A35A981
    then 343 else (if x < 0x0A4615B0 then 686 else 368)) else (if x < 0x0A68CF47 then (if x <
    0x0A637598 then 706 else 771) else (if x < 0x0A8477ED then 893 else 79))) else (if x <
    0x0AECB561 then (if x < 0x0A9BA3FD then (if x < 0x0A8DF9DA then 665 else 670) else (if x <
    0x0AD813D4 then 169 else 319)) else (if x < 0x0B09AD87 then (if x < 0x0AF1A481 then 504
    else 112) else (if x < 0x0B129A4C then 424 else 516)))) else (if x < 0x0B8C9719 then (if x
    < 0x0B61F53B then (if x < 0x0B24E9AC then (if x < 0x0B17797C then 693 else 322) else (if x
    < 0x0B619159 then 650 else 559)) else (if x < 0x0B7A817C then (if x < 0x0B76FC17 then 436
    else 56) else (if x < 0x0B7EAB1A then 374 else 501))) else (if x < 0x0BD2853A then (if x <
    0x0BC7065B then (if x < 0x0BBE89C4 then 746 else 77) else (if x < 0x0BD1AF19 then 891 else
    512)) else (if x < 0x0BEC463D then (if x < 0x0BE1FF84 then 709 else 165) else (if x <
    0x0C2A37EF then 236 else 330)))))"

definition id_rank_7 :: "int \<Rightarrow> int" where
  "id_rank_7 x =
  (if x < 0x0D232120 then (if x < 0x0C7BC709 then (if x < 0x0C4D933A then (if x < 0x0C3BDEF0
    then 731 else (if x < 0x0C3FF087 then 980 else 365)) else (if x < 0x0C54ADDA then (if x <
    0x0C530110 then 474 else 326) else (if x < 0x0C59A2F3 then 661 else 200))) else (if x <
    0x0CF0EF8B then (if x < 0x0C858145 then (if x < 0x0C82B4CE then 383 else 272) else (if x <
    0x0CDA8312 then 494 else 35)) else (if x < 0x0CF71510 then (if x < 0x0CF6A120 then 283 else
    121) else (if x < 0x0D1CBE5A then 957 else 264)))) else (if x < 0x0D8A27FD then (if x <
    0x0D5D0928 then (if x < 0x0D3307ED then (if x < 0x0D28AD4C then 351 else 951) else (if x <
    0x0D4865DC then 285 else 126)) else (if x < 0x0D7826D6 then (if x < 0x0D5E13A1 then 915
    else 347) else (if x < 0x0D83EE30 then 483 else 199))) else (if x < 0x0DBBC0BB then (if x <
    0x0DAC35C8 then (if x < 0x0DAB0ED4 then 942 else 656) else (if x < 0x0DB2694A then 558 else
    16)) else (if x < 0x0DD65C3F then (if x < 0x0DBE7F44 then 109 else 463) else (if x <
    0x0DE2BE0C then 266 else 839)))))"

definition id_rank_8 :: "int \<Rightarrow> int" where
  "id_rank_8 x =
  (if x < 0x0F1C728B then (if x < 0x0E6F24E5 then (if x < 0x0E0A4E11 then (if x < 0x0DF49FC6
    then 878 else (if x < 0x0E0965DF then 57 else 914)) else (if x < 0x0E41A8AE then (if x <
    0x0E3C85C8 then 714 else 912) else (if x < 0x0E6AFA4A then 70 else 691))) else (if x <
    0x0ED2EF72 then (if x < 0x0E927E0E then (if x < 0x0E823A3B then 921 else 728) else (if x <
    0x0EB1A577 then 556 else 549)) else (if x < 0x0EFBF0B4 then (if x < 0x0ED4765F then 488
    else 435) else (if x < 0x0F13A54E then 403 else 667)))) else (if x < 0x0F691A14 then (if x
    < 0x0F3D3780 then (if x < 0x0F27734B then (if x < 0x0F1F153C then 12 else 602) else (if x <
    0x0F3140D0 then 8 else 775)) else (if x < 0x0F43D59A then (if x < 0x0F3F8B48 then 978 else
    953) else (if x < 0x0F5C0EFA then 707 else 338))) else (if x < 0x0FD9BA4A then (if x <
    0x0FA8E73F then (if x < 0x0F8D2CAA then 945 else 877) else (if x < 0x0FCC0A1E then 962 else
    664)) else (if x < 0x0FE64976 then (if x < 0x0FDC39C4 then 454 else 788) else (if x <
    0x0FF0B0AE then 211 else 587)))))"

definition id_rank_9 :: "int \<Rightarrow> int" where
  "id_rank_9 x =
  (if x < 0x10F85676 then (if x < 0x107C8053 then (if x < 0x101FE3B5 then (if x < 0x1011C709
    then 334 else (if x < 0x1018EC83 then 120 else 791)) else (if x < 0x102CFE54 then (if x <
    0x102A7F48 then 548 else 923) else (if x < 0x103DE0B8 then 228 else 458))) else (if x <
    0x10C72BCF then (if x < 0x10A3D022 then (if x < 0x1088AE47 then 704 else 93) else (if x <
    0x10BE5D8E then 959 else 333)) else (if x < 0x10D8E485 then (if x < 0x10D18F06 then 712
    else 956) else (if x < 0x10E0D30B then 465 else 47)))) else (if x < 0x1185D802 then (if x <
    0x1146016C then (if x < 0x110B51EB then (if x < 0x10F9D638 then 38 else 432) else (if x <
    0x11456566 then 629 else 382)) else (if x < 0x116ABD89 then (if x < 0x1169ACED then 826
    else 291) else (if x < 0x117504D9 then 101 else 623))) else (if x < 0x11C4978B then (if x <
    0x11A1C7F5 then (if x < 0x11959381 then 545 else 969) else (if x < 0x11A76804 then 711 else
    256)) else (if x < 0x11FDA8AD then (if x < 0x11D3E01A then 335 else 384) else (if x <
    0x12047E9A then 234 else 232)))))"

definition id_rank_10 :: "int \<Rightarrow> int" where
  "id_rank_10 x =
  (if x < 0x12C5D916 then (if x < 0x1272C57F then (if x < 0x12483C07 then (if x < 0x1236BD75
    then 466 else (if x < 0x1240F597 then 613 else 540)) else (if x < 0x125F4718 then (if x <
    0x125366E1 then 627 else 3) else (if x < 0x1265F99D then 543 else 503))) else (if x <
    0x12ACB15E then (if x < 0x12833ACF then (if x < 0x128302EF then 92 else 948) else (if x <
    0x129638FA then 500 else 663)) else (if x < 0x12BB58A8 then (if x < 0x12B8561C then 229
    else 4) else (if x < 0x12C346AF then 828 else 952)))) else (if x < 0x1347D8F9 then (if x <
    0x12F9AD6A then (if x < 0x12EBBFC0 then (if x < 0x12DD9EFA then 409 else 212) else (if x <
    0x12F8739D then 128 else 468)) else (if x < 0x132E5359 then (if x < 0x131677B7 then 233
    else 288) else (if x < 0x13470F47 then 1 else 625))) else (if x < 0x13845131 then (if x <
    0x1374431D then (if x < 0x1362250D then 117 else 198) else (if x < 0x137C4D58 then 216 else
    482)) else (if x < 0x13DFE454 then (if x < 0x138583DF then 507 else 703) else (if x <
    0x13F1B7D6 then 529 else 481)))))"

definition id_rank_11 :: "int \<Rightarrow> int" where
  "id_rank_11 x =
  (if x < 0x15274680 then (if x < 0x14936E70 then (if x < 0x145027BC then (if x < 0x1415225C
    then 340 else (if x < 0x1428EA1B then 963 else 566)) else (if x < 0x146D6593 then (if x <
    0x14580630 then 717 else 358) else (if x < 0x148854EC then 15 else 328))) else (if x <
    0x14F9716F then (if x < 0x14D7F3B1 then (if x < 0x14B2458E then 123 else 461) else (if x <
    0x14F0C34C then 621 else 451)) else (if x < 0x150DF540 then (if x < 0x14FDDF14 then 386
    else 391) else (if x < 0x1515C5F9 then 973 else 906)))) else (if x < 0x160A999E then (if x
    < 0x15A6D367 then (if x < 0x155E0AD7 then (if x < 0x155A2DF2 then 901 else 289) else (if x
    < 0x15833178 then 743 else 981)) else (if x < 0x15DB30D3 then (if x < 0x15BA70FE then 493
    else 708) else (if x < 0x15DDF4E5 then 655 else 24))) else (if x < 0x16223B86 then (if x <
    0x161B4710 then (if x < 0x16199E22 then 363 else 705) else (if x < 0x161E14CD then 644 else
    534)) else (if x < 0x163D9ABF then (if x < 0x16360A77 then 152 else 673) else (if x <
    0x164358BC then 563 else 98)))))"

definition id_rank_12 :: "int \<Rightarrow> int" where
  "id_rank_12 x =
  (if x < 0x172F9F8E then (if x < 0x168ED0F2 then (if x < 0x165986BD then (if x < 0x1651899A
    then 225 else (if x < 0x16554CB2 then 834 else 551)) else (if x < 0x16752332 then (if x <
    0x166315E2 then 87 else 972) else (if x < 0x16783880 then 44 else 928))) else (if x <
    0x170EAE35 then (if x < 0x16AF8260 then (if x < 0x169B50C6 then 620 else 823) else (if x <
    0x16C6E057 then 498 else 469)) else (if x < 0x171A387D then (if x < 0x1714FF26 then 648
    else 720) else (if x < 0x17284442 then 205 else 790)))) else (if x < 0x17AC7E21 then (if x
    < 0x1774E58A then (if x < 0x17426FF0 then (if x < 0x173B37EF then 178 else 813) else (if x
    < 0x176BDFD6 then 304 else 317)) else (if x < 0x177C7A69 then (if x < 0x177A74BD then 426
    else 154) else (if x < 0x17831C16 then 305 else 180))) else (if x < 0x17D2379F then (if x <
    0x17C5015C then (if x < 0x17C050AF then 729 else 443) else (if x < 0x17D1936C then 699 else
    9)) else (if x < 0x17E1E905 then (if x < 0x17D7B73D then 766 else 254) else (if x <
    0x17EF1785 then 853 else 506)))))"

definition id_rank_13 :: "int \<Rightarrow> int" where
  "id_rank_13 x =
  (if x < 0x18DEA88C then (if x < 0x186ECA05 then (if x < 0x18122DF2 then (if x < 0x180AABCC
    then 217 else (if x < 0x1810D590 then 467 else 206)) else (if x < 0x18326906 then (if x <
    0x18243DA2 then 734 else 495) else (if x < 0x186E02BA then 561 else 779))) else (if x <
    0x189EA176 then (if x < 0x1888F546 then (if x < 0x186FEECF then 668 else 192) else (if x <
    0x189276E9 then 246 else 533)) else (if x < 0x18CC6C91 then (if x < 0x18CAF53A then 907
    else 658) else (if x < 0x18CF65F0 then 269 else 762)))) else (if x < 0x19493AE1 then (if x
    < 0x191A40AD then (if x < 0x18EB5FB1 then (if x < 0x18EA0D3F then 583 else 920) else (if x
    < 0x191616EB then 59 else 971)) else (if x < 0x192ADB1D then (if x < 0x191C2002 then 349
    else 679) else (if x < 0x193DAA33 then 324 else 427))) else (if x < 0x1987E061 then (if x <
    0x19797009 then (if x < 0x19542FEF then 398 else 827) else (if x < 0x19807961 then 45 else
    259)) else (if x < 0x19985138 then (if x < 0x199326EE then 29 else 486) else (if x <
    0x19A0E189 then 421 else 433)))))"

definition id_rank_14 :: "int \<Rightarrow> int" where
  "id_rank_14 x =
  (if x < 0x1A97C5FC then (if x < 0x1A472D01 then (if x < 0x1A03F6F8 then (if x < 0x19DD95B0
    then 327 else (if x < 0x19ED32A7 then 311 else 550)) else (if x < 0x1A103C08 then (if x <
    0x1A0E64F2 then 267 else 405) else (if x < 0x1A37318B then 570 else 888))) else (if x <
    0x1A8BD1E6 then (if x < 0x1A61AABF then (if x < 0x1A556FD0 then 237 else 23) else (if x <
    0x1A77FBF7 then 94 else 107)) else (if x < 0x1A928D17 then (if x < 0x1A8F92FD then 337 else
    695) else (if x < 0x1A95A5CD then 810 else 297)))) else (if x < 0x1B4545FC then (if x <
    0x1B1164AB then (if x < 0x1AC3BF37 then (if x < 0x1AAB2A96 then 749 else 616) else (if x <
    0x1AFD3E7E then 783 else 611)) else (if x < 0x1B34018F then (if x < 0x1B33ACD8 then 932
    else 939) else (if x < 0x1B3DBEA7 then 903 else 835))) else (if x < 0x1B86BD1C then (if x <
    0x1B7F88CF then (if x < 0x1B58A304 then 690 else 281) else (if x < 0x1B86BB9C then 226 else
    485)) else (if x < 0x1B9AC1B9 then (if x < 0x1B90A967 then 949 else 892) else (if x <
    0x1BA50D29 then 807 else 397)))))"

definition id_rank_15 :: "int \<Rightarrow> int" where
  "id_rank_15 x =
  (if x < 0x1CA42063 then (if x < 0x1C3B3D39 then (if x < 0x1BF97245 then (if x < 0x1BE12AA6
    then 127 else (if x < 0x1BE9F81E then 538 else 688)) else (if x < 0x1C0D5D94 then (if x <
    0x1C0B18CD then 37 else 222) else (if x < 0x1C17E236 then 162 else 11))) else (if x <
    0x1C84C0DC then (if x < 0x1C44B1ED then (if x < 0x1C3F75A1 then 659 else 62) else (if x <
    0x1C7467B7 then 63 else 919)) else (if x < 0x1C909354 then (if x < 0x1C8ECB63 then 755 else
    400) else (if x < 0x1C9E713B then 331 else 574)))) else (if x < 0x1CE8214E then (if x <
    0x1CCB7CBB then (if x < 0x1CC073A6 then (if x < 0x1CAAAC02 then 645 else 118) else (if x <
    0x1CC28AAC then 738 else 401)) else (if x < 0x1CD61CB6 then (if x < 0x1CCC58DA then 143
    else 58) else (if x < 0x1CE62965 then 821 else 536))) else (if x < 0x1D224C42 then (if x <
    0x1D0C80BF then (if x < 0x1D06117E then 97 else 838) else (if x < 0x1D192700 then 875 else
    375)) else (if x < 0x1D33A6EF then (if x < 0x1D23867A then 825 else 725) else (if x <
    0x1D42C9EE then 303 else 594)))))"

definition id_rank_16 :: "int \<Rightarrow> int" where
  "id_rank_16 x =
  (if x < 0x1E91CB3E then (if x < 0x1DDE45A3 then (if x < 0x1D8E3BCB then (if x < 0x1D6D1B4B
    then 99 else (if x < 0x1D6DAFB5 then 579 else 881)) else (if x < 0x1DDB5B0D then (if x <
    0x1DBC12CF then 767 else 880) else (if x < 0x1DDD3F90 then 434 else 499))) else (if x <
    0x1E1C4FF1 then (if x < 0x1DF843BE then (if x < 0x1DE7700B then 852 else 387) else (if x <
    0x1DFD729D then 439 else 845)) else (if x < 0x1E7DDD49 then (if x < 0x1E390C74 then 929
    else 950) else (if x < 0x1E8DF103 then 22 else 393)))) else (if x < 0x1F4AE091 then (if x <
    0x1F1129BF then (if x < 0x1EBEE7D3 then (if x < 0x1E979FC0 then 149 else 927) else (if x <
    0x1EEF9EA3 then 316 else 865)) else (if x < 0x1F2C9324 then (if x < 0x1F177C4D then 362
    else 733) else (if x < 0x1F45F5A7 then 722 else 819))) else (if x < 0x1FB260DD then (if x <
    0x1F6AC37E then (if x < 0x1F6393D8 then 490 else 571) else (if x < 0x1F851436 then 43 else
    294)) else (if x < 0x1FD14E24 then (if x < 0x1FC44F28 then 90 else 782) else (if x <
    0x2002D12D then 946 else 75)))))"

definition id_rank_17 :: "int \<Rightarrow> int" where
  "id_rank_17 x =
  (if x < 0x20B7F00E then (if x < 0x205FAE8F then (if x < 0x2020A5D9 then (if x < 0x200DCE0A
    then 764 else (if x < 0x201E6070 then 537 else 817)) else (if x < 0x20400483 then (if x <
    0x203D7F02 then 719 else 350) else (if x < 0x2046F2DA then 227 else 290))) else (if x <
    0x2086B995 then (if x < 0x206B9F62 then (if x < 0x206134A3 then 448 else 163) else (if x <
    0x20724726 then 886 else 96)) else (if x < 0x20A003D9 then (if x < 0x209C3842 then 177 else
    922) else (if x < 0x20A6E977 then 509 else 869)))) else (if x < 0x2107F399 then (if x <
    0x20EBA4DE then (if x < 0x20D6A08F then (if x < 0x20BD0321 then 937 else 54) else (if x <
    0x20EAE2D3 then 687 else 777)) else (if x < 0x20EC3360 then (if x < 0x20EBD73E then 301
    else 113) else (if x < 0x20EFF763 then 125 else 187))) else (if x < 0x21507C8F then (if x <
    0x211AB6A4 then (if x < 0x21115DFE then 958 else 960) else (if x < 0x21360D01 then 812 else
    186)) else (if x < 0x21664473 then (if x < 0x2150C57B then 510 else 700) else (if x <
    0x2181A60C then 83 else 747)))))"

definition id_rank_18 :: "int \<Rightarrow> int" where
  "id_rank_18 x =
  (if x < 0x228CB8E6 then (if x < 0x22055D5E then (if x < 0x219C69AE then (if x < 0x218F82E2
    then 452 else (if x < 0x2197DC9E then 72 else 965)) else (if x < 0x21CF4A25 then (if x <
    0x21B616B5 then 279 else 961) else (if x < 0x21D829B5 then 578 else 420))) else (if x <
    0x22576806 then (if x < 0x222DD9E8 then (if x < 0x220D9620 then 280 else 167) else (if x <
    0x223BE416 then 778 else 856)) else (if x < 0x22790A26 then (if x < 0x22768542 then 846
    else 541) else (if x < 0x227D84AD then 721 else 748)))) else (if x < 0x22DFA9E7 then (if x
    < 0x22CD2A2F then (if x < 0x22A0CF10 then (if x < 0x229E8E27 then 917 else 235) else (if x
    < 0x22AA69D2 then 692 else 681)) else (if x < 0x22D80610 then (if x < 0x22D64B54 then 175
    else 896) else (if x < 0x22DCE3F2 then 412 else 396))) else (if x < 0x2321406A then (if x <
    0x22FBE2D9 then (if x < 0x22F00013 then 423 else 230) else (if x < 0x2302FEF4 then 407 else
    394)) else (if x < 0x232F907D then (if x < 0x2327D7D2 then 50 else 801) else (if x <
    0x233679EA then 530 else 429)))))"

definition id_rank_19 :: "int \<Rightarrow> int" where
  "id_rank_19 x =
  (if x < 0x2445A15B then (if x < 0x23C6D018 then (if x < 0x2397BCF8 then (if x < 0x237343E2
    then 418 else (if x < 0x23933A3A then 730 else 51)) else (if x < 0x23B33802 then (if x <
    0x239A2DE0 then 346 else 450) else (if x < 0x23BCFA4B then 588 else 252))) else (if x <
    0x242C394C then (if x < 0x24175D42 then (if x < 0x23F42CFC then 685 else 170) else (if x <
    0x242760B6 then 689 else 580)) else (if x < 0x24345AD3 then (if x < 0x2432DD91 then 737
    else 882) else (if x < 0x243B2F54 then 276 else 653)))) else (if x < 0x24C42973 then (if x
    < 0x24840C8F then (if x < 0x2472ECC2 then (if x < 0x2454EF80 then 5 else 800) else (if x <
    0x2473F0C8 then 774 else 472)) else (if x < 0x24A7ABC8 then (if x < 0x2495679A then 318
    else 544) else (if x < 0x24B41586 then 492 else 369))) else (if x < 0x250B0738 then (if x <
    0x24D9B608 then (if x < 0x24CCCDF8 then 82 else 278) else (if x < 0x24F2F7C9 then 238 else
    89)) else (if x < 0x254160E1 then (if x < 0x2538A21D then 478 else 857) else (if x <
    0x25454949 then 203 else 26)))))"

definition id_rank_20 :: "int \<Rightarrow> int" where
  "id_rank_20 x =
  (if x < 0x2652BAA6 then (if x < 0x25B4F93B then (if x < 0x257C9CA8 then (if x < 0x2564BD45
    then 676 else (if x < 0x256795C6 then 476 else 42)) else (if x < 0x25AB9AB9 then (if x <
    0x25A613B5 then 491 else 909) else (if x < 0x25AC827A then 837 else 671))) else (if x <
    0x25E48A07 then (if x < 0x25BEB72A then (if x < 0x25BAF7D0 then 632 else 936) else (if x <
    0x25D84C00 then 586 else 975)) else (if x < 0x26143FF7 then (if x < 0x25FCD5AD then 833
    else 218) else (if x < 0x263AD208 then 41 else 146)))) else (if x < 0x26C865BC then (if x <
    0x269AE608 then (if x < 0x2696BFD7 then (if x < 0x26734C2A then 930 else 10) else (if x <
    0x26976F8E then 860 else 36)) else (if x < 0x269DAC9F then (if x < 0x269AEA46 then 756 else
    110) else (if x < 0x26A351DD then 231 else 312))) else (if x < 0x26FC6EE4 then (if x <
    0x26E196D2 then (if x < 0x26CE8D79 then 263 else 836) else (if x < 0x26EA248B then 61 else
    419)) else (if x < 0x272F2981 then (if x < 0x271622C0 then 726 else 282) else (if x <
    0x272F3A96 then 124 else 251)))))"

definition id_rank_21 :: "int \<Rightarrow> int" where
  "id_rank_21 x =
  (if x < 0x28836B19 then (if x < 0x27F01071 then (if x < 0x276BEFDE then (if x < 0x27541FDB
    then 641 else (if x < 0x275435E5 then 750 else 354)) else (if x < 0x27D2EE6F then (if x <
    0x27A02D2C then 531 else 457) else (if x < 0x27D70C38 then 809 else 784))) else (if x <
    0x281BBE08 then (if x < 0x2808A60D then (if x < 0x27F83572 then 572 else 763) else (if x <
    0x2819A08A then 831 else 829)) else (if x < 0x287C1266 then (if x < 0x2873120D then 84 else
    484) else (if x < 0x287EA831 then 905 else 52)))) else (if x < 0x28CFE3C1 then (if x <
    0x2897F19D then (if x < 0x2891F8E9 then (if x < 0x288DB7F9 then 786 else 643) else (if x <
    0x28970338 then 389 else 898)) else (if x < 0x28B80A37 then (if x < 0x289C9481 then 859
    else 866) else (if x < 0x28CC2E9E then 361 else 761))) else (if x < 0x292C5531 then (if x <
    0x28F0FE1C then (if x < 0x28E03174 then 133 else 925) else (if x < 0x28F3D267 then 876 else
    243)) else (if x < 0x293E09EA then (if x < 0x292F7313 then 141 else 239) else (if x <
    0x29493949 then 25 else 224)))))"

definition id_rank_22 :: "int \<Rightarrow> int" where
  "id_rank_22 x =
  (if x < 0x29E70F52 then (if x < 0x29BDC974 then (if x < 0x29A1771B then (if x < 0x2995E2FD
    then 320 else (if x < 0x299FF425 then 564 else 523)) else (if x < 0x29A93DF5 then (if x <
    0x29A42628 then 460 else 442) else (if x < 0x29B06963 then 934 else 13))) else (if x <
    0x29C98410 then (if x < 0x29C9020E then (if x < 0x29C5AA42 then 647 else 356) else (if x <
    0x29C9623A then 601 else 565)) else (if x < 0x29D143CF then (if x < 0x29CD0F03 then 138
    else 455) else (if x < 0x29DF0B99 then 608 else 675)))) else (if x < 0x2A17710E then (if x
    < 0x2A021262 then (if x < 0x29F05F16 then (if x < 0x29EDC1C1 then 944 else 65) else (if x <
    0x29F1C44A then 197 else 487)) else (if x < 0x2A151F04 then (if x < 0x2A03D9AB then 194
    else 357) else (if x < 0x2A16748D then 0 else 861))) else (if x < 0x2A350183 then (if x <
    0x2A2CDC85 then (if x < 0x2A1BF607 then 897 else 976) else (if x < 0x2A33B3BB then 723 else
    142)) else (if x < 0x2A4AE2B1 then (if x < 0x2A3C3311 then 191 else 348) else (if x <
    0x2A4EEA68 then 787 else 30)))))"

definition id_rank_23 :: "int \<Rightarrow> int" where
  "id_rank_23 x =
  (if x < 0x2B5C6A34 then (if x < 0x2AC9CC90 then (if x < 0x2A8EE30E then (if x < 0x2A63B2BC
    then 682 else (if x < 0x2A89FAA1 then 158 else 918)) else (if x < 0x2A997919 then (if x <
    0x2A969791 then 966 else 144) else (if x < 0x2AC3BF0E then 872 else 848))) else (if x <
    0x2B08BA45 then (if x < 0x2AFCF8A7 then (if x < 0x2AE64316 then 630 else 364) else (if x <
    0x2AFD84F8 then 697 else 370)) else (if x < 0x2B45839E then (if x < 0x2B1D87E1 then 241
    else 562) else (if x < 0x2B57744C then 157 else 260)))) else (if x < 0x2BF40C0B then (if x
    < 0x2B951290 then (if x < 0x2B81CA0A then (if x < 0x2B74F7A1 then 150 else 134) else (if x
    < 0x2B8C5717 then 744 else 298)) else (if x < 0x2BC7D3D3 then (if x < 0x2BA1B0CA then 204
    else 904) else (if x < 0x2BE9C315 then 293 else 911))) else (if x < 0x2C4F9C4E then (if x <
    0x2C1B8C72 then (if x < 0x2C04A7EF then 606 else 573) else (if x < 0x2C31CBB0 then 473 else
    95)) else (if x < 0x2C63441F then (if x < 0x2C5F6EBA then 844 else 284) else (if x <
    0x2C6CDB76 then 6 else 131)))))"

definition id_rank_24 :: "int \<Rightarrow> int" where
  "id_rank_24 x =
  (if x < 0x2D5DB0ED then (if x < 0x2CE26A14 then (if x < 0x2C9EBD5B then (if x < 0x2C8817B1
    then 313 else (if x < 0x2C99615C then 803 else 822)) else (if x < 0x2CBB6C9C then (if x <
    0x2CAF9E1B then 626 else 624) else (if x < 0x2CCC0E6F then 250 else 247))) else (if x <
    0x2D15D6E4 then (if x < 0x2CEEC675 then (if x < 0x2CE9F917 then 314 else 78) else (if x <
    0x2D0C11E8 then 785 else 220)) else (if x < 0x2D2A5556 then (if x < 0x2D266106 then 336
    else 464) else (if x < 0x2D35FDCC then 19 else 651)))) else (if x < 0x2DCF205F then (if x <
    0x2D950008 then (if x < 0x2D7A8E3C then (if x < 0x2D614666 then 654 else 715) else (if x <
    0x2D8CEA15 then 811 else 735)) else (if x < 0x2D9958E3 then (if x < 0x2D988B7A then 171
    else 377) else (if x < 0x2DC68285 then 802 else 983))) else (if x < 0x2E091464 then (if x <
    0x2DDA74F4 then (if x < 0x2DD94726 then 984 else 850) else (if x < 0x2DFAE2AA then 940 else
    637)) else (if x < 0x2E168C10 then (if x < 0x2E143F53 then 806 else 518) else (if x <
    0x2E4BC77C then 33 else 102)))))"

definition id_rank_25 :: "int \<Rightarrow> int" where
  "id_rank_25 x =
  (if x < 0x2F15141A then (if x < 0x2EACECF1 then (if x < 0x2E5DD400 then (if x < 0x2E5B63C0
    then 40 else (if x < 0x2E5D9ECB then 864 else 515)) else (if x < 0x2E79AF83 then (if x <
    0x2E5FD928 then 694 else 696) else (if x < 0x2E9DDD77 then 265 else 184))) else (if x <
    0x2EEDD8EC then (if x < 0x2ECBE616 then (if x < 0x2EC0BDCC then 381 else 261) else (if x <
    0x2EEC0E68 then 299 else 669)) else (if x < 0x2F06AF0E then (if x < 0x2EF6AA07 then 341
    else 129) else (if x < 0x2F081664 then 378 else 502)))) else (if x < 0x2F88CCAA then (if x
    < 0x2F6985F4 then (if x < 0x2F43F18A then (if x < 0x2F40100C then 207 else 395) else (if x
    < 0x2F5B4A9B then 253 else 195)) else (if x < 0x2F70CED5 then (if x < 0x2F6D9EC4 then 596
    else 414) else (if x < 0x2F7348A7 then 595 else 622))) else (if x < 0x2FAA9FEC then (if x <
    0x2F9A0446 then (if x < 0x2F9390CE then 916 else 68) else (if x < 0x2FA4B1C9 then 617 else
    584)) else (if x < 0x2FBCB74A then (if x < 0x2FB4382A then 522 else 607) else (if x <
    0x2FCB1D2D then 277 else 887)))))"

definition id_rank_26 :: "int \<Rightarrow> int" where
  "id_rank_26 x =
  (if x < 0x309570AB then (if x < 0x303729C7 then (if x < 0x3005ECBD then (if x < 0x2FF940CE
    then 908 else (if x < 0x2FFDC042 then 274 else 535)) else (if x < 0x30261610 then (if x <
    0x30133E89 then 219 else 48) else (if x < 0x30282A88 then 926 else 496))) else (if x <
    0x307B2A5C then (if x < 0x303FC3DF then (if x < 0x303D7BDC then 300 else 258) else (if x <
    0x304F7C01 then 851 else 727)) else (if x < 0x308C4A1A then (if x < 0x30870207 then 646
    else 525) else (if x < 0x3093A382 then 753 else 568)))) else (if x < 0x30FC7233 then (if x
    < 0x30B28FE3 then (if x < 0x30A5DEED then (if x < 0x3097B90F then 517 else 245) else (if x
    < 0x30B1F01B then 974 else 257)) else (if x < 0x30D6BE74 then (if x < 0x30BE3326 then 841
    else 638) else (if x < 0x30E4DE70 then 890 else 873))) else (if x < 0x312556D2 then (if x <
    0x3115ECE7 then (if x < 0x3100E728 then 718 else 598) else (if x < 0x311F9551 then 17 else
    513)) else (if x < 0x312BD2D2 then (if x < 0x3129EB72 then 772 else 262) else (if x <
    0x3136569E then 136 else 385)))))"

definition id_rank_27 :: "int \<Rightarrow> int" where
  "id_rank_27 x =
  (if x < 0x32566FDC then (if x < 0x31AFB19A then (if x < 0x3186BA94 then (if x < 0x316A05A5
    then 425 else (if x < 0x316E9960 then 547 else 456)) else (if x < 0x31A054F5 then (if x <
    0x3197A880 then 546 else 808) else (if x < 0x31A62D25 then 67 else 422))) else (if x <
    0x31DEA7A7 then (if x < 0x31BFE498 then (if x < 0x31BF1C12 then 528 else 359) else (if x <
    0x31CAE44F then 2 else 660)) else (if x < 0x3248193D then (if x < 0x31F1D779 then 445 else
    440) else (if x < 0x324D717B then 28 else 32)))) else (if x < 0x32D0A62E then (if x <
    0x3290DE55 then (if x < 0x328C6A7F then (if x < 0x32683B17 then 924 else 780) else (if x <
    0x328F86B8 then 86 else 889)) else (if x < 0x32B25885 then (if x < 0x32A88BFB then 308 else
    18) else (if x < 0x32BDE678 then 862 else 115))) else (if x < 0x32E89348 then (if x <
    0x32E4591F then (if x < 0x32DF6D4F then 182 else 139) else (if x < 0x32E479F3 then 459 else
    680)) else (if x < 0x32F4BAED then (if x < 0x32F25C46 then 179 else 789) else (if x <
    0x33025F6D then 871 else 970)))))"

definition id_rank_28 :: "int \<Rightarrow> int" where
  "id_rank_28 x =
  (if x < 0x340C7F51 then (if x < 0x33A89259 then (if x < 0x333D1F46 then (if x < 0x332858FC
    then 111 else (if x < 0x3332426B then 769 else 145)) else (if x < 0x334D1A49 then (if x <
    0x3349E61E then 404 else 242) else (if x < 0x33A242C8 then 814 else 27))) else (if x <
    0x33D41B63 then (if x < 0x33D0E994 then (if x < 0x33B301D7 then 805 else 739) else (if x <
    0x33D209B9 then 480 else 213)) else (if x < 0x33F2CF9D then (if x < 0x33D7279B then 776
    else 410) else (if x < 0x33F8472A then 408 else 373)))) else (if x < 0x34C1F2CC then (if x
    < 0x3463FE13 then (if x < 0x344B501E then (if x < 0x34492655 then 390 else 599) else (if x
    < 0x345E016A then 609 else 447)) else (if x < 0x34793542 then (if x < 0x346EAD40 then 268
    else 477) else (if x < 0x347BC133 then 376 else 119))) else (if x < 0x34F82602 then (if x <
    0x34E68311 then (if x < 0x34C5574E then 201 else 302) else (if x < 0x34EDA476 then 417 else
    605)) else (if x < 0x351F5D60 then (if x < 0x3500D1DA then 20 else 147) else (if x <
    0x35238F40 then 271 else 193)))))"

definition id_rank_29 :: "int \<Rightarrow> int" where
  "id_rank_29 x =
  (if x < 0x36217B7C then (if x < 0x356EB09D then (if x < 0x354C7D51 then (if x < 0x352FB8B9
    then 589 else (if x < 0x35437CB9 then 768 else 868)) else (if x < 0x3560DCD0 then (if x <
    0x355DE29E then 884 else 273) else (if x < 0x356C2B7A then 840 else 80))) else (if x <
    0x35CCE135 then (if x < 0x35A3CD2B then (if x < 0x3592106F then 666 else 612) else (if x <
    0x35B81097 then 135 else 600)) else (if x < 0x3601334B then (if x < 0x35D6A5D0 then 164
    else 411) else (if x < 0x3612DF48 then 39 else 309)))) else (if x < 0x3698AFA2 then (if x <
    0x366F511D then (if x < 0x366515AF then (if x < 0x36323212 then 765 else 392) else (if x <
    0x366E0874 then 344 else 132)) else (if x < 0x368542E7 then (if x < 0x36774215 then 55 else
    592) else (if x < 0x368F990E then 614 else 505))) else (if x < 0x371514F2 then (if x <
    0x36E29259 then (if x < 0x36D661DF then 781 else 307) else (if x < 0x37082E35 then 732 else
    462)) else (if x < 0x375B5D98 then (if x < 0x373B3758 then 560 else 610) else (if x <
    0x37603B87 then 114 else 770)))))"

definition id_rank_30 :: "int \<Rightarrow> int" where
  "id_rank_30 x =
  (if x < 0x3814BD2E then (if x < 0x37B3387B then (if x < 0x37966C63 then (if x < 0x377BCD2F
    then 122 else (if x < 0x378B2F3B then 742 else 938)) else (if x < 0x37A57AFB then (if x <
    0x379EBEBC then 388 else 913) else (if x < 0x37A7F889 then 754 else 215))) else (if x <
    0x37DE31B5 then (if x < 0x37CA507C then (if x < 0x37B74741 then 176 else 554) else (if x <
    0x37CD7D63 then 618 else 379)) else (if x < 0x380AC334 then (if x < 0x37ED9D11 then 870
    else 724) else (if x < 0x38139A4F then 854 else 824)))) else (if x < 0x38714286 then (if x
    < 0x384F5A46 then (if x < 0x38377582 then (if x < 0x382C5E3D then 108 else 634) else (if x
    < 0x3841F4DC then 366 else 286)) else (if x < 0x38589801 then (if x < 0x385246CF then 867
    else 576) else (if x < 0x3866AE7A then 795 else 702))) else (if x < 0x3889EC9A then (if x <
    0x388409CE then (if x < 0x387E9672 then 155 else 428) else (if x < 0x3888EF78 then 575 else
    174)) else (if x < 0x38A44F79 then (if x < 0x38A067F0 then 160 else 85) else (if x <
    0x38BD217A then 81 else 342)))))"

definition id_rank_31 :: "int \<Rightarrow> int" where
  "id_rank_31 x =
  (if x < 0x3988BC60 then (if x < 0x3906CC2A then (if x < 0x38D12DD8 then (if x < 0x38CB72B8
    then 69 else (if x < 0x38CFFA7B then 189 else 894)) else (if x < 0x38F5B833 then (if x <
    0x38DCD219 then 843 else 820) else (if x < 0x39037FE3 then 183 else 604))) else (if x <
    0x3957898E then (if x < 0x392D6325 then (if x < 0x39131DD2 then 353 else 323) else (if x <
    0x3943A38D then 446 else 773)) else (if x < 0x396BB73F then (if x < 0x395C41BD then 489
    else 339) else (if x < 0x397CBE29 then 430 else 287)))) else (if x < 0x3A24EF92 then (if x
    < 0x39D9524E then (if x < 0x398E453D then (if x < 0x39897CE4 then 325 else 798) else (if x
    < 0x39A84FC2 then 497 else 842)) else (if x < 0x39E98384 then (if x < 0x39DC3178 then 76
    else 471) else (if x < 0x3A009026 then 796 else 60))) else (if x < 0x3A8E7CDD then (if x <
    0x3A78B065 then (if x < 0x3A54AF50 then 635 else 91) else (if x < 0x3A8A52AB then 519 else
    511)) else (if x < 0x3A93ABEF then (if x < 0x3A91AEC6 then 955 else 858) else (if x <
    0x3AAD8E75 then 64 else 799)))))"

definition id_rank_32 :: "int \<Rightarrow> int" where
  "id_rank_32 x =
  (if x < 0x3B09E61C then (if x < 0x3ACEE854 then (if x < 0x3AC21BC7 then (if x < 0x3AB56AF4
    then 636 else (if x < 0x3AB833A0 then 716 else 49)) else (if x < 0x3AC92ED7 then 577 else
    (if x < 0x3ACC6812 then 161 else 759))) else (if x < 0x3AF66A55 then (if x < 0x3AD9FF21
    then 248 else (if x < 0x3AECF4ED then 639 else 106)) else (if x < 0x3AFA08CF then 255 else
    (if x < 0x3B032C8E then 202 else 444)))) else (if x < 0x3B2CCBE3 then (if x < 0x3B1E74D5
    then (if x < 0x3B0E898D then 140 else (if x < 0x3B167C60 then 185 else 895)) else (if x <
    0x3B1F0D1F then 453 else (if x < 0x3B2392E6 then 168 else 816))) else (if x < 0x3B7E7A6D
    then (if x < 0x3B579C56 then 527 else (if x < 0x3B6232B8 then 741 else 332)) else (if x <
    0x3B805D15 then 590 else (if x < 0x3B96CE32 then 479 else 760)))))"

definition id_rank :: "int \<Rightarrow> int" where
  "id_rank x =
  (if x < 0x20056C3B then (if x < 0x0FFB78CA then (if x < 0x07CCC6BE then (if x < 0x03F16BF9
    then (if x < 0x01BF7360 then id_rank_1 x else id_rank_2 x) else (if x < 0x06078582 then
    id_rank_3 x else id_rank_4 x)) else (if x < 0x0C39595F then (if x < 0x0A277B4F then
    id_rank_5 x else id_rank_6 x) else (if x < 0x0DED7C02 then id_rank_7 x else id_rank_8 x)))
    else (if x < 0x17F4A28B then (if x < 0x1402EE5E then (if x < 0x121694C2 then id_rank_9 x
    else id_rank_10 x) else (if x < 0x16442C9D then id_rank_11 x else id_rank_12 x)) else (if x
    < 0x1BAACB05 then (if x < 0x19B7FA6A then id_rank_13 x else id_rank_14 x) else (if x <
    0x1D571A7E then id_rank_15 x else id_rank_16 x)))) else (if x < 0x2E54A925 then (if x <
    0x27501102 then (if x < 0x2349ED61 then (if x < 0x21874DDA then id_rank_17 x else
    id_rank_18 x) else (if x < 0x25603EE7 then id_rank_19 x else id_rank_20 x)) else (if x <
    0x2A5EF137 then (if x < 0x295DEEFC then id_rank_21 x else id_rank_22 x) else (if x <
    0x2C7DD25B then id_rank_23 x else id_rank_24 x))) else (if x < 0x3526DE64 then (if x <
    0x31538078 then (if x < 0x2FD4DB92 then id_rank_25 x else id_rank_26 x) else (if x <
    0x330714A3 then id_rank_27 x else id_rank_28 x)) else (if x < 0x38C00BA1 then (if x <
    0x376E37AC then id_rank_29 x else id_rank_30 x) else (if x < 0x3AB40657 then id_rank_31 x
    else id_rank_32 x)))))"

lemmas id_ranks =
  id_rank_def id_rank_1_def id_rank_2_def id_rank_3_def id_rank_4_def id_rank_5_def id_rank_6_def
  id_rank_7_def id_rank_8_def id_rank_9_def id_rank_10_def id_rank_11_def id_rank_12_def
  id_rank_13_def id_rank_14_def id_rank_15_def id_rank_16_def id_rank_17_def id_rank_18_def
  id_rank_19_def id_rank_20_def id_rank_21_def id_rank_22_def id_rank_23_def id_rank_24_def
  id_rank_25_def id_rank_26_def id_rank_27_def id_rank_28_def id_rank_29_def id_rank_30_def
  id_rank_31_def id_rank_32_def

primrec ranked :: "int \<Rightarrow> (u32 \<times> message) list \<Rightarrow> int \<Rightarrow> bool" where
  "ranked a [] b \<longleftrightarrow> a = b"
| "ranked a (m # ms) b \<longleftrightarrow> id_rank (uint (fst m)) = a \<and> ranked (a + 1) ms b"

lemma ranked_entry:
  assumes "(numeral n :: int) < 2 ^ 32" "id_rank (numeral n) = a" "a + 1 = a'" "ranked a' ms b"
  shows "ranked a ((numeral n, m) # ms) b"
proof -
  have "uint (word_of_int (numeral n) :: u32) = numeral n mod 2 ^ 32"
    by (simp only: uint_word_of_int) simp
  also have "\<dots> = numeral n" using assms(1) by (intro mod_pos_pos_trivial) simp_all
  finally have "uint (numeral n :: u32) = numeral n" by (simp only: word_of_int_numeral)
  then show ?thesis using assms by simp
qed

lemma ranked_end: "ranked a [] a"
  by simp

lemma ranked_chunk: "c = ms \<Longrightarrow> ranked a ms b \<Longrightarrow> ranked a c b"
  by simp

lemma ranked_append: "ranked a xs b \<Longrightarrow> ranked b ys c \<Longrightarrow> ranked a (xs @ ys) c"
  by (induction xs arbitrary: a) auto

lemma ranked_distinct:
  "ranked a ms b \<Longrightarrow> distinct (map fst ms) \<and> a \<le> b \<and> (\<forall>m\<in>set ms. a \<le> id_rank (uint (fst m)))"
proof (induction ms arbitrary: a)
  case (Cons m ms)
  then have ih: "distinct (map fst ms)" "a + 1 \<le> b" "\<forall>m\<in>set ms. a + 1 \<le> id_rank (uint (fst m))"
    and r: "id_rank (uint (fst m)) = a" by auto
  have "fst m \<notin> fst ` set ms" using ih(3) r by fastforce
  then show ?case using ih r by auto
qed simp

declare id_ranks [simp]

lemma ranked_chunks:
  "ranked 0 messages_1 46" "ranked 46 messages_2 97" "ranked 97 messages_3 148"
  "ranked 148 messages_4 197" "ranked 197 messages_5 241" "ranked 241 messages_6 290"
  "ranked 290 messages_7 335" "ranked 335 messages_8 378" "ranked 378 messages_9 417"
  "ranked 417 messages_10 449" "ranked 449 messages_11 478" "ranked 478 messages_12 512"
  "ranked 512 messages_13 545" "ranked 545 messages_14 576" "ranked 576 messages_15 611"
  "ranked 611 messages_16 646" "ranked 646 messages_17 678" "ranked 678 messages_18 710"
  "ranked 710 messages_19 739" "ranked 739 messages_20 772" "ranked 772 messages_21 801"
  "ranked 801 messages_22 826" "ranked 826 messages_23 858" "ranked 858 messages_24 888"
  "ranked 888 messages_25 919" "ranked 919 messages_26 943" "ranked 943 messages_27 973"
  "ranked 973 messages_28 985"
  by (rule message_chunks [THEN ranked_chunk],
    (rule ranked_end | (rule ranked_entry, simp, simp, simp))+)+

declare id_ranks [simp del]

section \<open>Names\<close>

fun str_lt :: "string \<Rightarrow> string \<Rightarrow> bool" where
  "str_lt [] ys = (ys \<noteq> [])"
| "str_lt (x # xs) [] = False"
| "str_lt (x # xs) (y # ys) = (if x = y then str_lt xs ys else (of_char x :: nat) < of_char y)"

lemma str_lt_irrefl: "\<not> str_lt xs xs"
  by (induction xs) simp_all

lemma str_lt_trans: "str_lt xs ys \<Longrightarrow> str_lt ys zs \<Longrightarrow> str_lt xs zs"
proof (induction xs ys arbitrary: zs rule: str_lt.induct)
  case (3 x xs y ys)
  then show ?case by (cases zs) (auto split: if_splits)
next
  case (1 ys)
  then show ?case by (cases zs; cases ys) simp_all
qed simp

lemma str_lt_same: "str_lt xs ys \<Longrightarrow> str_lt (x # xs) (x # ys)"
  by simp

lemma str_lt_end: "str_lt [] (y # ys)"
  by simp

lemma str_lt_less: "(of_char x :: nat) < of_char y \<Longrightarrow> str_lt (x # xs) (y # ys)"
  by auto

text \<open>\<open>climbs name lo xs hi\<close>: the names ascend from above \<open>lo\<close>, and \<open>hi\<close> is the last of them.\<close>

primrec climbs :: "('a \<Rightarrow> string) \<Rightarrow> string \<Rightarrow> 'a list \<Rightarrow> string \<Rightarrow> bool" where
  "climbs name lo [] hi \<longleftrightarrow> lo = hi"
| "climbs name lo (x # xs) hi \<longleftrightarrow> str_lt lo (name x) \<and> climbs name (name x) xs hi"

lemma climbs_end: "climbs name lo [] lo"
  by simp

lemma climbs_message:
  "str_lt lo n \<Longrightarrow> climbs (\<lambda>(k, m). msgName m) n ms hi \<Longrightarrow>
     climbs (\<lambda>(k, m). msgName m) lo
       ((k, \<lparr>msgName = n, msgDir = d, msgID = i, msgFields = fs\<rparr>) # ms) hi"
  by simp

lemma climbs_struct: "t = n \<Longrightarrow> str_lt lo n \<Longrightarrow> climbs fst n ls hi \<Longrightarrow> climbs fst lo ((t, l) # ls) hi"
  by simp

lemma climbs_chunk: "c = xs \<Longrightarrow> climbs name lo xs hi \<Longrightarrow> climbs name lo c hi"
  by simp

lemma climbs_append: "climbs name lo xs mi \<Longrightarrow> climbs name mi ys hi \<Longrightarrow> climbs name lo (xs @ ys) hi"
  by (induction xs arbitrary: lo) auto

lemma climbs_distinct: "climbs name lo xs hi \<Longrightarrow> distinct (map name xs) \<and> (\<forall>x\<in>set xs. str_lt lo (name x))"
proof (induction xs arbitrary: lo)
  case (Cons x xs)
  then have "distinct (map name xs)" "\<forall>y\<in>set xs. str_lt (name x) (name y)" "str_lt lo (name x)"
    by auto
  moreover from this have "\<forall>y\<in>set xs. str_lt lo (name y)" using str_lt_trans by blast
  moreover have "name x \<notin> name ` set xs" using calculation(2) str_lt_irrefl by (metis imageE)
  ultimately show ?case by simp
qed simp

lemmas str_lt_intros = str_lt_same str_lt_end str_lt_less

lemma message_names_climb:
  "climbs (\<lambda>(k, m). msgName m) '''' messages_1 ''C2S_CostumeCompose''"
  "climbs (\<lambda>(k, m). msgName m) ''C2S_CostumeCompose'' messages_2 ''C2S_FriendRequestReply''"
  "climbs (\<lambda>(k, m). msgName m) ''C2S_FriendRequestReply'' messages_3 ''C2S_GuildMemberExpel''"
  "climbs (\<lambda>(k, m). msgName m) ''C2S_GuildMemberExpel'' messages_4 ''C2S_ItemCompose''"
  "climbs (\<lambda>(k, m). msgName m) ''C2S_ItemCompose'' messages_5 ''C2S_PVPRecordList''"
  "climbs (\<lambda>(k, m). msgName m) ''C2S_PVPRecordList'' messages_6 ''C2S_PreResetSoulStone''"
  "climbs (\<lambda>(k, m). msgName m) ''C2S_PreResetSoulStone'' messages_7 ''C2S_SelectPlayerInfo''"
  "climbs (\<lambda>(k, m). msgName m) ''C2S_SelectPlayerInfo'' messages_8 ''C2S_TokenExchangeCancel''"
  "climbs (\<lambda>(k, m). msgName m) ''C2S_TokenExchangeCancel'' messages_9 ''S2C_AttendanceAvailableNoti''"
  "climbs (\<lambda>(k, m). msgName m) ''S2C_AttendanceAvailableNoti'' messages_10 ''S2C_BuffList''"
  "climbs (\<lambda>(k, m). msgName m) ''S2C_BuffList'' messages_11 ''S2C_CoolInfo''"
  "climbs (\<lambda>(k, m). msgName m) ''S2C_CoolInfo'' messages_12 ''S2C_DominionEndNoti''"
  "climbs (\<lambda>(k, m). msgName m) ''S2C_DominionEndNoti'' messages_13 ''S2C_ExitWorld''"
  "climbs (\<lambda>(k, m). msgName m) ''S2C_ExitWorld'' messages_14 ''S2C_GuildAgitRent''"
  "climbs (\<lambda>(k, m). msgName m) ''S2C_GuildAgitRent'' messages_15 ''S2C_GuildDungoenOpenNotify''"
  "climbs (\<lambda>(k, m). msgName m) ''S2C_GuildDungoenOpenNotify'' messages_16 ''S2C_GuildRemoveWorldRelationNotify''"
  "climbs (\<lambda>(k, m). msgName m) ''S2C_GuildRemoveWorldRelationNotify'' messages_17 ''S2C_GuildUnionInviteCancel''"
  "climbs (\<lambda>(k, m). msgName m) ''S2C_GuildUnionInviteCancel'' messages_18 ''S2C_ItemEryndorRegrant''"
  "climbs (\<lambda>(k, m). msgName m) ''S2C_ItemEryndorRegrant'' messages_19 ''S2C_MonsterCollectionOptionRewardList''"
  "climbs (\<lambda>(k, m). msgName m) ''S2C_MonsterCollectionOptionRewardList'' messages_20 ''S2C_PartyDungeonTowerInfoNoti''"
  "climbs (\<lambda>(k, m). msgName m) ''S2C_PartyDungeonTowerInfoNoti'' messages_21 ''S2C_PetReComposeCheck''"
  "climbs (\<lambda>(k, m). msgName m) ''S2C_PetReComposeCheck'' messages_22 ''S2C_QuestCompleteImmediately''"
  "climbs (\<lambda>(k, m). msgName m) ''S2C_QuestCompleteImmediately'' messages_23 ''S2C_ResponseCrossTokenExchange''"
  "climbs (\<lambda>(k, m). msgName m) ''S2C_ResponseCrossTokenExchange'' messages_24 ''S2C_ShopBuyRandBuff''"
  "climbs (\<lambda>(k, m). msgName m) ''S2C_ShopBuyRandBuff'' messages_25 ''S2C_SkillUse''"
  "climbs (\<lambda>(k, m). msgName m) ''S2C_SkillUse'' messages_26 ''S2C_TowerInfoNoti''"
  "climbs (\<lambda>(k, m). msgName m) ''S2C_TowerInfoNoti'' messages_27 ''S2C_UseSelectBoxItem''"
  "climbs (\<lambda>(k, m). msgName m) ''S2C_UseSelectBoxItem'' messages_28 ''S2C_WaveStartNoti''"
  by (rule message_chunks [THEN climbs_chunk],
    (rule climbs_end | (rule climbs_message, (rule str_lt_same str_lt_end | (rule str_lt_less, simp))+))+)+

lemmas struct_names =
  ty_AbilitySkillLevelInfo_def ty_AbilityValue_def ty_AchieveData_def ty_AdventureMapInfo_def
  ty_AttachedData_def ty_AttendanceData_def ty_AuctionElement_def ty_AuctionFixRecord_def
  ty_AuctionRecentPrice_def ty_AutoStoreSettingInfo_def ty_AutoUseInfo_def ty_BankCardInfo_def
  ty_BankDepositRankInfo_def ty_BossAuctionInfo_def ty_BossAuctionItemInfo_def
  ty_BroadCastInfo_def ty_BuffData_def ty_BuyItemData_def ty_ClassChangeItemInfo_def
  ty_ClassChangeSkillInfo_def ty_CollectionCountInfo_def ty_CollectionInfo_def
  ty_CollectionPart_def ty_CommissionInfo_def ty_ComposeFailedParam_def ty_ComposeInputInfo_def
  ty_ConquestDungeon_def ty_ConquestDungeonApply_def ty_ContributionRewardInfo_def
  ty_CoolInfo_def ty_CostumeInfo_def ty_DissolveData_def ty_DissolveRewardData_def
  ty_DistributionMemberDetailInfo_def ty_DistributionMemberInfo_def ty_DominionBriefData_def
  ty_DominionGuildData_def ty_DominionIngameMemberPoint_def ty_DominionIngameTeamPoint_def
  ty_DominionKillComboInfo_def ty_DominionMemberData_def ty_DominionMoneyData_def
  ty_DominionProductData_def ty_DominionResultData_def ty_DominionTaxInfo_def ty_EndTimeInfo_def
  ty_EntertainmentInfo_def ty_EquipItemData_def ty_EryndorImprintingInfo_def
  ty_EventBingoStatus_def ty_EventGameRandomBoxSlotInfo_def ty_EventMissionInfo_def
  ty_EventSubMissionInfo_def ty_FriendRequestInfo_def ty_GuardListInfo_def ty_GuardMemberInfo_def
  ty_GuardMyInfo_def ty_GuildAttendanceInfo_def ty_GuildBuffInfo_def
  ty_GuildContentResearchInfo_def ty_GuildContributeTypeInfo_def
  ty_GuildDistributionMoneyInfo_def ty_GuildDistributionSetting_def ty_GuildDungeonInfo_def
  ty_GuildGuardInfo_def ty_GuildHistoryInfo_def ty_GuildJoinRequestGuildInfo_def
  ty_GuildJoinRequestPlayerInfo_def ty_GuildMemberSimpleInfo_def ty_GuildPVPRecord_def
  ty_GuildQuestData_def ty_GuildRelationInfo_def ty_GuildShopBuyLimitData_def
  ty_GuildShopItemData_def ty_GuildSimpleInfo_def ty_HostileFunctionSimpleInfo_def
  ty_HostileUnionGuildInfo_def ty_HostileUnionInfo_def ty_ItemBrokenGiveData_def
  ty_ItemCollectionSlotRegQty_def ty_ItemCollectionSlots_def ty_ItemData_def
  ty_ItemEnchantRequest_def ty_ItemEnchantResult_def ty_ItemMakeLimitInfo_def
  ty_ItemMakeResultInfo_def ty_ItemOidAndCount_def ty_ItemOptions_def ty_JewelCraftOptionData_def
  ty_KillerInfo_def ty_LegacyCollection_def ty_LegacyCollectionGroup_def ty_LobbyPlayerInfo_def
  ty_MapLimitData_def ty_MasteryData_def ty_MercenaryApplyInfo_def ty_MercenaryRecruitInfo_def
  ty_MoneyData_def ty_MonsterCollectionInfo_def ty_MonsterCollectionOptionReward_def
  ty_MyAuctionElement_def ty_MyGuildInfo_def ty_MyPlayerInfo_def ty_NetworkObjData_def
  ty_PVPLostItemInfo_def ty_PVPRecord_def ty_ParcelInfo_def ty_ParcelTradeRecord_def
  ty_PartyBuffData_def ty_PartyDungeonMemberInfo_def ty_PartyInfo_def ty_PartyMemberData_def
  ty_PetAdventureInfo_def ty_PetInfo_def ty_PetPartyInfo_def ty_PetSlotInfo_def
  ty_PickResultInfo_def ty_PlayerData_def ty_PlayerRankInfo_def ty_PostInfo_def
  ty_PropertyData_def ty_QuestData_def ty_QuickSlotInfo_def ty_RankInfo_def
  ty_RankerStatueInfo_def ty_RePickResultInfo_def ty_RealmMapInfo_def ty_RealmProgressInfo_def
  ty_ReceivedPostInfo_def ty_RelationPlayerInfo_def ty_RestoreData_def ty_RestoreSimpleData_def
  ty_RewardData_def ty_RuneInfo_def ty_RuneLineInfo_def ty_RunePanelInfo_def
  ty_RunePanelSlotInfo_def ty_S2C_MoveNotice_def ty_ScheduleBossDashboardData_def
  ty_ScheduleBossInfo_def ty_SelectPlayerInfo_def ty_ServerTransferDateInfo_def
  ty_ShopItemData_def ty_SiegeWarDominionTaxInfo_def ty_SiegeWarGuardInfo_def ty_SiegeWarInfo_def
  ty_SiegeWarMemberBoardInfo_def ty_SiegeWarMemberInfo_def ty_SiegeWarMemberScoreInfo_def
  ty_SiegeWarObjectInfo_def ty_SiegeWarPlayInfo_def ty_SkillData_def ty_SkillEffectValue_def
  ty_SlayerInfo_def ty_SoulStoneInfo_def ty_SoulStoneRootInfo_def ty_SoulStoneSlotInfo_def
  ty_StatInfo_def ty_StepUpCountRewardInfo_def ty_StorageBoxData_def ty_StoreHotDealData_def
  ty_StoreItemData_def ty_StoreSequenceItemData_def ty_SubSkillPointData_def
  ty_TotalPresetInfo_def ty_TotalPresetSet_def ty_TowerInfo_def ty_TransferCheckData_def
  ty_TransferServerState_def ty_UnequipItemParam_def ty_UnionGuildInfo_def ty_UnionInfo_def
  ty_UnionSimpleInfo_def ty_UniqueItemInfo_def ty_UserBlockInfo_def ty_Vector_def
  ty_WStorageInfo_def ty_WantedInfo_def ty_WarehouseItemMove_def

lemma struct_names_climb:
  "climbs fst '''' structs_1 ''Protocol.ComposeInputInfo''"
  "climbs fst ''Protocol.ComposeInputInfo'' structs_2 ''Protocol.EryndorImprintingInfo''"
  "climbs fst ''Protocol.EryndorImprintingInfo'' structs_3 ''Protocol.GuildJoinRequestPlayerInfo''"
  "climbs fst ''Protocol.GuildJoinRequestPlayerInfo'' structs_4 ''Protocol.ItemMakeResultInfo''"
  "climbs fst ''Protocol.ItemMakeResultInfo'' structs_5 ''Protocol.MyAuctionElement''"
  "climbs fst ''Protocol.MyAuctionElement'' structs_6 ''Protocol.PartyDungeonMemberInfo''"
  "climbs fst ''Protocol.PartyDungeonMemberInfo'' structs_7 ''Protocol.RankerStatueInfo''"
  "climbs fst ''Protocol.RankerStatueInfo'' structs_8 ''Protocol.SiegeWarMemberBoardInfo''"
  "climbs fst ''Protocol.SiegeWarMemberBoardInfo'' structs_9 ''Protocol.TotalPresetSet''"
  "climbs fst ''Protocol.TotalPresetSet'' structs_10 ''Protocol.WarehouseItemMove''"
  by (rule struct_chunks [THEN climbs_chunk],
    (rule climbs_end | (rule climbs_struct, rule struct_names,
      (rule str_lt_same str_lt_end | (rule str_lt_less, simp))+))+)+

end
