(* ===== verification/GoFloat.thy ===== *)
theory GoFloat
  imports Prelude
begin

text \<open>
  Go's \<open>float32\<close> and \<open>float64\<close> as their IEEE 754 bit patterns (what \<open>math.Float32bits\<close> and
  \<open>math.Float64bits\<close> show), with the conversions the program makes: widening, narrowing with
  rounding to nearest (ties to even), integer to \<open>float64\<close>, and truncation to an integer. The
  language leaves the payload of a converted NaN open; the model keeps its high bits and sets
  the quiet bit, as the hardware the server runs on does. The language also leaves the result
  of truncating a value that does not fit open: \<open>f64_trunc\<close> is then \<open>None\<close>.
\<close>

type_synonym f32 = "32 word"
type_synonym f64 = "64 word"

section \<open>Fields of the patterns\<close>

definition f32_sign :: "f32 \<Rightarrow> nat" where "f32_sign b = unat b div 2 ^ 31"
definition f32_exp :: "f32 \<Rightarrow> nat" where "f32_exp b = unat b div 2 ^ 23 mod 2 ^ 8"
definition f32_man :: "f32 \<Rightarrow> nat" where "f32_man b = unat b mod 2 ^ 23"
definition f64_sign :: "f64 \<Rightarrow> nat" where "f64_sign b = unat b div 2 ^ 63"
definition f64_exp :: "f64 \<Rightarrow> nat" where "f64_exp b = unat b div 2 ^ 52 mod 2 ^ 11"
definition f64_man :: "f64 \<Rightarrow> nat" where "f64_man b = unat b mod 2 ^ 52"

definition f32_is_nan :: "f32 \<Rightarrow> bool" where
  "f32_is_nan b \<longleftrightarrow> f32_exp b = 255 \<and> f32_man b \<noteq> 0"

definition f64_is_nan :: "f64 \<Rightarrow> bool" where
  "f64_is_nan b \<longleftrightarrow> f64_exp b = 2047 \<and> f64_man b \<noteq> 0"

definition mk_f32 :: "nat \<Rightarrow> nat \<Rightarrow> f32" where
  "mk_f32 s em = of_nat (s * 2 ^ 31 + em)"

definition mk_f64 :: "nat \<Rightarrow> nat \<Rightarrow> f64" where
  "mk_f64 s em = of_nat (s * 2 ^ 63 + em)"

section \<open>Conversions\<close>

text \<open>The position of the highest set bit (0 for 0).\<close>

fun top_bit :: "nat \<Rightarrow> nat" where
  "top_bit n = (if n < 2 then 0 else Suc (top_bit (n div 2)))"

declare top_bit.simps [simp del]

lemma top_bit_bounds: "0 < n \<Longrightarrow> 2 ^ top_bit n \<le> n \<and> n < 2 * 2 ^ top_bit n"
proof (induction n rule: top_bit.induct)
  case (1 n)
  show ?case
  proof (cases "n < 2")
    case True
    with 1 show ?thesis by (simp add: top_bit.simps [of n])
  next
    case False
    then have "2 ^ top_bit (n div 2) \<le> n div 2" "n div 2 < 2 * 2 ^ top_bit (n div 2)"
      using 1 by simp_all
    moreover have "2 * (n div 2) + n mod 2 = n" "n mod 2 < 2" by simp_all
    ultimately have "2 * 2 ^ top_bit (n div 2) \<le> n \<and> n < 2 * (2 * 2 ^ top_bit (n div 2))"
      by linarith
    then show ?thesis using False by (simp add: top_bit.simps [of n])
  qed
qed

text \<open>\<open>sig / 2 ^ k\<close> rounded to the nearest integer, ties to the even one.\<close>

definition round_shift :: "nat \<Rightarrow> nat \<Rightarrow> nat" where
  "round_shift sig k =
     (let q = sig div 2 ^ k; r = sig mod 2 ^ k in
      if k = 0 then sig
      else if 2 ^ (k - 1) < r \<or> (r = 2 ^ (k - 1) \<and> odd q) then Suc q else q)"

text \<open>\<open>float64(f)\<close> of a \<open>float32\<close>: exact; a subnormal becomes normal.\<close>

definition f64_of_f32 :: "f32 \<Rightarrow> f64" where
  "f64_of_f32 b =
     (let s = f32_sign b; e = f32_exp b; m = f32_man b in
      if e = 255 then
        if m = 0 then mk_f64 s (2047 * 2 ^ 52)
        else mk_f64 s (2047 * 2 ^ 52 + 2 ^ 51 + (m mod 2 ^ 22) * 2 ^ 29)
      else if e = 0 then
        if m = 0 then mk_f64 s 0
        else let k = top_bit m in mk_f64 s ((k + 874) * 2 ^ 52 + (m - 2 ^ k) * 2 ^ (52 - k))
      else mk_f64 s ((e + 896) * 2 ^ 52 + m * 2 ^ 29))"

text \<open>\<open>float32(f)\<close> of a \<open>float64\<close>: round to nearest even, overflow to infinity.\<close>

definition f32_of_f64 :: "f64 \<Rightarrow> f32" where
  "f32_of_f64 b =
     (let s = f64_sign b; e = f64_exp b; m = f64_man b in
      if e = 2047 then
        if m = 0 then mk_f32 s (255 * 2 ^ 23)
        else mk_f32 s (255 * 2 ^ 23 + 2 ^ 22 + (m div 2 ^ 29) mod 2 ^ 22)
      else if e = 0 then mk_f32 s 0
      else if e < 897 then mk_f32 s (round_shift (2 ^ 52 + m) (926 - e))
      else mk_f32 s (min (255 * 2 ^ 23) ((e - 897) * 2 ^ 23 + round_shift (2 ^ 52 + m) 29)))"

text \<open>\<open>float64(n)\<close> of an integer: exact up to 53 bits, rounded to nearest even above.\<close>

definition f64_of_int :: "int \<Rightarrow> f64" where
  "f64_of_int n =
     (let s = (if n < 0 then 1 else 0); a = nat \<bar>n\<bar>; k = top_bit a in
      if a = 0 then 0
      else if k \<le> 52 then mk_f64 s ((k + 1022) * 2 ^ 52 + a * 2 ^ (52 - k))
      else mk_f64 s ((k + 1022) * 2 ^ 52 + round_shift a (k - 52)))"

text \<open>
  The integer part of a \<open>float64\<close>, towards zero: \<open>None\<close> for NaN and the infinities, whose
  conversion the language does not define.
\<close>

definition f64_trunc :: "f64 \<Rightarrow> int option" where
  "f64_trunc b =
     (let e = f64_exp b; m = f64_man b; sg = (if f64_sign b = 0 then 1 else -1) in
      if e = 2047 then None
      else if e < 1023 then Some 0
      else if e < 1075 then Some (sg * int ((2 ^ 52 + m) div 2 ^ (1075 - e)))
      else Some (sg * int ((2 ^ 52 + m) * 2 ^ (e - 1075))))"

section \<open>Narrowing undoes widening\<close>

lemma f32_bounds: "f32_sign b < 2" "f32_exp b < 256" "f32_man b < 2 ^ 23"
  using unsigned_less [of b, where 'a = nat] by (simp_all add: f32_sign_def f32_exp_def f32_man_def)

lemma f32_fields: "mk_f32 (f32_sign b) (f32_exp b * 2 ^ 23 + f32_man b) = b"
proof -
  define u where "u = unat b"
  have d: "u div 2 ^ 23 div 2 ^ 8 = u div 2 ^ 31"
    by (simp add: div_mult2_eq [symmetric])
  have "u = u div 2 ^ 31 * 2 ^ 31 + (u div 2 ^ 23 mod 2 ^ 8 * 2 ^ 23 + u mod 2 ^ 23)"
  proof -
    have "u div 2 ^ 23 * 2 ^ 23 + u mod 2 ^ 23 = u" by simp
    moreover have "u div 2 ^ 31 * 2 ^ 8 + u div 2 ^ 23 mod 2 ^ 8 = u div 2 ^ 23"
      unfolding d [symmetric] by (rule div_mult_mod_eq)
    moreover have "q * 2 ^ 23 + c = u \<Longrightarrow> a * 2 ^ 8 + b = q \<Longrightarrow> u = a * 2 ^ 31 + (b * 2 ^ 23 + c)"
      for a b c q by simp
    ultimately show ?thesis by blast
  qed
  then have "of_nat (u div 2 ^ 31 * 2 ^ 31 + (u div 2 ^ 23 mod 2 ^ 8 * 2 ^ 23 + u mod 2 ^ 23))
      = (of_nat u :: f32)" by simp
  then show ?thesis
    unfolding mk_f32_def f32_sign_def f32_exp_def f32_man_def u_def by simp
qed

lemma mk_f64_fields:
  assumes "s < 2" "e < 2048" "m < 2 ^ 52"
  shows "f64_sign (mk_f64 s (e * 2 ^ 52 + m)) = s"
    and "f64_exp (mk_f64 s (e * 2 ^ 52 + m)) = e"
    and "f64_man (mk_f64 s (e * 2 ^ 52 + m)) = m"
proof -
  have "s * 2 ^ 63 + (e * 2 ^ 52 + m) < 2 ^ 64" using assms by auto
  then have u: "unat (mk_f64 s (e * 2 ^ 52 + m)) = s * 2 ^ 63 + (e * 2 ^ 52 + m)"
    by (simp add: mk_f64_def unat_of_nat take_bit_nat_eq_self del: of_nat_add of_nat_mult)
  have em: "e * 2 ^ 52 + m < 2 ^ 63" using assms by auto
  show "f64_sign (mk_f64 s (e * 2 ^ 52 + m)) = s"
    using em by (simp only: f64_sign_def u) simp
  show "f64_man (mk_f64 s (e * 2 ^ 52 + m)) = m"
  proof -
    have "s * 2 ^ 63 + (e * 2 ^ 52 + m) = (s * 2 ^ 11 + e) * 2 ^ 52 + m" by simp
    then have "(s * 2 ^ 63 + (e * 2 ^ 52 + m)) mod 2 ^ 52 = m mod 2 ^ 52"
      by (simp only: mod_mult_self3)
    then show ?thesis using assms by (simp only: f64_man_def u mod_less)
  qed
  have "(s * 2 ^ 63 + (e * 2 ^ 52 + m)) div 2 ^ 52 = s * 2 ^ 11 + e"
  proof -
    have "s * 2 ^ 63 + (e * 2 ^ 52 + m) = (s * 2 ^ 11 + e) * 2 ^ 52 + m" by simp
    then show ?thesis using assms by (simp only:) simp
  qed
  then show "f64_exp (mk_f64 s (e * 2 ^ 52 + m)) = e"
    using assms by (simp only: f64_exp_def u) simp
qed

lemma round_shift_exact: "round_shift (n * 2 ^ k) k = n"
  by (simp add: round_shift_def Let_def)

lemma f32_of_f64_of_f32:
  assumes "\<not> f32_is_nan b"
  shows "f32_of_f64 (f64_of_f32 b) = b"
proof -
  define s where "s = f32_sign b"
  define e where "e = f32_exp b"
  define m where "m = f32_man b"
  note bd = f32_bounds [of b, folded s_def e_def m_def]
  note fl = f32_fields [of b, folded s_def e_def m_def]
  have w: "f64_of_f32 b =
      (if e = 255 then mk_f64 s (2047 * 2 ^ 52 + 0)
       else if e = 0 then
         if m = 0 then mk_f64 s (0 * 2 ^ 52 + 0)
         else mk_f64 s ((top_bit m + 874) * 2 ^ 52 + (m - 2 ^ top_bit m) * 2 ^ (52 - top_bit m))
       else mk_f64 s ((e + 896) * 2 ^ 52 + m * 2 ^ 29))"
    using assms by (simp add: f64_of_f32_def Let_def s_def e_def m_def f32_is_nan_def)
  consider "e = 255" | "e = 0" "m = 0" | "e = 0" "m \<noteq> 0" | "0 < e" "e < 255"
    using bd by linarith
  then show ?thesis
  proof cases
    case 1
    then have "m = 0" using assms by (simp add: f32_is_nan_def e_def m_def)
    moreover have "f64_of_f32 b = mk_f64 s (2047 * 2 ^ 52 + 0)" using 1 w by simp
    moreover note mk_f64_fields [of s 2047 0]
    ultimately show ?thesis using 1 bd fl by (simp only: f32_of_f64_def Let_def) simp
  next
    case 2
    then have "f64_of_f32 b = mk_f64 s (0 * 2 ^ 52 + 0)" using w by simp
    moreover note mk_f64_fields [of s 0 0]
    ultimately show ?thesis using 2 bd fl by (simp only: f32_of_f64_def Let_def) simp
  next
    case 3
    define k where "k = top_bit m"
    have k: "2 ^ k \<le> m" "m < 2 * 2 ^ k"
      using 3 top_bit_bounds [of m] by (simp_all add: k_def)
    have "k < 23" using k(1) bd(3) by (metis nat_power_less_imp_less numeral_2_eq_2 zero_less_Suc
          order_le_less_trans)
    have r: "(m - 2 ^ k) * 2 ^ (52 - k) < 2 ^ 52"
    proof -
      have "(m - 2 ^ k) * 2 ^ (52 - k) < 2 ^ k * 2 ^ (52 - k)"
        using k by (intro mult_strict_right_mono) auto
      then show ?thesis using \<open>k < 23\<close> by (simp add: power_add [symmetric])
    qed
    have sg: "2 ^ 52 + (m - 2 ^ k) * 2 ^ (52 - k) = m * 2 ^ (52 - k)"
    proof -
      have "(2 :: nat) ^ 52 = 2 ^ k * 2 ^ (52 - k)"
        using \<open>k < 23\<close> by (simp add: power_add [symmetric])
      moreover have "2 ^ k * 2 ^ (52 - k) \<le> m * 2 ^ (52 - k)" using k by simp
      ultimately show ?thesis by (simp only: diff_mult_distrib)
    qed
    have "f64_of_f32 b = mk_f64 s ((k + 874) * 2 ^ 52 + (m - 2 ^ k) * 2 ^ (52 - k))"
      using 3 w by (simp add: k_def)
    moreover note mk_f64_fields [OF bd(1) _ r, of "k + 874"]
    moreover have "926 - (k + 874) = 52 - k" by simp
    ultimately show ?thesis
      using 3 \<open>k < 23\<close> fl sg round_shift_exact [of m "52 - k"]
      by (simp add: f32_of_f64_def Let_def del: power_Suc)
  next
    case 4
    have r: "m * 2 ^ 29 < 2 ^ 52" using bd(3) by simp
    have "f64_of_f32 b = mk_f64 s ((e + 896) * 2 ^ 52 + m * 2 ^ 29)" using 4 w by simp
    moreover note mk_f64_fields [OF bd(1) _ r, of "e + 896"]
    moreover have "2 ^ 52 + m * 2 ^ 29 = (2 ^ 23 + m) * 2 ^ 29" by simp
    moreover have "(e + 896 - 897) * 2 ^ 23 + (2 ^ 23 + m) = e * 2 ^ 23 + m"
      using 4 by (cases e) simp_all
    moreover have "e * 2 ^ 23 + m \<le> 255 * 2 ^ 23" using 4 bd(3) by simp
    ultimately show ?thesis
      using 4 fl round_shift_exact [of "2 ^ 23 + m" 29]
      by (simp only: f32_of_f64_def Let_def) simp
  qed
qed

lemma mk_f32_fields:
  assumes "s < 2" "e < 256" "m < 2 ^ 23"
  shows "f32_sign (mk_f32 s (e * 2 ^ 23 + m)) = s"
    and "f32_exp (mk_f32 s (e * 2 ^ 23 + m)) = e"
    and "f32_man (mk_f32 s (e * 2 ^ 23 + m)) = m"
proof -
  have "s * 2 ^ 31 + (e * 2 ^ 23 + m) < 2 ^ 32" using assms by auto
  then have u: "unat (mk_f32 s (e * 2 ^ 23 + m)) = s * 2 ^ 31 + (e * 2 ^ 23 + m)"
    by (simp add: mk_f32_def unat_of_nat take_bit_nat_eq_self del: of_nat_add of_nat_mult)
  have em: "e * 2 ^ 23 + m < 2 ^ 31" using assms by auto
  have se: "s * 2 ^ 31 + (e * 2 ^ 23 + m) = (s * 2 ^ 8 + e) * 2 ^ 23 + m" by simp
  show "f32_sign (mk_f32 s (e * 2 ^ 23 + m)) = s"
    using em by (simp only: f32_sign_def u) simp
  show "f32_man (mk_f32 s (e * 2 ^ 23 + m)) = m"
    using assms by (simp only: f32_man_def u se mod_mult_self3 mod_less)
  have "(s * 2 ^ 31 + (e * 2 ^ 23 + m)) div 2 ^ 23 = s * 2 ^ 8 + e"
    using assms by (simp only: se) simp
  then show "f32_exp (mk_f32 s (e * 2 ^ 23 + m)) = e"
    using assms by (simp only: f32_exp_def u) simp
qed

lemma f64_of_f32_narrow_nan:
  assumes "f32_is_nan b"
  shows "f64_of_f32 (f32_of_f64 (f64_of_f32 b)) = f64_of_f32 b"
proof -
  define s where "s = f32_sign b"
  define m where "m = f32_man b mod 2 ^ 22"
  have s: "s < 2" by (simp add: s_def f32_bounds)
  have m: "m < 2 ^ 22" by (simp add: m_def)
  have w: "f64_of_f32 b = mk_f64 s (2047 * 2 ^ 52 + (2 ^ 51 + m * 2 ^ 29))"
    using assms by (simp add: f64_of_f32_def f32_is_nan_def Let_def s_def m_def)
  have r: "2 ^ 51 + m * 2 ^ 29 < (2 :: nat) ^ 52" using m by simp
  have e: "2047 < (2048 :: nat)" "255 < (256 :: nat)" by simp_all
  have r': "2 ^ 22 + m < 2 ^ 23" using m by simp
  have nz: "2 ^ 22 + m \<noteq> 0" by simp
  have mm: "(2 ^ 22 + m) mod 2 ^ 22 = m" using m by simp
  have d: "(2 ^ 51 + m * 2 ^ 29) div 2 ^ 29 mod 2 ^ 22 = m"
  proof -
    have "2 ^ 51 + m * 2 ^ 29 = (2 ^ 22 + m) * (2 ^ 29 :: nat)" by simp
    moreover have "(2 ^ 22 + m) * (2 ^ 29 :: nat) div 2 ^ 29 = 2 ^ 22 + m" by simp
    ultimately show ?thesis by (simp only: mm)
  qed
  have n: "f32_of_f64 (f64_of_f32 b) = mk_f32 s (255 * 2 ^ 23 + (2 ^ 22 + m))"
    unfolding w f32_of_f64_def Let_def mk_f64_fields [OF s e(1) r] d by simp
  have bk: "f64_of_f32 (mk_f32 s (255 * 2 ^ 23 + (2 ^ 22 + m))) = mk_f64 s (2047 * 2 ^ 52 + (2 ^ 51 + m * 2 ^ 29))"
    unfolding f64_of_f32_def Let_def mk_f32_fields [OF s e(2) r'] mm
      if_P [OF refl] if_not_P [OF nz] add.assoc by (rule refl)
  show ?thesis unfolding n bk by (rule w [symmetric])
qed

lemma f64_of_f32_narrow [simp]: "f64_of_f32 (f32_of_f64 (f64_of_f32 b)) = f64_of_f32 b"
  by (cases "f32_is_nan b") (simp_all add: f64_of_f32_narrow_nan f32_of_f64_of_f32)

end
