(* ===== verification/Codec.thy ===== *)
theory Codec
  imports Catalog GoFloat
begin

text \<open>
  The runtime codec, \<open>internal/protocol/codec.go\<close>, \<open>primitives.go\<close> and \<open>zero.go\<close>: the reader, the
  writer, the primitive coders, and the type-directed \<open>Encode\<close>, \<open>Decode\<close> and \<open>ZeroValues\<close>.

  A field's type is the string the catalog gives it and is analysed at run time, as in the code.
  The recursion over types is bounded only by the nesting of the catalog's structs, so the
  three functions take fuel, one unit per nested type; running out is the error \<open>OutOfFuel\<close>,
  which stands for Go's stack overflow on a cyclic catalog. \<open>CodecProofs\<close> shows that it does not
  occur when the types resolve.
\<close>

section \<open>Dynamic values\<close>

text \<open>
  The values an \<open>any\<close> can hold, by dynamic type. \<open>VValues\<close> is \<open>protocol.Values\<close>, \<open>VMap\<close> the
  unnamed \<open>map[string]any\<close>; \<open>VNil\<close> is the nil interface.
\<close>

datatype goval =
    VNil
  | VInt i64 | VInt8 byte | VInt16 u16 | VInt32 i32 | VInt64 i64
  | VUint u64 | VUint8 byte | VUint16 u16 | VUint32 u32 | VUint64 u64
  | VFloat32 f32 | VFloat64 f64
  | VBool bool
  | VString string
  | VList "goval list"
  | VValues "string \<Rightarrow> goval option"
  | VMap "string \<Rightarrow> goval option"

type_synonym vals = "string \<Rightarrow> goval option"

text \<open>What \<open>%T\<close> prints.\<close>

fun go_type :: "goval \<Rightarrow> string" where
  "go_type VNil = ''<nil>''"
| "go_type (VInt _) = ''int''"
| "go_type (VInt8 _) = ''int8''"
| "go_type (VInt16 _) = ''int16''"
| "go_type (VInt32 _) = ''int32''"
| "go_type (VInt64 _) = ''int64''"
| "go_type (VUint _) = ''uint''"
| "go_type (VUint8 _) = ''uint8''"
| "go_type (VUint16 _) = ''uint16''"
| "go_type (VUint32 _) = ''uint32''"
| "go_type (VUint64 _) = ''uint64''"
| "go_type (VFloat32 _) = ''float32''"
| "go_type (VFloat64 _) = ''float64''"
| "go_type (VBool _) = ''bool''"
| "go_type (VString _) = ''string''"
| "go_type (VList _) = ''[]interface {}''"
| "go_type (VValues _) = ''protocol.Values''"
| "go_type (VMap _) = ''map[string]interface {}''"

text \<open>The errors of the package, one constructor per message.\<close>

datatype perr =
    ErrStop
  | UnknownMessage string
  | MissingField string string string
  | Expected string string
  | UnsizedArray string string string
  | ExpectedList string string string
  | ExpectedLen string string nat nat
  | ExpectedValues string string
  | CannotEncode string string string
  | CannotZero string string string
  | BodyTooShort nat
  | ImplementationDefined
  | OutOfFuel

section \<open>Reader\<close>

record reader =
  rd_buf :: "byte list"
  rd_pos :: nat

definition need :: "reader \<Rightarrow> nat \<Rightarrow> perr + unit" where
  "need r n = (if rd_pos r + n > length (rd_buf r) then Inl ErrStop else Inr ())"

text \<open>The little-endian value of the \<open>n\<close> bytes at the cursor, and the cursor after them.\<close>

definition rd_le :: "nat \<Rightarrow> reader \<Rightarrow> 'a::len word" where
  "rd_le n r = le_word (take n (drop (rd_pos r) (rd_buf r)))"

definition advance :: "nat \<Rightarrow> reader \<Rightarrow> reader" where
  "advance n r = r\<lparr>rd_pos := rd_pos r + n\<rparr>"

definition r_u8 :: "reader \<Rightarrow> perr + (byte \<times> reader)" where
  "r_u8 r = rbind (need r 1) (\<lambda>_. Inr (rd_buf r ! rd_pos r, advance 1 r))"

definition r_u16 :: "reader \<Rightarrow> perr + (u16 \<times> reader)" where
  "r_u16 r = rbind (need r 2) (\<lambda>_. Inr (rd_le 2 r, advance 2 r))"

definition r_u32 :: "reader \<Rightarrow> perr + (u32 \<times> reader)" where
  "r_u32 r = rbind (need r 4) (\<lambda>_. Inr (rd_le 4 r, advance 4 r))"

definition r_u64 :: "reader \<Rightarrow> perr + (u64 \<times> reader)" where
  "r_u64 r = rbind (need r 8) (\<lambda>_. Inr (rd_le 8 r, advance 8 r))"

text \<open>The loop of \<open>str\<close>: \<open>count\<close> units from the cursor, bounds checked once before it.\<close>

primrec read_units :: "nat \<Rightarrow> reader \<Rightarrow> u16 list \<times> reader" where
  "read_units 0 r = ([], r)"
| "read_units (Suc n) r =
     (let u = rd_le 2 r; (us, r') = read_units n (advance 2 r) in (u # us, r'))"

definition r_str :: "reader \<Rightarrow> perr + (string \<times> reader)" where
  "r_str r =
     rbind (r_u32 r) (\<lambda>(count, r1).
     rbind (need r1 (unat count * 2)) (\<lambda>_.
       let (units, r2) = read_units (unat count) r1 in Inr (string_of_units units, r2)))"

text \<open>The loop of \<open>charArray\<close>: units up to the NUL, which is consumed and dropped.\<close>

function read_chars :: "reader \<Rightarrow> perr + (u16 list \<times> reader)" where
  "read_chars r =
     rbind (r_u16 r) (\<lambda>(ch, r1).
       if ch = 0 then Inr ([], r1)
       else rbind (read_chars r1) (\<lambda>(us, r2). Inr (ch # us, r2)))"
  by pat_completeness auto
termination
  by (relation "measure (\<lambda>r. length (rd_buf r) - rd_pos r)")
    (auto simp: r_u16_def need_def advance_def rbind_eq_Inr split: if_splits)

declare read_chars.simps [simp del]

definition r_charArray :: "reader \<Rightarrow> perr + (string \<times> reader)" where
  "r_charArray r = rbind (read_chars r) (\<lambda>(us, r'). Inr (string_of_units us, r'))"

section \<open>Writer\<close>

text \<open>
  A writer method appends to the buffer; here it is the list of bytes it appends. On an error
  the code abandons the whole buffer, so what was appended before it is not kept either.
\<close>

definition w_u8 :: "byte \<Rightarrow> byte list" where "w_u8 v = [v]"
definition w_u16 :: "u16 \<Rightarrow> byte list" where "w_u16 v = le_bytes 2 v"
definition w_u32 :: "u32 \<Rightarrow> byte list" where "w_u32 v = le_bytes 4 v"
definition w_u64 :: "u64 \<Rightarrow> byte list" where "w_u64 v = le_bytes 8 v"

definition w_str :: "string \<Rightarrow> byte list" where
  "w_str s =
     (let units = units_of_string s in
      w_u32 (of_nat (length units)) @ concat (map w_u16 units))"

definition w_charArray :: "string \<Rightarrow> byte list" where
  "w_charArray s = concat (map w_u16 (units_of_string s)) @ w_u16 0"

section \<open>Primitive coders\<close>

text \<open>
  The coercions of \<open>primitives.go\<close>. A conversion of a float to an integer truncates; where the
  value does not fit, the language leaves the result open and the model stops with
  \<open>ImplementationDefined\<close>.
\<close>

definition trunc_to :: "int \<Rightarrow> int \<Rightarrow> f64 \<Rightarrow> perr + i64" where
  "trunc_to lo hi f =
     (case f64_trunc f of
        None \<Rightarrow> Inl ImplementationDefined
      | Some n \<Rightarrow> if lo \<le> n \<and> n < hi then Inr (word_of_int n) else Inl ImplementationDefined)"

fun toInt64 :: "goval \<Rightarrow> perr + i64" where
  "toInt64 (VInt n) = Inr n"
| "toInt64 (VInt8 n) = Inr (scast n)"
| "toInt64 (VInt16 n) = Inr (scast n)"
| "toInt64 (VInt32 n) = Inr (scast n)"
| "toInt64 (VInt64 n) = Inr n"
| "toInt64 (VUint n) = Inr n"
| "toInt64 (VUint8 n) = Inr (ucast n)"
| "toInt64 (VUint16 n) = Inr (ucast n)"
| "toInt64 (VUint32 n) = Inr (ucast n)"
| "toInt64 (VUint64 n) = Inr n"
| "toInt64 (VFloat64 f) = trunc_to (- (2 ^ 63)) (2 ^ 63) f"
| "toInt64 (VFloat32 f) = trunc_to (- (2 ^ 63)) (2 ^ 63) (f64_of_f32 f)"
| "toInt64 v = Inl (Expected ''integer'' (go_type v))"

fun toUint64 :: "goval \<Rightarrow> perr + u64" where
  "toUint64 (VInt n) = Inr n"
| "toUint64 (VInt8 n) = Inr (scast n)"
| "toUint64 (VInt16 n) = Inr (scast n)"
| "toUint64 (VInt32 n) = Inr (scast n)"
| "toUint64 (VInt64 n) = Inr n"
| "toUint64 (VUint n) = Inr n"
| "toUint64 (VUint8 n) = Inr (ucast n)"
| "toUint64 (VUint16 n) = Inr (ucast n)"
| "toUint64 (VUint32 n) = Inr (ucast n)"
| "toUint64 (VUint64 n) = Inr n"
| "toUint64 (VFloat64 f) = trunc_to 0 (2 ^ 64) f"
| "toUint64 (VFloat32 f) = trunc_to 0 (2 ^ 64) (f64_of_f32 f)"
| "toUint64 v = Inl (Expected ''unsigned integer'' (go_type v))"

fun toFloat64 :: "goval \<Rightarrow> perr + f64" where
  "toFloat64 (VFloat64 f) = Inr f"
| "toFloat64 (VFloat32 f) = Inr (f64_of_f32 f)"
| "toFloat64 (VInt n) = Inr (f64_of_int (sint n))"
| "toFloat64 (VInt32 n) = Inr (f64_of_int (sint n))"
| "toFloat64 (VInt64 n) = Inr (f64_of_int (sint n))"
| "toFloat64 (VUint32 n) = Inr (f64_of_int (uint n))"
| "toFloat64 (VUint64 n) = Inr (f64_of_int (uint n))"
| "toFloat64 v = Inl (Expected ''float'' (go_type v))"

text \<open>One entry of \<open>primitiveDecoders\<close>: read a word, then convert it to the dynamic value.\<close>

definition dec_with :: "(reader \<Rightarrow> perr + ('w \<times> reader)) \<Rightarrow> ('w \<Rightarrow> goval) \<Rightarrow> reader \<Rightarrow> perr + (goval \<times> reader)" where
  "dec_with rd conv r = rbind (rd r) (\<lambda>(v, r'). Inr (conv v, r'))"

definition primitiveDecoders :: "string \<Rightarrow> (reader \<Rightarrow> perr + (goval \<times> reader)) option" where
  "primitiveDecoders = map_of
     [(''System.Int32'', dec_with r_u32 (\<lambda>v. VInt64 (scast v))),
      (''System.UInt32'', dec_with r_u32 (\<lambda>v. VUint64 (ucast v))),
      (''System.Int64'', dec_with r_u64 VInt64),
      (''System.UInt64'', dec_with r_u64 VUint64),
      (''System.Int16'', dec_with r_u16 (\<lambda>v. VInt64 (scast v))),
      (''System.UInt16'', dec_with r_u16 (\<lambda>v. VUint64 (ucast v))),
      (''System.Byte'', dec_with r_u8 (\<lambda>v. VUint64 (ucast v))),
      (''System.SByte'', dec_with r_u8 (\<lambda>v. VInt64 (scast v))),
      (''System.Boolean'', dec_with r_u8 (\<lambda>v. VBool (v \<noteq> 0))),
      (''System.Single'', dec_with r_u32 (\<lambda>v. VFloat64 (f64_of_f32 v))),
      (''System.Double'', dec_with r_u64 VFloat64),
      (''System.String'', dec_with r_str VString),
      (''System.Char[]'', dec_with r_charArray VString)]"

definition enc_bool :: "goval \<Rightarrow> perr + byte list" where
  "enc_bool v =
     (case v of VBool b \<Rightarrow> Inr (w_u8 (if b then 1 else 0)) | _ \<Rightarrow> Inl (Expected ''bool'' (go_type v)))"

definition enc_string :: "(string \<Rightarrow> byte list) \<Rightarrow> goval \<Rightarrow> perr + byte list" where
  "enc_string w v =
     (case v of VString s \<Rightarrow> Inr (w s) | _ \<Rightarrow> Inl (Expected ''string'' (go_type v)))"

definition primitiveEncoders :: "string \<Rightarrow> (goval \<Rightarrow> perr + byte list) option" where
  "primitiveEncoders = map_of
     [(''System.Int32'', \<lambda>v. rbind (toInt64 v) (\<lambda>n. Inr (w_u32 (ucast n)))),
      (''System.UInt32'', \<lambda>v. rbind (toUint64 v) (\<lambda>n. Inr (w_u32 (ucast n)))),
      (''System.Int64'', \<lambda>v. rbind (toInt64 v) (\<lambda>n. Inr (w_u64 n))),
      (''System.UInt64'', \<lambda>v. rbind (toUint64 v) (\<lambda>n. Inr (w_u64 n))),
      (''System.Int16'', \<lambda>v. rbind (toInt64 v) (\<lambda>n. Inr (w_u16 (ucast n)))),
      (''System.UInt16'', \<lambda>v. rbind (toUint64 v) (\<lambda>n. Inr (w_u16 (ucast n)))),
      (''System.Byte'', \<lambda>v. rbind (toUint64 v) (\<lambda>n. Inr (w_u8 (ucast n)))),
      (''System.SByte'', \<lambda>v. rbind (toInt64 v) (\<lambda>n. Inr (w_u8 (ucast n)))),
      (''System.Boolean'', enc_bool),
      (''System.Single'', \<lambda>v. rbind (toFloat64 v) (\<lambda>f. Inr (w_u32 (f32_of_f64 f)))),
      (''System.Double'', \<lambda>v. rbind (toFloat64 v) (\<lambda>f. Inr (w_u64 f))),
      (''System.String'', enc_string w_str),
      (''System.Char[]'', enc_string w_charArray)]"

section \<open>Type strings\<close>

definition listPrefix :: string where
  "listPrefix = ''System.Collections.Generic.List<''"

text \<open>\<open>len(ftype) >= 2 && ftype[len(ftype)-2:] == "[]"\<close> and the element type it leaves.\<close>

definition is_array_type :: "string \<Rightarrow> bool" where
  "is_array_type t \<longleftrightarrow> 2 \<le> length t \<and> drop (length t - 2) t = ''[]''"

definition array_elem :: "string \<Rightarrow> string" where
  "array_elem t = take (length t - 2) t"

definition is_list_type :: "string \<Rightarrow> bool" where
  "is_list_type t \<longleftrightarrow> length listPrefix < length t \<and> take (length listPrefix) t = listPrefix"

definition list_elem :: "string \<Rightarrow> string" where
  "list_elem t = take (length t - 1 - length listPrefix) (drop (length listPrefix) t)"

definition array_key :: "string \<Rightarrow> string \<Rightarrow> string" where
  "array_key owner fname = owner @ ''|'' @ fname"

section \<open>Encode\<close>

text \<open>\<open>v.([]any)\<close> and \<open>v.(Values)\<close>, the latter falling back to \<open>map[string]any\<close>.\<close>

fun as_list :: "goval \<Rightarrow> goval list option" where
  "as_list (VList xs) = Some xs"
| "as_list _ = None"

fun as_values :: "goval \<Rightarrow> vals option" where
  "as_values (VValues m) = Some m"
| "as_values (VMap m) = Some m"
| "as_values _ = None"

text \<open>
  The opcode prefix of a message used as an element; empty for a plain struct. The name the
  opcode is looked up under is \<open>ftype[len("Protocol."):]\<close>; the prefix is nine bytes long.
\<close>

definition elem_opcode :: "catalog \<Rightarrow> string \<Rightarrow> byte list" where
  "elem_opcode cat ftype =
     (if ftype \<in> set (messageFullNames cat) then
        case OpcodeOf cat (drop 9 ftype) of
          (op, True) \<Rightarrow> w_u32 op
        | (_, False) \<Rightarrow> []
      else [])"

text \<open>The loop over a layout that both \<open>Encode\<close> and a nested struct run.\<close>

definition encode_fields ::
    "(string \<Rightarrow> goval \<Rightarrow> string \<Rightarrow> perr + byte list) \<Rightarrow> string \<Rightarrow> field list \<Rightarrow> vals \<Rightarrow> perr + byte list" where
  "encode_fields enc name layout values =
     rbind (map_res (\<lambda>f. case values (fName f) of
         None \<Rightarrow> Inl (MissingField name (fName f) (fType f))
       | Some v \<Rightarrow> enc (fType f) v (fName f)) layout) (\<lambda>outs. Inr (concat outs))"

primrec encodeValue :: "catalog \<Rightarrow> nat \<Rightarrow> string \<Rightarrow> goval \<Rightarrow> string \<Rightarrow> string \<Rightarrow> perr + byte list" where
  "encodeValue cat 0 ftype v owner fname = Inl OutOfFuel"
| "encodeValue cat (Suc n) ftype v owner fname =
     (case primitiveEncoders ftype of
        Some enc \<Rightarrow> enc v
      | None \<Rightarrow>
          if is_array_type ftype then
            (case map_of (fixedArrays cat) (array_key owner fname) of
               None \<Rightarrow> Inl (UnsizedArray ftype owner fname)
             | Some sz \<Rightarrow>
                 (case as_list v of
                    None \<Rightarrow> Inl (ExpectedList owner fname (go_type v))
                  | Some items \<Rightarrow>
                      if length items \<noteq> sz then Inl (ExpectedLen owner fname sz (length items))
                      else rbind (map_res (\<lambda>item. encodeValue cat n (array_elem ftype) item owner fname) items)
                             (\<lambda>outs. Inr (concat outs))))
          else if is_list_type ftype then
            (case as_list v of
               None \<Rightarrow> Inl (ExpectedList owner fname (go_type v))
             | Some items \<Rightarrow>
                 rbind (map_res (\<lambda>item. encodeValue cat n (list_elem ftype) item owner fname) items)
                   (\<lambda>outs. Inr (w_u32 (of_nat (length items)) @ concat outs)))
          else
            (case map_of (structs cat) ftype of
               None \<Rightarrow> Inl (CannotEncode ftype owner fname)
             | Some layout \<Rightarrow>
                 (case as_values v of
                    None \<Rightarrow> Inl (ExpectedValues ftype (go_type v))
                  | Some flds \<Rightarrow>
                      rbind (encode_fields (\<lambda>t fv nm. encodeValue cat n t fv ftype nm) ftype layout flds)
                        (\<lambda>out. Inr (elem_opcode cat ftype @ out)))))"

text \<open>
  The fuel of the top-level calls. The deepest field of the ROM catalog nests eight types
  (\<open>RomCatalog\<close>), so sixteen is more than any of its messages uses.
\<close>

definition codec_fuel :: nat where
  "codec_fuel = 16"

definition full_name :: "message \<Rightarrow> string" where
  "full_name msg = ''Protocol.'' @ msgName msg"

definition Encode :: "catalog \<Rightarrow> string \<Rightarrow> vals \<Rightarrow> perr + byte list" where
  "Encode cat name values =
     (case byName cat name of
        None \<Rightarrow> Inl (UnknownMessage name)
      | Some msg \<Rightarrow>
          rbind (encode_fields (\<lambda>t v nm. encodeValue cat codec_fuel t v (full_name msg) nm)
              name (msgFields msg) values)
            (\<lambda>out. Inr (w_u32 (msgID msg) @ out)))"

section \<open>Decode\<close>

text \<open>\<open>for i := range out { ... }\<close> over a slice of \<open>n\<close> elements.\<close>

primrec decode_items :: "(reader \<Rightarrow> perr + (goval \<times> reader)) \<Rightarrow> nat \<Rightarrow> reader \<Rightarrow> perr + (goval list \<times> reader)" where
  "decode_items dec 0 r = Inr ([], r)"
| "decode_items dec (Suc n) r =
     rbind (dec r) (\<lambda>(v, r1). rbind (decode_items dec n r1) (\<lambda>(vs, r2). Inr (v # vs, r2)))"

text \<open>The loop over a nested struct's layout, which fills the map \<open>out\<close>.\<close>

primrec decode_layout ::
    "(string \<Rightarrow> string \<Rightarrow> reader \<Rightarrow> perr + (goval \<times> reader)) \<Rightarrow> field list \<Rightarrow> vals \<Rightarrow> reader \<Rightarrow> perr + (vals \<times> reader)" where
  "decode_layout dec [] out r = Inr (out, r)"
| "decode_layout dec (f # fs) out r =
     rbind (dec (fType f) (fName f) r) (\<lambda>(v, r1). decode_layout dec fs (out(fName f \<mapsto> v)) r1)"

primrec decodeValue :: "catalog \<Rightarrow> nat \<Rightarrow> string \<Rightarrow> string \<Rightarrow> string \<Rightarrow> reader \<Rightarrow> perr + (goval \<times> reader)" where
  "decodeValue cat 0 ftype owner fname r = Inl OutOfFuel"
| "decodeValue cat (Suc n) ftype owner fname r =
     (case primitiveDecoders ftype of
        Some dec \<Rightarrow> dec r
      | None \<Rightarrow>
          if is_array_type ftype then
            (case map_of (fixedArrays cat) (array_key owner fname) of
               None \<Rightarrow> Inl ErrStop
             | Some sz \<Rightarrow>
                 rbind (decode_items (decodeValue cat n (array_elem ftype) owner fname) sz r)
                   (\<lambda>(out, r'). Inr (VList out, r')))
          else if is_list_type ftype then
            rbind (r_u32 r) (\<lambda>(cnt, r1).
            rbind (decode_items (decodeValue cat n (list_elem ftype) owner fname) (unat cnt) r1)
              (\<lambda>(out, r'). Inr (VList out, r')))
          else
            (case map_of (structs cat) ftype of
               None \<Rightarrow> Inl ErrStop
             | Some layout \<Rightarrow>
                 rbind (if ftype \<in> set (messageFullNames cat)
                        then rbind (r_u32 r) (\<lambda>(_, r1). Inr r1) else Inr r) (\<lambda>r1.
                 rbind (decode_layout (\<lambda>t nm. decodeValue cat n t ftype nm) layout Map.empty r1)
                   (\<lambda>(out, r'). Inr (VValues out, r')))))"

text \<open>The loop of \<open>Decode\<close>: on an error the cursor goes back to the field's mark and the loop ends.\<close>

primrec decode_message_fields ::
    "(string \<Rightarrow> string \<Rightarrow> reader \<Rightarrow> perr + (goval \<times> reader)) \<Rightarrow> field list \<Rightarrow> vals \<Rightarrow> reader \<Rightarrow> vals \<times> reader" where
  "decode_message_fields dec [] values r = (values, r)"
| "decode_message_fields dec (f # fs) values r =
     (case dec (fType f) (fName f) r of
        Inl _ \<Rightarrow> (values, r)
      | Inr (v, r1) \<Rightarrow> decode_message_fields dec fs (values(fName f \<mapsto> v)) r1)"

text \<open>The results of \<open>Decode\<close>; a nil map of values is the empty one (reads of both agree).\<close>

record decoded =
  dc_msg :: "message option"
  dc_values :: vals
  dc_tail :: "byte list"
  dc_err :: "perr option"

definition Decode :: "catalog \<Rightarrow> byte list \<Rightarrow> decoded" where
  "Decode cat body =
     (if length body < 4 then
        \<lparr>dc_msg = None, dc_values = Map.empty, dc_tail = body, dc_err = Some (BodyTooShort (length body))\<rparr>
      else
        let opcode = le_word (take 4 body); r = \<lparr>rd_buf = drop 4 body, rd_pos = 0\<rparr> in
        (case Lookup cat opcode of
           None \<Rightarrow>
             \<lparr>dc_msg = None, dc_values = Map.empty, dc_tail = drop (rd_pos r) (rd_buf r), dc_err = None\<rparr>
         | Some msg \<Rightarrow>
             let (values, r') = decode_message_fields
                   (\<lambda>t nm. decodeValue cat codec_fuel t (full_name msg) nm) (msgFields msg) Map.empty r in
             \<lparr>dc_msg = Some msg, dc_values = values, dc_tail = drop (rd_pos r') (rd_buf r'), dc_err = None\<rparr>))"

section \<open>ZeroValues\<close>

primrec zeroFields :: "(string \<Rightarrow> string \<Rightarrow> perr + goval) \<Rightarrow> field list \<Rightarrow> vals \<Rightarrow> perr + vals" where
  "zeroFields zero [] out = Inr out"
| "zeroFields zero (f # fs) out =
     rbind (zero (fType f) (fName f)) (\<lambda>v. zeroFields zero fs (out(fName f \<mapsto> v)))"

definition zero_primitive :: "string \<Rightarrow> goval option" where
  "zero_primitive ftype =
     (if ftype \<in> {''System.Int32'', ''System.Int64'', ''System.Int16'', ''System.SByte''}
      then Some (VInt64 0)
      else if ftype \<in> {''System.UInt32'', ''System.UInt64'', ''System.UInt16'', ''System.Byte''}
      then Some (VUint64 0)
      else if ftype \<in> {''System.Single'', ''System.Double''} then Some (VFloat64 0)
      else if ftype = ''System.Boolean'' then Some (VBool False)
      else if ftype \<in> {''System.String'', ''System.Char[]''} then Some (VString [])
      else None)"

primrec zeroValue :: "catalog \<Rightarrow> nat \<Rightarrow> string \<Rightarrow> string \<Rightarrow> string \<Rightarrow> perr + goval" where
  "zeroValue cat 0 ftype owner fname = Inl OutOfFuel"
| "zeroValue cat (Suc n) ftype owner fname =
     (case zero_primitive ftype of
        Some v \<Rightarrow> Inr v
      | None \<Rightarrow>
          if is_array_type ftype then
            (case map_of (fixedArrays cat) (array_key owner fname) of
               None \<Rightarrow> Inl (UnsizedArray ftype owner fname)
             | Some sz \<Rightarrow>
                 rbind (map_res (\<lambda>_. zeroValue cat n (array_elem ftype) owner fname) [0..<sz])
                   (\<lambda>out. Inr (VList out)))
          else if is_list_type ftype then Inr (VList [])
          else
            (case map_of (structs cat) ftype of
               Some layout \<Rightarrow>
                 rbind (zeroFields (\<lambda>t nm. zeroValue cat n t ftype nm) layout Map.empty)
                   (\<lambda>m. Inr (VValues m))
             | None \<Rightarrow> Inl (CannotZero ftype owner fname)))"

definition ZeroValues :: "catalog \<Rightarrow> string \<Rightarrow> perr + vals" where
  "ZeroValues cat name =
     (case byName cat name of
        None \<Rightarrow> Inl (UnknownMessage name)
      | Some msg \<Rightarrow>
          zeroFields (\<lambda>t nm. zeroValue cat codec_fuel t (full_name msg) nm) (msgFields msg) Map.empty)"

end
