(* ===== verification/CodecProofs.thy ===== *)
theory CodecProofs
  imports Codec
begin

text \<open>
  What the codec guarantees. \<open>parses\<close> says that a decoder consumes exactly an encoder's output
  and yields a value, whatever stands before and after it; \<open>normValue\<close> is the value the peer
  decodes for the value that was encoded. The locale \<open>element_codec\<close> states the contract
  between an element coder and the loops over lists, arrays and struct layouts; it is
  interpreted on \<open>encodeValue\<close>/\<open>decodeValue\<close> at every fuel.
\<close>

section \<open>Parsing at a position\<close>

definition at :: "byte list \<Rightarrow> byte list \<Rightarrow> reader" where
  "at pre rest = \<lparr>rd_buf = pre @ rest, rd_pos = length pre\<rparr>"

definition parses :: "(reader \<Rightarrow> perr + ('v \<times> reader)) \<Rightarrow> byte list \<Rightarrow> 'v \<Rightarrow> bool" where
  "parses dec out v \<longleftrightarrow> (\<forall>pre post. dec (at pre (out @ post)) = Inr (v, at (pre @ out) post))"

lemma parsesI: "(\<And>pre post. dec (at pre (out @ post)) = Inr (v, at (pre @ out) post)) \<Longrightarrow> parses dec out v"
  by (simp add: parses_def)

lemma parsesD: "parses dec out v \<Longrightarrow> dec (at pre (out @ post)) = Inr (v, at (pre @ out) post)"
  by (simp add: parses_def)

lemma need_at [simp]: "need (at pre rest) n = (if length rest < n then Inl ErrStop else Inr ())"
  by (simp add: need_def at_def)

lemma rd_le_at [simp]: "rd_le n (at pre rest) = le_word (take n rest)"
  by (simp add: rd_le_def at_def)

lemma advance_at [simp]: "advance (length xs) (at pre (xs @ ys)) = at (pre @ xs) ys"
  by (simp add: advance_def at_def)

lemma advance_at_le [simp]: "advance n (at pre (le_bytes n w @ ys)) = at (pre @ le_bytes n w) ys"
  by (simp add: advance_def at_def)

lemma parses_u8: "parses r_u8 (w_u8 v) v"
  by (rule parsesI) (simp add: r_u8_def w_u8_def at_def need_def advance_def nth_append)

lemma parses_u16: "parses r_u16 (w_u16 v) v"
  by (rule parsesI) (simp add: r_u16_def w_u16_def)

lemma parses_u32: "parses r_u32 (w_u32 v) v"
  by (rule parsesI) (simp add: r_u32_def w_u32_def)

lemma parses_u64: "parses r_u64 (w_u64 v) v"
  by (rule parsesI) (simp add: r_u64_def w_u64_def)

lemmas parses_words = parses_u8 parses_u16 parses_u32 parses_u64

lemma length_concat_w_u16 [simp]: "length (concat (map w_u16 us)) = 2 * length us"
  by (induction us) (simp_all add: w_u16_def)

lemma read_units_at:
  "read_units (length us) (at pre (concat (map w_u16 us) @ post)) =
     (us, at (pre @ concat (map w_u16 us)) post)"
proof (induction us arbitrary: pre)
  case Nil
  then show ?case by simp
next
  case (Cons u us)
  show ?case using Cons.IH [of "pre @ w_u16 u"] by (simp add: w_u16_def)
qed

lemma parses_str:
  assumes "length (units_of_string s) < 2 ^ 32"
  shows "parses r_str (w_str s) (string_of_units (units_of_string s))"
proof (rule parsesI)
  fix pre post
  let ?us = "units_of_string s"
  have n: "unat (of_nat (length ?us) :: u32) = length ?us"
    using assms by (simp add: unat_of_nat take_bit_nat_eq_self)
  show "r_str (at pre (w_str s @ post)) =
      Inr (string_of_units ?us, at (pre @ w_str s) post)"
    using parsesD [OF parses_u32, of pre "of_nat (length ?us)"] read_units_at [of ?us]
    by (simp add: r_str_def w_str_def Let_def n)
qed

lemma read_chars_at:
  "0 \<notin> set us \<Longrightarrow>
     read_chars (at pre (concat (map w_u16 us) @ w_u16 0 @ post)) =
       Inr (us, at (pre @ concat (map w_u16 us) @ w_u16 0) post)"
proof (induction us arbitrary: pre)
  case Nil
  then show ?case using parsesD [OF parses_u16, of pre 0 post] by (subst read_chars.simps) simp
next
  case (Cons u us)
  then show ?case
    using parsesD [OF parses_u16, of pre u] Cons.IH [of "pre @ w_u16 u"]
    by (subst read_chars.simps) simp
qed

lemma parses_charArray:
  "0 \<notin> set (units_of_string s) \<Longrightarrow>
     parses r_charArray (w_charArray s) (string_of_units (units_of_string s))"
  by (rule parsesI) (simp add: r_charArray_def w_charArray_def read_chars_at)

lemma parses_dec_with: "parses rd out w \<Longrightarrow> parses (dec_with rd conv) out (conv w)"
  by (simp add: parses_def dec_with_def)

section \<open>The value a peer decodes\<close>

definition norm_with :: "perr + 'w \<Rightarrow> ('w \<Rightarrow> goval) \<Rightarrow> goval option" where
  "norm_with m conv = (case m of Inl _ \<Rightarrow> None | Inr w \<Rightarrow> Some (conv w))"

text \<open>
  A \<open>System.String\<close> carries its unit count in 32 bits; a \<open>System.Char[]\<close> is terminated by a
  NUL, so a string that holds one does not survive.
\<close>

definition norm_string :: "(u16 list \<Rightarrow> bool) \<Rightarrow> goval \<Rightarrow> goval option" where
  "norm_string ok v =
     (case v of
        VString s \<Rightarrow>
          if ok (units_of_string s) then Some (VString (string_of_units (units_of_string s))) else None
      | _ \<Rightarrow> None)"

definition primitiveNorms :: "string \<Rightarrow> (goval \<Rightarrow> goval option) option" where
  "primitiveNorms = map_of
     [(''System.Int32'', \<lambda>v. norm_with (toInt64 v) (\<lambda>n. VInt64 (scast (ucast n :: u32)))),
      (''System.UInt32'', \<lambda>v. norm_with (toUint64 v) (\<lambda>n. VUint64 (ucast (ucast n :: u32)))),
      (''System.Int64'', \<lambda>v. norm_with (toInt64 v) VInt64),
      (''System.UInt64'', \<lambda>v. norm_with (toUint64 v) VUint64),
      (''System.Int16'', \<lambda>v. norm_with (toInt64 v) (\<lambda>n. VInt64 (scast (ucast n :: u16)))),
      (''System.UInt16'', \<lambda>v. norm_with (toUint64 v) (\<lambda>n. VUint64 (ucast (ucast n :: u16)))),
      (''System.Byte'', \<lambda>v. norm_with (toUint64 v) (\<lambda>n. VUint64 (ucast (ucast n :: byte)))),
      (''System.SByte'', \<lambda>v. norm_with (toInt64 v) (\<lambda>n. VInt64 (scast (ucast n :: byte)))),
      (''System.Boolean'', \<lambda>v. case v of VBool b \<Rightarrow> Some (VBool b) | _ \<Rightarrow> None),
      (''System.Single'', \<lambda>v. norm_with (toFloat64 v) (\<lambda>f. VFloat64 (f64_of_f32 (f32_of_f64 f)))),
      (''System.Double'', \<lambda>v. norm_with (toFloat64 v) VFloat64),
      (''System.String'', norm_string (\<lambda>us. length us < 2 ^ 32)),
      (''System.Char[]'', norm_string (\<lambda>us. 0 \<notin> set us))]"

primrec norm_layout ::
    "(string \<Rightarrow> goval \<Rightarrow> string \<Rightarrow> goval option) \<Rightarrow> field list \<Rightarrow> vals \<Rightarrow> vals \<Rightarrow> vals option" where
  "norm_layout nrm [] m out = Some out"
| "norm_layout nrm (f # fs) m out =
     (case m (fName f) of
        None \<Rightarrow> None
      | Some v \<Rightarrow>
          (case nrm (fType f) v (fName f) of
             None \<Rightarrow> None
           | Some v' \<Rightarrow> norm_layout nrm fs m (out(fName f \<mapsto> v'))))"

primrec norm_items :: "(goval \<Rightarrow> goval option) \<Rightarrow> goval list \<Rightarrow> goval list option" where
  "norm_items nrm [] = Some []"
| "norm_items nrm (v # vs) =
     (case nrm v of
        None \<Rightarrow> None
      | Some v' \<Rightarrow> map_option (\<lambda>vs'. v' # vs') (norm_items nrm vs))"

primrec normValue :: "catalog \<Rightarrow> nat \<Rightarrow> string \<Rightarrow> goval \<Rightarrow> string \<Rightarrow> string \<Rightarrow> goval option" where
  "normValue cat 0 ftype v owner fname = None"
| "normValue cat (Suc n) ftype v owner fname =
     (case primitiveNorms ftype of
        Some nrm \<Rightarrow> nrm v
      | None \<Rightarrow>
          if is_array_type ftype then
            (case as_list v of
               None \<Rightarrow> None
             | Some items \<Rightarrow>
                 map_option VList
                   (norm_items (\<lambda>item. normValue cat n (array_elem ftype) item owner fname) items))
          else if is_list_type ftype then
            (case as_list v of
               None \<Rightarrow> None
             | Some items \<Rightarrow>
                 if length items < 2 ^ 32 then
                   map_option VList
                     (norm_items (\<lambda>item. normValue cat n (list_elem ftype) item owner fname) items)
                 else None)
          else
            (case (map_of (structs cat) ftype, as_values v) of
               (Some layout, Some m) \<Rightarrow>
                 map_option VValues
                   (norm_layout (\<lambda>t fv nm. normValue cat n t fv ftype nm) layout m Map.empty)
             | _ \<Rightarrow> None))"

text \<open>A value is canonical for its type when encoding loses nothing of it.\<close>

definition canonical :: "catalog \<Rightarrow> nat \<Rightarrow> string \<Rightarrow> goval \<Rightarrow> string \<Rightarrow> string \<Rightarrow> bool" where
  "canonical cat n ftype v owner fname \<longleftrightarrow> normValue cat n ftype v owner fname = Some v"

section \<open>Primitive round trips\<close>

lemma norm_with_Some: "norm_with m conv = Some v \<longleftrightarrow> (\<exists>w. m = Inr w \<and> v = conv w)"
  by (auto simp: norm_with_def split: sum.splits)

lemma norm_string_Some:
  "norm_string ok v = Some v' \<longleftrightarrow>
     (\<exists>s. v = VString s \<and> ok (units_of_string s) \<and> v' = VString (string_of_units (units_of_string s)))"
  by (auto simp: norm_string_def split: goval.splits)

lemma enc_string_Inr: "enc_string w v = Inr out \<longleftrightarrow> (\<exists>s. v = VString s \<and> out = w s)"
  by (auto simp: enc_string_def split: goval.splits)

lemma enc_bool_Inr: "enc_bool v = Inr out \<longleftrightarrow> (\<exists>b. v = VBool b \<and> out = w_u8 (if b then 1 else 0))"
  by (auto simp: enc_bool_def split: goval.splits)

definition prim_names :: "string list" where
  "prim_names =
     [''System.Int32'', ''System.UInt32'', ''System.Int64'', ''System.UInt64'', ''System.Int16'',
      ''System.UInt16'', ''System.Byte'', ''System.SByte'', ''System.Boolean'', ''System.Single'',
      ''System.Double'', ''System.String'', ''System.Char[]'']"

lemma prim_dom:
  "primitiveEncoders t = None \<longleftrightarrow> t \<notin> set prim_names"
  "primitiveDecoders t = None \<longleftrightarrow> t \<notin> set prim_names"
  "primitiveNorms t = None \<longleftrightarrow> t \<notin> set prim_names"
  "zero_primitive t = None \<longleftrightarrow> t \<notin> set prim_names"
  unfolding primitiveEncoders_def primitiveDecoders_def primitiveNorms_def zero_primitive_def
    map_of_eq_None_iff
  by (simp_all add: prim_names_def)

text \<open>The contract of one primitive: its three functions agree.\<close>

definition prim_coder ::
    "(goval \<Rightarrow> perr + byte list) \<Rightarrow> (reader \<Rightarrow> perr + (goval \<times> reader)) \<Rightarrow> (goval \<Rightarrow> goval option) \<Rightarrow> bool" where
  "prim_coder enc dec nrm \<longleftrightarrow>
     (\<forall>v out v'. enc v = Inr out \<longrightarrow> nrm v = Some v' \<longrightarrow> parses dec out v')"

lemma prim_coder_word:
  assumes "\<And>w. parses rd (wr w) w"
  shows "prim_coder (\<lambda>v. rbind (to v) (\<lambda>n. Inr (wr (f n)))) (dec_with rd conv)
    (\<lambda>v. norm_with (to v) (\<lambda>n. conv (f n)))"
  using assms by (auto simp: prim_coder_def rbind_eq_Inr norm_with_Some intro: parses_dec_with)

lemma prim_coder_word_id:
  assumes "\<And>w. parses rd (wr w) w"
  shows "prim_coder (\<lambda>v. rbind (to v) (\<lambda>n. Inr (wr n))) (dec_with rd conv) (\<lambda>v. norm_with (to v) conv)"
  using prim_coder_word [where f = "\<lambda>n. n", OF assms] .

lemma prim_coder_bool:
  "prim_coder enc_bool (dec_with r_u8 (\<lambda>v. VBool (v \<noteq> 0)))
     (\<lambda>v. case v of VBool b \<Rightarrow> Some (VBool b) | _ \<Rightarrow> None)"
  unfolding prim_coder_def enc_bool_Inr
proof (intro allI impI)
  fix v out v'
  assume "\<exists>b. v = VBool b \<and> out = w_u8 (if b then 1 else 0)"
    and n: "(case v of VBool b \<Rightarrow> Some (VBool b) | _ \<Rightarrow> None) = Some v'"
  then obtain b where b: "v = VBool b" "out = w_u8 (if b then 1 else 0)" by blast
  then have "v' = VBool ((if b then 1 else 0 :: byte) \<noteq> 0)" using n by (cases b) simp_all
  then show "parses (dec_with r_u8 (\<lambda>v. VBool (v \<noteq> 0))) out v'"
    using parses_dec_with [OF parses_u8, of "\<lambda>v. VBool (v \<noteq> 0)" "if b then 1 else 0"] b by simp
qed

lemma prim_coder_strings:
  "prim_coder (enc_string w_str) (dec_with r_str VString) (norm_string (\<lambda>us. length us < 2 ^ 32))"
  "prim_coder (enc_string w_charArray) (dec_with r_charArray VString) (norm_string (\<lambda>us. 0 \<notin> set us))"
  by (auto simp: prim_coder_def enc_string_Inr norm_string_Some
      intro!: parses_dec_with parses_str parses_charArray)

lemmas prim_coders =
  prim_coder_word [OF parses_u8] prim_coder_word [OF parses_u16] prim_coder_word [OF parses_u32]
  prim_coder_word_id [OF parses_u64] prim_coder_bool prim_coder_strings [simplified]

lemma primitives_agree:
  assumes "primitiveEncoders t = Some enc"
  obtains dec nrm where "primitiveDecoders t = Some dec" "primitiveNorms t = Some nrm"
    "prim_coder enc dec nrm"
proof -
  have "t \<in> set prim_names" using assms prim_dom(1) [of t] by force
  then have "\<exists>dec nrm. primitiveDecoders t = Some dec \<and> primitiveNorms t = Some nrm \<and>
      prim_coder enc dec nrm"
    using assms unfolding prim_names_def primitiveEncoders_def primitiveDecoders_def
      primitiveNorms_def set_simps insert_iff empty_iff
    by - (elim disjE FalseE, (simp, hypsubst_thin, rule prim_coders)+)
  then show thesis using that by blast
qed

section \<open>Element coders\<close>

text \<open>
  The contract between a coder for one value and the loops of the codec: what \<open>enc\<close> writes for
  a value of type \<open>t\<close> under field name \<open>nm\<close>, \<open>dec\<close> reads back as \<open>nrm\<close> of that value.
\<close>

locale element_codec =
  fixes enc :: "string \<Rightarrow> goval \<Rightarrow> string \<Rightarrow> perr + byte list"
    and dec :: "string \<Rightarrow> string \<Rightarrow> reader \<Rightarrow> perr + (goval \<times> reader)"
    and nrm :: "string \<Rightarrow> goval \<Rightarrow> string \<Rightarrow> goval option"
  assumes element: "enc t v nm = Inr out \<Longrightarrow> nrm t v nm = Some v' \<Longrightarrow> parses (dec t nm) out v'"
begin

lemma items:
  "map_res (\<lambda>item. enc t item nm) vs = Inr outs \<Longrightarrow> norm_items (\<lambda>v. nrm t v nm) vs = Some vs' \<Longrightarrow>
     parses (decode_items (dec t nm) (length vs)) (concat outs) vs'"
proof (induction vs arbitrary: outs vs')
  case Nil
  then show ?case by (auto intro: parsesI)
next
  case (Cons v vs)
  from Cons.prems(1) obtain o1 os where o: "enc t v nm = Inr o1" "outs = o1 # os"
    "map_res (\<lambda>item. enc t item nm) vs = Inr os" by (auto simp: rbind_eq_Inr)
  from Cons.prems(2) obtain v1 vs1 where v: "nrm t v nm = Some v1" "vs' = v1 # vs1"
    "norm_items (\<lambda>v. nrm t v nm) vs = Some vs1" by (auto split: option.splits)
  show ?case
  proof (rule parsesI)
    fix pre post
    show "decode_items (dec t nm) (length (v # vs)) (at pre (concat outs @ post)) =
        Inr (vs', at (pre @ concat outs) post)"
      using parsesD [OF element [OF o(1) v(1)], of pre "concat os @ post"]
        parsesD [OF Cons.IH [OF o(3) v(3)], of "pre @ o1" post] o v by simp
  qed
qed

lemma layout:
  "encode_fields enc name fs m = Inr out \<Longrightarrow> norm_layout nrm fs m acc = Some acc' \<Longrightarrow>
     parses (decode_layout dec fs acc) out acc'"
proof (induction fs arbitrary: out acc)
  case Nil
  then show ?case by (auto simp: encode_fields_def intro: parsesI)
next
  case (Cons f fs)
  from Cons.prems(2) obtain v v1 where v: "m (fName f) = Some v"
    "nrm (fType f) v (fName f) = Some v1"
    "norm_layout nrm fs m (acc(fName f \<mapsto> v1)) = Some acc'" by (auto split: option.splits)
  from Cons.prems(1) v(1) obtain o1 os where o: "enc (fType f) v (fName f) = Inr o1"
    "encode_fields enc name fs m = Inr os" "out = o1 @ os"
    by (auto simp: encode_fields_def rbind_eq_Inr)
  show ?case
  proof (rule parsesI)
    fix pre post
    show "decode_layout dec (f # fs) acc (at pre (out @ post)) = Inr (acc', at (pre @ out) post)"
      using o(3) by (simp add: parsesD [OF element [OF o(1) v(2)], of pre "os @ post", simplified append.assoc]
        parsesD [OF Cons.IH [OF o(2) v(3)], simplified fun_upd_def [symmetric]] del: fun_upd_apply)
  qed
qed

lemma message_fields:
  "encode_fields enc name fs m = Inr out \<Longrightarrow> norm_layout nrm fs m acc = Some acc' \<Longrightarrow>
     decode_message_fields dec fs acc (at pre (out @ post)) = (acc', at (pre @ out) post)"
proof (induction fs arbitrary: out acc pre)
  case Nil
  then show ?case by (auto simp: encode_fields_def)
next
  case (Cons f fs)
  from Cons.prems(2) obtain v v1 where v: "m (fName f) = Some v"
    "nrm (fType f) v (fName f) = Some v1"
    "norm_layout nrm fs m (acc(fName f \<mapsto> v1)) = Some acc'" by (auto split: option.splits)
  from Cons.prems(1) v(1) obtain o1 os where o: "enc (fType f) v (fName f) = Inr o1"
    "encode_fields enc name fs m = Inr os" "out = o1 @ os"
    by (auto simp: encode_fields_def rbind_eq_Inr)
  show ?case
    using o(3) by (simp add: parsesD [OF element [OF o(1) v(2)]] Cons.IH [OF o(2) v(3)])
qed

end

section \<open>The codec is an element coder at every fuel\<close>

lemma elem_opcode_fullname:
  "ftype \<in> set (messageFullNames cat) \<Longrightarrow> OpcodeOf cat (drop 9 ftype) = (op, True) \<Longrightarrow>
     elem_opcode cat ftype = w_u32 op"
  by (simp add: elem_opcode_def)

text \<open>
  Every element that carries an opcode prefix is a message of the catalog; otherwise the encoder
  would write no prefix where the decoder skips one.
\<close>

definition full_names_known :: "catalog \<Rightarrow> bool" where
  "full_names_known cat \<longleftrightarrow>
     list_all (\<lambda>t. snd (OpcodeOf cat (drop 9 t))) (messageFullNames cat)"

lemma parses_elem_opcode:
  assumes "full_names_known cat"
  shows "(if ftype \<in> set (messageFullNames cat) then rbind (r_u32 (at pre (elem_opcode cat ftype @ post))) (\<lambda>(_, r1). Inr r1)
      else Inr (at pre (elem_opcode cat ftype @ post))) = Inr (at (pre @ elem_opcode cat ftype) post)"
proof (cases "ftype \<in> set (messageFullNames cat)")
  case True
  then have "snd (OpcodeOf cat (drop 9 ftype))"
    using assms by (simp add: full_names_known_def list_all_iff)
  then obtain op where "OpcodeOf cat (drop 9 ftype) = (op, True)"
    by (cases "OpcodeOf cat (drop 9 ftype)") auto
  then show ?thesis
    using True parsesD [OF parses_u32, of pre op] by (simp add: elem_opcode_fullname)
next
  case False
  then show ?thesis by (simp add: elem_opcode_def)
qed

lemma codec_value:
  assumes "full_names_known cat"
  shows "encodeValue cat n t v owner nm = Inr out \<Longrightarrow> normValue cat n t v owner nm = Some v' \<Longrightarrow>
     parses (decodeValue cat n t owner nm) out v'"
proof (induction n arbitrary: t v owner nm out v')
  case 0
  then show ?case by simp
next
  case (Suc n)
  have ec: "element_codec (\<lambda>t v nm. encodeValue cat n t v ow nm) (\<lambda>t nm. decodeValue cat n t ow nm)
      (\<lambda>t v nm. normValue cat n t v ow nm)" for ow
    by (unfold_locales) (rule Suc.IH)
  show ?case
  proof (cases "primitiveEncoders t")
    case (Some enc)
    then obtain dec nrm where p: "primitiveDecoders t = Some dec" "primitiveNorms t = Some nrm"
      "prim_coder enc dec nrm" by (rule primitives_agree)
    then have "parses dec out v'" using Suc.prems Some by (simp add: prim_coder_def)
    then show ?thesis using p by (simp add: parses_def)
  next
    case None
    then have p: "primitiveDecoders t = None" "primitiveNorms t = None" by (simp_all add: prim_dom)
    consider (arr) "is_array_type t" | (lst) "\<not> is_array_type t" "is_list_type t"
      | (str) "\<not> is_array_type t" "\<not> is_list_type t" by blast
    then show ?thesis
    proof cases
      case arr
      from arr None Suc.prems(1) obtain sz items outs where
        e: "map_of (fixedArrays cat) (array_key owner nm) = Some sz" "as_list v = Some items"
        "length items = sz" "out = concat outs"
        "map_res (\<lambda>item. encodeValue cat n (array_elem t) item owner nm) items = Inr outs"
        by (auto simp: rbind_eq_Inr split: option.splits if_splits)
      from arr p Suc.prems(2) e(2) obtain vs' where
        v: "v' = VList vs'" "norm_items (\<lambda>v. normValue cat n (array_elem t) v owner nm) items = Some vs'"
        by auto
      from element_codec.items [OF ec e(5) v(2)] show ?thesis
        using arr p e v by (simp add: parses_def)
    next
      case lst
      from lst None Suc.prems(1) obtain items outs where
        e: "as_list v = Some items" "out = w_u32 (of_nat (length items)) @ concat outs"
        "map_res (\<lambda>item. encodeValue cat n (list_elem t) item owner nm) items = Inr outs"
        by (auto simp: rbind_eq_Inr split: option.splits)
      from lst p Suc.prems(2) e(1) obtain vs' where l: "length items < 2 ^ 32" and
        v: "v' = VList vs'" "norm_items (\<lambda>v. normValue cat n (list_elem t) v owner nm) items = Some vs'"
        by (auto split: if_splits)
      have "unat (of_nat (length items) :: u32) = length items"
        using l by (simp add: unat_of_nat take_bit_nat_eq_self)
      then show ?thesis
        using lst p v e(2) parsesD [OF element_codec.items [OF ec e(3) v(2)]] parsesD [OF parses_u32]
        by (simp add: parses_def)
    next
      case str
      from str None Suc.prems(1) obtain layout m o1 where
        e: "map_of (structs cat) t = Some layout" "as_values v = Some m"
        "out = elem_opcode cat t @ o1"
        "encode_fields (\<lambda>t' fv nm. encodeValue cat n t' fv t nm) t layout m = Inr o1"
        by (auto simp: rbind_eq_Inr split: option.splits)
      from str p Suc.prems(2) e obtain m' where
        v: "v' = VValues m'"
        "norm_layout (\<lambda>t' fv nm. normValue cat n t' fv t nm) layout m Map.empty = Some m'"
        by auto
      show ?thesis
      proof (rule parsesI)
        fix pre post
        let ?pre = "pre @ elem_opcode cat t"
        have l: "decode_layout (\<lambda>t' nm. decodeValue cat n t' t nm) layout Map.empty (at ?pre (o1 @ post)) =
            Inr (m', at (?pre @ o1) post)"
          by (rule parsesD [OF element_codec.layout [OF ec e(4) v(2)]])
        show "decodeValue cat (Suc n) t owner nm (at pre (out @ post)) = Inr (v', at (pre @ out) post)"
          unfolding e(3) append_assoc decodeValue.simps p option.case e(1)
            parses_elem_opcode [OF assms] rbind_simps l
          using str v(1) by simp
      qed
    qed
  qed
qed

interpretation value_codec:
  element_codec "\<lambda>t v nm. if full_names_known cat then encodeValue cat n t v owner nm else Inl OutOfFuel"
    "\<lambda>t nm. decodeValue cat n t owner nm" "\<lambda>t v nm. normValue cat n t v owner nm"
  for cat n owner
  by unfold_locales (auto split: if_splits intro: codec_value)

section \<open>Messages\<close>

definition norm_message :: "catalog \<Rightarrow> message \<Rightarrow> vals \<Rightarrow> vals option" where
  "norm_message cat msg values =
     norm_layout (\<lambda>t v nm. normValue cat codec_fuel t v (full_name msg) nm) (msgFields msg) values Map.empty"

lemma Decode_Encode:
  assumes "coherent cat" "full_names_known cat"
    and "Encode cat name values = Inr body" "byName cat name = Some msg"
    and "norm_message cat msg values = Some values'"
  shows "Decode cat (body @ extra) =
    \<lparr>dc_msg = Some msg, dc_values = values', dc_tail = extra, dc_err = None\<rparr>"
proof -
  obtain out where out: "body = w_u32 (msgID msg) @ out"
    "encode_fields (\<lambda>t v nm. encodeValue cat codec_fuel t v (full_name msg) nm) name (msgFields msg) values = Inr out"
    using assms(3,4) by (auto simp: Encode_def rbind_eq_Inr)
  have "decode_message_fields (\<lambda>t nm. decodeValue cat codec_fuel t (full_name msg) nm) (msgFields msg)
      Map.empty (at [] (out @ extra)) = (values', at ([] @ out) extra)"
    using value_codec.message_fields [of cat codec_fuel "full_name msg" name "msgFields msg" "values" out
        "Map.empty" values' "[]" extra] out(2) assms(2,5)
    by (simp add: norm_message_def)
  moreover have "Lookup cat (msgID msg) = Some msg" by (rule Lookup_byName [OF assms(1,4)])
  moreover have "length (w_u32 (msgID msg)) = 4" by (simp add: w_u32_def)
  ultimately show ?thesis
    using out(1) by (simp add: Decode_def Let_def at_def w_u32_def)
qed

end
