(* ===== verification/CodecTotal.thy ===== *)
theory CodecTotal
  imports CodecProofs
begin

text \<open>
  When the codec succeeds, and what it leaves alone. \<open>resolves\<close> is the check that a type can be
  sized within a given nesting; for such types zero values exist, encode and are read back, and
  a decoder can only stop for lack of bytes. Every decoder consumes a prefix of the unread
  bytes and nothing else (\<open>frames\<close>), and a value it returns can be encoded again and decodes to
  itself.
\<close>

section \<open>Types that can be sized\<close>

primrec resolves :: "catalog \<Rightarrow> nat \<Rightarrow> string \<Rightarrow> string \<Rightarrow> string \<Rightarrow> bool" where
  "resolves cat 0 ftype owner fname \<longleftrightarrow> False"
| "resolves cat (Suc n) ftype owner fname \<longleftrightarrow>
     (case zero_primitive ftype of
        Some _ \<Rightarrow> True
      | None \<Rightarrow>
          if is_array_type ftype then
            (case map_of (fixedArrays cat) (array_key owner fname) of
               None \<Rightarrow> False
             | Some _ \<Rightarrow> resolves cat n (array_elem ftype) owner fname)
          else if is_list_type ftype then resolves cat n (list_elem ftype) owner fname
          else
            (case map_of (structs cat) ftype of
               None \<Rightarrow> False
             | Some layout \<Rightarrow> list_all (\<lambda>f. resolves cat n (fType f) ftype (fName f)) layout))"

definition encodable :: "catalog \<Rightarrow> message \<Rightarrow> bool" where
  "encodable cat msg \<longleftrightarrow>
     list_all (\<lambda>f. resolves cat codec_fuel (fType f) (full_name msg) (fName f)) (msgFields msg)"

text \<open>No field is declared twice in a layout.\<close>

definition layouts_distinct :: "catalog \<Rightarrow> bool" where
  "layouts_distinct cat \<longleftrightarrow>
     list_all (\<lambda>(_, l). distinct (map fName l)) (structs cat) \<and>
     list_all (\<lambda>(_, m). distinct (map fName (msgFields m))) (messages cat)"

lemma layouts_distinctD:
  "layouts_distinct cat \<Longrightarrow> map_of (structs cat) t = Some l \<Longrightarrow> distinct (map fName l)"
  by (auto simp: layouts_distinct_def list_all_iff dest!: map_of_SomeD)

lemma layouts_distinct_msg:
  "layouts_distinct cat \<Longrightarrow> byName cat name = Some m \<Longrightarrow> distinct (map fName (msgFields m))"
  using byName_SomeD [of cat name m] by (fastforce simp: layouts_distinct_def list_all_iff)

section \<open>A decoder reads a prefix\<close>

definition frames :: "(reader \<Rightarrow> perr + ('v \<times> reader)) \<Rightarrow> bool" where
  "frames dec \<longleftrightarrow>
     (\<forall>pre rest v r'. dec (at pre rest) = Inr (v, r') \<longrightarrow>
        (\<exists>out post. rest = out @ post \<and> r' = at (pre @ out) post))"

lemma framesI:
  "(\<And>pre rest v r'. dec (at pre rest) = Inr (v, r') \<Longrightarrow>
      \<exists>out post. rest = out @ post \<and> r' = at (pre @ out) post) \<Longrightarrow> frames dec"
  by (simp add: frames_def)

lemma framesE:
  assumes "frames dec" "dec (at pre rest) = Inr (v, r')"
  obtains out post where "rest = out @ post" "r' = at (pre @ out) post"
  using assms unfolding frames_def by blast

lemma advance_at_take: "n \<le> length rest \<Longrightarrow> advance n (at pre rest) = at (pre @ take n rest) (drop n rest)"
  by (simp add: advance_def at_def)

lemma frames_need:
  assumes "\<And>r. dec r = rbind (need r n) (\<lambda>_. Inr (f r, advance n r))"
  shows "frames dec"
proof (rule framesI)
  fix pre rest v r' assume "dec (at pre rest) = Inr (v, r')"
  then have "n \<le> length rest" "r' = advance n (at pre rest)"
    by (auto simp: assms rbind_eq_Inr split: if_splits)
  then show "\<exists>out post. rest = out @ post \<and> r' = at (pre @ out) post"
    by (intro exI [of _ "take n rest"] exI [of _ "drop n rest"]) (simp add: advance_at_take)
qed

lemma frames_words: "frames r_u8" "frames r_u16" "frames r_u32" "frames r_u64"
  by (rule frames_need, simp add: r_u8_def r_u16_def r_u32_def r_u64_def)+

lemma frames_bind:
  assumes "frames d" "\<And>x. frames (k x)"
  shows "frames (\<lambda>r. rbind (d r) (\<lambda>(x, r1). k x r1))"
proof (rule framesI)
  fix pre rest v r' assume "rbind (d (at pre rest)) (\<lambda>(x, r1). k x r1) = Inr (v, r')"
  then obtain x r1 where d: "d (at pre rest) = Inr (x, r1)" and k: "k x r1 = Inr (v, r')"
    by (auto simp: rbind_eq_Inr)
  from framesE [OF assms(1) d] obtain o1 p1 where o1: "rest = o1 @ p1" "r1 = at (pre @ o1) p1" .
  from framesE [OF assms(2) k [unfolded o1(2)]] obtain o2 p2
    where "p1 = o2 @ p2" "r' = at ((pre @ o1) @ o2) p2" .
  with o1 show "\<exists>out post. rest = out @ post \<and> r' = at (pre @ out) post"
    by (intro exI [of _ "o1 @ o2"] exI [of _ p2]) simp
qed

lemma frames_ret: "frames (\<lambda>r. Inr (v, r))"
  by (rule framesI) (simp add: exI [of _ "[]"])

lemma frames_fail: "frames (\<lambda>r. Inl e)"
  by (rule framesI) auto

lemma frames_map: "frames d \<Longrightarrow> frames (\<lambda>r. rbind (d r) (\<lambda>(x, r1). Inr (g x, r1)))"
  by (erule frames_bind) (rule frames_ret)

lemma frames_dec_with: "frames rd \<Longrightarrow> frames (dec_with rd conv)"
  unfolding dec_with_def [abs_def] by (rule frames_map)

lemma read_units_frame:
  "2 * n \<le> length rest \<Longrightarrow>
     snd (read_units n (at pre rest)) = at (pre @ take (2 * n) rest) (drop (2 * n) rest)"
proof (induction n arbitrary: pre rest)
  case (Suc n)
  then have "snd (read_units n (at (pre @ take 2 rest) (drop 2 rest))) =
      at ((pre @ take 2 rest) @ take (2 * n) (drop 2 rest)) (drop (2 * n) (drop 2 rest))"
    by (intro Suc.IH) simp
  moreover have "take 2 rest @ take (2 * n) (drop 2 rest) = take (2 * Suc n) rest"
    using take_add [of 2 "2 * n" rest] by simp
  ultimately show ?case
    using Suc.prems by (simp add: advance_at_take Let_def split_beta add.commute)
qed simp

lemma frames_str: "frames r_str"
  unfolding r_str_def [abs_def]
proof (rule frames_bind [OF frames_words(3)], rule framesI)
  fix count :: u32 and pre rest v r'
  assume "rbind (need (at pre rest) (unat count * 2)) (\<lambda>_. let (units, r2) = read_units (unat count) (at pre rest)
      in Inr (string_of_units units, r2)) = Inr (v, r')"
  then have l: "2 * unat count \<le> length rest" and r: "r' = snd (read_units (unat count) (at pre rest))"
    by (auto simp: rbind_eq_Inr Let_def split: if_splits prod.splits)
  then show "\<exists>out post. rest = out @ post \<and> r' = at (pre @ out) post"
    by (metis read_units_frame append_take_drop_id)
qed

lemma frames_chars: "read_chars (at pre rest) = Inr (us, r') \<Longrightarrow>
    \<exists>out post. rest = out @ post \<and> r' = at (pre @ out) post"
proof (induction "length rest" arbitrary: pre rest us r' rule: less_induct)
  case less
  from less.prems obtain ch r1 where u: "r_u16 (at pre rest) = Inr (ch, r1)"
    by (subst (asm) read_chars.simps) (auto simp: rbind_eq_Inr)
  have n: "2 \<le> length rest" using u by (auto simp: r_u16_def rbind_eq_Inr split: if_splits)
  have r1: "r1 = at (pre @ take 2 rest) (drop 2 rest)"
    using u n by (auto simp: r_u16_def rbind_eq_Inr advance_at_take split: if_splits)
  show ?case
  proof (cases "ch = 0")
    case True
    then have "r' = r1" using less.prems u by (subst (asm) read_chars.simps) simp
    then show ?thesis using r1 by (metis append_take_drop_id)
  next
    case False
    then obtain us1 where "read_chars (at (pre @ take 2 rest) (drop 2 rest)) = Inr (us1, r')"
      using less.prems u r1 by (subst (asm) read_chars.simps) (auto simp: rbind_eq_Inr)
    moreover have "length (drop 2 rest) < length rest" using n by simp
    ultimately obtain o2 p2
      where o: "drop 2 rest = o2 @ p2" "r' = at ((pre @ take 2 rest) @ o2) p2"
      using less.hyps by blast
    then have "rest = (take 2 rest @ o2) @ p2" by (metis append_assoc append_take_drop_id)
    moreover have "r' = at (pre @ (take 2 rest @ o2)) p2" using o(2) by simp
    ultimately show ?thesis by blast
  qed
qed

lemma frames_charArray: "frames r_charArray"
  unfolding r_charArray_def [abs_def] by (rule frames_map, rule framesI, rule frames_chars)

lemmas frames_prims = frames_dec_with frames_words frames_str frames_charArray

lemma frames_primitive: "primitiveDecoders t = Some dec \<Longrightarrow> frames dec"
  unfolding primitiveDecoders_def
  by (auto split: if_splits intro: frames_prims)

text \<open>The loops over a framing element reader frame; this is the contract of the interface.\<close>

locale element_reader =
  fixes dec :: "string \<Rightarrow> string \<Rightarrow> reader \<Rightarrow> perr + (goval \<times> reader)"
  assumes framing: "frames (dec t nm)"
begin

lemma items_frame: "frames (decode_items (dec t nm) n)"
proof (induction n)
  case 0
  then show ?case using frames_ret [of "[]"] by (simp add: frames_def)
next
  case (Suc n)
  then show ?case unfolding decode_items.simps [abs_def] by (intro frames_bind frames_map framing)
qed

lemma layout_frame: "frames (decode_layout dec fs acc)"
proof (induction fs arbitrary: acc)
  case Nil
  then show ?case using frames_ret [of acc] by (simp add: frames_def)
next
  case (Cons f fs)
  then show ?case unfolding decode_layout.simps [abs_def] by (intro frames_bind framing)
qed

lemma message_frame:
  "decode_message_fields dec fs acc (at pre rest) = (vs, r') \<Longrightarrow>
     \<exists>out post. rest = out @ post \<and> r' = at (pre @ out) post"
proof (induction fs arbitrary: acc pre rest)
  case (Cons f fs)
  show ?case
  proof (cases "dec (fType f) (fName f) (at pre rest)")
    case (Inl e)
    then have "r' = at (pre @ []) rest" using Cons.prems by simp
    then show ?thesis by blast
  next
    case (Inr p)
    then obtain v r1 where d: "dec (fType f) (fName f) (at pre rest) = Inr (v, r1)" by (cases p) auto
    from framesE [OF framing d] obtain o1 p1 where o1: "rest = o1 @ p1" "r1 = at (pre @ o1) p1" .
    have "decode_message_fields dec fs (acc(fName f \<mapsto> v)) (at (pre @ o1) p1) = (vs, r')"
      using Cons.prems d o1(2) by simp
    from Cons.IH [OF this] obtain o2 p2 where "p1 = o2 @ p2" "r' = at ((pre @ o1) @ o2) p2" by blast
    with o1 show ?thesis by (intro exI [of _ "o1 @ o2"] exI [of _ p2]) simp
  qed
qed (auto intro: exI [of _ "[]"])

end

lemma decodeValue_frames: "frames (decodeValue cat n t owner nm)"
proof (induction n arbitrary: t owner nm)
  case 0
  then show ?case by (simp add: frames_def)
next
  case (Suc n)
  have er: "element_reader (\<lambda>t nm. decodeValue cat n t ow nm)" for ow
    by unfold_locales (rule Suc.IH)
  note fr = element_reader.items_frame [OF er] element_reader.layout_frame [OF er]
  show ?case
  proof (cases "primitiveDecoders t")
    case (Some dec)
    then show ?thesis using frames_primitive [OF Some] by (simp add: frames_def)
  next
    case None
    have skip: "frames (\<lambda>r. rbind (if b then rbind (r_u32 r) (\<lambda>(_, r1). Inr r1) else Inr r) k)" if "frames k"
      for b and k :: "reader \<Rightarrow> perr + (goval \<times> reader)"
    proof (cases b)
      case True
      have "rbind (rbind m (\<lambda>(_, r1). Inr r1)) k = rbind m (\<lambda>(_, r1). k r1)" for m :: "perr + (u32 \<times> reader)"
        by (cases m) auto
      then show ?thesis using True frames_bind [OF frames_words(3) that] by simp
    qed (simp add: that)
    consider "is_array_type t" | "\<not> is_array_type t" "is_list_type t"
      | "\<not> is_array_type t" "\<not> is_list_type t" by blast
    then show ?thesis
    proof cases
      case 1
      then show ?thesis unfolding decodeValue.simps [abs_def] None
        by (cases "map_of (fixedArrays cat) (array_key owner nm)")
          (auto intro!: frames_fail frames_map [OF fr(1)])
    next
      case 2
      then show ?thesis unfolding decodeValue.simps [abs_def] None
        by (auto intro!: frames_bind [OF frames_words(3)] frames_map [OF fr(1)])
    next
      case 3
      then show ?thesis unfolding decodeValue.simps [abs_def] None
        by (cases "map_of (structs cat) t")
          (simp_all add: frames_fail skip [OF frames_map [OF fr(2)]] del: if_split)
    qed
  qed
qed

interpretation value_reader: element_reader "\<lambda>t nm. decodeValue cat n t owner nm" for cat n owner
  by unfold_locales (rule decodeValue_frames)

section \<open>What a decoder returns can be encoded and decodes to itself\<close>

definition prim_stable ::
    "(goval \<Rightarrow> perr + byte list) \<Rightarrow> (reader \<Rightarrow> perr + (goval \<times> reader)) \<Rightarrow> (goval \<Rightarrow> goval option) \<Rightarrow> bool" where
  "prim_stable enc dec nrm \<longleftrightarrow>
     (\<forall>r v r'. dec r = Inr (v, r') \<longrightarrow> is_ok (enc v) \<and> nrm v = Some v)"

lemma prim_stable_with:
  assumes "\<And>w. is_ok (enc (conv w))" "\<And>w. nrm (conv w) = Some (conv w)"
  shows "prim_stable enc (dec_with rd conv) nrm"
  using assms by (auto simp: prim_stable_def dec_with_def rbind_eq_Inr)

lemma read_units_length: "length (fst (read_units n r)) = n"
  by (induction n arbitrary: r) (simp_all add: Let_def split_beta)

lemma prim_stable_str:
  "prim_stable (enc_string w_str) (dec_with r_str VString) (norm_string (\<lambda>us. length us < 4294967296))"
proof -
  have "length (units_of_string s) < 4294967296" if "r_str r = Inr (s, r')" for r s r'
  proof -
    from that obtain count r1 where
      s: "s = string_of_units (fst (read_units (unat (count :: u32)) r1))"
      by (auto simp: r_str_def rbind_eq_Inr Let_def split_beta)
    have "length (units_of_string s) \<le> unat count"
      using length_utf16_reencode [of "fst (read_units (unat count) r1)"]
      by (simp add: s units_of_string_def read_units_length)
    then show ?thesis using unsigned_less [of count, where 'a = nat] by simp
  qed
  moreover have "valid_utf8 s" if "r_str r = Inr (s, r')" for r s r'
    using that by (auto simp: r_str_def rbind_eq_Inr Let_def split_beta)
  ultimately show ?thesis
    by (auto simp: prim_stable_def dec_with_def rbind_eq_Inr enc_string_def norm_string_def)
qed

lemma read_chars_nonzero: "read_chars r = Inr (us, r') \<Longrightarrow> 0 \<notin> set us"
proof (induction r arbitrary: us r' rule: read_chars.induct)
  case (1 r)
  from "1.prems" obtain ch r1 where u: "r_u16 r = Inr (ch, r1)"
    by (subst (asm) read_chars.simps) (auto simp: rbind_eq_Inr)
  show ?case
  proof (cases "ch = 0")
    case True
    then show ?thesis using "1.prems" u by (subst (asm) read_chars.simps) simp
  next
    case False
    then obtain us1 r2 where "read_chars r1 = Inr (us1, r2)" "us = ch # us1"
      using "1.prems" u by (subst (asm) read_chars.simps) (auto simp: rbind_eq_Inr)
    then show ?thesis using "1.IH" [OF u refl False] False by auto
  qed
qed

lemma prim_stable_charArray:
  "prim_stable (enc_string w_charArray) (dec_with r_charArray VString) (norm_string (\<lambda>us. 0 \<notin> set us))"
proof -
  have "0 \<notin> set (units_of_string s) \<and> valid_utf8 s" if "r_charArray r = Inr (s, r')" for r s r'
  proof -
    from that obtain us where us: "read_chars r = Inr (us, r')" and s: "s = string_of_units us"
      by (auto simp: r_charArray_def rbind_eq_Inr)
    have "0 \<notin> set (utf16_decode us)" using read_chars_nonzero [OF us] utf16_decode_nul by blast
    then show ?thesis by (simp add: s units_of_string_def utf16_encode_nul)
  qed
  then show ?thesis
    by (auto simp: prim_stable_def dec_with_def rbind_eq_Inr enc_string_def norm_string_def)
qed

lemmas prim_stables =
  prim_stable_with prim_stable_str prim_stable_charArray

lemma primitives_stable:
  assumes "primitiveDecoders t = Some dec"
  obtains enc nrm where "primitiveEncoders t = Some enc" "primitiveNorms t = Some nrm"
    "prim_stable enc dec nrm"
proof -
  have "t \<in> set prim_names" using assms prim_dom(2) [of t] by force
  then have "\<exists>enc nrm. primitiveEncoders t = Some enc \<and> primitiveNorms t = Some nrm \<and>
      prim_stable enc dec nrm"
    using assms unfolding prim_names_def primitiveEncoders_def primitiveDecoders_def
      primitiveNorms_def set_simps insert_iff empty_iff
    by - (elim disjE FalseE, (simp, hypsubst_thin, rule prim_stables;
        simp add: norm_with_def enc_bool_def)+)
  then show thesis using that by blast
qed

lemma is_ok_encode_fields:
  "is_ok (encode_fields enc name fs m) \<longleftrightarrow>
     (\<forall>f\<in>set fs. \<exists>v. m (fName f) = Some v \<and> is_ok (enc (fType f) v (fName f)))"
  by (auto simp: encode_fields_def is_ok_rbind is_ok_map_res simp flip: is_ok_iff split: option.splits)

locale stable_codec = element_reader dec
  for dec :: "string \<Rightarrow> string \<Rightarrow> reader \<Rightarrow> perr + (goval \<times> reader)" +
  fixes enc :: "string \<Rightarrow> goval \<Rightarrow> string \<Rightarrow> perr + byte list"
    and nrm :: "string \<Rightarrow> goval \<Rightarrow> string \<Rightarrow> goval option"
  assumes stable: "dec t nm r = Inr (v, r') \<Longrightarrow> is_ok (enc t v nm) \<and> nrm t v nm = Some v"
begin

lemma items_stable:
  "decode_items (dec t nm) n r = Inr (vs, r') \<Longrightarrow>
     length vs = n \<and> is_ok (map_res (\<lambda>item. enc t item nm) vs) \<and>
     norm_items (\<lambda>v. nrm t v nm) vs = Some vs"
proof (induction n arbitrary: r vs)
  case (Suc n)
  then obtain v r1 vs1 where "dec t nm r = Inr (v, r1)" "decode_items (dec t nm) n r1 = Inr (vs1, r')"
    "vs = v # vs1" by (auto simp: rbind_eq_Inr)
  then show ?case using stable [of t nm r v r1] Suc.IH [of r1 vs1]
    by (auto simp: is_ok_map_res simp del: map_res.simps)
qed simp

lemma layout_stable:
  "decode_layout dec fs acc r = Inr (acc', r') \<Longrightarrow> distinct (map fName fs) \<Longrightarrow>
     (\<forall>k. k \<notin> fName ` set fs \<longrightarrow> acc' k = acc k) \<and> is_ok (encode_fields enc name fs acc') \<and>
     norm_layout nrm fs acc' acc = Some acc'"
proof (induction fs arbitrary: acc r)
  case Nil
  then show ?case by (simp add: encode_fields_def)
next
  case (Cons f fs)
  from Cons.prems(1) obtain v r1 where d: "dec (fType f) (fName f) r = Inr (v, r1)"
    and l: "decode_layout dec fs (acc(fName f \<mapsto> v)) r1 = Inr (acc', r')"
    by (auto simp: rbind_eq_Inr)
  have ih: "\<forall>k. k \<notin> fName ` set fs \<longrightarrow> acc' k = (acc(fName f \<mapsto> v)) k"
    "is_ok (encode_fields enc name fs acc')" "norm_layout nrm fs acc' (acc(fName f \<mapsto> v)) = Some acc'"
    using Cons.IH [OF l] Cons.prems(2) unfolding list.map distinct.simps by blast+
  have v: "acc' (fName f) = Some v" using ih(1) Cons.prems(2) by simp
  have "is_ok (encode_fields enc name (f # fs) acc')"
    using ih(2) stable [OF d] v by (simp add: is_ok_encode_fields)
  moreover have "norm_layout nrm (f # fs) acc' acc = Some acc'"
    using ih(3) stable [OF d] v by (simp del: fun_upd_apply)
  ultimately show ?case using ih(1) by auto
qed

lemma message_stable:
  "decode_message_fields dec fs acc r = (acc', r') \<Longrightarrow> distinct (map fName fs) \<Longrightarrow>
     \<forall>f\<in>set fs. acc (fName f) = None \<and> acc' (fName f) \<noteq> None \<Longrightarrow>
     (\<forall>k. k \<notin> fName ` set fs \<longrightarrow> acc' k = acc k) \<and> is_ok (encode_fields enc name fs acc') \<and>
     norm_layout nrm fs acc' acc = Some acc'"
proof (induction fs arbitrary: acc r)
  case Nil
  then show ?case by (simp add: encode_fields_def)
next
  case (Cons f fs)
  from Cons.prems obtain v r1 where d: "dec (fType f) (fName f) r = Inr (v, r1)"
    and l: "decode_message_fields dec fs (acc(fName f \<mapsto> v)) r1 = (acc', r')"
    by (cases "dec (fType f) (fName f) r") auto
  have nx: "\<forall>f'\<in>set fs. (acc(fName f \<mapsto> v)) (fName f') = None \<and> acc' (fName f') \<noteq> None"
    using Cons.prems(2,3) by (auto simp: rev_image_eqI)
  have ih: "\<forall>k. k \<notin> fName ` set fs \<longrightarrow> acc' k = (acc(fName f \<mapsto> v)) k"
    "is_ok (encode_fields enc name fs acc')" "norm_layout nrm fs acc' (acc(fName f \<mapsto> v)) = Some acc'"
    using Cons.IH [OF l _ nx] Cons.prems(2) unfolding list.map distinct.simps by blast+
  have v: "acc' (fName f) = Some v" using ih(1) Cons.prems(2) by simp
  have "is_ok (encode_fields enc name (f # fs) acc')"
    using ih(2) stable [OF d] v by (simp add: is_ok_encode_fields)
  moreover have "norm_layout nrm (f # fs) acc' acc = Some acc'"
    using ih(3) stable [OF d] v by (simp del: fun_upd_apply)
  ultimately show ?case using ih(1) by auto
qed

end

lemma decodeValue_stable:
  assumes "layouts_distinct cat"
  shows "decodeValue cat n t owner nm r = Inr (v, r') \<Longrightarrow>
    is_ok (encodeValue cat n t v owner nm) \<and> normValue cat n t v owner nm = Some v"
proof (induction n arbitrary: t owner nm r v r')
  case 0
  then show ?case by simp
next
  case (Suc n)
  have sc: "stable_codec (\<lambda>t nm. decodeValue cat n t ow nm) (\<lambda>t v nm. encodeValue cat n t v ow nm)
      (\<lambda>t v nm. normValue cat n t v ow nm)" for ow
    by unfold_locales (rule decodeValue_frames, erule Suc.IH)
  show ?case
  proof (cases "primitiveDecoders t")
    case (Some dec)
    then obtain enc nrm where "primitiveEncoders t = Some enc" "primitiveNorms t = Some nrm"
      "prim_stable enc dec nrm" by (rule primitives_stable)
    then show ?thesis using Suc.prems Some by (auto simp: prim_stable_def)
  next
    case None
    then have p: "primitiveEncoders t = None" "primitiveNorms t = None" by (simp_all add: prim_dom)
    consider (arr) "is_array_type t" | (lst) "\<not> is_array_type t" "is_list_type t"
      | (str) "\<not> is_array_type t" "\<not> is_list_type t" by blast
    then show ?thesis
    proof cases
      case arr
      from arr None Suc.prems obtain sz out where
        d: "map_of (fixedArrays cat) (array_key owner nm) = Some sz" "v = VList out"
        "decode_items (decodeValue cat n (array_elem t) owner nm) sz r = Inr (out, r')"
        by (auto simp: rbind_eq_Inr split: option.splits)
      from stable_codec.items_stable [OF sc d(3)] show ?thesis
        using arr p d(1,2) by (auto simp: is_ok_rbind is_ok_iff)
    next
      case lst
      from lst None Suc.prems obtain cnt r1 out where
        d: "v = VList out" "decode_items (decodeValue cat n (list_elem t) owner nm) (unat (cnt :: u32)) r1 = Inr (out, r')"
        by (auto simp: rbind_eq_Inr)
      have "unat cnt < 4294967296" using unsigned_less [of cnt, where 'a = nat] by simp
      with stable_codec.items_stable [OF sc d(2)] show ?thesis
        using lst p d(1) by (auto simp: is_ok_rbind is_ok_iff)
    next
      case str
      from str None Suc.prems obtain layout r1 out where
        d: "map_of (structs cat) t = Some layout" "v = VValues out"
        "decode_layout (\<lambda>t' nm. decodeValue cat n t' t nm) layout Map.empty r1 = Inr (out, r')"
        by (auto simp: rbind_eq_Inr split: option.splits)
      from stable_codec.layout_stable [where name = t, OF sc d(3) layouts_distinctD [OF assms d(1)]] show ?thesis
        using str p d(1,2) by (auto simp: is_ok_rbind is_ok_iff)
    qed
  qed
qed

interpretation value_stable:
  stable_codec "\<lambda>t nm r. if layouts_distinct cat then decodeValue cat n t owner nm r else Inl OutOfFuel"
    "\<lambda>t v nm. encodeValue cat n t v owner nm" "\<lambda>t v nm. normValue cat n t v owner nm"
  for cat n owner
  by unfold_locales
    (auto simp: frames_def decodeValue_frames [unfolded frames_def] dest: decodeValue_stable split: if_splits)

section \<open>Sized types: zero values, and the only way to fail\<close>

lemma map_res_const: "f = (\<lambda>_. Inr v) \<Longrightarrow> map_res f xs = Inr (replicate (length xs) v)"
  by (induction xs) simp_all

lemma norm_items_replicate: "nrm v = Some v \<Longrightarrow> norm_items nrm (replicate n v) = Some (replicate n v)"
  by (induction n) simp_all

lemma is_ok_map_res_replicate: "is_ok (f v) \<Longrightarrow> is_ok (map_res f (replicate n v))"
  by (auto simp: is_ok_map_res)

lemma zero_primitive_ok:
  assumes "zero_primitive t = Some v"
  obtains enc nrm where "primitiveEncoders t = Some enc" "primitiveNorms t = Some nrm"
    "is_ok (enc v)" "nrm v = Some v"
proof -
  have z: "f64_of_f32 (f32_of_f64 0) = 0"
    by (simp add: f64_of_f32_def f32_of_f64_def f64_exp_def f64_man_def f64_sign_def f32_exp_def
        f32_man_def f32_sign_def mk_f32_def mk_f64_def)
  have "t \<in> set prim_names" using assms prim_dom(4) [of t] by force
  then have "\<exists>enc nrm. primitiveEncoders t = Some enc \<and> primitiveNorms t = Some nrm \<and>
      is_ok (enc v) \<and> nrm v = Some v"
    using assms unfolding prim_names_def set_simps insert_iff empty_iff
    by (elim disjE FalseE)
      (simp_all add: primitiveEncoders_def primitiveNorms_def zero_primitive_def norm_with_def
        enc_bool_def enc_string_def norm_string_def z units_of_string_def utf16_encode_def
        string_of_units_def string_of_runes_def, (clarsimp simp: norm_with_def enc_bool_def
        enc_string_def norm_string_def z units_of_string_def string_of_units_def)+)
  then show thesis using that by blast
qed

text \<open>
  A zero constructor for elements: it succeeds, the value encodes, and the peer reads the value
  itself.
\<close>

definition zero_good ::
    "perr + goval \<Rightarrow> (goval \<Rightarrow> perr + byte list) \<Rightarrow> (goval \<Rightarrow> goval option) \<Rightarrow> bool" where
  "zero_good z enc nrm \<longleftrightarrow> (\<exists>v. z = Inr v \<and> is_ok (enc v) \<and> nrm v = Some v)"

lemma zeroFields_good:
  assumes "\<forall>f\<in>set fs. zero_good (zero (fType f) (fName f)) (\<lambda>v. enc (fType f) v (fName f))
      (\<lambda>v. nrm (fType f) v (fName f))" "distinct (map fName fs)"
  shows "\<exists>m. zeroFields zero fs acc = Inr m \<and> (\<forall>k. k \<notin> fName ` set fs \<longrightarrow> m k = acc k) \<and>
      is_ok (encode_fields enc name fs m) \<and> norm_layout nrm fs m acc = Some m"
  using assms
proof (induction fs arbitrary: acc)
  case Nil
  then show ?case by (simp add: encode_fields_def)
next
  case (Cons f fs)
  from Cons.prems(1) obtain v where v: "zero (fType f) (fName f) = Inr v"
    "is_ok (enc (fType f) v (fName f))" "nrm (fType f) v (fName f) = Some v"
    by (auto simp: zero_good_def)
  have pr: "\<forall>f\<in>set fs. zero_good (zero (fType f) (fName f)) (\<lambda>v. enc (fType f) v (fName f))
      (\<lambda>v. nrm (fType f) v (fName f))" "distinct (map fName fs)" using Cons.prems by simp_all
  from Cons.IH [OF pr, of "acc(fName f \<mapsto> v)"] obtain m where
    m: "zeroFields zero fs (acc(fName f \<mapsto> v)) = Inr m"
      "\<forall>k. k \<notin> fName ` set fs \<longrightarrow> m k = (acc(fName f \<mapsto> v)) k"
      "is_ok (encode_fields enc name fs m)" "norm_layout nrm fs m (acc(fName f \<mapsto> v)) = Some m"
    by blast
  have mf: "m (fName f) = Some v" using m(2) Cons.prems(2) by simp
  have "is_ok (encode_fields enc name (f # fs) m)"
    using m(3) v mf by (simp add: is_ok_encode_fields)
  moreover have "norm_layout nrm (f # fs) m acc = Some m"
    using m(4) v mf by (simp del: fun_upd_apply)
  ultimately show ?case using m(1,2) v(1) by (intro exI [of _ m]) auto
qed

lemma zeroValue_good:
  assumes "layouts_distinct cat"
  shows "resolves cat n t owner nm \<Longrightarrow>
    zero_good (zeroValue cat n t owner nm) (\<lambda>v. encodeValue cat n t v owner nm)
      (\<lambda>v. normValue cat n t v owner nm)"
proof (induction n arbitrary: t owner nm)
  case 0
  then show ?case by simp
next
  case (Suc n)
  show ?case
  proof (cases "zero_primitive t")
    case (Some v)
    then obtain enc nrm where "primitiveEncoders t = Some enc" "primitiveNorms t = Some nrm"
      "is_ok (enc v)" "nrm v = Some v" by (rule zero_primitive_ok)
    then show ?thesis using Some by (simp add: zero_good_def)
  next
    case None
    then have p: "primitiveEncoders t = None" "primitiveNorms t = None" by (simp_all add: prim_dom)
    consider (arr) "is_array_type t" | (lst) "\<not> is_array_type t" "is_list_type t"
      | (str) "\<not> is_array_type t" "\<not> is_list_type t" by blast
    then show ?thesis
    proof cases
      case arr
      from arr None Suc.prems obtain sz where
        sz: "map_of (fixedArrays cat) (array_key owner nm) = Some sz"
        "resolves cat n (array_elem t) owner nm" by (auto split: option.splits)
      from Suc.IH [OF sz(2)] obtain v where
        v: "zeroValue cat n (array_elem t) owner nm = Inr v"
        "is_ok (encodeValue cat n (array_elem t) v owner nm)"
        "normValue cat n (array_elem t) v owner nm = Some v" by (auto simp: zero_good_def)
      have "map_res (\<lambda>_. zeroValue cat n (array_elem t) owner nm) [0..<sz] = Inr (replicate sz v)"
        using map_res_const [of "\<lambda>_. zeroValue cat n (array_elem t) owner nm" v "[0..<sz]"] v(1) by simp
      then show ?thesis
        using arr None p sz(1) v(2,3) is_ok_map_res_replicate [of "\<lambda>item. encodeValue cat n (array_elem t) item owner nm" v sz]
        by (auto simp: zero_good_def is_ok_rbind is_ok_iff norm_items_replicate)
    next
      case lst
      then show ?thesis using None p by (simp add: zero_good_def)
    next
      case str
      from str None Suc.prems obtain layout where
        l: "map_of (structs cat) t = Some layout"
        "\<forall>f\<in>set layout. resolves cat n (fType f) t (fName f)"
        by (auto simp: list_all_iff split: option.splits)
      from zeroFields_good [where zero = "\<lambda>t' nm. zeroValue cat n t' t nm"
          and enc = "\<lambda>t' v nm. encodeValue cat n t' v t nm" and nrm = "\<lambda>t' v nm. normValue cat n t' v t nm"
          and fs = layout and name = t and acc = Map.empty]
      obtain m where "zeroFields (\<lambda>t' nm. zeroValue cat n t' t nm) layout Map.empty = Inr m"
        "is_ok (encode_fields (\<lambda>t' v nm. encodeValue cat n t' v t nm) t layout m)"
        "norm_layout (\<lambda>t' v nm. normValue cat n t' v t nm) layout m Map.empty = Some m"
        using l Suc.IH layouts_distinctD [OF assms l(1)] by blast
      then show ?thesis using str None p l(1) by (auto simp: zero_good_def is_ok_rbind is_ok_iff)
    qed
  qed
qed

text \<open>On a type that resolves, a decoder has one way to fail: the bytes ran out.\<close>

lemma dec_with_err: "dec_with rd conv r = Inl e \<Longrightarrow> (\<And>e. rd r = Inl e \<Longrightarrow> e = ErrStop) \<Longrightarrow> e = ErrStop"
  by (auto simp: dec_with_def rbind_eq_Inl)

lemma word_err:
  "r_u8 r = Inl e \<Longrightarrow> e = ErrStop" "r_u16 r = Inl e \<Longrightarrow> e = ErrStop"
  "r_u32 r = Inl e \<Longrightarrow> e = ErrStop" "r_u64 r = Inl e \<Longrightarrow> e = ErrStop"
  by (auto simp: r_u8_def r_u16_def r_u32_def r_u64_def need_def rbind_eq_Inl split: if_splits)

lemma str_err: "r_str r = Inl e \<Longrightarrow> e = ErrStop"
  by (auto simp: r_str_def need_def rbind_eq_Inl Let_def split_beta dest: word_err split: if_splits)

lemma charArray_err: "r_charArray r = Inl e \<Longrightarrow> e = ErrStop"
proof -
  have "read_chars r = Inl e \<Longrightarrow> e = ErrStop" for r
  proof (induction r rule: read_chars.induct)
    case (1 r)
    show ?case
    proof (cases "r_u16 r")
      case (Inl e')
      then have "e' = e" using "1.prems" by (subst (asm) read_chars.simps) simp
      then show ?thesis using Inl word_err(2) by blast
    next
      case (Inr p)
      then obtain ch r1 where p: "r_u16 r = Inr (ch, r1)" by (cases p) auto
      then have "ch \<noteq> 0 \<and> read_chars r1 = Inl e"
        using "1.prems" by (subst (asm) read_chars.simps) (auto simp: rbind_eq_Inl split: if_splits)
      then show ?thesis using "1.IH" [OF p refl] by blast
    qed
  qed
  then show "r_charArray r = Inl e \<Longrightarrow> e = ErrStop"
    by (auto simp: r_charArray_def rbind_eq_Inl)
qed

lemma primitive_err: "primitiveDecoders t = Some dec \<Longrightarrow> dec r = Inl e \<Longrightarrow> e = ErrStop"
  unfolding primitiveDecoders_def
  by (auto split: if_splits elim!: dec_with_err dest: word_err str_err charArray_err)

lemma decode_items_err:
  "decode_items dec n r = Inl e \<Longrightarrow> (\<And>r. dec r = Inl e \<Longrightarrow> e = ErrStop) \<Longrightarrow> e = ErrStop"
  by (induction n arbitrary: r) (auto simp: rbind_eq_Inl)

lemma decode_layout_err:
  "decode_layout dec fs acc r = Inl e \<Longrightarrow>
     (\<And>f r. f \<in> set fs \<Longrightarrow> dec (fType f) (fName f) r = Inl e \<Longrightarrow> e = ErrStop) \<Longrightarrow> e = ErrStop"
  by (induction fs arbitrary: acc r) (auto simp: rbind_eq_Inl)

lemma decodeValue_err:
  "resolves cat n t owner nm \<Longrightarrow> decodeValue cat n t owner nm r = Inl e \<Longrightarrow> e = ErrStop"
proof (induction n arbitrary: t owner nm r)
  case 0
  then show ?case by simp
next
  case (Suc n)
  show ?case
  proof (cases "primitiveDecoders t")
    case (Some dec)
    then show ?thesis using primitive_err [OF Some] Suc.prems(2) by simp
  next
    case None
    then have z: "zero_primitive t = None" by (simp add: prim_dom)
    consider (arr) "is_array_type t" | (lst) "\<not> is_array_type t" "is_list_type t"
      | (str) "\<not> is_array_type t" "\<not> is_list_type t" by blast
    then show ?thesis
    proof cases
      case arr
      from Suc.prems arr None z show ?thesis
        by (auto simp: rbind_eq_Inl split: option.splits elim!: decode_items_err intro: Suc.IH)
    next
      case lst
      from Suc.prems lst None z show ?thesis
        by (auto simp: rbind_eq_Inl dest: word_err elim!: decode_items_err intro: Suc.IH)
    next
      case str
      from Suc.prems str None z show ?thesis
        by (auto simp: rbind_eq_Inl list_all_iff dest: word_err split: option.splits if_splits
            elim!: decode_layout_err intro: Suc.IH)
    qed
  qed
qed

section \<open>Enough fuel\<close>

text \<open>
  On a type that resolves within \<open>n\<close> the three recursions do not depend on the fuel from \<open>n\<close> on,
  and never report that it ran out.
\<close>

lemma decode_items_cong: "(\<And>r. dec r = dec' r) \<Longrightarrow> decode_items dec n r = decode_items dec' n r"
  by (induction n arbitrary: r) (simp_all add: rbind_def split: sum.splits)

lemma decode_layout_cong:
  "(\<And>f r. f \<in> set fs \<Longrightarrow> dec (fType f) (fName f) r = dec' (fType f) (fName f) r) \<Longrightarrow>
     decode_layout dec fs acc r = decode_layout dec' fs acc r"
  by (induction fs arbitrary: acc r) (simp_all add: rbind_def split: sum.splits)

lemma encode_fields_cong:
  "(\<And>f v. f \<in> set fs \<Longrightarrow> enc (fType f) v (fName f) = enc' (fType f) v (fName f)) \<Longrightarrow>
     encode_fields enc name fs vs = encode_fields enc' name fs vs"
  unfolding encode_fields_def
  by (rule arg_cong2 [where f = rbind], rule map_res_cong) (auto split: option.splits)

lemma decodeValue_fuel:
  "resolves cat n t owner nm \<Longrightarrow> n \<le> k \<Longrightarrow> decodeValue cat k t owner nm r = decodeValue cat n t owner nm r"
proof (induction n arbitrary: k t owner nm r)
  case 0
  then show ?case by simp
next
  case (Suc n)
  from Suc.prems(2) obtain k' where k: "k = Suc k'" "n \<le> k'" by (cases k) auto
  show ?case
  proof (cases "zero_primitive t")
    case (Some v)
    then have "\<exists>d. primitiveDecoders t = Some d" using prim_dom(2,4) [of t] by auto
    then show ?thesis using k by auto
  next
    case None
    then have p: "primitiveDecoders t = None" by (simp add: prim_dom)
    consider (arr) sz where "is_array_type t" "map_of (fixedArrays cat) (array_key owner nm) = Some sz"
        "resolves cat n (array_elem t) owner nm"
      | (lst) "\<not> is_array_type t" "is_list_type t" "resolves cat n (list_elem t) owner nm"
      | (str) l where "\<not> is_array_type t" "\<not> is_list_type t" "map_of (structs cat) t = Some l"
        "\<forall>f\<in>set l. resolves cat n (fType f) t (fName f)"
      using Suc.prems(1) None by (auto simp: list_all_iff split: if_splits option.splits)
    then show ?thesis
    proof cases
      case arr
      have "decode_items (decodeValue cat k' (array_elem t) owner nm) sz r =
          decode_items (decodeValue cat n (array_elem t) owner nm) sz r"
        by (rule decode_items_cong) (rule Suc.IH [OF arr(3) k(2)])
      then show ?thesis using arr(1,2) p k(1) by simp
    next
      case lst
      have "decode_items (decodeValue cat k' (list_elem t) owner nm) i r' =
          decode_items (decodeValue cat n (list_elem t) owner nm) i r'" for i r'
        by (rule decode_items_cong) (rule Suc.IH [OF lst(3) k(2)])
      then show ?thesis using lst(1,2) p k(1) by simp
    next
      case str
      have "decode_layout (\<lambda>t' nm. decodeValue cat k' t' t nm) l acc r' =
          decode_layout (\<lambda>t' nm. decodeValue cat n t' t nm) l acc r'" for acc r'
        using str(4) by (intro decode_layout_cong) (rule Suc.IH [OF _ k(2)], blast)
      then show ?thesis using str(1-3) p k(1) by simp
    qed
  qed
qed

lemma encodeValue_fuel:
  "resolves cat n t owner nm \<Longrightarrow> n \<le> k \<Longrightarrow> encodeValue cat k t v owner nm = encodeValue cat n t v owner nm"
proof (induction n arbitrary: k t owner nm v)
  case 0
  then show ?case by simp
next
  case (Suc n)
  from Suc.prems(2) obtain k' where k: "k = Suc k'" "n \<le> k'" by (cases k) auto
  show ?case
  proof (cases "zero_primitive t")
    case (Some z)
    then have "\<exists>d. primitiveEncoders t = Some d" using prim_dom(1,4) [of t] by auto
    then show ?thesis using k by auto
  next
    case None
    then have p: "primitiveEncoders t = None" by (simp add: prim_dom)
    have m: "map_res (\<lambda>v. encodeValue cat k' t' v ow f) vs = map_res (\<lambda>v. encodeValue cat n t' v ow f) vs"
      if "resolves cat n t' ow f" for t' ow f vs
      by (rule map_res_cong [OF refl]) (rule Suc.IH [OF that k(2)])
    consider (arr) sz where "is_array_type t" "map_of (fixedArrays cat) (array_key owner nm) = Some sz"
        "resolves cat n (array_elem t) owner nm"
      | (lst) "\<not> is_array_type t" "is_list_type t" "resolves cat n (list_elem t) owner nm"
      | (str) l where "\<not> is_array_type t" "\<not> is_list_type t" "map_of (structs cat) t = Some l"
        "\<forall>f\<in>set l. resolves cat n (fType f) t (fName f)"
      using Suc.prems(1) None by (auto simp: list_all_iff split: if_splits option.splits)
    then show ?thesis
    proof cases
      case arr
      then show ?thesis using p k(1) m [OF arr(3)] by (simp split: option.split)
    next
      case lst
      then show ?thesis using p k(1) m [OF lst(3)] by (simp split: option.split)
    next
      case str
      have "encode_fields (\<lambda>t' fv nm. encodeValue cat k' t' fv t nm) t l vs =
          encode_fields (\<lambda>t' fv nm. encodeValue cat n t' fv t nm) t l vs" for vs
        using str(4) by (intro encode_fields_cong) (rule Suc.IH [OF _ k(2)], blast)
      then show ?thesis using str(1-3) p k(1) by (simp split: option.split)
    qed
  qed
qed

section \<open>Whole messages\<close>

text \<open>\<open>Encode\<close> succeeds exactly when every declared field is present with a value it accepts.\<close>

lemma is_ok_Encode:
  "byName cat name = Some msg \<Longrightarrow>
     is_ok (Encode cat name vs) \<longleftrightarrow>
     (\<forall>f\<in>set (msgFields msg). \<exists>v. vs (fName f) = Some v \<and>
        is_ok (encodeValue cat codec_fuel (fType f) v (full_name msg) (fName f)))"
  by (simp add: Encode_def is_ok_rbind is_ok_encode_fields flip: is_ok_iff)

text \<open>The value \<open>norm_layout\<close> builds, field by field, for a layout without repetitions.\<close>

lemma norm_layout_Some:
  "distinct (map fName fs) \<Longrightarrow>
     norm_layout nrm fs m acc = Some m' \<longleftrightarrow>
     (\<forall>f\<in>set fs. \<exists>v. m (fName f) = Some v \<and> nrm (fType f) v (fName f) \<noteq> None \<and>
        m' (fName f) = nrm (fType f) v (fName f)) \<and>
     (\<forall>k. k \<notin> fName ` set fs \<longrightarrow> m' k = acc k)"
proof (induction fs arbitrary: acc)
  case Nil
  then show ?case by auto
next
  case (Cons f fs)
  show ?case
  proof (cases "\<exists>v v1. m (fName f) = Some v \<and> nrm (fType f) v (fName f) = Some v1")
    case False
    then show ?thesis by (auto split: option.splits)
  next
    case True
    then obtain v v1 where v: "m (fName f) = Some v" "nrm (fType f) v (fName f) = Some v1" by blast
    have "norm_layout nrm (f # fs) m acc = Some m' \<longleftrightarrow>
        norm_layout nrm fs m (acc(fName f \<mapsto> v1)) = Some m'" using v by simp
    also have "\<dots> \<longleftrightarrow> (\<forall>f\<in>set fs. \<exists>v. m (fName f) = Some v \<and> nrm (fType f) v (fName f) \<noteq> None \<and>
        m' (fName f) = nrm (fType f) v (fName f)) \<and>
        (\<forall>k. k \<notin> fName ` set fs \<longrightarrow> m' k = (acc(fName f \<mapsto> v1)) k)"
      using Cons by simp
    also have "(\<forall>k. k \<notin> fName ` set fs \<longrightarrow> m' k = (acc(fName f \<mapsto> v1)) k) \<longleftrightarrow>
        m' (fName f) = Some v1 \<and> (\<forall>k. k \<notin> fName ` set (f # fs) \<longrightarrow> m' k = acc k)"
      using Cons.prems by auto
    finally show ?thesis using v by auto
  qed
qed

lemma ZeroValues_good:
  assumes "layouts_distinct cat" "byName cat name = Some msg" "encodable cat msg"
  obtains m where "ZeroValues cat name = Inr m" "is_ok (Encode cat name m)"
    "norm_message cat msg m = Some m" "\<And>k. k \<notin> fName ` set (msgFields msg) \<Longrightarrow> m k = None"
proof -
  have "\<forall>f\<in>set (msgFields msg). zero_good (zeroValue cat codec_fuel (fType f) (full_name msg) (fName f))
      (\<lambda>v. encodeValue cat codec_fuel (fType f) v (full_name msg) (fName f))
      (\<lambda>v. normValue cat codec_fuel (fType f) v (full_name msg) (fName f))"
    using assms(3) zeroValue_good [OF assms(1)] by (simp add: encodable_def list_all_iff)
  from zeroFields_good [OF this layouts_distinct_msg [OF assms(1,2)], of Map.empty name]
  show thesis
    using that assms(2) by (auto simp: ZeroValues_def Encode_def norm_message_def is_ok_rbind is_ok_iff)
qed

end
