(* ===== verification/RomCatalog.thy ===== *)
theory RomCatalog
  imports CatalogIndex CodecTotal
begin

text \<open>
  The catalog of this repository: the record of the generated tables, and the facts that the
  codec's theorems ask of a catalog. No opcode, name or field is declared twice, the two indexes
  and the opcode constants agree, every list and struct type is declared, and every message but
  the eleven of \<open>unsized_messages\<close> can be sized. As in \<open>CatalogIndex\<close> the tables are walked by
  resolution.
\<close>

section \<open>The tables\<close>

definition rom_opcodes :: "(string \<times> u32) list" where
  "rom_opcodes =
    opcodes_1 @ opcodes_2 @ opcodes_3 @ opcodes_4 @ opcodes_5 @ opcodes_6 @ opcodes_7"

definition rom_messages :: "(u32 \<times> message) list" where
  "rom_messages =
    messages_1 @ messages_2 @ messages_3 @ messages_4 @ messages_5 @ messages_6 @ messages_7 @
    messages_8 @ messages_9 @ messages_10 @ messages_11 @ messages_12 @ messages_13 @
    messages_14 @ messages_15 @ messages_16 @ messages_17 @ messages_18 @ messages_19 @
    messages_20 @ messages_21 @ messages_22 @ messages_23 @ messages_24 @ messages_25 @
    messages_26 @ messages_27 @ messages_28"

definition rom_structs :: "(string \<times> field list) list" where
  "rom_structs =
    structs_1 @ structs_2 @ structs_3 @ structs_4 @ structs_5 @ structs_6 @ structs_7 @
    structs_8 @ structs_9 @ structs_10"

definition rom :: catalog where
  "rom = \<lparr>messages = rom_messages, structs = rom_structs, fixedArrays = fixed_arrays,
    messageFullNames = message_full_names\<rparr>"

lemma rom_simps [simp]:
  "messages rom = rom_messages" "structs rom = rom_structs"
  "fixedArrays rom = fixed_arrays" "messageFullNames rom = message_full_names"
  by (simp_all add: rom_def)

section \<open>Walking a table\<close>

lemma all_messages:
  "list_all P rom_messages \<longleftrightarrow>
    list_all P messages_1 \<and> list_all P messages_2 \<and> list_all P messages_3 \<and>
    list_all P messages_4 \<and> list_all P messages_5 \<and> list_all P messages_6 \<and>
    list_all P messages_7 \<and> list_all P messages_8 \<and> list_all P messages_9 \<and>
    list_all P messages_10 \<and> list_all P messages_11 \<and> list_all P messages_12 \<and>
    list_all P messages_13 \<and> list_all P messages_14 \<and> list_all P messages_15 \<and>
    list_all P messages_16 \<and> list_all P messages_17 \<and> list_all P messages_18 \<and>
    list_all P messages_19 \<and> list_all P messages_20 \<and> list_all P messages_21 \<and>
    list_all P messages_22 \<and> list_all P messages_23 \<and> list_all P messages_24 \<and>
    list_all P messages_25 \<and> list_all P messages_26 \<and> list_all P messages_27 \<and>
    list_all P messages_28"
  by (simp add: rom_messages_def)

lemma all_structs:
  "list_all P rom_structs \<longleftrightarrow>
    list_all P structs_1 \<and> list_all P structs_2 \<and> list_all P structs_3 \<and>
    list_all P structs_4 \<and> list_all P structs_5 \<and> list_all P structs_6 \<and>
    list_all P structs_7 \<and> list_all P structs_8 \<and> list_all P structs_9 \<and>
    list_all P structs_10"
  by (simp add: rom_structs_def)

lemma entries: "list_all P []" "P x \<Longrightarrow> list_all P xs \<Longrightarrow> list_all P (x # xs)"
  by simp_all

lemma all_chunk: "c = xs \<Longrightarrow> list_all P xs \<Longrightarrow> list_all P c"
  by simp

lemmas walk_messages = message_chunks [THEN all_chunk]
lemmas walk_structs = struct_chunks [THEN all_chunk]

lemma in_rom_messages:
  "x \<in> set messages_1 \<Longrightarrow> x \<in> set rom_messages"
  "x \<in> set messages_2 \<Longrightarrow> x \<in> set rom_messages"
  "x \<in> set messages_3 \<Longrightarrow> x \<in> set rom_messages"
  "x \<in> set messages_4 \<Longrightarrow> x \<in> set rom_messages"
  "x \<in> set messages_5 \<Longrightarrow> x \<in> set rom_messages"
  "x \<in> set messages_6 \<Longrightarrow> x \<in> set rom_messages"
  "x \<in> set messages_7 \<Longrightarrow> x \<in> set rom_messages"
  "x \<in> set messages_8 \<Longrightarrow> x \<in> set rom_messages"
  "x \<in> set messages_9 \<Longrightarrow> x \<in> set rom_messages"
  "x \<in> set messages_10 \<Longrightarrow> x \<in> set rom_messages"
  "x \<in> set messages_11 \<Longrightarrow> x \<in> set rom_messages"
  "x \<in> set messages_12 \<Longrightarrow> x \<in> set rom_messages"
  "x \<in> set messages_13 \<Longrightarrow> x \<in> set rom_messages"
  "x \<in> set messages_14 \<Longrightarrow> x \<in> set rom_messages"
  "x \<in> set messages_15 \<Longrightarrow> x \<in> set rom_messages"
  "x \<in> set messages_16 \<Longrightarrow> x \<in> set rom_messages"
  "x \<in> set messages_17 \<Longrightarrow> x \<in> set rom_messages"
  "x \<in> set messages_18 \<Longrightarrow> x \<in> set rom_messages"
  "x \<in> set messages_19 \<Longrightarrow> x \<in> set rom_messages"
  "x \<in> set messages_20 \<Longrightarrow> x \<in> set rom_messages"
  "x \<in> set messages_21 \<Longrightarrow> x \<in> set rom_messages"
  "x \<in> set messages_22 \<Longrightarrow> x \<in> set rom_messages"
  "x \<in> set messages_23 \<Longrightarrow> x \<in> set rom_messages"
  "x \<in> set messages_24 \<Longrightarrow> x \<in> set rom_messages"
  "x \<in> set messages_25 \<Longrightarrow> x \<in> set rom_messages"
  "x \<in> set messages_26 \<Longrightarrow> x \<in> set rom_messages"
  "x \<in> set messages_27 \<Longrightarrow> x \<in> set rom_messages"
  "x \<in> set messages_28 \<Longrightarrow> x \<in> set rom_messages"
  by (simp_all add: rom_messages_def)

lemma in_chunk: "c = xs \<Longrightarrow> x \<in> set xs \<Longrightarrow> x \<in> set c"
  by simp

lemmas in_message_chunk = message_chunks [THEN in_chunk]

section \<open>Coherence\<close>

lemma ranked_rom: "ranked 0 rom_messages 985"
  unfolding rom_messages_def by (rule ranked_append ranked_chunks)+

lemma climbs_rom_messages: "climbs (\<lambda>(k, m). msgName m) [] rom_messages ''S2C_WaveStartNoti''"
  unfolding rom_messages_def by (rule climbs_append message_names_climb)+

lemma climbs_rom_structs: "climbs fst [] rom_structs ''Protocol.WarehouseItemMove''"
  unfolding rom_structs_def by (rule climbs_append struct_names_climb)+

lemma own_opcode_entry:
  "(\<lambda>(k, m). k = msgID m) (k, \<lparr>msgName = n, msgDir = d, msgID = k, msgFields = fs\<rparr>)"
  by simp

lemma own_opcode: "list_all (\<lambda>(k, m). k = msgID m) rom_messages"
  unfolding all_messages
  by (intro conjI) (rule walk_messages, intro entries own_opcode_entry)+

lemma coherent_rom: "coherent rom"
proof -
  have "distinct (map fst rom_messages)" using ranked_distinct [OF ranked_rom] by blast
  moreover have "(\<lambda>(k :: u32, m). msgName m) = msgName \<circ> snd" by auto
  then have "distinct (map (msgName \<circ> snd) rom_messages)"
    using climbs_distinct [OF climbs_rom_messages] by metis
  moreover have "distinct (map fst rom_structs)" using climbs_distinct [OF climbs_rom_structs] by blast
  ultimately show ?thesis using own_opcode unfolding coherent_def rom_simps by blast
qed

text \<open>Field names: a name is fresh for the fields after it.\<close>

primrec fresh :: "string \<Rightarrow> field list \<Rightarrow> bool" where
  "fresh n [] \<longleftrightarrow> True"
| "fresh n (f # fs) \<longleftrightarrow> n \<noteq> fName f \<and> fresh n fs"

primrec once :: "field list \<Rightarrow> bool" where
  "once [] \<longleftrightarrow> True"
| "once (f # fs) \<longleftrightarrow> fresh (fName f) fs \<and> once fs"

lemma fresh_iff: "fresh n fs \<longleftrightarrow> n \<notin> fName ` set fs"
  by (induction fs) auto

lemma once_distinct: "once fs \<Longrightarrow> distinct (map fName fs)"
  by (induction fs) (auto simp: fresh_iff)

lemma once_walk:
  "once []" "fresh n fs \<Longrightarrow> once fs \<Longrightarrow> once (Field n t # fs)"
  "fresh n []" "n \<noteq> n' \<Longrightarrow> fresh n fs \<Longrightarrow> fresh n (Field n' t # fs)"
  by simp_all

lemma str_neq_walk:
  "xs \<noteq> ys \<Longrightarrow> x # xs \<noteq> x # ys" "[] \<noteq> y # ys" "y # ys \<noteq> []"
  by simp_all

lemma str_neq_head: "x \<noteq> y \<Longrightarrow> x # xs \<noteq> y # ys"
  by simp

lemma once_message:
  "once fs \<Longrightarrow> (\<lambda>(k, m). once (msgFields m)) (k, \<lparr>msgName = n, msgDir = d, msgID = i, msgFields = fs\<rparr>)"
  by simp

lemma once_struct: "once fs \<Longrightarrow> (\<lambda>(t, l). once l) (t, fs)"
  by simp

lemma fields_once_messages: "list_all (\<lambda>(k, m). once (msgFields m)) rom_messages"
  unfolding all_messages
  by (intro conjI) (rule walk_messages, (rule entries once_message once_walk str_neq_walk |
    (rule str_neq_head, simp; fail))+)+

lemma fields_once_structs: "list_all (\<lambda>(t, l). once l) rom_structs"
  unfolding all_structs
  by (intro conjI) (rule walk_structs, (rule entries once_struct once_walk str_neq_walk |
    (rule str_neq_head, simp; fail))+)+

lemma layouts_distinct_rom: "layouts_distinct rom"
  using fields_once_messages fields_once_structs
  by (auto simp: layouts_distinct_def list_all_iff once_distinct)

section \<open>Lookups\<close>

lemma rom_byName: "(k, m) \<in> set rom_messages \<Longrightarrow> msgName m = n \<Longrightarrow> byName rom n = Some m"
  using byName_eq [OF coherent_rom] by auto

lemma rom_Lookup: "(k, m) \<in> set rom_messages \<Longrightarrow> Lookup rom k = Some m"
  using Lookup_eq [OF coherent_rom] by simp

lemma rom_struct: "(t, l) \<in> set rom_structs \<Longrightarrow> map_of rom_structs t = Some l"
  using coherent_rom by (simp add: coherent_def)

text \<open>Messages looked up by name: the element message, and those that cannot be sized.\<close>

lemma rom_lookups:
  "byName rom ''S2C_MoveNotice'' = Some \<lparr>msgName = ''S2C_MoveNotice'', msgDir = ''S2C'', msgID = 0x0287FBAD, msgFields =
   [Field ''m_seq'' ty_Int32, Field ''m_objectType'' ty_Byte, Field ''m_objectOID'' ty_Int64,
    Field ''m_moveType'' ty_Byte, Field ''m_walkType'' ty_Byte, Field ''m_speed'' ty_Single,
    Field ''m_currentPos'' ty_Vector, Field ''m_moveDir'' ty_Vector,
    Field ''m_movePath'' ty_List_Vector]\<rparr>"
  "byName rom ''C2S_GameGuardCheck'' = Some \<lparr>msgName = ''C2S_GameGuardCheck'', msgDir = ''C2S'', msgID = 0x1CE8214E, msgFields =
   [Field ''m_responseKey'' ty_Byte_arr, Field ''m_keySize'' ty_UInt32,
    Field ''m_serverNum'' ty_Int32]\<rparr>"
  "byName rom ''S2C_AuctionAddNoti'' = Some \<lparr>msgName = ''S2C_AuctionAddNoti'', msgDir = ''S2C'', msgID = 0x26EA248B, msgFields =
   [Field ''m_myAuctionElement'' ty_MyAuctionElement]\<rparr>"
  "byName rom ''S2C_AuctionList'' = Some \<lparr>msgName = ''S2C_AuctionList'', msgDir = ''S2C'', msgID = 0x22DFA9E7, msgFields =
   [Field ''__state__'' ty_Byte, Field ''m_result'' ty_Int32, Field ''m_dailyBuyCount'' ty_Int32,
    Field ''m_listType'' ty_Int32, Field ''m_realData'' ty_Boolean,
    Field ''m_auctionLevel'' ty_Int32, Field ''m_auctionElementList'' ty_List_AuctionElement]\<rparr>"
  "byName rom ''S2C_AuctionMyList'' = Some \<lparr>msgName = ''S2C_AuctionMyList'', msgDir = ''S2C'', msgID = 0x31538078, msgFields =
   [Field ''m_result'' ty_Int32, Field ''m_dailyTradeCount'' ty_Int32,
    Field ''m_auctionLevel'' ty_Int32, Field ''m_myAuctionElementList'' ty_List_MyAuctionElement]\<rparr>"
  "byName rom ''S2C_AuctionReRegister'' = Some \<lparr>msgName = ''S2C_AuctionReRegister'', msgDir = ''S2C'', msgID = 0x1774E58A, msgFields =
   [Field ''m_result'' ty_Int32, Field ''m_myAuctionElementList'' ty_List_MyAuctionElement]\<rparr>"
  "byName rom ''S2C_GameGuardCheck'' = Some \<lparr>msgName = ''S2C_GameGuardCheck'', msgDir = ''S2C'', msgID = 0x0EB1A577, msgFields =
   [Field ''m_requestKey'' ty_Byte_arr, Field ''m_keySize'' ty_UInt32,
    Field ''m_serverNum'' ty_Int32]\<rparr>"
  "byName rom ''S2C_ItemEryndorImprinting'' = Some \<lparr>msgName = ''S2C_ItemEryndorImprinting'', msgDir = ''S2C'', msgID = 0x16199E22, msgFields =
   [Field ''m_result'' ty_Int32, Field ''m_state'' ty_Byte,
    Field ''m_imprintingResult'' ty_List_EryndorImprintingInfo]\<rparr>"
  "byName rom ''S2C_ItemEryndorImprintingList'' = Some \<lparr>msgName = ''S2C_ItemEryndorImprintingList'', msgDir = ''S2C'', msgID = 0x0A5EE21A, msgFields =
   [Field ''m_result'' ty_Int32, Field ''m_state'' ty_Byte,
    Field ''m_imprintingList'' ty_List_EryndorImprintingInfo]\<rparr>"
  "byName rom ''S2C_ItemEryndorImprintingReset'' = Some \<lparr>msgName = ''S2C_ItemEryndorImprintingReset'', msgDir = ''S2C'', msgID = 0x0F43D59A, msgFields =
   [Field ''m_result'' ty_Int32, Field ''m_state'' ty_Byte,
    Field ''m_imprintingList'' ty_List_EryndorImprintingInfo]\<rparr>"
  "byName rom ''S2C_SoulStoneList'' = Some \<lparr>msgName = ''S2C_SoulStoneList'', msgDir = ''S2C'', msgID = 0x209C3842, msgFields =
   [Field ''m_result'' ty_Int32, Field ''m_soulStoneList'' ty_List_SoulStoneRootInfo]\<rparr>"
  "byName rom ''S2C_TotalPresetList'' = Some \<lparr>msgName = ''S2C_TotalPresetList'', msgDir = ''S2C'', msgID = 0x1B33ACD8, msgFields =
   [Field ''m_presetList'' ty_List_TotalPresetInfo_arr]\<rparr>"
  by (rule rom_byName, rule in_rom_messages, rule in_message_chunk,
      (rule list.set_intros(1) | rule list.set_intros(2))+, simp)+

lemma full_names_known_rom: "full_names_known rom"
  by (simp add: full_names_known_def message_full_names_def OpcodeOf_def rom_lookups)

lemma opcodes_of_messages: "rom_opcodes = map (\<lambda>(k, m). (msgName m, k)) rom_messages"
  unfolding rom_opcodes_def rom_messages_def map_append
  by (simp only: message_chunks opcode_chunks list.map prod.case message.simps append.simps)

section \<open>Types\<close>

definition primitive_types :: "string list" where
  "primitive_types =
    [ty_Boolean, ty_Byte, ty_Chars, ty_Double, ty_Int16, ty_Int32, ty_Int64, ty_Single,
     ty_String, ty_UInt16, ty_UInt32]"

definition list_types :: "(string \<times> string) list" where
  "list_types =
    [(ty_List_AbilitySkillLevelInfo, ty_AbilitySkillLevelInfo),
     (ty_List_AchieveData, ty_AchieveData), (ty_List_AdventureMapInfo, ty_AdventureMapInfo),
     (ty_List_AttachedData, ty_AttachedData), (ty_List_AttendanceData, ty_AttendanceData),
     (ty_List_AuctionElement, ty_AuctionElement),
     (ty_List_AuctionFixRecord, ty_AuctionFixRecord),
     (ty_List_AuctionRecentPrice, ty_AuctionRecentPrice),
     (ty_List_AutoStoreSettingInfo, ty_AutoStoreSettingInfo),
     (ty_List_AutoUseInfo, ty_AutoUseInfo), (ty_List_BankCardInfo, ty_BankCardInfo),
     (ty_List_BankDepositRankInfo, ty_BankDepositRankInfo),
     (ty_List_BossAuctionInfo, ty_BossAuctionInfo),
     (ty_List_BossAuctionItemInfo, ty_BossAuctionItemInfo),
     (ty_List_BroadCastInfo, ty_BroadCastInfo), (ty_List_BuffData, ty_BuffData),
     (ty_List_BuyItemData, ty_BuyItemData),
     (ty_List_ClassChangeItemInfo, ty_ClassChangeItemInfo),
     (ty_List_ClassChangeSkillInfo, ty_ClassChangeSkillInfo),
     (ty_List_CollectionCountInfo, ty_CollectionCountInfo),
     (ty_List_CollectionInfo, ty_CollectionInfo), (ty_List_CollectionPart, ty_CollectionPart),
     (ty_List_ComposeFailedParam, ty_ComposeFailedParam),
     (ty_List_ComposeInputInfo, ty_ComposeInputInfo),
     (ty_List_ConquestDungeon, ty_ConquestDungeon),
     (ty_List_ConquestDungeonApply, ty_ConquestDungeonApply),
     (ty_List_ContributionRewardInfo, ty_ContributionRewardInfo),
     (ty_List_CoolInfo, ty_CoolInfo), (ty_List_CostumeInfo, ty_CostumeInfo),
     (ty_List_DissolveData, ty_DissolveData),
     (ty_List_DissolveRewardData, ty_DissolveRewardData),
     (ty_List_DistributionMemberDetailInfo, ty_DistributionMemberDetailInfo),
     (ty_List_DistributionMemberInfo, ty_DistributionMemberInfo),
     (ty_List_DominionBriefData, ty_DominionBriefData),
     (ty_List_DominionGuildData, ty_DominionGuildData),
     (ty_List_DominionIngameMemberPoint, ty_DominionIngameMemberPoint),
     (ty_List_DominionIngameTeamPoint, ty_DominionIngameTeamPoint),
     (ty_List_DominionKillComboInfo, ty_DominionKillComboInfo),
     (ty_List_DominionMemberData, ty_DominionMemberData),
     (ty_List_DominionMoneyData, ty_DominionMoneyData),
     (ty_List_DominionProductData, ty_DominionProductData),
     (ty_List_DominionResultData, ty_DominionResultData),
     (ty_List_DominionTaxInfo, ty_DominionTaxInfo), (ty_List_EndTimeInfo, ty_EndTimeInfo),
     (ty_List_EntertainmentInfo, ty_EntertainmentInfo),
     (ty_List_EquipItemData, ty_EquipItemData),
     (ty_List_EryndorImprintingInfo, ty_EryndorImprintingInfo),
     (ty_List_EventGameRandomBoxSlotInfo, ty_EventGameRandomBoxSlotInfo),
     (ty_List_EventMissionInfo, ty_EventMissionInfo),
     (ty_List_EventSubMissionInfo, ty_EventSubMissionInfo),
     (ty_List_FriendRequestInfo, ty_FriendRequestInfo),
     (ty_List_GuardListInfo, ty_GuardListInfo), (ty_List_GuardMemberInfo, ty_GuardMemberInfo),
     (ty_List_GuildBuffInfo, ty_GuildBuffInfo),
     (ty_List_GuildContentResearchInfo, ty_GuildContentResearchInfo),
     (ty_List_GuildContributeTypeInfo, ty_GuildContributeTypeInfo),
     (ty_List_GuildDungeonInfo, ty_GuildDungeonInfo),
     (ty_List_GuildHistoryInfo, ty_GuildHistoryInfo),
     (ty_List_GuildJoinRequestGuildInfo, ty_GuildJoinRequestGuildInfo),
     (ty_List_GuildJoinRequestPlayerInfo, ty_GuildJoinRequestPlayerInfo),
     (ty_List_GuildMemberSimpleInfo, ty_GuildMemberSimpleInfo),
     (ty_List_GuildPVPRecord, ty_GuildPVPRecord), (ty_List_GuildQuestData, ty_GuildQuestData),
     (ty_List_GuildRelationInfo, ty_GuildRelationInfo),
     (ty_List_GuildShopBuyLimitData, ty_GuildShopBuyLimitData),
     (ty_List_GuildShopItemData, ty_GuildShopItemData),
     (ty_List_GuildSimpleInfo, ty_GuildSimpleInfo),
     (ty_List_HostileFunctionSimpleInfo, ty_HostileFunctionSimpleInfo),
     (ty_List_HostileUnionGuildInfo, ty_HostileUnionGuildInfo),
     (ty_List_HostileUnionInfo, ty_HostileUnionInfo),
     (ty_List_ItemBrokenGiveData, ty_ItemBrokenGiveData),
     (ty_List_ItemCollectionSlotRegQty, ty_ItemCollectionSlotRegQty),
     (ty_List_ItemCollectionSlots, ty_ItemCollectionSlots), (ty_List_ItemData, ty_ItemData),
     (ty_List_ItemEnchantRequest, ty_ItemEnchantRequest),
     (ty_List_ItemEnchantResult, ty_ItemEnchantResult),
     (ty_List_ItemMakeLimitInfo, ty_ItemMakeLimitInfo),
     (ty_List_ItemMakeResultInfo, ty_ItemMakeResultInfo),
     (ty_List_ItemOidAndCount, ty_ItemOidAndCount),
     (ty_List_JewelCraftOptionData, ty_JewelCraftOptionData),
     (ty_List_LegacyCollection, ty_LegacyCollection),
     (ty_List_LegacyCollectionGroup, ty_LegacyCollectionGroup),
     (ty_List_LobbyPlayerInfo, ty_LobbyPlayerInfo), (ty_List_MapLimitData, ty_MapLimitData),
     (ty_List_MasteryData, ty_MasteryData), (ty_List_MercenaryApplyInfo, ty_MercenaryApplyInfo),
     (ty_List_MercenaryRecruitInfo, ty_MercenaryRecruitInfo),
     (ty_List_MonsterCollectionInfo, ty_MonsterCollectionInfo),
     (ty_List_MonsterCollectionOptionReward, ty_MonsterCollectionOptionReward),
     (ty_List_MyAuctionElement, ty_MyAuctionElement),
     (ty_List_NetworkObjData, ty_NetworkObjData), (ty_List_PVPLostItemInfo, ty_PVPLostItemInfo),
     (ty_List_PVPRecord, ty_PVPRecord), (ty_List_ParcelInfo, ty_ParcelInfo),
     (ty_List_ParcelTradeRecord, ty_ParcelTradeRecord),
     (ty_List_PartyBuffData, ty_PartyBuffData),
     (ty_List_PartyDungeonMemberInfo, ty_PartyDungeonMemberInfo),
     (ty_List_PartyMemberData, ty_PartyMemberData),
     (ty_List_PetAdventureInfo, ty_PetAdventureInfo), (ty_List_PetInfo, ty_PetInfo),
     (ty_List_PetPartyInfo, ty_PetPartyInfo), (ty_List_PetSlotInfo, ty_PetSlotInfo),
     (ty_List_PickResultInfo, ty_PickResultInfo), (ty_List_PlayerData, ty_PlayerData),
     (ty_List_PlayerRankInfo, ty_PlayerRankInfo), (ty_List_PostInfo, ty_PostInfo),
     (ty_List_PropertyData, ty_PropertyData), (ty_List_QuestData, ty_QuestData),
     (ty_List_QuickSlotInfo, ty_QuickSlotInfo), (ty_List_RankInfo, ty_RankInfo),
     (ty_List_RankerStatueInfo, ty_RankerStatueInfo),
     (ty_List_RePickResultInfo, ty_RePickResultInfo), (ty_List_RealmMapInfo, ty_RealmMapInfo),
     (ty_List_RealmProgressInfo, ty_RealmProgressInfo),
     (ty_List_ReceivedPostInfo, ty_ReceivedPostInfo),
     (ty_List_RelationPlayerInfo, ty_RelationPlayerInfo), (ty_List_RestoreData, ty_RestoreData),
     (ty_List_RestoreSimpleData, ty_RestoreSimpleData), (ty_List_RewardData, ty_RewardData),
     (ty_List_RuneInfo, ty_RuneInfo), (ty_List_RuneLineInfo, ty_RuneLineInfo),
     (ty_List_RunePanelInfo, ty_RunePanelInfo),
     (ty_List_RunePanelSlotInfo, ty_RunePanelSlotInfo),
     (ty_List_S2C_MoveNotice, ty_S2C_MoveNotice),
     (ty_List_ScheduleBossDashboardData, ty_ScheduleBossDashboardData),
     (ty_List_ScheduleBossInfo, ty_ScheduleBossInfo), (ty_List_ShopItemData, ty_ShopItemData),
     (ty_List_SiegeWarDominionTaxInfo, ty_SiegeWarDominionTaxInfo),
     (ty_List_SiegeWarGuardInfo, ty_SiegeWarGuardInfo),
     (ty_List_SiegeWarMemberBoardInfo, ty_SiegeWarMemberBoardInfo),
     (ty_List_SiegeWarObjectInfo, ty_SiegeWarObjectInfo), (ty_List_SkillData, ty_SkillData),
     (ty_List_SkillEffectValue, ty_SkillEffectValue), (ty_List_SlayerInfo, ty_SlayerInfo),
     (ty_List_SoulStoneRootInfo, ty_SoulStoneRootInfo),
     (ty_List_SoulStoneSlotInfo, ty_SoulStoneSlotInfo),
     (ty_List_StepUpCountRewardInfo, ty_StepUpCountRewardInfo),
     (ty_List_StorageBoxData, ty_StorageBoxData),
     (ty_List_StoreHotDealData, ty_StoreHotDealData), (ty_List_StoreItemData, ty_StoreItemData),
     (ty_List_StoreSequenceItemData, ty_StoreSequenceItemData),
     (ty_List_SubSkillPointData, ty_SubSkillPointData),
     (ty_List_TotalPresetInfo, ty_TotalPresetInfo), (ty_List_TotalPresetSet, ty_TotalPresetSet),
     (ty_List_TransferCheckData, ty_TransferCheckData),
     (ty_List_TransferServerState, ty_TransferServerState),
     (ty_List_UnequipItemParam, ty_UnequipItemParam),
     (ty_List_UnionGuildInfo, ty_UnionGuildInfo), (ty_List_UnionSimpleInfo, ty_UnionSimpleInfo),
     (ty_List_UniqueItemInfo, ty_UniqueItemInfo), (ty_List_Vector, ty_Vector),
     (ty_List_WStorageInfo, ty_WStorageInfo), (ty_List_WantedInfo, ty_WantedInfo),
     (ty_List_WarehouseItemMove, ty_WarehouseItemMove), (ty_List_Byte, ty_Byte),
     (ty_List_Int32, ty_Int32), (ty_List_Int64, ty_Int64)]"

definition array_types :: "(string \<times> string) list" where
  "array_types =
    [(ty_PetInfo_arr, ty_PetInfo), (ty_SoulStoneInfo_arr, ty_SoulStoneInfo),
     (ty_Byte_arr, ty_Byte), (ty_List_EquipItemData_arr, ty_List_EquipItemData),
     (ty_List_TotalPresetInfo_arr, ty_List_TotalPresetInfo), (ty_Int32_arr, ty_Int32)]"

lemmas primitive_names =
  ty_Boolean_def ty_Byte_def ty_Chars_def ty_Double_def ty_Int16_def ty_Int32_def ty_Int64_def
  ty_Single_def ty_String_def ty_UInt16_def ty_UInt32_def

lemmas list_names =
  ty_List_AbilitySkillLevelInfo_def ty_List_AchieveData_def ty_List_AdventureMapInfo_def
  ty_List_AttachedData_def ty_List_AttendanceData_def ty_List_AuctionElement_def
  ty_List_AuctionFixRecord_def ty_List_AuctionRecentPrice_def ty_List_AutoStoreSettingInfo_def
  ty_List_AutoUseInfo_def ty_List_BankCardInfo_def ty_List_BankDepositRankInfo_def
  ty_List_BossAuctionInfo_def ty_List_BossAuctionItemInfo_def ty_List_BroadCastInfo_def
  ty_List_BuffData_def ty_List_BuyItemData_def ty_List_ClassChangeItemInfo_def
  ty_List_ClassChangeSkillInfo_def ty_List_CollectionCountInfo_def ty_List_CollectionInfo_def
  ty_List_CollectionPart_def ty_List_ComposeFailedParam_def ty_List_ComposeInputInfo_def
  ty_List_ConquestDungeon_def ty_List_ConquestDungeonApply_def ty_List_ContributionRewardInfo_def
  ty_List_CoolInfo_def ty_List_CostumeInfo_def ty_List_DissolveData_def
  ty_List_DissolveRewardData_def ty_List_DistributionMemberDetailInfo_def
  ty_List_DistributionMemberInfo_def ty_List_DominionBriefData_def ty_List_DominionGuildData_def
  ty_List_DominionIngameMemberPoint_def ty_List_DominionIngameTeamPoint_def
  ty_List_DominionKillComboInfo_def ty_List_DominionMemberData_def ty_List_DominionMoneyData_def
  ty_List_DominionProductData_def ty_List_DominionResultData_def ty_List_DominionTaxInfo_def
  ty_List_EndTimeInfo_def ty_List_EntertainmentInfo_def ty_List_EquipItemData_def
  ty_List_EryndorImprintingInfo_def ty_List_EventGameRandomBoxSlotInfo_def
  ty_List_EventMissionInfo_def ty_List_EventSubMissionInfo_def ty_List_FriendRequestInfo_def
  ty_List_GuardListInfo_def ty_List_GuardMemberInfo_def ty_List_GuildBuffInfo_def
  ty_List_GuildContentResearchInfo_def ty_List_GuildContributeTypeInfo_def
  ty_List_GuildDungeonInfo_def ty_List_GuildHistoryInfo_def ty_List_GuildJoinRequestGuildInfo_def
  ty_List_GuildJoinRequestPlayerInfo_def ty_List_GuildMemberSimpleInfo_def
  ty_List_GuildPVPRecord_def ty_List_GuildQuestData_def ty_List_GuildRelationInfo_def
  ty_List_GuildShopBuyLimitData_def ty_List_GuildShopItemData_def ty_List_GuildSimpleInfo_def
  ty_List_HostileFunctionSimpleInfo_def ty_List_HostileUnionGuildInfo_def
  ty_List_HostileUnionInfo_def ty_List_ItemBrokenGiveData_def
  ty_List_ItemCollectionSlotRegQty_def ty_List_ItemCollectionSlots_def ty_List_ItemData_def
  ty_List_ItemEnchantRequest_def ty_List_ItemEnchantResult_def ty_List_ItemMakeLimitInfo_def
  ty_List_ItemMakeResultInfo_def ty_List_ItemOidAndCount_def ty_List_JewelCraftOptionData_def
  ty_List_LegacyCollection_def ty_List_LegacyCollectionGroup_def ty_List_LobbyPlayerInfo_def
  ty_List_MapLimitData_def ty_List_MasteryData_def ty_List_MercenaryApplyInfo_def
  ty_List_MercenaryRecruitInfo_def ty_List_MonsterCollectionInfo_def
  ty_List_MonsterCollectionOptionReward_def ty_List_MyAuctionElement_def
  ty_List_NetworkObjData_def ty_List_PVPLostItemInfo_def ty_List_PVPRecord_def
  ty_List_ParcelInfo_def ty_List_ParcelTradeRecord_def ty_List_PartyBuffData_def
  ty_List_PartyDungeonMemberInfo_def ty_List_PartyMemberData_def ty_List_PetAdventureInfo_def
  ty_List_PetInfo_def ty_List_PetPartyInfo_def ty_List_PetSlotInfo_def ty_List_PickResultInfo_def
  ty_List_PlayerData_def ty_List_PlayerRankInfo_def ty_List_PostInfo_def ty_List_PropertyData_def
  ty_List_QuestData_def ty_List_QuickSlotInfo_def ty_List_RankInfo_def
  ty_List_RankerStatueInfo_def ty_List_RePickResultInfo_def ty_List_RealmMapInfo_def
  ty_List_RealmProgressInfo_def ty_List_ReceivedPostInfo_def ty_List_RelationPlayerInfo_def
  ty_List_RestoreData_def ty_List_RestoreSimpleData_def ty_List_RewardData_def
  ty_List_RuneInfo_def ty_List_RuneLineInfo_def ty_List_RunePanelInfo_def
  ty_List_RunePanelSlotInfo_def ty_List_S2C_MoveNotice_def ty_List_ScheduleBossDashboardData_def
  ty_List_ScheduleBossInfo_def ty_List_ShopItemData_def ty_List_SiegeWarDominionTaxInfo_def
  ty_List_SiegeWarGuardInfo_def ty_List_SiegeWarMemberBoardInfo_def
  ty_List_SiegeWarObjectInfo_def ty_List_SkillData_def ty_List_SkillEffectValue_def
  ty_List_SlayerInfo_def ty_List_SoulStoneRootInfo_def ty_List_SoulStoneSlotInfo_def
  ty_List_StepUpCountRewardInfo_def ty_List_StorageBoxData_def ty_List_StoreHotDealData_def
  ty_List_StoreItemData_def ty_List_StoreSequenceItemData_def ty_List_SubSkillPointData_def
  ty_List_TotalPresetInfo_def ty_List_TotalPresetSet_def ty_List_TransferCheckData_def
  ty_List_TransferServerState_def ty_List_UnequipItemParam_def ty_List_UnionGuildInfo_def
  ty_List_UnionSimpleInfo_def ty_List_UniqueItemInfo_def ty_List_Vector_def
  ty_List_WStorageInfo_def ty_List_WantedInfo_def ty_List_WarehouseItemMove_def ty_List_Byte_def
  ty_List_Int32_def ty_List_Int64_def

lemmas array_names =
  ty_PetInfo_arr_def ty_SoulStoneInfo_arr_def ty_Byte_arr_def ty_List_EquipItemData_arr_def
  ty_List_TotalPresetInfo_arr_def ty_Int32_arr_def

text \<open>What the tests of the codec say of the three shapes of a type string.\<close>

lemma zero_primitive_None: "t \<notin> set prim_names \<Longrightarrow> zero_primitive t = None"
  by (simp add: prim_dom)

lemma is_array_type_snoc: "is_array_type (s @ [a, b]) \<longleftrightarrow> [a, b] = ''[]''"
  by (simp add: is_array_type_def)

lemma list_shape:
  assumes "t = ''System.Collections.Generic.List<'' @ e @ ''>''"
  shows "zero_primitive t = None" "\<not> is_array_type t" "is_list_type t" "list_elem t = e"
proof -
  have t: "t = listPrefix @ e @ ''>''" using assms by (simp add: listPrefix_def)
  have l: "length listPrefix = 32" by (simp add: listPrefix_def)
  show "zero_primitive t = None"
    unfolding assms by (rule zero_primitive_None) (simp add: prim_names_def)
  have "t = (listPrefix @ e) @ ''>''" using t by simp
  then have "\<exists>s a. t = s @ [a, CHR ''>'']" using l by (cases "listPrefix @ e" rule: rev_cases) auto
  then show "\<not> is_array_type t" by (auto simp: is_array_type_snoc simp del: append.simps)
  show "is_list_type t" unfolding t is_list_type_def by simp
  show "list_elem t = e" unfolding t list_elem_def by simp
qed

lemma array_shape:
  assumes "t = e @ ''[]''" "t \<notin> set prim_names"
  shows "zero_primitive t = None" "is_array_type t" "array_elem t = e"
  using assms by (simp_all add: zero_primitive_None is_array_type_def array_elem_def)

lemma struct_shape:
  assumes "t = CHR ''P'' # s" "\<not> is_array_type (CHR ''P'' # s)"
  shows "zero_primitive t = None \<and> \<not> is_array_type t \<and> \<not> is_list_type t"
  unfolding assms(1) using assms(2)
  by (simp add: zero_primitive_None prim_names_def is_list_type_def listPrefix_def)

lemma not_array_Cons: "\<not> is_array_type (b # c # s) \<Longrightarrow> \<not> is_array_type (a # b # c # s)"
  by (simp add: is_array_type_def Suc_diff_le)

lemma not_array_last: "b \<noteq> CHR '']'' \<Longrightarrow> \<not> is_array_type [a, b]"
  by (simp add: is_array_type_def)

lemma primitive_kind: "list_all (\<lambda>t. zero_primitive t \<noteq> None) primitive_types"
  by (simp add: primitive_types_def primitive_names zero_primitive_def)

lemma list_entry:
  "t = ''System.Collections.Generic.List<'' @ e @ ''>'' \<Longrightarrow>
     (\<lambda>(t, e). zero_primitive t = None \<and> \<not> is_array_type t \<and> is_list_type t \<and> list_elem t = e) (t, e)"
  using list_shape by simp

lemma list_kind: "list_all (\<lambda>(t, e). zero_primitive t = None \<and> \<not> is_array_type t \<and> is_list_type t \<and>
    list_elem t = e) list_types"
  unfolding list_types_def by (intro entries; rule list_entry, rule list_names)

lemma array_entry:
  "t = e @ ''[]'' \<Longrightarrow> t \<notin> set prim_names \<Longrightarrow>
     (\<lambda>(t, e). zero_primitive t = None \<and> is_array_type t \<and> array_elem t = e) (t, e)"
  using array_shape by simp

lemma array_kind: "list_all (\<lambda>(t, e). zero_primitive t = None \<and> is_array_type t \<and> array_elem t = e) array_types"
  unfolding array_types_def
  by (intro entries; rule array_entry, rule array_names,
    simp add: prim_names_def array_names primitive_names ty_EquipItemData_def ty_List_EquipItemData_def ty_List_TotalPresetInfo_def ty_PetInfo_def ty_SoulStoneInfo_def ty_TotalPresetInfo_def)

lemma struct_entry:
  "t = CHR ''P'' # s \<Longrightarrow> \<not> is_array_type (CHR ''P'' # s) \<Longrightarrow>
     (\<lambda>(t, l). zero_primitive t = None \<and> \<not> is_array_type t \<and> \<not> is_list_type t) (t, l)"
  using struct_shape by simp

lemma struct_kind:
  "list_all (\<lambda>(t, l). zero_primitive t = None \<and> \<not> is_array_type t \<and> \<not> is_list_type t) rom_structs"
  unfolding all_structs
  by (intro conjI) (rule walk_structs, (rule entries(1) | (rule entries(2), rule struct_entry,
    rule struct_names, (rule not_array_Cons | (rule not_array_last, simp))+))+)+

lemma struct_lookup: "list_all (\<lambda>(t, l). map_of rom_structs t = Some l) rom_structs"
  by (auto simp: list_all_iff intro: rom_struct)

lemma array_sizes:
  "map_of fixed_arrays (array_key ''Protocol.C2S_GameGuardCheck'' ''m_responseKey'') = None"
  "map_of fixed_arrays (array_key ''Protocol.S2C_ContentsSetting'' ''m_levelLimits'') = Some 10"
  "map_of fixed_arrays (array_key ''Protocol.S2C_ContentsSetting'' ''m_values'') = Some 3"
  "map_of fixed_arrays (array_key ''Protocol.S2C_EquipList'' ''m_usePresetSlot'') = Some 2"
  "map_of fixed_arrays (array_key ''Protocol.S2C_EquipList'' ''m_equipItemList'') = Some 2"
  "map_of fixed_arrays (array_key ''Protocol.S2C_EquipList'' ''m_equipCostume'') = Some 2"
  "map_of fixed_arrays (array_key ''Protocol.S2C_EquipList'' ''m_equipPet'') = Some 2"
  "map_of fixed_arrays (array_key ''Protocol.S2C_EquipList'' ''m_monolithEquipItemList'') = Some 2"
  "map_of fixed_arrays (array_key ''Protocol.S2C_GameGuardCheck'' ''m_requestKey'') = None"
  "map_of fixed_arrays (array_key ''Protocol.S2C_TotalPresetList'' ''m_presetList'') = None"
  "map_of fixed_arrays (array_key ty_AbilityValue ''m_data'') = Some 249"
  "map_of fixed_arrays (array_key ty_AuctionElement ''m_itemOptionIndex'') = None"
  "map_of fixed_arrays (array_key ty_EryndorImprintingInfo ''m_optionIndex'') = None"
  "map_of fixed_arrays (array_key ty_ItemOptions ''m_optionIndex'') = Some 10"
  "map_of fixed_arrays (array_key ty_SoulStoneRootInfo ''m_soulStoneInfo'') = None"
  by (simp_all add: fixed_arrays_def array_key_def ty_AbilityValue_def ty_AuctionElement_def ty_EryndorImprintingInfo_def ty_ItemOptions_def ty_SoulStoneRootInfo_def)

section \<open>The messages that can be sized\<close>

lemma resolves_mono: "resolves cat n t owner nm \<Longrightarrow> n \<le> m \<Longrightarrow> resolves cat m t owner nm"
proof (induction n arbitrary: t owner nm m)
  case (Suc n)
  from Suc.prems(2) obtain m' where m: "m = Suc m'" "n \<le> m'" by (cases m) auto
  show ?case
    using Suc.prems(1) Suc.IH m by (auto simp: list_all_iff split: option.splits if_splits)
qed simp

text \<open>The types by the nesting they need.\<close>

definition sized_within :: "nat \<Rightarrow> string \<Rightarrow> bool" where
  "sized_within d t \<longleftrightarrow> (\<forall>n owner nm. d \<le> n \<longrightarrow> resolves rom n t owner nm)"

lemma sized_withinI: "(\<And>owner nm. resolves rom d t owner nm) \<Longrightarrow> sized_within d t"
  using resolves_mono unfolding sized_within_def by blast

declare resolves.simps(2) [simp del]

lemma resolves_primitive:
  "list_all (\<lambda>t. \<forall>n owner nm. 0 < n \<longrightarrow> resolves rom n t owner nm) primitive_types"
  using primitive_kind by (auto simp: list_all_iff gr0_conv_Suc resolves.simps(2) split: option.split)

lemma resolves_list:
  "list_all (\<lambda>(t, e). \<forall>n owner nm. 0 < n \<longrightarrow> resolves rom n t owner nm = resolves rom (n - 1) e owner nm) list_types"
  using list_kind by (auto simp: list_all_iff gr0_conv_Suc resolves.simps(2))

lemma resolves_array:
  "list_all (\<lambda>(t, e). \<forall>n owner nm. 0 < n \<longrightarrow> resolves rom n t owner nm =
     (map_of fixed_arrays (array_key owner nm) \<noteq> None \<and> resolves rom (n - 1) e owner nm)) array_types"
proof -
  have "\<forall>n owner nm. 0 < n \<longrightarrow> resolves rom n t owner nm =
      (map_of fixed_arrays (array_key owner nm) \<noteq> None \<and> resolves rom (n - 1) e owner nm)"
    if "(t, e) \<in> set array_types" for t e
  proof -
    from array_kind that have "zero_primitive t = None" "is_array_type t" "array_elem t = e"
      by (auto simp: list_all_iff)
    then show ?thesis by (auto simp: gr0_conv_Suc resolves.simps(2) split: option.splits)
  qed
  then show ?thesis by (auto simp: list_all_iff)
qed

lemma resolves_struct:
  "list_all (\<lambda>(t, l). \<forall>n owner nm. 0 < n \<longrightarrow> resolves rom n t owner nm =
     list_all (\<lambda>f. resolves rom (n - 1) (fType f) t (fName f)) l) rom_structs"
proof -
  have "\<forall>n owner nm. 0 < n \<longrightarrow> resolves rom n t owner nm =
      list_all (\<lambda>f. resolves rom (n - 1) (fType f) t (fName f)) l" if "(t, l) \<in> set rom_structs" for t l
    using struct_kind rom_struct [OF that] that by (auto simp: list_all_iff gr0_conv_Suc resolves.simps(2))
  then show ?thesis by (auto simp: list_all_iff)
qed

lemmas resolves_kinds =
  resolves_primitive [unfolded primitive_types_def list.pred_inject]
  resolves_list [unfolded list_types_def list.pred_inject prod.case]
  resolves_array [unfolded array_types_def list.pred_inject prod.case]
  resolves_struct [unfolded all_structs struct_chunks list.pred_inject prod.case]

declare resolves_kinds [simp]
declare array_sizes [simp]

lemma sized_1_all: "list_all (sized_within 1)
    [ty_Boolean, ty_Byte, ty_Chars, ty_Double, ty_Int16, ty_Int32, ty_Int64, ty_Single,
     ty_String, ty_UInt16, ty_UInt32]"
  by (intro entries; rule sized_withinI, simp)

lemmas sized_1 [simp] = sized_1_all [unfolded list.pred_inject sized_within_def]

lemma sized_2_all: "list_all (sized_within 2)
    [ty_AbilitySkillLevelInfo, ty_AchieveData, ty_AdventureMapInfo, ty_AttachedData,
     ty_AttendanceData, ty_AuctionRecentPrice, ty_AutoStoreSettingInfo, ty_AutoUseInfo,
     ty_BankCardInfo, ty_BankDepositRankInfo, ty_BossAuctionItemInfo, ty_BroadCastInfo,
     ty_BuffData, ty_BuyItemData, ty_ClassChangeItemInfo, ty_ClassChangeSkillInfo,
     ty_CollectionCountInfo, ty_CollectionPart, ty_CommissionInfo, ty_ComposeFailedParam,
     ty_ComposeInputInfo, ty_ConquestDungeon, ty_ConquestDungeonApply, ty_ContributionRewardInfo,
     ty_CoolInfo, ty_CostumeInfo, ty_DissolveData, ty_DissolveRewardData,
     ty_DistributionMemberInfo, ty_DominionGuildData, ty_DominionIngameMemberPoint,
     ty_DominionIngameTeamPoint, ty_DominionKillComboInfo, ty_DominionMemberData,
     ty_DominionMoneyData, ty_DominionProductData, ty_DominionResultData, ty_DominionTaxInfo,
     ty_EndTimeInfo, ty_EntertainmentInfo, ty_EquipItemData, ty_EventGameRandomBoxSlotInfo,
     ty_EventSubMissionInfo, ty_FriendRequestInfo, ty_GuardListInfo, ty_GuardMemberInfo,
     ty_GuardMyInfo, ty_GuildAttendanceInfo, ty_GuildBuffInfo, ty_GuildContentResearchInfo,
     ty_GuildContributeTypeInfo, ty_GuildDistributionMoneyInfo, ty_GuildDungeonInfo,
     ty_GuildHistoryInfo, ty_GuildJoinRequestPlayerInfo, ty_GuildMemberSimpleInfo,
     ty_GuildPVPRecord, ty_GuildQuestData, ty_GuildShopBuyLimitData, ty_GuildShopItemData,
     ty_GuildSimpleInfo, ty_HostileFunctionSimpleInfo, ty_HostileUnionGuildInfo,
     ty_ItemBrokenGiveData, ty_ItemCollectionSlotRegQty, ty_ItemEnchantRequest,
     ty_ItemEnchantResult, ty_ItemMakeLimitInfo, ty_ItemMakeResultInfo, ty_ItemOidAndCount,
     ty_JewelCraftOptionData, ty_KillerInfo, ty_LegacyCollection, ty_LobbyPlayerInfo,
     ty_MapLimitData, ty_MasteryData, ty_MercenaryApplyInfo, ty_MercenaryRecruitInfo,
     ty_MoneyData, ty_MonsterCollectionInfo, ty_MonsterCollectionOptionReward,
     ty_PVPLostItemInfo, ty_PVPRecord, ty_PartyBuffData, ty_PartyDungeonMemberInfo, ty_PartyInfo,
     ty_PetAdventureInfo, ty_PetSlotInfo, ty_PickResultInfo, ty_PlayerRankInfo, ty_PropertyData,
     ty_QuestData, ty_QuickSlotInfo, ty_RankInfo, ty_RankerStatueInfo, ty_RePickResultInfo,
     ty_RealmMapInfo, ty_ReceivedPostInfo, ty_RelationPlayerInfo, ty_RestoreSimpleData,
     ty_RewardData, ty_RuneLineInfo, ty_ScheduleBossDashboardData, ty_ScheduleBossInfo,
     ty_SelectPlayerInfo, ty_ServerTransferDateInfo, ty_ShopItemData, ty_SiegeWarDominionTaxInfo,
     ty_SiegeWarGuardInfo, ty_SiegeWarInfo, ty_SiegeWarMemberInfo, ty_SiegeWarMemberScoreInfo,
     ty_SiegeWarObjectInfo, ty_SkillData, ty_SkillEffectValue, ty_SlayerInfo,
     ty_SoulStoneSlotInfo, ty_StatInfo, ty_StorageBoxData, ty_StoreHotDealData, ty_StoreItemData,
     ty_StoreSequenceItemData, ty_SubSkillPointData, ty_TotalPresetInfo, ty_TowerInfo,
     ty_TransferCheckData, ty_TransferServerState, ty_UnequipItemParam, ty_UnionGuildInfo,
     ty_UnionSimpleInfo, ty_UniqueItemInfo, ty_UserBlockInfo, ty_Vector, ty_WantedInfo,
     ty_WarehouseItemMove, ty_List_Byte, ty_List_Int32, ty_List_Int64]"
  by (intro entries; rule sized_withinI, simp)

lemmas sized_2 [simp] = sized_2_all [unfolded list.pred_inject sized_within_def]

lemma sized_3_all: "list_all (sized_within 3)
    [ty_DominionBriefData, ty_EventBingoStatus, ty_GuildJoinRequestGuildInfo, ty_ItemOptions,
     ty_MyPlayerInfo, ty_NetworkObjData, ty_PlayerData, ty_RealmProgressInfo,
     ty_SiegeWarMemberBoardInfo, ty_StepUpCountRewardInfo, ty_List_AbilitySkillLevelInfo,
     ty_List_AchieveData, ty_List_AdventureMapInfo, ty_List_AttachedData, ty_List_AttendanceData,
     ty_List_AuctionRecentPrice, ty_List_AutoStoreSettingInfo, ty_List_AutoUseInfo,
     ty_List_BankCardInfo, ty_List_BankDepositRankInfo, ty_List_BossAuctionItemInfo,
     ty_List_BroadCastInfo, ty_List_BuffData, ty_List_BuyItemData, ty_List_ClassChangeItemInfo,
     ty_List_ClassChangeSkillInfo, ty_List_CollectionCountInfo, ty_List_CollectionPart,
     ty_List_ComposeFailedParam, ty_List_ComposeInputInfo, ty_List_ConquestDungeon,
     ty_List_ConquestDungeonApply, ty_List_ContributionRewardInfo, ty_List_CoolInfo,
     ty_List_CostumeInfo, ty_List_DissolveData, ty_List_DissolveRewardData,
     ty_List_DistributionMemberInfo, ty_List_DominionGuildData,
     ty_List_DominionIngameMemberPoint, ty_List_DominionIngameTeamPoint,
     ty_List_DominionKillComboInfo, ty_List_DominionMemberData, ty_List_DominionMoneyData,
     ty_List_DominionProductData, ty_List_DominionResultData, ty_List_DominionTaxInfo,
     ty_List_EndTimeInfo, ty_List_EntertainmentInfo, ty_List_EquipItemData,
     ty_List_EventGameRandomBoxSlotInfo, ty_List_EventSubMissionInfo, ty_List_FriendRequestInfo,
     ty_List_GuardListInfo, ty_List_GuardMemberInfo, ty_List_GuildBuffInfo,
     ty_List_GuildContentResearchInfo, ty_List_GuildContributeTypeInfo, ty_List_GuildDungeonInfo,
     ty_List_GuildHistoryInfo, ty_List_GuildJoinRequestPlayerInfo, ty_List_GuildMemberSimpleInfo,
     ty_List_GuildPVPRecord, ty_List_GuildQuestData, ty_List_GuildShopBuyLimitData,
     ty_List_GuildShopItemData, ty_List_GuildSimpleInfo, ty_List_HostileFunctionSimpleInfo,
     ty_List_HostileUnionGuildInfo, ty_List_ItemBrokenGiveData, ty_List_ItemCollectionSlotRegQty,
     ty_List_ItemEnchantRequest, ty_List_ItemEnchantResult, ty_List_ItemMakeLimitInfo,
     ty_List_ItemMakeResultInfo, ty_List_ItemOidAndCount, ty_List_JewelCraftOptionData,
     ty_List_LegacyCollection, ty_List_LobbyPlayerInfo, ty_List_MapLimitData,
     ty_List_MasteryData, ty_List_MercenaryApplyInfo, ty_List_MercenaryRecruitInfo,
     ty_List_MonsterCollectionInfo, ty_List_MonsterCollectionOptionReward,
     ty_List_PVPLostItemInfo, ty_List_PVPRecord, ty_List_PartyBuffData,
     ty_List_PartyDungeonMemberInfo, ty_List_PetAdventureInfo, ty_List_PetSlotInfo,
     ty_List_PickResultInfo, ty_List_PlayerRankInfo, ty_List_PropertyData, ty_List_QuestData,
     ty_List_QuickSlotInfo, ty_List_RankInfo, ty_List_RankerStatueInfo, ty_List_RePickResultInfo,
     ty_List_RealmMapInfo, ty_List_ReceivedPostInfo, ty_List_RelationPlayerInfo,
     ty_List_RestoreSimpleData, ty_List_RewardData, ty_List_RuneLineInfo,
     ty_List_ScheduleBossDashboardData, ty_List_ScheduleBossInfo, ty_List_ShopItemData,
     ty_List_SiegeWarDominionTaxInfo, ty_List_SiegeWarGuardInfo, ty_List_SiegeWarObjectInfo,
     ty_List_SkillData, ty_List_SkillEffectValue, ty_List_SlayerInfo, ty_List_SoulStoneSlotInfo,
     ty_List_StorageBoxData, ty_List_StoreHotDealData, ty_List_StoreItemData,
     ty_List_StoreSequenceItemData, ty_List_SubSkillPointData, ty_List_TotalPresetInfo,
     ty_List_TransferCheckData, ty_List_TransferServerState, ty_List_UnequipItemParam,
     ty_List_UnionGuildInfo, ty_List_UnionSimpleInfo, ty_List_UniqueItemInfo, ty_List_Vector,
     ty_List_WantedInfo, ty_List_WarehouseItemMove]"
  by (intro entries; rule sized_withinI, simp)

lemmas sized_3 [simp] = sized_3_all [unfolded list.pred_inject sized_within_def]

lemma sized_4_all: "list_all (sized_within 4)
    [ty_AbilityValue, ty_BossAuctionInfo, ty_CollectionInfo, ty_DistributionMemberDetailInfo,
     ty_EventMissionInfo, ty_GuildDistributionSetting, ty_GuildGuardInfo, ty_GuildRelationInfo,
     ty_HostileUnionInfo, ty_ItemCollectionSlots, ty_ItemData, ty_LegacyCollectionGroup,
     ty_MyGuildInfo, ty_PartyMemberData, ty_PetInfo, ty_PetPartyInfo, ty_PostInfo, ty_RuneInfo,
     ty_S2C_MoveNotice, ty_SiegeWarPlayInfo, ty_SoulStoneInfo, ty_TotalPresetSet,
     ty_WStorageInfo, ty_List_DominionBriefData, ty_List_GuildJoinRequestGuildInfo,
     ty_List_NetworkObjData, ty_List_PlayerData, ty_List_RealmProgressInfo,
     ty_List_SiegeWarMemberBoardInfo, ty_List_StepUpCountRewardInfo]"
  by (intro entries; rule sized_withinI, simp)

lemmas sized_4 [simp] = sized_4_all [unfolded list.pred_inject sized_within_def]

lemma sized_5_all: "list_all (sized_within 5)
    [ty_AuctionFixRecord, ty_ParcelInfo, ty_ParcelTradeRecord, ty_RestoreData,
     ty_RunePanelSlotInfo, ty_List_BossAuctionInfo, ty_List_CollectionInfo,
     ty_List_DistributionMemberDetailInfo, ty_List_EventMissionInfo, ty_List_GuildRelationInfo,
     ty_List_HostileUnionInfo, ty_List_ItemCollectionSlots, ty_List_ItemData,
     ty_List_LegacyCollectionGroup, ty_List_PartyMemberData, ty_List_PetInfo,
     ty_List_PetPartyInfo, ty_List_PostInfo, ty_List_RuneInfo, ty_List_S2C_MoveNotice,
     ty_List_TotalPresetSet, ty_List_WStorageInfo]"
  by (intro entries; rule sized_withinI, simp)

lemmas sized_5 [simp] = sized_5_all [unfolded list.pred_inject sized_within_def]

lemma sized_6_all: "list_all (sized_within 6)
    [ty_UnionInfo, ty_List_AuctionFixRecord, ty_List_ParcelInfo, ty_List_ParcelTradeRecord,
     ty_List_RestoreData, ty_List_RunePanelSlotInfo]"
  by (intro entries; rule sized_withinI, simp)

lemmas sized_6 [simp] = sized_6_all [unfolded list.pred_inject sized_within_def]

lemma sized_7_all: "list_all (sized_within 7)
    [ty_RunePanelInfo]"
  by (intro entries; rule sized_withinI, simp)

lemmas sized_7 [simp] = sized_7_all [unfolded list.pred_inject sized_within_def]

lemma sized_8_all: "list_all (sized_within 8)
    [ty_List_RunePanelInfo]"
  by (intro entries; rule sized_withinI, simp)

lemmas sized_8 [simp] = sized_8_all [unfolded list.pred_inject sized_within_def]

lemma never_sized_array [simp]:
  "\<not> resolves rom n ty_Int32_arr ty_AuctionElement ''m_itemOptionIndex''"
  "\<not> resolves rom n ty_Int32_arr ty_EryndorImprintingInfo ''m_optionIndex''"
  "\<not> resolves rom n ty_SoulStoneInfo_arr ty_SoulStoneRootInfo ''m_soulStoneInfo''"
  "\<not> resolves rom n ty_Byte_arr ''Protocol.C2S_GameGuardCheck'' ''m_responseKey''"
  "\<not> resolves rom n ty_Byte_arr ''Protocol.S2C_GameGuardCheck'' ''m_requestKey''"
  "\<not> resolves rom n ty_List_TotalPresetInfo_arr ''Protocol.S2C_TotalPresetList'' ''m_presetList''"
  by (cases n; simp)+

lemma never_sized_1 [simp]:
  "\<not> resolves rom n ty_AuctionElement owner nm"
  "\<not> resolves rom n ty_EryndorImprintingInfo owner nm"
  "\<not> resolves rom n ty_SoulStoneRootInfo owner nm"
  by (cases n; simp)+

lemma never_sized_2 [simp]:
  "\<not> resolves rom n ty_MyAuctionElement owner nm"
  by (cases n; simp)+

lemma never_sized_3 [simp]:
  "\<not> resolves rom n ty_List_AuctionElement owner nm"
  "\<not> resolves rom n ty_List_EryndorImprintingInfo owner nm"
  "\<not> resolves rom n ty_List_MyAuctionElement owner nm"
  "\<not> resolves rom n ty_List_SoulStoneRootInfo owner nm"
  by (cases n; simp)+

text \<open>
  Eleven messages hold an array, directly or in an element, whose size the tables do not give.
  \<open>Encode\<close> refuses them (or, where the array sits in a list element, every non-empty list);
  \<open>Decode\<close> leaves the rest of their body as tail.
\<close>

definition unsized_messages :: "string list" where
  "unsized_messages =
    [''C2S_GameGuardCheck'', ''S2C_AuctionAddNoti'', ''S2C_AuctionList'', ''S2C_AuctionMyList'',
     ''S2C_AuctionReRegister'', ''S2C_GameGuardCheck'', ''S2C_ItemEryndorImprinting'',
     ''S2C_ItemEryndorImprintingList'', ''S2C_ItemEryndorImprintingReset'',
     ''S2C_SoulStoneList'', ''S2C_TotalPresetList'']"

definition sized_or_listed :: "u32 \<times> message \<Rightarrow> bool" where
  "sized_or_listed = (\<lambda>(k, m). encodable rom m \<or> msgName m \<in> set unsized_messages)"

lemma sized_entry:
  "list_all (\<lambda>f. sized_within 8 (fType f)) fs \<Longrightarrow>
     sized_or_listed (k, \<lparr>msgName = n, msgDir = d, msgID = i, msgFields = fs\<rparr>)"
  by (auto simp: sized_or_listed_def encodable_def list_all_iff sized_within_def codec_fuel_def)

lemma sized_field: "sized_within 8 t \<Longrightarrow> (\<lambda>f. sized_within 8 (fType f)) (Field n t)"
  by simp

lemma sized_max: "list_all (sized_within d) ts \<Longrightarrow> d \<le> 8 \<Longrightarrow> list_all (sized_within 8) ts"
  by (auto simp: list_all_iff sized_within_def)

lemmas sized_types =
  sized_max [OF sized_1_all, simplified list.pred_inject, simplified]
  sized_max [OF sized_2_all, simplified list.pred_inject, simplified]
  sized_max [OF sized_3_all, simplified list.pred_inject, simplified]
  sized_max [OF sized_4_all, simplified list.pred_inject, simplified]
  sized_max [OF sized_5_all, simplified list.pred_inject, simplified]
  sized_max [OF sized_6_all, simplified list.pred_inject, simplified]
  sized_max [OF sized_7_all, simplified list.pred_inject, simplified]
  sized_max [OF sized_8_all, simplified list.pred_inject, simplified]

declare sized_types [simp]

lemma listed_entry:
  "n \<in> set unsized_messages \<Longrightarrow>
     sized_or_listed (k, \<lparr>msgName = n, msgDir = d, msgID = i, msgFields = fs\<rparr>)"
  by (simp add: sized_or_listed_def)

lemma sized_by_field:
  "list_all (\<lambda>f. resolves rom codec_fuel (fType f) (''Protocol.'' @ n) (fName f)) fs \<Longrightarrow>
     sized_or_listed (k, \<lparr>msgName = n, msgDir = d, msgID = i, msgFields = fs\<rparr>)"
  by (simp add: sized_or_listed_def encodable_def full_name_def)

lemma sized_chunks_1:
  "list_all sized_or_listed messages_1" "list_all sized_or_listed messages_2"
  "list_all sized_or_listed messages_3" "list_all sized_or_listed messages_4"
  "list_all sized_or_listed messages_5" "list_all sized_or_listed messages_6"
  "list_all sized_or_listed messages_7"
  by (rule walk_messages, (rule entries(1) | (rule entries(2), (
      (rule sized_entry; (intro entries; (rule sized_field; simp; fail)))
    | (rule listed_entry, simp add: unsized_messages_def; fail)
    | (rule sized_by_field, simp add: codec_fuel_def))))+)+

lemma sized_chunks_2:
  "list_all sized_or_listed messages_8" "list_all sized_or_listed messages_9"
  "list_all sized_or_listed messages_10" "list_all sized_or_listed messages_11"
  "list_all sized_or_listed messages_12" "list_all sized_or_listed messages_13"
  "list_all sized_or_listed messages_14"
  by (rule walk_messages, (rule entries(1) | (rule entries(2), (
      (rule sized_entry; (intro entries; (rule sized_field; simp; fail)))
    | (rule listed_entry, simp add: unsized_messages_def; fail)
    | (rule sized_by_field, simp add: codec_fuel_def))))+)+

lemma sized_chunks_3:
  "list_all sized_or_listed messages_15" "list_all sized_or_listed messages_16"
  "list_all sized_or_listed messages_17" "list_all sized_or_listed messages_18"
  "list_all sized_or_listed messages_19" "list_all sized_or_listed messages_20"
  "list_all sized_or_listed messages_21"
  by (rule walk_messages, (rule entries(1) | (rule entries(2), (
      (rule sized_entry; (intro entries; (rule sized_field; simp; fail)))
    | (rule listed_entry, simp add: unsized_messages_def; fail)
    | (rule sized_by_field, simp add: codec_fuel_def))))+)+

lemma sized_chunks_4:
  "list_all sized_or_listed messages_22" "list_all sized_or_listed messages_23"
  "list_all sized_or_listed messages_24" "list_all sized_or_listed messages_25"
  "list_all sized_or_listed messages_26" "list_all sized_or_listed messages_27"
  "list_all sized_or_listed messages_28"
  by (rule walk_messages, (rule entries(1) | (rule entries(2), (
      (rule sized_entry; (intro entries; (rule sized_field; simp; fail)))
    | (rule listed_entry, simp add: unsized_messages_def; fail)
    | (rule sized_by_field, simp add: codec_fuel_def))))+)+

lemma sized_rom:
  "(k, m) \<in> set rom_messages \<Longrightarrow> msgName m \<notin> set unsized_messages \<Longrightarrow> encodable rom m"
proof -
  have "list_all sized_or_listed rom_messages"
    unfolding all_messages using sized_chunks_1 sized_chunks_2 sized_chunks_3 sized_chunks_4 by blast
  then show "(k, m) \<in> set rom_messages \<Longrightarrow> msgName m \<notin> set unsized_messages \<Longrightarrow> encodable rom m"
    by (auto simp: list_all_iff sized_or_listed_def)
qed

lemma unsized_rom:
  "byName rom n = Some m \<Longrightarrow> n \<in> set unsized_messages \<Longrightarrow> \<not> encodable rom m"
  by (auto simp: unsized_messages_def rom_lookups encodable_def full_name_def)

lemma encodable_rom:
  "byName rom n = Some m \<Longrightarrow> encodable rom m \<longleftrightarrow> n \<notin> set unsized_messages"
  using sized_rom unsized_rom byName_SomeD [of rom n m] by fastforce

end
