(* ===== verification/RomMessages.thy ===== *)
theory RomMessages
  imports RomCatalog
begin

text \<open>
  The messages the server itself reads and writes, looked up in the catalog of the repository:
  one rewrite rule for each name, which the handlers' proofs evaluate the codec with.
\<close>

lemma handler_messages:
  "byName rom ''C2S_VersionCheck'' = Some \<lparr>msgName = ''C2S_VersionCheck'', msgDir = ''C2S'', msgID = 0x1CC28AAC, msgFields =
   [Field ''m_protocolVer'' ty_Int32, Field ''m_socketUID'' ty_Int64,
    Field ''m_connectionKey'' ty_Int64]\<rparr>"
  "byName rom ''C2S_SessionAuthLogin'' = Some \<lparr>msgName = ''C2S_SessionAuthLogin'', msgDir = ''C2S'', msgID = 0x11C4978B, msgFields =
   [Field ''m_worldGroupID'' ty_Int32, Field ''m_accountCode'' ty_String,
    Field ''m_sessionKey'' ty_Int32, Field ''m_deviceOS'' ty_Byte,
    Field ''m_deviceID'' ty_String, Field ''m_deviceLangCode'' ty_String,
    Field ''m_countryCode'' ty_String, Field ''m_platformType'' ty_Byte,
    Field ''m_deviceName'' ty_String, Field ''m_useGameGuard'' ty_Boolean,
    Field ''m_systemLan'' ty_String, Field ''m_processorType'' ty_String]\<rparr>"
  "byName rom ''C2S_SetOptions'' = Some \<lparr>msgName = ''C2S_SetOptions'', msgDir = ''C2S'', msgID = 0x0F5C0EFA, msgFields =
   [Field ''m_optionValues'' ty_UInt32]\<rparr>"
  "byName rom ''C2S_WaitingUserCount'' = Some \<lparr>msgName = ''C2S_WaitingUserCount'', msgDir = ''C2S'', msgID = 0x0EFBF0B4, msgFields =
   []\<rparr>"
  "byName rom ''C2S_PlayerList'' = Some \<lparr>msgName = ''C2S_PlayerList'', msgDir = ''C2S'', msgID = 0x2C5F6EBA, msgFields =
   []\<rparr>"
  "byName rom ''C2S_CreatePlayer'' = Some \<lparr>msgName = ''C2S_CreatePlayer'', msgDir = ''C2S'', msgID = 0x3A009026, msgFields =
   [Field ''m_name'' ty_Chars, Field ''m_classType'' ty_Byte, Field ''m_headType'' ty_Byte]\<rparr>"
  "byName rom ''C2S_EnterWorld'' = Some \<lparr>msgName = ''C2S_EnterWorld'', msgDir = ''C2S'', msgID = 0x0A8477ED, msgFields =
   [Field ''m_playerSlotIndex'' ty_Byte]\<rparr>"
  "byName rom ''C2S_MapEnter'' = Some \<lparr>msgName = ''C2S_MapEnter'', msgDir = ''C2S'', msgID = 0x25FCD5AD, msgFields =
   [Field ''m_mapIndex'' ty_Int32, Field ''m_batchIndex'' ty_Int32, Field ''m_warpToken'' ty_Int64]\<rparr>"
  "byName rom ''C2S_MapEnterPreComplete'' = Some \<lparr>msgName = ''C2S_MapEnterPreComplete'', msgDir = ''C2S'', msgID = 0x00B131E9, msgFields =
   []\<rparr>"
  "byName rom ''C2S_MapEnterComplete'' = Some \<lparr>msgName = ''C2S_MapEnterComplete'', msgDir = ''C2S'', msgID = 0x2D0C11E8, msgFields =
   []\<rparr>"
  "byName rom ''C2S_PlayerLoadFirstCall'' = Some \<lparr>msgName = ''C2S_PlayerLoadFirstCall'', msgDir = ''C2S'', msgID = 0x0D3307ED, msgFields =
   []\<rparr>"
  "byName rom ''C2S_Logout'' = Some \<lparr>msgName = ''C2S_Logout'', msgDir = ''C2S'', msgID = 0x37A7F889, msgFields =
   [Field ''m_sessionKey'' ty_Int32]\<rparr>"
  "byName rom ''S2C_CheckConnection'' = Some \<lparr>msgName = ''S2C_CheckConnection'', msgDir = ''S2C'', msgID = 0x32E4591F, msgFields =
   [Field ''m_socketUID'' ty_Int64, Field ''m_connectionKey'' ty_Int64,
    Field ''m_clientSendIV'' ty_Int64, Field ''m_serverSendIV'' ty_Int64,
    Field ''m_encryptionKeyLow'' ty_Int64, Field ''m_encryptionKeyHigh'' ty_Int64]\<rparr>"
  "byName rom ''S2C_VersionCheck'' = Some \<lparr>msgName = ''S2C_VersionCheck'', msgDir = ''S2C'', msgID = 0x30A5DEED, msgFields =
   [Field ''m_protocolVer'' ty_Int32, Field ''m_serverID'' ty_Int32,
    Field ''m_utcTimeOffset'' ty_Int32, Field ''m_serverTime'' ty_Int64,
    Field ''m_serverTick'' ty_Int64]\<rparr>"
  "byName rom ''S2C_SessionAuthLogin'' = Some \<lparr>msgName = ''S2C_SessionAuthLogin'', msgDir = ''S2C'', msgID = 0x1D6DAFB5, msgFields =
   [Field ''m_result'' ty_Int32, Field ''m_accountCode'' ty_String,
    Field ''m_sessionKey'' ty_Int32, Field ''m_userBlockInfo'' ty_UserBlockInfo]\<rparr>"
  "byName rom ''S2C_WaitingUserCount'' = Some \<lparr>msgName = ''S2C_WaitingUserCount'', msgDir = ''S2C'', msgID = 0x2A1BF607, msgFields =
   [Field ''m_waitingNumber'' ty_Int32, Field ''m_waitingUserCount'' ty_Int32,
    Field ''m_elapsedTime'' ty_Int32, Field ''m_rewardItemIndex'' ty_Int32,
    Field ''m_rewardItemCount'' ty_Int32, Field ''m_estimatedTime'' ty_Int32,
    Field ''m_nowServerTime'' ty_Int64]\<rparr>"
  "byName rom ''S2C_PlayerList'' = Some \<lparr>msgName = ''S2C_PlayerList'', msgDir = ''S2C'', msgID = 0x173B37EF, msgFields =
   [Field ''m_maxSlotCount'' ty_Byte, Field ''m_playerList'' ty_List_LobbyPlayerInfo,
    Field ''m_enableStoarge'' ty_Boolean]\<rparr>"
  "byName rom ''S2C_CreatePlayer'' = Some \<lparr>msgName = ''S2C_CreatePlayer'', msgDir = ''S2C'', msgID = 0x16AF8260, msgFields =
   [Field ''m_result'' ty_Int32, Field ''m_player'' ty_LobbyPlayerInfo]\<rparr>"
  "byName rom ''S2C_EnterWorld'' = Some \<lparr>msgName = ''S2C_EnterWorld'', msgDir = ''S2C'', msgID = 0x31AFB19A, msgFields =
   [Field ''m_result'' ty_Int32, Field ''m_playerSlotIndex'' ty_Byte]\<rparr>"
  "byName rom ''S2C_EnterWorldComplete'' = Some \<lparr>msgName = ''S2C_EnterWorldComplete'', msgDir = ''S2C'', msgID = 0x13DFE454, msgFields =
   [Field ''m_result'' ty_Int32, Field ''m_myPlayerInfo'' ty_MyPlayerInfo,
    Field ''m_warpToken'' ty_Int64]\<rparr>"
  "byName rom ''S2C_MapEnter'' = Some \<lparr>msgName = ''S2C_MapEnter'', msgDir = ''S2C'', msgID = 0x37ED9D11, msgFields =
   [Field ''m_result'' ty_Int32, Field ''m_sourcePacketID'' ty_Int32,
    Field ''m_mapIndex'' ty_Int32, Field ''m_layerIndex'' ty_Int32,
    Field ''m_startPos'' ty_Vector, Field ''m_dir'' ty_Single, Field ''m_serverID'' ty_Int32,
    Field ''m_serverTick'' ty_Int64]\<rparr>"
  "byName rom ''S2C_MapEnterPreComplete'' = Some \<lparr>msgName = ''S2C_MapEnterPreComplete'', msgDir = ''S2C'', msgID = 0x26FC6EE4, msgFields =
   []\<rparr>"
  "byName rom ''S2C_MapEnterComplete'' = Some \<lparr>msgName = ''S2C_MapEnterComplete'', msgDir = ''S2C'', msgID = 0x1D23867A, msgFields =
   [Field ''m_result'' ty_Int32, Field ''m_playerOID'' ty_Int64, Field ''m_remainTime'' ty_Int32,
    Field ''m_randomTeleportRemainSec'' ty_Int32]\<rparr>"
  "byName rom ''S2C_PlayerLoadFirstCall'' = Some \<lparr>msgName = ''S2C_PlayerLoadFirstCall'', msgDir = ''S2C'', msgID = 0x334D1A49, msgFields =
   [Field ''m_result'' ty_Int32]\<rparr>"
  "byName rom ''S2C_Logout'' = Some \<lparr>msgName = ''S2C_Logout'', msgDir = ''S2C'', msgID = 0x22790A26, msgFields =
   [Field ''m_result'' ty_Int32]\<rparr>"
  by (rule rom_byName, rule in_rom_messages, rule in_message_chunk,
      (rule list.set_intros(1) | rule list.set_intros(2))+, simp)+

end
