(* ===== verification/Extent.thy ===== *)
theory Extent
  imports CodecTotal
begin

text \<open>
  The extent of a value on the wire, described on the bytes alone: how far each type reaches, with no
  reader and no value. \<open>skip_value\<close> gives the bytes after a value, or nothing where the bytes do
  not hold the whole of it. The decoders read exactly these extents (\<open>reads\<close>): they fail exactly
  where there is none, and what they return depends on the bytes inside it only.
\<close>

section \<open>Extents\<close>

definition skip :: "nat \<Rightarrow> byte list \<Rightarrow> byte list option" where
  "skip n bs = (if n \<le> length bs then Some (drop n bs) else None)"

definition widths :: "(string \<times> nat) list" where
  "widths =
     [(''System.Int32'', 4), (''System.UInt32'', 4), (''System.Int64'', 8), (''System.UInt64'', 8),
      (''System.Int16'', 2), (''System.UInt16'', 2), (''System.Byte'', 1), (''System.SByte'', 1),
      (''System.Boolean'', 1), (''System.Single'', 4), (''System.Double'', 8)]"

text \<open>A string is its number of 16-bit units and the units; a character array ends with the first zero unit.\<close>

definition skip_string :: "byte list \<Rightarrow> byte list option" where
  "skip_string bs = Option.bind (skip 4 bs) (skip (2 * unat (le_word (take 4 bs) :: u32)))"

fun skip_chars :: "byte list \<Rightarrow> byte list option" where
  "skip_chars (a # b # bs) = (if a = 0 \<and> b = 0 then Some bs else skip_chars bs)"
| "skip_chars _ = None"

definition skip_primitive :: "string \<Rightarrow> (byte list \<Rightarrow> byte list option) option" where
  "skip_primitive t =
     (if t = ''System.String'' then Some skip_string
      else if t = ''System.Char[]'' then Some skip_chars
      else map_option skip (map_of widths t))"

primrec skip_times :: "(byte list \<Rightarrow> byte list option) \<Rightarrow> nat \<Rightarrow> byte list \<Rightarrow> byte list option" where
  "skip_times step 0 bs = Some bs"
| "skip_times step (Suc n) bs = Option.bind (step bs) (skip_times step n)"

primrec skip_layout ::
    "(string \<Rightarrow> string \<Rightarrow> byte list \<Rightarrow> byte list option) \<Rightarrow> field list \<Rightarrow> byte list \<Rightarrow> byte list option" where
  "skip_layout step [] bs = Some bs"
| "skip_layout step (f # fs) bs = Option.bind (step (fType f) (fName f) bs) (skip_layout step fs)"

primrec skip_value :: "catalog \<Rightarrow> nat \<Rightarrow> string \<Rightarrow> string \<Rightarrow> string \<Rightarrow> byte list \<Rightarrow> byte list option" where
  "skip_value cat 0 ftype owner fname bs = None"
| "skip_value cat (Suc n) ftype owner fname bs =
     (case skip_primitive ftype of
        Some step \<Rightarrow> step bs
      | None \<Rightarrow>
          if is_array_type ftype then
            (case map_of (fixedArrays cat) (array_key owner fname) of
               None \<Rightarrow> None
             | Some sz \<Rightarrow> skip_times (skip_value cat n (array_elem ftype) owner fname) sz bs)
          else if is_list_type ftype then
            Option.bind (skip 4 bs) (skip_times (skip_value cat n (list_elem ftype) owner fname)
              (unat (le_word (take 4 bs) :: u32)))
          else
            (case map_of (structs cat) ftype of
               None \<Rightarrow> None
             | Some layout \<Rightarrow>
                 Option.bind (if ftype \<in> set (messageFullNames cat) then skip 4 bs else Some bs)
                   (skip_layout (\<lambda>t nm. skip_value cat n t ftype nm) layout)))"

text \<open>The fields of a message that the bytes hold in full, and the bytes after the last of them.\<close>

primrec held_fields ::
    "(string \<Rightarrow> string \<Rightarrow> byte list \<Rightarrow> byte list option) \<Rightarrow> field list \<Rightarrow> byte list \<Rightarrow> field list \<times> byte list" where
  "held_fields step [] bs = ([], bs)"
| "held_fields step (f # fs) bs =
     (case step (fType f) (fName f) bs of
        None \<Rightarrow> ([], bs)
      | Some bs' \<Rightarrow> apfst ((#) f) (held_fields step fs bs'))"

definition wire_extent :: "catalog \<Rightarrow> byte list \<Rightarrow> field list \<times> byte list" where
  "wire_extent cat body =
     (case Lookup cat (le_word (take 4 body)) of
        None \<Rightarrow> ([], drop 4 body)
      | Some msg \<Rightarrow>
          held_fields (\<lambda>t nm. skip_value cat codec_fuel t (full_name msg) nm) (msgFields msg) (drop 4 body))"

section \<open>Decoders read extents\<close>

definition reads :: "(reader \<Rightarrow> perr + ('v \<times> reader)) \<Rightarrow> (byte list \<Rightarrow> byte list option) \<Rightarrow> bool" where
  "reads dec step \<longleftrightarrow>
     (\<forall>bs. case step bs of
        None \<Rightarrow> (\<forall>pre. \<exists>e. dec (at pre bs) = Inl e)
      | Some post \<Rightarrow> (\<exists>out v. bs = out @ post \<and>
          (\<forall>pre post'. dec (at pre (out @ post')) = Inr (v, at (pre @ out) post') \<and> step (out @ post') = Some post')))"

lemma readsI:
  assumes "\<And>pre bs. step bs = None \<Longrightarrow> \<exists>e. dec (at pre bs) = Inl e"
    and "\<And>bs post. step bs = Some post \<Longrightarrow> \<exists>out v. bs = out @ post \<and>
      (\<forall>pre post'. dec (at pre (out @ post')) = Inr (v, at (pre @ out) post') \<and> step (out @ post') = Some post')"
  shows "reads dec step"
  using assms by (simp add: reads_def split: option.split)

lemma reads_fails: "reads dec step \<Longrightarrow> step bs = None \<Longrightarrow> \<exists>e. dec (at pre bs) = Inl e"
  unfolding reads_def by (drule spec [of _ bs]) simp

lemma reads_ok:
  assumes "reads dec step" "step bs = Some post"
  obtains out v where "bs = out @ post" "\<And>pre post'. dec (at pre (out @ post')) = Inr (v, at (pre @ out) post')"
    "\<And>post'. step (out @ post') = Some post'"
proof -
  have "\<exists>out v. bs = out @ post \<and>
      (\<forall>pre post'. dec (at pre (out @ post')) = Inr (v, at (pre @ out) post') \<and> step (out @ post') = Some post')"
    using assms unfolding reads_def by (auto dest: spec [of _ bs])
  then obtain out v where "bs = out @ post"
    "\<forall>pre post'. dec (at pre (out @ post')) = Inr (v, at (pre @ out) post') \<and> step (out @ post') = Some post'" by blast
  then show thesis by (intro that [of out v]) simp_all
qed

text \<open>Where there is no value in some bytes, there is none in fewer.\<close>

lemma reads_empty: "reads dec step \<Longrightarrow> step bs = None \<Longrightarrow> step [] = None"
proof (rule ccontr)
  assume r: "reads dec step" "step bs = None" "step [] \<noteq> None"
  then obtain post where s: "step [] = Some post" by auto
  obtain out where "[] = out @ post" "\<And>post'. step (out @ post') = Some post'"
    by (rule reads_ok [OF r(1) s]) blast
  then show False using r(2) by simp
qed

lemma reads_need:
  assumes "\<And>r. dec r = rbind (need r n) (\<lambda>_. Inr (f r, advance n r))"
    and "\<And>pre pre' bs bs'. take n bs = take n bs' \<Longrightarrow> n \<le> length bs \<Longrightarrow> n \<le> length bs' \<Longrightarrow> f (at pre bs) = f (at pre' bs')"
  shows "reads dec (skip n)"
proof (rule readsI)
  fix bs post assume "skip n bs = Some post"
  then have n: "n \<le> length bs" "post = drop n bs" by (auto simp: skip_def split: if_splits)
  have "dec (at pre (take n bs @ post')) = Inr (f (at [] (take n bs)), at (pre @ take n bs) post')" for pre post'
    using n(1) assms(2) [of "take n bs @ post'" "take n bs" pre "[]"]
    by (simp add: assms(1) advance_at_take)
  then show "\<exists>out v. bs = out @ post \<and>
      (\<forall>pre post'. dec (at pre (out @ post')) = Inr (v, at (pre @ out) post') \<and> skip n (out @ post') = Some post')"
    using n by (intro exI [of _ "take n bs"] exI [of _ "f (at [] (take n bs))"]) (simp add: skip_def)
qed (auto simp: skip_def assms(1) split: if_splits)

lemma reads_words: "reads r_u8 (skip 1)" "reads r_u16 (skip 2)" "reads r_u32 (skip 4)" "reads r_u64 (skip 8)"
proof -
  have byte: "bs ! 0 = bs' ! 0" if "take 1 bs = take 1 bs'" "1 \<le> length bs" "1 \<le> length bs'" for bs bs' :: "byte list"
    using that by (cases bs; cases bs') simp_all
  show "reads r_u8 (skip 1)"
  proof (rule reads_need [where f = "\<lambda>r. rd_buf r ! rd_pos r"])
    fix pre pre' bs bs' :: "byte list" assume "take 1 bs = take 1 bs'" "1 \<le> length bs" "1 \<le> length bs'"
    from byte [OF this] show "rd_buf (at pre bs) ! rd_pos (at pre bs) = rd_buf (at pre' bs') ! rd_pos (at pre' bs')"
      by (simp add: at_def nth_append)
  qed (simp add: r_u8_def)
  show "reads r_u16 (skip 2)" "reads r_u32 (skip 4)" "reads r_u64 (skip 8)"
    by (rule reads_need [where f = "rd_le 2"] reads_need [where f = "rd_le 4"] reads_need [where f = "rd_le 8"],
      simp_all add: r_u16_def r_u32_def r_u64_def)+
qed

lemma reads_bind:
  assumes "reads d s" "\<And>x. reads (k x) s'"
  shows "reads (\<lambda>r. rbind (d r) (\<lambda>(x, r1). k x r1)) (\<lambda>bs. Option.bind (s bs) s')"
proof (rule readsI)
  fix pre bs assume n: "Option.bind (s bs) s' = None"
  show "\<exists>e. rbind (d (at pre bs)) (\<lambda>(x, r1). k x r1) = Inl e"
  proof (cases "s bs")
    case None
    then show ?thesis using reads_fails [OF assms(1), of bs pre] by auto
  next
    case (Some p1)
    obtain o1 x where o1: "bs = o1 @ p1" "\<And>pre post'. d (at pre (o1 @ post')) = Inr (x, at (pre @ o1) post')"
      by (rule reads_ok [OF assms(1) Some]) blast
    have "s' p1 = None" using n Some by simp
    from reads_fails [OF assms(2) [of x] this, of "pre @ o1"] show ?thesis by (auto simp: o1)
  qed
next
  fix bs post assume "Option.bind (s bs) s' = Some post"
  then obtain p1 where p: "s bs = Some p1" "s' p1 = Some post" by (auto simp: bind_eq_Some_conv)
  obtain o1 x where o1: "bs = o1 @ p1" "\<And>pre post'. d (at pre (o1 @ post')) = Inr (x, at (pre @ o1) post')"
    "\<And>post'. s (o1 @ post') = Some post'"
    by (rule reads_ok [OF assms(1) p(1)]) blast
  obtain o2 v where o2: "p1 = o2 @ post" "\<And>pre post'. k x (at pre (o2 @ post')) = Inr (v, at (pre @ o2) post')"
    "\<And>post'. s' (o2 @ post') = Some post'"
    by (rule reads_ok [OF assms(2) [of x] p(2)]) blast
  show "\<exists>out v. bs = out @ post \<and> (\<forall>pre post'. rbind (d (at pre (out @ post'))) (\<lambda>(x, r1). k x r1) =
      Inr (v, at (pre @ out) post') \<and> Option.bind (s (out @ post')) s' = Some post')"
    by (intro exI [of _ "o1 @ o2"] exI [of _ v]) (simp add: o1 o2)
qed

text \<open>A count of 32 bits decides how far the rest reaches.\<close>

lemma reads_count:
  assumes "\<And>c. reads (k c) (s c)"
  shows "reads (\<lambda>r. rbind (r_u32 r) (\<lambda>(c, r1). k c r1)) (\<lambda>bs. Option.bind (skip 4 bs) (s (le_word (take 4 bs))))"
proof (rule readsI)
  have u32: "4 \<le> length bs \<Longrightarrow> r_u32 (at pre bs) = Inr (le_word (take 4 bs), at (pre @ take 4 bs) (drop 4 bs))" for pre bs
    by (simp add: r_u32_def advance_at_take)
  {
    fix pre bs assume n: "Option.bind (skip 4 bs) (s (le_word (take 4 bs))) = None"
    show "\<exists>e. rbind (r_u32 (at pre bs)) (\<lambda>(c, r1). k c r1) = Inl e"
    proof (cases "4 \<le> length bs")
      case True
      then have "s (le_word (take 4 bs)) (drop 4 bs) = None" using n by (simp add: skip_def)
      from reads_fails [OF assms this, of "pre @ take 4 bs"] u32 [OF True, of pre] show ?thesis by auto
    qed (simp add: r_u32_def)
  next
    fix bs post assume "Option.bind (skip 4 bs) (s (le_word (take 4 bs))) = Some post"
    then have n: "4 \<le> length bs" and s: "s (le_word (take 4 bs)) (drop 4 bs) = Some post"
      by (auto simp: skip_def split: if_splits)
    obtain o2 v where o2: "drop 4 bs = o2 @ post"
      "\<And>pre post'. k (le_word (take 4 bs)) (at pre (o2 @ post')) = Inr (v, at (pre @ o2) post')"
      "\<And>post'. s (le_word (take 4 bs)) (o2 @ post') = Some post'"
      by (rule reads_ok [OF assms s]) blast
    have "bs = (take 4 bs @ o2) @ post" using o2(1) by (metis append_assoc append_take_drop_id)
    then show "\<exists>out v. bs = out @ post \<and> (\<forall>pre post'. rbind (r_u32 (at pre (out @ post'))) (\<lambda>(c, r1). k c r1) =
        Inr (v, at (pre @ out) post') \<and>
        Option.bind (skip 4 (out @ post')) (s (le_word (take 4 (out @ post')))) = Some post')"
      using n by (intro exI [of _ "take 4 bs @ o2"] exI [of _ v]) (simp add: u32 o2 skip_def)
  }
qed

lemma reads_ret: "reads (\<lambda>r. Inr (v, r)) Some"
  by (rule readsI) (auto intro!: exI [of _ "[]"])

lemma reads_fail: "reads (\<lambda>r. Inl e) (\<lambda>bs. None)"
  by (rule readsI) auto

lemma bind_Some_id: "Option.bind m Some = m"
  by (cases m) simp_all

lemma reads_map: "reads d s \<Longrightarrow> reads (\<lambda>r. rbind (d r) (\<lambda>(x, r1). Inr (g x, r1))) s"
  using reads_bind [of d s "\<lambda>x r. Inr (g x, r)" Some] by (simp add: reads_ret bind_Some_id)

lemma reads_dec_with: "reads rd s \<Longrightarrow> reads (dec_with rd conv) s"
  unfolding dec_with_def [abs_def] by (rule reads_map)

section \<open>Strings\<close>

lemma read_units_local:
  "length out = 2 * n \<Longrightarrow> read_units n (at pre (out @ post)) = (fst (read_units n (at [] out)), at (pre @ out) post)"
proof (induction n arbitrary: pre out post)
  case (Suc n)
  let ?a = "take 2 out" and ?b = "drop 2 out"
  have o: "out = ?a @ ?b" "length ?a = 2" "length ?b = 2 * n" using Suc.prems by simp_all
  have adv: "advance 2 (at pre (out @ post)) = at (pre @ ?a) (?b @ post)" for pre post
    using Suc.prems by (simp add: advance_at_take)
  have "fst (read_units n (at (pre @ ?a) (?b @ post))) = fst (read_units n (at [] ?b))"
    "snd (read_units n (at (pre @ ?a) (?b @ post))) = at ((pre @ ?a) @ ?b) post" for pre post
    using Suc.IH [OF o(3), of "pre @ ?a" post] by simp_all
  note ih = this this [of "[]" "[]", simplified]
  have "rd_le 2 (at pre (out @ post)) = (rd_le 2 (at [] out) :: u16)" using Suc.prems by simp
  then show ?case
    using ih(1,2) [of pre post] ih(3) adv [of pre post] adv [of "[]" "[]"] o(1)
    by (simp add: Let_def split_beta)
qed simp

lemma reads_units: "reads (\<lambda>r. rbind (need r (n * 2)) (\<lambda>_.
    let (units, r2) = read_units n r in Inr (string_of_units units, r2))) (skip (2 * n))"
proof (rule readsI)
  fix bs post assume "skip (2 * n) bs = Some post"
  then have n: "2 * n \<le> length bs" "post = drop (2 * n) bs" by (auto simp: skip_def split: if_splits)
  let ?out = "take (2 * n) bs"
  have "length ?out = 2 * n" using n(1) by simp
  note r = read_units_local [OF this]
  have "bs = ?out @ post" using n(2) by simp
  then show "\<exists>out v. bs = out @ post \<and> (\<forall>pre post'. rbind (need (at pre (out @ post')) (n * 2)) (\<lambda>_.
      let (units, r2) = read_units n (at pre (out @ post')) in Inr (string_of_units units, r2)) =
      Inr (v, at (pre @ out) post') \<and> skip (2 * n) (out @ post') = Some post')"
    using n(1) by (intro exI [of _ ?out] exI [of _ "string_of_units (fst (read_units n (at [] ?out)))"])
      (simp add: r skip_def Let_def split_beta mult.commute [of n 2])
qed (auto simp: skip_def mult.commute split: if_splits)

lemma reads_str: "reads r_str skip_string"
proof -
  have "reads r_str (\<lambda>bs. Option.bind (skip 4 bs) (skip (2 * unat (le_word (take 4 bs) :: u32))))"
    unfolding r_str_def [abs_def] by (rule reads_count) (rule reads_units)
  then show ?thesis by (simp add: skip_string_def [abs_def])
qed

lemma unit_zero: "(le_word [a, b] :: u16) = 0 \<longleftrightarrow> a = 0 \<and> b = 0"
proof
  assume "(le_word [a, b] :: u16) = 0"
  then have "le_bytes 2 (le_word [a, b] :: u16) = [0, 0]" by (simp add: le_bytes_unfold)
  then show "a = 0 \<and> b = 0" using le_bytes_le_word [of "[a, b]" 2, where 'a = 16] by simp
qed simp

lemma r_u16_at: "r_u16 (at pre (a # b # bs)) = Inr (le_word [a, b], at (pre @ [a, b]) bs)"
  using advance_at_take [of 2 "a # b # bs" pre] by (simp add: r_u16_def)

lemma read_chars_short: "length bs < 2 \<Longrightarrow> read_chars (at pre bs) = Inl ErrStop"
  by (simp add: read_chars.simps [of "at pre bs"] r_u16_def)

lemma reads_chars: "reads read_chars skip_chars"
proof (rule readsI)
  fix pre bs assume "skip_chars bs = None"
  then show "\<exists>e. read_chars (at pre bs) = Inl e"
  proof (induction bs arbitrary: pre rule: skip_chars.induct)
    case (1 a b bs)
    then have ab: "\<not> (a = 0 \<and> b = 0)" "skip_chars bs = None" by (auto split: if_splits)
    from "1.IH" [OF ab, of "pre @ [a, b]"] obtain e where "read_chars (at (pre @ [a, b]) bs) = Inl e" by blast
    then show ?case using ab(1)
      by (simp add: read_chars.simps [of "at pre (a # b # bs)"] r_u16_at unit_zero del: le_word.simps)
  qed (simp_all add: read_chars_short)
next
  fix bs post assume "skip_chars bs = Some post"
  then show "\<exists>out us. bs = out @ post \<and> (\<forall>pre post'. read_chars (at pre (out @ post')) = Inr (us, at (pre @ out) post') \<and>
      skip_chars (out @ post') = Some post')"
  proof (induction bs rule: skip_chars.induct)
    case (1 a b bs)
    show ?case
    proof (cases "a = 0 \<and> b = 0")
      case True
      then show ?thesis using "1.prems"
        by (intro exI [of _ "[a, b]"] exI [of _ "[]"])
          (simp add: read_chars.simps [of "at _ (_ # _ # _)"] r_u16_at)
    next
      case False
      then have "skip_chars bs = Some post" using "1.prems" by (simp split: if_splits)
      then obtain out us where o: "bs = out @ post"
        "\<And>pre post'. read_chars (at pre (out @ post')) = Inr (us, at (pre @ out) post')"
        "\<And>post'. skip_chars (out @ post') = Some post'"
        using "1.IH" [OF False] by blast
      then show ?thesis using False
        by (intro exI [of _ "a # b # out"] exI [of _ "le_word [a, b] # us"])
          (simp add: read_chars.simps [of "at _ (_ # _ # _)"] r_u16_at unit_zero del: le_word.simps)
    qed
  qed simp_all
qed

lemma reads_charArray: "reads r_charArray skip_chars"
  unfolding r_charArray_def [abs_def] by (rule reads_map) (rule reads_chars)

lemmas reads_prims = reads_dec_with reads_words reads_words(1) [simplified] reads_str reads_charArray

lemma reads_primitive:
  "primitiveDecoders t = Some dec \<Longrightarrow> \<exists>step. skip_primitive t = Some step \<and> reads dec step"
  unfolding primitiveDecoders_def
  by (auto simp: skip_primitive_def widths_def split: if_splits intro: reads_prims)

lemma no_primitive: "primitiveDecoders t = None \<Longrightarrow> skip_primitive t = None"
  unfolding primitiveDecoders_def by (auto simp: skip_primitive_def widths_def split: if_splits)

section \<open>Elements, layouts and messages\<close>

text \<open>The interface: a reader of elements with the extent of each.\<close>

locale extent_reader =
  fixes dec :: "string \<Rightarrow> string \<Rightarrow> reader \<Rightarrow> perr + (goval \<times> reader)"
    and step :: "string \<Rightarrow> string \<Rightarrow> byte list \<Rightarrow> byte list option"
  assumes extent: "reads (dec t nm) (step t nm)"
begin

lemma items_extent: "reads (decode_items (dec t nm) n) (skip_times (step t nm) n)"
proof (induction n)
  case 0
  then show ?case using reads_ret [of "[]"] by (simp add: reads_def)
next
  case (Suc n)
  then show ?case unfolding decode_items.simps [abs_def] skip_times.simps [abs_def]
    by (intro reads_bind reads_map extent)
qed

lemma layout_extent: "reads (decode_layout dec fs acc) (skip_layout step fs)"
proof (induction fs arbitrary: acc)
  case Nil
  then show ?case using reads_ret [of acc] by (simp add: reads_def)
next
  case (Cons f fs)
  then show ?case unfolding decode_layout.simps [abs_def] skip_layout.simps [abs_def]
    by (intro reads_bind extent)
qed

text \<open>The loop of a message stops at the first field that is not held, whatever follows it.\<close>

lemma message_extent:
  assumes "held_fields step fs bs = (held, rest)"
  shows "\<exists>out vs. bs = out @ rest \<and> dom vs = dom acc \<union> fName ` set held \<and>
    (\<forall>pre. decode_message_fields dec fs acc (at pre (out @ rest)) = (vs, at (pre @ out) rest)) \<and>
    (\<forall>pre. decode_message_fields dec fs acc (at pre out) = (vs, at (pre @ out) []))"
  using assms
proof (induction fs arbitrary: acc bs held)
  case Nil
  then show ?case by (intro exI [of _ "[]"] exI [of _ acc]) simp
next
  case (Cons f fs)
  show ?case
  proof (cases "step (fType f) (fName f) bs")
    case None
    then have e: "\<exists>e. dec (fType f) (fName f) (at pre bs) = Inl e" "\<exists>e. dec (fType f) (fName f) (at pre []) = Inl e" for pre
      using reads_fails [OF extent None] reads_fails [OF extent reads_empty [OF extent None]] by blast+
    have "decode_message_fields dec (f # fs) acc (at pre bs) = (acc, at pre bs)"
      "decode_message_fields dec (f # fs) acc (at pre []) = (acc, at pre [])" for pre
      using e [of pre] by auto
    moreover have "held = []" "rest = bs" using None Cons.prems by simp_all
    ultimately show ?thesis by (intro exI [of _ "[]"] exI [of _ acc]) (simp del: decode_message_fields.simps)
  next
    case (Some p1)
    then obtain held1 where h: "held_fields step fs p1 = (held1, rest)" "held = f # held1"
      using Cons.prems by (cases "held_fields step fs p1") auto
    obtain o1 v where o1: "bs = o1 @ p1"
      "\<And>pre post'. dec (fType f) (fName f) (at pre (o1 @ post')) = Inr (v, at (pre @ o1) post')"
      by (rule reads_ok [OF extent Some]) blast
    obtain o2 vs where o2: "p1 = o2 @ rest" "dom vs = dom (acc(fName f \<mapsto> v)) \<union> fName ` set held1"
      "\<And>pre. decode_message_fields dec fs (acc(fName f \<mapsto> v)) (at pre (o2 @ rest)) = (vs, at (pre @ o2) rest)"
      "\<And>pre. decode_message_fields dec fs (acc(fName f \<mapsto> v)) (at pre o2) = (vs, at (pre @ o2) [])"
      using Cons.IH [OF h(1), of "acc(fName f \<mapsto> v)"] by blast
    show ?thesis
      by (intro exI [of _ "o1 @ o2"] exI [of _ vs]) (auto simp: o1 o2 h(2))
  qed
qed

end

lemma decodeValue_reads: "reads (decodeValue cat n t owner nm) (skip_value cat n t owner nm)"
proof (induction n arbitrary: t owner nm)
  case 0
  then show ?case by (simp add: reads_def)
next
  case (Suc n)
  have er: "extent_reader (\<lambda>t nm. decodeValue cat n t ow nm) (\<lambda>t nm. skip_value cat n t ow nm)" for ow
    by unfold_locales (rule Suc.IH)
  note ex = extent_reader.items_extent [OF er] extent_reader.layout_extent [OF er]
  show ?case
  proof (cases "primitiveDecoders t")
    case (Some dec)
    obtain step where "skip_primitive t = Some step" "reads dec step" using reads_primitive [OF Some] by blast
    moreover from this have "decodeValue cat (Suc n) t owner nm = dec" "skip_value cat (Suc n) t owner nm = step"
      using Some by (simp_all add: fun_eq_iff)
    ultimately show ?thesis by simp
  next
    case None
    note none = no_primitive [OF None]
    consider "is_array_type t" | "\<not> is_array_type t" "is_list_type t"
      | "\<not> is_array_type t" "\<not> is_list_type t" by blast
    then show ?thesis
    proof cases
      case 1
      then show ?thesis unfolding decodeValue.simps [abs_def] skip_value.simps [abs_def] None none
        by (cases "map_of (fixedArrays cat) (array_key owner nm)")
          (simp_all add: reads_fail reads_map [OF ex(1)])
    next
      case 2
      have "reads (\<lambda>r. rbind (r_u32 r) (\<lambda>(cnt, r1). rbind (decode_items (decodeValue cat n (list_elem t) owner nm) (unat cnt) r1)
            (\<lambda>(out, r'). Inr (VList out, r'))))
          (\<lambda>bs. Option.bind (skip 4 bs) (skip_times (skip_value cat n (list_elem t) owner nm) (unat (le_word (take 4 bs) :: u32))))"
        by (rule reads_count [where s = "\<lambda>c. skip_times (skip_value cat n (list_elem t) owner nm) (unat c)"])
          (rule reads_map [OF ex(1)])
      then show ?thesis using 2 unfolding decodeValue.simps [abs_def] skip_value.simps [abs_def] None none by simp
    next
      case 3
      show ?thesis
      proof (cases "map_of (structs cat) t")
        case (Some layout)
        let ?k = "\<lambda>r. rbind (decode_layout (\<lambda>t' nm. decodeValue cat n t' t nm) layout Map.empty r) (\<lambda>(out, r'). Inr (VValues out, r'))"
        let ?s = "skip_layout (\<lambda>t' nm. skip_value cat n t' t nm) layout"
        have k: "reads ?k ?s" by (rule reads_map [OF ex(2)])
        have "rbind (rbind m (\<lambda>(_, r1). Inr r1)) ?k = rbind m (\<lambda>(_, r1). ?k r1)" for m :: "perr + (u32 \<times> reader)"
          by (cases m) auto
        moreover have "reads (\<lambda>r. rbind (r_u32 r) (\<lambda>(_, r1). ?k r1)) (\<lambda>bs. Option.bind (skip 4 bs) ?s)"
          using reads_bind [OF reads_words(3), of "\<lambda>_. ?k" ?s] k by simp
        ultimately show ?thesis
          using 3 Some k unfolding decodeValue.simps [abs_def] skip_value.simps [abs_def] None none
          by (cases "t \<in> set (messageFullNames cat)") simp_all
      next
        case no: None
        then show ?thesis using 3 unfolding decodeValue.simps [abs_def] skip_value.simps [abs_def] None none
          by (simp add: reads_fail)
      qed
    qed
  qed
qed

interpretation value_extent:
  extent_reader "\<lambda>t nm. decodeValue cat n t owner nm" "\<lambda>t nm. skip_value cat n t owner nm" for cat n owner
  by unfold_locales (rule decodeValue_reads)

text \<open>What \<open>Decode\<close> takes of a body and what it leaves.\<close>

lemma Decode_extent:
  assumes "4 \<le> length body" "wire_extent cat body = (held, rest)"
  shows "\<exists>out. body = take 4 body @ out @ rest \<and> dc_tail (Decode cat body) = rest \<and>
    dom (dc_values (Decode cat body)) = fName ` set held \<and>
    Decode cat (take 4 body @ out) = (Decode cat body)\<lparr>dc_tail := []\<rparr>"
proof (cases "Lookup cat (le_word (take 4 body))")
  case None
  then show ?thesis using assms
    by (intro exI [of _ "[]"]) (auto simp: wire_extent_def Decode_def Let_def)
next
  case (Some msg)
  let ?dec = "\<lambda>t nm. decodeValue cat codec_fuel t (full_name msg) nm"
  have "held_fields (\<lambda>t nm. skip_value cat codec_fuel t (full_name msg) nm) (msgFields msg) (drop 4 body) = (held, rest)"
    using assms(2) Some by (simp add: wire_extent_def)
  from value_extent.message_extent [OF this, of Map.empty] obtain out vs where o: "drop 4 body = out @ rest"
    "dom vs = fName ` set held"
    "decode_message_fields ?dec (msgFields msg) Map.empty (at [] (out @ rest)) = (vs, at ([] @ out) rest)"
    "decode_message_fields ?dec (msgFields msg) Map.empty (at [] out) = (vs, at ([] @ out) [])" by auto
  have "body = take 4 body @ out @ rest" using o(1) by (metis append_take_drop_id)
  moreover have "Decode cat body = \<lparr>dc_msg = Some msg, dc_values = vs, dc_tail = rest, dc_err = None\<rparr>"
    using assms(1) Some o by (simp add: Decode_def Let_def at_def)
  moreover have "Decode cat (take 4 body @ out) = \<lparr>dc_msg = Some msg, dc_values = vs, dc_tail = [], dc_err = None\<rparr>"
    using assms(1) Some o by (simp add: Decode_def Let_def at_def)
  ultimately show ?thesis using o(2) by (intro exI [of _ out]) simp
qed

end
