(* ===== verification/RomCodec.thy ===== *)
theory RomCodec
  imports RomMessages Extent
begin

text \<open>
  The codec on the catalog of the repository: evaluation rules for its primitive types, and the
  properties of \<open>Encode\<close>, \<open>Decode\<close> and \<open>ZeroValues\<close> over all its messages.
\<close>

section \<open>Evaluation rules\<close>

named_theorems rom_eval

lemma encodeValue_primitive:
  "0 < n \<Longrightarrow> primitiveEncoders t = Some enc \<Longrightarrow> encodeValue cat n t v owner nm = enc v"
  by (cases n) simp_all

lemma decodeValue_primitive:
  "0 < n \<Longrightarrow> primitiveDecoders t = Some dec \<Longrightarrow> decodeValue cat n t owner nm r = dec r"
  by (cases n) simp_all

lemma normValue_primitive:
  "0 < n \<Longrightarrow> primitiveNorms t = Some nrm \<Longrightarrow> normValue cat n t v owner nm = nrm v"
  by (cases n) simp_all

lemma rom_encode [rom_eval]:
  "0 < n \<Longrightarrow> encodeValue rom n ty_Int32 v owner nm = rbind (toInt64 v) (\<lambda>x. Inr (w_u32 (ucast x)))"
  "0 < n \<Longrightarrow> encodeValue rom n ty_UInt32 v owner nm = rbind (toUint64 v) (\<lambda>x. Inr (w_u32 (ucast x)))"
  "0 < n \<Longrightarrow> encodeValue rom n ty_Int64 v owner nm = rbind (toInt64 v) (\<lambda>x. Inr (w_u64 x))"
  "0 < n \<Longrightarrow> encodeValue rom n ty_Byte v owner nm = rbind (toUint64 v) (\<lambda>x. Inr (w_u8 (ucast x)))"
  "0 < n \<Longrightarrow> encodeValue rom n ty_Boolean v owner nm = enc_bool v"
  "0 < n \<Longrightarrow> encodeValue rom n ty_Single v owner nm = rbind (toFloat64 v) (\<lambda>f. Inr (w_u32 (f32_of_f64 f)))"
  "0 < n \<Longrightarrow> encodeValue rom n ty_String v owner nm = enc_string w_str v"
  "0 < n \<Longrightarrow> encodeValue rom n ty_Chars v owner nm = enc_string w_charArray v"
  by (simp_all add: encodeValue_primitive primitiveEncoders_def primitive_names)

lemma rom_decode [rom_eval]:
  "0 < n \<Longrightarrow> decodeValue rom n ty_Int32 owner nm r = dec_with r_u32 (\<lambda>v. VInt64 (scast v)) r"
  "0 < n \<Longrightarrow> decodeValue rom n ty_UInt32 owner nm r = dec_with r_u32 (\<lambda>v. VUint64 (ucast v)) r"
  "0 < n \<Longrightarrow> decodeValue rom n ty_Int64 owner nm r = dec_with r_u64 VInt64 r"
  "0 < n \<Longrightarrow> decodeValue rom n ty_Byte owner nm r = dec_with r_u8 (\<lambda>v. VUint64 (ucast v)) r"
  "0 < n \<Longrightarrow> decodeValue rom n ty_Boolean owner nm r = dec_with r_u8 (\<lambda>v. VBool (v \<noteq> 0)) r"
  "0 < n \<Longrightarrow> decodeValue rom n ty_String owner nm r = dec_with r_str VString r"
  "0 < n \<Longrightarrow> decodeValue rom n ty_Chars owner nm r = dec_with r_charArray VString r"
  by (simp_all add: decodeValue_primitive primitiveDecoders_def primitive_names)

lemma rom_norm [rom_eval]:
  "0 < n \<Longrightarrow> normValue rom n ty_Int32 v owner nm = norm_with (toInt64 v) (\<lambda>x. VInt64 (scast (ucast x :: u32)))"
  "0 < n \<Longrightarrow> normValue rom n ty_UInt32 v owner nm = norm_with (toUint64 v) (\<lambda>x. VUint64 (ucast (ucast x :: u32)))"
  "0 < n \<Longrightarrow> normValue rom n ty_Int64 v owner nm = norm_with (toInt64 v) VInt64"
  "0 < n \<Longrightarrow> normValue rom n ty_Byte v owner nm = norm_with (toUint64 v) (\<lambda>x. VUint64 (ucast (ucast x :: byte)))"
  "0 < n \<Longrightarrow> normValue rom n ty_Boolean v owner nm = (case v of VBool b \<Rightarrow> Some (VBool b) | _ \<Rightarrow> None)"
  "0 < n \<Longrightarrow> normValue rom n ty_Single v owner nm =
     norm_with (toFloat64 v) (\<lambda>f. VFloat64 (f64_of_f32 (f32_of_f64 f)))"
  "0 < n \<Longrightarrow> normValue rom n ty_String v owner nm = norm_string (\<lambda>us. length us < 2 ^ 32) v"
  "0 < n \<Longrightarrow> normValue rom n ty_Chars v owner nm = norm_string (\<lambda>us. 0 \<notin> set us) v"
  by (simp_all add: normValue_primitive primitiveNorms_def primitive_names)

lemmas encode_eval = Encode_def encode_fields_def codec_fuel_def handler_messages rom_eval

text \<open>The request used as the concrete input below: enter the world with the character in slot 2.\<close>

definition enter_request :: vals where
  "enter_request = [''m_playerSlotIndex'' \<mapsto> VUint64 2]"

lemma enter_request_body:
  "Encode rom ''C2S_EnterWorld'' enter_request = Inr (w_u32 0x0A8477ED @ w_u8 2)"
  by (simp add: encode_eval enter_request_def)

lemma enter_request_norm:
  "norm_message rom \<lparr>msgName = ''C2S_EnterWorld'', msgDir = ''C2S'', msgID = 0x0A8477ED,
     msgFields = [Field ''m_playerSlotIndex'' ty_Byte]\<rparr> enter_request = Some enter_request"
  by (simp add: norm_message_def codec_fuel_def rom_eval enter_request_def norm_with_def)

text \<open>An array whose size is not known stops both writers, at any depth.\<close>

lemma unsized_array:
  assumes "(t, e) \<in> set array_types" "map_of fixed_arrays (array_key owner nm) = None"
  shows "\<not> is_ok (encodeValue rom n t v owner nm)" "\<not> is_ok (zeroValue rom n t owner nm)"
proof -
  have k: "zero_primitive t = None" "is_array_type t"
    using array_kind assms(1) by (auto simp: list_all_iff)
  then have "primitiveEncoders t = None" by (simp add: prim_dom)
  then show "\<not> is_ok (encodeValue rom n t v owner nm)" "\<not> is_ok (zeroValue rom n t owner nm)"
    using k assms(2) by (cases n; simp)+
qed

lemma zeroFields_not_ok:
  "f \<in> set fs \<Longrightarrow> \<not> is_ok (zero (fType f) (fName f)) \<Longrightarrow> \<not> is_ok (zeroFields zero fs acc)"
  by (induction fs arbitrary: acc) (auto simp: is_ok_iff rbind_eq_Inr)

lemma unsized_field:
  assumes "(t, l) \<in> set rom_structs" "f \<in> set l"
    and "\<And>k v. \<not> is_ok (encodeValue rom k (fType f) v t (fName f))"
    and "\<And>k. \<not> is_ok (zeroValue rom k (fType f) t (fName f))"
  shows "\<not> is_ok (encodeValue rom n t v owner nm)" "\<not> is_ok (zeroValue rom n t owner nm)"
proof -
  have k: "zero_primitive t = None" "\<not> is_array_type t" "\<not> is_list_type t"
    using struct_kind assms(1) by (auto simp: list_all_iff)
  then have p: "primitiveEncoders t = None" by (simp add: prim_dom)
  show "\<not> is_ok (encodeValue rom n t v owner nm)"
    using k p rom_struct [OF assms(1)] assms(2,3)
    by (cases n) (auto simp: is_ok_rbind is_ok_encode_fields simp flip: is_ok_iff split: option.split)
  show "\<not> is_ok (zeroValue rom n t owner nm)"
    using k rom_struct [OF assms(1)] zeroFields_not_ok [OF assms(2)] assms(4)
    by (cases n) (simp_all add: is_ok_rbind flip: is_ok_iff)
qed

section \<open>Properties\<close>

text \<open>C1. What \<open>Encode\<close> builds for a message of the catalog, \<open>Decode\<close> takes apart again: it finds
  the message, the values as a peer sees them (integers cut to the width of their field, strings
  with their invalid bytes replaced), leaves exactly the bytes that follow the body as tail and
  reports no error. The values must be ones the wire can carry (\<open>norm_message\<close>).\<close>
theorem rom_codec_round_trip:
  assumes "byName rom name = Some msg" "Encode rom name vs = Inr body"
    and "norm_message rom msg vs = Some vs'"
  shows "Decode rom (body @ extra) = \<lparr>dc_msg = Some msg, dc_values = vs', dc_tail = extra, dc_err = None\<rparr>"
  by (rule Decode_Encode [OF coherent_rom full_names_known_rom assms(2,1,3)])

lemma rom_codec_round_trip_witness:
  "dc_values (Decode rom ((w_u32 0x0A8477ED @ w_u8 2) @ [7])) ''m_playerSlotIndex'' = Some (VUint64 2) \<and>
   dc_tail (Decode rom ((w_u32 0x0A8477ED @ w_u8 2) @ [7])) = [7]"
  using rom_codec_round_trip [OF handler_messages(7) enter_request_body enter_request_norm]
  by (simp add: enter_request_def)

text \<open>C12. A body that decodes in full can be encoded again from the values it gave, and those bytes
  decode to the same values: one pass through the server normalises a message, a second changes
  nothing.\<close>
theorem rom_decode_stable:
  assumes "Decode rom body = \<lparr>dc_msg = Some msg, dc_values = vs, dc_tail = tail, dc_err = None\<rparr>"
    and "\<forall>f\<in>set (msgFields msg). vs (fName f) \<noteq> None"
  shows "\<exists>body'. Encode rom (msgName msg) vs = Inr body' \<and>
    (\<forall>extra. Decode rom (body' @ extra) = \<lparr>dc_msg = Some msg, dc_values = vs, dc_tail = extra, dc_err = None\<rparr>)"
proof -
  let ?r = "\<lparr>rd_buf = drop 4 body, rd_pos = 0\<rparr>"
  let ?dec = "\<lambda>t nm r. if layouts_distinct rom then decodeValue rom codec_fuel t (full_name msg) nm r
    else Inl OutOfFuel"
  from assms(1) have lk: "Lookup rom (le_word (take 4 body)) = Some msg"
    and d: "fst (decode_message_fields ?dec (msgFields msg) Map.empty ?r) = vs"
    by (auto simp: Decode_def Let_def layouts_distinct_rom split: if_splits option.splits prod.splits)
  then obtain k where "(k, msg) \<in> set rom_messages"
    by (auto simp: Lookup_def dest: map_of_SomeD)
  then have b: "byName rom (msgName msg) = Some msg" by (rule rom_byName [OF _ refl])
  obtain r' where d': "decode_message_fields ?dec (msgFields msg) Map.empty ?r = (vs, r')"
    using d by (metis prod.collapse)
  have "is_ok (encode_fields (\<lambda>t v nm. encodeValue rom codec_fuel t v (full_name msg) nm)
      (msgName msg) (msgFields msg) vs) \<and> norm_message rom msg vs = Some vs"
    using value_stable.message_stable [OF d', of "msgName msg"] assms(2)
      layouts_distinct_msg [OF layouts_distinct_rom b] by (simp add: norm_message_def)
  then obtain body' where e: "Encode rom (msgName msg) vs = Inr body'"
    and n: "norm_message rom msg vs = Some vs"
    using b by (auto simp: Encode_def is_ok_iff)
  show ?thesis
    using e Decode_Encode [OF coherent_rom full_names_known_rom e b n] by blast
qed

lemma rom_decode_stable_witness:
  "\<exists>body'. Encode rom ''C2S_EnterWorld'' enter_request = Inr body'"
proof -
  have "Decode rom ((w_u32 0x0A8477ED @ w_u8 2) @ []) =
      \<lparr>dc_msg = Some \<lparr>msgName = ''C2S_EnterWorld'', msgDir = ''C2S'', msgID = 0x0A8477ED,
         msgFields = [Field ''m_playerSlotIndex'' ty_Byte]\<rparr>,
       dc_values = enter_request, dc_tail = [], dc_err = None\<rparr>"
    by (rule Decode_Encode [OF coherent_rom full_names_known_rom enter_request_body
        handler_messages(7) enter_request_norm])
  from rom_decode_stable [OF this] show ?thesis by (auto simp: enter_request_def)
qed

text \<open>C24. \<open>ZeroValues\<close> gives, for every message that can be sized, values that are structurally
  complete: \<open>Encode\<close> accepts them as they are and the peer reads exactly them, with nothing left
  over.\<close>
theorem rom_zero_values_complete:
  assumes "byName rom name = Some msg" "name \<notin> set unsized_messages"
  shows "\<exists>vs body. ZeroValues rom name = Inr vs \<and> Encode rom name vs = Inr body \<and>
    Decode rom body = \<lparr>dc_msg = Some msg, dc_values = vs, dc_tail = [], dc_err = None\<rparr>"
proof -
  have "encodable rom msg" using assms encodable_rom by blast
  from ZeroValues_good [OF layouts_distinct_rom assms(1) this]
  obtain vs where vs: "ZeroValues rom name = Inr vs" "is_ok (Encode rom name vs)"
    "norm_message rom msg vs = Some vs" by blast
  then obtain body where e: "Encode rom name vs = Inr body" by (auto simp: is_ok_iff)
  from Decode_Encode [OF coherent_rom full_names_known_rom e assms(1) vs(3), of "[]"] vs e
  show ?thesis by auto
qed

lemma rom_zero_values_complete_witness:
  "\<exists>vs body. ZeroValues rom ''S2C_EnterWorldComplete'' = Inr vs \<and>
     Encode rom ''S2C_EnterWorldComplete'' vs = Inr body \<and> dc_values (Decode rom body) = vs"
proof -
  have "''S2C_EnterWorldComplete'' \<notin> set unsized_messages" by (simp add: unsized_messages_def)
  from rom_zero_values_complete [OF handler_messages(20) this] show ?thesis by fastforce
qed

text \<open>C25. The fuel of the codec never decides a result: for the fields of any message that can be
  sized, more fuel than the sixteen units of the top-level calls gives the same value and the
  same bytes, and decoding never stops for lack of fuel.\<close>
theorem rom_fuel_enough:
  assumes "byName rom name = Some msg" "name \<notin> set unsized_messages" "f \<in> set (msgFields msg)"
    and "codec_fuel \<le> n"
  shows "decodeValue rom n (fType f) (full_name msg) (fName f) r =
      decodeValue rom codec_fuel (fType f) (full_name msg) (fName f) r \<and>
    decodeValue rom n (fType f) (full_name msg) (fName f) r \<noteq> Inl OutOfFuel \<and>
    encodeValue rom n (fType f) v (full_name msg) (fName f) =
      encodeValue rom codec_fuel (fType f) v (full_name msg) (fName f)"
proof -
  have s: "resolves rom codec_fuel (fType f) (full_name msg) (fName f)"
    using encodable_rom [OF assms(1)] assms(2,3) by (simp add: encodable_def list_all_iff)
  show ?thesis
    unfolding decodeValue_fuel [OF s assms(4)] encodeValue_fuel [OF s assms(4)]
    using decodeValue_err [OF s] by blast
qed

lemma rom_fuel_enough_witness:
  "decodeValue rom 100 ty_Byte ''Protocol.C2S_EnterWorld'' ''m_playerSlotIndex'' \<lparr>rd_buf = [], rd_pos = 0\<rparr> \<noteq> Inl OutOfFuel"
proof -
  have "''C2S_EnterWorld'' \<notin> set unsized_messages" by (simp add: unsized_messages_def)
  from rom_fuel_enough [OF handler_messages(7) this, of "Field ''m_playerSlotIndex'' ty_Byte" 100
      "\<lparr>rd_buf = [], rd_pos = 0\<rparr>" VNil]
  show ?thesis by (auto simp: codec_fuel_def full_name_def)
qed

text \<open>C26. Decoding takes what is there and nothing else, for every body that has an opcode, of whatever
  bytes. The values are those of the fields the body holds in full, up to the first it does not:
  by the extents of \<open>wire_extent\<close>, which go by the bytes alone. The opcode, the bytes of these
  fields and the tail put together are the body again, so no byte is skipped or read twice and a
  field that is cut off stays in the tail whole; and the message and its values come from the
  bytes before the tail only, as decoding those without the tail gives the same.\<close>
theorem decode_conserves_bytes:
  assumes "4 \<le> length body"
  shows "dc_tail (Decode rom body) = snd (wire_extent rom body) \<and>
    dom (dc_values (Decode rom body)) = fName ` set (fst (wire_extent rom body)) \<and>
    (\<exists>out. body = take 4 body @ out @ dc_tail (Decode rom body) \<and>
      Decode rom (take 4 body @ out) = (Decode rom body)\<lparr>dc_tail := []\<rparr>)"
  using Decode_extent [OF assms surjective_pairing [of "wire_extent rom body"]] by auto

lemma skip_byte: "0 < n \<Longrightarrow> skip_value cat n ''System.Byte'' owner nm (b # bs) = Some bs"
  by (cases n) (simp_all add: skip_primitive_def widths_def skip_def)

lemma decode_conserves_bytes_witness:
  "dc_tail (Decode rom (w_u32 0x0A8477ED @ [2, 7])) = [7] \<and>
   dom (dc_values (Decode rom (w_u32 0x0A8477ED @ [2, 7]))) = {''m_playerSlotIndex''}"
proof -
  have "wire_extent rom (w_u32 0x0A8477ED @ [2, 7]) = ([Field ''m_playerSlotIndex'' ty_Byte], [7])"
    using Lookup_byName [OF coherent_rom handler_messages(7)]
    by (simp add: wire_extent_def w_u32_def primitive_names skip_byte codec_fuel_def)
  then show ?thesis using decode_conserves_bytes [of "w_u32 0x0A8477ED @ [2, 7]"] by (simp add: w_u32_def)
qed

text \<open>C27. A message with an array of unknown size among its own fields is refused by \<open>ZeroValues\<close> and
  by \<open>Encode\<close>, whatever the values.\<close>
theorem rom_never_encoded:
  assumes "byName rom name = Some msg" "f \<in> set (msgFields msg)" "(fType f, e) \<in> set array_types"
    and "map_of fixed_arrays (array_key (full_name msg) (fName f)) = None"
  shows "\<not> is_ok (ZeroValues rom name) \<and> \<not> is_ok (Encode rom name vs)"
proof -
  note u = unsized_array [OF assms(3,4)]
  have "\<not> is_ok (Encode rom name vs)" using is_ok_Encode [OF assms(1)] assms(2) u(1) by blast
  moreover have "\<not> is_ok (ZeroValues rom name)"
    using zeroFields_not_ok [where zero = "\<lambda>t nm. zeroValue rom codec_fuel t (full_name msg) nm", OF assms(2) u(2)]
      assms(1) by (simp add: ZeroValues_def)
  ultimately show ?thesis by blast
qed

lemma rom_never_encoded_witness:
  "\<not> is_ok (ZeroValues rom ''S2C_GameGuardCheck'') \<and> \<not> is_ok (Encode rom ''S2C_GameGuardCheck'' Map.empty)"
proof -
  have "(ty_Byte_arr, ty_Byte) \<in> set array_types" by (simp add: array_types_def)
  from rom_never_encoded [OF rom_lookups(7), of "Field ''m_requestKey'' ty_Byte_arr" ty_Byte Map.empty] this
  show ?thesis by (simp add: full_name_def)
qed

end
