(* ===== verification/Rabbit.thy ===== *)
theory Rabbit
  imports Prelude
begin

text \<open>
  The stream cipher of \<open>internal/transport/rabbit.go\<close>: the counter system, the next-state
  function, key and IV setup, and the buffered keystream. The arrays \<open>[8]uint32\<close> are lists of
  eight words; the methods that mutate the receiver return it.
\<close>

section \<open>State\<close>

record rabbit =
  rb_x :: "u32 list"
  rb_c :: "u32 list"
  rb_b :: u32
  rb_buf :: "byte list"

definition rabbitA :: "u32 list" where
  "rabbitA =
    [0x4D34D34D, 0xD34D34D3, 0x34D34D34, 0x4D34D34D,
     0xD34D34D3, 0x34D34D34, 0x4D34D34D, 0xD34D34D3]"

section \<open>Next state\<close>

text \<open>\<open>bits.RotateLeft32(w, k)\<close> for \<open>k < 32\<close>.\<close>

definition rotl32 :: "u32 \<Rightarrow> nat \<Rightarrow> u32" where
  "rotl32 w k = push_bit k w OR drop_bit (32 - k) w"

definition rabbitG :: "u32 \<Rightarrow> u32 \<Rightarrow> u32" where
  "rabbitG u v =
     (let s = u + v; sq = (ucast s :: u64) * ucast s in ucast sq XOR ucast (drop_bit 32 sq))"

text \<open>The loop over the counters: each addition carries into the next one.\<close>

fun counters :: "u32 list \<Rightarrow> u32 list \<Rightarrow> u32 \<Rightarrow> u32 list \<times> u32" where
  "counters (c # cs) (a # as) b =
     (let t = c + a + b; b' = (if t < c then 1 else 0); (ts, b'') = counters cs as b' in (t # ts, b''))"
| "counters _ _ b = ([], b)"

text \<open>The eight assignments to \<open>r.x\<close>: even positions rotate both neighbours by 16, odd ones the
  left neighbour by 8.\<close>

definition mix :: "u32 list \<Rightarrow> u32 list" where
  "mix g =
     [g ! 0 + rotl32 (g ! 7) 16 + rotl32 (g ! 6) 16,
      g ! 1 + rotl32 (g ! 0) 8 + g ! 7,
      g ! 2 + rotl32 (g ! 1) 16 + rotl32 (g ! 0) 16,
      g ! 3 + rotl32 (g ! 2) 8 + g ! 1,
      g ! 4 + rotl32 (g ! 3) 16 + rotl32 (g ! 2) 16,
      g ! 5 + rotl32 (g ! 4) 8 + g ! 3,
      g ! 6 + rotl32 (g ! 5) 16 + rotl32 (g ! 4) 16,
      g ! 7 + rotl32 (g ! 6) 8 + g ! 5]"

definition next_state :: "rabbit \<Rightarrow> rabbit" where
  "next_state r =
     (let (c, b) = counters (rb_c r) rabbitA (rb_b r);
          g = map2 rabbitG (rb_x r) c
      in r\<lparr>rb_c := c, rb_x := mix g, rb_b := b\<rparr>)"

section \<open>Key and IV setup\<close>

text \<open>\<open>k[i]\<close>: eight 16-bit little-endian halves of the key. A key shorter than sixteen bytes makes
  the code panic; the callers always pass sixteen.\<close>

definition subkeys :: "byte list \<Rightarrow> u32 list" where
  "subkeys key = map (\<lambda>i. ucast (key ! (2 * i)) OR push_bit 8 (ucast (key ! (2 * i + 1)))) [0..<8]"

definition key_x :: "u32 list \<Rightarrow> nat \<Rightarrow> u32" where
  "key_x k j =
     (if even j then push_bit 16 (k ! ((j + 1) mod 8)) OR k ! j
      else push_bit 16 (k ! ((j + 5) mod 8)) OR k ! ((j + 4) mod 8))"

definition key_c :: "u32 list \<Rightarrow> nat \<Rightarrow> u32" where
  "key_c k j =
     (if even j then push_bit 16 (k ! ((j + 4) mod 8)) OR k ! ((j + 5) mod 8)
      else push_bit 16 (k ! j) OR k ! ((j + 1) mod 8))"

definition key_setup :: "byte list \<Rightarrow> rabbit" where
  "key_setup key =
     (let k = subkeys key;
          r = (next_state ^^ 4)
                \<lparr>rb_x = map (key_x k) [0..<8], rb_c = map (key_c k) [0..<8], rb_b = 0, rb_buf = []\<rparr>
      in r\<lparr>rb_c := map (\<lambda>j. rb_c r ! j XOR rb_x r ! ((j + 4) mod 8)) [0..<8]\<rparr>)"

definition iv_mask :: "byte list \<Rightarrow> u32 list" where
  "iv_mask iv =
     (let i0 = le_word (take 4 iv); i1 = le_word (take 4 (drop 4 iv));
          hi = push_bit 16 (drop_bit 16 i1) OR drop_bit 16 i0;
          lo = push_bit 16 (i1 AND 0xFFFF) OR (i0 AND 0xFFFF)
      in [i0, hi, i1, lo, i0, hi, i1, lo])"

definition NewRabbit :: "byte list \<Rightarrow> byte list option \<Rightarrow> rabbit" where
  "NewRabbit key iv =
     (let r = key_setup key in
      case iv of
        None \<Rightarrow> r
      | Some v \<Rightarrow> (next_state ^^ 4) (r\<lparr>rb_c := map2 (XOR) (rb_c r) (iv_mask v)\<rparr>))"

section \<open>Keystream\<close>

definition block :: "rabbit \<Rightarrow> byte list" where
  "block r =
     (let x = rb_x r in
      le_bytes 4 (x ! 0 XOR drop_bit 16 (x ! 5) XOR push_bit 16 (x ! 3)) @
      le_bytes 4 (x ! 2 XOR drop_bit 16 (x ! 7) XOR push_bit 16 (x ! 5)) @
      le_bytes 4 (x ! 4 XOR drop_bit 16 (x ! 1) XOR push_bit 16 (x ! 7)) @
      le_bytes 4 (x ! 6 XOR drop_bit 16 (x ! 3) XOR push_bit 16 (x ! 1)))"

lemma length_block [simp]: "length (block r) = 16"
  by (simp add: block_def Let_def)

text \<open>The body of the loop of \<open>Keystream\<close>: one step of the cipher, one block to the buffer.\<close>

definition extend :: "rabbit \<Rightarrow> rabbit" where
  "extend r = (let r' = next_state r in r'\<lparr>rb_buf := rb_buf r @ block r'\<rparr>)"

lemma rb_buf_next [simp]: "rb_buf (next_state r) = rb_buf r"
  by (simp add: next_state_def Let_def split_beta)

lemma rb_buf_extend: "rb_buf (extend r) = rb_buf r @ block (next_state r)"
  by (simp add: extend_def Let_def)

function fill :: "nat \<Rightarrow> rabbit \<Rightarrow> rabbit" where
  "fill n r = (if length (rb_buf r) < n then fill n (extend r) else r)"
  by pat_completeness auto
termination
  by (relation "measure (\<lambda>(n, r). n - length (rb_buf r))") (auto simp: rb_buf_extend)

declare fill.simps [simp del]

definition Keystream :: "rabbit \<Rightarrow> nat \<Rightarrow> byte list \<times> rabbit" where
  "Keystream r n = (let r' = fill n r in (take n (rb_buf r'), r'\<lparr>rb_buf := drop n (rb_buf r')\<rparr>))"

section \<open>The buffer\<close>

lemma fill_done [simp]: "n \<le> length (rb_buf r) \<Longrightarrow> fill n r = r"
  by (subst fill.simps) simp

lemma fill_more: "length (rb_buf r) < n \<Longrightarrow> fill n r = fill n (extend r)"
  by (subst fill.simps) simp

lemma length_fill: "n \<le> length (rb_buf (fill n r))"
proof (induction n r rule: fill.induct)
  case (1 n r)
  then show ?case by (cases "length (rb_buf r) < n") (simp_all add: fill_more)
qed

lemma fill_fill: "n \<le> k \<Longrightarrow> fill k (fill n r) = fill k r"
proof (induction n r rule: fill.induct)
  case (1 n r)
  then show ?case by (cases "length (rb_buf r) < n") (simp_all add: fill_more)
qed

text \<open>Dropping consumed bytes commutes with extending the buffer.\<close>

lemma extend_drop:
  "n \<le> length (rb_buf r) \<Longrightarrow>
     extend (r\<lparr>rb_buf := drop n (rb_buf r)\<rparr>) = (extend r)\<lparr>rb_buf := drop n (rb_buf (extend r))\<rparr>"
  by (simp add: extend_def next_state_def block_def Let_def split_beta)

lemma fill_drop:
  "n \<le> length (rb_buf r) \<Longrightarrow>
     fill m (r\<lparr>rb_buf := drop n (rb_buf r)\<rparr>) =
       (fill (n + m) r)\<lparr>rb_buf := drop n (rb_buf (fill (n + m) r))\<rparr>"
proof (induction "n + m" r rule: fill.induct)
  case (1 r)
  show ?case
  proof (cases "length (rb_buf r) < n + m")
    case True
    then have "fill m (r\<lparr>rb_buf := drop n (rb_buf r)\<rparr>) =
        fill m ((extend r)\<lparr>rb_buf := drop n (rb_buf (extend r))\<rparr>)"
      using "1.prems" by (simp add: fill_more extend_drop less_diff_conv2 add.commute)
    also have "\<dots> = (fill (n + m) (extend r))\<lparr>rb_buf := drop n (rb_buf (fill (n + m) (extend r)))\<rparr>"
      using True "1.prems" by (intro "1.hyps") (simp_all add: rb_buf_extend)
    finally show ?thesis using True by (simp add: fill_more)
  next
    case False
    then show ?thesis using "1.prems" by simp
  qed
qed

lemma length_Keystream [simp]: "length (fst (Keystream r n)) = n"
  using length_fill [of n r] by (simp add: Keystream_def Let_def)

lemma Keystream_0 [simp]: "Keystream r 0 = ([], r)"
  by (simp add: Keystream_def Let_def)

lemma Keystream_add:
  "Keystream r (n + m) =
     (fst (Keystream r n) @ fst (Keystream (snd (Keystream r n)) m),
      snd (Keystream (snd (Keystream r n)) m))"
proof -
  let ?r = "fill n r"
  have l: "n \<le> length (rb_buf ?r)" by (rule length_fill)
  have l': "n + m \<le> length (rb_buf (fill (n + m) r))" by (rule length_fill)
  have "\<exists>ext. rb_buf (fill k s) = rb_buf s @ ext" for k s
  proof (induction k s rule: fill.induct)
    case (1 k s)
    then show ?case
      by (cases "length (rb_buf s) < k") (auto simp: fill_more rb_buf_extend)
  qed
  then obtain ext where "rb_buf (fill (n + m) ?r) = rb_buf ?r @ ext" by blast
  then have t: "take n (rb_buf (fill (n + m) r)) = take n (rb_buf ?r)"
    using l by (simp add: fill_fill)
  show ?thesis
    using l l' t
    by (simp add: Keystream_def Let_def fill_drop fill_fill take_add)
      (simp add: add.commute)
qed

text \<open>The reference reading of the keystream: the blocks of the successive states, in a row.\<close>

definition nth_block :: "rabbit \<Rightarrow> nat \<Rightarrow> byte list" where
  "nth_block r i = block ((next_state ^^ Suc i) r)"

lemma block_extend: "block (next_state ((next_state ^^ i) (extend r))) = block (next_state ((next_state ^^ i) (next_state r)))"
proof -
  have "rb_x ((next_state ^^ i) s) = rb_x ((next_state ^^ i) t) \<and>
      rb_c ((next_state ^^ i) s) = rb_c ((next_state ^^ i) t) \<and> rb_b ((next_state ^^ i) s) = rb_b ((next_state ^^ i) t)"
    if "rb_x s = rb_x t" "rb_c s = rb_c t" "rb_b s = rb_b t" for s t
    using that by (induction i) (simp_all add: next_state_def Let_def split_beta)
  from this [of "extend r" "next_state r"] show ?thesis
    by (simp add: extend_def Let_def block_def next_state_def split_beta)
qed

lemma nth_block_extend: "nth_block (extend r) i = nth_block r (Suc i)"
  using block_extend [of i r] by (simp add: nth_block_def funpow_swap1)

lemma length_nth_block [simp]: "length (nth_block r i) = 16"
  by (simp add: nth_block_def)

lemma length_concat_blocks [simp]: "length (concat (map (nth_block r) [0..<k])) = 16 * k"
  by (induction k) simp_all

lemma Keystream_blocks:
  "n \<le> length (rb_buf r) + 16 * k \<Longrightarrow>
     fst (Keystream r n) = take n (rb_buf r @ concat (map (nth_block r) [0..<k]))"
proof (induction k arbitrary: r)
  case 0
  then show ?case by (simp add: Keystream_def Let_def)
next
  case (Suc k)
  show ?case
  proof (cases "length (rb_buf r) < n")
    case True
    then have "fst (Keystream r n) = fst (Keystream (extend r) n)"
      by (simp add: Keystream_def Let_def fill_more)
    also have "\<dots> = take n (rb_buf (extend r) @ concat (map (nth_block (extend r)) [0..<k]))"
      using Suc.prems by (intro Suc.IH) (simp add: rb_buf_extend)
    also have "map (nth_block (extend r)) [0..<k] = map (nth_block r) [1..<Suc k]"
      by (simp add: nth_block_extend comp_def flip: map_Suc_upt del: upt_Suc)
    also have "rb_buf (extend r) = rb_buf r @ nth_block r 0"
      by (simp add: rb_buf_extend nth_block_def)
    finally show ?thesis by (simp add: upt_conv_Cons del: upt_Suc)
  next
    case False
    then show ?thesis by (simp add: Keystream_def Let_def)
  qed
qed

section \<open>The counter system\<close>

text \<open>RFC 4503 reads the eight counters as one 256-bit number to which a constant is added.\<close>

primrec counter_value :: "u32 list \<Rightarrow> int" where
  "counter_value [] = 0"
| "counter_value (c # cs) = uint c + 2 ^ 32 * counter_value cs"

lemma counter_step:
  assumes "uint (b :: u32) \<le> 1" "uint (a :: u32) < 2 ^ 32 - 1"
  shows "uint (c + a + b) + 2 ^ 32 * uint (if c + a + b < c then 1 else 0 :: u32) = uint c + uint a + uint b"
proof -
  let ?s = "uint c + uint a + uint b"
  have c: "0 \<le> uint c" "uint c < 2 ^ 32" using uint_lt2p [of c] by simp_all
  have ab: "0 \<le> uint a + uint b" by simp
  have m: "uint (c + a + b) = ?s mod 2 ^ 32"
    by (simp add: uint_word_ariths mod_simps)
  show ?thesis
  proof (cases "?s < 2 ^ 32")
    case True
    then have "?s mod 2 ^ 32 = ?s" by (intro mod_pos_pos_trivial) simp_all
    then show ?thesis using m ab by (simp add: word_less_def not_less)
  next
    case False
    then have "?s mod 2 ^ 32 = (?s - 2 ^ 32) mod 2 ^ 32"
      by (simp add: mod_diff_right_eq [symmetric] del: mod_diff_right_eq)
    also have "\<dots> = ?s - 2 ^ 32"
      using False c assms by (intro mod_pos_pos_trivial) auto
    finally show ?thesis using m assms c by (simp add: word_less_def)
  qed
qed

lemma counters_value:
  assumes "length cs = length as" "\<forall>a\<in>set as. uint a < 2 ^ 32 - 1" "uint b \<le> 1"
    "counters cs as b = (cs', b')"
  shows "counter_value cs' + uint b' * 2 ^ (32 * length cs) = counter_value cs + counter_value as + uint b \<and>
    length cs' = length cs \<and> uint b' \<le> 1"
  using assms
proof (induction cs as arbitrary: b cs' b' rule: list_induct2)
  case Nil
  then show ?case by auto
next
  case (Cons c cs a as)
  let ?t = "c + a + b" and ?b = "if c + a + b < c then 1 else 0 :: u32"
  obtain ts where t: "counters cs as ?b = (ts, b')" "cs' = ?t # ts"
    using Cons.prems(3) by (auto simp: Let_def split: prod.splits)
  have "counter_value ts + uint b' * 2 ^ (32 * length cs) = counter_value cs + counter_value as + uint ?b \<and>
      length ts = length cs \<and> uint b' \<le> 1"
    by (rule Cons.IH [OF _ _ t(1)]) (use Cons.prems in auto)
  moreover have "uint ?t + 2 ^ 32 * uint ?b = uint c + uint a + uint b"
    using Cons.prems by (intro counter_step) auto
  ultimately show ?case
    using t(2) by (simp add: power_add algebra_simps)
qed

section \<open>Well-formed ciphers\<close>

definition sized8 :: "rabbit \<Rightarrow> bool" where
  "sized8 r \<longleftrightarrow> length (rb_x r) = 8 \<and> length (rb_c r) = 8"

definition wf_rabbit :: "rabbit \<Rightarrow> bool" where
  "wf_rabbit r \<longleftrightarrow> sized8 r \<and> uint (rb_b r) \<le> 1"

lemma rabbitA_bound: "\<forall>a\<in>set rabbitA. uint a < 2 ^ 32 - 1"
  by (simp add: rabbitA_def)

lemma length_rabbitA [simp]: "length rabbitA = 8"
  by (simp add: rabbitA_def)

lemma length_mix: "length (mix g) = 8"
  by (simp add: mix_def)

lemma next_state_counters:
  assumes "wf_rabbit r"
  shows "counter_value (rb_c (next_state r)) + uint (rb_b (next_state r)) * 2 ^ 256 =
      counter_value (rb_c r) + counter_value rabbitA + uint (rb_b r) \<and> wf_rabbit (next_state r)"
proof -
  obtain c b where c: "counters (rb_c r) rabbitA (rb_b r) = (c, b)" by fastforce
  from assms have l: "length (rb_c r) = 8" "uint (rb_b r) \<le> 1" by (simp_all add: wf_rabbit_def sized8_def)
  have "counter_value c + uint b * 2 ^ (32 * length (rb_c r)) =
      counter_value (rb_c r) + counter_value rabbitA + uint (rb_b r) \<and>
      length c = length (rb_c r) \<and> uint b \<le> 1"
    using l by (intro counters_value [OF _ rabbitA_bound _ c]) simp_all
  then show ?thesis
    using l by (simp add: next_state_def c wf_rabbit_def sized8_def Let_def length_mix)
qed

lemma wf_steps: "wf_rabbit r \<Longrightarrow> wf_rabbit ((next_state ^^ k) r)"
  by (induction k) (simp_all add: next_state_counters)

lemma wf_update [simp]:
  "wf_rabbit (r\<lparr>rb_buf := bs\<rparr>) \<longleftrightarrow> wf_rabbit r"
  "length cs = 8 \<Longrightarrow> wf_rabbit r \<Longrightarrow> wf_rabbit (r\<lparr>rb_c := cs\<rparr>)"
  by (simp_all add: wf_rabbit_def sized8_def)

lemma wf_key_setup: "wf_rabbit (key_setup key)"
  unfolding key_setup_def Let_def
  by (intro wf_update wf_steps) (simp_all add: wf_rabbit_def sized8_def)

lemma wf_NewRabbit: "wf_rabbit (NewRabbit key iv)"
proof (cases iv)
  case (Some v)
  have "length (iv_mask v) = 8" by (simp add: iv_mask_def Let_def)
  moreover have "length (rb_c (key_setup key)) = 8"
    using wf_key_setup [of key] by (simp add: wf_rabbit_def sized8_def)
  ultimately show ?thesis
    using wf_key_setup [of key] unfolding Some NewRabbit_def Let_def option.case
    by (intro wf_steps wf_update) simp_all
qed (simp add: NewRabbit_def wf_key_setup)

lemma wf_fill: "wf_rabbit r \<Longrightarrow> wf_rabbit (fill n r)"
proof (induction n r rule: fill.induct)
  case (1 n r)
  then show ?case
    by (cases "length (rb_buf r) < n") (simp_all add: fill_more extend_def Let_def next_state_counters)
qed

lemma wf_Keystream: "wf_rabbit r \<Longrightarrow> wf_rabbit (snd (Keystream r n))"
  by (simp add: Keystream_def Let_def wf_fill)

section \<open>Properties\<close>

text \<open>One step of the cipher adds the RFC constant to the 256-bit counter: the eight words, read as
  one number with the final carry on top, grow by exactly the constant and the carry of the step
  before; a cipher made by \<open>NewRabbit\<close> stays well formed under any number of keystream requests,
  so this holds of every state the server reaches.\<close>
lemma rabbit_counter_addition:
  assumes "wf_rabbit r"
  shows "counter_value (rb_c (next_state r)) + uint (rb_b (next_state r)) * 2 ^ 256 =
      counter_value (rb_c r) + counter_value rabbitA + uint (rb_b r) \<and>
    wf_rabbit (next_state r) \<and> wf_rabbit (snd (Keystream r n)) \<and> wf_rabbit (NewRabbit key iv)"
  using assms next_state_counters wf_Keystream wf_NewRabbit by blast

text \<open>C15. The keystream is one sequence of bytes, whatever the sizes of the requests: asking for \<open>n\<close>
  bytes and then for \<open>m\<close> gives the bytes, and leaves the cipher, that one request for \<open>n + m\<close>
  does; and that sequence is the blocks of the successive states, without a gap.\<close>
theorem keystream_one_sequence:
  "Keystream r (n + m) =
     (let (ks, r') = Keystream r n; (ks', r'') = Keystream r' m in (ks @ ks', r'')) \<and>
   fst (Keystream r n) = take n (rb_buf r @ concat (map (nth_block r) [0..<n div 16 + 1]))"
proof -
  have "n \<le> length (rb_buf r) + 16 * (n div 16 + 1)"
    using mod_less_divisor [of 16 n] div_mult_mod_eq [of n 16] by simp
  from Keystream_blocks [OF this] show ?thesis by (simp add: Keystream_add [of r n m] split_beta)
qed

end
