(* ===== verification/RabbitVectors.thy ===== *)
theory RabbitVectors
  imports Rabbit
begin

text \<open>
  The cipher on integers: each word operation of \<open>Rabbit\<close> as arithmetic modulo \<open>2 ^ 32\<close> and the
  proof that the two renderings agree. The integer rendering evaluates fast in the kernel, which
  is how the published test vectors below are checked.
\<close>

section \<open>The integer rendering\<close>

definition rotl_int :: "int \<Rightarrow> nat \<Rightarrow> int" where
  "rotl_int w k = take_bit 32 (push_bit k w) OR drop_bit (32 - k) w"

definition fold_int :: "int \<Rightarrow> int" where
  "fold_int sq = take_bit 32 sq XOR drop_bit 32 sq"

definition square_int :: "int \<Rightarrow> int" where
  "square_int s = s * s"

definition g_int :: "int \<Rightarrow> int \<Rightarrow> int" where
  "g_int u v = fold_int (square_int (take_bit 32 (u + v)))"

fun gs_int :: "int list \<Rightarrow> int list \<Rightarrow> int list" where
  "gs_int (u # us) (v # vs) = g_int u v # gs_int us vs"
| "gs_int _ _ = []"

definition carry_int :: "int \<Rightarrow> int \<Rightarrow> int" where
  "carry_int t c = (if t < c then 1 else 0)"

fun push_int :: "int \<Rightarrow> int list \<times> int \<Rightarrow> int list \<times> int" where
  "push_int t (ts, b) = (t # ts, b)"

fun counters_int :: "int list \<Rightarrow> int list \<Rightarrow> int \<Rightarrow> int list \<times> int" where
  "counters_int (c # cs) (a # as) b =
     push_int (take_bit 32 (c + a + b)) (counters_int cs as (carry_int (take_bit 32 (c + a + b)) c))"
| "counters_int _ _ b = ([], b)"

fun mix_int :: "int list \<Rightarrow> int list" where
  "mix_int [g0, g1, g2, g3, g4, g5, g6, g7] = map (take_bit 32)
     [g0 + rotl_int g7 16 + rotl_int g6 16,
      g1 + rotl_int g0 8 + g7,
      g2 + rotl_int g1 16 + rotl_int g0 16,
      g3 + rotl_int g2 8 + g1,
      g4 + rotl_int g3 16 + rotl_int g2 16,
      g5 + rotl_int g4 8 + g3,
      g6 + rotl_int g5 16 + rotl_int g4 16,
      g7 + rotl_int g6 8 + g5]"
| "mix_int _ = []"

fun settle_int :: "int list \<Rightarrow> int list \<times> int \<Rightarrow> int list \<times> int list \<times> int" where
  "settle_int x (c, b) = (mix_int (gs_int x c), c, b)"

fun next_int :: "int list \<times> int list \<times> int \<Rightarrow> int list \<times> int list \<times> int" where
  "next_int (x, c, b) = settle_int x (counters_int c
     [0x4D34D34D, 0xD34D34D3, 0x34D34D34, 0x4D34D34D,
      0xD34D34D3, 0x34D34D34, 0x4D34D34D, 0xD34D34D3] b)"

definition byte_int :: "int \<Rightarrow> nat \<Rightarrow> int" where
  "byte_int w i = take_bit 8 (drop_bit (8 * i) w)"

definition bytes_int :: "int \<Rightarrow> int list" where
  "bytes_int w = map (byte_int w) [0..<4]"

fun block_int :: "int list \<Rightarrow> int list" where
  "block_int [x0, x1, x2, x3, x4, x5, x6, x7] =
     bytes_int (x0 XOR drop_bit 16 x5 XOR take_bit 32 (push_bit 16 x3)) @
     bytes_int (x2 XOR drop_bit 16 x7 XOR take_bit 32 (push_bit 16 x5)) @
     bytes_int (x4 XOR drop_bit 16 x1 XOR take_bit 32 (push_bit 16 x7)) @
     bytes_int (x6 XOR drop_bit 16 x3 XOR take_bit 32 (push_bit 16 x1))"
| "block_int _ = []"

section \<open>Agreement\<close>

definition ints :: "rabbit \<Rightarrow> int list \<times> int list \<times> int" where
  "ints r = (map uint (rb_x r), map uint (rb_c r), uint (rb_b r))"

lemma uint_plus_u32: "uint (a + b :: u32) = take_bit 32 (uint a + uint b)"
  by (simp add: uint_word_ariths take_bit_eq_mod)

lemma take_bit_uint_u32 [simp]: "take_bit 32 (uint (a :: u32)) = uint a"
  using uint_lt2p [of a] by (simp add: take_bit_int_eq_self)

lemma take_bit_uint_byte: "8 \<le> n \<Longrightarrow> take_bit n (uint (a :: byte)) = uint a"
  using uint_lt2p [of a] power_increasing [of 8 n "2 :: int"] by (simp add: take_bit_int_eq_self)

lemma uint_rotl32: "uint (rotl32 w k) = rotl_int (uint w) k"
  by (simp add: rotl32_def rotl_int_def unsigned_or_eq unsigned_push_bit_eq unsigned_drop_bit_eq)

lemma uint_rabbitG: "uint (rabbitG u v) = g_int (uint u) (uint v)"
proof -
  let ?s = "u + v"
  have lt: "uint ?s < 2 ^ 32" using uint_lt2p [of ?s] by simp
  then have lt2: "uint ?s * uint ?s < 2 ^ 32 * 2 ^ 32" by (intro mult_strict_mono) simp_all
  then have t: "take_bit 64 (uint ?s * uint ?s) = uint ?s * uint ?s"
    by (intro take_bit_int_eq_self) simp_all
  have "uint ((ucast ?s :: u64) * ucast ?s) = take_bit 64 (uint ?s * uint ?s)"
    by (simp add: uint_word_ariths unsigned_ucast_eq take_bit_eq_mod mod_simps)
  then have sq: "uint ((ucast ?s :: u64) * ucast ?s) = uint ?s * uint ?s" using t by simp
  have "take_bit 32 (drop_bit 32 (uint ?s * uint ?s)) = drop_bit 32 (uint ?s * uint ?s)"
    using lt2 by (intro take_bit_int_eq_self) (simp_all add: drop_bit_eq_div pos_imp_zdiv_nonneg_iff)
  then show ?thesis
    unfolding rabbitG_def Let_def g_int_def fold_int_def square_int_def uint_plus_u32 [symmetric]
      unsigned_xor_eq unsigned_ucast_eq unsigned_drop_bit_eq sq
    using t by simp
qed

lemma uint_map2_rabbitG: "map uint (map2 rabbitG us vs) = gs_int (map uint us) (map uint vs)"
  by (induction us vs rule: list_induct2') (simp_all add: uint_rabbitG)

lemma uint_counters:
  "counters cs as b = (cs', b') \<Longrightarrow> counters_int (map uint cs) (map uint as) (uint b) = (map uint cs', uint b')"
proof (induction cs as b arbitrary: cs' b' rule: counters.induct)
  case (1 c cs a as b)
  let ?b = "if c + a + b < c then 1 else 0 :: u32"
  obtain ts where t: "counters cs as ?b = (ts, b')" "cs' = (c + a + b) # ts"
    using "1.prems" by (auto simp: Let_def split: prod.splits)
  have u: "uint (c + a + b) = take_bit 32 (uint c + uint a + uint b)"
    by (simp add: uint_word_ariths take_bit_eq_mod mod_simps)
  have "uint ?b = carry_int (uint (c + a + b)) (uint c)" by (simp add: word_less_def carry_int_def)
  then show ?case
    using "1.IH" [OF refl refl t(1)] t(2) by (simp add: Let_def flip: u)
qed auto

lemma list8: "length xs = 8 \<Longrightarrow> \<exists>a b c d e f g h. xs = [a, b, c, d, e, f, g, h]"
  by (simp add: numeral_eq_Suc length_Suc_conv) blast

lemma uint_mix: "length g = 8 \<Longrightarrow> map uint (mix g) = mix_int (map uint g)"
  by (drule list8) (auto simp: mix_def uint_plus_u32 uint_rotl32 take_bit_eq_mod mod_simps)

lemma length_counters: "counters cs as b = (cs', b') \<Longrightarrow> length cs' = min (length cs) (length as)"
  by (induction cs as b arbitrary: cs' b' rule: counters.induct) (auto simp: Let_def split: prod.splits)

lemma ints_next:
  assumes "sized8 r"
  shows "ints (next_state r) = next_int (ints r) \<and> sized8 (next_state r)"
proof -
  obtain c b where c: "counters (rb_c r) rabbitA (rb_b r) = (c, b)" by fastforce
  have l: "length c = 8" "length (map2 rabbitG (rb_x r) c) = 8"
    using length_counters [OF c] assms by (simp_all add: sized8_def rabbitA_def)
  have "counters_int (map uint (rb_c r)) (map uint rabbitA) (uint (rb_b r)) = (map uint c, uint b)"
    by (rule uint_counters [OF c])
  then show ?thesis
    using uint_mix [OF l(2)] l unfolding uint_map2_rabbitG
    by (simp add: ints_def next_state_def c sized8_def) (simp add: rabbitA_def mix_def)
qed

lemma ints_steps:
  "sized8 r \<Longrightarrow> ints ((next_state ^^ k) r) = (next_int ^^ k) (ints r) \<and> sized8 ((next_state ^^ k) r)"
  by (induction k) (simp_all add: ints_next)

lemma uint_le_bytes: "map uint (le_bytes 4 (w :: u32)) = bytes_int (uint w)"
  by (simp add: le_bytes_def bytes_int_def byte_int_def unsigned_ucast_eq unsigned_drop_bit_eq)

lemma uint_block:
  assumes "sized8 r"
  shows "map uint (block r) = block_int (map uint (rb_x r))"
proof -
  have w: "uint (a XOR drop_bit 16 b XOR push_bit 16 c) =
      uint a XOR drop_bit 16 (uint b) XOR take_bit 32 (push_bit 16 (uint c))" for a b c :: u32
    by (simp add: unsigned_drop_bit_eq unsigned_xor_eq unsigned_push_bit_eq)
  show ?thesis
    using assms unfolding sized8_def by (auto dest!: list8 simp: block_def Let_def uint_le_bytes w)
qed

section \<open>Set-up and keystream on integers\<close>

definition pair_int :: "int list \<Rightarrow> nat \<Rightarrow> nat \<Rightarrow> int" where
  "pair_int k hi lo = take_bit 32 (push_bit 16 (k ! (hi mod 8))) OR k ! (lo mod 8)"

definition key_x_int :: "int list \<Rightarrow> nat \<Rightarrow> int" where
  "key_x_int k j = (if even j then pair_int k (j + 1) j else pair_int k (j + 5) (j + 4))"

definition key_c_int :: "int list \<Rightarrow> nat \<Rightarrow> int" where
  "key_c_int k j = (if even j then pair_int k (j + 4) (j + 5) else pair_int k j (j + 1))"

definition subkey_int :: "int list \<Rightarrow> nat \<Rightarrow> int" where
  "subkey_int key i = key ! (2 * i) OR push_bit 8 (key ! (2 * i + 1))"

definition next4_int :: "int list \<times> int list \<times> int \<Rightarrow> int list \<times> int list \<times> int" where
  "next4_int s = next_int (next_int (next_int (next_int s)))"

fun cross_int :: "int list \<times> int list \<times> int \<Rightarrow> int list \<times> int list \<times> int" where
  "cross_int (x, c, b) = (x, map2 (XOR) c (drop 4 x @ take 4 x), b)"

definition start_int :: "int list \<Rightarrow> int list \<times> int list \<times> int" where
  "start_int k = (map (key_x_int k) [0..<8], map (key_c_int k) [0..<8], 0)"

definition key_int :: "int list \<Rightarrow> int list \<times> int list \<times> int" where
  "key_int key = cross_int (next4_int (start_int (map (subkey_int key) [0..<8])))"

definition shift_in :: "int \<Rightarrow> int \<Rightarrow> int" where
  "shift_in b w = b OR take_bit 32 (push_bit 8 w)"

definition word_int :: "int list \<Rightarrow> int" where
  "word_int bs = foldr shift_in bs 0"

definition mask_int :: "int \<Rightarrow> int \<Rightarrow> int list" where
  "mask_int i0 i1 =
     [i0, take_bit 32 (push_bit 16 (drop_bit 16 i1)) OR drop_bit 16 i0,
      i1, take_bit 32 (push_bit 16 (i1 AND 0xFFFF)) OR (i0 AND 0xFFFF)]"

definition iv_mask_int :: "int list \<Rightarrow> int list" where
  "iv_mask_int iv = mask_int (word_int (take 4 iv)) (word_int (take 4 (drop 4 iv)))"

fun iv_int :: "int list \<Rightarrow> int list \<times> int list \<times> int \<Rightarrow> int list \<times> int list \<times> int" where
  "iv_int iv (x, c, b) = next4_int (x, map2 (XOR) c (iv_mask_int iv @ iv_mask_int iv), b)"

text \<open>The blocks of a state and of the \<open>k\<close> states after it; the keystream starts one step on.\<close>

primrec blocks_int :: "nat \<Rightarrow> int list \<times> int list \<times> int \<Rightarrow> int list" where
  "blocks_int 0 s = []"
| "blocks_int (Suc k) s = block_int (fst s) @ blocks_int k (next_int s)"

definition keystream_int :: "nat \<Rightarrow> int list \<times> int list \<times> int \<Rightarrow> int list" where
  "keystream_int k s = blocks_int k (next_int s)"

section \<open>Agreement of set-up and keystream\<close>

lemma uint_le_word: "uint (le_word bs :: u32) = word_int (map uint bs)"
  by (induction bs)
    (simp_all add: word_int_def shift_in_def unsigned_or_eq unsigned_ucast_eq unsigned_push_bit_eq take_bit_uint_byte)

lemma uint_subkeys: "length key = 16 \<Longrightarrow> map uint (subkeys key) = map (subkey_int (map uint key)) [0..<8]"
  by (simp add: subkeys_def subkey_int_def unsigned_or_eq unsigned_ucast_eq unsigned_push_bit_eq
      take_bit_uint_byte take_bit_push_bit)

lemma uint_iv_mask: "map uint (iv_mask iv) = iv_mask_int (map uint iv) @ iv_mask_int (map uint iv)"
  by (simp add: iv_mask_def iv_mask_int_def mask_int_def Let_def uint_le_word take_map drop_map unsigned_or_eq
      unsigned_and_eq unsigned_push_bit_eq unsigned_drop_bit_eq flip: uint_le_word)

lemma next4_int: "next4_int s = (next_int ^^ 4) s"
  by (simp add: next4_int_def numeral_eq_Suc)

lemma ints_next4: "sized8 r \<Longrightarrow> ints ((next_state ^^ 4) r) = next4_int (ints r) \<and> sized8 ((next_state ^^ 4) r)"
  unfolding next4_int by (rule ints_steps)

lemma rb_buf_steps [simp]: "rb_buf ((next_state ^^ j) r) = rb_buf r"
  by (induction j) simp_all

lemma uint_map2_xor: "map uint (map2 (XOR) us vs) = map2 (XOR) (map uint us) (map uint (vs :: u32 list))"
  by (induction us vs rule: list_induct2') (simp_all add: unsigned_xor_eq)

lemma ints_key_setup:
  assumes "length key = 16"
  shows "ints (key_setup key) = key_int (map uint key) \<and> sized8 (key_setup key) \<and> rb_buf (key_setup key) = []"
proof -
  let ?k = "subkeys key" and ?ki = "map (subkey_int (map uint key)) [0..<8]"
  let ?init = "\<lparr>rb_x = map (key_x ?k) [0..<8], rb_c = map (key_c ?k) [0..<8], rb_b = 0, rb_buf = []\<rparr>"
  let ?r = "(next_state ^^ 4) ?init"
  have "sized8 ?init" by (simp add: sized8_def)
  from ints_next4 [OF this] have s: "ints ?r = next4_int (ints ?init)" "sized8 ?r" by blast+
  have u: "uint (?k ! i) = ?ki ! i" if "i < 8" for i
    unfolding uint_subkeys [OF assms, symmetric] using that by (intro nth_map [symmetric]) (simp add: subkeys_def)
  have "ints ?init = start_int ?ki"
    by (simp add: ints_def start_int_def key_x_def key_c_def key_x_int_def key_c_int_def pair_int_def
        unsigned_or_eq unsigned_push_bit_eq u del: upt.simps nth_map)
  then have i: "key_int (map uint key) = cross_int (ints ?r)"
    by (simp only: key_int_def s(1))
  have x: "map (\<lambda>j. c ! j XOR x ! ((j + 4) mod 8)) [0..<8] = map2 (XOR) c (drop 4 x @ take 4 x)"
    if "length c = 8" "length x = 8" for c x :: "u32 list"
    using that by (auto dest!: list8 simp: upt_rec)
  then have "ints (key_setup key) = cross_int (ints ?r)"
    using s(2) unfolding sized8_def
    by (simp add: key_setup_def Let_def ints_def uint_map2_xor take_map drop_map x del: map_map)
  then show ?thesis
    using s(2) unfolding i by (simp add: key_setup_def Let_def sized8_def)
qed

lemma length_iv_mask: "length (iv_mask iv) = 8"
  by (simp add: iv_mask_def Let_def)

lemma ints_NewRabbit:
  assumes "length key = 16"
  shows "ints (NewRabbit key iv) = (case iv of None \<Rightarrow> key_int (map uint key)
      | Some v \<Rightarrow> iv_int (map uint v) (key_int (map uint key))) \<and>
    sized8 (NewRabbit key iv) \<and> rb_buf (NewRabbit key iv) = []"
proof (cases iv)
  case None
  then show ?thesis using ints_key_setup [OF assms] by (simp add: NewRabbit_def)
next
  case (Some v)
  let ?s = "key_setup key"
  let ?r = "?s\<lparr>rb_c := map2 (XOR) (rb_c ?s) (iv_mask v)\<rparr>"
  note k = ints_key_setup [OF assms]
  have z: "sized8 ?r" using k by (simp add: sized8_def length_iv_mask)
  have "iv_int (map uint v) (ints ?s) = next4_int (ints ?r)"
    by (simp add: ints_def uint_map2_xor uint_iv_mask del: map_map)
  then show ?thesis
    using Some k ints_next4 [OF z] by (simp add: NewRabbit_def Let_def)
qed

text \<open>The keystream of a fresh cipher is what the integer rendering computes.\<close>

lemma keystream_int_blocks:
  "sized8 r \<Longrightarrow> keystream_int k (ints r) = map uint (concat (map (nth_block r) [0..<k]))"
  unfolding keystream_int_def
proof (induction k arbitrary: r)
  case (Suc k)
  have b: "map (nth_block r) [0..<Suc k] = nth_block r 0 # map (nth_block (next_state r)) [0..<k]"
    by (simp add: upt_conv_Cons nth_block_def comp_def funpow_swap1 del: upt_Suc flip: map_Suc_upt)
  have n: "next_int (ints r) = ints (next_state r)" "sized8 (next_state r)"
    using ints_next [OF Suc.prems] by simp_all
  have "map uint (nth_block r 0) = block_int (fst (ints (next_state r)))"
    using uint_block [OF n(2)] by (simp add: nth_block_def ints_def)
  then show ?case
    unfolding b n(1) by (simp add: Suc.IH n)
qed simp

lemma uint_keystream:
  assumes "length key = 16"
  shows "map uint (fst (Keystream (NewRabbit key iv) (16 * k))) =
    keystream_int k (case iv of None \<Rightarrow> key_int (map uint key)
      | Some v \<Rightarrow> iv_int (map uint v) (key_int (map uint key)))"
proof -
  note r = ints_NewRabbit [OF assms, of iv]
  have "fst (Keystream (NewRabbit key iv) (16 * k)) = concat (map (nth_block (NewRabbit key iv)) [0..<k])"
    using Keystream_blocks [of "16 * k" "NewRabbit key iv" k] r by simp
  then show ?thesis using r keystream_int_blocks [of "NewRabbit key iv" k] by simp
qed

section \<open>The published vectors\<close>

lemma map_uint_bytes: "map uint bs = ns \<Longrightarrow> bs = map word_of_int ns"
  by (auto simp: comp_def)

definition vector_key :: "byte list" where
  "vector_key = [0, 1, 2, 3, 4, 5, 6, 7, 8, 9, 10, 11, 12, 13, 14, 15]"

definition vector_iv :: "byte list" where
  "vector_iv = [0xAA, 0xBB, 0xCC, 0xDD, 1, 2, 3, 4]"

lemma vector_ints:
  "map uint vector_key = [0, 1, 2, 3, 4, 5, 6, 7, 8, 9, 10, 11, 12, 13, 14, 15]"
  "map uint vector_iv = [0xAA, 0xBB, 0xCC, 0xDD, 1, 2, 3, 4]"
  by (simp_all add: vector_key_def vector_iv_def)

lemma vector_blocks:
  "keystream_int (Suc (Suc 0)) (key_int [0, 1, 2, 3, 4, 5, 6, 7, 8, 9, 10, 11, 12, 13, 14, 15]) =
    [0x08, 0x40, 0x4F, 0x23, 0x2B, 0xF0, 0x02, 0x17, 0x5A, 0xAF, 0x97, 0xE9, 0x2E, 0x6E, 0x5F, 0xE5,
     0x2E, 0x6F, 0x26, 0x49, 0x7E, 0x5E, 0x02, 0x7F, 0x93, 0x1F, 0x48, 0xB0, 0x8C, 0x51, 0xC4, 0x9D]"
  by code_simp

lemma vector_iv_blocks:
  "keystream_int (Suc (Suc 0)) (iv_int [0xAA, 0xBB, 0xCC, 0xDD, 1, 2, 3, 4]
      (key_int [0, 1, 2, 3, 4, 5, 6, 7, 8, 9, 10, 11, 12, 13, 14, 15])) =
    [0x49, 0x08, 0x2C, 0xD1, 0x0E, 0xAD, 0x88, 0xCC, 0x22, 0x77, 0x20, 0x34, 0xBC, 0x97, 0x2A, 0xC0,
     0xDD, 0x5F, 0x39, 0x14, 0x0D, 0x05, 0xF6, 0xD2, 0x17, 0x69, 0xFD, 0x78, 0x38, 0x1D, 0xBC, 0x40]"
  by code_simp

text \<open>C31. The cipher is the Rabbit of RFC 4503: on the sequential key of \<open>rabbit_test.go\<close>, without
  and with its IV, the keystream begins with the bytes the test expects.\<close>
theorem rabbit_golden_vectors:
  "fst (Keystream (NewRabbit vector_key None) 32) =
     [0x08, 0x40, 0x4F, 0x23, 0x2B, 0xF0, 0x02, 0x17, 0x5A, 0xAF, 0x97, 0xE9, 0x2E, 0x6E, 0x5F, 0xE5,
      0x2E, 0x6F, 0x26, 0x49, 0x7E, 0x5E, 0x02, 0x7F, 0x93, 0x1F, 0x48, 0xB0, 0x8C, 0x51, 0xC4, 0x9D] \<and>
   fst (Keystream (NewRabbit vector_key (Some vector_iv)) 32) =
     [0x49, 0x08, 0x2C, 0xD1, 0x0E, 0xAD, 0x88, 0xCC, 0x22, 0x77, 0x20, 0x34, 0xBC, 0x97, 0x2A, 0xC0,
      0xDD, 0x5F, 0x39, 0x14, 0x0D, 0x05, 0xF6, 0xD2, 0x17, 0x69, 0xFD, 0x78, 0x38, 0x1D, 0xBC, 0x40]"
proof -
  have l: "length vector_key = 16" by (simp add: vector_key_def)
  have "map uint (fst (Keystream (NewRabbit vector_key None) 32)) =
      keystream_int (Suc (Suc 0)) (key_int (map uint vector_key))"
    using uint_keystream [OF l, of None 2] by (simp add: numeral_2_eq_2)
  from map_uint_bytes [OF this [unfolded vector_ints vector_blocks]]
  have plain: "fst (Keystream (NewRabbit vector_key None) 32) =
      [0x08, 0x40, 0x4F, 0x23, 0x2B, 0xF0, 0x02, 0x17, 0x5A, 0xAF, 0x97, 0xE9, 0x2E, 0x6E, 0x5F, 0xE5,
       0x2E, 0x6F, 0x26, 0x49, 0x7E, 0x5E, 0x02, 0x7F, 0x93, 0x1F, 0x48, 0xB0, 0x8C, 0x51, 0xC4, 0x9D]"
    by simp
  have "map uint (fst (Keystream (NewRabbit vector_key (Some vector_iv)) 32)) =
      keystream_int (Suc (Suc 0)) (iv_int (map uint vector_iv) (key_int (map uint vector_key)))"
    using uint_keystream [OF l, of "Some vector_iv" 2] by (simp add: numeral_2_eq_2)
  from map_uint_bytes [OF this [unfolded vector_ints vector_iv_blocks]] plain show ?thesis by simp
qed

end
