(* ===== verification/Aes.thy ===== *)
theory Aes
  imports Prelude
begin

text \<open>
  AES-128 decryption of one block, the part of \<open>crypto/aes\<close> the transport uses, after FIPS-197:
  key expansion and the inverse cipher. Bytes are integers below 256 here, so that the published
  example evaluates in the kernel; \<open>aes_decrypt\<close> is the function on Go's bytes.
\<close>

section \<open>Tables and field arithmetic\<close>

definition sbox :: "int list list" where
  "sbox =
    [[0x63, 0x7C, 0x77, 0x7B, 0xF2, 0x6B, 0x6F, 0xC5, 0x30, 0x01, 0x67, 0x2B, 0xFE, 0xD7, 0xAB, 0x76],
     [0xCA, 0x82, 0xC9, 0x7D, 0xFA, 0x59, 0x47, 0xF0, 0xAD, 0xD4, 0xA2, 0xAF, 0x9C, 0xA4, 0x72, 0xC0],
     [0xB7, 0xFD, 0x93, 0x26, 0x36, 0x3F, 0xF7, 0xCC, 0x34, 0xA5, 0xE5, 0xF1, 0x71, 0xD8, 0x31, 0x15],
     [0x04, 0xC7, 0x23, 0xC3, 0x18, 0x96, 0x05, 0x9A, 0x07, 0x12, 0x80, 0xE2, 0xEB, 0x27, 0xB2, 0x75],
     [0x09, 0x83, 0x2C, 0x1A, 0x1B, 0x6E, 0x5A, 0xA0, 0x52, 0x3B, 0xD6, 0xB3, 0x29, 0xE3, 0x2F, 0x84],
     [0x53, 0xD1, 0x00, 0xED, 0x20, 0xFC, 0xB1, 0x5B, 0x6A, 0xCB, 0xBE, 0x39, 0x4A, 0x4C, 0x58, 0xCF],
     [0xD0, 0xEF, 0xAA, 0xFB, 0x43, 0x4D, 0x33, 0x85, 0x45, 0xF9, 0x02, 0x7F, 0x50, 0x3C, 0x9F, 0xA8],
     [0x51, 0xA3, 0x40, 0x8F, 0x92, 0x9D, 0x38, 0xF5, 0xBC, 0xB6, 0xDA, 0x21, 0x10, 0xFF, 0xF3, 0xD2],
     [0xCD, 0x0C, 0x13, 0xEC, 0x5F, 0x97, 0x44, 0x17, 0xC4, 0xA7, 0x7E, 0x3D, 0x64, 0x5D, 0x19, 0x73],
     [0x60, 0x81, 0x4F, 0xDC, 0x22, 0x2A, 0x90, 0x88, 0x46, 0xEE, 0xB8, 0x14, 0xDE, 0x5E, 0x0B, 0xDB],
     [0xE0, 0x32, 0x3A, 0x0A, 0x49, 0x06, 0x24, 0x5C, 0xC2, 0xD3, 0xAC, 0x62, 0x91, 0x95, 0xE4, 0x79],
     [0xE7, 0xC8, 0x37, 0x6D, 0x8D, 0xD5, 0x4E, 0xA9, 0x6C, 0x56, 0xF4, 0xEA, 0x65, 0x7A, 0xAE, 0x08],
     [0xBA, 0x78, 0x25, 0x2E, 0x1C, 0xA6, 0xB4, 0xC6, 0xE8, 0xDD, 0x74, 0x1F, 0x4B, 0xBD, 0x8B, 0x8A],
     [0x70, 0x3E, 0xB5, 0x66, 0x48, 0x03, 0xF6, 0x0E, 0x61, 0x35, 0x57, 0xB9, 0x86, 0xC1, 0x1D, 0x9E],
     [0xE1, 0xF8, 0x98, 0x11, 0x69, 0xD9, 0x8E, 0x94, 0x9B, 0x1E, 0x87, 0xE9, 0xCE, 0x55, 0x28, 0xDF],
     [0x8C, 0xA1, 0x89, 0x0D, 0xBF, 0xE6, 0x42, 0x68, 0x41, 0x99, 0x2D, 0x0F, 0xB0, 0x54, 0xBB, 0x16]]"

definition inv_sbox :: "int list list" where
  "inv_sbox =
    [[0x52, 0x09, 0x6A, 0xD5, 0x30, 0x36, 0xA5, 0x38, 0xBF, 0x40, 0xA3, 0x9E, 0x81, 0xF3, 0xD7, 0xFB],
     [0x7C, 0xE3, 0x39, 0x82, 0x9B, 0x2F, 0xFF, 0x87, 0x34, 0x8E, 0x43, 0x44, 0xC4, 0xDE, 0xE9, 0xCB],
     [0x54, 0x7B, 0x94, 0x32, 0xA6, 0xC2, 0x23, 0x3D, 0xEE, 0x4C, 0x95, 0x0B, 0x42, 0xFA, 0xC3, 0x4E],
     [0x08, 0x2E, 0xA1, 0x66, 0x28, 0xD9, 0x24, 0xB2, 0x76, 0x5B, 0xA2, 0x49, 0x6D, 0x8B, 0xD1, 0x25],
     [0x72, 0xF8, 0xF6, 0x64, 0x86, 0x68, 0x98, 0x16, 0xD4, 0xA4, 0x5C, 0xCC, 0x5D, 0x65, 0xB6, 0x92],
     [0x6C, 0x70, 0x48, 0x50, 0xFD, 0xED, 0xB9, 0xDA, 0x5E, 0x15, 0x46, 0x57, 0xA7, 0x8D, 0x9D, 0x84],
     [0x90, 0xD8, 0xAB, 0x00, 0x8C, 0xBC, 0xD3, 0x0A, 0xF7, 0xE4, 0x58, 0x05, 0xB8, 0xB3, 0x45, 0x06],
     [0xD0, 0x2C, 0x1E, 0x8F, 0xCA, 0x3F, 0x0F, 0x02, 0xC1, 0xAF, 0xBD, 0x03, 0x01, 0x13, 0x8A, 0x6B],
     [0x3A, 0x91, 0x11, 0x41, 0x4F, 0x67, 0xDC, 0xEA, 0x97, 0xF2, 0xCF, 0xCE, 0xF0, 0xB4, 0xE6, 0x73],
     [0x96, 0xAC, 0x74, 0x22, 0xE7, 0xAD, 0x35, 0x85, 0xE2, 0xF9, 0x37, 0xE8, 0x1C, 0x75, 0xDF, 0x6E],
     [0x47, 0xF1, 0x1A, 0x71, 0x1D, 0x29, 0xC5, 0x89, 0x6F, 0xB7, 0x62, 0x0E, 0xAA, 0x18, 0xBE, 0x1B],
     [0xFC, 0x56, 0x3E, 0x4B, 0xC6, 0xD2, 0x79, 0x20, 0x9A, 0xDB, 0xC0, 0xFE, 0x78, 0xCD, 0x5A, 0xF4],
     [0x1F, 0xDD, 0xA8, 0x33, 0x88, 0x07, 0xC7, 0x31, 0xB1, 0x12, 0x10, 0x59, 0x27, 0x80, 0xEC, 0x5F],
     [0x60, 0x51, 0x7F, 0xA9, 0x19, 0xB5, 0x4A, 0x0D, 0x2D, 0xE5, 0x7A, 0x9F, 0x93, 0xC9, 0x9C, 0xEF],
     [0xA0, 0xE0, 0x3B, 0x4D, 0xAE, 0x2A, 0xF5, 0xB0, 0xC8, 0xEB, 0xBB, 0x3C, 0x83, 0x53, 0x99, 0x61],
     [0x17, 0x2B, 0x04, 0x7E, 0xBA, 0x77, 0xD6, 0x26, 0xE1, 0x69, 0x14, 0x63, 0x55, 0x21, 0x0C, 0x7D]]"

definition lookup :: "int list list \<Rightarrow> int \<Rightarrow> int" where
  "lookup t b = t ! nat (b div 16) ! nat (b mod 16)"

text \<open>Multiplication by \<open>x\<close> in the field, and by the four constants of the inverse mix.\<close>

definition xtime :: "int \<Rightarrow> int" where
  "xtime b = (if b < 128 then 2 * b else (2 * b - 256) XOR 27)"

definition powers :: "int \<Rightarrow> int \<times> int \<times> int \<times> int" where
  "powers b = (b, xtime b, xtime (xtime b), xtime (xtime (xtime b)))"

fun mul9 :: "int \<times> int \<times> int \<times> int \<Rightarrow> int" where "mul9 (a, a2, a4, a8) = a8 XOR a"
fun mul11 :: "int \<times> int \<times> int \<times> int \<Rightarrow> int" where "mul11 (a, a2, a4, a8) = a8 XOR a2 XOR a"
fun mul13 :: "int \<times> int \<times> int \<times> int \<Rightarrow> int" where "mul13 (a, a2, a4, a8) = a8 XOR a4 XOR a"
fun mul14 :: "int \<times> int \<times> int \<times> int \<Rightarrow> int" where "mul14 (a, a2, a4, a8) = a8 XOR a4 XOR a2"

section \<open>Key expansion\<close>

text \<open>Words are lists of four bytes. A round takes the last four words to the next four.\<close>

fun xor_word :: "int list \<Rightarrow> int list \<Rightarrow> int list" where
  "xor_word (a # as) (b # bs) = (a XOR b) # xor_word as bs"
| "xor_word _ _ = []"

fun rot_sub :: "int list \<Rightarrow> int \<Rightarrow> int list" where
  "rot_sub [a, b, c, d] rcon = [lookup sbox b XOR rcon, lookup sbox c, lookup sbox d, lookup sbox a]"
| "rot_sub _ _ = []"

fun chain_words :: "int list \<Rightarrow> int list list \<Rightarrow> int list list" where
  "chain_words t [] = []"
| "chain_words t (w # ws) = xor_word w t # chain_words (xor_word w t) ws"

definition next_round_key :: "int \<Rightarrow> int list list \<Rightarrow> int list list" where
  "next_round_key rcon ws = chain_words (rot_sub (last ws) rcon) ws"

fun round_keys :: "int list \<Rightarrow> int list list \<Rightarrow> int list list list" where
  "round_keys [] ws = [ws]"
| "round_keys (rcon # rcons) ws = ws # round_keys rcons (next_round_key rcon ws)"

definition rcons :: "int list" where
  "rcons = [1, 2, 4, 8, 16, 32, 64, 128, 27, 54]"

fun words_of :: "int list \<Rightarrow> int list list" where
  "words_of (a # b # c # d # bs) = [a, b, c, d] # words_of bs"
| "words_of _ = []"

section \<open>The inverse cipher\<close>

text \<open>The state is the list of its four columns.\<close>

fun add_round_key :: "int list list \<Rightarrow> int list list \<Rightarrow> int list list" where
  "add_round_key (c # cs) (k # ks) = xor_word c k # add_round_key cs ks"
| "add_round_key _ _ = []"

fun inv_shift_rows :: "int list list \<Rightarrow> int list list" where
  "inv_shift_rows
     [[a0, a1, a2, a3], [b0, b1, b2, b3], [c0, c1, c2, c3], [d0, d1, d2, d3]] =
     [[a0, d1, c2, b3], [b0, a1, d2, c3], [c0, b1, a2, d3], [d0, c1, b2, a3]]"
| "inv_shift_rows _ = []"

definition inv_sub_bytes :: "int list list \<Rightarrow> int list list" where
  "inv_sub_bytes s = map (map (lookup inv_sbox)) s"

definition mix_powers :: "int \<times> int \<times> int \<times> int \<Rightarrow> int \<times> int \<times> int \<times> int \<Rightarrow>
    int \<times> int \<times> int \<times> int \<Rightarrow> int \<times> int \<times> int \<times> int \<Rightarrow> int list" where
  "mix_powers a b c d =
     [mul14 a XOR mul11 b XOR mul13 c XOR mul9 d,
      mul9 a XOR mul14 b XOR mul11 c XOR mul13 d,
      mul13 a XOR mul9 b XOR mul14 c XOR mul11 d,
      mul11 a XOR mul13 b XOR mul9 c XOR mul14 d]"

fun inv_mix_column :: "int list \<Rightarrow> int list" where
  "inv_mix_column [a, b, c, d] = mix_powers (powers a) (powers b) (powers c) (powers d)"
| "inv_mix_column _ = []"

text \<open>The rounds, given the round keys from the last to the first.\<close>

fun inv_rounds :: "int list list \<Rightarrow> int list list list \<Rightarrow> int list list" where
  "inv_rounds s [] = s"
| "inv_rounds s [k] = add_round_key (inv_sub_bytes (inv_shift_rows s)) k"
| "inv_rounds s (k # ks) =
     inv_rounds (map inv_mix_column (add_round_key (inv_sub_bytes (inv_shift_rows s)) k)) ks"

fun inv_cipher :: "int list list list \<Rightarrow> int list list \<Rightarrow> int list list" where
  "inv_cipher [] s = s"
| "inv_cipher (k # ks) s = inv_rounds (add_round_key s k) ks"

definition aes_decrypt_int :: "int list \<Rightarrow> int list \<Rightarrow> int list" where
  "aes_decrypt_int key blk = concat (inv_cipher (rev (round_keys rcons (words_of key))) (words_of blk))"

text \<open>\<open>block.Decrypt(dst, src)\<close> of a cipher made from a sixteen-byte key.\<close>

definition aes_decrypt :: "byte list \<Rightarrow> byte list \<Rightarrow> byte list" where
  "aes_decrypt key blk = map word_of_int (aes_decrypt_int (map uint key) (map uint blk))"

text \<open>The example of FIPS-197, appendix C.1.\<close>

lemma fips_vector_int:
  "aes_decrypt_int [0, 1, 2, 3, 4, 5, 6, 7, 8, 9, 10, 11, 12, 13, 14, 15]
     [0x69, 0xC4, 0xE0, 0xD8, 0x6A, 0x7B, 0x04, 0x30, 0xD8, 0xCD, 0xB7, 0x80, 0x70, 0xB4, 0xC5, 0x5A] =
   [0x00, 0x11, 0x22, 0x33, 0x44, 0x55, 0x66, 0x77, 0x88, 0x99, 0xAA, 0xBB, 0xCC, 0xDD, 0xEE, 0xFF]"
  by code_simp

section \<open>Block sizes\<close>

definition square4 :: "int list list \<Rightarrow> bool" where
  "square4 s \<longleftrightarrow> length s = 4 \<and> (\<forall>c\<in>set s. length c = 4)"

lemma list4: "length xs = 4 \<Longrightarrow> \<exists>a b c d. xs = [a, b, c, d]"
  by (simp add: numeral_eq_Suc length_Suc_conv) blast

lemma square4E:
  assumes "square4 s"
  obtains a0 a1 a2 a3 b0 b1 b2 b3 c0 c1 c2 c3 d0 d1 d2 d3
    where "s = [[a0, a1, a2, a3], [b0, b1, b2, b3], [c0, c1, c2, c3], [d0, d1, d2, d3]]"
proof -
  from assms obtain a b c d where s: "s = [a, b, c, d]" by (auto simp: square4_def dest!: list4)
  have "length a = 4" "length b = 4" "length c = 4" "length d = 4"
    using assms by (simp_all add: s square4_def)
  then show thesis using that s by (auto dest!: list4)
qed

lemma length_xor_word [simp]: "length (xor_word xs ys) = min (length xs) (length ys)"
  by (induction xs ys rule: xor_word.induct) auto

lemma square4_add_round_key: "square4 s \<Longrightarrow> square4 k \<Longrightarrow> square4 (add_round_key s k)"
  by (elim square4E) (simp add: square4_def)

lemma square4_inv_shift_rows: "square4 s \<Longrightarrow> square4 (inv_shift_rows s)"
  by (elim square4E) (simp add: square4_def)

lemma square4_inv_sub_bytes: "square4 s \<Longrightarrow> square4 (inv_sub_bytes s)"
  by (simp add: square4_def inv_sub_bytes_def)

lemma square4_inv_mix: "square4 s \<Longrightarrow> square4 (map inv_mix_column s)"
  by (elim square4E) (simp add: square4_def mix_powers_def)

lemma square4_inv_rounds: "square4 s \<Longrightarrow> \<forall>k\<in>set ks. square4 k \<Longrightarrow> square4 (inv_rounds s ks)"
  by (induction s ks rule: inv_rounds.induct)
    (simp_all add: square4_add_round_key square4_inv_shift_rows square4_inv_sub_bytes square4_inv_mix)

lemma square4_next_round_key: "square4 ws \<Longrightarrow> square4 (next_round_key rcon ws)"
  by (elim square4E) (simp add: square4_def next_round_key_def)

lemma square4_round_keys: "square4 ws \<Longrightarrow> \<forall>k\<in>set (round_keys rs ws). square4 k"
  by (induction rs ws rule: round_keys.induct) (simp_all add: square4_next_round_key)

lemma square4_words_of: "length bs = 16 \<Longrightarrow> square4 (words_of bs)"
  by (simp add: numeral_eq_Suc length_Suc_conv) (auto simp: square4_def)

lemma length_aes_decrypt:
  assumes "length key = 16" "length blk = 16"
  shows "length (aes_decrypt key blk) = 16"
proof -
  let ?ks = "rev (round_keys rcons (words_of (map uint key)))"
  have k: "\<forall>k\<in>set ?ks. square4 k"
    using square4_round_keys [OF square4_words_of [of "map uint key"]] assms(1) by simp
  have s: "square4 (words_of (map uint blk))" using square4_words_of assms(2) by simp
  have "square4 (inv_cipher ?ks (words_of (map uint blk)))"
    using k s by (cases ?ks) (simp_all add: square4_inv_rounds square4_add_round_key)
  then have "length (concat (inv_cipher ?ks (words_of (map uint blk)))) = 16"
    by (elim square4E) simp
  then show ?thesis by (simp add: aes_decrypt_def aes_decrypt_int_def)
qed

end
