(* ===== verification/Session.thy ===== *)
theory Session
  imports RomCodec Rabbit Aes
begin

text \<open>
  The keyed connection of \<open>internal/transport/session.go\<close>: framing, encryption in both
  directions, key derivation and the plaintext handshake, over a model of a TCP socket.
\<close>

section \<open>The socket\<close>

text \<open>
  What a connection can observe of its peer: the bytes still to be received and how the stream
  ends after them, the bytes sent, how many more bytes the network takes before writes fail
  (\<open>None\<close>: any number), and whether the socket was closed on this side. Reading ahead
  (\<open>bufio.Reader\<close>) is not observable, so the reader and the socket share the received bytes.
\<close>

datatype stream_end = PeerClosed | PeerReset

record socket =
  sk_rx :: "byte list"
  sk_end :: stream_end
  sk_tx :: "byte list"
  sk_room :: "nat option"
  sk_closed :: bool

datatype terr =
    ErrEOF
  | ErrUnexpectedEOF
  | ErrReset
  | BogusLength nat
  | WriteFailed
  | RandomFailed
  | StaticKeySize nat
  | Protocol perr

text \<open>\<open>io.ReadFull\<close> on a buffer of \<open>n\<close> bytes.\<close>

definition ReadFull :: "nat \<Rightarrow> socket \<Rightarrow> (terr + byte list) \<times> socket" where
  "ReadFull n sk =
     (if n \<le> length (sk_rx sk) then (Inr (take n (sk_rx sk)), sk\<lparr>sk_rx := drop n (sk_rx sk)\<rparr>)
      else (Inl (case sk_end sk of
                   PeerReset \<Rightarrow> ErrReset
                 | PeerClosed \<Rightarrow> if sk_rx sk = [] then ErrEOF else ErrUnexpectedEOF),
            sk\<lparr>sk_rx := []\<rparr>))"

text \<open>\<open>net.Conn.Write\<close>: all bytes, or those the network still took and an error.\<close>

definition Write :: "byte list \<Rightarrow> socket \<Rightarrow> (terr + unit) \<times> socket" where
  "Write bs sk =
     (case sk_room sk of
        None \<Rightarrow> (Inr (), sk\<lparr>sk_tx := sk_tx sk @ bs\<rparr>)
      | Some n \<Rightarrow>
          if length bs \<le> n then (Inr (), sk\<lparr>sk_tx := sk_tx sk @ bs, sk_room := Some (n - length bs)\<rparr>)
          else (Inl WriteFailed, sk\<lparr>sk_tx := sk_tx sk @ take n bs, sk_room := Some 0\<rparr>))"

section \<open>Random numbers\<close>

text \<open>
  \<open>crypto/rand\<close> is the list of bytes it will deliver; a read past its end is the error the code
  provides for (the runtime of the version in use aborts instead).
\<close>

type_synonym rng = "byte list"

definition rand_Read :: "nat \<Rightarrow> rng \<Rightarrow> terr + (byte list \<times> rng)" where
  "rand_Read n rng = (if n \<le> length rng then Inr (take n rng, drop n rng) else Inl RandomFailed)"

definition randInt63 :: "rng \<Rightarrow> terr + (i64 \<times> rng)" where
  "randInt63 rng = rbind (rand_Read 8 rng) (\<lambda>(b, rng'). Inr (drop_bit 1 (le_word b), rng'))"

definition int64LE :: "i64 \<Rightarrow> byte list" where
  "int64LE v = le_bytes 8 v"

section \<open>The keyed connection\<close>

record conn =
  cn_raw :: socket
  cn_c2s :: rabbit
  cn_s2c :: rabbit
  SocketUID :: i64
  ConnectionKey :: i64

definition StaticKey :: "byte list" where
  "StaticKey = map of_char ''Sxf89J&1*,0Axm>t''"

text \<open>\<open>aes.NewCipher\<close> checks the size of the key; a key of the other legal sizes is not used.\<close>

definition deriveKey :: "byte list \<Rightarrow> terr + byte list" where
  "deriveKey rawKey =
     (if length StaticKey = 16 then Inr (aes_decrypt StaticKey rawKey)
      else Inl (StaticKeySize (length StaticKey)))"

text \<open>Each frame takes a whole number of sixteen-byte blocks of the keystream.\<close>

definition crypt :: "rabbit \<Rightarrow> byte list \<Rightarrow> byte list \<times> rabbit" where
  "crypt r body =
     (let aligned = ((length body + 15) div 16) * 16;
          (ks, r') = Keystream r aligned
      in (map (\<lambda>i. body ! i XOR ks ! i) [0..<length body], r'))"

text \<open>The length field is a \<open>uint16\<close>: \<open>uint16(len(body)+2)\<close> wraps.\<close>

definition writeFrame :: "conn \<Rightarrow> byte list \<Rightarrow> (terr + unit) \<times> conn" where
  "writeFrame c body =
     (let header = le_bytes 2 (of_nat (length body + 2) :: u16);
          (res, raw') = Write (header @ body) (cn_raw c)
      in (res, c\<lparr>cn_raw := raw'\<rparr>))"

definition readFrame :: "conn \<Rightarrow> (terr + byte list) \<times> conn" where
  "readFrame c =
     (let (res, raw1) = ReadFull 2 (cn_raw c) in
      case res of
        Inl e \<Rightarrow> (Inl e, c\<lparr>cn_raw := raw1\<rparr>)
      | Inr header \<Rightarrow>
          let n = unat (le_word header :: u16) in
          if n < 2 then (Inl (BogusLength n), c\<lparr>cn_raw := raw1\<rparr>)
          else (let (res2, raw2) = ReadFull (n - 2) raw1 in (res2, c\<lparr>cn_raw := raw2\<rparr>)))"

text \<open>The order of the random reads is that of the code; no byte is written before all succeed.\<close>

definition Handshake :: "socket \<Rightarrow> rng \<Rightarrow> (terr + (conn \<times> rng)) \<times> socket" where
  "Handshake raw rng =
     (case rbind (randInt63 rng) (\<lambda>(socketUID, rng1).
           rbind (randInt63 rng1) (\<lambda>(connectionKey, rng2).
           rbind (randInt63 rng2) (\<lambda>(clientSendIV, rng3).
           rbind (randInt63 rng3) (\<lambda>(serverSendIV, rng4).
           rbind (rand_Read 16 rng4) (\<lambda>(rawKey, rng5).
             let encKeyLow = le_word (take 8 rawKey) :: i64;
                 encKeyHigh = le_word (take 8 (drop 8 rawKey)) :: i64 in
           rbind (deriveKey rawKey) (\<lambda>derived.
             let c = \<lparr>cn_raw = raw,
                      cn_c2s = NewRabbit derived (Some (int64LE clientSendIV)),
                      cn_s2c = NewRabbit derived (Some (int64LE serverSendIV)),
                      SocketUID = socketUID, ConnectionKey = connectionKey\<rparr> in
           rbind (case Encode rom ''S2C_CheckConnection''
                    [''m_socketUID'' \<mapsto> VInt64 socketUID, ''m_connectionKey'' \<mapsto> VInt64 connectionKey,
                     ''m_clientSendIV'' \<mapsto> VInt64 clientSendIV, ''m_serverSendIV'' \<mapsto> VInt64 serverSendIV,
                     ''m_encryptionKeyLow'' \<mapsto> VInt64 encKeyLow, ''m_encryptionKeyHigh'' \<mapsto> VInt64 encKeyHigh]
                  of Inl e \<Rightarrow> Inl (Protocol e) | Inr body \<Rightarrow> Inr body) (\<lambda>body.
             Inr (c, body, rng5)))))))) of
        Inl e \<Rightarrow> (Inl e, raw)
      | Inr (c, body, rng') \<Rightarrow>
          (case writeFrame c body of
             (Inl e, c') \<Rightarrow> (Inl e, cn_raw c')
           | (Inr _, c') \<Rightarrow> (Inr (c', rng'), cn_raw c')))"

definition Send :: "conn \<Rightarrow> string \<Rightarrow> vals \<Rightarrow> (terr + unit) \<times> conn" where
  "Send c name values =
     (case Encode rom name values of
        Inl e \<Rightarrow> (Inl (Protocol e), c)
      | Inr plain \<Rightarrow>
          let (body, s2c') = crypt (cn_s2c c) plain in writeFrame (c\<lparr>cn_s2c := s2c'\<rparr>) body)"

text \<open>
  The results of \<open>Recv\<close> with a non-nil error carry nothing the callers read, so they are the
  error alone.
\<close>

definition Recv :: "conn \<Rightarrow> (terr + (message option \<times> vals \<times> byte list)) \<times> conn" where
  "Recv c =
     (case readFrame c of
        (Inl e, c1) \<Rightarrow> (Inl e, c1)
      | (Inr body, c1) \<Rightarrow>
          let (plain, c2s') = crypt (cn_c2s c1) body; d = Decode rom plain; c2 = c1\<lparr>cn_c2s := c2s'\<rparr> in
          (case dc_err d of
             Some e \<Rightarrow> (Inl (Protocol e), c2)
           | None \<Rightarrow> (Inr (dc_msg d, dc_values d, dc_tail d), c2)))"

definition Close :: "conn \<Rightarrow> conn" where
  "Close c = c\<lparr>cn_raw := (cn_raw c)\<lparr>sk_closed := True\<rparr>\<rparr>"

section \<open>Frames\<close>

definition frame :: "byte list \<Rightarrow> byte list" where
  "frame body = le_bytes 2 (of_nat (length body + 2) :: u16) @ body"

text \<open>What the length field of a frame says, and when it is the length of the frame.\<close>

lemma frame_header: "unat (of_nat n :: u16) = n mod 65536"
  by (simp add: unat_of_nat take_bit_eq_mod)

lemma writeFrame_ok:
  "writeFrame c body = (Inr (), c') \<Longrightarrow>
     sk_tx (cn_raw c') = sk_tx (cn_raw c) @ frame body \<and> sk_rx (cn_raw c') = sk_rx (cn_raw c) \<and>
     cn_s2c c' = cn_s2c c \<and> cn_c2s c' = cn_c2s c \<and> SocketUID c' = SocketUID c \<and> ConnectionKey c' = ConnectionKey c \<and>
     sk_end (cn_raw c') = sk_end (cn_raw c)"
  by (auto simp: writeFrame_def Write_def frame_def Let_def split: option.splits if_splits)

lemma readFrame_header:
  assumes "sk_rx (cn_raw c) = le_bytes 2 (w :: u16) @ body" "2 \<le> unat w" "unat w - 2 \<le> length body"
  shows "readFrame c = (Inr (take (unat w - 2) body), c\<lparr>cn_raw := (cn_raw c)\<lparr>sk_rx := drop (unat w - 2) body\<rparr>\<rparr>)"
  using assms by (simp add: readFrame_def ReadFull_def Let_def)

lemma readFrame_frame:
  assumes "sk_rx (cn_raw c) = frame body @ rest" "length body \<le> 65533"
  shows "readFrame c = (Inr body, c\<lparr>cn_raw := (cn_raw c)\<lparr>sk_rx := rest\<rparr>\<rparr>)"
proof -
  have "unat (of_nat (length body + 2) :: u16) = length body + 2"
    using assms(2) unfolding frame_header by simp
  then show ?thesis
    using readFrame_header [of c "of_nat (length body + 2)" "body @ rest"] assms(1)
    by (simp add: frame_def)
qed

section \<open>Encryption\<close>

lemma length_crypt [simp]: "length (fst (crypt r body)) = length body"
  by (simp add: crypt_def Let_def split_beta)

lemma snd_crypt: "snd (crypt r body) = snd (Keystream r (((length body + 15) div 16) * 16))"
  by (simp add: crypt_def Let_def split_beta)

lemma crypt_crypt: "crypt r (fst (crypt r body)) = (body, snd (crypt r body))"
proof -
  have "(a XOR b) XOR b = a" for a b :: byte by (simp add: xor.assoc)
  then show ?thesis
    by (simp add: crypt_def Let_def split_beta) (rule nth_equalityI; simp)
qed

section \<open>Sending and receiving\<close>

lemma Send_ok:
  assumes "Send c name vs = (Inr (), c')"
  obtains plain where "Encode rom name vs = Inr plain"
    "sk_tx (cn_raw c') = sk_tx (cn_raw c) @ frame (fst (crypt (cn_s2c c) plain))"
    "cn_s2c c' = snd (crypt (cn_s2c c) plain)" "cn_c2s c' = cn_c2s c" "sk_rx (cn_raw c') = sk_rx (cn_raw c)"
proof -
  from assms obtain plain where e: "Encode rom name vs = Inr plain"
    by (auto simp: Send_def split: sum.splits)
  with assms have "writeFrame (c\<lparr>cn_s2c := snd (crypt (cn_s2c c) plain)\<rparr>) (fst (crypt (cn_s2c c) plain)) = (Inr (), c')"
    by (simp add: Send_def split_beta)
  from writeFrame_ok [OF this] e show thesis by (intro that) simp_all
qed

text \<open>The body a frame carries: what the receiver's cipher makes of the sender's bytes.\<close>

lemma Recv_frame:
  assumes "cn_c2s p = r" "sk_rx (cn_raw p) = frame (fst (crypt r plain)) @ rest" "length plain \<le> 65533"
  shows "Recv p =
    (case dc_err (Decode rom plain) of
       Some e \<Rightarrow> Inl (Protocol e)
     | None \<Rightarrow> Inr (dc_msg (Decode rom plain), dc_values (Decode rom plain), dc_tail (Decode rom plain)),
     p\<lparr>cn_raw := (cn_raw p)\<lparr>sk_rx := rest\<rparr>, cn_c2s := snd (crypt r plain)\<rparr>)"
  using readFrame_frame [OF assms(2)] assms(1,3)
  by (simp add: Recv_def Let_def crypt_crypt split: option.split)

primrec sends :: "conn \<Rightarrow> (string \<times> vals) list \<Rightarrow> (terr + unit) \<times> conn" where
  "sends c [] = (Inr (), c)"
| "sends c (m # ms) =
     (case Send c (fst m) (snd m) of (Inl e, c1) \<Rightarrow> (Inl e, c1) | (Inr _, c1) \<Rightarrow> sends c1 ms)"

primrec recvs :: "nat \<Rightarrow> conn \<Rightarrow> (terr + (message option \<times> vals \<times> byte list) list) \<times> conn" where
  "recvs 0 p = (Inr [], p)"
| "recvs (Suc n) p =
     (case Recv p of
        (Inl e, p1) \<Rightarrow> (Inl e, p1)
      | (Inr x, p1) \<Rightarrow> (case recvs n p1 of (Inl e, p2) \<Rightarrow> (Inl e, p2) | (Inr xs, p2) \<Rightarrow> (Inr (x # xs), p2)))"

lemma sends_tx: "sends c ms = (Inr (), c') \<Longrightarrow> \<exists>sent. sk_tx (cn_raw c') = sk_tx (cn_raw c) @ sent"
proof (induction ms arbitrary: c)
  case (Cons m ms)
  then obtain c1 where s: "Send c (fst m) (snd m) = (Inr (), c1)" "sends c1 ms = (Inr (), c')"
    by (auto split: prod.splits sum.splits unit.splits)
  from Send_ok [OF s(1)] obtain sent where "sk_tx (cn_raw c1) = sk_tx (cn_raw c) @ sent" by metis
  with Cons.IH [OF s(2)] show ?case by auto
qed simp

text \<open>Whatever fits a frame is received as \<open>Decode\<close> reads the encoded body, under the name it was sent by.\<close>

definition fits :: "string \<times> vals \<Rightarrow> bool" where
  "fits m \<longleftrightarrow> (case Encode rom (fst m) (snd m) of Inr body \<Rightarrow> length body \<le> 65533 | Inl _ \<Rightarrow> True)"

definition received :: "string \<times> vals \<Rightarrow> message option \<times> vals \<times> byte list" where
  "received m =
     (case Encode rom (fst m) (snd m) of
        Inr body \<Rightarrow> (dc_msg (Decode rom body), dc_values (Decode rom body), dc_tail (Decode rom body))
      | Inl _ \<Rightarrow> (None, Map.empty, []))"

lemma Decode_own_body:
  assumes "Encode rom name vs = Inr body"
  obtains msg where "byName rom name = Some msg" "dc_msg (Decode rom body) = Some msg" "dc_err (Decode rom body) = None"
proof -
  obtain msg where b: "byName rom name = Some msg" using assms by (auto simp: Encode_def split: option.splits)
  obtain out where "body = w_u32 (msgID msg) @ out"
    using assms b by (auto simp: Encode_def rbind_eq_Inr)
  then show thesis
    using Lookup_byName [OF coherent_rom b] that [OF b]
    by (simp add: Decode_def Let_def w_u32_def split_beta)
qed

text \<open>The message received, and its values where the wire can carry those that were sent.\<close>

lemma received_msg:
  assumes "Encode rom (fst m) (snd m) = Inr body"
  obtains msg vs left where "received m = (Some msg, vs, left)" "byName rom (fst m) = Some msg"
    "\<And>vs'. norm_message rom msg (snd m) = Some vs' \<Longrightarrow> vs = vs' \<and> left = []"
proof -
  obtain msg where b: "byName rom (fst m) = Some msg" "dc_msg (Decode rom body) = Some msg"
    using assms by (rule Decode_own_body)
  have "dc_values (Decode rom body) = vs' \<and> dc_tail (Decode rom body) = []" if "norm_message rom msg (snd m) = Some vs'" for vs'
    using Decode_Encode [OF coherent_rom full_names_known_rom assms b(1) that, of "[]"] by simp
  with b assms show thesis by (intro that) (simp_all add: received_def)
qed

lemma received_name: "Encode rom (fst m) (snd m) = Inr body \<Longrightarrow> map_option msgName (fst (received m)) = Some (fst m)"
  using byName_SomeD by (elim received_msg [of m body]) auto

lemma Send_Recv:
  assumes "Send c (fst m) (snd m) = (Inr (), c')" "fits m"
    and "cn_c2s p = cn_s2c c" "sk_tx (cn_raw c) @ sk_rx (cn_raw p) = sk_tx (cn_raw c') @ rest"
  shows "Recv p = (Inr (received m), p\<lparr>cn_raw := (cn_raw p)\<lparr>sk_rx := rest\<rparr>, cn_c2s := cn_s2c c'\<rparr>)"
proof -
  from assms(1) obtain plain where e: "Encode rom (fst m) (snd m) = Inr plain"
    and t: "sk_tx (cn_raw c') = sk_tx (cn_raw c) @ frame (fst (crypt (cn_s2c c) plain))"
    and r: "cn_s2c c' = snd (crypt (cn_s2c c) plain)"
    by (rule Send_ok)
  have "length plain \<le> 65533" using assms(2) e by (simp add: fits_def)
  moreover have "dc_err (Decode rom plain) = None" using e by (rule Decode_own_body)
  ultimately show ?thesis
    using Recv_frame [OF assms(3), of plain rest] assms(4) t r e by (simp add: received_def)
qed

lemma sends_recvs:
  assumes "sends c msgs = (Inr (), c')" "list_all fits msgs"
    and "cn_c2s p = cn_s2c c" "sk_tx (cn_raw c) @ sk_rx (cn_raw p) = sk_tx (cn_raw c') @ rest"
  shows "recvs (length msgs) p = (Inr (map received msgs), p\<lparr>cn_raw := (cn_raw p)\<lparr>sk_rx := rest\<rparr>, cn_c2s := cn_s2c c'\<rparr>)"
  using assms
proof (induction msgs arbitrary: c p)
  case Nil
  then show ?case by simp
next
  case (Cons m ms)
  from Cons.prems(1) obtain c1 where s: "Send c (fst m) (snd m) = (Inr (), c1)" "sends c1 ms = (Inr (), c')"
    by (auto split: prod.splits sum.splits unit.splits)
  obtain sent' where t': "sk_tx (cn_raw c') = sk_tx (cn_raw c1) @ sent'"
    using sends_tx [OF s(2)] by blast
  have tx: "sk_tx (cn_raw c) @ sk_rx (cn_raw p) = sk_tx (cn_raw c1) @ sent' @ rest"
    using Cons.prems(4) t' by simp
  let ?p1 = "p\<lparr>cn_raw := (cn_raw p)\<lparr>sk_rx := sent' @ rest\<rparr>, cn_c2s := cn_s2c c1\<rparr>"
  have "Recv p = (Inr (received m), ?p1)"
    using Cons.prems(2) by (intro Send_Recv [OF s(1) _ Cons.prems(3) tx]) simp
  moreover have "recvs (length ms) ?p1 = (Inr (map received ms),
      ?p1\<lparr>cn_raw := (cn_raw ?p1)\<lparr>sk_rx := rest\<rparr>, cn_c2s := cn_s2c c'\<rparr>)"
    using Cons.prems(2) by (intro Cons.IH [OF s(2)]) (simp_all add: t')
  ultimately show ?case by simp
qed

lemma sends_encoded: "sends c msgs = (Inr (), c') \<Longrightarrow> m \<in> set msgs \<Longrightarrow> \<exists>body. Encode rom (fst m) (snd m) = Inr body"
proof (induction msgs arbitrary: c)
  case (Cons x xs)
  then obtain c1 where s: "Send c (fst x) (snd x) = (Inr (), c1)" "sends c1 xs = (Inr (), c')"
    by (auto split: prod.splits sum.splits unit.splits)
  from Send_ok [OF s(1)] have "\<exists>body. Encode rom (fst x) (snd x) = Inr body" by metis
  then show ?case using Cons.IH [OF s(2)] Cons.prems(2) by auto
qed simp

section \<open>The handshake\<close>

lemma rand_Read_ok: "rand_Read n rng = Inr (b, rng') \<longleftrightarrow> n \<le> length rng \<and> b = take n rng \<and> rng' = drop n rng"
  by (auto simp: rand_Read_def)

lemma randInt63_ok:
  "randInt63 rng = Inr (v, rng') \<longleftrightarrow> 8 \<le> length rng \<and> v = drop_bit 1 (le_word (take 8 rng)) \<and> rng' = drop 8 rng"
  by (auto simp: randInt63_def rbind_eq_Inr rand_Read_ok)

lemma randInt63_nonneg:
  assumes "randInt63 rng = Inr (v, rng')"
  shows "0 \<le> sint v"
proof -
  have "\<not> bit v 63" using assms by (auto simp: randInt63_ok bit_simps bit_le_word)
  then show ?thesis by (simp add: sint_uint signed_take_bit_nonnegative_iff bit_uint_iff)
qed

definition hello :: "i64 \<Rightarrow> i64 \<Rightarrow> i64 \<Rightarrow> i64 \<Rightarrow> i64 \<Rightarrow> i64 \<Rightarrow> vals" where
  "hello uid key civ siv low high =
     [''m_socketUID'' \<mapsto> VInt64 uid, ''m_connectionKey'' \<mapsto> VInt64 key,
      ''m_clientSendIV'' \<mapsto> VInt64 civ, ''m_serverSendIV'' \<mapsto> VInt64 siv,
      ''m_encryptionKeyLow'' \<mapsto> VInt64 low, ''m_encryptionKeyHigh'' \<mapsto> VInt64 high]"

lemma hello_body:
  "Encode rom ''S2C_CheckConnection'' (hello uid key civ siv low high) =
     Inr (w_u32 0x32E4591F @ w_u64 uid @ w_u64 key @ w_u64 civ @ w_u64 siv @ w_u64 low @ w_u64 high)"
  by (simp add: encode_eval hello_def)

lemma hello_norm:
  "norm_message rom \<lparr>msgName = ''S2C_CheckConnection'', msgDir = ''S2C'', msgID = 0x32E4591F, msgFields =
     [Field ''m_socketUID'' ty_Int64, Field ''m_connectionKey'' ty_Int64,
      Field ''m_clientSendIV'' ty_Int64, Field ''m_serverSendIV'' ty_Int64,
      Field ''m_encryptionKeyLow'' ty_Int64, Field ''m_encryptionKeyHigh'' ty_Int64]\<rparr>
     (hello uid key civ siv low high) = Some (hello uid key civ siv low high)"
  by (simp add: norm_message_def codec_fuel_def rom_eval hello_def norm_with_def)

lemma deriveKey_ok: "deriveKey rawKey = Inr (aes_decrypt StaticKey rawKey)"
  by (simp add: deriveKey_def StaticKey_def)

text \<open>The client's side, from the values of the handshake message.\<close>

definition client_ciphers :: "vals \<Rightarrow> (rabbit \<times> rabbit) option" where
  "client_ciphers vs =
     (case (vs ''m_clientSendIV'', vs ''m_serverSendIV'', vs ''m_encryptionKeyLow'', vs ''m_encryptionKeyHigh'') of
        (Some (VInt64 civ), Some (VInt64 siv), Some (VInt64 low), Some (VInt64 high)) \<Rightarrow>
          (case deriveKey (le_bytes 8 low @ le_bytes 8 high) of
             Inr key \<Rightarrow> Some (NewRabbit key (Some (int64LE civ)), NewRabbit key (Some (int64LE siv)))
           | Inl _ \<Rightarrow> None)
      | _ \<Rightarrow> None)"

text \<open>What a successful handshake read from the random source and sent.\<close>

lemma Handshake_ok:
  assumes "Handshake raw rng = (Inr (c, rng'), raw')"
  obtains uid key civ siv rawKey where
    "48 \<le> length rng" "rng' = drop 48 rng" "length rawKey = 16"
    "randInt63 rng = Inr (uid, drop 8 rng)" "randInt63 (drop 8 rng) = Inr (key, drop 16 rng)"
    "sk_tx raw' = sk_tx raw @ frame (w_u32 0x32E4591F @ w_u64 uid @ w_u64 key @ w_u64 civ @ w_u64 siv @
       w_u64 (le_word (take 8 rawKey)) @ w_u64 (le_word (take 8 (drop 8 rawKey))))"
    "sk_rx raw' = sk_rx raw" "cn_raw c = raw'"
    "cn_c2s c = NewRabbit (aes_decrypt StaticKey rawKey) (Some (int64LE civ))"
    "cn_s2c c = NewRabbit (aes_decrypt StaticKey rawKey) (Some (int64LE siv))"
    "SocketUID c = uid" "ConnectionKey c = key"
proof -
  obtain uid rng1 where u: "randInt63 rng = Inr (uid, rng1)"
    using assms by (cases "randInt63 rng") (auto simp: Handshake_def)
  obtain key rng2 where k: "randInt63 rng1 = Inr (key, rng2)"
    using assms u by (cases "randInt63 rng1") (auto simp: Handshake_def)
  obtain civ rng3 where ci: "randInt63 rng2 = Inr (civ, rng3)"
    using assms u k by (cases "randInt63 rng2") (auto simp: Handshake_def)
  obtain siv rng4 where si: "randInt63 rng3 = Inr (siv, rng4)"
    using assms u k ci by (cases "randInt63 rng3") (auto simp: Handshake_def)
  obtain rawKey rng5 where r: "rand_Read 16 rng4 = Inr (rawKey, rng5)"
    using assms u k ci si by (cases "rand_Read 16 rng4") (auto simp: Handshake_def)
  let ?d = "aes_decrypt StaticKey rawKey"
  let ?c = "\<lparr>cn_raw = raw, cn_c2s = NewRabbit ?d (Some (int64LE civ)), cn_s2c = NewRabbit ?d (Some (int64LE siv)),
    SocketUID = uid, ConnectionKey = key\<rparr>"
  let ?body = "w_u32 0x32E4591F @ w_u64 uid @ w_u64 key @ w_u64 civ @ w_u64 siv @
       w_u64 (le_word (take 8 rawKey)) @ w_u64 (le_word (take 8 (drop 8 rawKey)))"
  have w: "writeFrame ?c ?body = (Inr (), c)" "raw' = cn_raw c" "rng' = rng5"
    using assms u k ci si r hello_body [unfolded hello_def]
    by (auto simp: Handshake_def deriveKey_ok split: sum.splits prod.splits unit.splits)
  have "writeFrame x b = (res, y) \<Longrightarrow> y = x\<lparr>cn_raw := cn_raw y\<rparr>" for x b res y
    by (auto simp: writeFrame_def Let_def split: prod.splits)
  from this [OF w(1)] show thesis
    using w writeFrame_ok [OF w(1)] u k ci si r
    by (intro that [of rawKey uid key civ siv]) (auto simp: randInt63_ok rand_Read_ok)
qed

text \<open>A handshake needs 48 random bytes and writes one frame of 54.\<close>

lemma randInt63_simps:
  "8 \<le> length rng \<Longrightarrow> randInt63 rng = Inr (drop_bit 1 (le_word (take 8 rng)), drop 8 rng)"
  "length rng < 8 \<Longrightarrow> randInt63 rng = Inl RandomFailed"
  by (simp_all add: randInt63_def rand_Read_def)

lemma rand_Read_simps:
  "n \<le> length rng \<Longrightarrow> rand_Read n rng = Inr (take n rng, drop n rng)"
  "length rng < n \<Longrightarrow> rand_Read n rng = Inl RandomFailed"
  by (simp_all add: rand_Read_def)

lemma Handshake_short: "length rng < 48 \<Longrightarrow> Handshake raw rng = (Inl RandomFailed, raw)"
  by (cases "length rng < 8"; cases "length rng < 16"; cases "length rng < 24"; cases "length rng < 32")
    (simp_all add: Handshake_def randInt63_simps rand_Read_simps)

lemma fst_writeFrame:
  "fst (writeFrame c body) =
     (case sk_room (cn_raw c) of
        None \<Rightarrow> Inr ()
      | Some n \<Rightarrow> if length body + 2 \<le> n then Inr () else Inl WriteFailed)"
  by (simp add: writeFrame_def Write_def Let_def split: option.split)

lemma Handshake_long:
  assumes "48 \<le> length rng"
  shows "fst (Handshake raw rng) = Inl WriteFailed \<longleftrightarrow> (\<exists>n. sk_room raw = Some n \<and> n < 54)"
    and "is_ok (fst (Handshake raw rng)) \<longleftrightarrow> \<not> (\<exists>n. sk_room raw = Some n \<and> n < 54)"
proof -
  have "\<exists>c body. Handshake raw rng =
      (case writeFrame c body of (Inl e, c') \<Rightarrow> (Inl e, cn_raw c')
       | (Inr _, c') \<Rightarrow> (Inr (c', drop 48 rng), cn_raw c')) \<and> cn_raw c = raw \<and> length body = 52"
    using assms unfolding Handshake_def
    by (simp add: randInt63_simps rand_Read_simps deriveKey_ok hello_body [unfolded hello_def])
      ((rule exI)+, rule conjI, rule refl, simp add: w_u32_def w_u64_def)
  then obtain c body where h: "Handshake raw rng =
      (case writeFrame c body of (Inl e, c') \<Rightarrow> (Inl e, cn_raw c')
       | (Inr _, c') \<Rightarrow> (Inr (c', drop 48 rng), cn_raw c'))" "cn_raw c = raw" "length body = 52" by blast
  obtain res c' where w: "writeFrame c body = (res, c')" by fastforce
  then have "res = (case sk_room raw of None \<Rightarrow> Inr () | Some n \<Rightarrow> if 54 \<le> n then Inr () else Inl WriteFailed)"
    using fst_writeFrame [of c body] h(2,3) by (simp split: option.split)
  then show "fst (Handshake raw rng) = Inl WriteFailed \<longleftrightarrow> (\<exists>n. sk_room raw = Some n \<and> n < 54)"
    "is_ok (fst (Handshake raw rng)) \<longleftrightarrow> \<not> (\<exists>n. sk_room raw = Some n \<and> n < 54)"
    unfolding h(1) w by (auto split: option.splits)
qed

section \<open>Properties\<close>

text \<open>C2. The two ends stay in step. Say one end sends messages, one after the other, each with a body of
  at most 65533 bytes, what a frame can announce (\<open>fits\<close>; for longer ones see the property on long
  frames). Then as many receives at the other end all succeed, in the order of sending; its cipher
  ends in the state of the sender's and it has consumed exactly the bytes sent, whatever the
  messages are. Each is received as the message of the catalog it was sent as; and where the wire
  can carry its values (\<open>norm_message\<close> gives what a peer sees of them: it is undefined for a
  character array with a NUL inside and for counts from 2^32 on), those are the values received and
  nothing is left over. This holds from any point of a conversation at which the receiver's
  inbound cipher is the sender's outbound one and the bytes on their way to it are what the sender
  has sent.\<close>
theorem session_in_sync:
  assumes "sends c msgs = (Inr (), c')" "list_all fits msgs"
    and "cn_c2s p = cn_s2c c" "sk_tx (cn_raw c) @ sk_rx (cn_raw p) = sk_tx (cn_raw c') @ rest"
  shows "recvs (length msgs) p = (Inr (map received msgs), p\<lparr>cn_raw := (cn_raw p)\<lparr>sk_rx := rest\<rparr>, cn_c2s := cn_s2c c'\<rparr>) \<and>
    (\<forall>m\<in>set msgs. \<exists>msg vs left. received m = (Some msg, vs, left) \<and> byName rom (fst m) = Some msg \<and>
      (\<forall>vs'. norm_message rom msg (snd m) = Some vs' \<longrightarrow> vs = vs' \<and> left = []))"
proof -
  have "\<exists>msg vs left. received m = (Some msg, vs, left) \<and> byName rom (fst m) = Some msg \<and>
      (\<forall>vs'. norm_message rom msg (snd m) = Some vs' \<longrightarrow> vs = vs' \<and> left = [])" if m: "m \<in> set msgs" for m
  proof -
    obtain body where "Encode rom (fst m) (snd m) = Inr body" using sends_encoded [OF assms(1) m] by blast
    then show ?thesis by (rule received_msg) blast
  qed
  then show ?thesis using sends_recvs [OF assms(1-4)] by blast
qed

definition sample_conn :: conn where
  "sample_conn =
     \<lparr>cn_raw = \<lparr>sk_rx = [], sk_end = PeerClosed, sk_tx = [], sk_room = None, sk_closed = False\<rparr>,
      cn_c2s = NewRabbit (replicate 16 1) None, cn_s2c = NewRabbit (replicate 16 2) None,
      SocketUID = 5, ConnectionKey = 6\<rparr>"

definition sample_msgs :: "(string \<times> vals) list" where
  "sample_msgs = [(''C2S_EnterWorld'', enter_request), (''C2S_EnterWorld'', enter_request)]"

lemma session_in_sync_witness:
  "\<exists>msg q. recvs (length sample_msgs) (sample_conn\<lparr>cn_c2s := cn_s2c sample_conn,
     cn_raw := (cn_raw sample_conn)\<lparr>sk_rx := sk_tx (cn_raw (snd (sends sample_conn sample_msgs)))\<rparr>\<rparr>) =
     (Inr [(Some msg, enter_request, []), (Some msg, enter_request, [])], q) \<and> msgName msg = ''C2S_EnterWorld''"
proof -
  let ?m = "\<lparr>msgName = ''C2S_EnterWorld'', msgDir = ''C2S'', msgID = 0x0A8477ED,
     msgFields = [Field ''m_playerSlotIndex'' ty_Byte]\<rparr>"
  let ?c' = "snd (sends sample_conn sample_msgs)"
  have "fst (sends sample_conn sample_msgs) = Inr ()"
    by (simp add: sample_msgs_def Send_def enter_request_body writeFrame_def Write_def sample_conn_def Let_def split_beta)
  then have s: "sends sample_conn sample_msgs = (Inr (), ?c')" by (simp add: prod_eq_iff)
  have f: "list_all fits sample_msgs"
    by (simp add: sample_msgs_def fits_def enter_request_body w_u8_def w_u32_def)
  let ?p = "sample_conn\<lparr>cn_c2s := cn_s2c sample_conn, cn_raw := (cn_raw sample_conn)\<lparr>sk_rx := sk_tx (cn_raw ?c')\<rparr>\<rparr>"
  have "cn_c2s ?p = cn_s2c sample_conn"
    "sk_tx (cn_raw sample_conn) @ sk_rx (cn_raw ?p) = sk_tx (cn_raw ?c') @ []" by (simp_all add: sample_conn_def)
  note sync = session_in_sync [OF s f this]
  then have "\<exists>msg vs left. received (''C2S_EnterWorld'', enter_request) = (Some msg, vs, left) \<and> byName rom ''C2S_EnterWorld'' = Some msg \<and>
      (\<forall>vs'. norm_message rom msg enter_request = Some vs' \<longrightarrow> vs = vs' \<and> left = [])"
    by (simp add: sample_msgs_def)
  then have "received (''C2S_EnterWorld'', enter_request) = (Some ?m, enter_request, [])"
    using handler_messages(7) enter_request_norm by auto
  then have "map received sample_msgs = [(Some ?m, enter_request, []), (Some ?m, enter_request, [])]"
    by (simp add: sample_msgs_def)
  with sync show ?thesis by (intro exI [of _ ?m]) simp
qed

text \<open>C17. The client can derive the session from the one plaintext frame: a successful handshake sends a
  single frame, which decodes to \<open>S2C_CheckConnection\<close> in full; the identifiers in it are those
  the server keeps for the version check and are not negative, and the ciphers the client makes
  from its key halves and IVs are the server's, in both directions.\<close>
theorem handshake_agreement:
  assumes "Handshake raw rng = (Inr (c, rng'), raw')"
  shows "\<exists>body vs. sk_tx raw' = sk_tx raw @ frame body \<and> cn_raw c = raw' \<and> rng' = drop 48 rng \<and>
    dc_err (Decode rom body) = None \<and> dc_tail (Decode rom body) = [] \<and> dc_values (Decode rom body) = vs \<and>
    map_option msgName (dc_msg (Decode rom body)) = Some ''S2C_CheckConnection'' \<and>
    client_ciphers vs = Some (cn_c2s c, cn_s2c c) \<and>
    vs ''m_socketUID'' = Some (VInt64 (SocketUID c)) \<and> vs ''m_connectionKey'' = Some (VInt64 (ConnectionKey c)) \<and>
    0 \<le> sint (SocketUID c) \<and> 0 \<le> sint (ConnectionKey c)"
proof -
  from assms obtain uid key civ siv rawKey where h: "48 \<le> length rng" "rng' = drop 48 rng" "length rawKey = 16"
    "randInt63 rng = Inr (uid, drop 8 rng)" "randInt63 (drop 8 rng) = Inr (key, drop 16 rng)"
    "sk_tx raw' = sk_tx raw @ frame (w_u32 0x32E4591F @ w_u64 uid @ w_u64 key @ w_u64 civ @ w_u64 siv @
       w_u64 (le_word (take 8 rawKey)) @ w_u64 (le_word (take 8 (drop 8 rawKey))))"
    "sk_rx raw' = sk_rx raw" "cn_raw c = raw'"
    "cn_c2s c = NewRabbit (aes_decrypt StaticKey rawKey) (Some (int64LE civ))"
    "cn_s2c c = NewRabbit (aes_decrypt StaticKey rawKey) (Some (int64LE siv))"
    "SocketUID c = uid" "ConnectionKey c = key"
    by (rule Handshake_ok)
  let ?low = "le_word (take 8 rawKey) :: i64" and ?high = "le_word (take 8 (drop 8 rawKey)) :: i64"
  let ?vs = "hello uid key civ siv ?low ?high"
  let ?body = "w_u32 0x32E4591F @ w_u64 uid @ w_u64 key @ w_u64 civ @ w_u64 siv @ w_u64 ?low @ w_u64 ?high"
  have d: "Decode rom (?body @ []) = \<lparr>dc_msg = Some \<lparr>msgName = ''S2C_CheckConnection'', msgDir = ''S2C'', msgID = 0x32E4591F, msgFields =
     [Field ''m_socketUID'' ty_Int64, Field ''m_connectionKey'' ty_Int64,
      Field ''m_clientSendIV'' ty_Int64, Field ''m_serverSendIV'' ty_Int64,
      Field ''m_encryptionKeyLow'' ty_Int64, Field ''m_encryptionKeyHigh'' ty_Int64]\<rparr>, dc_values = ?vs, dc_tail = [], dc_err = None\<rparr>"
    by (rule Decode_Encode [OF coherent_rom full_names_known_rom hello_body handler_messages(13) hello_norm])
  have "le_bytes 8 ?low = take 8 rawKey" "le_bytes 8 ?high = take 8 (drop 8 rawKey)"
    using h(3) by (simp_all add: le_bytes_le_word)
  moreover have "take 8 (drop 8 rawKey) = drop 8 rawKey" using h(3) by simp
  ultimately have k: "le_bytes 8 ?low @ le_bytes 8 ?high = rawKey" by simp
  have "client_ciphers ?vs = Some (cn_c2s c, cn_s2c c)"
    using k h by (simp add: client_ciphers_def hello_def deriveKey_ok)
  then show ?thesis
    using h d randInt63_nonneg [OF h(4)] randInt63_nonneg [OF h(5)]
    by (intro exI [of _ ?body] exI [of _ ?vs]) (simp add: hello_def)
qed

lemma handshake_agreement_witness:
  "\<exists>c. fst (Handshake (cn_raw sample_conn) (replicate 48 7)) = Inr (c, []) \<and>
    0 \<le> sint (SocketUID c)"
proof -
  obtain c rng' where c: "fst (Handshake (cn_raw sample_conn) (replicate 48 7)) = Inr (c, rng')"
    using Handshake_long(2) [of "replicate 48 7" "cn_raw sample_conn"]
    by (auto simp: is_ok_iff sample_conn_def)
  then have "Handshake (cn_raw sample_conn) (replicate 48 7) =
      (Inr (c, rng'), snd (Handshake (cn_raw sample_conn) (replicate 48 7)))" by (simp add: prod_eq_iff)
  from handshake_agreement [OF this] c show ?thesis by auto
qed

text \<open>C30. When the handshake fails: it fails exactly when the random source has fewer than 48 bytes or
  the peer does not take the 54 bytes of the frame; in the first case nothing at all is written.\<close>
theorem handshake_failures:
  "is_ok (fst (Handshake raw rng)) = (48 \<le> length rng \<and> \<not> (\<exists>n. sk_room raw = Some n \<and> n < 54)) \<and>
   (fst (Handshake raw rng) = Inl RandomFailed) = (length rng < 48) \<and>
   (Handshake raw rng = (Inl RandomFailed, raw)) = (length rng < 48)"
proof (cases "length rng < 48")
  case True
  then show ?thesis by (simp add: Handshake_short)
next
  case False
  then have "48 \<le> length rng" by simp
  from Handshake_long [OF this, of raw] False show ?thesis
    by (cases "\<exists>n. sk_room raw = Some n \<and> n < 54") (auto simp: is_ok_iff)
qed

text \<open>C29. A frame is a \<open>uint16\<close> long: a body of more than 65533 bytes is written whole but announced
  with the length reduced modulo 65536, so the receiver never gets it. It takes a shorter prefix
  for the frame, or refuses the length, and what is left of the body is read as the next frames.\<close>
theorem long_frame_lost:
  assumes "fst (writeFrame c body) = Inr ()" "65533 < length body"
    and "sk_tx (cn_raw c) @ sk_rx (cn_raw p) = sk_tx (cn_raw (snd (writeFrame c body))) @ rest"
  shows "(case fst (readFrame p) of
      Inl e \<Rightarrow> e = BogusLength ((length body + 2) mod 65536) \<and> (length body + 2) mod 65536 < 2
    | Inr got \<Rightarrow> length got + 2 = (length body + 2) mod 65536 \<and> (\<exists>lost. lost \<noteq> [] \<and> body = got @ lost \<and>
        sk_rx (cn_raw (snd (readFrame p))) = lost @ rest))"
proof -
  have "sk_tx (cn_raw (snd (writeFrame c body))) = sk_tx (cn_raw c) @ frame body"
    using writeFrame_ok [of c body "snd (writeFrame c body)"] assms(1) by (simp add: prod_eq_iff)
  then have rx: "sk_rx (cn_raw p) = le_bytes 2 (of_nat (length body + 2) :: u16) @ body @ rest"
    using assms(3) by (simp add: frame_def)
  let ?n = "(length body + 2) mod 65536"
  have n: "unat (of_nat (length body + 2) :: u16) = ?n" by (rule frame_header)
  have lt: "?n < length body"
  proof (cases "65536 \<le> length body")
    case True
    then show ?thesis by (intro less_le_trans [OF mod_less_divisor]) simp_all
  next
    case False
    then have "length body = 65534 \<or> length body = 65535" using assms(2) by linarith
    then show ?thesis by auto
  qed
  show ?thesis
  proof (cases "?n < 2")
    case True
    then have "fst (readFrame p) = Inl (BogusLength ?n)"
      using rx n by (simp add: readFrame_def ReadFull_def Let_def)
    then show ?thesis using True by simp
  next
    case False
    have "readFrame p = (Inr (take (?n - 2) (body @ rest)),
        p\<lparr>cn_raw := (cn_raw p)\<lparr>sk_rx := drop (?n - 2) (body @ rest)\<rparr>\<rparr>)"
      using readFrame_header [OF rx] False lt unfolding n by simp
    then show ?thesis using False lt
      by (auto intro!: exI [of _ "drop (?n - 2) body"])
  qed
qed

lemma long_frame_lost_witness:
  "fst (readFrame (sample_conn\<lparr>cn_raw := (cn_raw sample_conn)
     \<lparr>sk_rx := sk_tx (cn_raw (snd (writeFrame sample_conn (replicate 65534 0))))\<rparr>\<rparr>)) = Inl (BogusLength 0)"
proof -
  have ok: "fst (writeFrame sample_conn (replicate 65534 0)) = Inr ()"
    by (simp add: writeFrame_def Write_def sample_conn_def Let_def)
  have "65533 < length (replicate 65534 (0 :: byte))" by simp
  from long_frame_lost [OF ok this, of "sample_conn\<lparr>cn_raw := (cn_raw sample_conn)
     \<lparr>sk_rx := sk_tx (cn_raw (snd (writeFrame sample_conn (replicate 65534 0))))\<rparr>\<rparr>" "[]"]
  show ?thesis by (simp add: sample_conn_def split: sum.splits)
qed

text \<open>What receiving takes off the stream, by what the stream holds.\<close>

lemma Recv_cases:
  fixes c :: conn
  defines "rx \<equiv> sk_rx (cn_raw c)" and "n \<equiv> unat (le_word (take 2 (sk_rx (cn_raw c))) :: u16)"
  obtains (short) "length rx < 2" "Recv c = (Inl (case sk_end (cn_raw c) of PeerReset \<Rightarrow> ErrReset
        | PeerClosed \<Rightarrow> if rx = [] then ErrEOF else ErrUnexpectedEOF), c\<lparr>cn_raw := (cn_raw c)\<lparr>sk_rx := []\<rparr>\<rparr>)"
  | (bogus) "2 \<le> length rx" "n < 2" "Recv c = (Inl (BogusLength n), c\<lparr>cn_raw := (cn_raw c)\<lparr>sk_rx := drop 2 rx\<rparr>\<rparr>)"
  | (cut) "2 \<le> length rx" "length rx < n" "Recv c = (Inl (case sk_end (cn_raw c) of PeerReset \<Rightarrow> ErrReset
        | PeerClosed \<Rightarrow> if drop 2 rx = [] then ErrEOF else ErrUnexpectedEOF), c\<lparr>cn_raw := (cn_raw c)\<lparr>sk_rx := []\<rparr>\<rparr>)"
  | (full) "2 \<le> n" "n \<le> length rx" "sk_rx (cn_raw (snd (Recv c))) = drop n rx"
      "fst (Recv c) \<noteq> Inl ErrEOF" "is_ok (fst (Recv c)) \<Longrightarrow> 6 \<le> n"
proof -
  consider "length rx < 2" | "2 \<le> length rx" "n < 2" | "2 \<le> length rx" "2 \<le> n" "length rx < n" | "2 \<le> n" "n \<le> length rx"
    by linarith
  then show thesis
  proof cases
    case 1
    then have "Recv c = (Inl (case sk_end (cn_raw c) of PeerReset \<Rightarrow> ErrReset
        | PeerClosed \<Rightarrow> if rx = [] then ErrEOF else ErrUnexpectedEOF), c\<lparr>cn_raw := (cn_raw c)\<lparr>sk_rx := []\<rparr>\<rparr>)"
      by (simp add: rx_def Recv_def readFrame_def ReadFull_def)
    with 1 show thesis by (rule short)
  next
    case 2
    then show thesis by (intro bogus) (simp_all add: rx_def n_def Recv_def readFrame_def ReadFull_def Let_def)
  next
    case 3
    then have "\<not> n - 2 \<le> length rx - 2" by linarith
    with 3 show thesis by (intro cut) (simp_all add: rx_def n_def Recv_def readFrame_def ReadFull_def Let_def)
  next
    case 4
    have "n - 2 \<le> length rx - 2" "Suc (Suc (n - 2)) = n" "2 \<le> length rx" using 4 by linarith+
    then have "readFrame c = (Inr (take (n - 2) (drop 2 rx)), c\<lparr>cn_raw := (cn_raw c)\<lparr>sk_rx := drop n rx\<rparr>\<rparr>)"
      using 4 by (simp add: rx_def n_def readFrame_def ReadFull_def Let_def)
    moreover have "4 \<le> length b" if "dc_err (Decode rom b) = None" for b
      using that by (auto simp: Decode_def split: if_splits)
    note four = this [of "fst (crypt (cn_c2s c) (take (n - 2) (drop 2 rx)))"]
    ultimately show thesis
      using 4 four by (intro full) (auto simp: Recv_def Let_def split_beta min_def split: option.splits if_splits)
  qed
qed

lemma Recv_stream:
  "\<exists>taken. sk_rx (cn_raw c) = taken @ sk_rx (cn_raw (snd (Recv c))) \<and> (if is_ok (fst (Recv c)) then 6 else 0) \<le> length taken"
proof (cases rule: Recv_cases [of c])
  case full
  then show ?thesis
    by (intro exI [of _ "take (unat (le_word (take 2 (sk_rx (cn_raw c))) :: u16)) (sk_rx (cn_raw c))"]) simp
qed (auto intro: exI [of _ "take 2 (sk_rx (cn_raw c))"])

lemma Recv_eof:
  "fst (Recv c) = Inl ErrEOF \<longleftrightarrow> sk_end (cn_raw c) = PeerClosed \<and>
      (sk_rx (cn_raw c) = [] \<or> length (sk_rx (cn_raw c)) = 2 \<and> 2 < unat (le_word (sk_rx (cn_raw c)) :: u16))"
proof (cases rule: Recv_cases [of c])
  case full
  then show ?thesis by (auto dest: leD)
qed (auto split: stream_end.splits)

lemma Recv_eof_rx: "Recv c = (Inl ErrEOF, c') \<Longrightarrow> sk_rx (cn_raw c') = []"
  by (cases rule: Recv_cases [of c]) auto

text \<open>C28. Reading makes progress and reports the end of the stream: a message received took at least
  six bytes off the stream and left the rest untouched, an error took a prefix, and the error is
  \<open>io.EOF\<close>, the clean end, exactly when the peer closed the connection before a frame or right
  after the length field of one with a body.\<close>
theorem recv_progress:
  "(\<exists>taken. sk_rx (cn_raw c) = taken @ sk_rx (cn_raw (snd (Recv c))) \<and> (if is_ok (fst (Recv c)) then 6 else 0) \<le> length taken) \<and>
   (fst (Recv c) = Inl ErrEOF) =
     (sk_end (cn_raw c) = PeerClosed \<and>
      (sk_rx (cn_raw c) = [] \<or> length (sk_rx (cn_raw c)) = 2 \<and> 2 < unat (le_word (sk_rx (cn_raw c)) :: u16)))"
  using Recv_stream Recv_eof by blast

end
