(* ===== verification/World.thy ===== *)
theory World
  imports GoFloat
begin

text \<open>
  The world of \<open>internal/world/world.go\<close>: the players' table, the commands that change it, and the
  goroutine \<open>Run\<close> that owns it and takes them from a channel of capacity 256. Sessions enqueue
  with \<open>do\<close>; the interleaving of sessions, \<open>Run\<close>, ticks and cancellation is a step relation.
\<close>

section \<open>Players and commands\<close>

text \<open>The \<open>Conn\<close> of a player is the identity of the connection it was given, not its state.\<close>

record player =
  OID :: i64
  CharacterID :: i64
  pAccountID :: i64
  pName :: string
  pMapID :: i32
  pX :: f32
  pY :: f32
  pZ :: f32
  pDir :: f32
  pConn :: nat

type_synonym players = "i64 \<Rightarrow> player option"

text \<open>The closures that \<open>Join\<close>, \<open>Leave\<close> and \<open>Move\<close> enqueue.\<close>

datatype cmd =
    Join player
  | Leave i64
  | Move i64 f32 f32 f32 f32

fun exec :: "cmd \<Rightarrow> players \<Rightarrow> players" where
  "exec (Join p) ps = ps(CharacterID p \<mapsto> p)"
| "exec (Leave k) ps = (case ps k of Some _ \<Rightarrow> ps(k := None) | None \<Rightarrow> ps)"
| "exec (Move k x y z d) ps =
     (case ps k of Some p \<Rightarrow> ps(k \<mapsto> p\<lparr>pX := x, pY := y, pZ := z, pDir := d\<rparr>) | None \<Rightarrow> ps)"

fun target :: "cmd \<Rightarrow> i64" where
  "target (Join p) = CharacterID p"
| "target (Leave k) = k"
| "target (Move k x y z d) = k"

section \<open>Command tables\<close>

text \<open>
  What the owner of a table relies on: a command keeps the table's invariant, changes only the
  entry it is for, and what it makes of that entry depends on that entry alone.
\<close>

locale command_table =
  fixes run :: "'c \<Rightarrow> ('k \<Rightarrow> 'v option) \<Rightarrow> ('k \<Rightarrow> 'v option)"
    and key :: "'c \<Rightarrow> 'k"
    and inv :: "('k \<Rightarrow> 'v option) \<Rightarrow> bool"
  assumes keeps: "inv s \<Longrightarrow> inv (run c s)"
    and elsewhere: "key c \<noteq> k \<Longrightarrow> run c s k = s k"
    and local: "s k = t k \<Longrightarrow> run c s k = run c t k"
begin

lemma keeps_fold: "inv s \<Longrightarrow> inv (fold run cs s)"
  by (induction cs arbitrary: s) (simp_all add: keeps)

lemma local_fold: "s k = t k \<Longrightarrow> fold run cs s k = fold run cs t k"
proof (induction cs arbitrary: s t)
  case (Cons c cs)
  show ?case unfolding fold.simps comp_apply by (intro Cons.IH local Cons.prems)
qed simp

text \<open>An entry is decided by the commands for it, in their order; the others may be anywhere.\<close>

lemma fold_own: "fold run cs s k = fold run (filter (\<lambda>c. key c = k) cs) s k"
proof (induction cs arbitrary: s)
  case (Cons c cs)
  show ?case
  proof (cases "key c = k")
    case False
    then have "fold run (filter (\<lambda>c. key c = k) cs) (run c s) k = fold run (filter (\<lambda>c. key c = k) cs) s k"
      by (intro local_fold elsewhere)
    with False show ?thesis by (simp add: Cons.IH)
  qed (simp add: Cons.IH)
qed simp

lemma fold_untouched: "(\<And>c. c \<in> set cs \<Longrightarrow> key c \<noteq> k) \<Longrightarrow> fold run cs s k = s k"
proof -
  assume "\<And>c. c \<in> set cs \<Longrightarrow> key c \<noteq> k"
  then have "filter (\<lambda>c. key c = k) cs = []" by (simp add: filter_empty_conv)
  then show ?thesis using fold_own [of cs s k] by simp
qed

end

definition keyed :: "players \<Rightarrow> bool" where
  "keyed ps \<longleftrightarrow> (\<forall>k p. ps k = Some p \<longrightarrow> CharacterID p = k)"

lemma keyedD: "keyed ps \<Longrightarrow> ps k = Some p \<Longrightarrow> CharacterID p = k"
  by (simp add: keyed_def)

interpretation players: command_table exec target keyed
proof unfold_locales
  show "keyed (exec c s)" if "keyed s" for c s
    using that by (cases c) (auto simp: keyed_def split: option.splits)
  show "exec c s k = s k" if "target c \<noteq> k" for c k s
    using that by (cases c) (auto split: option.splits)
  show "exec c s k = exec c t k" if "s k = t k" for c s t k
    using that by (cases c; cases "t k") (auto split: option.splits)
qed

section \<open>The world and its goroutine\<close>

record world =
  w_tick :: i64
  w_cmds :: "cmd list"
  w_players :: players
  w_running :: bool
  w_cancelled :: bool

definition chan_cap :: nat where
  "chan_cap = 256"

definition New :: "i64 \<Rightarrow> world" where
  "New tick = \<lparr>w_tick = tick, w_cmds = [], w_players = Map.empty, w_running = True, w_cancelled = False\<rparr>"

text \<open>The placeholder of the simulation step.\<close>

definition step :: "world \<Rightarrow> world" where
  "step w = w"

text \<open>
  What can happen next. \<open>Sent\<close> and \<open>Dropped\<close> are the two ways out of \<open>do\<close>, of which \<open>select\<close>
  takes any that is ready; a session waits in \<open>do\<close> while neither is. \<open>Ran\<close>, \<open>Ticked\<close> and
  \<open>Stopped\<close> are the three cases of \<open>Run\<close>, and \<open>Cancelled\<close> the cancellation of the context.
\<close>

datatype event = Sent cmd | Dropped cmd | Ran cmd | Ticked | Stopped | Cancelled

inductive world_step :: "world \<Rightarrow> event \<Rightarrow> world \<Rightarrow> bool" where
  do_send: "length (w_cmds w) < chan_cap \<Longrightarrow> world_step w (Sent c) (w\<lparr>w_cmds := w_cmds w @ [c]\<rparr>)"
| do_drop: "w_cancelled w \<Longrightarrow> world_step w (Dropped c) w"
| run_cmd: "w_running w \<Longrightarrow> w_cmds w = c # cs \<Longrightarrow>
    world_step w (Ran c) (w\<lparr>w_cmds := cs, w_players := exec c (w_players w)\<rparr>)"
| run_tick: "w_running w \<Longrightarrow> world_step w Ticked (step w)"
| run_stop: "w_running w \<Longrightarrow> w_cancelled w \<Longrightarrow> world_step w Stopped (w\<lparr>w_running := False\<rparr>)"
| cancel: "world_step w Cancelled (w\<lparr>w_cancelled := True\<rparr>)"

inductive_cases Sent_stepE: "world_step w (Sent c) w'"
inductive_cases Dropped_stepE: "world_step w (Dropped c) w'"
inductive_cases Ran_stepE: "world_step w (Ran c) w'"
inductive_cases Ticked_stepE: "world_step w Ticked w'"
inductive_cases Stopped_stepE: "world_step w Stopped w'"
inductive_cases Cancelled_stepE: "world_step w Cancelled w'"

lemmas world_stepE = Sent_stepE Dropped_stepE Ran_stepE Ticked_stepE Stopped_stepE Cancelled_stepE

inductive world_run :: "world \<Rightarrow> event list \<Rightarrow> world \<Rightarrow> bool" where
  run_nil: "world_run w [] w"
| run_snoc: "world_run w es w' \<Longrightarrow> world_step w' e w'' \<Longrightarrow> world_run w (es @ [e]) w''"

inductive_simps world_run_nil [simp]: "world_run w [] w'"

text \<open>The commands of a trace that entered the channel, and those that were executed.\<close>

primrec sent_of :: "event \<Rightarrow> cmd list" where
  "sent_of (Sent c) = [c]"
| "sent_of (Dropped c) = []"
| "sent_of (Ran c) = []"
| "sent_of Ticked = []"
| "sent_of Stopped = []"
| "sent_of Cancelled = []"

primrec ran_of :: "event \<Rightarrow> cmd list" where
  "ran_of (Sent c) = []"
| "ran_of (Dropped c) = []"
| "ran_of (Ran c) = [c]"
| "ran_of Ticked = []"
| "ran_of Stopped = []"
| "ran_of Cancelled = []"

definition all_sent :: "event list \<Rightarrow> cmd list" where
  "all_sent es = concat (map sent_of es)"

definition all_ran :: "event list \<Rightarrow> cmd list" where
  "all_ran es = concat (map ran_of es)"

lemma all_simps [simp]:
  "all_sent [] = []" "all_ran [] = []"
  "all_sent (es @ [e]) = all_sent es @ sent_of e" "all_ran (es @ [e]) = all_ran es @ ran_of e"
  by (simp_all add: all_sent_def all_ran_def)

text \<open>The invariant of a run: the queue is what was sent and not yet executed, in order.\<close>

lemma run_invariant:
  "world_run w es w' \<Longrightarrow> w_cmds w @ all_sent es = all_ran es @ w_cmds w' \<and>
     w_players w' = fold exec (all_ran es) (w_players w) \<and>
     (length (w_cmds w) \<le> chan_cap \<longrightarrow> length (w_cmds w') \<le> chan_cap) \<and>
     (w_cancelled w \<longrightarrow> w_cancelled w') \<and> (w_running w' \<longrightarrow> w_running w)"
proof (induction rule: world_run.induct)
  case (run_snoc w es w' e w'')
  from run_snoc.hyps(2) run_snoc.IH show ?case
    by (cases rule: world_step.cases) (auto simp: step_def simp flip: append_assoc)
qed simp

section \<open>Presence\<close>

text \<open>A character is in the world when its last \<open>Join\<close> is not followed by a \<open>Leave\<close>.\<close>

lemma presence_step:
  "exec c s k \<noteq> None \<longleftrightarrow> (\<exists>p. c = Join p \<and> CharacterID p = k) \<or> s k \<noteq> None \<and> c \<noteq> Leave k"
  by (cases c) (auto split: option.splits)

lemma presence_fold:
  "fold exec cs s k \<noteq> None \<longleftrightarrow>
     (\<exists>pre p post. cs = pre @ Join p # post \<and> CharacterID p = k \<and> Leave k \<notin> set post) \<or>
     s k \<noteq> None \<and> Leave k \<notin> set cs"
proof (induction cs rule: rev_induct)
  case (snoc c cs)
  show ?case (is "?l \<longleftrightarrow> ?r")
  proof
    assume ?l
    then consider p where "c = Join p" "CharacterID p = k" | "fold exec cs s k \<noteq> None" "c \<noteq> Leave k"
      using presence_step [of c "fold exec cs s" k] by auto
    then show ?r
    proof cases
      case 1
      then show ?thesis by fastforce
    next
      case 2
      from 2(1) [unfolded snoc.IH] show ?thesis
      proof (elim disjE exE conjE)
        fix pre p post assume "cs = pre @ Join p # post" "CharacterID p = k" "Leave k \<notin> set post"
        then have "cs @ [c] = pre @ Join p # (post @ [c]) \<and> CharacterID p = k \<and> Leave k \<notin> set (post @ [c])"
          using 2(2) by auto
        then show ?thesis by blast
      qed (use 2(2) in auto)
    qed
  next
    assume ?r
    then show ?l
    proof (elim disjE exE conjE)
      fix pre p post assume *: "cs @ [c] = pre @ Join p # post" "CharacterID p = k" "Leave k \<notin> set post"
      show ?l
      proof (cases post rule: rev_cases)
        case Nil
        then show ?thesis using * presence_step [of c "fold exec cs s" k] by auto
      next
        case (snoc post' c')
        then have "cs = pre @ Join p # post'" "c = c'" using *(1) by simp_all
        then show ?thesis
          using * snoc presence_step [of c "fold exec cs s" k] snoc.IH by auto
      qed
    qed (use presence_step [of c "fold exec cs s" k] snoc.IH in auto)
  qed
qed simp

section \<open>Progress\<close>

lemma run_append: "world_run w es w' \<Longrightarrow> world_run w' es' w'' \<Longrightarrow> world_run w (es @ es') w''"
proof (rotate_tac, induction rule: world_run.induct)
  case (run_snoc w' es' w1 e w2)
  then show ?case using world_run.run_snoc by (metis append_assoc)
qed simp

lemma drain:
  "w_running w \<Longrightarrow> world_run w (map Ran (w_cmds w))
     (w\<lparr>w_cmds := [], w_players := fold exec (w_cmds w) (w_players w)\<rparr>)"
proof (induction "w_cmds w" arbitrary: w)
  case Nil
  then show ?case by (simp add: run_nil)
next
  case (Cons c cs)
  let ?w = "w\<lparr>w_cmds := cs, w_players := exec c (w_players w)\<rparr>"
  have "world_step w (Ran c) ?w" using Cons.prems Cons.hyps(2) by (intro run_cmd) simp_all
  from run_snoc [OF run_nil this] have "world_run w [Ran c] ?w" by simp
  moreover have "world_run ?w (map Ran cs) (?w\<lparr>w_cmds := [], w_players := fold exec cs (w_players ?w)\<rparr>)"
    using Cons.hyps(1) [of ?w] Cons.prems by simp
  ultimately show ?case
    using run_append Cons.hyps(2) [symmetric] by fastforce
qed

lemma stopped_cancelled: "world_run w es w' \<Longrightarrow> (w_running w \<or> w_cancelled w) \<Longrightarrow> w_running w' \<or> w_cancelled w'"
proof (induction rule: world_run.induct)
  case (run_snoc w es w' e w'')
  from run_snoc.hyps(2) run_snoc.IH run_snoc.prems show ?case
    by (cases rule: world_step.cases) (auto simp: step_def)
qed simp

section \<open>Properties\<close>

text \<open>C9. The goroutine implements the sequential world: whatever the interleaving of sessions, ticks
  and cancellation, the players' table is what executing some first part of the accepted commands
  in the order they were accepted gives, the rest of them is the queue, and the queue never holds
  more than the channel's 256.\<close>
theorem world_refines_sequence:
  assumes "world_run (New t) es w"
  shows "w_players w = fold exec (all_ran es) Map.empty \<and> all_sent es = all_ran es @ w_cmds w \<and>
    length (w_cmds w) \<le> chan_cap"
  using run_invariant [OF assms] by (simp add: New_def)

definition sample_player :: player where
  "sample_player = \<lparr>OID = 1000000007, CharacterID = 7, pAccountID = 3, pName = ''Tanakku'', pMapID = 501,
     pX = 0, pY = 0, pZ = 0, pDir = 0, pConn = 1\<rparr>"

text \<open>A run used as the concrete input: two commands are sent, the first is executed.\<close>

lemma sample_run:
  "world_run (New 50) [Sent (Join sample_player), Sent (Leave 9), Ran (Join sample_player)]
     (New 50\<lparr>w_cmds := [Leave 9], w_players := [7 \<mapsto> sample_player]\<rparr>)"
proof -
  let ?w1 = "New 50\<lparr>w_cmds := [Join sample_player]\<rparr>"
  let ?w2 = "New 50\<lparr>w_cmds := [Join sample_player, Leave 9]\<rparr>"
  have "world_step (New 50) (Sent (Join sample_player)) ?w1"
    using do_send [of "New 50" "Join sample_player"] by (simp add: New_def chan_cap_def)
  from run_snoc [OF run_nil this] have "world_run (New 50) [Sent (Join sample_player)] ?w1" by simp
  moreover have "world_step ?w1 (Sent (Leave 9)) ?w2"
    using do_send [of ?w1 "Leave 9"] by (simp add: New_def chan_cap_def)
  ultimately have "world_run (New 50) [Sent (Join sample_player), Sent (Leave 9)] ?w2"
    using run_snoc by fastforce
  moreover have "world_step ?w2 (Ran (Join sample_player)) (New 50\<lparr>w_cmds := [Leave 9], w_players := [7 \<mapsto> sample_player]\<rparr>)"
    using run_cmd [of ?w2 "Join sample_player" "[Leave 9]"] by (simp add: New_def sample_player_def)
  ultimately show ?thesis using run_snoc by fastforce
qed

lemma world_refines_sequence_witness:
  "fold exec (all_ran [Sent (Join sample_player), Sent (Leave 9), Ran (Join sample_player)]) Map.empty =
     [7 \<mapsto> sample_player]"
  using world_refines_sequence [OF sample_run] by simp

text \<open>C21. Who is in the world: every entry of the table is filed under its player's own character, and
  a character has one exactly when its latest \<open>Join\<close> has been executed and no \<open>Leave\<close> of that
  character after it, whatever was executed for other characters; its entry is what the commands
  for it alone make of it.\<close>
theorem world_presence:
  assumes "world_run (New t) es w"
  shows "keyed (w_players w) \<and>
    (w_players w k \<noteq> None \<longleftrightarrow>
      (\<exists>pre p post. all_ran es = pre @ Join p # post \<and> CharacterID p = k \<and> Leave k \<notin> set post)) \<and>
    w_players w k = fold exec (filter (\<lambda>c. target c = k) (all_ran es)) Map.empty k"
proof -
  have p: "w_players w = fold exec (all_ran es) Map.empty" using run_invariant [OF assms] by (simp add: New_def)
  have "keyed Map.empty" by (simp add: keyed_def)
  from players.keeps_fold [OF this] players.fold_own presence_fold [of "all_ran es" Map.empty k]
  show ?thesis unfolding p by simp
qed

lemma world_presence_witness:
  "keyed (w_players (New 50\<lparr>w_cmds := [Leave 9], w_players := [7 \<mapsto> sample_player]\<rparr>))"
  using world_presence [OF sample_run] by blast

lemma stopped_run:
  "world_run w es w' \<Longrightarrow> \<not> w_running w \<Longrightarrow>
     w_players w' = w_players w \<and> all_ran es = [] \<and> w_cmds w' = w_cmds w @ all_sent es"
proof (induction rule: world_run.induct)
  case (run_snoc w es w' e w'')
  have "\<not> w_running w'" using run_invariant [OF run_snoc.hyps(1)] run_snoc.prems by blast
  with run_snoc.hyps(2) run_snoc.IH run_snoc.prems show ?case
    by (cases rule: world_step.cases) (auto simp: step_def)
qed simp

text \<open>C32. Nobody waits for ever: in any state the world can reach, a session in \<open>do\<close> can leave it at
  once or after one step of \<open>Run\<close>; and as long as \<open>Run\<close> runs it can execute all that is queued. After
  \<open>Run\<close> has returned no command is executed and the table of players does not change any more; the
  queue still can: commands go on being accepted while it has room, and stay in it.\<close>
theorem world_progress:
  assumes "world_run (New t) es w"
  shows "((\<exists>w'. world_step w (Sent c) w' \<or> world_step w (Dropped c) w') \<or>
      (\<exists>c' w' w''. world_step w (Ran c') w' \<and> world_step w' (Sent c) w'')) \<and>
    (w_running w \<longrightarrow> (\<exists>w'. world_run w (map Ran (w_cmds w)) w' \<and> w_cmds w' = [] \<and>
      w_players w' = fold exec (w_cmds w) (w_players w))) \<and>
    (\<not> w_running w \<longrightarrow> (\<forall>es' w'. world_run w es' w' \<longrightarrow>
      w_players w' = w_players w \<and> all_ran es' = [] \<and> w_cmds w' = w_cmds w @ all_sent es'))"
proof -
  have r: "w_running w \<or> w_cancelled w" using stopped_cancelled [OF assms] by (simp add: New_def)
  have l: "length (w_cmds w) \<le> chan_cap" using run_invariant [OF assms] by (simp add: New_def)
  have "(\<exists>w'. world_step w (Sent c) w' \<or> world_step w (Dropped c) w') \<or>
      (\<exists>c' w' w''. world_step w (Ran c') w' \<and> world_step w' (Sent c) w'')"
  proof (cases "w_cancelled w \<or> length (w_cmds w) < chan_cap")
    case True
    then show ?thesis using do_send do_drop by blast
  next
    case False
    then have "w_running w" "length (w_cmds w) = chan_cap" using r l by simp_all
    moreover from this(2) obtain c' cs where q: "w_cmds w = c' # cs" by (cases "w_cmds w") (simp_all add: chan_cap_def)
    ultimately show ?thesis
      using run_cmd [OF _ q] do_send [of "w\<lparr>w_cmds := cs, w_players := exec c' (w_players w)\<rparr>" c] by fastforce
  qed
  moreover have "\<exists>w'. world_run w (map Ran (w_cmds w)) w' \<and> w_cmds w' = [] \<and>
      w_players w' = fold exec (w_cmds w) (w_players w)" if "w_running w"
    using drain [OF that] by fastforce
  moreover have "w_players w' = w_players w \<and> all_ran es' = [] \<and> w_cmds w' = w_cmds w @ all_sent es'"
    if "\<not> w_running w" "world_run w es' w'" for es' w'
    using stopped_run [OF that(2,1)] by blast
  ultimately show ?thesis by blast
qed

lemma world_progress_witness:
  "\<exists>w'. world_run (New 50\<lparr>w_cmds := [Leave 9], w_players := [7 \<mapsto> sample_player]\<rparr>) [Ran (Leave 9)] w' \<and>
     w_cmds w' = []"
  using world_progress [OF sample_run, of "Leave 7"] by (simp add: New_def) blast

end
