(* ===== verification/Persist.thy ===== *)
theory Persist
  imports GoFloat GoStrings
begin

text \<open>
  The persistence boundary of \<open>internal/persist/store.go\<close>: the records, the errors, and the
  contract of the \<open>Store\<close> interface as a locale. A \<open>time.Time\<close> is its Unix time in seconds, the
  only thing the server reads of it.
\<close>

section \<open>Records\<close>

record account =
  aAccountID :: i64
  aUserCode :: string
  aOptionValues :: i32
  aCreatedAt :: i64

record character =
  ID :: i64
  AccountID :: i64
  SlotIndex :: i32
  Name :: string
  ClassType :: i32
  SubClassType :: i32
  HeadType :: i32
  Level :: i32
  Exp :: i64
  RealPower :: i32
  MapID :: i32
  EquipCostumeIndex :: i32
  EquipCostumeStepUp :: i32
  WeaponItemIndex :: i32
  WeaponEnchant :: i32
  GuildName :: string
  LatestLoginTime :: i64
  LatestLogoutTime :: i64
  DeletedTime :: i64
  X :: f32
  Y :: f32
  Z :: f32
  Dir :: f32
  CreatedAt :: i64

text \<open>The zero value of the struct: what a composite literal gives the fields it leaves out.\<close>

definition no_character :: character where
  "no_character =
     \<lparr>ID = 0, AccountID = 0, SlotIndex = 0, Name = [], ClassType = 0, SubClassType = 0, HeadType = 0,
      Level = 0, Exp = 0, RealPower = 0, MapID = 0, EquipCostumeIndex = 0, EquipCostumeStepUp = 0,
      WeaponItemIndex = 0, WeaponEnchant = 0, GuildName = [], LatestLoginTime = 0, LatestLogoutTime = 0,
      DeletedTime = 0, X = 0, Y = 0, Z = 0, Dir = 0, CreatedAt = 0\<rparr>"

section \<open>Errors\<close>

text \<open>
  The errors of the database driver: an error of the server with its SQLSTATE code and the
  constraint it names, a row that is not there, a column that does not fit its destination, or a
  failure of the connection. \<open>Wrapped\<close> is
  \<open>fmt.Errorf("postgres: ...: %w", err)\<close> with the operation's name.
\<close>

datatype dberr =
    PgError string string
  | ErrNoRows
  | ScanMismatch
  | ConnectionLost

datatype serr =
    ErrNotFound
  | ErrNameTaken
  | ErrSlotTaken
  | UniqueViolationOn string
  | Wrapped string dberr
  | ScanFailed dberr

section \<open>The contract of a store\<close>

text \<open>Slots are compared as the signed 32-bit integers they are.\<close>

definition by_slot :: "character list \<Rightarrow> bool" where
  "by_slot cs \<longleftrightarrow> sorted_wrt (\<lambda>c d. sint (SlotIndex c) < sint (SlotIndex d)) cs"

text \<open>
  \<open>chars db a\<close> are the characters an account has on the selection screen. The other operations do not
  touch them; a successful creation adds exactly the character it returns, to the account it
  names; one that reports an error may still have added the character, when only the answer of the
  database was lost.
\<close>

locale store =
  fixes UpsertAccount :: "'db \<Rightarrow> i64 \<Rightarrow> string \<Rightarrow> (serr + unit) \<times> 'db"
    and SaveOptions :: "'db \<Rightarrow> i64 \<Rightarrow> u32 \<Rightarrow> (serr + unit) \<times> 'db"
    and ListCharacters :: "'db \<Rightarrow> i64 \<Rightarrow> (serr + character list) \<times> 'db"
    and CreateCharacter :: "'db \<Rightarrow> character \<Rightarrow> (serr + character) \<times> 'db"
    and inv :: "'db \<Rightarrow> bool"
    and chars :: "'db \<Rightarrow> i64 \<Rightarrow> character list"
  assumes upsert: "inv db \<Longrightarrow> UpsertAccount db a code = (r, db') \<Longrightarrow> inv db' \<and> chars db' = chars db"
    and save: "inv db \<Longrightarrow> SaveOptions db a opts = (r', db') \<Longrightarrow> inv db' \<and> chars db' = chars db"
    and list: "inv db \<Longrightarrow> ListCharacters db a = (rs, db') \<Longrightarrow>
      inv db' \<and> chars db' = chars db \<and> (\<forall>cs. rs = Inr cs \<longrightarrow> cs = chars db a)"
    and create_ok: "inv db \<Longrightarrow> DeletedTime c = 0 \<Longrightarrow> CreateCharacter db c = (Inr c', db') \<Longrightarrow>
      inv db' \<and> (\<exists>i t. c' = c\<lparr>ID := i, CreatedAt := t\<rparr>) \<and>
      set (chars db' (AccountID c)) = insert c' (set (chars db (AccountID c))) \<and>
      (\<forall>b. b \<noteq> AccountID c \<longrightarrow> chars db' b = chars db b)"
    and create_err: "inv db \<Longrightarrow> DeletedTime c = 0 \<Longrightarrow> CreateCharacter db c = (Inl e, db') \<Longrightarrow>
      inv db' \<and> (\<forall>b. b \<noteq> AccountID c \<longrightarrow> chars db' b = chars db b) \<and>
      (chars db' (AccountID c) = chars db (AccountID c) \<or>
       (\<exists>i t. set (chars db' (AccountID c)) = insert (c\<lparr>ID := i, CreatedAt := t\<rparr>) (set (chars db (AccountID c)))))"
    and ordered: "inv db \<Longrightarrow> by_slot (chars db a)"
    and owned: "inv db \<Longrightarrow> c \<in> set (chars db a) \<Longrightarrow> AccountID c = a \<and> DeletedTime c = 0"
begin

text \<open>The slots in use below a cap, as the lobby allots them.\<close>

definition slots_below :: "int \<Rightarrow> 'db \<Rightarrow> i64 \<Rightarrow> bool" where
  "slots_below cap db a \<longleftrightarrow> (\<forall>c\<in>set (chars db a). 0 \<le> sint (SlotIndex c) \<and> sint (SlotIndex c) < cap)"

lemma slots_distinct: "inv db \<Longrightarrow> distinct (map (\<lambda>c. sint (SlotIndex c)) (chars db a))"
proof -
  assume "inv db"
  then have "sorted_wrt (<) (map (\<lambda>c. sint (SlotIndex c)) (chars db a))"
    using ordered [of db a] by (simp add: by_slot_def sorted_wrt_map)
  then show ?thesis by (simp add: strict_sorted_iff)
qed

lemma count_below:
  assumes "inv db" "slots_below cap db a" "0 \<le> cap"
  shows "length (chars db a) \<le> nat cap"
proof -
  have "length (chars db a) = card (set (map (\<lambda>c. sint (SlotIndex c)) (chars db a)))"
    using distinct_card [OF slots_distinct [OF assms(1), of a]] by simp
  also have "\<dots> \<le> card {0..<cap}"
    using assms(2) by (intro card_mono) (auto simp: slots_below_def)
  finally show ?thesis by simp
qed

lemma same_character:
  assumes "inv db" "c \<in> set (chars db a)" "d \<in> set (chars db a)" "SlotIndex c = SlotIndex d"
  shows "c = d"
proof -
  have "inj_on (\<lambda>c. sint (SlotIndex c)) (set (chars db a))"
    using slots_distinct [OF assms(1), of a] by (simp add: distinct_map)
  from inj_onD [OF this _ assms(2,3)] assms(4) show ?thesis by simp
qed

lemma create_keeps_below:
  assumes "inv db" "DeletedTime c = 0" "CreateCharacter db c = (r, db')"
    and "\<forall>b. slots_below cap db b" "0 \<le> sint (SlotIndex c)" "sint (SlotIndex c) < cap"
  shows "inv db' \<and> (\<forall>b. slots_below cap db' b)"
proof -
  have "inv db' \<and> (\<forall>b. b \<noteq> AccountID c \<longrightarrow> chars db' b = chars db b) \<and>
      (chars db' (AccountID c) = chars db (AccountID c) \<or>
       (\<exists>i t. set (chars db' (AccountID c)) = insert (c\<lparr>ID := i, CreatedAt := t\<rparr>) (set (chars db (AccountID c)))))"
  proof (cases r)
    case (Inl e)
    then show ?thesis using create_err [OF assms(1,2), of e db'] assms(3) by simp
  next
    case (Inr c')
    then show ?thesis using create_ok [OF assms(1,2), of c' db'] assms(3) by auto
  qed
  moreover from this have "slots_below cap db' b" for b
    using assms(4-6) by (cases "b = AccountID c") (auto simp: slots_below_def)
  ultimately show ?thesis by blast
qed

end

end
