(* ===== verification/Postgres.thy ===== *)
theory Postgres
  imports Persist
begin

text \<open>
  The Postgres store of \<open>internal/persist/postgres/store.go\<close> over a model of the two tables of
  \<open>migrations/\<close>: each statement the code sends is its effect on the rows, with the constraints the
  migrations declare. Where the connection fails, before a statement or after it, is a plan in the
  state.
\<close>

section \<open>Tables\<close>

record account_row =
  ar_account_id :: i64
  ar_user_code :: string
  ar_option_values :: i64
  ar_last_login_at :: i64
  ar_created_at :: i64

text \<open>
  \<open>db_next\<close> is the sequence behind \<open>characters.id\<close>, \<open>db_now\<close> the server's clock. \<open>db_faults\<close> says
  of the operations to come what becomes of the connection: it is down before the statement is
  sent, or it fails after the server has run and committed the statement, so that the client sees
  an error all the same. Past its end the connection holds.
\<close>

datatype fault = Healthy | ConnectionDown | ReplyLost

record db =
  db_accounts :: "account_row list"
  db_characters :: "character list"
  db_next :: int
  db_now :: i64
  db_faults :: "fault list"

text \<open>A value of a column, with the SQL type the migrations give it.\<close>

datatype dbval = Int4 i32 | Int8 i64 | Text string | Real f32 | Timestamp i64

text \<open>The columns of the table \<open>characters\<close>, by the migration that adds them.\<close>

definition columns_0001 :: "(string \<times> (character \<Rightarrow> dbval)) list" where
  "columns_0001 =
     [
      (''id'', \<lambda>c. Int8 (ID c)),
      (''account_id'', \<lambda>c. Int8 (AccountID c)),
      (''slot_index'', \<lambda>c. Int4 (SlotIndex c)),
      (''name'', \<lambda>c. Text (Name c)),
      (''class_type'', \<lambda>c. Int4 (ClassType c)),
      (''level'', \<lambda>c. Int4 (Level c)),
      (''map_id'', \<lambda>c. Int4 (MapID c)),
      (''x'', \<lambda>c. Real (X c)),
      (''y'', \<lambda>c. Real (Y c)),
      (''created_at'', \<lambda>c. Timestamp (CreatedAt c))
     ]"

definition columns_0003 :: "(string \<times> (character \<Rightarrow> dbval)) list" where
  "columns_0003 =
     [
      (''sub_class_type'', \<lambda>c. Int4 (SubClassType c)),
      (''head_type'', \<lambda>c. Int4 (HeadType c)),
      (''exp'', \<lambda>c. Int8 (Exp c)),
      (''real_power'', \<lambda>c. Int4 (RealPower c)),
      (''equip_costume_index'', \<lambda>c. Int4 (EquipCostumeIndex c)),
      (''equip_costume_step_up'', \<lambda>c. Int4 (EquipCostumeStepUp c)),
      (''weapon_item_index'', \<lambda>c. Int4 (WeaponItemIndex c)),
      (''weapon_enchant'', \<lambda>c. Int4 (WeaponEnchant c)),
      (''guild_name'', \<lambda>c. Text (GuildName c)),
      (''latest_login_time'', \<lambda>c. Int8 (LatestLoginTime c)),
      (''latest_logout_time'', \<lambda>c. Int8 (LatestLogoutTime c)),
      (''deleted_time'', \<lambda>c. Int8 (DeletedTime c))
     ]"

definition columns_0004 :: "(string \<times> (character \<Rightarrow> dbval)) list" where
  "columns_0004 =
     [
      (''z'', \<lambda>c. Real (Z c)),
      (''dir'', \<lambda>c. Real (Dir c))
     ]"

definition columns :: "(string \<times> (character \<Rightarrow> dbval)) list" where
  "columns = columns_0001 @ columns_0003 @ columns_0004"

lemmas columns_defs = columns_def columns_0001_def columns_0003_def columns_0004_def

definition setters :: "(string \<times> (dbval \<Rightarrow> character \<Rightarrow> character option)) list" where
  "setters =
     [
      (''id'', \<lambda>v c. case v of Int8 x \<Rightarrow> Some (c\<lparr>ID := x\<rparr>) | _ \<Rightarrow> None),
      (''account_id'', \<lambda>v c. case v of Int8 x \<Rightarrow> Some (c\<lparr>AccountID := x\<rparr>) | _ \<Rightarrow> None),
      (''slot_index'', \<lambda>v c. case v of Int4 x \<Rightarrow> Some (c\<lparr>SlotIndex := x\<rparr>) | _ \<Rightarrow> None),
      (''name'', \<lambda>v c. case v of Text x \<Rightarrow> Some (c\<lparr>Name := x\<rparr>) | _ \<Rightarrow> None),
      (''class_type'', \<lambda>v c. case v of Int4 x \<Rightarrow> Some (c\<lparr>ClassType := x\<rparr>) | _ \<Rightarrow> None),
      (''sub_class_type'', \<lambda>v c. case v of Int4 x \<Rightarrow> Some (c\<lparr>SubClassType := x\<rparr>) | _ \<Rightarrow> None),
      (''head_type'', \<lambda>v c. case v of Int4 x \<Rightarrow> Some (c\<lparr>HeadType := x\<rparr>) | _ \<Rightarrow> None),
      (''level'', \<lambda>v c. case v of Int4 x \<Rightarrow> Some (c\<lparr>Level := x\<rparr>) | _ \<Rightarrow> None),
      (''exp'', \<lambda>v c. case v of Int8 x \<Rightarrow> Some (c\<lparr>Exp := x\<rparr>) | _ \<Rightarrow> None),
      (''real_power'', \<lambda>v c. case v of Int4 x \<Rightarrow> Some (c\<lparr>RealPower := x\<rparr>) | _ \<Rightarrow> None),
      (''map_id'', \<lambda>v c. case v of Int4 x \<Rightarrow> Some (c\<lparr>MapID := x\<rparr>) | _ \<Rightarrow> None),
      (''equip_costume_index'', \<lambda>v c. case v of Int4 x \<Rightarrow> Some (c\<lparr>EquipCostumeIndex := x\<rparr>) | _ \<Rightarrow> None),
      (''equip_costume_step_up'', \<lambda>v c. case v of Int4 x \<Rightarrow> Some (c\<lparr>EquipCostumeStepUp := x\<rparr>) | _ \<Rightarrow> None),
      (''weapon_item_index'', \<lambda>v c. case v of Int4 x \<Rightarrow> Some (c\<lparr>WeaponItemIndex := x\<rparr>) | _ \<Rightarrow> None),
      (''weapon_enchant'', \<lambda>v c. case v of Int4 x \<Rightarrow> Some (c\<lparr>WeaponEnchant := x\<rparr>) | _ \<Rightarrow> None),
      (''guild_name'', \<lambda>v c. case v of Text x \<Rightarrow> Some (c\<lparr>GuildName := x\<rparr>) | _ \<Rightarrow> None),
      (''latest_login_time'', \<lambda>v c. case v of Int8 x \<Rightarrow> Some (c\<lparr>LatestLoginTime := x\<rparr>) | _ \<Rightarrow> None),
      (''latest_logout_time'', \<lambda>v c. case v of Int8 x \<Rightarrow> Some (c\<lparr>LatestLogoutTime := x\<rparr>) | _ \<Rightarrow> None),
      (''deleted_time'', \<lambda>v c. case v of Int8 x \<Rightarrow> Some (c\<lparr>DeletedTime := x\<rparr>) | _ \<Rightarrow> None),
      (''x'', \<lambda>v c. case v of Real x \<Rightarrow> Some (c\<lparr>X := x\<rparr>) | _ \<Rightarrow> None),
      (''y'', \<lambda>v c. case v of Real x \<Rightarrow> Some (c\<lparr>Y := x\<rparr>) | _ \<Rightarrow> None),
      (''z'', \<lambda>v c. case v of Real x \<Rightarrow> Some (c\<lparr>Z := x\<rparr>) | _ \<Rightarrow> None),
      (''dir'', \<lambda>v c. case v of Real x \<Rightarrow> Some (c\<lparr>Dir := x\<rparr>) | _ \<Rightarrow> None),
      (''created_at'', \<lambda>v c. case v of Timestamp x \<Rightarrow> Some (c\<lparr>CreatedAt := x\<rparr>) | _ \<Rightarrow> None)
     ]"

text \<open>\<open>SELECT columns FROM row\<close>, and the row an \<open>INSERT\<close> of some columns builds on the defaults.\<close>

primrec select :: "string list \<Rightarrow> character \<Rightarrow> dbval list option" where
  "select [] c = Some []"
| "select (n # ns) c =
     (case map_of columns n of
        None \<Rightarrow> None
      | Some get \<Rightarrow> (case select ns c of None \<Rightarrow> None | Some vs \<Rightarrow> Some (get c # vs)))"

primrec set_columns :: "(string \<times> dbval) list \<Rightarrow> character \<Rightarrow> character option" where
  "set_columns [] c = Some c"
| "set_columns (nv # nvs) c =
     (case map_of setters (fst nv) of
        None \<Rightarrow> None
      | Some put \<Rightarrow> (case put (snd nv) c of None \<Rightarrow> None | Some c' \<Rightarrow> set_columns nvs c'))"

definition characterColumns :: "string list" where
  "characterColumns =
   [
    ''id'', ''account_id'', ''slot_index'', ''name'', ''class_type'', ''sub_class_type'',
    ''head_type'', ''level'', ''exp'', ''real_power'', ''map_id'', ''equip_costume_index'',
    ''equip_costume_step_up'', ''weapon_item_index'', ''weapon_enchant'', ''guild_name'',
    ''latest_login_time'', ''latest_logout_time'', ''deleted_time'', ''x'', ''y'', ''z'',
    ''dir'', ''created_at'']"

section \<open>Scanning a row\<close>

text \<open>One destination of \<open>row.Scan\<close>: the next value, which must have the destination's type.\<close>

definition scan_with ::
    "(dbval \<Rightarrow> 'a option) \<Rightarrow> dbval list \<Rightarrow> ('a \<Rightarrow> character \<Rightarrow> character) \<Rightarrow> character \<Rightarrow>
      dberr + (dbval list \<times> character)" where
  "scan_with read row put c =
     (case row of
        [] \<Rightarrow> Inl ScanMismatch
      | v # vs \<Rightarrow> (case read v of None \<Rightarrow> Inl ScanMismatch | Some x \<Rightarrow> Inr (vs, put x c)))"

definition scan_int4 where
  "scan_int4 = scan_with (\<lambda>v. case v of Int4 n \<Rightarrow> Some n | _ \<Rightarrow> None)"
definition scan_int8 where
  "scan_int8 = scan_with (\<lambda>v. case v of Int8 n \<Rightarrow> Some n | _ \<Rightarrow> None)"
definition scan_text where
  "scan_text = scan_with (\<lambda>v. case v of Text s \<Rightarrow> Some s | _ \<Rightarrow> None)"
definition scan_real where
  "scan_real = scan_with (\<lambda>v. case v of Real f \<Rightarrow> Some f | _ \<Rightarrow> None)"
definition scan_timestamp where
  "scan_timestamp = scan_with (\<lambda>v. case v of Timestamp t \<Rightarrow> Some t | _ \<Rightarrow> None)"

definition scanCharacter :: "dbval list \<Rightarrow> dberr + character" where
  "scanCharacter r =
    (let c = no_character in
     rbind (scan_int8 r (\<lambda>x. ID_update (\<lambda>_. x)) c) (\<lambda>(r1, c1).
     rbind (scan_int8 r1 (\<lambda>x. AccountID_update (\<lambda>_. x)) c1) (\<lambda>(r2, c2).
     rbind (scan_int4 r2 (\<lambda>x. SlotIndex_update (\<lambda>_. x)) c2) (\<lambda>(r3, c3).
     rbind (scan_text r3 (\<lambda>x. Name_update (\<lambda>_. x)) c3) (\<lambda>(r4, c4).
     rbind (scan_int4 r4 (\<lambda>x. ClassType_update (\<lambda>_. x)) c4) (\<lambda>(r5, c5).
     rbind (scan_int4 r5 (\<lambda>x. SubClassType_update (\<lambda>_. x)) c5) (\<lambda>(r6, c6).
     rbind (scan_int4 r6 (\<lambda>x. HeadType_update (\<lambda>_. x)) c6) (\<lambda>(r7, c7).
     rbind (scan_int4 r7 (\<lambda>x. Level_update (\<lambda>_. x)) c7) (\<lambda>(r8, c8).
     rbind (scan_int8 r8 (\<lambda>x. Exp_update (\<lambda>_. x)) c8) (\<lambda>(r9, c9).
     rbind (scan_int4 r9 (\<lambda>x. RealPower_update (\<lambda>_. x)) c9) (\<lambda>(r10, c10).
     rbind (scan_int4 r10 (\<lambda>x. MapID_update (\<lambda>_. x)) c10) (\<lambda>(r11, c11).
     rbind (scan_int4 r11 (\<lambda>x. EquipCostumeIndex_update (\<lambda>_. x)) c11) (\<lambda>(r12, c12).
     rbind (scan_int4 r12 (\<lambda>x. EquipCostumeStepUp_update (\<lambda>_. x)) c12) (\<lambda>(r13, c13).
     rbind (scan_int4 r13 (\<lambda>x. WeaponItemIndex_update (\<lambda>_. x)) c13) (\<lambda>(r14, c14).
     rbind (scan_int4 r14 (\<lambda>x. WeaponEnchant_update (\<lambda>_. x)) c14) (\<lambda>(r15, c15).
     rbind (scan_text r15 (\<lambda>x. GuildName_update (\<lambda>_. x)) c15) (\<lambda>(r16, c16).
     rbind (scan_int8 r16 (\<lambda>x. LatestLoginTime_update (\<lambda>_. x)) c16) (\<lambda>(r17, c17).
     rbind (scan_int8 r17 (\<lambda>x. LatestLogoutTime_update (\<lambda>_. x)) c17) (\<lambda>(r18, c18).
     rbind (scan_int8 r18 (\<lambda>x. DeletedTime_update (\<lambda>_. x)) c18) (\<lambda>(r19, c19).
     rbind (scan_real r19 (\<lambda>x. X_update (\<lambda>_. x)) c19) (\<lambda>(r20, c20).
     rbind (scan_real r20 (\<lambda>x. Y_update (\<lambda>_. x)) c20) (\<lambda>(r21, c21).
     rbind (scan_real r21 (\<lambda>x. Z_update (\<lambda>_. x)) c21) (\<lambda>(r22, c22).
     rbind (scan_real r22 (\<lambda>x. Dir_update (\<lambda>_. x)) c22) (\<lambda>(r23, c23).
     rbind (scan_timestamp r23 (\<lambda>x. CreatedAt_update (\<lambda>_. x)) c23) (\<lambda>(r24, c24).
     if r24 = [] then Inr c24 else Inl ScanMismatch)))))))))))))))))))))))))"

text \<open>The column list and the destinations are in the same order and of the same types.\<close>

lemma scan_select: "\<exists>row. select characterColumns c = Some row \<and> scanCharacter row = Inr c"
  by (simp add: characterColumns_def columns_defs scanCharacter_def scan_int4_def scan_int8_def scan_text_def
      scan_real_def scan_timestamp_def scan_with_def no_character_def)

section \<open>Statements\<close>

text \<open>
  One statement sent over the connection and what the client sees of it: the outcome, or the failure
  of the connection, which leaves open whether the statement was run.
\<close>

definition next_fault :: "db \<Rightarrow> fault" where
  "next_fault db = (case db_faults db of [] \<Rightarrow> Healthy | f # _ \<Rightarrow> f)"

definition op_begun :: "db \<Rightarrow> db" where
  "op_begun db = db\<lparr>db_faults := drop 1 (db_faults db)\<rparr>"

definition exec_sql :: "(db \<Rightarrow> (dberr + 'r) \<times> db) \<Rightarrow> db \<Rightarrow> (dberr + 'r) \<times> db" where
  "exec_sql stmt db =
     (case next_fault db of
        Healthy \<Rightarrow> stmt (op_begun db)
      | ConnectionDown \<Rightarrow> (Inl ConnectionLost, op_begun db)
      | ReplyLost \<Rightarrow> (Inl ConnectionLost, snd (stmt (op_begun db))))"

text \<open>Text the server accepts: valid UTF-8 without NUL.\<close>

definition storable :: "string \<Rightarrow> bool" where
  "storable s \<longleftrightarrow> valid_utf8 s \<and> CHR 0x00 \<notin> set s"

lemma storable_ascii: "list_all (\<lambda>c. 0 < (of_char c :: nat) \<and> of_char c < (0x80 :: nat)) s \<Longrightarrow> storable s"
  unfolding storable_def
proof (induction s)
  case (Cons c s)
  then have "(of_char c :: nat) \<noteq> of_char (CHR 0x00)" by simp
  then have "c \<noteq> CHR 0x00" by metis
  then show ?case using Cons by (simp add: valid_utf8_ascii)
qed simp

definition bad_text :: dberr where
  "bad_text = PgError ''22021'' []"

text \<open>\<open>INSERT ... ON CONFLICT (account_id) DO UPDATE\<close>.\<close>

definition upsert_account :: "i64 \<Rightarrow> string \<Rightarrow> db \<Rightarrow> (dberr + nat) \<times> db" where
  "upsert_account accountID userCode db =
     (if \<not> storable userCode then (Inl bad_text, db)
      else if list_ex (\<lambda>a. ar_account_id a = accountID) (db_accounts db) then
        (Inr 1, db\<lparr>db_accounts := map (\<lambda>a. if ar_account_id a = accountID
           then a\<lparr>ar_user_code := userCode, ar_last_login_at := db_now db\<rparr> else a) (db_accounts db)\<rparr>)
      else
        (Inr 1, db\<lparr>db_accounts := db_accounts db @
           [\<lparr>ar_account_id = accountID, ar_user_code = userCode, ar_option_values = 0,
             ar_last_login_at = db_now db, ar_created_at = db_now db\<rparr>]\<rparr>))"

definition UpsertAccount :: "db \<Rightarrow> i64 \<Rightarrow> string \<Rightarrow> (serr + unit) \<times> db" where
  "UpsertAccount db0 accountID userCode =
     (case exec_sql (upsert_account accountID userCode) db0 of
        (Inl e, db) \<Rightarrow> (Inl (Wrapped ''upsert account'' e), db)
      | (Inr _, db) \<Rightarrow> (Inr (), db))"

text \<open>An \<open>UPDATE\<close> answers with the number of rows it affected.\<close>

definition update_options :: "i64 \<Rightarrow> i64 \<Rightarrow> db \<Rightarrow> (dberr + nat) \<times> db" where
  "update_options accountID optionValues db =
     (Inr (length (filter (\<lambda>a. ar_account_id a = accountID) (db_accounts db))),
      db\<lparr>db_accounts := map (\<lambda>a. if ar_account_id a = accountID
         then a\<lparr>ar_option_values := optionValues\<rparr> else a) (db_accounts db)\<rparr>)"

definition SaveOptions :: "db \<Rightarrow> i64 \<Rightarrow> u32 \<Rightarrow> (serr + unit) \<times> db" where
  "SaveOptions db0 accountID optionValues =
     (case exec_sql (update_options accountID (ucast optionValues)) db0 of
        (Inl e, db) \<Rightarrow> (Inl (Wrapped ''save options'' e), db)
      | (Inr affected, db) \<Rightarrow> if affected = 0 then (Inl ErrNotFound, db) else (Inr (), db))"

text \<open>\<open>WHERE account_id = $1 AND deleted_time = 0 ORDER BY slot_index\<close>.\<close>

definition selected :: "db \<Rightarrow> i64 \<Rightarrow> character list" where
  "selected db accountID =
     sort_key (\<lambda>c. sint (SlotIndex c))
       (filter (\<lambda>c. AccountID c = accountID \<and> DeletedTime c = 0) (db_characters db))"

definition row_of :: "character \<Rightarrow> dberr + dbval list" where
  "row_of c = (case select characterColumns c of None \<Rightarrow> Inl (PgError ''42703'' []) | Some r \<Rightarrow> Inr r)"

definition select_characters :: "i64 \<Rightarrow> db \<Rightarrow> (dberr + dbval list list) \<times> db" where
  "select_characters accountID db = (map_res row_of (selected db accountID), db)"

definition ListCharacters :: "db \<Rightarrow> i64 \<Rightarrow> (serr + character list) \<times> db" where
  "ListCharacters db0 accountID =
     (case exec_sql (select_characters accountID) db0 of
        (Inl e, db) \<Rightarrow> (Inl (Wrapped ''list characters'' e), db)
      | (Inr rows, db) \<Rightarrow>
          (case map_res scanCharacter rows of
             Inl e \<Rightarrow> (Inl (ScanFailed e), db)
           | Inr cs \<Rightarrow> (Inr cs, db)))"

definition select_character :: "i64 \<Rightarrow> db \<Rightarrow> (dberr + dbval list) \<times> db" where
  "select_character i db =
     (case find (\<lambda>c. ID c = i) (db_characters db) of None \<Rightarrow> Inl ErrNoRows | Some c \<Rightarrow> row_of c, db)"

definition GetCharacter :: "db \<Rightarrow> i64 \<Rightarrow> (serr + character) \<times> db" where
  "GetCharacter db0 i =
     (let (row, db) = exec_sql (select_character i) db0 in
      (case rbind row scanCharacter of
         Inl ErrNoRows \<Rightarrow> Inl ErrNotFound
       | Inl e \<Rightarrow> Inl (Wrapped ''get character'' e)
       | Inr c \<Rightarrow> Inr c, db))"

text \<open>The columns and the arguments of the \<open>INSERT\<close>.\<close>

definition insert_columns :: "string list" where
  "insert_columns =
   [
    ''account_id'', ''slot_index'', ''name'', ''class_type'', ''sub_class_type'',
    ''head_type'', ''level'', ''exp'', ''real_power'', ''map_id'', ''equip_costume_index'',
    ''equip_costume_step_up'', ''weapon_item_index'', ''weapon_enchant'', ''guild_name'',
    ''latest_login_time'', ''latest_logout_time'', ''deleted_time'', ''x'', ''y'', ''z'',
    ''dir'']"

definition insert_args :: "character \<Rightarrow> dbval list" where
  "insert_args c =
   [
    Int8 (AccountID c), Int4 (SlotIndex c), Text (Name c), Int4 (ClassType c),
    Int4 (SubClassType c), Int4 (HeadType c), Int4 (Level c), Int8 (Exp c),
    Int4 (RealPower c), Int4 (MapID c), Int4 (EquipCostumeIndex c),
    Int4 (EquipCostumeStepUp c), Int4 (WeaponItemIndex c), Int4 (WeaponEnchant c),
    Text (GuildName c), Int8 (LatestLoginTime c), Int8 (LatestLogoutTime c),
    Int8 (DeletedTime c), Real (X c), Real (Y c), Real (Z c), Real (Dir c)]"

text \<open>
  The constraints in the order Postgres checks them: the text of the arguments, the sequence, the
  unique indexes by age, the foreign key at the end of the statement. A refused row still uses up
  its number of the sequence.
\<close>

definition insert_character :: "character \<Rightarrow> db \<Rightarrow> (dberr + (i64 \<times> i64)) \<times> db" where
  "insert_character c db =
     (if \<not> (storable (Name c) \<and> storable (GuildName c)) then (Inl bad_text, db)
      else if db_next db \<ge> 2 ^ 63 then (Inl (PgError ''2200H'' []), db)
      else
        let new_id = word_of_int (db_next db);
            db' = db\<lparr>db_next := db_next db + 1\<rparr>;
            rows = db_characters db in
        (case set_columns (zip insert_columns (insert_args c)) (no_character\<lparr>ID := new_id, CreatedAt := db_now db\<rparr>) of
           None \<Rightarrow> (Inl (PgError ''42804'' []), db')
         | Some row \<Rightarrow>
             if list_ex (\<lambda>r. ID r = ID row) rows then (Inl (PgError ''23505'' ''characters_pkey''), db')
             else if list_ex (\<lambda>r. AccountID r = AccountID row \<and> SlotIndex r = SlotIndex row) rows
             then (Inl (PgError ''23505'' ''characters_account_id_slot_index_key''), db')
             else if DeletedTime row = 0 \<and> list_ex (\<lambda>r. DeletedTime r = 0 \<and> Name r = Name row) rows
             then (Inl (PgError ''23505'' ''characters_name_active_key''), db')
             else if \<not> list_ex (\<lambda>a. ar_account_id a = AccountID row) (db_accounts db)
             then (Inl (PgError ''23503'' ''characters_account_id_fkey''), db')
             else (Inr (ID row, CreatedAt row), db'\<lparr>db_characters := rows @ [row]\<rparr>)))"

fun uniqueViolation :: "dberr \<Rightarrow> serr option" where
  "uniqueViolation (PgError code constraint) =
     (if code \<noteq> ''23505'' then None
      else if constraint = ''characters_name_active_key'' then Some ErrNameTaken
      else if constraint = ''characters_account_id_slot_index_key'' then Some ErrSlotTaken
      else Some (UniqueViolationOn constraint))"
| "uniqueViolation _ = None"

definition CreateCharacter :: "db \<Rightarrow> character \<Rightarrow> (serr + character) \<times> db" where
  "CreateCharacter db0 c =
     (let (res, db) = exec_sql (insert_character c) db0 in
      (case res of
         Inl e \<Rightarrow> (case uniqueViolation e of
             Some taken \<Rightarrow> Inl taken
           | None \<Rightarrow> Inl (Wrapped ''create character'' e))
       | Inr (new_id, created) \<Rightarrow> Inr (c\<lparr>ID := new_id, CreatedAt := created\<rparr>), db))"

definition update_position :: "i64 \<Rightarrow> i32 \<Rightarrow> f32 \<Rightarrow> f32 \<Rightarrow> f32 \<Rightarrow> f32 \<Rightarrow> db \<Rightarrow> (dberr + nat) \<times> db" where
  "update_position i m x y z d db =
     (Inr (length (filter (\<lambda>c. ID c = i) (db_characters db))),
      db\<lparr>db_characters := map (\<lambda>c. if ID c = i
         then c\<lparr>MapID := m, X := x, Y := y, Z := z, Dir := d\<rparr> else c) (db_characters db)\<rparr>)"

definition SavePosition :: "db \<Rightarrow> i64 \<Rightarrow> i32 \<Rightarrow> f32 \<Rightarrow> f32 \<Rightarrow> f32 \<Rightarrow> f32 \<Rightarrow> (serr + unit) \<times> db" where
  "SavePosition db0 i m x y z d =
     (case exec_sql (update_position i m x y z d) db0 of
        (Inl e, db) \<Rightarrow> (Inl (Wrapped ''save position'' e), db)
      | (Inr affected, db) \<Rightarrow> if affected = 0 then (Inl ErrNotFound, db) else (Inr (), db))"

text \<open>What the arguments and columns of the \<open>INSERT\<close> amount to.\<close>

lemma inserted_row:
  "set_columns (zip insert_columns (insert_args c)) (no_character\<lparr>ID := i, CreatedAt := t\<rparr>) =
     Some (c\<lparr>ID := i, CreatedAt := t\<rparr>)"
  by (simp add: insert_columns_def insert_args_def setters_def no_character_def)

text \<open>A row that is selected scans as the character it is.\<close>

lemma row_of: obtains row where "row_of c = Inr row" "scanCharacter row = Inr c"
  using scan_select [of c] by (auto simp: row_of_def)

lemma rows_of: "\<exists>rows. map_res row_of cs = Inr rows \<and> map_res scanCharacter rows = Inr cs"
proof (induction cs)
  case (Cons c cs)
  obtain row where "row_of c = Inr row" "scanCharacter row = Inr c" by (rule row_of)
  with Cons show ?case by auto
qed simp

section \<open>What each operation does to the tables\<close>

lemma exec_sql_eq:
  "exec_sql stmt db =
     (if next_fault db = Healthy then fst (stmt (op_begun db)) else Inl ConnectionLost,
      if next_fault db = ConnectionDown then op_begun db else snd (stmt (op_begun db)))"
  by (cases "next_fault db") (simp_all add: exec_sql_def)

lemma op_begun_healthy: "db_faults db = [] \<Longrightarrow> op_begun db = db"
  by (cases db) (simp add: op_begun_def)

lemma exec_sql_healthy: "db_faults db = [] \<Longrightarrow> exec_sql stmt db = stmt db"
  by (simp add: exec_sql_def next_fault_def op_begun_healthy)

lemma op_begun_simps [simp]:
  "db_accounts (op_begun db) = db_accounts db" "db_characters (op_begun db) = db_characters db"
  "db_next (op_begun db) = db_next db" "db_now (op_begun db) = db_now db" "db_faults (op_begun db) = drop 1 (db_faults db)"
  by (simp_all add: op_begun_def)

lemma selected_cong: "db_characters db' = db_characters db \<Longrightarrow> selected db' = selected db"
  by (simp add: selected_def fun_eq_iff)

lemma selected_update [simp]:
  "selected (op_begun db) = selected db" "selected (db\<lparr>db_faults := fs\<rparr>) = selected db"
  "selected (db\<lparr>db_next := n\<rparr>) = selected db" "selected (db\<lparr>db_accounts := as\<rparr>) = selected db"
  by (rule selected_cong, simp)+

text \<open>Results and next states of the operations, with the connection's share in them.\<close>

lemma UpsertAccount_eq:
  "UpsertAccount db a code =
     (if next_fault db \<noteq> Healthy then Inl (Wrapped ''upsert account'' ConnectionLost)
      else if storable code then Inr () else Inl (Wrapped ''upsert account'' bad_text),
      if next_fault db = ConnectionDown then op_begun db else snd (upsert_account a code (op_begun db)))"
  by (simp add: UpsertAccount_def exec_sql_eq split_beta) (simp add: upsert_account_def)

lemma SaveOptions_eq:
  "SaveOptions db a opts =
     (if next_fault db \<noteq> Healthy then Inl (Wrapped ''save options'' ConnectionLost)
      else if a \<in> ar_account_id ` set (db_accounts db) then Inr () else Inl ErrNotFound,
      if next_fault db = ConnectionDown then op_begun db else snd (update_options a (ucast opts) (op_begun db)))"
  by (auto simp: SaveOptions_def exec_sql_eq update_options_def filter_empty_conv)

lemma ListCharacters_eq:
  "ListCharacters db a =
     (if next_fault db = Healthy then Inr (selected db a) else Inl (Wrapped ''list characters'' ConnectionLost), op_begun db)"
proof -
  obtain rows where "map_res row_of (selected db a) = Inr rows" "map_res scanCharacter rows = Inr (selected db a)"
    using rows_of by blast
  then show ?thesis by (simp add: ListCharacters_def exec_sql_eq select_characters_def)
qed

lemma GetCharacter_eq:
  "GetCharacter db i =
     (if next_fault db \<noteq> Healthy then Inl (Wrapped ''get character'' ConnectionLost)
      else case find (\<lambda>c. ID c = i) (db_characters db) of None \<Rightarrow> Inl ErrNotFound | Some c \<Rightarrow> Inr c, op_begun db)"
proof (cases "find (\<lambda>c. ID c = i) (db_characters db)")
  case (Some c)
  obtain row where "row_of c = Inr row" "scanCharacter row = Inr c" by (rule row_of)
  with Some show ?thesis by (simp add: GetCharacter_def exec_sql_eq select_character_def)
qed (simp add: GetCharacter_def exec_sql_eq select_character_def)

lemma SavePosition_eq:
  "SavePosition db i m x y z d =
     (if next_fault db \<noteq> Healthy then Inl (Wrapped ''save position'' ConnectionLost)
      else if i \<in> ID ` set (db_characters db) then Inr () else Inl ErrNotFound,
      if next_fault db = ConnectionDown then op_begun db else snd (update_position i m x y z d (op_begun db)))"
  by (auto simp: SavePosition_def exec_sql_eq update_position_def filter_empty_conv)

lemma snd_CreateCharacter:
  "snd (CreateCharacter db c) =
     (if next_fault db = ConnectionDown then op_begun db else snd (insert_character c (op_begun db)))"
  by (simp add: CreateCharacter_def exec_sql_eq split_beta)

lemma insert_ok:
  "insert_character c db = (Inr (i, t), db') \<longleftrightarrow>
     storable (Name c) \<and> storable (GuildName c) \<and> db_next db < 2 ^ 63 \<and>
     i = word_of_int (db_next db) \<and> t = db_now db \<and>
     (\<forall>r\<in>set (db_characters db). ID r \<noteq> i \<and> (AccountID r, SlotIndex r) \<noteq> (AccountID c, SlotIndex c) \<and>
        (DeletedTime c = 0 \<and> DeletedTime r = 0 \<longrightarrow> Name r \<noteq> Name c)) \<and>
     (\<exists>a\<in>set (db_accounts db). ar_account_id a = AccountID c) \<and>
     db' = db\<lparr>db_next := db_next db + 1, db_characters := db_characters db @ [c\<lparr>ID := i, CreatedAt := t\<rparr>]\<rparr>"
  unfolding insert_character_def Let_def inserted_row
  by (auto simp: list_ex_iff not_le)

lemma insert_err:
  "insert_character c db = (Inl e, db') \<Longrightarrow> db' = db \<or> db' = db\<lparr>db_next := db_next db + 1\<rparr> \<and> db_next db < 2 ^ 63"
  unfolding insert_character_def Let_def inserted_row
  by (auto simp: not_le split: if_splits)

text \<open>A creation the client saw succeed has inserted the row; one it saw fail may have, if the reply was lost.\<close>

lemma CreateCharacter_ok:
  assumes "CreateCharacter db c = (Inr c', db')"
  obtains i t where "insert_character c (op_begun db) = (Inr (i, t), db')"
    "c' = c\<lparr>ID := i, CreatedAt := t\<rparr>" "next_fault db = Healthy"
  using assms that
  by (cases "insert_character c (op_begun db)")
    (auto simp: CreateCharacter_def exec_sql_eq split: if_splits sum.splits option.splits)

lemma CreateCharacter_rows:
  assumes "CreateCharacter db c = (r, db')"
  obtains (same) n where "db' = (op_begun db)\<lparr>db_next := n\<rparr>" "db_next db \<le> n" "\<not> is_ok r"
  | (created) i t where "insert_character c (op_begun db) = (Inr (i, t), db')"
      "r = Inr (c\<lparr>ID := i, CreatedAt := t\<rparr>) \<or> (next_fault db = ReplyLost \<and> \<not> is_ok r)"
proof -
  let ?db = "op_begun db"
  obtain res db1 where i: "insert_character c ?db = (res, db1)" by fastforce
  note d = assms [unfolded CreateCharacter_def exec_sql_eq]
  show thesis
  proof (cases "next_fault db = ConnectionDown")
    case True
    then have "db' = ?db\<lparr>db_next := db_next db\<rparr>" "\<not> is_ok r" using d by auto
    then show thesis by (intro same [of "db_next db"]) simp_all
  next
    case False
    then have db': "db' = db1" using d i by auto
    show thesis
    proof (cases res)
      case (Inl e)
      then have "\<not> is_ok r" using d i by (auto split: if_splits option.splits)
      moreover from insert_err [of c ?db e db1] i Inl
      have "db1 = ?db\<lparr>db_next := db_next db\<rparr> \<or> db1 = ?db\<lparr>db_next := db_next db + 1\<rparr>" by auto
      ultimately show thesis
        using same [of "db_next db"] same [of "db_next db + 1"] db' by auto
    next
      case (Inr it)
      obtain j t where it: "it = (j, t)" by force
      have "r = Inr (c\<lparr>ID := j, CreatedAt := t\<rparr>) \<or> (next_fault db = ReplyLost \<and> \<not> is_ok r)"
        using d i Inr it False by (cases "next_fault db") auto
      then show thesis using i Inr it db' by (intro created [of j t]) simp_all
    qed
  qed
qed

section \<open>The schema\<close>

text \<open>What the constraints of the migrations and the sequence keep true.\<close>

definition wf_db :: "db \<Rightarrow> bool" where
  "wf_db db \<longleftrightarrow>
     distinct (map ID (db_characters db)) \<and>
     distinct (map (\<lambda>c. (AccountID c, SlotIndex c)) (db_characters db)) \<and>
     distinct (map Name (filter (\<lambda>c. DeletedTime c = 0) (db_characters db))) \<and>
     distinct (map ar_account_id (db_accounts db)) \<and>
     (\<forall>c\<in>set (db_characters db). AccountID c \<in> ar_account_id ` set (db_accounts db)) \<and>
     1 \<le> db_next db \<and> (\<forall>c\<in>set (db_characters db). sint (ID c) < db_next db)"

lemma wf_op_begun [simp]: "wf_db (op_begun db) = wf_db db"
  by (simp add: wf_db_def)

lemma wf_db_next: "wf_db db \<Longrightarrow> db_next db \<le> n \<Longrightarrow> wf_db (db\<lparr>db_next := n\<rparr>)"
  by (force simp: wf_db_def)

lemma sint_word_of_int_pos: "1 \<le> n \<Longrightarrow> n < 2 ^ 63 \<Longrightarrow> sint (word_of_int n :: i64) = n"
  by (simp add: signed_of_int signed_take_bit_int_eq_self)

lemma fresh_id: "wf_db db \<Longrightarrow> db_next db < 2 ^ 63 \<Longrightarrow> r \<in> set (db_characters db) \<Longrightarrow> ID r \<noteq> word_of_int (db_next db)"
  using sint_word_of_int_pos [of "db_next db"] by (force simp: wf_db_def)

lemma wf_insert:
  assumes "wf_db db" "insert_character c db = (Inr (i, t), db')"
  shows "wf_db db'"
proof -
  from assms(2) have c: "db_next db < 2 ^ 63" "i = word_of_int (db_next db)"
    "\<forall>r\<in>set (db_characters db). ID r \<noteq> i \<and> (AccountID r, SlotIndex r) \<noteq> (AccountID c, SlotIndex c) \<and>
       (DeletedTime c = 0 \<and> DeletedTime r = 0 \<longrightarrow> Name r \<noteq> Name c)"
    "\<exists>a\<in>set (db_accounts db). ar_account_id a = AccountID c"
    "db' = db\<lparr>db_next := db_next db + 1, db_characters := db_characters db @ [c\<lparr>ID := i, CreatedAt := t\<rparr>]\<rparr>"
    unfolding insert_ok by blast+
  have i: "sint i = db_next db" unfolding c(2) using assms(1) c(1) by (intro sint_word_of_int_pos) (simp_all add: wf_db_def)
  have "\<forall>r\<in>set (db_characters db). sint (ID r) < db_next db + 1" using assms(1) by (fastforce simp: wf_db_def)
  moreover have "AccountID c \<in> ar_account_id ` set (db_accounts db)" using c(4) by (metis imageI)
  moreover have "(AccountID c, SlotIndex c) \<notin> (\<lambda>r. (AccountID r, SlotIndex r)) ` set (db_characters db)"
    "i \<notin> ID ` set (db_characters db)" using c(3) by auto
  moreover have "DeletedTime c = 0 \<Longrightarrow> Name c \<notin> Name ` {r \<in> set (db_characters db). DeletedTime r = 0}"
    using c(3) by auto
  ultimately show ?thesis
    using assms(1) i unfolding c(5) wf_db_def by simp
qed

lemma wf_CreateCharacter:
  assumes "wf_db db"
  shows "wf_db (snd (CreateCharacter db c))"
  using surjective_pairing [of "CreateCharacter db c"]
proof (cases rule: CreateCharacter_rows)
  case (same n)
  then show ?thesis using assms wf_db_next [of "op_begun db" n] by simp
next
  case (created i t)
  then show ?thesis using assms wf_insert [of "op_begun db"] by simp
qed

lemma wf_accounts:
  "wf_db db \<Longrightarrow> (\<And>a. ar_account_id (f a) = ar_account_id a) \<Longrightarrow> wf_db (db\<lparr>db_accounts := map f (db_accounts db)\<rparr>)"
  by (simp add: wf_db_def comp_def image_image)

lemma wf_characters:
  "wf_db db \<Longrightarrow> (\<And>c. ID (f c) = ID c \<and> AccountID (f c) = AccountID c \<and> SlotIndex (f c) = SlotIndex c \<and>
       Name (f c) = Name c \<and> DeletedTime (f c) = DeletedTime c) \<Longrightarrow>
     wf_db (db\<lparr>db_characters := map f (db_characters db)\<rparr>)"
  by (simp add: wf_db_def comp_def filter_map)

lemma wf_new_account:
  "wf_db db \<Longrightarrow> ar_account_id a \<notin> ar_account_id ` set (db_accounts db) \<Longrightarrow>
     wf_db (db\<lparr>db_accounts := db_accounts db @ [a]\<rparr>)"
  by (auto simp: wf_db_def)

lemma wf_upsert: "wf_db db \<Longrightarrow> wf_db (snd (upsert_account a code db))"
  by (auto simp: upsert_account_def list_ex_iff intro: wf_accounts) (rule wf_new_account, auto)

lemma wf_UpsertAccount: "wf_db db \<Longrightarrow> wf_db (snd (UpsertAccount db a code))"
  by (simp add: UpsertAccount_eq wf_upsert)

lemma wf_SaveOptions: "wf_db db \<Longrightarrow> wf_db (snd (SaveOptions db a opts))"
  using wf_accounts [of "op_begun db"] by (simp add: SaveOptions_eq update_options_def)

lemma wf_SavePosition: "wf_db db \<Longrightarrow> wf_db (snd (SavePosition db i m x y z d))"
  using wf_characters [of "op_begun db"] by (simp add: SavePosition_eq update_position_def)

section \<open>The store contract\<close>

lemma selected_by_slot:
  assumes "wf_db db"
  shows "by_slot (selected db a)"
proof -
  let ?rows = "filter (\<lambda>c. AccountID c = a \<and> DeletedTime c = 0) (db_characters db)"
  have "inj_on (\<lambda>c. (AccountID c, SlotIndex c)) (set (db_characters db))" "distinct (db_characters db)"
    using assms by (simp_all add: wf_db_def distinct_map)
  then have "inj_on (\<lambda>c. sint (SlotIndex c)) (set ?rows)" "distinct ?rows"
    by (auto simp: inj_on_def simp flip: word_eq_iff_signed)
  then have "distinct (map (\<lambda>c. sint (SlotIndex c)) (selected db a))"
    by (simp add: selected_def distinct_map)
  moreover have "sorted (map (\<lambda>c. sint (SlotIndex c)) (selected db a))" by (simp add: selected_def)
  ultimately have "sorted_wrt (<) (map (\<lambda>c. sint (SlotIndex c)) (selected db a))"
    by (simp add: strict_sorted_iff)
  then show ?thesis by (simp add: by_slot_def sorted_wrt_map)
qed

lemma set_selected: "set (selected db a) = {c \<in> set (db_characters db). AccountID c = a \<and> DeletedTime c = 0}"
  by (simp add: selected_def)

lemma selected_created:
  assumes "insert_character c (op_begun db) = (Inr (i, t), db')" "DeletedTime c = 0"
  shows "set (selected db' (AccountID c)) = insert (c\<lparr>ID := i, CreatedAt := t\<rparr>) (set (selected db (AccountID c)))"
    and "b \<noteq> AccountID c \<Longrightarrow> selected db' b = selected db b"
  using assms by (auto simp: insert_ok set_selected selected_def)

lemma account_calls_characters:
  "db_characters (snd (UpsertAccount db a code)) = db_characters db"
  "db_characters (snd (SaveOptions db a opts)) = db_characters db"
  "db_characters (snd (ListCharacters db a)) = db_characters db"
  by (simp_all add: UpsertAccount_eq upsert_account_def SaveOptions_eq update_options_def ListCharacters_eq)

interpretation pg: store UpsertAccount SaveOptions ListCharacters CreateCharacter wf_db selected
proof unfold_locales
  fix db db' a code r assume "wf_db db" "UpsertAccount db a code = (r, db')"
  then show "wf_db db' \<and> selected db' = selected db"
    using wf_UpsertAccount [of db a code] account_calls_characters(1) [of db a code] selected_cong [of db' db] by simp
next
  fix db db' a opts r assume "wf_db db" "SaveOptions db a opts = (r, db')"
  then show "wf_db db' \<and> selected db' = selected db"
    using wf_SaveOptions [of db a opts] account_calls_characters(2) [of db a opts] selected_cong [of db' db] by simp
next
  fix db db' a rs assume "wf_db db" "ListCharacters db a = (rs, db')"
  then show "wf_db db' \<and> selected db' = selected db \<and> (\<forall>cs. rs = Inr cs \<longrightarrow> cs = selected db a)"
    by (auto simp: ListCharacters_eq split: if_splits)
next
  fix db db' c c' assume *: "wf_db db" "DeletedTime c = 0" "CreateCharacter db c = (Inr c', db')"
  obtain i t where c: "insert_character c (op_begun db) = (Inr (i, t), db')" "c' = c\<lparr>ID := i, CreatedAt := t\<rparr>"
    by (rule CreateCharacter_ok [OF *(3)])
  then show "wf_db db' \<and> (\<exists>i t. c' = c\<lparr>ID := i, CreatedAt := t\<rparr>) \<and>
      set (selected db' (AccountID c)) = insert c' (set (selected db (AccountID c))) \<and>
      (\<forall>b. b \<noteq> AccountID c \<longrightarrow> selected db' b = selected db b)"
    using wf_CreateCharacter [OF *(1), of c] selected_created [OF c(1) *(2)] *(3) by auto
next
  fix db db' c e assume *: "wf_db db" "DeletedTime c = 0" "CreateCharacter db c = (Inl e, db')"
  have "wf_db db'" using wf_CreateCharacter [OF *(1), of c] *(3) by simp
  then show "wf_db db' \<and> (\<forall>b. b \<noteq> AccountID c \<longrightarrow> selected db' b = selected db b) \<and>
      (selected db' (AccountID c) = selected db (AccountID c) \<or>
       (\<exists>i t. set (selected db' (AccountID c)) = insert (c\<lparr>ID := i, CreatedAt := t\<rparr>) (set (selected db (AccountID c)))))"
    using *(3) selected_created [OF _ *(2)] by (elim CreateCharacter_rows) auto
qed (auto simp: selected_by_slot set_selected)

section \<open>The tables as maps\<close>

text \<open>
  The specification of the operations: the two tables as finite maps from their keys, and for each
  operation its answer and the tables after it. A connection that is down leaves them as they are
  and one that loses the reply does not, but the client hears the same.
\<close>

type_synonym tables = "(i64 \<rightharpoonup> account_row) \<times> (i64 \<rightharpoonup> character)"

definition accounts_of :: "db \<Rightarrow> i64 \<rightharpoonup> account_row" where
  "accounts_of db = (\<lambda>a. find (\<lambda>r. ar_account_id r = a) (db_accounts db))"

definition characters_of :: "db \<Rightarrow> i64 \<rightharpoonup> character" where
  "characters_of db = (\<lambda>i. find (\<lambda>c. ID c = i) (db_characters db))"

definition answers_with :: "db \<Rightarrow> (serr + 'r) \<times> db \<Rightarrow> string \<Rightarrow> serr + 'r \<Rightarrow> tables \<Rightarrow> bool" where
  "answers_with db out name res tabs \<longleftrightarrow>
     wf_db (snd out) \<and>
     fst out = (if next_fault db = Healthy then res else Inl (Wrapped name ConnectionLost)) \<and>
     (accounts_of (snd out), characters_of (snd out)) =
       (if next_fault db = ConnectionDown then (accounts_of db, characters_of db) else tabs)"

lemma find_keyed_map:
  "(\<And>x. key (f x) = key x) \<Longrightarrow> find (\<lambda>x. key x = k) (map f xs) = map_option f (find (\<lambda>x. key x = k) xs)"
  by (induction xs) auto

lemma find_keyed_append:
  "find (\<lambda>x. key x = k) (xs @ [y]) = (case find (\<lambda>x. key x = k) xs of None \<Rightarrow> if key y = k then Some y else None | Some x \<Rightarrow> Some x)"
  by (induction xs) auto

lemma find_keyed_None: "find (\<lambda>x. key x = k) xs = None \<longleftrightarrow> k \<notin> key ` set xs"
  by (induction xs) auto

lemma find_keyed_Some: "find (\<lambda>x. key x = k) xs = Some x \<Longrightarrow> x \<in> set xs \<and> key x = k"
  by (induction xs) (auto split: if_splits)

lemma ran_keyed:
  assumes "distinct (map key xs)"
  shows "ran (\<lambda>k. find (\<lambda>x. key x = k) xs) = set xs"
proof -
  have "find (\<lambda>y. key y = key x) xs = Some x" if "x \<in> set xs" for x
    using assms that by (induction xs) (auto simp: image_iff)
  then show ?thesis by (auto simp: ran_def dest: find_keyed_Some)
qed

lemma ran_characters: "wf_db db \<Longrightarrow> ran (characters_of db) = set (db_characters db)"
  unfolding characters_of_def by (rule ran_keyed) (simp add: wf_db_def)

lemma tables_begun [simp]:
  "accounts_of (op_begun db) = accounts_of db" "characters_of (op_begun db) = characters_of db"
  by (simp_all add: accounts_of_def characters_of_def)

lemma tables_update [simp]:
  "accounts_of (db\<lparr>db_characters := cs\<rparr>) = accounts_of db" "characters_of (db\<lparr>db_accounts := as\<rparr>) = characters_of db"
  "accounts_of (db\<lparr>db_next := n\<rparr>) = accounts_of db" "characters_of (db\<lparr>db_next := n\<rparr>) = characters_of db"
  by (simp_all add: accounts_of_def characters_of_def)

lemma answers_withI:
  assumes "out = (if next_fault db = Healthy then res else Inl (Wrapped name ConnectionLost),
      if next_fault db = ConnectionDown then op_begun db else db')"
    and "wf_db db" "wf_db db'" "accounts_of db' = as" "characters_of db' = cs"
  shows "answers_with db out name res (as, cs)"
  using assms by (simp add: answers_with_def)

lemma changed_key:
  assumes "\<And>k. (m :: 'k \<rightharpoonup> 'v) k = find (\<lambda>x. key x = k) xs" "\<And>x. key (f x) = key x"
  shows "find (\<lambda>x. key x = j) (map (\<lambda>x. if key x = k then f x else x) xs) = (m(k := map_option f (m k))) j"
proof -
  have "find (\<lambda>x. key x = j) (map (\<lambda>x. if key x = k then f x else x) xs) =
      map_option (\<lambda>x. if key x = k then f x else x) (find (\<lambda>x. key x = j) xs)"
    using assms(2) by (intro find_keyed_map) simp
  also have "\<dots> = (m(k := map_option f (m k))) j"
    by (cases "find (\<lambda>x. key x = j) xs") (auto simp: assms(1) dest: find_keyed_Some)
  finally show ?thesis .
qed

lemma UpsertAccount_effect:
  assumes "wf_db db"
  shows "answers_with db (UpsertAccount db a code) ''upsert account''
    (if storable code then Inr () else Inl (Wrapped ''upsert account'' bad_text))
    (if storable code
     then (accounts_of db)(a \<mapsto>
       (case accounts_of db a of
          None \<Rightarrow> \<lparr>ar_account_id = a, ar_user_code = code, ar_option_values = 0,
             ar_last_login_at = db_now db, ar_created_at = db_now db\<rparr>
        | Some r \<Rightarrow> r\<lparr>ar_user_code := code, ar_last_login_at := db_now db\<rparr>))
     else accounts_of db, characters_of db)"
proof (rule answers_withI)
  let ?f = "\<lambda>r. r\<lparr>ar_user_code := code, ar_last_login_at := db_now db\<rparr>"
  show "accounts_of (snd (upsert_account a code (op_begun db))) =
    (if storable code
     then (accounts_of db)(a \<mapsto>
       (case accounts_of db a of
          None \<Rightarrow> \<lparr>ar_account_id = a, ar_user_code = code, ar_option_values = 0,
             ar_last_login_at = db_now db, ar_created_at = db_now db\<rparr>
        | Some r \<Rightarrow> ?f r))
     else accounts_of db)"
  proof (cases "accounts_of db a")
    case None
    then have "\<not> list_ex (\<lambda>r. ar_account_id r = a) (db_accounts db)"
      by (auto simp: accounts_of_def find_keyed_None list_ex_iff)
    then show ?thesis using None
      by (auto simp: upsert_account_def accounts_of_def find_keyed_append fun_eq_iff split: option.splits)
  next
    case (Some r)
    then have "list_ex (\<lambda>r. ar_account_id r = a) (db_accounts db)"
      by (auto simp: accounts_of_def list_ex_iff dest: find_keyed_Some)
    moreover have "find (\<lambda>r. ar_account_id r = j) (map (\<lambda>r. if ar_account_id r = a then ?f r else r) (db_accounts db)) =
        ((accounts_of db)(a := map_option ?f (accounts_of db a))) j" for j
      by (rule changed_key) (simp_all add: accounts_of_def)
    ultimately show ?thesis using Some
      by (simp add: upsert_account_def accounts_of_def [of "_\<lparr>db_accounts := _\<rparr>"] fun_eq_iff cong: if_cong)
  qed
  show "characters_of (snd (upsert_account a code (op_begun db))) = characters_of db"
    by (simp add: upsert_account_def)
qed (simp_all add: assms UpsertAccount_eq wf_upsert)

lemma SaveOptions_effect:
  assumes "wf_db db"
  shows "answers_with db (SaveOptions db a opts) ''save options''
    (if accounts_of db a = None then Inl ErrNotFound else Inr ())
    ((accounts_of db)(a := map_option (\<lambda>r. r\<lparr>ar_option_values := ucast opts\<rparr>) (accounts_of db a)), characters_of db)"
proof (rule answers_withI)
  let ?f = "\<lambda>r. r\<lparr>ar_option_values := ucast opts\<rparr>"
  have "find (\<lambda>r. ar_account_id r = j) (map (\<lambda>r. if ar_account_id r = a then ?f r else r) (db_accounts db)) =
      ((accounts_of db)(a := map_option ?f (accounts_of db a))) j" for j
    by (rule changed_key) (simp_all add: accounts_of_def)
  then show "accounts_of (snd (update_options a (ucast opts) (op_begun db))) =
      (accounts_of db)(a := map_option ?f (accounts_of db a))"
    by (simp add: update_options_def accounts_of_def [of "_\<lparr>db_accounts := _\<rparr>"] fun_eq_iff)
  show "wf_db (snd (update_options a (ucast opts) (op_begun db)))"
    using assms wf_accounts [of "op_begun db"] by (simp add: update_options_def)
qed (simp_all add: assms SaveOptions_eq update_options_def accounts_of_def find_keyed_None)

lemma SavePosition_effect:
  assumes "wf_db db"
  shows "answers_with db (SavePosition db i m x y z d) ''save position''
    (if characters_of db i = None then Inl ErrNotFound else Inr ())
    (accounts_of db,
     (characters_of db)(i := map_option (\<lambda>c. c\<lparr>MapID := m, X := x, Y := y, Z := z, Dir := d\<rparr>) (characters_of db i)))"
proof (rule answers_withI)
  let ?f = "\<lambda>c. c\<lparr>MapID := m, X := x, Y := y, Z := z, Dir := d\<rparr>"
  have "find (\<lambda>c. ID c = j) (map (\<lambda>c. if ID c = i then ?f c else c) (db_characters db)) =
      ((characters_of db)(i := map_option ?f (characters_of db i))) j" for j
    by (rule changed_key) (simp_all add: characters_of_def)
  then show "characters_of (snd (update_position i m x y z d (op_begun db))) =
      (characters_of db)(i := map_option ?f (characters_of db i))"
    by (simp add: update_position_def characters_of_def [of "_\<lparr>db_characters := _\<rparr>"] fun_eq_iff)
  show "wf_db (snd (update_position i m x y z d (op_begun db)))"
    using assms wf_characters [of "op_begun db"] by (simp add: update_position_def)
qed (simp_all add: assms SavePosition_eq update_position_def characters_of_def find_keyed_None)

lemma GetCharacter_effect:
  assumes "wf_db db"
  shows "answers_with db (GetCharacter db i) ''get character''
    (case characters_of db i of None \<Rightarrow> Inl ErrNotFound | Some c \<Rightarrow> Inr c) (accounts_of db, characters_of db)"
  by (rule answers_withI [where db' = "op_begun db"]) (simp_all add: assms GetCharacter_eq characters_of_def)

lemma ListCharacters_effect:
  assumes "wf_db db"
  shows "answers_with db (ListCharacters db a) ''list characters'' (Inr (selected db a)) (accounts_of db, characters_of db) \<and>
    set (selected db a) = {c \<in> ran (characters_of db). AccountID c = a \<and> DeletedTime c = 0} \<and> by_slot (selected db a)"
proof -
  have "answers_with db (ListCharacters db a) ''list characters'' (Inr (selected db a)) (accounts_of db, characters_of db)"
    by (rule answers_withI [where db' = "op_begun db"]) (simp_all add: assms ListCharacters_eq)
  then show ?thesis using assms by (simp add: ran_characters set_selected selected_by_slot)
qed

text \<open>The answer to a creation, by the rows there are: what \<open>uniqueViolation\<close> makes of the constraints.\<close>

definition creation :: "db \<Rightarrow> character \<Rightarrow> serr + character" where
  "creation db c =
     (let rows = ran (characters_of db) in
      if \<not> (storable (Name c) \<and> storable (GuildName c)) then Inl (Wrapped ''create character'' bad_text)
      else if db_next db \<ge> 2 ^ 63 then Inl (Wrapped ''create character'' (PgError ''2200H'' []))
      else if \<exists>r\<in>rows. AccountID r = AccountID c \<and> SlotIndex r = SlotIndex c then Inl ErrSlotTaken
      else if DeletedTime c = 0 \<and> (\<exists>r\<in>rows. DeletedTime r = 0 \<and> Name r = Name c) then Inl ErrNameTaken
      else if accounts_of db (AccountID c) = None
      then Inl (Wrapped ''create character'' (PgError ''23503'' ''characters_account_id_fkey''))
      else Inr (c\<lparr>ID := word_of_int (db_next db), CreatedAt := db_now db\<rparr>))"

lemma fst_insert_character:
  assumes "wf_db db"
  shows "(case fst (insert_character c db) of
      Inl e \<Rightarrow> (case uniqueViolation e of Some taken \<Rightarrow> Inl taken | None \<Rightarrow> Inl (Wrapped ''create character'' e))
    | Inr (new_id, created) \<Rightarrow> Inr (c\<lparr>ID := new_id, CreatedAt := created\<rparr>)) = creation db c"
proof -
  have "\<not> 2 ^ 63 \<le> db_next db \<Longrightarrow> \<not> (\<exists>r\<in>set (db_characters db). ID r = word_of_int (db_next db))"
    using fresh_id [OF assms] unfolding not_le by blast
  moreover have "accounts_of db (AccountID c) = None \<longleftrightarrow> \<not> (\<exists>a\<in>set (db_accounts db). ar_account_id a = AccountID c)"
    by (auto simp: accounts_of_def find_keyed_None image_iff)
  ultimately show ?thesis
    unfolding creation_def insert_character_def Let_def inserted_row ran_characters [OF assms]
    by (cases "storable (Name c) \<and> storable (GuildName c)"; cases "2 ^ 63 \<le> db_next db")
      (simp_all add: list_ex_iff bad_text_def)
qed

lemma CreateCharacter_effect:
  assumes "wf_db db"
  shows "answers_with db (CreateCharacter db c) ''create character'' (creation db c)
    (accounts_of db, case creation db c of Inl _ \<Rightarrow> characters_of db | Inr c' \<Rightarrow> (characters_of db)(ID c' \<mapsto> c'))"
proof (rule answers_withI)
  let ?db' = "snd (insert_character c (op_begun db))"
  have w: "wf_db (op_begun db)" using assms by simp
  have cr: "creation (op_begun db) c = creation db c" by (simp add: creation_def Let_def cong: if_cong)
  note res = fst_insert_character [OF w, of c, unfolded cr]
  show "CreateCharacter db c =
      (if next_fault db = Healthy then creation db c else Inl (Wrapped ''create character'' ConnectionLost),
       if next_fault db = ConnectionDown then op_begun db else ?db')"
    using res by (simp add: CreateCharacter_def exec_sql_eq split_beta)
  consider (no) e n where "fst (insert_character c (op_begun db)) = Inl e" "?db' = (op_begun db)\<lparr>db_next := n\<rparr>" "db_next db \<le> n"
    | (yes) i t where "insert_character c (op_begun db) = (Inr (i, t), ?db')"
  proof (cases "fst (insert_character c (op_begun db))")
    case (Inl e)
    then have "?db' = op_begun db \<or> ?db' = (op_begun db)\<lparr>db_next := db_next db + 1\<rparr>"
      using insert_err [of c "op_begun db" e ?db'] by (auto simp: prod_eq_iff)
    then show thesis using no [OF Inl, of "db_next db"] no [OF Inl, of "db_next db + 1"] by auto
  next
    case (Inr it)
    then show thesis by (intro yes [of "fst it" "snd it"]) (simp add: prod_eq_iff)
  qed
  then have "wf_db ?db' \<and> accounts_of ?db' = accounts_of db \<and>
      characters_of ?db' = (case creation db c of Inl _ \<Rightarrow> characters_of db | Inr c' \<Rightarrow> (characters_of db)(ID c' \<mapsto> c'))"
  proof cases
    case no
    then have "creation db c = (case uniqueViolation e of Some taken \<Rightarrow> Inl taken | None \<Rightarrow> Inl (Wrapped ''create character'' e))"
      using res by simp
    then obtain e' where "creation db c = Inl e'" by (cases "uniqueViolation e") auto
    then show ?thesis using no assms wf_db_next [of "op_begun db" n] by simp
  next
    case yes
    then have c: "creation db c = Inr (c\<lparr>ID := i, CreatedAt := t\<rparr>)"
      using res by (metis (no_types, lifting) case_prod_conv fst_conv sum.case(2))
    have db': "?db' = (op_begun db)\<lparr>db_next := db_next db + 1,
        db_characters := db_characters db @ [c\<lparr>ID := i, CreatedAt := t\<rparr>]\<rparr>" "\<forall>r\<in>set (db_characters db). ID r \<noteq> i"
      using yes [unfolded insert_ok] by auto
    have "characters_of ?db' j = ((characters_of db)(i \<mapsto> c\<lparr>ID := i, CreatedAt := t\<rparr>)) j" for j
      using db'(2) find_keyed_None [of ID i "db_characters db"] unfolding db'(1)
      by (auto simp: characters_of_def find_keyed_append split: option.split)
    then show ?thesis using c wf_insert [OF w yes] db'(1) by (auto simp: fun_eq_iff accounts_of_def)
  qed
  then show "wf_db ?db'" "accounts_of ?db' = accounts_of db"
    "characters_of ?db' = (case creation db c of Inl _ \<Rightarrow> characters_of db | Inr c' \<Rightarrow> (characters_of db)(ID c' \<mapsto> c'))"
    by blast+
qed (rule assms)

section \<open>Opening and closing\<close>

text \<open>
  \<open>New\<close> and \<open>Close\<close> of \<open>postgres/store.go\<close>: what pgx says to opening a pool and to a ping, and the
  pools that are open. A store is known by its connection string.
\<close>

record pgx =
  px_open :: "string \<Rightarrow> bool"
  px_ping :: "string \<Rightarrow> bool"

datatype open_error = OpenPoolFailed | PingFailed

definition Close_store :: "string \<Rightarrow> string list \<Rightarrow> string list" where
  "Close_store pool pools = remove1 pool pools"

definition New_store :: "pgx \<Rightarrow> string \<Rightarrow> string list \<Rightarrow> (open_error + string) \<times> string list" where
  "New_store px dsn pools =
     (if \<not> px_open px dsn then (Inl OpenPoolFailed, pools)
      else
        let pools1 = dsn # pools in
        if \<not> px_ping px dsn then (Inl PingFailed, Close_store dsn pools1) else (Inr dsn, pools1))"

text \<open>A store that cannot be opened leaves no pool behind, and one that was opened closes its own.\<close>

lemma New_store_pools:
  "New_store px dsn pools = (r, pools') \<Longrightarrow> (case r of Inl e \<Rightarrow> pools' = pools | Inr pool \<Rightarrow> Close_store pool pools' = pools)"
  by (auto simp: New_store_def Close_store_def Let_def split: if_splits)

section \<open>Properties\<close>

definition empty_db :: db where
  "empty_db = \<lparr>db_accounts = [], db_characters = [], db_next = 1, db_now = 1789801837, db_faults = []\<rparr>"

lemma wf_empty_db [simp]: "wf_db empty_db"
  by (simp add: wf_db_def empty_db_def)

definition archer :: character where
  "archer = no_character\<lparr>AccountID := 3, SlotIndex := 1, Name := ''Archer'', ClassType := 2, Level := 1, MapID := 501\<rparr>"

definition tana_db :: db where
  "tana_db = snd (UpsertAccount empty_db 3 ''tana'')"

definition archer_db :: db where
  "archer_db = snd (CreateCharacter tana_db archer)"

text \<open>C33. A listing is the selection screen: exactly the account's characters that are not deleted, each
  once, in the order of their slots.\<close>
theorem list_is_selection:
  assumes "wf_db db" "fst (ListCharacters db a) = Inr cs"
  shows "set cs = {c \<in> set (db_characters db). AccountID c = a \<and> DeletedTime c = 0} \<and>
    sorted_wrt (\<lambda>c d. sint (SlotIndex c) < sint (SlotIndex d)) cs \<and> distinct cs"
proof -
  have cs: "cs = selected db a" using assms(2) by (simp add: ListCharacters_eq split: if_splits)
  have "distinct cs" using pg.slots_distinct [OF assms(1), of a] unfolding cs distinct_map by blast
  then show ?thesis
    using pg.ordered [OF assms(1), of a] unfolding cs by (simp add: set_selected by_slot_def)
qed

lemma find_last: "(\<And>y. y \<in> set xs \<Longrightarrow> \<not> P y) \<Longrightarrow> P x \<Longrightarrow> find P (xs @ [x]) = Some x"
  by (induction xs) auto

text \<open>C34. A created character is stored as it was given: it has the identifier and the time the database
  chose and every other field as in the request, reading it back by its identifier gives the same
  record, and no other character of the database changes.\<close>
theorem create_then_get:
  assumes "wf_db db" "CreateCharacter db c = (Inr c', db')" "db_faults db' = []"
  shows "GetCharacter db' (ID c') = (Inr c', db') \<and> c' = c\<lparr>ID := ID c', CreatedAt := db_now db\<rparr> \<and>
    db_characters db' = db_characters db @ [c']"
proof -
  from assms(2) obtain i t where c: "insert_character c (op_begun db) = (Inr (i, t), db')"
    "c' = c\<lparr>ID := i, CreatedAt := t\<rparr>" by (rule CreateCharacter_ok)
  then have r: "db_characters db' = db_characters db @ [c']" "t = db_now db"
    "\<forall>r\<in>set (db_characters db). ID r \<noteq> ID c'" by (auto simp: insert_ok)
  have "find (\<lambda>r. ID r = ID c') (db_characters db') = Some c'"
    unfolding r(1) using r(3) by (intro find_last) auto
  then show ?thesis using c r assms(3) by (simp add: GetCharacter_eq next_fault_def op_begun_def)
qed

lemma storable_samples: "storable ''tana''" "storable ''Archer''" "storable []"
  by (rule storable_ascii, simp)+

lemma archer_names: "Name archer = ''Archer''" "GuildName archer = []"
  by (simp_all add: archer_def no_character_def)

lemma tana_db_eq:
  "tana_db = empty_db\<lparr>db_accounts := [\<lparr>ar_account_id = 3, ar_user_code = ''tana'', ar_option_values = 0,
     ar_last_login_at = 1789801837, ar_created_at = 1789801837\<rparr>]\<rparr>"
  by (simp add: tana_db_def UpsertAccount_eq next_fault_def upsert_account_def storable_samples(1) empty_db_def op_begun_def)

lemma archer_inserted:
  "insert_character archer tana_db = (Inr (1, 1789801837),
     tana_db\<lparr>db_next := 2, db_characters := [archer\<lparr>ID := 1, CreatedAt := 1789801837\<rparr>]\<rparr>)"
  unfolding insert_ok archer_names tana_db_eq using storable_samples
  by (simp add: empty_db_def) (simp add: archer_def no_character_def)

lemma archer_created:
  "CreateCharacter tana_db archer = (Inr (archer\<lparr>ID := 1, CreatedAt := 1789801837\<rparr>),
     tana_db\<lparr>db_next := 2, db_characters := [archer\<lparr>ID := 1, CreatedAt := 1789801837\<rparr>]\<rparr>)"
  "db_faults tana_db = []"
proof -
  show f: "db_faults tana_db = []" by (simp add: tana_db_eq empty_db_def)
  from exec_sql_healthy [OF this, of "insert_character archer"] show "CreateCharacter tana_db archer = (Inr (archer\<lparr>ID := 1, CreatedAt := 1789801837\<rparr>),
     tana_db\<lparr>db_next := 2, db_characters := [archer\<lparr>ID := 1, CreatedAt := 1789801837\<rparr>]\<rparr>)"
    using archer_inserted by (simp add: CreateCharacter_def)
qed

lemma archer_db_eq:
  "archer_db = tana_db\<lparr>db_next := 2, db_characters := [archer\<lparr>ID := 1, CreatedAt := 1789801837\<rparr>]\<rparr>"
  by (simp add: archer_db_def archer_created)

lemma wf_samples: "wf_db tana_db" "wf_db archer_db"
  by (simp_all add: tana_db_def archer_db_def wf_CreateCharacter wf_UpsertAccount)

lemma list_is_selection_witness:
  "set [archer\<lparr>ID := 1, CreatedAt := 1789801837\<rparr>] = {c \<in> set (db_characters archer_db). AccountID c = 3 \<and> DeletedTime c = 0}"
proof -
  have "next_fault archer_db = Healthy" using archer_created(2) by (simp add: next_fault_def archer_db_eq)
  moreover have "AccountID archer = 3" "DeletedTime archer = 0" by (simp_all add: archer_def no_character_def)
  ultimately have "fst (ListCharacters archer_db 3) = Inr [archer\<lparr>ID := 1, CreatedAt := 1789801837\<rparr>]"
    by (simp add: ListCharacters_eq selected_def archer_db_eq)
  from list_is_selection [OF wf_samples(2) this] show ?thesis by blast
qed

lemma create_then_get_witness:
  "GetCharacter archer_db 1 = (Inr (archer\<lparr>ID := 1, CreatedAt := 1789801837\<rparr>), archer_db)"
proof -
  have "db_faults archer_db = []" using archer_created(2) by (simp add: archer_db_eq)
  from create_then_get [OF wf_samples(1) archer_created(1) [folded archer_db_eq] this]
  show ?thesis by simp
qed

text \<open>C16. What every operation of the store does, and leaves alone, on the two tables read as maps from
  their keys. A login writes the account's code and login time, and keeps its options and creation
  time or starts them at zero and now; options and positions are written to the row with the
  given key only and report \<open>ErrNotFound\<close> exactly when there is none; a character is added under a
  new key with the answer \<open>creation\<close> gives, or nothing is; the two queries change nothing, a
  listing has the account's characters that are not deleted in slot order, a lookup the row of the
  key. No other row and no other column changes. When the connection is down before the statement
  nothing changes, when it fails after it everything does, and in both cases the caller hears the
  error of the connection. The keys, unique indexes and the foreign key of the migrations hold
  again afterwards, in every case.\<close>
theorem store_effects:
  assumes "wf_db db"
  shows
    "answers_with db (UpsertAccount db a code) ''upsert account''
       (if storable code then Inr () else Inl (Wrapped ''upsert account'' bad_text))
       (if storable code
        then (accounts_of db)(a \<mapsto>
          (case accounts_of db a of
             None \<Rightarrow> \<lparr>ar_account_id = a, ar_user_code = code, ar_option_values = 0,
                ar_last_login_at = db_now db, ar_created_at = db_now db\<rparr>
           | Some r \<Rightarrow> r\<lparr>ar_user_code := code, ar_last_login_at := db_now db\<rparr>))
        else accounts_of db, characters_of db) \<and>
     answers_with db (SaveOptions db a opts) ''save options''
       (if accounts_of db a = None then Inl ErrNotFound else Inr ())
       ((accounts_of db)(a := map_option (\<lambda>r. r\<lparr>ar_option_values := ucast opts\<rparr>) (accounts_of db a)), characters_of db) \<and>
     answers_with db (SavePosition db i m x y z d) ''save position''
       (if characters_of db i = None then Inl ErrNotFound else Inr ())
       (accounts_of db,
        (characters_of db)(i := map_option (\<lambda>c. c\<lparr>MapID := m, X := x, Y := y, Z := z, Dir := d\<rparr>) (characters_of db i))) \<and>
     answers_with db (CreateCharacter db c) ''create character'' (creation db c)
       (accounts_of db, case creation db c of Inl _ \<Rightarrow> characters_of db | Inr c' \<Rightarrow> (characters_of db)(ID c' \<mapsto> c')) \<and>
     answers_with db (GetCharacter db i) ''get character''
       (case characters_of db i of None \<Rightarrow> Inl ErrNotFound | Some c \<Rightarrow> Inr c) (accounts_of db, characters_of db) \<and>
     (\<exists>cs. answers_with db (ListCharacters db a) ''list characters'' (Inr cs) (accounts_of db, characters_of db) \<and>
       set cs = {c \<in> ran (characters_of db). AccountID c = a \<and> DeletedTime c = 0} \<and> by_slot cs)"
  using UpsertAccount_effect [OF assms] SaveOptions_effect [OF assms] SavePosition_effect [OF assms]
    CreateCharacter_effect [OF assms] GetCharacter_effect [OF assms] ListCharacters_effect [OF assms] by blast

lemma store_effects_witness:
  "fst (SaveOptions archer_db 3 7) = Inr () \<and> fst (SaveOptions archer_db 4 7) = Inl ErrNotFound \<and>
   map_option ar_option_values (accounts_of (snd (SaveOptions archer_db 3 7)) 3) = Some 7 \<and>
   characters_of (snd (SaveOptions archer_db 3 7)) = characters_of archer_db \<and>
   fst (SavePosition archer_db 2 501 0 0 0 0) = Inl ErrNotFound"
proof -
  have f: "next_fault archer_db = Healthy" using archer_created(2) by (simp add: next_fault_def archer_db_eq)
  have a: "accounts_of archer_db 4 = None" "accounts_of archer_db 3 \<noteq> None" "characters_of archer_db 2 = None"
    by (simp_all add: accounts_of_def characters_of_def archer_db_eq tana_db_eq)
  then show ?thesis
    using store_effects [OF wf_samples(2), where a = 3 and opts = 7] store_effects [OF wf_samples(2), where a = 4 and opts = 7]
      store_effects [OF wf_samples(2), where i = 2 and m = 501 and x = 0 and y = 0 and z = 0 and d = 0] f
    by (auto simp: answers_with_def option.map_comp comp_def)
qed

lemma slot_taken:
  assumes "wf_db db" "db_faults db = []" "db_next db < 2 ^ 63" "storable (Name c)" "storable (GuildName c)"
    and "r \<in> set (db_characters db)" "AccountID r = AccountID c" "SlotIndex r = SlotIndex c"
  shows "CreateCharacter db c = (Inl ErrSlotTaken, db\<lparr>db_next := db_next db + 1\<rparr>)"
  using assms fresh_id [OF assms(1,3)]
  unfolding CreateCharacter_def exec_sql_healthy [OF assms(2)] insert_character_def Let_def inserted_row
  by (auto simp: list_ex_iff)

text \<open>C35. Who is refused a character, and with which error: a slot that any character of the account
  holds, a deleted one too, is taken; otherwise a name that an active character anywhere bears is
  taken; otherwise the character is created. The name of a deleted character is free again, its
  slot is not.\<close>
theorem create_outcomes:
  assumes "wf_db db" "db_faults db = []" "db_next db < 2 ^ 63"
    and "storable (Name c)" "storable (GuildName c)" "AccountID c \<in> ar_account_id ` set (db_accounts db)"
  shows "fst (CreateCharacter db c) =
    (if \<exists>r\<in>set (db_characters db). AccountID r = AccountID c \<and> SlotIndex r = SlotIndex c then Inl ErrSlotTaken
     else if DeletedTime c = 0 \<and> (\<exists>r\<in>set (db_characters db). DeletedTime r = 0 \<and> Name r = Name c) then Inl ErrNameTaken
     else Inr (c\<lparr>ID := word_of_int (db_next db), CreatedAt := db_now db\<rparr>))"
proof -
  have "\<not> (\<exists>r\<in>set (db_characters db). ID r = word_of_int (db_next db))"
    using fresh_id [OF assms(1,3)] by blast
  moreover have "\<exists>a\<in>set (db_accounts db). ar_account_id a = AccountID c" using assms(6) by auto
  ultimately show ?thesis
    using assms(2-5)
    unfolding CreateCharacter_def exec_sql_healthy [OF assms(2)] insert_character_def Let_def inserted_row
    by (simp add: list_ex_iff)
qed

lemma create_outcomes_witness:
  "fst (CreateCharacter archer_db archer) = Inl ErrSlotTaken"
proof -
  have "storable (Name archer)" "storable (GuildName archer)" by (simp_all add: archer_names storable_samples)
  moreover have "AccountID archer \<in> ar_account_id ` set (db_accounts archer_db)" "db_next archer_db < 2 ^ 63"
    by (simp_all add: archer_db_eq tana_db_eq) (simp add: archer_def no_character_def)
  moreover have "db_faults archer_db = []" using archer_created(2) by (simp add: archer_db_eq)
  ultimately show ?thesis
    using create_outcomes [of archer_db archer] wf_samples(2) by (simp add: archer_db_eq)
qed

end
