(* ===== verification/GoStrconv.thy ===== *)
theory GoStrconv
  imports GoStrings
begin

text \<open>
  The parts of \<open>strconv\<close> and \<open>strings\<close> that configuration and authentication use: decimal numbers
  in both directions, booleans, trimming at a set of characters and lower case of ASCII text.
\<close>

section \<open>Decimal numbers\<close>

definition digit :: "nat \<Rightarrow> char" where
  "digit n = char_of (48 + n)"

definition is_digit :: "char \<Rightarrow> bool" where
  "is_digit c \<longleftrightarrow> in_range c 48 57"

fun nat_digits :: "nat \<Rightarrow> string" where
  "nat_digits n = (if n < 10 then [digit n] else nat_digits (n div 10) @ [digit (n mod 10)])"

declare nat_digits.simps [simp del]

text \<open>\<open>strconv.Itoa\<close> and \<open>strconv.FormatInt(n, 10)\<close>.\<close>

definition Itoa :: "int \<Rightarrow> string" where
  "Itoa n = (if n < 0 then CHR ''-'' # nat_digits (nat (- n)) else nat_digits (nat n))"

definition digits_value :: "string \<Rightarrow> nat" where
  "digits_value s = foldl (\<lambda>a c. 10 * a + (of_char c - 48)) 0 s"

datatype num_error = ErrSyntax | ErrRange

text \<open>
  \<open>strconv.ParseInt(s, 10, bits)\<close>, and \<open>strconv.Atoi\<close>, which is the case of 64 bits: an optional
  sign and at least one digit, nothing else.
\<close>

definition ParseUnsigned :: "string \<Rightarrow> num_error + nat" where
  "ParseUnsigned s = (if s \<noteq> [] \<and> list_all is_digit s then Inr (digits_value s) else Inl ErrSyntax)"

definition ParseInt :: "nat \<Rightarrow> string \<Rightarrow> num_error + int" where
  "ParseInt bits s =
     (let neg = (case s of c # _ \<Rightarrow> c = CHR ''-'' | [] \<Rightarrow> False);
          rest = (case s of c # cs \<Rightarrow> if c \<in> {CHR ''+'', CHR ''-''} then cs else s | [] \<Rightarrow> [])
      in rbind (ParseUnsigned rest) (\<lambda>un.
        if neg then (if 2 ^ (bits - 1) < un then Inl ErrRange else Inr (- int un))
        else if 2 ^ (bits - 1) \<le> un then Inl ErrRange else Inr (int un)))"

definition Atoi :: "string \<Rightarrow> num_error + int" where
  "Atoi s = ParseInt 64 s"

lemma of_char_digit: "n < 10 \<Longrightarrow> of_char (digit n) = 48 + n"
  by (simp add: digit_def)

lemma is_digit_digit [simp]: "n < 10 \<Longrightarrow> is_digit (digit n)"
  by (simp add: is_digit_def in_range_def of_char_digit)

lemma digits_value_snoc: "digits_value (s @ [c]) = 10 * digits_value s + (of_char c - 48)"
  by (simp add: digits_value_def)

lemma nat_digits_ok:
  "nat_digits n \<noteq> [] \<and> list_all is_digit (nat_digits n) \<and> digits_value (nat_digits n) = n"
proof (induction n rule: nat_digits.induct)
  case (1 n)
  show ?case
  proof (cases "n < 10")
    case True
    then show ?thesis by (subst (1 2 3) nat_digits.simps) (simp add: digits_value_def of_char_digit)
  next
    case False
    with 1 show ?thesis
      by (subst (1 2 3) nat_digits.simps) (simp add: digits_value_snoc of_char_digit)
  qed
qed

lemma is_digit_sign: "is_digit c \<Longrightarrow> c \<noteq> CHR ''+'' \<and> c \<noteq> CHR ''-''"
  by (auto simp: is_digit_def in_range_def)

lemma ParseUnsigned_nat_digits [simp]: "ParseUnsigned (nat_digits n) = Inr n"
  using nat_digits_ok by (simp add: ParseUnsigned_def)

lemma nat_digits_Cons: "\<exists>c cs. nat_digits n = c # cs \<and> c \<noteq> CHR ''+'' \<and> c \<noteq> CHR ''-''"
proof -
  obtain c cs where n: "nat_digits n = c # cs" using nat_digits_ok [of n] by (cases "nat_digits n") auto
  then have "is_digit c" using nat_digits_ok [of n] by simp
  then show ?thesis using n is_digit_sign by blast
qed

lemma ParseInt_Itoa:
  assumes "- (2 ^ (bits - 1)) \<le> n" "n < 2 ^ (bits - 1)"
  shows "ParseInt bits (Itoa n) = Inr n"
proof (cases "n < 0")
  case True
  have "nat (- n) \<le> 2 ^ (bits - 1)" using assms(1) by (simp add: nat_le_iff)
  then show ?thesis using True by (simp add: Itoa_def ParseInt_def)
next
  case False
  have b: "nat n < 2 ^ (bits - 1)" using assms(2) False by (simp add: nat_less_iff)
  obtain c cs where c: "nat_digits (nat n) = c # cs" "c \<noteq> CHR ''+''" "c \<noteq> CHR ''-''"
    using nat_digits_Cons by blast
  have "ParseUnsigned (c # cs) = Inr (nat n)" using c(1) ParseUnsigned_nat_digits [of "nat n"] by simp
  then show ?thesis using False b c by (simp add: Itoa_def ParseInt_def)
qed

section \<open>Booleans, trimming, case\<close>

text \<open>\<open>strconv.ParseBool\<close>.\<close>

definition ParseBool :: "string \<Rightarrow> num_error + bool" where
  "ParseBool s =
     (if s \<in> {''1'', ''t'', ''T'', ''true'', ''TRUE'', ''True''} then Inr True
      else if s \<in> {''0'', ''f'', ''F'', ''false'', ''FALSE'', ''False''} then Inr False
      else Inl ErrSyntax)"

text \<open>\<open>strings.Trim\<close> and \<open>strings.TrimRight\<close> at one ASCII character.\<close>

definition TrimRight :: "char \<Rightarrow> string \<Rightarrow> string" where
  "TrimRight c s = rev (dropWhile (\<lambda>x. x = c) (rev s))"

definition Trim :: "char \<Rightarrow> string \<Rightarrow> string" where
  "Trim c s = TrimRight c (dropWhile (\<lambda>x. x = c) s)"

lemma TrimRight_id: "s \<noteq> [] \<Longrightarrow> last s \<noteq> c \<Longrightarrow> TrimRight c s = s"
  by (cases "rev s") (auto simp: TrimRight_def rev_swap)

lemma TrimRight_snoc [simp]: "TrimRight c (s @ [c]) = TrimRight c s"
  by (simp add: TrimRight_def)

text \<open>
  \<open>strings.ToLower\<close>, as far as a comparison with ASCII text can tell: the letters of ASCII go to
  lower case, and so do the two other runes whose lower case is an ASCII letter, the Kelvin sign
  and the dotted capital I.
\<close>

definition lower_rune :: "rune \<Rightarrow> rune" where
  "lower_rune r =
     (if 65 \<le> r \<and> r \<le> 90 then r + 32 else if r = 0x212A then 107 else if r = 0x130 then 105 else r)"

definition ToLower :: "string \<Rightarrow> string" where
  "ToLower s = string_of_runes (map lower_rune (runes_of s))"

end
