(* ===== verification/Auth.thy ===== *)
theory Auth
  imports GoStrconv
begin

text \<open>
  The region client of \<open>internal/auth/client.go\<close>: the session record and its JSON decoding, the
  tolerant integer \<open>flexInt64\<close>, and \<open>Validate\<close>. The region service and the network to it are a
  parameter, a function from requests to outcomes.
\<close>

section \<open>JSON values\<close>

text \<open>
  A JSON document as \<open>encoding/json\<close> hands it to the decoder of a struct. A number keeps its
  literal and a string its source text beside the decoded one, since \<open>UnmarshalJSON\<close> is given
  the source; of arrays and nested objects only the source matters.
\<close>

datatype json =
    JNull
  | JBool bool
  | JNumber string
  | JString string string
  | JObject "(string \<times> json) list"
  | JOther string

fun source :: "json \<Rightarrow> string" where
  "source JNull = ''null''"
| "source (JBool b) = (if b then ''true'' else ''false'')"
| "source (JNumber l) = l"
| "source (JString raw s) = raw"
| "source (JObject ms) = ''{''"
| "source (JOther raw) = raw"

section \<open>The session record\<close>

record auth_session =
  SessionKey :: i32
  sAccountID :: i64
  UserCode :: string
  WorldID :: i64
  ExpiresAt :: i64

definition no_session :: auth_session where
  "no_session = \<lparr>SessionKey = 0, sAccountID = 0, UserCode = [], WorldID = 0, ExpiresAt = 0\<rparr>"

datatype aerr =
    ErrSessionInvalid
  | BuildRequest
  | CallRegion
  | RegionStatus nat
  | DecodeResponse

text \<open>\<open>flexInt64.UnmarshalJSON\<close>: it never fails.\<close>

definition UnmarshalJSON :: "string \<Rightarrow> i64" where
  "UnmarshalJSON data =
     (if data = ''null'' then 0
      else
        let s = Trim CHR 0x22 data in
        if s = [] then 0
        else (case ParseInt 64 s of Inl _ \<Rightarrow> 0 | Inr n \<Rightarrow> word_of_int n))"

text \<open>
  The name of a member is compared with a tag up to case; besides the letters of ASCII, the long s
  and the Kelvin sign fold to the letters of the tags.
\<close>

definition fold_rune :: "rune \<Rightarrow> rune" where
  "fold_rune r =
     (if 97 \<le> r \<and> r \<le> 122 then r - 32 else if r = 0x17F then 83 else if r = 0x212A then 75 else r)"

definition fold_name :: "string \<Rightarrow> rune list" where
  "fold_name s = map fold_rune (runes_of s)"

definition tags :: "string list" where
  "tags = [''sessionKey'', ''accountId'', ''userCode'', ''worldId'', ''expiresAt'']"

definition field_of :: "string \<Rightarrow> string option" where
  "field_of name = (if name \<in> set tags then Some name else find (\<lambda>t. fold_name t = fold_name name) tags)"

text \<open>A JSON number for a signed integer field of the given width; \<open>null\<close> leaves a field alone.\<close>

fun int_field :: "nat \<Rightarrow> json \<Rightarrow> int option option" where
  "int_field bits JNull = Some None"
| "int_field bits (JNumber l) = (case ParseInt bits l of Inr n \<Rightarrow> Some (Some n) | Inl _ \<Rightarrow> None)"
| "int_field bits _ = None"

fun string_field :: "json \<Rightarrow> string option option" where
  "string_field JNull = Some None"
| "string_field (JString raw s) = Some (Some s)"
| "string_field _ = None"

text \<open>
  One member of the document. A value that does not fit its field is remembered as the error of
  the whole decoding, which goes on with the other members.
\<close>

definition set_member :: "string \<times> json \<Rightarrow> auth_session \<times> bool \<Rightarrow> auth_session \<times> bool" where
  "set_member m st =
     (let (s, good) = st; (name, v) = m in
      case field_of name of
        None \<Rightarrow> (s, good)
      | Some t \<Rightarrow>
          if t = ''sessionKey'' then
            (case int_field 32 v of None \<Rightarrow> (s, False) | Some None \<Rightarrow> (s, good)
             | Some (Some n) \<Rightarrow> (s\<lparr>SessionKey := word_of_int n\<rparr>, good))
          else if t = ''accountId'' then
            (case int_field 64 v of None \<Rightarrow> (s, False) | Some None \<Rightarrow> (s, good)
             | Some (Some n) \<Rightarrow> (s\<lparr>sAccountID := word_of_int n\<rparr>, good))
          else if t = ''userCode'' then
            (case string_field v of None \<Rightarrow> (s, False) | Some None \<Rightarrow> (s, good)
             | Some (Some c) \<Rightarrow> (s\<lparr>UserCode := c\<rparr>, good))
          else if t = ''worldId'' then
            (case int_field 64 v of None \<Rightarrow> (s, False) | Some None \<Rightarrow> (s, good)
             | Some (Some n) \<Rightarrow> (s\<lparr>WorldID := word_of_int n\<rparr>, good))
          else (s\<lparr>ExpiresAt := UnmarshalJSON (source v)\<rparr>, good))"

text \<open>\<open>json.NewDecoder(body).Decode(&session)\<close>; \<open>None\<close> is a body that is not a JSON document.\<close>

fun decode_session :: "json option \<Rightarrow> auth_session option" where
  "decode_session None = None"
| "decode_session (Some JNull) = Some no_session"
| "decode_session (Some (JObject ms)) =
     (let (s, good) = fold set_member ms (no_session, True) in if good then Some s else None)"
| "decode_session (Some _) = None"

section \<open>The client\<close>

record client =
  baseURL :: string
  consume :: bool

definition NewClient :: "string \<Rightarrow> bool \<Rightarrow> client" where
  "NewClient url single = \<lparr>baseURL = TrimRight CHR ''/'' url, consume = single\<rparr>"

record request =
  rq_method :: string
  rq_url :: string

text \<open>The region service: a request that cannot be built or sent, or a status and a body.\<close>

type_synonym region = "request \<Rightarrow> aerr + (nat \<times> json option)"

definition session_request :: "client \<Rightarrow> i32 \<Rightarrow> request" where
  "session_request c sessionKey =
     (let url = baseURL c @ ''/internal/sessions/'' @ Itoa (sint sessionKey) in
      if consume c then \<lparr>rq_method = ''POST'', rq_url = url @ ''/consume''\<rparr>
      else \<lparr>rq_method = ''GET'', rq_url = url\<rparr>)"

definition Validate :: "region \<Rightarrow> client \<Rightarrow> i32 \<Rightarrow> string \<Rightarrow> aerr + auth_session" where
  "Validate region c sessionKey accountCode =
     rbind (region (session_request c sessionKey)) (\<lambda>(status, body).
       if status = 404 then Inl ErrSessionInvalid
       else if status \<noteq> 200 then Inl (RegionStatus status)
       else (case decode_session body of
               None \<Rightarrow> Inl DecodeResponse
             | Some session \<Rightarrow>
                 if UserCode session \<noteq> accountCode then Inl ErrSessionInvalid else Inr session))"

section \<open>Lemmas\<close>

lemma ParseInt_sint: "ParseInt 64 (Itoa (sint (n :: i64))) = Inr (sint n)"
  using sint_range_size [of n] by (intro ParseInt_Itoa) (simp_all add: word_size)

lemma Itoa_sint_inj: "Itoa (sint (m :: i32)) = Itoa (sint n) \<longleftrightarrow> m = n"
proof
  have p: "ParseInt 32 (Itoa (sint k)) = Inr (sint k)" for k :: i32
    using sint_range_size [of k] by (intro ParseInt_Itoa) (simp_all add: word_size)
  assume "Itoa (sint m) = Itoa (sint n)"
  then have "Inr (sint m) = (Inr (sint n) :: num_error + int)" using p [of m] p [of n] by metis
  then have "sint m = sint n" by simp
  then show "m = n" by (rule word_eq_iff_signed [THEN iffD2])
qed simp

lemma is_digit_quote: "is_digit c \<Longrightarrow> c \<noteq> CHR 0x22"
  by (auto simp: is_digit_def in_range_def)

lemma nat_digits_ends: "is_digit (hd (nat_digits k)) \<and> is_digit (last (nat_digits k)) \<and> nat_digits k \<noteq> []"
proof -
  have d: "nat_digits k \<noteq> []" "\<forall>c\<in>set (nat_digits k). is_digit c"
    using nat_digits_ok [of k] by (simp_all add: list_all_iff)
  then show ?thesis using hd_in_set [OF d(1)] last_in_set [OF d(1)] by blast
qed

lemma Itoa_ends: "Itoa n \<noteq> [] \<and> hd (Itoa n) \<noteq> CHR 0x22 \<and> last (Itoa n) \<noteq> CHR 0x22 \<and> hd (Itoa n) \<noteq> CHR ''n''"
proof -
  have "is_digit c \<Longrightarrow> c \<noteq> CHR ''n''" for c by (auto simp: is_digit_def in_range_def)
  then show ?thesis
    using nat_digits_ends [of "nat n"] nat_digits_ends [of "nat (- n)"] is_digit_quote
    by (cases "n < 0") (auto simp: Itoa_def)
qed

lemma Trim_quotes:
  assumes "s \<noteq> []" "hd s \<noteq> q" "last s \<noteq> q"
  shows "Trim q s = s" "Trim q (q # s @ [q]) = s"
proof -
  have d: "dropWhile (\<lambda>x. x = q) (s @ xs) = s @ xs" for xs using assms(1,2) by (cases s) auto
  show "Trim q s = s" using d [of "[]"] TrimRight_id [OF assms(1,3)] by (simp add: Trim_def)
  show "Trim q (q # s @ [q]) = s" using d [of "[q]"] TrimRight_id [OF assms(1,3)] by (simp add: Trim_def)
qed

section \<open>Properties\<close>

text \<open>The expiry of a session is read whether the region sends it as a number or as a quoted
  string: both give the same 64-bit integer, for every such integer.\<close>
lemma flex_int_tolerant:
  "UnmarshalJSON (Itoa (sint n)) = n \<and> UnmarshalJSON (CHR 0x22 # Itoa (sint n) @ [CHR 0x22]) = n"
proof -
  note e = Itoa_ends [of "sint n"]
  have "Itoa (sint n) \<noteq> ''null''" using e by auto
  then show ?thesis
    using e ParseInt_sint [of n] by (simp add: UnmarshalJSON_def Trim_quotes Let_def)
qed

text \<open>C23. A session is accepted exactly when the region answers 200 to the request for this very session
  key with a document that decodes to it and is bound to the account code the client presented;
  the request names no other key, so nothing the region says of another session can be taken for
  an answer.\<close>
theorem validate_exact:
  "(Validate region c key code = Inr s) =
     (\<exists>body. region (session_request c key) = Inr (200, body) \<and> decode_session body = Some s \<and> UserCode s = code) \<and>
   (session_request c key' = session_request c key) = (key' = key)"
proof
  show "(Validate region c key code = Inr s) =
     (\<exists>body. region (session_request c key) = Inr (200, body) \<and> decode_session body = Some s \<and> UserCode s = code)"
    by (cases "region (session_request c key)") (auto simp: Validate_def split: option.splits if_splits)
  show "(session_request c key' = session_request c key) = (key' = key)"
    by (auto simp: session_request_def Let_def Itoa_sint_inj)
qed

end
