(* ===== verification/Game.thy ===== *)
theory Game
  imports Session World Postgres Auth
begin

text \<open>
  The connection handler of \<open>internal/game\<close> (\<open>handler.go\<close>, \<open>lobby.go\<close>, \<open>enter.go\<close>): the state of a
  session, one definition per handler, the dispatch and the loop of \<open>Serve\<close>. The store is the
  interface the code uses, a record of operations on a state of its own; commands for the world
  are collected in the order they are handed to it; the region, the clock and the cancellation of
  the context are what each moment of the loop observes.
\<close>

section \<open>State\<close>

text \<open>The operations of \<open>persist.Store\<close> that the handlers call.\<close>

record 'db store_ops =
  op_UpsertAccount :: "'db \<Rightarrow> i64 \<Rightarrow> string \<Rightarrow> (serr + unit) \<times> 'db"
  op_SaveOptions :: "'db \<Rightarrow> i64 \<Rightarrow> u32 \<Rightarrow> (serr + unit) \<times> 'db"
  op_ListCharacters :: "'db \<Rightarrow> i64 \<Rightarrow> (serr + character list) \<times> 'db"
  op_CreateCharacter :: "'db \<Rightarrow> character \<Rightarrow> (serr + character) \<times> 'db"

record 'db handler =
  h_Auth :: client
  h_Store :: "'db store_ops"
  h_ProtocolVer :: i32
  h_WorldID :: i64

text \<open>What one turn of the loop observes: whether the context is cancelled, the time in nanoseconds, the region.\<close>

record moment =
  mo_cancelled :: bool
  mo_now :: i64
  mo_region :: region

text \<open>
  The session of one connection, with the state it shares with others: the store, the random
  source, and the commands handed to the world so far. \<open>s_id\<close> is the identity of the connection.
  The time the session started is never read, so it is left out.
\<close>

record 'db session =
  s_id :: nat
  s_conn :: conn
  s_accountID :: i64
  s_accountCode :: string
  s_authed :: bool
  s_character :: "character option"
  s_playerOID :: i64
  s_warpToken :: i64
  s_inWorld :: bool
  s_db :: 'db
  s_rng :: rng
  s_cmds :: "cmd list"

datatype herr =
    NotLoggedIn string
  | IdentifiersDiffer
  | VersionDiffers i64
  | NoCharacter string
  | WarpTokenMismatch
  | StoreError string serr
  | TokenError terr
  | BuildError perr
  | SendError terr

definition asInt64 :: "goval option \<Rightarrow> i64 \<times> bool" where
  "asInt64 v = (case v of Some (VInt64 n) \<Rightarrow> (n, True) | Some (VUint64 n) \<Rightarrow> (n, True) | _ \<Rightarrow> (0, False))"

definition asUint64 :: "goval option \<Rightarrow> u64 \<times> bool" where
  "asUint64 v = (case v of Some (VUint64 n) \<Rightarrow> (n, True) | Some (VInt64 n) \<Rightarrow> (n, True) | _ \<Rightarrow> (0, False))"

definition asString :: "goval option \<Rightarrow> string \<times> bool" where
  "asString v = (case v of Some (VString s) \<Rightarrow> (s, True) | _ \<Rightarrow> ([], False))"

text \<open>The steps every reply takes: zero values, the fields the handler sets, \<open>conn.Send\<close>.\<close>

definition send_reply :: "string \<Rightarrow> (vals \<Rightarrow> vals) \<Rightarrow> 'db session \<Rightarrow> (herr + unit) \<times> 'db session" where
  "send_reply name set_fields s =
     (case ZeroValues rom name of
        Inl e \<Rightarrow> (Inl (BuildError e), s)
      | Inr reply \<Rightarrow>
          (case Send (s_conn s) name (set_fields reply) of
             (Inl e, c) \<Rightarrow> (Inl (SendError e), s\<lparr>s_conn := c\<rparr>)
           | (Inr _, c) \<Rightarrow> (Inr (), s\<lparr>s_conn := c\<rparr>)))"

text \<open>A call of the store, and a command handed to the world.\<close>

definition store_call :: "('db \<Rightarrow> 'r \<times> 'db) \<Rightarrow> 'db session \<Rightarrow> 'r \<times> 'db session" where
  "store_call f s = (case f (s_db s) of (r, db) \<Rightarrow> (r, s\<lparr>s_db := db\<rparr>))"

definition world_do :: "cmd \<Rightarrow> 'db session \<Rightarrow> 'db session" where
  "world_do c s = s\<lparr>s_cmds := s_cmds s @ [c]\<rparr>"

section \<open>Version check and login\<close>

definition Unix :: "i64 \<Rightarrow> i64" where
  "Unix now = word_of_int (sint now div 1000000000)"

definition UnixMilli :: "i64 \<Rightarrow> i64" where
  "UnixMilli now = word_of_int (sint now div 1000000)"

definition handleVersionCheck :: "'db handler \<Rightarrow> moment \<Rightarrow> 'db session \<Rightarrow> vals \<Rightarrow> (herr + unit) \<times> 'db session" where
  "handleVersionCheck h m s values =
     (let socketUID = fst (asInt64 (values ''m_socketUID''));
          connectionKey = fst (asInt64 (values ''m_connectionKey'')) in
      if socketUID \<noteq> SocketUID (s_conn s) \<or> connectionKey \<noteq> ConnectionKey (s_conn s) then (Inl IdentifiersDiffer, s)
      else
        let clientVer = fst (asInt64 (values ''m_protocolVer'')) in
        if h_ProtocolVer h \<noteq> 0 \<and> (ucast clientVer :: i32) \<noteq> h_ProtocolVer h then (Inl (VersionDiffers clientVer), s)
        else send_reply ''S2C_VersionCheck'' (\<lambda>reply. reply(
          ''m_protocolVer'' \<mapsto> VInt64 clientVer,
          ''m_serverID'' \<mapsto> VInt64 (h_WorldID h),
          ''m_utcTimeOffset'' \<mapsto> VInt64 0,
          ''m_serverTime'' \<mapsto> VInt64 (UnixMilli (mo_now m)),
          ''m_serverTick'' \<mapsto> VInt64 (mo_now m))) s)"

definition resultOK :: int where "resultOK = 0"
definition resultAuthFailed :: int where "resultAuthFailed = 1"

definition sendLoginResult :: "'db session \<Rightarrow> string \<Rightarrow> i32 \<Rightarrow> int \<Rightarrow> (herr + unit) \<times> 'db session" where
  "sendLoginResult s accountCode sessionKey result =
     send_reply ''S2C_SessionAuthLogin'' (\<lambda>reply. reply(
       ''m_result'' \<mapsto> VInt64 (word_of_int result),
       ''m_accountCode'' \<mapsto> VString accountCode,
       ''m_sessionKey'' \<mapsto> VInt64 (scast sessionKey))) s"

definition handleLogin :: "'db handler \<Rightarrow> moment \<Rightarrow> 'db session \<Rightarrow> vals \<Rightarrow> (herr + unit) \<times> 'db session" where
  "handleLogin h m s values =
     (let accountCode = fst (asString (values ''m_accountCode''));
          sessionKey = ucast (fst (asInt64 (values ''m_sessionKey''))) :: i32 in
      case Validate (mo_region m) (h_Auth h) sessionKey accountCode of
        Inl e \<Rightarrow> sendLoginResult s accountCode sessionKey resultAuthFailed
      | Inr session \<Rightarrow>
          if WorldID session \<noteq> h_WorldID h then sendLoginResult s accountCode sessionKey resultAuthFailed
          else
            (case store_call (\<lambda>db. op_UpsertAccount (h_Store h) db (sAccountID session) (UserCode session)) s of
               (Inl e, s1) \<Rightarrow> sendLoginResult s1 accountCode sessionKey resultAuthFailed
             | (Inr _, s1) \<Rightarrow>
                 sendLoginResult
                   (s1\<lparr>s_accountID := sAccountID session, s_accountCode := UserCode session, s_authed := True\<rparr>)
                   accountCode sessionKey resultOK))"

section \<open>Lobby\<close>

definition maxCharacterSlots :: int where "maxCharacterSlots = 3"
definition minNameLen :: nat where "minNameLen = 1"
definition maxNameLen :: nat where "maxNameLen = 16"

definition createResultOK :: int where "createResultOK = 0"
definition createResultInvalidName :: int where "createResultInvalidName = 26"
definition createResultDupName :: int where "createResultDupName = 50102"
definition createResultNoFreeSlot :: int where "createResultNoFreeSlot = 55001"

definition startMaps :: "(i32 \<times> i32) list" where "startMaps = [(2, 501)]"
definition defaultStartMap :: i32 where "defaultStartMap = 501"

definition startMapForClass :: "i32 \<Rightarrow> i32" where
  "startMapForClass classType = (case map_of startMaps classType of Some m \<Rightarrow> m | None \<Rightarrow> defaultStartMap)"

definition handleSetOptions :: "'db handler \<Rightarrow> 'db session \<Rightarrow> vals \<Rightarrow> (herr + unit) \<times> 'db session" where
  "handleSetOptions h s values =
     (let optionValues = fst (asUint64 (values ''m_optionValues''));
          s1 = snd (store_call (\<lambda>db. op_SaveOptions (h_Store h) db (s_accountID s) (ucast optionValues)) s)
      in (Inr (), s1))"

definition handleWaitingUserCount :: "moment \<Rightarrow> 'db session \<Rightarrow> (herr + unit) \<times> 'db session" where
  "handleWaitingUserCount m s =
     send_reply ''S2C_WaitingUserCount'' (\<lambda>reply. reply(''m_nowServerTime'' \<mapsto> VInt64 (Unix (mo_now m)))) s"

text \<open>\<open>toLobbyPlayerInfo\<close>: \<open>uint64\<close> and \<open>int64\<close> of an \<open>int32\<close> both extend the sign.\<close>

definition toLobbyPlayerInfo :: "character \<Rightarrow> vals" where
  "toLobbyPlayerInfo c =
     [''m_slotIndex'' \<mapsto> VUint64 (scast (SlotIndex c)),
      ''m_classType'' \<mapsto> VUint64 (scast (ClassType c)),
      ''m_subClassType'' \<mapsto> VUint64 (scast (SubClassType c)),
      ''m_name'' \<mapsto> VString (Name c),
      ''m_headType'' \<mapsto> VUint64 (scast (HeadType c)),
      ''m_equipCostumeIndex'' \<mapsto> VInt64 (scast (EquipCostumeIndex c)),
      ''m_equipCostumeStepUp'' \<mapsto> VUint64 (scast (EquipCostumeStepUp c)),
      ''m_weaponItemIndex'' \<mapsto> VInt64 (scast (WeaponItemIndex c)),
      ''m_weaponEnchant'' \<mapsto> VUint64 (scast (WeaponEnchant c)),
      ''m_level'' \<mapsto> VInt64 (scast (Level c)),
      ''m_exp'' \<mapsto> VInt64 (Exp c),
      ''m_realPower'' \<mapsto> VInt64 (scast (RealPower c)),
      ''m_mapIndex'' \<mapsto> VInt64 (scast (MapID c)),
      ''m_latestLoginTime'' \<mapsto> VInt64 (LatestLoginTime c),
      ''m_latestLogoutTime'' \<mapsto> VInt64 (LatestLogoutTime c),
      ''m_deletedTime'' \<mapsto> VInt64 (DeletedTime c),
      ''m_createdTime'' \<mapsto> VInt64 (CreatedAt c),
      ''m_guildName'' \<mapsto> VString (GuildName c)]"

definition handlePlayerList :: "'db handler \<Rightarrow> 'db session \<Rightarrow> (herr + unit) \<times> 'db session" where
  "handlePlayerList h s =
     (case store_call (\<lambda>db. op_ListCharacters (h_Store h) db (s_accountID s)) s of
        (Inl e, s1) \<Rightarrow> (Inl (StoreError ''player list'' e), s1)
      | (Inr characters, s1) \<Rightarrow>
          let players = map (\<lambda>c. VValues (toLobbyPlayerInfo c)) characters in
          send_reply ''S2C_PlayerList'' (\<lambda>reply. reply(
            ''m_maxSlotCount'' \<mapsto> VUint64 (word_of_int maxCharacterSlots),
            ''m_playerList'' \<mapsto> VList players,
            ''m_enableStoarge'' \<mapsto> VBool False)) s1)"

text \<open>\<open>freeSlot\<close>: the loop runs over the slots below the cap in ascending order.\<close>

definition freeSlot :: "character list \<Rightarrow> i32 option" where
  "freeSlot characters =
     (let used = SlotIndex ` set characters in
      find (\<lambda>slot. slot \<notin> used) (map word_of_int [0..maxCharacterSlots - 1]))"

definition sendCreateResult :: "'db session \<Rightarrow> int \<Rightarrow> vals option \<Rightarrow> (herr + unit) \<times> 'db session" where
  "sendCreateResult s result player =
     send_reply ''S2C_CreatePlayer'' (\<lambda>reply.
       let reply1 = reply(''m_result'' \<mapsto> VInt64 (word_of_int result)) in
       case player of None \<Rightarrow> reply1 | Some p \<Rightarrow> reply1(''m_player'' \<mapsto> VValues p)) s"

definition new_character :: "i64 \<Rightarrow> i32 \<Rightarrow> string \<Rightarrow> u64 \<Rightarrow> u64 \<Rightarrow> character" where
  "new_character accountID slot name classType headType =
     no_character\<lparr>AccountID := accountID, SlotIndex := slot, Name := name,
       ClassType := ucast classType, HeadType := ucast headType, Level := 1,
       MapID := startMapForClass (ucast classType)\<rparr>"

definition handleCreatePlayer :: "'db handler \<Rightarrow> 'db session \<Rightarrow> vals \<Rightarrow> (herr + unit) \<times> 'db session" where
  "handleCreatePlayer h s values =
     (let name = trim_space (fst (asString (values ''m_name'')));
          classType = fst (asUint64 (values ''m_classType''));
          headType = fst (asUint64 (values ''m_headType'')) in
      if rune_count name < minNameLen \<or> maxNameLen < rune_count name
      then sendCreateResult s createResultInvalidName None
      else
        (case store_call (\<lambda>db. op_ListCharacters (h_Store h) db (s_accountID s)) s of
           (Inl e, s1) \<Rightarrow> (Inl (StoreError ''create player'' e), s1)
         | (Inr characters, s1) \<Rightarrow>
             (case freeSlot characters of
                None \<Rightarrow> sendCreateResult s1 createResultNoFreeSlot None
              | Some slot \<Rightarrow>
                  (case store_call (\<lambda>db. op_CreateCharacter (h_Store h) db
                       (new_character (s_accountID s) slot name classType headType)) s1 of
                     (Inl ErrNameTaken, s2) \<Rightarrow> sendCreateResult s2 createResultDupName None
                   | (Inl ErrSlotTaken, s2) \<Rightarrow> sendCreateResult s2 createResultNoFreeSlot None
                   | (Inl e, s2) \<Rightarrow> (Inl (StoreError ''create player'' e), s2)
                   | (Inr created, s2) \<Rightarrow> sendCreateResult s2 createResultOK (Some (toLobbyPlayerInfo created))))))"

definition handleLogout :: "'db session \<Rightarrow> (herr + unit) \<times> 'db session" where
  "handleLogout s = send_reply ''S2C_Logout'' (\<lambda>reply. reply) s"

section \<open>Entering the world\<close>

definition enterResultOK :: int where "enterResultOK = 0"
definition enterResultNoChar :: int where "enterResultNoChar = 50101"
definition mapLayerIndex :: int where "mapLayerIndex = 1"
definition oidWorldMultiplier :: i64 where "oidWorldMultiplier = 1000000000"

definition newWarpToken :: "rng \<Rightarrow> terr + (i64 \<times> rng)" where
  "newWarpToken rng =
     rbind (rand_Read 8 rng) (\<lambda>(buf, rng').
       let token = le_word buf in Inr (if token = 0 then 1 else token, rng'))"

definition sendEnterWorldResult :: "'db session \<Rightarrow> int \<Rightarrow> i32 \<Rightarrow> (herr + unit) \<times> 'db session" where
  "sendEnterWorldResult s result slot =
     send_reply ''S2C_EnterWorld'' (\<lambda>reply. reply(
       ''m_result'' \<mapsto> VInt64 (word_of_int result),
       ''m_playerSlotIndex'' \<mapsto> VUint64 (scast slot))) s"

text \<open>The maps of nested structs are shared with the reply, so filling them in changes the reply.\<close>

definition set_pos :: "character \<Rightarrow> vals \<Rightarrow> vals" where
  "set_pos c pos = pos(
     ''m_x'' \<mapsto> VFloat64 (f64_of_f32 (X c)),
     ''m_y'' \<mapsto> VFloat64 (f64_of_f32 (Y c)),
     ''m_z'' \<mapsto> VFloat64 (f64_of_f32 (Z c)))"

text \<open>\<open>if m, ok := values[k].(protocol.Values); ok { f(m) }\<close>.\<close>

definition in_struct :: "string \<Rightarrow> (vals \<Rightarrow> vals) \<Rightarrow> vals \<Rightarrow> vals" where
  "in_struct k f values = (case values k of Some (VValues m) \<Rightarrow> values(k \<mapsto> VValues (f m)) | _ \<Rightarrow> values)"

definition fillMyPlayerInfo :: "'db handler \<Rightarrow> vals \<Rightarrow> character \<Rightarrow> i64 \<Rightarrow> vals" where
  "fillMyPlayerInfo h info c oid =
     in_struct ''m_pos'' (set_pos c) (info(
       ''m_OID'' \<mapsto> VInt64 oid,
       ''m_worldID'' \<mapsto> VInt64 (h_WorldID h),
       ''m_name'' \<mapsto> VString (Name c),
       ''m_class'' \<mapsto> VUint64 (scast (ClassType c)),
       ''m_subClass'' \<mapsto> VUint64 (scast (SubClassType c)),
       ''m_headIndex'' \<mapsto> VInt64 (scast (HeadType c)),
       ''m_level'' \<mapsto> VInt64 (scast (Level c)),
       ''m_exp'' \<mapsto> VInt64 (Exp c),
       ''m_mapIndex'' \<mapsto> VInt64 (scast (MapID c)),
       ''m_dir'' \<mapsto> VFloat64 (f64_of_f32 (Dir c)),
       ''m_useWorldAuction'' \<mapsto> VBool True))"

text \<open>It is called once a character is selected; the code would panic on the nil pointer before that.\<close>

definition sendEnterWorldComplete :: "'db handler \<Rightarrow> 'db session \<Rightarrow> character \<Rightarrow> (herr + unit) \<times> 'db session" where
  "sendEnterWorldComplete h s c =
     send_reply ''S2C_EnterWorldComplete'' (\<lambda>reply.
       in_struct ''m_myPlayerInfo'' (\<lambda>info. fillMyPlayerInfo h info c (s_playerOID s)) (reply(
         ''m_result'' \<mapsto> VInt64 (word_of_int enterResultOK),
         ''m_warpToken'' \<mapsto> VInt64 (s_warpToken s)))) s"

definition player_of :: "'db session \<Rightarrow> character \<Rightarrow> player" where
  "player_of s c =
     \<lparr>OID = s_playerOID s, CharacterID = ID c, pAccountID = s_accountID s, pName = Name c, pMapID = MapID c,
      pX = X c, pY = Y c, pZ = Z c, pDir = Dir c, pConn = s_id s\<rparr>"

text \<open>The character, the identifier and the token are noted, and the world is told, before any reply.\<close>

definition entered :: "'db handler \<Rightarrow> character \<Rightarrow> i64 \<Rightarrow> rng \<Rightarrow> 'db session \<Rightarrow> 'db session" where
  "entered h c token rng s =
     (let s2 = s\<lparr>s_rng := rng, s_character := Some c, s_playerOID := h_WorldID h * oidWorldMultiplier + ID c,
        s_warpToken := token, s_inWorld := True\<rparr>
      in world_do (Join (player_of s2 c)) s2)"

definition handleEnterWorld :: "'db handler \<Rightarrow> 'db session \<Rightarrow> vals \<Rightarrow> (herr + unit) \<times> 'db session" where
  "handleEnterWorld h s values =
     (let slot = fst (asUint64 (values ''m_playerSlotIndex'')) in
      case store_call (\<lambda>db. op_ListCharacters (h_Store h) db (s_accountID s)) s of
        (Inl e, s1) \<Rightarrow> (Inl (StoreError ''enter world'' e), s1)
      | (Inr characters, s1) \<Rightarrow>
          (case find (\<lambda>c. (scast (SlotIndex c) :: u64) = slot) characters of
             None \<Rightarrow> sendEnterWorldResult s1 enterResultNoChar (ucast slot)
           | Some chosen \<Rightarrow>
               (case newWarpToken (s_rng s1) of
                  Inl e \<Rightarrow> (Inl (TokenError e), s1)
                | Inr (token, rng) \<Rightarrow>
                    (case sendEnterWorldResult (entered h chosen token rng s1) enterResultOK (SlotIndex chosen) of
                       (Inl e, s4) \<Rightarrow> (Inl e, s4)
                     | (Inr _, s4) \<Rightarrow> sendEnterWorldComplete h s4 chosen))))"

text \<open>A requested map that differs from the character's is only logged.\<close>

definition handleMapEnter :: "'db handler \<Rightarrow> moment \<Rightarrow> 'db session \<Rightarrow> vals \<Rightarrow> (herr + unit) \<times> 'db session" where
  "handleMapEnter h m s values =
     (case s_character s of
        None \<Rightarrow> (Inl (NoCharacter ''map enter''), s)
      | Some c \<Rightarrow>
          let token = fst (asInt64 (values ''m_warpToken'')) in
          if token \<noteq> s_warpToken s then (Inl WarpTokenMismatch, s)
          else send_reply ''S2C_MapEnter'' (\<lambda>reply.
            in_struct ''m_startPos'' (set_pos c) (reply(
              ''m_result'' \<mapsto> VInt64 (word_of_int enterResultOK),
              ''m_mapIndex'' \<mapsto> VInt64 (scast (MapID c)),
              ''m_layerIndex'' \<mapsto> VInt64 (word_of_int mapLayerIndex),
              ''m_dir'' \<mapsto> VFloat64 (f64_of_f32 (Dir c)),
              ''m_serverID'' \<mapsto> VInt64 (h_WorldID h),
              ''m_serverTick'' \<mapsto> VInt64 (mo_now m)))) s)"

definition handleMapEnterPreComplete :: "'db session \<Rightarrow> (herr + unit) \<times> 'db session" where
  "handleMapEnterPreComplete s = send_reply ''S2C_MapEnterPreComplete'' (\<lambda>reply. reply) s"

definition handleMapEnterComplete :: "'db session \<Rightarrow> (herr + unit) \<times> 'db session" where
  "handleMapEnterComplete s =
     (case s_character s of
        None \<Rightarrow> (Inl (NoCharacter ''map enter complete''), s)
      | Some c \<Rightarrow> send_reply ''S2C_MapEnterComplete'' (\<lambda>reply. reply(
          ''m_result'' \<mapsto> VInt64 (word_of_int enterResultOK),
          ''m_playerOID'' \<mapsto> VInt64 (s_playerOID s))) s)"

definition handlePlayerLoadFirstCall :: "'db session \<Rightarrow> (herr + unit) \<times> 'db session" where
  "handlePlayerLoadFirstCall s =
     send_reply ''S2C_PlayerLoadFirstCall'' (\<lambda>reply. reply(''m_result'' \<mapsto> VInt64 (word_of_int enterResultOK))) s"

section \<open>Dispatch\<close>

definition dispatch :: "'db handler \<Rightarrow> moment \<Rightarrow> 'db session \<Rightarrow> string \<Rightarrow> vals \<Rightarrow> (herr + unit) \<times> 'db session" where
  "dispatch h m s name values =
     (if name = ''C2S_VersionCheck'' then handleVersionCheck h m s values
      else if name = ''C2S_SessionAuthLogin'' then handleLogin h m s values
      else if \<not> s_authed s then (Inl (NotLoggedIn name), s)
      else if name = ''C2S_SetOptions'' then handleSetOptions h s values
      else if name = ''C2S_WaitingUserCount'' then handleWaitingUserCount m s
      else if name = ''C2S_PlayerList'' then handlePlayerList h s
      else if name = ''C2S_CreatePlayer'' then handleCreatePlayer h s values
      else if name = ''C2S_EnterWorld'' then handleEnterWorld h s values
      else if name = ''C2S_MapEnter'' then handleMapEnter h m s values
      else if name = ''C2S_MapEnterPreComplete'' then handleMapEnterPreComplete s
      else if name = ''C2S_MapEnterComplete'' then handleMapEnterComplete s
      else if name = ''C2S_PlayerLoadFirstCall'' then handlePlayerLoadFirstCall s
      else if name = ''C2S_Logout'' then handleLogout s
      else (Inr (), s))"

lemmas handler_defs =
  handleVersionCheck_def handleLogin_def handleSetOptions_def handleWaitingUserCount_def
  handlePlayerList_def handleCreatePlayer_def handleEnterWorld_def handleMapEnter_def
  handleMapEnterPreComplete_def handleMapEnterComplete_def handlePlayerLoadFirstCall_def handleLogout_def
  sendLoginResult_def sendCreateResult_def sendEnterWorldResult_def sendEnterWorldComplete_def

lemma send_reply_cases:
  obtains "snd (send_reply name f s) = s"
  | vs where "snd (send_reply name f s) = s\<lparr>s_conn := snd (Send (s_conn s) name vs)\<rparr>"
proof (cases "ZeroValues rom name")
  case (Inr z)
  then have "snd (send_reply name f s) = s\<lparr>s_conn := snd (Send (s_conn s) name (f z))\<rparr>"
    by (simp add: send_reply_def split_beta split: sum.split)
  then show thesis by (rule that(2))
qed (simp add: send_reply_def that(1))

section \<open>Invariants of the steps\<close>

text \<open>
  What a session does besides replying is one of six steps: refreshing the account, binding the
  login, saving options, listing, creating in a free slot, and entering with a listed character.
  A predicate that those and the replies keep is kept by every handler, as long as the region
  answers in a way it allows for (\<open>trusted\<close>).
\<close>

locale session_invariant =
  fixes h :: "'db handler" and trusted :: "region \<Rightarrow> bool" and P :: "'db session \<Rightarrow> bool"
  assumes reply: "P s \<Longrightarrow> P (s\<lparr>s_conn := snd (Send (s_conn s) name vs)\<rparr>)"
    and upsert: "P s \<Longrightarrow> trusted region \<Longrightarrow> Validate region (h_Auth h) key code = Inr a \<Longrightarrow> WorldID a = h_WorldID h \<Longrightarrow>
      op_UpsertAccount (h_Store h) (s_db s) (sAccountID a) (UserCode a) = (r, db) \<Longrightarrow> P (s\<lparr>s_db := db\<rparr>)"
    and login: "P s \<Longrightarrow> trusted region \<Longrightarrow> Validate region (h_Auth h) key code = Inr a \<Longrightarrow> WorldID a = h_WorldID h \<Longrightarrow>
      P (s\<lparr>s_accountID := sAccountID a, s_accountCode := UserCode a, s_authed := True\<rparr>)"
    and options: "P s \<Longrightarrow> s_authed s \<Longrightarrow>
      op_SaveOptions (h_Store h) (s_db s) (s_accountID s) opts = (r, db) \<Longrightarrow> P (s\<lparr>s_db := db\<rparr>)"
    and list: "P s \<Longrightarrow> s_authed s \<Longrightarrow>
      op_ListCharacters (h_Store h) (s_db s) (s_accountID s) = (rs, db) \<Longrightarrow> P (s\<lparr>s_db := db\<rparr>)"
    and create: "P s \<Longrightarrow> s_authed s \<Longrightarrow> freeSlot cs = Some slot \<Longrightarrow> name = trim_space raw \<Longrightarrow>
      minNameLen \<le> rune_count name \<Longrightarrow> rune_count name \<le> maxNameLen \<Longrightarrow>
      op_CreateCharacter (h_Store h) (s_db s) (new_character (s_accountID s) slot name cl ht) = (rc, db) \<Longrightarrow>
      P (s\<lparr>s_db := db\<rparr>)"
    and enter: "P s \<Longrightarrow> s_authed s \<Longrightarrow>
      op_ListCharacters (h_Store h) (s_db s) (s_accountID s) = (Inr cs, db) \<Longrightarrow> c \<in> set cs \<Longrightarrow>
      newWarpToken (s_rng s) = Inr (token, rng) \<Longrightarrow> P (entered h c token rng (s\<lparr>s_db := db\<rparr>))"
begin

lemma send_keeps: "P s \<Longrightarrow> P (snd (send_reply name f s))"
  by (rule send_reply_cases [of name f s]) (simp_all add: reply)

lemma send_keeps': "send_reply name f s = (r, s') \<Longrightarrow> P s \<Longrightarrow> P s'"
  using send_keeps [of s name f] by simp

lemma versionCheck_keeps: "P s \<Longrightarrow> P (snd (handleVersionCheck h m s values))"
  by (simp add: handleVersionCheck_def send_keeps Let_def)

lemma login_keeps:
  assumes "P s" "trusted (mo_region m)"
  shows "P (snd (handleLogin h m s values))"
proof (cases "Validate (mo_region m) (h_Auth h) (ucast (fst (asInt64 (values ''m_sessionKey''))))
    (fst (asString (values ''m_accountCode'')))")
  case (Inl e)
  then show ?thesis using assms by (simp add: handleLogin_def sendLoginResult_def send_keeps)
next
  case (Inr a)
  show ?thesis
  proof (cases "WorldID a = h_WorldID h")
    case False
    then show ?thesis using Inr assms by (simp add: handleLogin_def sendLoginResult_def send_keeps)
  next
    case True
    obtain r db where u: "op_UpsertAccount (h_Store h) (s_db s) (sAccountID a) (UserCode a) = (r, db)"
      by (metis prod.exhaust)
    note k = upsert [OF assms Inr True u]
    show ?thesis
    proof (cases r)
      case (Inl e)
      then show ?thesis using Inr True u k
        by (simp add: handleLogin_def sendLoginResult_def store_call_def send_keeps)
    next
      case r: (Inr ok)
      then show ?thesis using Inr True u send_keeps [OF login [OF k assms(2) Inr True]]
        by (simp add: handleLogin_def sendLoginResult_def store_call_def)
    qed
  qed
qed

lemma list_call:
  assumes "P s" "s_authed s" "store_call (\<lambda>db. op_ListCharacters (h_Store h) db (s_accountID s)) s = (r, s1)"
  obtains db where "P s1" "s1 = s\<lparr>s_db := db\<rparr>"
    "op_ListCharacters (h_Store h) (s_db s) (s_accountID s) = (r, db)"
  using assms list [OF assms(1,2)] by (auto simp: store_call_def split: prod.splits)

lemma playerList_keeps: "P s \<Longrightarrow> s_authed s \<Longrightarrow> P (snd (handlePlayerList h s))"
  by (auto simp: handlePlayerList_def Let_def intro: send_keeps elim: list_call split: prod.split sum.split)

lemma create_keeps:
  assumes "P s" "s_authed s"
  shows "P (snd (handleCreatePlayer h s values))"
proof -
  let ?name = "trim_space (fst (asString (values ''m_name'')))"
  obtain r s1 where l: "store_call (\<lambda>db. op_ListCharacters (h_Store h) db (s_accountID s)) s = (r, s1)"
    by (metis prod.exhaust)
  obtain db1 where k: "P s1" "s1 = s\<lparr>s_db := db1\<rparr>"
    using list_call [OF assms l] by metis
  then have a: "s_authed s1" "s_accountID s1 = s_accountID s" using assms(2) by simp_all
  consider (bad) "rune_count ?name < minNameLen \<or> maxNameLen < rune_count ?name"
    | (err) e where "r = Inl e" "minNameLen \<le> rune_count ?name" "rune_count ?name \<le> maxNameLen"
    | (ok) cs where "r = Inr cs" "minNameLen \<le> rune_count ?name" "rune_count ?name \<le> maxNameLen"
    by (meson leI sum.exhaust)
  then show ?thesis
  proof cases
    case bad
    then show ?thesis using assms(1) by (simp add: handleCreatePlayer_def sendCreateResult_def send_keeps)
  next
    case err
    then show ?thesis using l k(1) by (simp add: handleCreatePlayer_def)
  next
    case ok
    note n = ok(2,3)
    show ?thesis
    proof (cases "freeSlot cs")
      case None
      then show ?thesis using l k(1) ok by (simp add: handleCreatePlayer_def sendCreateResult_def send_keeps)
    next
      case (Some slot)
      let ?c = "new_character (s_accountID s) slot ?name (fst (asUint64 (values ''m_classType'')))
        (fst (asUint64 (values ''m_headType'')))"
      obtain rc db where c: "op_CreateCharacter (h_Store h) (s_db s1) ?c = (rc, db)"
        by (metis prod.exhaust)
      have "P (s1\<lparr>s_db := db\<rparr>)"
        using create [OF k(1) a(1) Some refl n c [folded a(2)]] .
      then show ?thesis
        using l n ok(1) Some c
        by (auto simp: handleCreatePlayer_def sendCreateResult_def store_call_def intro: send_keeps split: sum.split serr.split)
    qed
  qed
qed

lemma enter_keeps:
  assumes "P s" "s_authed s"
  shows "P (snd (handleEnterWorld h s values))"
proof -
  let ?slot = "fst (asUint64 (values ''m_playerSlotIndex''))"
  obtain r s1 where l: "store_call (\<lambda>db. op_ListCharacters (h_Store h) db (s_accountID s)) s = (r, s1)"
    by (metis prod.exhaust)
  obtain db where k: "P s1" "s1 = s\<lparr>s_db := db\<rparr>"
    "op_ListCharacters (h_Store h) (s_db s) (s_accountID s) = (r, db)"
    using list_call [OF assms l] by metis
  show ?thesis
  proof (cases r)
    case (Inl e)
    then show ?thesis using l k(1) by (simp add: handleEnterWorld_def)
  next
    case (Inr cs)
    show ?thesis
    proof (cases "find (\<lambda>c. (scast (SlotIndex c) :: u64) = ?slot) cs")
      case None
      then show ?thesis using l k(1) Inr by (simp add: handleEnterWorld_def sendEnterWorldResult_def send_keeps)
    next
      case (Some c)
      then have c: "c \<in> set cs" by (auto simp: find_Some_iff in_set_conv_nth)
      have rng: "s_rng s1 = s_rng s" using k(2) by simp
      show ?thesis
      proof (cases "newWarpToken (s_rng s1)")
        case (Inl e)
        then show ?thesis using l k(1) Inr Some by (simp add: handleEnterWorld_def)
      next
        case t: (Inr tr)
        obtain token rng where tr: "tr = (token, rng)" by force
        have "newWarpToken (s_rng s) = Inr (token, rng)" using t tr rng by simp
        from enter [OF assms k(3) [unfolded Inr] c this] k(2)
        have e: "P (entered h c token rng s1)" by simp
        obtain r4 s4 where r4: "sendEnterWorldResult (entered h c token rng s1) enterResultOK (SlotIndex c) = (r4, s4)"
          by (metis prod.exhaust)
        then have "P s4" using send_keeps' e by (simp add: sendEnterWorldResult_def)
        then show ?thesis
          using l Inr Some t tr r4
          by (cases r4) (simp_all add: handleEnterWorld_def sendEnterWorldComplete_def send_keeps)
      qed
    qed
  qed
qed

lemma mapEnter_keeps: "P s \<Longrightarrow> P (snd (handleMapEnter h m s values))"
  by (simp add: handleMapEnter_def send_keeps Let_def split: option.split)

lemma mapEnterComplete_keeps: "P s \<Longrightarrow> P (snd (handleMapEnterComplete s))"
  by (simp add: handleMapEnterComplete_def send_keeps split: option.split)

lemma setOptions_keeps: "P s \<Longrightarrow> s_authed s \<Longrightarrow> P (snd (handleSetOptions h s values))"
  using options by (auto simp: handleSetOptions_def store_call_def Let_def split: prod.split)

lemma dispatch_keeps: "P s \<Longrightarrow> trusted (mo_region m) \<Longrightarrow> P (snd (dispatch h m s name vs))"
  by (simp add: dispatch_def versionCheck_keeps login_keeps setOptions_keeps playerList_keeps create_keeps enter_keeps
      mapEnter_keeps mapEnterComplete_keeps handleWaitingUserCount_def handleMapEnterPreComplete_def
      handlePlayerLoadFirstCall_def handleLogout_def send_keeps)

end

text \<open>What is still to be received is untouched by the handlers: the first use of the interface.\<close>

lemma Send_rx: "sk_rx (cn_raw (snd (Send c name vs))) = sk_rx (cn_raw c)"
  by (simp add: Send_def writeFrame_def Write_def Let_def split_beta split: sum.split option.split)

lemmas session_updates = entered_def world_do_def player_of_def

interpretation unread: session_invariant h "\<lambda>_. True" "\<lambda>s. sk_rx (cn_raw (s_conn s)) = rx"
  for h :: "'db handler" and rx
  by unfold_locales (simp_all add: Send_rx session_updates)

lemma dispatch_rx:
  "dispatch h m s name vs = (r, s') \<Longrightarrow> sk_rx (cn_raw (s_conn s')) = sk_rx (cn_raw (s_conn s))"
  using unread.dispatch_keeps [where s = s and h = h and m = m and name = name and vs = vs, OF refl] by simp

lemma Recv_shrinks:
  "Recv c = (Inr got, c') \<Longrightarrow> 6 + length (sk_rx (cn_raw c')) \<le> length (sk_rx (cn_raw c))"
  using Recv_stream [of c] by auto

section \<open>The loop of a connection\<close>

text \<open>
  The loop ends when the context is cancelled, when receiving fails, or when a handler reports an
  error. Each turn that goes on has taken a message off the stream, so it ends on any finite one.
\<close>

datatype ending =
    ContextDone
  | RecvFailed terr
  | HandlerFailed string herr

function serve_loop :: "'db handler \<Rightarrow> (nat \<Rightarrow> moment) \<Rightarrow> nat \<Rightarrow> 'db session \<Rightarrow> ending \<times> 'db session" where
  "serve_loop h ctx k s =
     (if mo_cancelled (ctx k) then (ContextDone, s)
      else
        (case Recv (s_conn s) of
           (Inl e, c) \<Rightarrow> (RecvFailed e, s\<lparr>s_conn := c\<rparr>)
         | (Inr (None, values, tail), c) \<Rightarrow> serve_loop h ctx (Suc k) (s\<lparr>s_conn := c\<rparr>)
         | (Inr (Some msg, values, tail), c) \<Rightarrow>
             (case dispatch h (ctx k) (s\<lparr>s_conn := c\<rparr>) (msgName msg) values of
                (Inl e, s1) \<Rightarrow> (HandlerFailed (msgName msg) e, s1)
              | (Inr _, s1) \<Rightarrow> serve_loop h ctx (Suc k) s1)))"
  by pat_completeness auto
termination
  by (relation "measure (\<lambda>(h, ctx, k, s). length (sk_rx (cn_raw (s_conn s))))")
    (auto dest!: sym [of _ "Recv _"] sym [of _ "dispatch _ _ _ _ _"] Recv_shrinks dispatch_rx)

declare serve_loop.simps [simp del]

text \<open>Reasoning about a run of the loop turn by turn.\<close>

lemma serve_loop_rule [consumes 1, case_names ended failed skipped stopped handled]:
  assumes "serve_loop h ctx k s = (e, s')"
    and "\<And>k s. mo_cancelled (ctx k) \<Longrightarrow> Q k s ContextDone s"
    and "\<And>k s t c. Recv (s_conn s) = (Inl t, c) \<Longrightarrow> \<not> mo_cancelled (ctx k) \<Longrightarrow> Q k s (RecvFailed t) (s\<lparr>s_conn := c\<rparr>)"
    and "\<And>k s vs rest c e s'. Recv (s_conn s) = (Inr (None, vs, rest), c) \<Longrightarrow>
      Q (Suc k) (s\<lparr>s_conn := c\<rparr>) e s' \<Longrightarrow> \<not> mo_cancelled (ctx k) \<Longrightarrow> Q k s e s'"
    and "\<And>k s msg vs rest c x s'. Recv (s_conn s) = (Inr (Some msg, vs, rest), c) \<Longrightarrow>
      dispatch h (ctx k) (s\<lparr>s_conn := c\<rparr>) (msgName msg) vs = (Inl x, s') \<Longrightarrow>
      \<not> mo_cancelled (ctx k) \<Longrightarrow> Q k s (HandlerFailed (msgName msg) x) s'"
    and "\<And>k s msg vs rest c s1 e s'. Recv (s_conn s) = (Inr (Some msg, vs, rest), c) \<Longrightarrow>
      dispatch h (ctx k) (s\<lparr>s_conn := c\<rparr>) (msgName msg) vs = (Inr (), s1) \<Longrightarrow> Q (Suc k) s1 e s' \<Longrightarrow>
      \<not> mo_cancelled (ctx k) \<Longrightarrow> Q k s e s'"
  shows "Q k s e s'"
  using assms
proof (induction h ctx k s arbitrary: e s' rule: serve_loop.induct)
  case (1 h ctx k s)
  note run = 1(3) and q = 1(4-8)
  show ?case
  proof (cases "mo_cancelled (ctx k)")
    case True
    then show ?thesis using run q(1) [of k s] by (simp add: serve_loop.simps [of h ctx k s])
  next
    case False
    obtain r c where r: "Recv (s_conn s) = (r, c)" by force
    show ?thesis
    proof (cases r)
      case (Inl t)
      then show ?thesis using run False r q(2) [of s t c k] by (simp add: serve_loop.simps [of h ctx k s])
    next
      case (Inr got)
      obtain mo vs rest where got: "got = (mo, vs, rest)" by (metis prod.exhaust)
      show ?thesis
      proof (cases mo)
        case None
        then have "serve_loop h ctx (Suc k) (s\<lparr>s_conn := c\<rparr>) = (e, s')"
          using run False r Inr got by (simp add: serve_loop.simps [of h ctx k s])
        then have "Q (Suc k) (s\<lparr>s_conn := c\<rparr>) e s'"
          by (rule 1(1) [OF False r [symmetric] Inr got [symmetric] None refl]) (fact q)+
        then show ?thesis using q(3) [of s vs rest c k e s'] False by (simp add: r Inr got None)
      next
        case (Some msg)
        obtain d s1 where d: "dispatch h (ctx k) (s\<lparr>s_conn := c\<rparr>) (msgName msg) vs = (d, s1)" by force
        show ?thesis
        proof (cases d)
          case x: (Inl x)
          then show ?thesis
            using run False r Inr got Some d q(4) [of s msg vs rest c k x s1]
            by (simp add: serve_loop.simps [of h ctx k s])
        next
          case u: (Inr u)
          then have "serve_loop h ctx (Suc k) s1 = (e, s')"
            using run False r Inr got Some d by (simp add: serve_loop.simps [of h ctx k s])
          then have "Q (Suc k) s1 e s'"
            by (rule 1(2) [OF False r [symmetric] Inr got [symmetric] Some refl d [symmetric] u]) (fact q)+
          from d have "dispatch h (ctx k) (s\<lparr>s_conn := c\<rparr>) (msgName msg) vs = (Inr (), s1)" unfolding u by simp
          from q(5) [OF _ this \<open>Q (Suc k) s1 e s'\<close> False] show ?thesis by (simp add: r Inr got Some)
        qed
      qed
    qed
  qed
qed

definition new_session :: "nat \<Rightarrow> conn \<Rightarrow> 'db \<Rightarrow> rng \<Rightarrow> 'db session" where
  "new_session i c db rng =
     \<lparr>s_id = i, s_conn = c, s_accountID = 0, s_accountCode = [], s_authed = False, s_character = None,
      s_playerOID = 0, s_warpToken = 0, s_inWorld = False, s_db = db, s_rng = rng, s_cmds = []\<rparr>"

text \<open>The deferred function of \<open>Serve\<close>.\<close>

definition hang_up :: "'db session \<Rightarrow> 'db session" where
  "hang_up s =
     (let s1 = (case s_character s of
                  Some c \<Rightarrow> if s_inWorld s then world_do (Leave (ID c)) s else s
                | None \<Rightarrow> s)
      in s1\<lparr>s_conn := Close (s_conn s1)\<rparr>)"

definition Serve :: "'db handler \<Rightarrow> (nat \<Rightarrow> moment) \<Rightarrow> nat \<Rightarrow> conn \<Rightarrow> 'db \<Rightarrow> rng \<Rightarrow> ending \<times> 'db session" where
  "Serve h ctx i c db rng =
     (case serve_loop h ctx 0 (new_session i c db rng) of (e, s) \<Rightarrow> (e, hang_up s))"

text \<open>An invariant that receiving keeps as well holds when the loop ends.\<close>

locale served_invariant = session_invariant +
  assumes recv: "P s \<Longrightarrow> P (s\<lparr>s_conn := snd (Recv (s_conn s))\<rparr>)"
begin

lemma recv_keeps: "Recv (s_conn s) = (r, c) \<Longrightarrow> P s \<Longrightarrow> P (s\<lparr>s_conn := c\<rparr>)"
  using recv [of s] by simp

lemma dispatch_keeps': "dispatch h m s name vs = (r, s') \<Longrightarrow> P s \<Longrightarrow> trusted (mo_region m) \<Longrightarrow> P s'"
  using dispatch_keeps [of s m name vs] by simp

lemma loop_keeps:
  assumes "\<And>k. trusted (mo_region (ctx k))" "P s"
  shows "P (snd (serve_loop h ctx k s))"
proof -
  have "P s \<longrightarrow> P s'" if "serve_loop h ctx k s = (e, s')" for e s'
    using that
  proof (induction rule: serve_loop_rule)
    case (failed k s t c)
    then show ?case using recv_keeps by blast
  next
    case (skipped k s vs rest c e s')
    then show ?case using recv_keeps by blast
  next
    case (stopped k s msg vs rest c x s')
    then show ?case using recv_keeps dispatch_keeps' assms(1) by blast
  next
    case (handled k s msg vs rest c s1 e s')
    then show ?case using recv_keeps dispatch_keeps' assms(1) by blast
  qed simp
  with assms(2) show ?thesis by (metis surjective_pairing)
qed

end

section \<open>The store the server runs on\<close>

definition postgres_store :: "db store_ops" where
  "postgres_store =
     \<lparr>op_UpsertAccount = UpsertAccount, op_SaveOptions = SaveOptions, op_ListCharacters = ListCharacters,
      op_CreateCharacter = CreateCharacter\<rparr>"

lemma postgres_ops [simp]:
  "op_UpsertAccount postgres_store = UpsertAccount" "op_SaveOptions postgres_store = SaveOptions"
  "op_ListCharacters postgres_store = ListCharacters" "op_CreateCharacter postgres_store = CreateCharacter"
  by (simp_all add: postgres_store_def)

text \<open>Concrete inputs: a server of world 1, the region refusing everyone, a session of account 3.\<close>

definition sample_handler :: "db handler" where
  "sample_handler = \<lparr>h_Auth = NewClient ''http://127.0.0.1:8002'' False, h_Store = postgres_store, h_ProtocolVer = 0, h_WorldID = 1\<rparr>"

definition sample_moment :: moment where
  "sample_moment = \<lparr>mo_cancelled = False, mo_now = 1789801837000000000, mo_region = \<lambda>_. Inr (404, None)\<rparr>"

definition lobby_session :: "db \<Rightarrow> db session" where
  "lobby_session db = (new_session 7 sample_conn db (replicate 8 1))
     \<lparr>s_accountID := 3, s_accountCode := ''tana'', s_authed := True\<rparr>"

lemma sample_simps [simp]:
  "h_Store sample_handler = postgres_store" "h_WorldID sample_handler = 1" "h_ProtocolVer sample_handler = 0"
  "s_authed (lobby_session db)" "s_accountID (lobby_session db) = 3" "s_db (lobby_session db) = db"
  "s_conn (lobby_session db) = sample_conn" "s_cmds (lobby_session db) = []" "s_rng (lobby_session db) = replicate 8 1"
  "sk_room (cn_raw sample_conn) = None" "s_id (lobby_session db) = 7" "s_character (lobby_session db) = None"
  by (simp_all add: sample_handler_def lobby_session_def new_session_def sample_conn_def)

end
