(* ===== verification/GameReplies.thy ===== *)
theory GameReplies
  imports Game
begin

text \<open>
  The replies of the handlers: for every reply the zero values exist and what the handler writes
  over them can be encoded, so a handler never fails for want of a well-formed reply.
\<close>

section \<open>Struct values\<close>

lemmas in_struct_chunk = struct_chunks [THEN in_chunk]

lemma in_rom_structs:
  "x \<in> set structs_5 \<Longrightarrow> x \<in> set rom_structs"
  "x \<in> set structs_6 \<Longrightarrow> x \<in> set rom_structs"
  "x \<in> set structs_10 \<Longrightarrow> x \<in> set rom_structs"
  by (simp_all add: rom_structs_def)

definition lobby_layout :: "field list" where
  "lobby_layout =
     [Field ''m_slotIndex'' ty_Byte, Field ''m_classType'' ty_Byte, Field ''m_subClassType'' ty_Byte,
      Field ''m_name'' ty_Chars, Field ''m_headType'' ty_Byte, Field ''m_equipCostumeIndex'' ty_Int32,
      Field ''m_equipCostumeStepUp'' ty_Byte, Field ''m_weaponItemIndex'' ty_Int32, Field ''m_weaponEnchant'' ty_Byte,
      Field ''m_level'' ty_Int32, Field ''m_exp'' ty_Int64, Field ''m_realPower'' ty_Int32, Field ''m_mapIndex'' ty_Int32,
      Field ''m_latestLoginTime'' ty_Int64, Field ''m_latestLogoutTime'' ty_Int64, Field ''m_deletedTime'' ty_Int64,
      Field ''m_createdTime'' ty_Int64, Field ''m_guildName'' ty_Chars]"

definition vector_layout :: "field list" where
  "vector_layout = [Field ''m_x'' ty_Single, Field ''m_y'' ty_Single, Field ''m_z'' ty_Single]"

definition my_player_layout :: "field list" where
  "my_player_layout =
     [Field ''m_OID'' ty_Int64, Field ''m_objectType'' ty_Byte, Field ''m_appearType'' ty_Byte,
      Field ''m_dir'' ty_Single, Field ''m_pos'' ty_Vector, Field ''m_alive'' ty_Byte,
      Field ''m_effectBuffList'' ty_List_Int32, Field ''m_worldID'' ty_Int32, Field ''m_name'' ty_Chars,
      Field ''m_class'' ty_Byte, Field ''m_subClass'' ty_Byte, Field ''m_alignment'' ty_Int32,
      Field ''m_headIndex'' ty_Int32, Field ''m_costumeIndex'' ty_Int32, Field ''m_costumeStepUp'' ty_Byte,
      Field ''m_weaponIndex'' ty_Int32, Field ''m_weaponEnchant'' ty_Byte, Field ''m_unionOID'' ty_Int64,
      Field ''m_unionMarkIndex'' ty_Int32, Field ''m_guildOID'' ty_Int64,
      Field ''m_guildMarkIndex'' ty_Int32, Field ''m_guildMemberGrade'' ty_Byte,
      Field ''m_petIndex'' ty_Int32, Field ''m_titleIndex'' ty_Int32, Field ''m_wantedRank'' ty_Int32,
      Field ''m_isSlayer'' ty_Boolean, Field ''m_teamIndex'' ty_Byte, Field ''m_memberIndex'' ty_Byte,
      Field ''m_memberType'' ty_Byte, Field ''m_chaoExpiredTime'' ty_Int64, Field ''m_level'' ty_Int32,
      Field ''m_exp'' ty_Int64, Field ''m_powerRank'' ty_Int32, Field ''m_prevPowerRank'' ty_Int32,
      Field ''m_mapIndex'' ty_Int32, Field ''m_statInfo'' ty_StatInfo,
      Field ''m_useWorldAuction'' ty_Boolean, Field ''m_mineRemainTime'' ty_Int32,
      Field ''m_equippedCostumeIndex'' ty_Int32, Field ''m_equippedCostumeStepUp'' ty_Byte,
      Field ''m_equippedPetIndex'' ty_Int32]"

lemma reply_structs: "(ty_LobbyPlayerInfo, lobby_layout) \<in> set rom_structs" "(ty_Vector, vector_layout) \<in> set rom_structs"
  "(ty_MyPlayerInfo, my_player_layout) \<in> set rom_structs"
  unfolding lobby_layout_def vector_layout_def my_player_layout_def
  by (rule in_rom_structs, rule in_struct_chunk, (rule list.set_intros(1) | rule list.set_intros(2))+)+

text \<open>A struct encodes exactly when each of its fields is there with a value that encodes.\<close>

lemma struct_ok:
  assumes "(t, l) \<in> set rom_structs"
  shows "is_ok (encodeValue rom (Suc n) t (VValues m) owner nm) \<longleftrightarrow>
    (\<forall>f\<in>set l. \<exists>v. m (fName f) = Some v \<and> is_ok (encodeValue rom n (fType f) v t (fName f)))"
proof -
  have k: "zero_primitive t = None" "\<not> is_array_type t" "\<not> is_list_type t"
    using struct_kind assms by (auto simp: list_all_iff)
  then have "primitiveEncoders t = None" by (simp add: prim_dom)
  then show ?thesis
    using k rom_struct [OF assms] by (simp add: is_ok_rbind is_ok_encode_fields flip: is_ok_iff)
qed

lemma list_ok:
  assumes "(t, e) \<in> set list_types"
  shows "is_ok (encodeValue rom (Suc n) t (VList xs) owner nm) \<longleftrightarrow> (\<forall>x\<in>set xs. is_ok (encodeValue rom n e x owner nm))"
proof -
  have k: "zero_primitive t = None" "\<not> is_array_type t" "is_list_type t" "list_elem t = e"
    using list_kind assms by (auto simp: list_all_iff)
  then have "primitiveEncoders t = None" by (simp add: prim_dom)
  with k show ?thesis by (auto simp: is_ok_rbind is_ok_map_res simp flip: is_ok_iff)
qed

declare encodeValue.simps(2) [simp del]

lemma lobby_ok: "is_ok (encodeValue rom (Suc (Suc n)) ty_LobbyPlayerInfo (VValues (toLobbyPlayerInfo c)) owner nm)"
  unfolding struct_ok [OF reply_structs(1)]
  by (simp add: lobby_layout_def toLobbyPlayerInfo_def rom_eval enc_string_def)

lemma lobby_list_ok:
  "is_ok (encodeValue rom codec_fuel ty_List_LobbyPlayerInfo
     (VList (map (\<lambda>c. VValues (toLobbyPlayerInfo c)) cs)) owner nm)"
proof -
  have t: "(ty_List_LobbyPlayerInfo, ty_LobbyPlayerInfo) \<in> set list_types" by (simp add: list_types_def)
  show ?thesis
    by (simp add: codec_fuel_def eval_nat_numeral list_ok [OF t] lobby_ok)
qed

text \<open>A nested struct filled in by the handler.\<close>

lemma in_struct_other: "j \<noteq> k \<Longrightarrow> in_struct k g m j = m j"
  by (auto simp: in_struct_def split: option.split goval.split)

lemma in_struct_ok:
  assumes "m k = Some v" "is_ok (enc v)" "\<And>x. is_ok (enc (VValues x)) \<Longrightarrow> is_ok (enc (VValues (g x)))"
  shows "\<exists>v. in_struct k g m k = Some v \<and> is_ok (enc v)"
  using assms by (auto simp: in_struct_def split: goval.split)

lemma set_pos_ok: "is_ok (encodeValue rom (Suc (Suc n)) ty_Vector (VValues (set_pos c m)) owner nm)"
  unfolding struct_ok [OF reply_structs(2)]
  by (simp add: vector_layout_def set_pos_def rom_eval)

definition filled :: "field list" where
  "filled =
     [Field ''m_OID'' ty_Int64, Field ''m_dir'' ty_Single, Field ''m_pos'' ty_Vector, Field ''m_worldID'' ty_Int32,
      Field ''m_name'' ty_Chars, Field ''m_class'' ty_Byte, Field ''m_subClass'' ty_Byte, Field ''m_headIndex'' ty_Int32,
      Field ''m_level'' ty_Int32, Field ''m_exp'' ty_Int64, Field ''m_mapIndex'' ty_Int32,
      Field ''m_useWorldAuction'' ty_Boolean]"

lemma filled_fields: "filter (\<lambda>f. fName f \<in> set (map fName filled)) my_player_layout = filled"
  by (simp add: filled_def my_player_layout_def)

lemma fill_other: "k \<notin> set (map fName filled) \<Longrightarrow> fillMyPlayerInfo h info c oid k = info k"
  by (simp add: filled_def fillMyPlayerInfo_def in_struct_other)

lemma fill_pos:
  assumes "info ''m_pos'' = Some v" "is_ok (encodeValue rom (Suc (Suc n)) ty_Vector v owner nm)"
  shows "\<exists>v. fillMyPlayerInfo h info c oid ''m_pos'' = Some v \<and> is_ok (encodeValue rom (Suc (Suc n)) ty_Vector v owner nm)"
  unfolding fillMyPlayerInfo_def
  by (rule in_struct_ok) (use assms in \<open>simp_all add: set_pos_ok\<close>)

lemma fill_field:
  assumes "f \<in> set filled" "fName f \<noteq> ''m_pos''"
  shows "\<exists>v. fillMyPlayerInfo h info c oid (fName f) = Some v \<and> is_ok (encodeValue rom (Suc n) (fType f) v owner nm)"
  unfolding fillMyPlayerInfo_def in_struct_other [OF assms(2)]
  using assms unfolding filled_def set_simps insert_iff empty_iff
  by (elim disjE FalseE) (simp_all add: rom_eval enc_string_def enc_bool_def)

lemma fill_ok:
  assumes "is_ok (encodeValue rom (Suc (Suc (Suc n))) ty_MyPlayerInfo (VValues info) owner nm)"
  shows "is_ok (encodeValue rom (Suc (Suc (Suc n))) ty_MyPlayerInfo (VValues (fillMyPlayerInfo h info c oid)) owner nm)"
proof -
  have z: "\<forall>f\<in>set my_player_layout. \<exists>v. info (fName f) = Some v \<and>
      is_ok (encodeValue rom (Suc (Suc n)) (fType f) v ty_MyPlayerInfo (fName f))"
    using assms unfolding struct_ok [OF reply_structs(3)] .
  show ?thesis
    unfolding struct_ok [OF reply_structs(3)]
  proof
    fix f assume f: "f \<in> set my_player_layout"
    show "\<exists>v. fillMyPlayerInfo h info c oid (fName f) = Some v \<and>
      is_ok (encodeValue rom (Suc (Suc n)) (fType f) v ty_MyPlayerInfo (fName f))"
    proof (cases "fName f \<in> set (map fName filled)")
      case False
      show ?thesis unfolding fill_other [OF False] using z f by blast
    next
      case True
      with f have "f \<in> set (filter (\<lambda>f. fName f \<in> set (map fName filled)) my_player_layout)" by simp
      then have in_filled: "f \<in> set filled" unfolding filled_fields .
      show ?thesis
      proof (cases "fName f = ''m_pos''")
        case True
        then have "fType f = ty_Vector" using in_filled by (auto simp: filled_def)
        then show ?thesis using fill_pos bspec [OF z f] True by fastforce
      qed (rule fill_field [OF in_filled])
    qed
  qed
qed

section \<open>Whole replies\<close>

definition replies :: "string \<Rightarrow> (vals \<Rightarrow> vals) \<Rightarrow> bool" where
  "replies name f \<longleftrightarrow> (\<exists>z. ZeroValues rom name = Inr z \<and> is_ok (Encode rom name (f z)))"

definition fields_ok :: "string \<Rightarrow> field list \<Rightarrow> vals \<Rightarrow> bool" where
  "fields_ok owner fs z \<longleftrightarrow>
     (\<forall>d\<in>set fs. \<exists>v. z (fName d) = Some v \<and> is_ok (encodeValue rom codec_fuel (fType d) v owner (fName d)))"

lemma fields_ok_simps [simp]:
  "fields_ok owner [] z"
  "fields_ok owner (Field k t # fs) z \<longleftrightarrow>
     (\<exists>v. z k = Some v \<and> is_ok (encodeValue rom codec_fuel t v owner k)) \<and> fields_ok owner fs z"
  by (simp_all add: fields_ok_def)

text \<open>Zero values have every field, so only the fields a handler sets have to be looked at.\<close>

lemma repliesI:
  assumes "byName rom name = Some msg" "name \<notin> set unsized_messages"
    and "\<And>z. fields_ok (full_name msg) (msgFields msg) z \<Longrightarrow> fields_ok (full_name msg) (msgFields msg) (f z)"
  shows "replies name f"
proof -
  have "encodable rom msg" using encodable_rom [OF assms(1)] assms(2) by simp
  from ZeroValues_good [OF layouts_distinct_rom assms(1) this]
  obtain z where "ZeroValues rom name = Inr z" "is_ok (Encode rom name z)" by blast
  then show ?thesis
    using assms(3) [of z] unfolding replies_def is_ok_Encode [OF assms(1)] fields_ok_def by blast
qed

lemma not_unsized:
  "list_all (\<lambda>n. n \<notin> set unsized_messages)
     [''S2C_VersionCheck'', ''S2C_SessionAuthLogin'', ''S2C_WaitingUserCount'', ''S2C_PlayerList'', ''S2C_CreatePlayer'',
      ''S2C_EnterWorld'', ''S2C_EnterWorldComplete'', ''S2C_MapEnter'', ''S2C_MapEnterPreComplete'',
      ''S2C_MapEnterComplete'', ''S2C_PlayerLoadFirstCall'', ''S2C_Logout'']"
  by (simp add: unsized_messages_def)

lemmas sized_reply = not_unsized [unfolded list.pred_inject]

lemma plain_replies:
  "replies ''S2C_VersionCheck'' (\<lambda>reply. reply(''m_protocolVer'' \<mapsto> VInt64 a, ''m_serverID'' \<mapsto> VInt64 b,
     ''m_utcTimeOffset'' \<mapsto> VInt64 c, ''m_serverTime'' \<mapsto> VInt64 d, ''m_serverTick'' \<mapsto> VInt64 e))"
  "replies ''S2C_SessionAuthLogin'' (\<lambda>reply. reply(''m_result'' \<mapsto> VInt64 a, ''m_accountCode'' \<mapsto> VString s,
     ''m_sessionKey'' \<mapsto> VInt64 b))"
  "replies ''S2C_WaitingUserCount'' (\<lambda>reply. reply(''m_nowServerTime'' \<mapsto> VInt64 a))"
  "replies ''S2C_EnterWorld'' (\<lambda>reply. reply(''m_result'' \<mapsto> VInt64 a, ''m_playerSlotIndex'' \<mapsto> VUint64 b))"
  "replies ''S2C_MapEnterPreComplete'' (\<lambda>reply. reply)"
  "replies ''S2C_MapEnterComplete'' (\<lambda>reply. reply(''m_result'' \<mapsto> VInt64 a, ''m_playerOID'' \<mapsto> VInt64 b))"
  "replies ''S2C_PlayerLoadFirstCall'' (\<lambda>reply. reply(''m_result'' \<mapsto> VInt64 a))"
  "replies ''S2C_Logout'' (\<lambda>reply. reply)"
  by (rule repliesI [OF handler_messages(14)] repliesI [OF handler_messages(15)] repliesI [OF handler_messages(16)]
      repliesI [OF handler_messages(19)] repliesI [OF handler_messages(22)] repliesI [OF handler_messages(23)]
      repliesI [OF handler_messages(24)] repliesI [OF handler_messages(25)];
    simp add: sized_reply codec_fuel_def rom_eval enc_string_def)+

lemma list_reply:
  "replies ''S2C_PlayerList'' (\<lambda>reply. reply(''m_maxSlotCount'' \<mapsto> VUint64 a,
     ''m_playerList'' \<mapsto> VList (map (\<lambda>c. VValues (toLobbyPlayerInfo c)) cs), ''m_enableStoarge'' \<mapsto> VBool b))"
  by (rule repliesI [OF handler_messages(17)]) (simp_all add: sized_reply lobby_list_ok, simp add: codec_fuel_def rom_eval enc_bool_def)

lemma create_reply:
  "replies ''S2C_CreatePlayer'' (\<lambda>reply. reply(''m_result'' \<mapsto> VInt64 a))"
  "replies ''S2C_CreatePlayer'' (\<lambda>reply. reply(''m_result'' \<mapsto> VInt64 a, ''m_player'' \<mapsto> VValues (toLobbyPlayerInfo c)))"
proof -
  have l: "is_ok (encodeValue rom codec_fuel ty_LobbyPlayerInfo (VValues (toLobbyPlayerInfo c)) owner nm)" for owner nm
    by (simp add: codec_fuel_def eval_nat_numeral lobby_ok)
  show "replies ''S2C_CreatePlayer'' (\<lambda>reply. reply(''m_result'' \<mapsto> VInt64 a))"
    by (rule repliesI [OF handler_messages(18)]) (simp_all add: sized_reply, simp add: codec_fuel_def rom_eval)
  show "replies ''S2C_CreatePlayer'' (\<lambda>reply. reply(''m_result'' \<mapsto> VInt64 a, ''m_player'' \<mapsto> VValues (toLobbyPlayerInfo c)))"
    by (rule repliesI [OF handler_messages(18)]) (simp_all add: sized_reply l, simp add: codec_fuel_def rom_eval)
qed

lemma in_struct_field:
  assumes "\<exists>v. z k = Some v \<and> is_ok (encodeValue rom codec_fuel t v owner k)"
    and "\<And>x. is_ok (encodeValue rom codec_fuel t (VValues x) owner k) \<Longrightarrow>
      is_ok (encodeValue rom codec_fuel t (VValues (g x)) owner k)"
  shows "\<exists>v. in_struct k g z k = Some v \<and> is_ok (encodeValue rom codec_fuel t v owner k)"
  using assms in_struct_ok [of z k _ "\<lambda>v. encodeValue rom codec_fuel t v owner k" g] by blast

lemma filled_field:
  "\<exists>v. z ''m_myPlayerInfo'' = Some v \<and> is_ok (encodeValue rom codec_fuel ty_MyPlayerInfo v owner ''m_myPlayerInfo'') \<Longrightarrow>
   \<exists>v. in_struct ''m_myPlayerInfo'' (\<lambda>info. fillMyPlayerInfo h info c oid) z ''m_myPlayerInfo'' = Some v \<and>
     is_ok (encodeValue rom codec_fuel ty_MyPlayerInfo v owner ''m_myPlayerInfo'')"
  by (erule in_struct_field) (simp add: codec_fuel_def eval_nat_numeral fill_ok)

lemma pos_field:
  "\<exists>v. z k = Some v \<and> is_ok (encodeValue rom codec_fuel ty_Vector v owner k) \<Longrightarrow>
   \<exists>v. in_struct k (set_pos c) z k = Some v \<and> is_ok (encodeValue rom codec_fuel ty_Vector v owner k)"
  by (erule in_struct_field) (simp add: codec_fuel_def eval_nat_numeral set_pos_ok)

lemma enter_reply:
  "replies ''S2C_EnterWorldComplete'' (\<lambda>reply. in_struct ''m_myPlayerInfo'' (\<lambda>info. fillMyPlayerInfo h info c oid)
     (reply(''m_result'' \<mapsto> VInt64 a, ''m_warpToken'' \<mapsto> VInt64 b)))"
  by (rule repliesI [OF handler_messages(20)])
    (simp_all add: sized_reply in_struct_other filled_field, simp add: codec_fuel_def rom_eval)

lemma map_reply:
  "replies ''S2C_MapEnter'' (\<lambda>reply. in_struct ''m_startPos'' (set_pos ch)
     (reply(''m_result'' \<mapsto> VInt64 a, ''m_mapIndex'' \<mapsto> VInt64 b, ''m_layerIndex'' \<mapsto> VInt64 c, ''m_dir'' \<mapsto> VFloat64 d,
       ''m_serverID'' \<mapsto> VInt64 e, ''m_serverTick'' \<mapsto> VInt64 f)))"
  by (rule repliesI [OF handler_messages(21)])
    (simp_all add: sized_reply in_struct_other pos_field, simp add: codec_fuel_def rom_eval)

section \<open>How a handler can fail\<close>

text \<open>A reply that can be built is sent, or the network refuses it.\<close>

lemma send_reply_result:
  assumes "replies name f"
  shows "fst (send_reply name f s) = Inr () \<or> fst (send_reply name f s) = Inl (SendError WriteFailed)"
proof -
  from assms obtain z plain where "ZeroValues rom name = Inr z" "Encode rom name (f z) = Inr plain"
    by (auto simp: replies_def is_ok_iff)
  then show ?thesis
    by (auto simp: send_reply_def Send_def writeFrame_def Write_def Let_def split_beta split: sum.split option.split)
qed

text \<open>With room on the network a reply is never refused.\<close>

lemma send_reply_roomy:
  assumes "replies name f" "sk_room (cn_raw (s_conn s)) = None"
  shows "fst (send_reply name f s) = Inr ()"
proof -
  from assms(1) obtain z plain where "ZeroValues rom name = Inr z" "Encode rom name (f z) = Inr plain"
    by (auto simp: replies_def is_ok_iff)
  then show ?thesis
    using assms(2) by (simp add: send_reply_def Send_def writeFrame_def Write_def Let_def split_beta split: sum.split)
qed

definition excused :: "string \<Rightarrow> herr + unit \<Rightarrow> bool" where
  "excused name r \<longleftrightarrow>
     (case r of
        Inr _ \<Rightarrow> True
      | Inl (NotLoggedIn n) \<Rightarrow> n = name
      | Inl (BuildError e) \<Rightarrow> False
      | Inl (SendError e) \<Rightarrow> e = WriteFailed
      | Inl (TokenError e) \<Rightarrow> e = RandomFailed
      | Inl _ \<Rightarrow> True)"

lemma excused_simps [simp]:
  "excused name (Inr u)" "excused name (Inl (NotLoggedIn n)) = (n = name)" "excused name (Inl IdentifiersDiffer)"
  "excused name (Inl (VersionDiffers v))" "excused name (Inl (NoCharacter w))" "excused name (Inl WarpTokenMismatch)"
  "excused name (Inl (StoreError w e))" "excused name (Inl (TokenError t)) = (t = RandomFailed)"
  by (simp_all add: excused_def)

lemma send_excused: "replies n f \<Longrightarrow> excused name (fst (send_reply n f s))"
  using send_reply_result [of n f s] by (auto simp: excused_def)

lemmas all_replies = plain_replies list_reply create_reply enter_reply map_reply

lemma login_excused: "excused name (fst (handleLogin h m s vs))"
  by (auto simp: handleLogin_def sendLoginResult_def Let_def intro!: send_excused all_replies
      split: sum.split prod.split)

lemma playerList_excused: "excused name (fst (handlePlayerList h s))"
  by (auto simp: handlePlayerList_def Let_def intro!: send_excused all_replies split: sum.split prod.split)

lemma createResult_excused:
  "excused name (fst (sendCreateResult s r None))"
  "excused name (fst (sendCreateResult s r (Some (toLobbyPlayerInfo c))))"
  by (simp_all add: sendCreateResult_def send_excused all_replies)

lemma create_excused: "excused name (fst (handleCreatePlayer h s vs))"
  by (auto simp: handleCreatePlayer_def Let_def createResult_excused split: sum.split prod.split option.split serr.split)

lemma enterResult_excused: "excused name (fst (sendEnterWorldResult s r k))"
  by (simp add: sendEnterWorldResult_def send_excused all_replies)

lemma token_error: "newWarpToken rng = Inl e \<Longrightarrow> e = RandomFailed"
  by (auto simp: newWarpToken_def rand_Read_def Let_def split: if_splits)

lemma enter_excused: "excused name (fst (handleEnterWorld h s vs))"
proof -
  have "excused name (Inl e)" if "sendEnterWorldResult s' r k = (Inl e, s1)" for e s' r k s1
    using enterResult_excused [of name s' r k] that by simp
  then show ?thesis
    by (auto simp: handleEnterWorld_def Let_def sendEnterWorldComplete_def enterResult_excused
        intro!: send_excused all_replies dest: token_error split: sum.split prod.split option.split)
qed

lemma dispatch_excused: "excused name (fst (dispatch h m s name vs))"
  by (simp add: dispatch_def login_excused playerList_excused create_excused enter_excused
      handleVersionCheck_def handleSetOptions_def handleWaitingUserCount_def handleMapEnter_def
      handleMapEnterPreComplete_def handleMapEnterComplete_def handlePlayerLoadFirstCall_def handleLogout_def
      send_excused all_replies Let_def split: option.split)

section \<open>Properties\<close>

text \<open>C19. A handler gives up a connection only for a reason of the protocol, of the store, or of the
  network: no reply it builds is ever refused by the catalog or the encoder, whatever the client
  sent and whatever rows the store returned.\<close>
theorem dispatch_errors:
  assumes "fst (dispatch h m s name vs) = Inl e"
  shows "e \<in> {NotLoggedIn name, IdentifiersDiffer, WarpTokenMismatch, TokenError RandomFailed, SendError WriteFailed} \<or>
    (\<exists>v. e = VersionDiffers v) \<or> (\<exists>w. e = NoCharacter w) \<or> (\<exists>w x. e = StoreError w x)"
  using dispatch_excused [of name h m s vs] assms by (cases e) (auto simp: excused_def)

lemma dispatch_errors_witness:
  "fst (dispatch sample_handler sample_moment (new_session 7 sample_conn empty_db []) ''C2S_PlayerList'' Map.empty) =
     Inl (NotLoggedIn ''C2S_PlayerList'') \<and>
   NotLoggedIn ''C2S_PlayerList'' \<in> {NotLoggedIn ''C2S_PlayerList'', IdentifiersDiffer, WarpTokenMismatch,
     TokenError RandomFailed, SendError WriteFailed}"
proof -
  have d: "fst (dispatch sample_handler sample_moment (new_session 7 sample_conn empty_db []) ''C2S_PlayerList'' Map.empty) =
      Inl (NotLoggedIn ''C2S_PlayerList'')"
    by (simp add: dispatch_def new_session_def)
  from dispatch_errors [OF d] d show ?thesis by auto
qed

end
