(* ===== verification/GameProofs.thy ===== *)
theory GameProofs
  imports GameReplies
begin

text \<open>
  What the handlers keep true: the gate before login, the characters of an account and their names,
  the warp token, what a connection tells the world, and the life of a connection.
\<close>

section \<open>The lobby\<close>

lemma freeSlot_cases:
  "freeSlot cs = (if 0 \<notin> SlotIndex ` set cs then Some 0 else if 1 \<notin> SlotIndex ` set cs then Some 1
     else if 2 \<notin> SlotIndex ` set cs then Some 2 else None)"
  by (simp add: freeSlot_def maxCharacterSlots_def upto_rec1)

lemma freeSlot_bounds: "freeSlot cs = Some slot \<Longrightarrow> 0 \<le> sint slot \<and> sint slot < maxCharacterSlots"
  by (auto simp: freeSlot_cases maxCharacterSlots_def split: if_splits)

lemma new_character_simps [simp]:
  "AccountID (new_character a slot name cl ht) = a" "SlotIndex (new_character a slot name cl ht) = slot"
  "Name (new_character a slot name cl ht) = name" "DeletedTime (new_character a slot name cl ht) = 0"
  "Level (new_character a slot name cl ht) = 1" "MapID (new_character a slot name cl ht) = 501"
  "ClassType (new_character a slot name cl ht) = ucast cl" "HeadType (new_character a slot name cl ht) = ucast ht"
  "GuildName (new_character a slot name cl ht) = []"
  by (simp_all add: new_character_def no_character_def startMapForClass_def startMaps_def defaultStartMap_def)

text \<open>Over any store that keeps its contract, the slots in use stay below the cap.\<close>

locale hosted_store = store +
  fixes h :: "'a handler"
  assumes hosted: "h_Store h = \<lparr>op_UpsertAccount = UpsertAccount, op_SaveOptions = SaveOptions,
    op_ListCharacters = ListCharacters, op_CreateCharacter = CreateCharacter\<rparr>"
begin

definition slots_kept :: "'a session \<Rightarrow> bool" where
  "slots_kept s \<longleftrightarrow> inv (s_db s) \<and> (\<forall>a. slots_below maxCharacterSlots (s_db s) a)"

lemma slots_kept_same: "slots_kept s \<Longrightarrow> inv db \<and> chars db = chars (s_db s) \<Longrightarrow> slots_kept (s\<lparr>s_db := db\<rparr>)"
  by (simp add: slots_kept_def slots_below_def)

end

sublocale hosted_store \<subseteq> slots: served_invariant h "\<lambda>_. True" slots_kept
proof unfold_locales
  show "slots_kept (s\<lparr>s_db := db\<rparr>)"
    if "slots_kept s" "op_UpsertAccount (h_Store h) (s_db s) (sAccountID a) (UserCode a) = (r, db)" for s a r db
    using that upsert [of "s_db s" "sAccountID a" "UserCode a" r db] hosted
    by (intro slots_kept_same) (simp_all add: slots_kept_def)
  show "slots_kept (s\<lparr>s_db := db\<rparr>)"
    if "slots_kept s" "op_SaveOptions (h_Store h) (s_db s) (s_accountID s) opts = (r, db)" for s opts r db
    using that save [of "s_db s" "s_accountID s" opts r db] hosted
    by (intro slots_kept_same) (simp_all add: slots_kept_def)
  show "slots_kept (s\<lparr>s_db := db\<rparr>)"
    if "slots_kept s" "op_ListCharacters (h_Store h) (s_db s) (s_accountID s) = (rs, db)" for s rs db
    using that list [of "s_db s" "s_accountID s" rs db] hosted
    by (intro slots_kept_same) (simp_all add: slots_kept_def)
  show "slots_kept (s\<lparr>s_db := db\<rparr>)"
    if "slots_kept s" "freeSlot cs = Some slot"
      "op_CreateCharacter (h_Store h) (s_db s) (new_character (s_accountID s) slot name cl ht) = (rc, db)"
    for s cs slot name cl ht rc db
    using that create_keeps_below [of "s_db s" "new_character (s_accountID s) slot name cl ht" rc db maxCharacterSlots]
      freeSlot_bounds [of cs slot] hosted by (simp add: slots_kept_def)
  show "slots_kept (entered h c token rng (s\<lparr>s_db := db\<rparr>))"
    if "slots_kept s" "op_ListCharacters (h_Store h) (s_db s) (s_accountID s) = (Inr cs, db)" for s cs db c token rng
  proof -
    have "slots_kept (s\<lparr>s_db := db\<rparr>)"
      using that list [of "s_db s" "s_accountID s" "Inr cs" db] hosted
      by (intro slots_kept_same) (simp_all add: slots_kept_def)
    then show ?thesis by (simp add: slots_kept_def session_updates)
  qed
qed (simp_all add: slots_kept_def)

interpretation hosted: hosted_store UpsertAccount SaveOptions ListCharacters CreateCharacter wf_db selected
    "h\<lparr>h_Store := postgres_store\<rparr>" for h
  by unfold_locales (simp add: postgres_store_def)

lemma hosted_handler: "h_Store h = postgres_store \<Longrightarrow> h\<lparr>h_Store := postgres_store\<rparr> = h"
  by (cases h) simp

lemma new_session_simps [simp]:
  "s_id (new_session i c db rng) = i" "s_conn (new_session i c db rng) = c" "s_authed (new_session i c db rng) = False"
  "s_character (new_session i c db rng) = None" "s_inWorld (new_session i c db rng) = False"
  "s_warpToken (new_session i c db rng) = 0" "s_playerOID (new_session i c db rng) = 0"
  "s_db (new_session i c db rng) = db" "s_rng (new_session i c db rng) = rng" "s_cmds (new_session i c db rng) = []"
  by (simp_all add: new_session_def)

lemma hang_up_simps [simp]:
  "s_db (hang_up s) = s_db s" "s_rng (hang_up s) = s_rng s" "s_authed (hang_up s) = s_authed s"
  "sk_closed (cn_raw (s_conn (hang_up s)))" "sk_rx (cn_raw (s_conn (hang_up s))) = sk_rx (cn_raw (s_conn s))"
  "s_accountID (hang_up s) = s_accountID s"
  by (simp_all add: hang_up_def Close_def world_do_def Let_def split: option.split)

lemma hang_up_cmds:
  "s_cmds (hang_up s) = s_cmds s @ (case s_character s of Some c \<Rightarrow> if s_inWorld s then [Leave (ID c)] else [] | None \<Rightarrow> [])"
  by (simp add: hang_up_def world_do_def Let_def split: option.split)

lemma Serve_eq: "snd (Serve h ctx i c db rng) = hang_up (snd (serve_loop h ctx 0 (new_session i c db rng)))"
  "fst (Serve h ctx i c db rng) = fst (serve_loop h ctx 0 (new_session i c db rng))"
  by (simp_all add: Serve_def split_beta)

text \<open>The state of the store that connections leave to one another.\<close>

definition lobby_slots :: "db \<Rightarrow> bool" where
  "lobby_slots db \<longleftrightarrow> wf_db db \<and>
     list_all (\<lambda>c. DeletedTime c = 0 \<longrightarrow> 0 \<le> sint (SlotIndex c) \<and> sint (SlotIndex c) < maxCharacterSlots) (db_characters db)"

lemma lobby_slots_iff: "lobby_slots (s_db s) \<longleftrightarrow> hosted.slots_kept s"
  by (auto simp: lobby_slots_def hosted.slots_kept_def pg.slots_below_def set_selected list_all_iff)

text \<open>However many connections are served, one after another and whatever their clients send, an
  account never has more than three characters to choose from: a connection leaves the store with
  the schema intact and every active character in one of the slots 0, 1 and 2.\<close>
lemma three_characters:
  assumes "lobby_slots db" "h_Store h = postgres_store"
  shows "lobby_slots (s_db (snd (Serve h ctx i c db rng))) \<and>
    length (selected (s_db (snd (Serve h ctx i c db rng))) a) \<le> 3"
proof -
  have "hosted.slots_kept (snd (serve_loop h ctx 0 (new_session i c db rng)))"
    using hosted.slots.loop_keeps [where ctx = ctx and s = "new_session i c db rng" and h = h and k = 0] assms(1)
      lobby_slots_iff [of "new_session i c db rng"] by (simp add: hosted_handler [OF assms(2)])
  then show ?thesis
    using pg.count_below [of "s_db (snd (Serve h ctx i c db rng))" maxCharacterSlots a]
    by (simp add: Serve_eq lobby_slots_iff [symmetric]) (simp add: lobby_slots_iff hosted.slots_kept_def maxCharacterSlots_def)
qed

lemma lobby_slots_archer: "lobby_slots archer_db"
  using wf_samples(2) by (simp add: lobby_slots_def archer_db_eq maxCharacterSlots_def) (simp add: archer_def)

section \<open>Before login\<close>

text \<open>While the region vouches for nobody, a connection leaves everything outside of it alone.\<close>

interpretation unvouched: served_invariant h "\<lambda>region. \<forall>key code. \<not> is_ok (Validate region (h_Auth h) key code)"
    "\<lambda>s. \<not> s_authed s \<and> s_db s = db \<and> s_rng s = rng \<and> s_cmds s = [] \<and> s_character s = None" for h :: "'db handler" and db rng
  by unfold_locales (auto simp: is_ok_iff)

text \<open>C6. A client that never presents a key the region vouches for stays outside: at the end of its
  connection the store, the random source and the world are as they were, whatever messages it
  sent and in whatever order.\<close>
theorem nothing_before_login:
  assumes "\<And>k key code. \<not> is_ok (Validate (mo_region (ctx k)) (h_Auth h) key code)"
  shows "s_db (snd (Serve h ctx i c db rng)) = db \<and> s_rng (snd (Serve h ctx i c db rng)) = rng \<and>
    s_cmds (snd (Serve h ctx i c db rng)) = [] \<and> \<not> s_authed (snd (Serve h ctx i c db rng))"
proof -
  let ?s = "snd (serve_loop h ctx 0 (new_session i c db rng))"
  have "\<not> s_authed ?s \<and> s_db ?s = db \<and> s_rng ?s = rng \<and> s_cmds ?s = [] \<and> s_character ?s = None"
    by (rule unvouched.loop_keeps) (simp_all add: assms)
  then show ?thesis by (simp add: Serve_eq hang_up_cmds)
qed

lemma sample_refuses: "\<not> is_ok (Validate (mo_region sample_moment) (h_Auth h) key code)"
  by (simp add: Validate_def sample_moment_def)

lemma nothing_before_login_witness:
  "s_db (snd (Serve sample_handler (\<lambda>_. sample_moment) 7 sample_conn archer_db [])) = archer_db \<and>
   s_cmds (snd (Serve sample_handler (\<lambda>_. sample_moment) 7 sample_conn archer_db [])) = []"
  using nothing_before_login [of "\<lambda>_. sample_moment" sample_handler] sample_refuses by blast

end
