(* ===== verification/GameWorld.thy ===== *)
theory GameWorld
  imports GameProofs
begin

text \<open>
  A connection and the world: the replies of the enter sequence, the warp token that ties
  \<open>C2S_MapEnter\<close> to it, the commands a connection hands to the world over its life, and how that life
  ends.
\<close>

section \<open>The state of entering\<close>

definition entered_state :: "'db handler \<Rightarrow> 'db session \<Rightarrow> bool" where
  "entered_state h s \<longleftrightarrow>
     (case s_character s of
        None \<Rightarrow> s_warpToken s = 0 \<and> s_playerOID s = 0 \<and> \<not> s_inWorld s \<and> s_cmds s = []
      | Some c \<Rightarrow> s_warpToken s \<noteq> 0 \<and> s_playerOID s = h_WorldID h * oidWorldMultiplier + ID c \<and> s_inWorld s \<and> s_authed s)"

lemma newWarpToken_nonzero: "newWarpToken rng = Inr (token, rng') \<Longrightarrow> token \<noteq> 0"
  by (auto simp: newWarpToken_def rbind_eq_Inr Let_def split: if_splits)

interpretation entering: served_invariant h "\<lambda>_. True" "entered_state h" for h :: "'db handler"
  by unfold_locales (auto simp: entered_state_def session_updates newWarpToken_nonzero split: option.splits)

lemma dispatch_mapEnter:
  "dispatch h m s ''C2S_MapEnter'' vs =
     (if s_authed s then handleMapEnter h m s vs else (Inl (NotLoggedIn ''C2S_MapEnter''), s))"
  by (simp add: dispatch_def)

lemma send_reply_keeps:
  "s_warpToken (snd (send_reply name f s)) = s_warpToken s" "s_character (snd (send_reply name f s)) = s_character s"
  "s_cmds (snd (send_reply name f s)) = s_cmds s" "s_db (snd (send_reply name f s)) = s_db s"
  by (rule send_reply_cases [of name f s]; simp)+

lemma mapEnter_ok:
  assumes "handleMapEnter h m s vs = (Inr (), s')"
  shows "s_character s \<noteq> None \<and> fst (asInt64 (vs ''m_warpToken'')) = s_warpToken s \<and> s_warpToken s' = s_warpToken s"
proof (cases "s_character s")
  case None
  then show ?thesis using assms by (simp add: handleMapEnter_def)
next
  case (Some c)
  show ?thesis
  proof (cases "fst (asInt64 (vs ''m_warpToken'')) = s_warpToken s")
    case True
    then have "s_warpToken (snd (handleMapEnter h m s vs)) = s_warpToken s"
      using Some by (simp add: handleMapEnter_def send_reply_keeps)
    then show ?thesis using Some True assms by simp
  next
    case False
    then show ?thesis using Some assms by (simp add: handleMapEnter_def)
  qed
qed

lemma asInt64_present: "fst (asInt64 v) \<noteq> 0 \<Longrightarrow> snd (asInt64 v)"
  by (auto simp: asInt64_def split: option.splits goval.splits)

lemma send_reply_ok:
  assumes "replies name f" "sk_room (cn_raw (s_conn s)) = None"
  shows "fst (send_reply name f s) = Inr ()"
proof -
  from assms(1) obtain z plain where "ZeroValues rom name = Inr z" "Encode rom name (f z) = Inr plain"
    by (auto simp: replies_def is_ok_iff)
  then show ?thesis
    using assms(2) by (simp add: send_reply_def Send_def writeFrame_def Write_def Let_def split_beta)
qed

lemma mapEnter_keeps_session: "handleMapEnter h m s vs = (r, s') \<Longrightarrow> s' = s\<lparr>s_conn := s_conn s'\<rparr>"
proof -
  have "snd (send_reply name f s) = s\<lparr>s_conn := s_conn (snd (send_reply name f s))\<rparr>" for name f
    by (rule send_reply_cases [of name f s]) simp_all
  note sent = this
  assume "handleMapEnter h m s vs = (r, s')"
  then have "s' = snd (handleMapEnter h m s vs)" by simp
  then show ?thesis by (simp add: handleMapEnter_def Let_def sent [symmetric] split: option.split)
qed

lemma mapEnter_again:
  assumes "s_character s \<noteq> None" "fst (asInt64 (vs ''m_warpToken'')) = s_warpToken s" "sk_room (cn_raw (s_conn s)) = None"
  shows "fst (handleMapEnter h m s vs) = Inr ()"
  using assms send_reply_ok [OF map_reply assms(3)] by (auto simp: handleMapEnter_def)

text \<open>C14. The token a client must echo on entering a map was drawn for its own entry: at any point of a
  connection a character is selected exactly when a token other than zero was issued, and entering
  a map succeeds only with that token, so not before entering the world and not with a message
  that lacks the token or was cut off before it. It is not used up, though: after a successful
  \<open>C2S_MapEnter\<close> the session is in the same state as before, so the same message succeeds again, as
  often as the client sends it, although the comment at \<open>newWarpToken\<close> says that the token cannot be
  reused there.\<close>
theorem map_enter_needs_token:
  assumes "entered_state h s" "dispatch h m s name vs = (r, s')"
  shows "entered_state h s' \<and> entered_state h (new_session i c db rng) \<and>
    (name = ''C2S_MapEnter'' \<and> r = Inr () \<longrightarrow>
      s_character s \<noteq> None \<and> s_warpToken s \<noteq> 0 \<and> asInt64 (vs ''m_warpToken'') = (s_warpToken s, True) \<and>
      s_warpToken s' = s_warpToken s \<and> s' = s\<lparr>s_conn := s_conn s'\<rparr> \<and>
      (sk_room (cn_raw (s_conn s')) = None \<longrightarrow> fst (dispatch h m' s' name vs) = Inr ()))"
proof -
  have "s_character s \<noteq> None \<and> s_warpToken s \<noteq> 0 \<and> asInt64 (vs ''m_warpToken'') = (s_warpToken s, True) \<and>
      s_warpToken s' = s_warpToken s \<and> s' = s\<lparr>s_conn := s_conn s'\<rparr> \<and>
      (sk_room (cn_raw (s_conn s')) = None \<longrightarrow> fst (dispatch h m' s' name vs) = Inr ())"
    if "name = ''C2S_MapEnter''" "r = Inr ()"
  proof -
    have d: "handleMapEnter h m s vs = (Inr (), s')" and auth: "s_authed s"
      using assms(2) that by (simp_all add: dispatch_mapEnter split: if_splits)
    note ok = mapEnter_ok [OF d]
    then have "s_warpToken s \<noteq> 0" using assms(1) by (auto simp: entered_state_def)
    moreover have "fst (dispatch h m' s' name vs) = Inr ()" if "sk_room (cn_raw (s_conn s')) = None"
    proof -
      have kept: "s' = s\<lparr>s_conn := s_conn s'\<rparr>" by (rule mapEnter_keeps_session [OF d])
      have "s_character s' = s_character s" "s_authed s'" by (subst kept, simp add: auth)+
      then show ?thesis using mapEnter_again [OF _ _ that, of vs h m'] ok \<open>name = _\<close> by (simp add: dispatch_mapEnter)
    qed
    ultimately show ?thesis
      using ok mapEnter_keeps_session [OF d] asInt64_present [of "vs ''m_warpToken''"] by (simp add: prod_eq_iff)
  qed
  moreover have "entered_state h s'"
    using entering.dispatch_keeps' [OF assms(2) assms(1)] by simp
  moreover have "entered_state h (new_session i c db rng)" by (simp add: entered_state_def)
  ultimately show ?thesis by blast
qed

definition on_the_map :: "db session" where
  "on_the_map = (lobby_session archer_db)\<lparr>s_character := Some archer, s_playerOID := 1 * oidWorldMultiplier + ID archer,
     s_warpToken := 5, s_inWorld := True\<rparr>"

lemma send_reply_room:
  "sk_room (cn_raw (s_conn s)) = None \<Longrightarrow> sk_room (cn_raw (s_conn (snd (send_reply name f s)))) = None"
  by (rule send_reply_cases [of name f s])
    (simp_all add: Send_def writeFrame_def Write_def Let_def split_beta split: sum.split)

lemma map_enter_needs_token_witness:
  "fst (dispatch sample_handler sample_moment on_the_map ''C2S_MapEnter'' Map.empty) \<noteq> Inr () \<and>
   fst (dispatch sample_handler sample_moment
     (snd (dispatch sample_handler sample_moment on_the_map ''C2S_MapEnter'' [''m_warpToken'' \<mapsto> VInt64 5]))
     ''C2S_MapEnter'' [''m_warpToken'' \<mapsto> VInt64 5]) = Inr ()"
proof -
  let ?vs = "[''m_warpToken'' \<mapsto> VInt64 5]"
  have s: "s_warpToken on_the_map = 5" "s_character on_the_map = Some archer" "s_authed on_the_map"
    "sk_room (cn_raw (s_conn on_the_map)) = None" by (simp_all add: on_the_map_def)
  have e: "entered_state sample_handler on_the_map"
    by (simp add: entered_state_def on_the_map_def)
  have v: "fst (asInt64 (?vs ''m_warpToken'')) = 5" by (simp add: asInt64_def)
  have "fst (dispatch sample_handler sample_moment on_the_map ''C2S_MapEnter'' ?vs) = Inr ()"
    using mapEnter_again [of on_the_map ?vs sample_handler sample_moment] s v by (simp add: dispatch_mapEnter)
  moreover have "sk_room (cn_raw (s_conn (snd (dispatch sample_handler sample_moment on_the_map ''C2S_MapEnter'' ?vs)))) = None"
    using s v by (simp add: dispatch_mapEnter handleMapEnter_def send_reply_room)
  ultimately show ?thesis
    using map_enter_needs_token [OF e surjective_pairing, of sample_moment "''C2S_MapEnter''" ?vs]
      map_enter_needs_token [OF e surjective_pairing, of sample_moment "''C2S_MapEnter''" Map.empty]
    by (simp add: asInt64_def)
qed

section \<open>Commands for the world\<close>

definition joined :: "'db session \<Rightarrow> player list \<Rightarrow> bool" where
  "joined s ps \<longleftrightarrow> s_cmds s = map Join ps \<and> list_all (\<lambda>p. pConn p = s_id s) ps \<and>
     (case s_character s of
        None \<Rightarrow> ps = [] \<and> \<not> s_inWorld s
      | Some c \<Rightarrow> ps \<noteq> [] \<and> s_inWorld s \<and> CharacterID (last ps) = ID c)"

lemma joined_updates [simp]:
  "joined (s\<lparr>s_conn := cn\<rparr>) ps = joined s ps" "joined (s\<lparr>s_db := db\<rparr>) ps = joined s ps"
  "joined (s\<lparr>s_accountID := a, s_accountCode := code, s_authed := b\<rparr>) ps = joined s ps"
  by (simp_all add: joined_def option.case_eq_if)

lemma joined_entered: "joined s ps \<Longrightarrow> joined (entered h c token rng s) (ps @ [player_of (entered h c token rng s) c])"
  by (simp add: joined_def session_updates)

interpretation joining: served_invariant h "\<lambda>_. True" "\<lambda>s. s_id s = i \<and> (\<exists>ps. joined s ps)" for h :: "'db handler" and i
proof unfold_locales
  show "s_id (entered h c token rng (s\<lparr>s_db := db\<rparr>)) = i \<and> (\<exists>ps. joined (entered h c token rng (s\<lparr>s_db := db\<rparr>)) ps)"
    if "s_id s = i \<and> (\<exists>ps. joined s ps)" for s :: "'db session" and c token rng db
  proof -
    from that obtain ps where "joined (s\<lparr>s_db := db\<rparr>) ps" by auto
    note e = joined_entered [OF this, of h c token rng]
    have "s_id (entered h c token rng (s\<lparr>s_db := db\<rparr>)) = i" using that by (simp add: session_updates)
    with e show ?thesis by blast
  qed
qed auto

lemma found: "find P xs = Some x \<Longrightarrow> x \<in> set xs \<and> P x"
  by (induction xs) (auto split: if_splits)

lemma fold_joins: "fold exec (map Join ps) w k = (case find (\<lambda>p. CharacterID p = k) (rev ps) of Some p \<Rightarrow> Some p | None \<Rightarrow> w k)"
  by (induction ps rule: rev_induct) auto

lemma leave_behind:
  "{k. fold exec (cs @ (if b then [] else [Leave j])) w k \<noteq> None} =
     {k. fold exec cs w k \<noteq> None} - (if b then {} else {j})"
  by (auto split: option.splits)

lemma served_cmds:
  "\<exists>ps. s_cmds (snd (Serve h ctx i c db rng)) = map Join ps @ (if ps = [] then [] else [Leave (CharacterID (last ps))]) \<and>
     list_all (\<lambda>p. pConn p = i) ps"
proof -
  let ?s = "snd (serve_loop h ctx 0 (new_session i c db rng))"
  have "s_id ?s = i \<and> (\<exists>ps. joined ?s ps)"
    by (rule joining.loop_keeps) (auto simp: joined_def)
  then obtain ps where ps: "joined ?s ps" "s_id ?s = i" by blast
  then have "s_cmds (snd (Serve h ctx i c db rng)) = map Join ps @ (if ps = [] then [] else [Leave (CharacterID (last ps))])"
    by (auto simp: joined_def Serve_eq hang_up_cmds split: option.splits)
  then show ?thesis using ps by (auto simp: joined_def)
qed

lemma joins_present: "{k. fold exec (map Join ps) Map.empty k \<noteq> None} = CharacterID ` set ps"
  by (auto simp: fold_joins find_None_iff image_iff dest!: found split: option.split)

lemma joins_left:
  "{k. fold exec (map Join ps @ (if ps = [] then [] else [Leave (CharacterID (last ps))])) Map.empty k \<noteq> None} =
     CharacterID ` set ps - (if ps = [] then {} else {CharacterID (last ps)})"
  unfolding leave_behind joins_present ..

text \<open>C20. What a connection tells the world: it joins under its own identity, and when it ends it leaves
  with the character it entered last. So of the characters it brought into the world exactly that
  one is gone afterwards. A client that enters with one character and then with another leaves the
  first one behind.\<close>
theorem session_commands:
  "\<exists>ps. s_cmds (snd (Serve h ctx i c db rng)) = map Join ps @ (if ps = [] then [] else [Leave (CharacterID (last ps))]) \<and>
     list_all (\<lambda>p. pConn p = i) ps \<and>
     {k. fold exec (s_cmds (snd (Serve h ctx i c db rng))) Map.empty k \<noteq> None} =
       CharacterID ` set ps - (if ps = [] then {} else {CharacterID (last ps)})"
proof -
  obtain ps where "s_cmds (snd (Serve h ctx i c db rng)) = map Join ps @ (if ps = [] then [] else [Leave (CharacterID (last ps))])"
    "list_all (\<lambda>p. pConn p = i) ps" using served_cmds [of h ctx i c db rng] by blast
  then show ?thesis using joins_left [of ps] by (intro exI [of _ ps]) simp
qed

section \<open>The life of a connection\<close>

definition unread :: "'db session \<Rightarrow> byte list" where
  "unread s = sk_rx (cn_raw (s_conn s))"

lemma Recv_unread:
  assumes "Recv (s_conn s) = (r, c)"
  obtains taken where "unread s = taken @ unread (s\<lparr>s_conn := c\<rparr>)" "is_ok r \<Longrightarrow> 6 \<le> length taken"
  using Recv_stream [of "s_conn s"] assms by (auto simp: unread_def split: if_splits)

lemma dispatch_unread: "dispatch h m s name vs = (r, s') \<Longrightarrow> unread s' = unread s"
  by (simp add: unread_def dispatch_rx)

text \<open>
  A run of the loop in \<open>n\<close> full turns and the last one: which bytes it took, and that it looked at no
  moment of the context after that of the last turn.
\<close>

definition runs_in :: "'db handler \<Rightarrow> (nat \<Rightarrow> moment) \<Rightarrow> nat \<Rightarrow> 'db session \<Rightarrow> ending \<Rightarrow> 'db session \<Rightarrow> nat \<Rightarrow> bool" where
  "runs_in h ctx k s e s' n \<longleftrightarrow>
     (\<forall>ctx'. (\<forall>j\<le>n. ctx' (k + j) = ctx (k + j)) \<longrightarrow> serve_loop h ctx' k s = (e, s')) \<and>
     (\<forall>j<n. \<not> mo_cancelled (ctx (k + j))) \<and> (mo_cancelled (ctx (k + n)) \<longleftrightarrow> e = ContextDone) \<and>
     (\<exists>taken. unread s = taken @ unread s' \<and> 6 * n \<le> length taken)"

lemma runs_in_last:
  assumes "\<And>ctx'. ctx' k = ctx k \<Longrightarrow> serve_loop h ctx' k s = (e, s')" "mo_cancelled (ctx k) \<longleftrightarrow> e = ContextDone"
    and "\<exists>taken. unread s = taken @ unread s'"
  shows "runs_in h ctx k s e s' 0"
  using assms by (simp add: runs_in_def)

lemma runs_in_Suc:
  assumes "\<And>ctx'. ctx' k = ctx k \<Longrightarrow> serve_loop h ctx' k s = serve_loop h ctx' (Suc k) s1" "\<not> mo_cancelled (ctx k)"
    and "unread s = taken @ unread s1" "6 \<le> length taken" "runs_in h ctx (Suc k) s1 e s' n"
  shows "runs_in h ctx k s e s' (Suc n)"
proof -
  have "serve_loop h ctx' k s = (e, s')" if c: "\<forall>j\<le>Suc n. ctx' (k + j) = ctx (k + j)" for ctx'
  proof -
    have "ctx' (Suc k + j) = ctx (Suc k + j)" if "j \<le> n" for j using c that by (metis Suc_le_mono add_Suc add_Suc_right)
    then have "serve_loop h ctx' (Suc k) s1 = (e, s')" using assms(5) unfolding runs_in_def by blast
    moreover have "ctx' k = ctx k" using c by (metis add_0_right zero_le)
    ultimately show ?thesis using assms(1) by simp
  qed
  moreover have "\<not> mo_cancelled (ctx (k + j))" if "j < Suc n" for j
    using assms(2,5) that by (cases j) (auto simp: runs_in_def)
  moreover have "\<exists>taken. unread s = taken @ unread s' \<and> 6 * Suc n \<le> length taken"
  proof -
    obtain more where "unread s1 = more @ unread s'" "6 * n \<le> length more" using assms(5) by (auto simp: runs_in_def)
    then show ?thesis using assms(3,4) by (intro exI [of _ "taken @ more"]) simp
  qed
  ultimately show ?thesis using assms(5) by (simp add: runs_in_def)
qed

lemma loop_life:
  assumes "serve_loop h ctx k s = (e, s')"
  shows "(\<exists>n. runs_in h ctx k s e s' n) \<and>
    (e = RecvFailed ErrEOF \<longrightarrow> unread s' = []) \<and> (\<forall>n x. e = HandlerFailed n x \<longrightarrow> excused n (Inl x))"
  using assms
proof (induction rule: serve_loop_rule)
  case (ended k s)
  then have "runs_in h ctx k s ContextDone s 0"
    by (intro runs_in_last) (simp_all add: serve_loop.simps [of h _ k s])
  then show ?case by auto
next
  case (failed k s t c)
  then have "\<exists>taken. unread s = taken @ unread (s\<lparr>s_conn := c\<rparr>)" by (elim Recv_unread) blast
  then have "runs_in h ctx k s (RecvFailed t) (s\<lparr>s_conn := c\<rparr>) 0"
    using failed by (intro runs_in_last) (simp_all add: serve_loop.simps [of h _ k s])
  then show ?case using failed by (auto simp: unread_def dest: Recv_eof_rx)
next
  case (skipped k s vs rest c e s')
  obtain taken where t: "unread s = taken @ unread (s\<lparr>s_conn := c\<rparr>)" "6 \<le> length taken"
    using Recv_unread [OF skipped(1)] by auto
  have "serve_loop h ctx' k s = serve_loop h ctx' (Suc k) (s\<lparr>s_conn := c\<rparr>)" if "ctx' k = ctx k" for ctx'
    using skipped(1,2) that by (simp add: serve_loop.simps [of h ctx' k s])
  note step = runs_in_Suc [where ctx = ctx and k = k, OF this skipped(2) t]
  show ?case using skipped(3) step by blast
next
  case (stopped k s msg vs rest c x s')
  have "excused (msgName msg) (Inl x)" using dispatch_excused [of "msgName msg" h "ctx k" "s\<lparr>s_conn := c\<rparr>" vs] stopped(2) by simp
  moreover have "\<exists>taken. unread s = taken @ unread s'"
    using Recv_unread [OF stopped(1)] dispatch_unread [OF stopped(2)] by metis
  then have "runs_in h ctx k s (HandlerFailed (msgName msg) x) s' 0"
    using stopped by (intro runs_in_last) (simp_all add: serve_loop.simps [of h _ k s])
  ultimately show ?case by auto
next
  case (handled k s msg vs rest c s1 e s')
  obtain taken where t: "unread s = taken @ unread s1" "6 \<le> length taken"
    using Recv_unread [OF handled(1)] dispatch_unread [OF handled(2)] by auto
  have "serve_loop h ctx' k s = serve_loop h ctx' (Suc k) s1" if "ctx' k = ctx k" for ctx'
    using handled(1,2,3) that by (simp add: serve_loop.simps [of h ctx' k s])
  note step = runs_in_Suc [where ctx = ctx and k = k, OF this handled(3) t]
  show ?case using handled(4) step by blast
qed

text \<open>C13. Every connection ends, and how. Its socket is closed and it has read a prefix of what the client
  sent. However it ends, it has gone through a number of full turns of its loop, each on at least
  six of those bytes, and a last one: it has looked at the context and the clock of the server once
  in each, as its result is the same for any other course they take later, and it ends in the
  first turn that finds the context cancelled. Otherwise it ends because receiving failed (at the
  clean end of the stream with nothing left unread) or because a handler gave a reason of the
  protocol, the store or the network.\<close>
theorem connection_ends:
  assumes "Serve h ctx i c db rng = (e, s')"
  shows "sk_closed (cn_raw (s_conn s')) \<and>
    (\<exists>taken turns. sk_rx (cn_raw c) = taken @ sk_rx (cn_raw (s_conn s')) \<and> 6 * turns \<le> length taken \<and>
      (\<forall>ctx'. (\<forall>j\<le>turns. ctx' j = ctx j) \<longrightarrow> Serve h ctx' i c db rng = (e, s')) \<and>
      (\<forall>j<turns. \<not> mo_cancelled (ctx j)) \<and> (mo_cancelled (ctx turns) \<longleftrightarrow> e = ContextDone)) \<and>
    (case e of
       ContextDone \<Rightarrow> True
     | RecvFailed t \<Rightarrow> t = ErrEOF \<longrightarrow> sk_rx (cn_raw (s_conn s')) = []
     | HandlerFailed n x \<Rightarrow> excused n (Inl x))"
proof -
  obtain s1 where s1: "serve_loop h ctx 0 (new_session i c db rng) = (e, s1)" "s' = hang_up s1"
    using assms by (auto simp: Serve_def split: prod.splits)
  obtain n where n: "runs_in h ctx 0 (new_session i c db rng) e s1 n" using loop_life [OF s1(1)] by blast
  have u: "unread s' = unread s1" "unread (new_session i c db rng) = sk_rx (cn_raw c)"
    unfolding s1(2) by (simp_all add: unread_def)
  have "Serve h ctx' i c db rng = (e, s')" if "\<forall>j\<le>n. ctx' j = ctx j" for ctx'
  proof -
    have "serve_loop h ctx' 0 (new_session i c db rng) = (e, s1)" using n that by (simp add: runs_in_def)
    then show ?thesis by (simp add: Serve_def s1(2))
  qed
  moreover obtain taken where "sk_rx (cn_raw c) = taken @ unread s'" "6 * n \<le> length taken"
    using n u by (auto simp: runs_in_def)
  moreover have "\<forall>j<n. \<not> mo_cancelled (ctx j)" "mo_cancelled (ctx n) \<longleftrightarrow> e = ContextDone" using n by (simp_all add: runs_in_def)
  ultimately have "\<exists>taken turns. sk_rx (cn_raw c) = taken @ sk_rx (cn_raw (s_conn s')) \<and> 6 * turns \<le> length taken \<and>
      (\<forall>ctx'. (\<forall>j\<le>turns. ctx' j = ctx j) \<longrightarrow> Serve h ctx' i c db rng = (e, s')) \<and>
      (\<forall>j<turns. \<not> mo_cancelled (ctx j)) \<and> (mo_cancelled (ctx turns) \<longleftrightarrow> e = ContextDone)"
    unfolding unread_def by (intro exI [of _ taken] exI [of _ n]) blast
  moreover have "sk_closed (cn_raw (s_conn s'))" unfolding s1(2) by simp
  moreover have "case e of ContextDone \<Rightarrow> True | RecvFailed t \<Rightarrow> t = ErrEOF \<longrightarrow> sk_rx (cn_raw (s_conn s')) = []
      | HandlerFailed n x \<Rightarrow> excused n (Inl x)"
    using loop_life [OF s1(1)] u(1) by (simp add: unread_def split: ending.split)
  ultimately show ?thesis by blast
qed

lemma connection_ends_witness:
  "Serve sample_handler (\<lambda>_. sample_moment) 7 sample_conn empty_db [] =
     (RecvFailed ErrEOF, hang_up ((new_session 7 sample_conn empty_db [])\<lparr>s_conn := sample_conn\<rparr>)) \<and>
   sk_closed (cn_raw (s_conn (hang_up ((new_session 7 sample_conn empty_db [])\<lparr>s_conn := sample_conn\<rparr>))))"
proof -
  have "Recv sample_conn = (Inl ErrEOF, sample_conn)"
    by (simp add: Recv_def readFrame_def ReadFull_def sample_conn_def)
  then have "Serve sample_handler (\<lambda>_. sample_moment) 7 sample_conn empty_db [] =
     (RecvFailed ErrEOF, hang_up ((new_session 7 sample_conn empty_db [])\<lparr>s_conn := sample_conn\<rparr>))"
    by (simp add: Serve_def serve_loop.simps sample_moment_def)
  with connection_ends [OF this] show ?thesis by blast
qed

end
