(* ===== verification/GameLobby.thy ===== *)
theory GameLobby
  imports GameWorld
begin

text \<open>
  The lobby and the login on the store the server runs on: who can be logged in, which characters
  come into being, and two ways the code lets a client down: a deleted character that blocks its
  slot, and a login reply too long for its frame.
\<close>

section \<open>Login\<close>

lemma handleLogin_cases:
  defines "code vs \<equiv> fst (asString (vs ''m_accountCode''))"
    and "key vs \<equiv> (ucast (fst (asInt64 (vs ''m_sessionKey''))) :: i32)"
  obtains (refused) s1 where "s_db s1 = s_db s \<or> (\<exists>a. Validate (mo_region m) (h_Auth h) (key vs) (code vs) = Inr a)"
      "s1 = s\<lparr>s_db := s_db s1\<rparr>" "handleLogin h m s vs = sendLoginResult s1 (code vs) (key vs) resultAuthFailed"
  | (accepted) a s1 where "Validate (mo_region m) (h_Auth h) (key vs) (code vs) = Inr a" "WorldID a = h_WorldID h"
      "s1 = s\<lparr>s_db := s_db s1, s_accountID := sAccountID a, s_accountCode := UserCode a, s_authed := True\<rparr>"
      "handleLogin h m s vs = sendLoginResult s1 (code vs) (key vs) resultOK"
proof (cases "Validate (mo_region m) (h_Auth h) (key vs) (code vs)")
  case (Inl e)
  then show thesis by (intro refused [of s]) (simp_all add: handleLogin_def code_def key_def)
next
  case (Inr a)
  show thesis
  proof (cases "WorldID a = h_WorldID h")
    case False
    then show thesis using Inr by (intro refused [of s]) (simp_all add: handleLogin_def code_def key_def)
  next
    case True
    obtain r db where u: "op_UpsertAccount (h_Store h) (s_db s) (sAccountID a) (UserCode a) = (r, db)"
      by (metis prod.exhaust)
    show thesis
    proof (cases r)
      case e: (Inl e)
      then show thesis using Inr True u
        by (intro refused [of "s\<lparr>s_db := db\<rparr>"]) (simp_all add: handleLogin_def code_def key_def store_call_def)
    next
      case ok: (Inr x)
      then show thesis using Inr True u
        by (intro accepted [of a "s\<lparr>s_db := db, s_accountID := sAccountID a, s_accountCode := UserCode a, s_authed := True\<rparr>"])
          (simp_all add: handleLogin_def code_def key_def store_call_def)
    qed
  qed
qed

lemma send_reply_more_keeps:
  "s_authed (snd (send_reply name f s)) = s_authed s" "s_accountID (snd (send_reply name f s)) = s_accountID s"
  "s_accountCode (snd (send_reply name f s)) = s_accountCode s" "s_rng (snd (send_reply name f s)) = s_rng s"
  by (rule send_reply_cases [of name f s]; simp)+

lemmas reply_keeps = send_reply_keeps send_reply_more_keeps

lemma Validate_code: "Validate region c key code = Inr a \<Longrightarrow> UserCode a = code"
  by (auto simp: Validate_def rbind_eq_Inr split: if_splits option.splits)

text \<open>C3. The gate: on a connection that has not logged in, every message but the version check and the
  login is an error that changes nothing, and the only way in is a login whose key the region
  vouches for, for the very account code presented and for the world this server hosts; the
  session is then bound to the account the region names.\<close>
theorem login_gate:
  assumes "\<not> s_authed s" "dispatch h m s name vs = (r, s')"
  shows "(name \<notin> {''C2S_VersionCheck'', ''C2S_SessionAuthLogin''} \<longrightarrow> r = Inl (NotLoggedIn name) \<and> s' = s) \<and>
    (s_authed s' \<longrightarrow> name = ''C2S_SessionAuthLogin'' \<and>
       (\<exists>a. Validate (mo_region m) (h_Auth h) (ucast (fst (asInt64 (vs ''m_sessionKey''))))
              (fst (asString (vs ''m_accountCode''))) = Inr a \<and>
            WorldID a = h_WorldID h \<and> s_accountID s' = sAccountID a \<and>
            s_accountCode s' = fst (asString (vs ''m_accountCode''))))"
proof -
  have outside: "r = Inl (NotLoggedIn name) \<and> s' = s" if "name \<notin> {''C2S_VersionCheck'', ''C2S_SessionAuthLogin''}"
    using assms that by (simp add: dispatch_def)
  have version: "\<not> s_authed s'" if "name = ''C2S_VersionCheck''"
  proof -
    have "s' = snd (handleVersionCheck h m s vs)" using assms(2) that by (simp add: dispatch_def)
    then show ?thesis using assms(1) by (simp add: handleVersionCheck_def Let_def reply_keeps)
  qed
  have login: "\<exists>a. Validate (mo_region m) (h_Auth h) (ucast (fst (asInt64 (vs ''m_sessionKey''))))
              (fst (asString (vs ''m_accountCode''))) = Inr a \<and>
            WorldID a = h_WorldID h \<and> s_accountID s' = sAccountID a \<and>
            s_accountCode s' = fst (asString (vs ''m_accountCode''))" if "name = ''C2S_SessionAuthLogin''" "s_authed s'"
  proof -
    have s': "s' = snd (handleLogin h m s vs)" using assms(2) that(1) by (simp add: dispatch_def)
    show ?thesis
    proof (cases rule: handleLogin_cases [of s m h vs])
      case (refused s1)
      have "s_authed s1 = s_authed s" by (subst refused(2)) simp
      then have "\<not> s_authed s'" using assms(1) by (simp add: s' refused(3) sendLoginResult_def reply_keeps)
      then show ?thesis using that(2) by simp
    next
      case (accepted a s1)
      have "s_accountID s1 = sAccountID a" "s_accountCode s1 = UserCode a" by (subst accepted(3), simp)+
      then show ?thesis
        using accepted(1,2) Validate_code [OF accepted(1)]
        by (simp add: s' accepted(4) sendLoginResult_def reply_keeps)
    qed
  qed
  show ?thesis using outside version login assms(1) by blast
qed

lemma login_gate_witness:
  "dispatch sample_handler sample_moment (new_session 7 sample_conn empty_db []) ''C2S_CreatePlayer'' Map.empty =
     (Inl (NotLoggedIn ''C2S_CreatePlayer''), new_session 7 sample_conn empty_db [])"
  using login_gate [OF _ surjective_pairing, where s = "new_session 7 sample_conn empty_db []" and h = sample_handler
    and m = sample_moment and name = "''C2S_CreatePlayer''" and vs = Map.empty]
  by (simp add: prod_eq_iff)

section \<open>A login reply that does not fit its frame\<close>

lemma concat_words: "length (concat (map w_u16 us)) = 2 * length us"
  by (induction us) (simp_all add: w_u16_def)

lemma length_w_str: "length (w_str s) = 4 + 2 * length (units_of_string s)"
  by (simp add: w_str_def Let_def concat_words w_u32_def)

lemma login_reply_length:
  assumes "Encode rom ''S2C_SessionAuthLogin'' vs = Inr plain" "vs ''m_accountCode'' = Some (VString code)"
  shows "16 + 2 * length (units_of_string code) \<le> length plain"
  using assms
  by (auto simp: encode_eval rbind_eq_Inr enc_string_def length_w_str w_u32_def split: option.splits)

lemma send_reply_frame:
  assumes "replies name f" "sk_room (cn_raw (s_conn s)) = None"
  obtains z plain where "ZeroValues rom name = Inr z" "Encode rom name (f z) = Inr plain"
    "sk_tx (cn_raw (s_conn (snd (send_reply name f s)))) =
       sk_tx (cn_raw (s_conn s)) @ frame (fst (crypt (cn_s2c (s_conn s)) plain))"
proof -
  from assms(1) obtain z plain where e: "ZeroValues rom name = Inr z" "Encode rom name (f z) = Inr plain"
    by (auto simp: replies_def is_ok_iff)
  then have "sk_tx (cn_raw (s_conn (snd (send_reply name f s)))) =
      sk_tx (cn_raw (s_conn s)) @ frame (fst (crypt (cn_s2c (s_conn s)) plain))"
    using assms(2)
    by (simp add: send_reply_def Send_def writeFrame_def Write_def frame_def Let_def split_beta split: sum.split)
  with e show thesis by (rule that)
qed

lemma login_result_long:
  assumes "sk_room (cn_raw (s_conn s)) = None" "32759 \<le> length (units_of_string code)"
  shows "\<exists>body. sk_tx (cn_raw (s_conn (snd (sendLoginResult s code key result)))) = sk_tx (cn_raw (s_conn s)) @ frame body \<and>
    65533 < length body"
proof -
  note r = plain_replies(2) [of "word_of_int result" code "scast key"]
  obtain z plain where p: "Encode rom ''S2C_SessionAuthLogin'' (z(''m_result'' \<mapsto> VInt64 (word_of_int result),
      ''m_accountCode'' \<mapsto> VString code, ''m_sessionKey'' \<mapsto> VInt64 (scast key))) = Inr plain"
    "sk_tx (cn_raw (s_conn (snd (sendLoginResult s code key result)))) =
       sk_tx (cn_raw (s_conn s)) @ frame (fst (crypt (cn_s2c (s_conn s)) plain))"
    using send_reply_frame [OF r assms(1)] unfolding sendLoginResult_def by blast
  have "65533 < length plain" using login_reply_length [OF p(1), of code] assms(2) by simp
  then show ?thesis using p(2) by (intro exI [of _ "fst (crypt (cn_s2c (s_conn s)) plain)"]) simp
qed

text \<open>C37. A client can make the server send a frame whose length field has wrapped, before logging in:
  the login reply repeats the account code, so a code of 32759 UTF-16 units or more makes a reply
  of more than 65533 bytes whatever the region says, while a request that ends after that code is
  short enough to be received.\<close>
theorem login_reply_overflows:
  assumes "fst (asString (vs ''m_accountCode'')) = code" "32759 \<le> length (units_of_string code)"
    and "sk_room (cn_raw (s_conn s)) = None"
  shows "(\<exists>body. sk_tx (cn_raw (s_conn (snd (dispatch h m s ''C2S_SessionAuthLogin'' vs)))) =
      sk_tx (cn_raw (s_conn s)) @ frame body \<and> 65533 < length body) \<and>
    length (w_u32 0x11C4978B @ w_u32 gid @ w_str code) = 12 + 2 * length (units_of_string code)"
proof -
  have d: "dispatch h m s ''C2S_SessionAuthLogin'' vs = handleLogin h m s vs" by (simp add: dispatch_def)
  have "\<exists>body. sk_tx (cn_raw (s_conn (snd (handleLogin h m s vs)))) = sk_tx (cn_raw (s_conn s)) @ frame body \<and>
      65533 < length body"
  proof (cases rule: handleLogin_cases [of s m h vs])
    case (refused s1)
    have "s_conn s1 = s_conn s" by (subst refused(2)) simp
    then show ?thesis using login_result_long [of s1 code] assms refused(3) by simp
  next
    case (accepted a s1)
    have "s_conn s1 = s_conn s" by (subst accepted(3)) simp
    then show ?thesis using login_result_long [of s1 code] assms accepted(4) by simp
  qed
  then show ?thesis unfolding d by (simp add: length_w_str w_u32_def)
qed

lemma units_of_letters: "length (units_of_string (replicate n CHR ''a'')) = n"
proof (induction n)
  case 0
  then show ?case by (simp add: units_of_string_def utf16_encode_def)
next
  case (Suc n)
  have "units_of_string (replicate (Suc n) CHR ''a'') = utf16_units 97 @ units_of_string (replicate n CHR ''a'')"
    by (simp add: units_of_string_def utf16_encode_def runes_of_ascii)
  then show ?case using Suc by (simp add: utf16_units.simps)
qed

definition long_code :: string where
  "long_code = replicate 32759 CHR ''a''"

lemma long_code_units: "length (units_of_string long_code) = 32759"
  unfolding long_code_def by (rule units_of_letters)

lemma login_reply_overflows_witness:
  "(\<exists>body. sk_tx (cn_raw (s_conn (snd (dispatch sample_handler sample_moment (new_session 7 sample_conn empty_db [])
      ''C2S_SessionAuthLogin'' [''m_accountCode'' \<mapsto> VString long_code])))) = frame body \<and> 65533 < length body) \<and>
   length (w_u32 0x11C4978B @ w_u32 0 @ w_str long_code) \<le> 65533"
proof -
  have c: "fst (asString ([''m_accountCode'' \<mapsto> VString long_code] ''m_accountCode'')) = long_code"
    by (simp add: asString_def)
  have u: "32759 \<le> length (units_of_string long_code)" by (simp add: long_code_units)
  have r: "sk_room (cn_raw (s_conn (new_session 7 sample_conn empty_db []))) = None" by simp
  from login_reply_overflows [where vs = "[''m_accountCode'' \<mapsto> VString long_code]" and code = long_code, OF c u r,
      where h = sample_handler and m = sample_moment and gid = 0]
  show ?thesis by (simp add: long_code_units sample_conn_def)
qed

section \<open>Characters\<close>

lemma upsert_characters: "UpsertAccount db a code = (r, db') \<Longrightarrow> db_characters db' = db_characters db"
  using account_calls_characters(1) [of db a code] by simp

lemma options_characters: "SaveOptions db a opts = (r, db') \<Longrightarrow> db_characters db' = db_characters db"
  using account_calls_characters(2) [of db a opts] by simp

lemma list_characters: "ListCharacters db a = (r, db') \<Longrightarrow> db_characters db' = db_characters db"
  using account_calls_characters(3) [of db a] by simp

lemma create_characters:
  assumes "CreateCharacter db c = (r, db')"
  shows "db_characters db' = db_characters db \<or>
    (\<exists>i t. storable (Name c) \<and> db_characters db' = db_characters db @ [c\<lparr>ID := i, CreatedAt := t\<rparr>])"
  using assms by (elim CreateCharacter_rows) (auto simp: insert_ok)

text \<open>What the lobby makes, for an account of a given set.\<close>

definition lobby_made :: "i64 set \<Rightarrow> character \<Rightarrow> bool" where
  "lobby_made A c \<longleftrightarrow> AccountID c \<in> A \<and> 0 \<le> sint (SlotIndex c) \<and> sint (SlotIndex c) < maxCharacterSlots \<and>
     minNameLen \<le> rune_count (Name c) \<and> rune_count (Name c) \<le> maxNameLen \<and> storable (Name c) \<and>
     (\<exists>raw. Name c = trim_space raw) \<and> Level c = 1 \<and> MapID c = 501 \<and> DeletedTime c = 0 \<and> GuildName c = []"

definition vouches_only :: "'db handler \<Rightarrow> i64 set \<Rightarrow> region \<Rightarrow> bool" where
  "vouches_only h A region \<longleftrightarrow>
     (\<forall>key code a. Validate region (h_Auth h) key code = Inr a \<and> WorldID a = h_WorldID h \<longrightarrow> sAccountID a \<in> A)"

definition created_since :: "character list \<Rightarrow> i64 set \<Rightarrow> db session \<Rightarrow> bool" where
  "created_since base A s \<longleftrightarrow> (s_authed s \<longrightarrow> s_accountID s \<in> A) \<and>
     (\<exists>new. db_characters (s_db s) = base @ new \<and> list_all (lobby_made A) new)"

lemma created_since_same:
  "created_since base A s \<Longrightarrow> db_characters db = db_characters (s_db s) \<Longrightarrow> created_since base A (s\<lparr>s_db := db\<rparr>)"
  by (simp add: created_since_def)

interpretation creating: served_invariant "h\<lparr>h_Store := postgres_store\<rparr>" "vouches_only h A" "created_since base A" for h A base
proof unfold_locales
  show "created_since base A (s\<lparr>s_db := db\<rparr>)"
    if "created_since base A s" "s_authed s" "freeSlot cs = Some slot" "name = trim_space raw"
      "minNameLen \<le> rune_count name" "rune_count name \<le> maxNameLen"
      "op_CreateCharacter (h_Store (h\<lparr>h_Store := postgres_store\<rparr>)) (s_db s) (new_character (s_accountID s) slot name cl ht) = (rc, db)"
    for s cs slot name raw cl ht rc db
  proof -
    let ?c = "new_character (s_accountID s) slot name cl ht"
    note since = that(1)
    have made: "storable name \<Longrightarrow> lobby_made A (?c\<lparr>ID := i, CreatedAt := t\<rparr>)" for i t
      using that(1-6) freeSlot_bounds [OF that(3)] by (auto simp: lobby_made_def created_since_def)
    obtain new where new: "db_characters (s_db s) = base @ new" "list_all (lobby_made A) new"
      using since by (auto simp: created_since_def)
    from create_characters [of "s_db s" ?c rc db] that(7)
    consider "db_characters db = db_characters (s_db s)"
      | i t where "storable name" "db_characters db = base @ new @ [?c\<lparr>ID := i, CreatedAt := t\<rparr>]"
      using new(1) by auto
    then show ?thesis
    proof cases
      case 1
      then show ?thesis using that(1) by (rule created_since_same [rotated])
    next
      case 2
      then show ?thesis using that(1) new made
        by (auto simp: created_since_def intro!: exI [of _ "new @ [?c\<lparr>ID := i, CreatedAt := t\<rparr>]"])
    qed
  qed
qed (auto simp: created_since_def vouches_only_def session_updates dest: upsert_characters options_characters list_characters)

text \<open>C10. What a connection does to the characters of the database: those there stay exactly as they
  are, and those it adds belong to an account the region vouched for, sit in slot 0, 1 or 2 with a
  trimmed name of 1 to 16 runes that is valid UTF-8, and start at level 1 on map 501.\<close>
theorem characters_created:
  assumes "h_Store h = postgres_store" "\<And>k. vouches_only h A (mo_region (ctx k))"
  shows "\<exists>new. db_characters (s_db (snd (Serve h ctx i c db rng))) = db_characters db @ new \<and> list_all (lobby_made A) new"
proof -
  have "created_since (db_characters db) A (new_session i c db rng)" by (simp add: created_since_def)
  from creating.loop_keeps [where h = h and ctx = ctx and k = 0, OF assms(2) this]
  show ?thesis by (simp add: hosted_handler [OF assms(1)] created_since_def Serve_eq)
qed

lemma characters_created_witness:
  "\<exists>new. db_characters (s_db (snd (Serve sample_handler (\<lambda>_. sample_moment) 7 sample_conn archer_db []))) =
     db_characters archer_db @ new \<and> list_all (lobby_made {}) new"
proof (rule characters_created)
  show "vouches_only sample_handler {} (mo_region sample_moment)"
    by (simp add: vouches_only_def) (metis is_ok_simps(2) sample_refuses)
qed simp

lemma small_slot:
  assumes "0 \<le> sint (t :: i32)" "sint t < 3"
  shows "t = 0 \<or> t = 1 \<or> t = 2"
proof -
  have "t = of_int (sint t)" by simp
  moreover have "sint t = 0 \<or> sint t = 1 \<or> sint t = 2" using assms by auto
  ultimately show ?thesis by (metis of_int_0 of_int_1 of_int_numeral)
qed

lemma slots_below_slot:
  "{t :: i32. 0 \<le> sint t \<and> sint t < 0} = {}" "{t :: i32. 0 \<le> sint t \<and> sint t < 1} = {0}"
  "{t :: i32. 0 \<le> sint t \<and> sint t < 2} = {0, 1}" "{t :: i32. 0 \<le> sint t \<and> sint t < 3} = {0, 1, 2}"
proof -
  have "0 \<le> sint t \<and> sint t < 1 \<longleftrightarrow> t = 0" "0 \<le> sint t \<and> sint t < 2 \<longleftrightarrow> t = 0 \<or> t = 1"
    "0 \<le> sint t \<and> sint t < 3 \<longleftrightarrow> t = 0 \<or> t = 1 \<or> t = 2" for t :: i32
    using small_slot [of t] by auto
  then show "{t :: i32. 0 \<le> sint t \<and> sint t < 0} = {}" "{t :: i32. 0 \<le> sint t \<and> sint t < 1} = {0}"
    "{t :: i32. 0 \<le> sint t \<and> sint t < 2} = {0, 1}" "{t :: i32. 0 \<le> sint t \<and> sint t < 3} = {0, 1, 2}"
    by auto
qed

text \<open>The slot a new character gets is the lowest of the three that no listed character holds, and
  there is none exactly when all three are held.\<close>
lemma free_slot_lowest:
  "(freeSlot cs = Some slot) = (0 \<le> sint slot \<and> sint slot < maxCharacterSlots \<and> slot \<notin> SlotIndex ` set cs \<and>
     {t. 0 \<le> sint t \<and> sint t < sint slot} \<subseteq> SlotIndex ` set cs) \<and>
   (freeSlot cs = None) = ({t. 0 \<le> sint t \<and> sint t < maxCharacterSlots} \<subseteq> SlotIndex ` set cs)"
proof -
  note below = slots_below_slot
  show ?thesis
  proof (cases "0 \<le> sint slot \<and> sint slot < 3")
    case True
    then have "slot = 0 \<or> slot = 1 \<or> slot = 2" using small_slot by blast
    then show ?thesis by (elim disjE) (simp_all add: freeSlot_cases maxCharacterSlots_def below)
  next
    case False
    then have "freeSlot cs \<noteq> Some slot" using freeSlot_bounds [of cs slot] by (auto simp: maxCharacterSlots_def)
    then show ?thesis using False by (auto simp: freeSlot_cases maxCharacterSlots_def below)
  qed
qed

text \<open>C36. A character that was deleted keeps its slot in the database while the lobby counts the slot as
  free, so the account is stuck there: every creation is refused as if no slot were left, whatever
  the name, although fewer than three characters are listed, and the next one fares no better.\<close>
theorem deleted_slot_blocks:
  assumes "h_Store h = postgres_store" "wf_db (s_db s)" "db_faults (s_db s) = []" "db_next (s_db s) < 2 ^ 63"
    and "s_authed s" "sk_room (cn_raw (s_conn s)) = None"
    and "name = trim_space (fst (asString (vs ''m_name'')))" "minNameLen \<le> rune_count name" "rune_count name \<le> maxNameLen"
      "storable name"
    and "freeSlot (selected (s_db s) (s_accountID s)) = Some slot"
    and "c \<in> set (db_characters (s_db s))" "AccountID c = s_accountID s" "SlotIndex c = slot"
  shows "dispatch h m s ''C2S_CreatePlayer'' vs =
      sendCreateResult (s\<lparr>s_db := (s_db s)\<lparr>db_next := db_next (s_db s) + 1\<rparr>\<rparr>) createResultNoFreeSlot None \<and>
    fst (dispatch h m s ''C2S_CreatePlayer'' vs) = Inr () \<and> DeletedTime c \<noteq> 0 \<and>
    db_characters (s_db (snd (dispatch h m s ''C2S_CreatePlayer'' vs))) = db_characters (s_db s)"
proof -
  let ?cs = "selected (s_db s) (s_accountID s)"
  have l: "ListCharacters (s_db s) (s_accountID s) = (Inr ?cs, s_db s)"
    using assms(3) by (simp add: ListCharacters_eq next_fault_def op_begun_healthy)
  have "CreateCharacter (s_db s) (new_character (s_accountID s) slot name cl ht) =
      (Inl ErrSlotTaken, (s_db s)\<lparr>db_next := db_next (s_db s) + 1\<rparr>)" for cl ht
    by (rule slot_taken [OF assms(2-4) _ _ assms(12)]) (use assms(10,13,14) storable_samples(3) in simp_all)
  then have d: "dispatch h m s ''C2S_CreatePlayer'' vs =
      sendCreateResult (s\<lparr>s_db := (s_db s)\<lparr>db_next := db_next (s_db s) + 1\<rparr>\<rparr>) createResultNoFreeSlot None"
    using assms(1,5,8,9,11) l
    by (simp add: dispatch_def handleCreatePlayer_def store_call_def assms(7) [symmetric])
  have "slot \<notin> SlotIndex ` set ?cs" using assms(11) by (auto simp: freeSlot_cases split: if_splits)
  then have "DeletedTime c \<noteq> 0" using assms(12-14) by (auto simp: set_selected)
  moreover have "fst (sendCreateResult s' r None) = Inr ()" if "sk_room (cn_raw (s_conn s')) = None" for s' :: "db session" and r
    using send_reply_roomy [OF create_reply(1) that] by (simp add: sendCreateResult_def)
  ultimately show ?thesis using d assms(6) by (simp add: sendCreateResult_def reply_keeps)
qed

definition deleted_db :: db where
  "deleted_db = tana_db\<lparr>db_next := 2, db_characters := [archer\<lparr>ID := 1, SlotIndex := 0, DeletedTime := 1789801900\<rparr>]\<rparr>"

lemma archer_name: "trim_space ''Archer'' = ''Archer''" "rune_count ''Archer'' = 6"
proof -
  show "rune_count ''Archer'' = 6" by (simp add: rune_count_def runes_of_ascii)
  have "trim_left ''Archer'' = ''Archer''" by (simp add: trim_left.simps(2) is_space_def)
  moreover have "trim_right ''Archer'' = ''Archer''" by (simp add: trim_right.simps decode_last_rune_def is_space_def)
  ultimately show "trim_space ''Archer'' = ''Archer''" by (simp add: trim_space_def)
qed

lemma deleted_slot_blocks_witness:
  "fst (dispatch sample_handler sample_moment (lobby_session deleted_db) ''C2S_CreatePlayer'' [''m_name'' \<mapsto> VString ''Archer'']) = Inr () \<and>
   db_characters (s_db (snd (dispatch sample_handler sample_moment (lobby_session deleted_db) ''C2S_CreatePlayer''
     [''m_name'' \<mapsto> VString ''Archer'']))) = db_characters deleted_db"
proof -
  have acc: "AccountID archer = 3" by (simp add: archer_def no_character_def)
  have wf: "wf_db (s_db (lobby_session deleted_db))"
    by (simp add: deleted_db_def wf_db_def tana_db_eq acc)
  have sel: "freeSlot (selected (s_db (lobby_session deleted_db)) (s_accountID (lobby_session deleted_db))) = Some 0"
    by (simp add: deleted_db_def selected_def freeSlot_cases)
  have n: "''Archer'' = trim_space (fst (asString ([''m_name'' \<mapsto> VString ''Archer''] ''m_name'')))"
    by (simp add: asString_def archer_name)
  have r: "archer\<lparr>ID := 1, SlotIndex := 0, DeletedTime := 1789801900\<rparr> \<in> set (db_characters (s_db (lobby_session deleted_db)))"
    by (simp add: deleted_db_def)
  have f: "db_faults (s_db (lobby_session deleted_db)) = []" "db_next (s_db (lobby_session deleted_db)) < 2 ^ 63"
    using archer_created(2) by (simp_all add: deleted_db_def)
  have l: "minNameLen \<le> rune_count ''Archer''" "rune_count ''Archer'' \<le> maxNameLen"
    by (simp_all add: archer_name minNameLen_def maxNameLen_def)
  have k: "sk_room (cn_raw (s_conn (lobby_session deleted_db))) = None"
    "AccountID (archer\<lparr>ID := 1, SlotIndex := 0, DeletedTime := 1789801900\<rparr>) = s_accountID (lobby_session deleted_db)"
    "SlotIndex (archer\<lparr>ID := 1, SlotIndex := 0, DeletedTime := 1789801900\<rparr>) = 0"
    by (simp_all add: acc)
  from deleted_slot_blocks [where m = sample_moment and vs = "[''m_name'' \<mapsto> VString ''Archer'']",
      OF sample_simps(1) wf f sample_simps(4) k(1) n l storable_samples(2) sel r k(2,3)]
  show ?thesis unfolding sample_simps by blast
qed

section \<open>Entering the world\<close>

text \<open>The zero value of a nested struct is a map of its own, so the handler's type assertion holds.\<close>

lemma zero_info:
  assumes "ZeroValues rom ''S2C_EnterWorldComplete'' = Inr z"
  shows "\<exists>info. z ''m_myPlayerInfo'' = Some (VValues info)"
proof -
  have k: "zero_primitive ty_MyPlayerInfo = None" "\<not> is_array_type ty_MyPlayerInfo" "\<not> is_list_type ty_MyPlayerInfo"
    using struct_kind reply_structs(3) by (auto simp: list_all_iff)
  have "\<exists>info. v = VValues info" if "zeroValue rom codec_fuel ty_MyPlayerInfo owner nm = Inr v" for owner nm v
    using that k rom_struct [OF reply_structs(3)] by (auto simp: codec_fuel_def eval_nat_numeral rbind_eq_Inr)
  then show ?thesis
    using assms by (auto simp: ZeroValues_def handler_messages rbind_eq_Inr)
qed

lemma send_reply_sends:
  assumes "replies name f" "sk_room (cn_raw (s_conn s)) = None"
  obtains z c where "ZeroValues rom name = Inr z" "Send (s_conn s) name (f z) = (Inr (), c)"
    "send_reply name f s = (Inr (), s\<lparr>s_conn := c\<rparr>)" "sk_room (cn_raw c) = None"
proof -
  from assms(1) obtain z plain where e: "ZeroValues rom name = Inr z" "Encode rom name (f z) = Inr plain"
    by (auto simp: replies_def is_ok_iff)
  then have "fst (Send (s_conn s) name (f z)) = Inr ()" "sk_room (cn_raw (snd (Send (s_conn s) name (f z)))) = None"
    using assms(2) by (simp_all add: Send_def writeFrame_def Write_def Let_def split_beta)
  then show thesis
    using e by (intro that [of z "snd (Send (s_conn s) name (f z))"]) (simp_all add: send_reply_def prod_eq_iff split: prod.split)
qed

lemma sent_info:
  assumes "ZeroValues rom ''S2C_EnterWorldComplete'' = Inr z"
  obtains info where "in_struct ''m_myPlayerInfo'' (\<lambda>info. fillMyPlayerInfo h info c oid) (z(''m_result'' \<mapsto> a, ''m_warpToken'' \<mapsto> b))
      ''m_myPlayerInfo'' = Some (VValues info)"
    "info ''m_OID'' = Some (VInt64 oid)" "info ''m_name'' = Some (VString (Name c))"
    "info ''m_mapIndex'' = Some (VInt64 (scast (MapID c)))"
proof -
  from zero_info [OF assms] obtain x where x: "z ''m_myPlayerInfo'' = Some (VValues x)" by blast
  show thesis
    by (rule that [of "fillMyPlayerInfo h x c oid"]) (simp_all add: in_struct_def x fillMyPlayerInfo_def split: option.split goval.split)
qed

text \<open>C22. Entering the world with a character of the account: the client is sent exactly two messages,
  in this order, the slot it asked for and then the character with the token to echo; the world is
  told of the same character, at the same place, under the same identifier; and the session
  remembers the token it sent.\<close>
theorem enter_sequence:
  assumes "op_ListCharacters (h_Store h) (s_db s) (s_accountID s) = (Inr cs, db)"
    and "find (\<lambda>c. (scast (SlotIndex c) :: u64) = fst (asUint64 (vs ''m_playerSlotIndex''))) cs = Some c"
    and "s_authed s" "8 \<le> length (s_rng s)" "sk_room (cn_raw (s_conn s)) = None"
  shows "\<exists>r1 r2 info s'. dispatch h m s ''C2S_EnterWorld'' vs = (Inr (), s') \<and>
    sends (s_conn s) [(''S2C_EnterWorld'', r1), (''S2C_EnterWorldComplete'', r2)] = (Inr (), s_conn s') \<and>
    r1 ''m_result'' = Some (VInt64 0) \<and> r1 ''m_playerSlotIndex'' = Some (VUint64 (fst (asUint64 (vs ''m_playerSlotIndex'')))) \<and>
    r2 ''m_result'' = Some (VInt64 0) \<and> r2 ''m_warpToken'' = Some (VInt64 (s_warpToken s')) \<and>
    r2 ''m_myPlayerInfo'' = Some (VValues info) \<and> info ''m_OID'' = Some (VInt64 (s_playerOID s')) \<and>
    info ''m_name'' = Some (VString (Name c)) \<and> info ''m_mapIndex'' = Some (VInt64 (scast (MapID c))) \<and>
    s_character s' = Some c \<and> s_inWorld s' \<and> s_playerOID s' = h_WorldID h * oidWorldMultiplier + ID c \<and>
    s_cmds s' = s_cmds s @ [Join (player_of s' c)] \<and> s_db s' = db \<and> s_rng s' = drop 8 (s_rng s)"
proof -
  obtain token where t: "newWarpToken (s_rng s) = Inr (token, drop 8 (s_rng s))"
    using assms(4) by (simp add: newWarpToken_def rand_Read_def Let_def)
  define s2 where "s2 = entered h c token (drop 8 (s_rng s)) (s\<lparr>s_db := db\<rparr>)"
  have s2: "s_conn s2 = s_conn s" "s_character s2 = Some c" "s_inWorld s2" "s_db s2 = db" "s_rng s2 = drop 8 (s_rng s)"
    "s_playerOID s2 = h_WorldID h * oidWorldMultiplier + ID c" "s_cmds s2 = s_cmds s @ [Join (player_of s2 c)]"
    by (simp_all add: s2_def session_updates)
  have player: "player_of (s2\<lparr>s_conn := c'\<rparr>) c = player_of s2 c" for c' by (simp add: player_of_def)
  have slot: "scast (SlotIndex c) = fst (asUint64 (vs ''m_playerSlotIndex''))" using found [OF assms(2)] by simp
  have room: "sk_room (cn_raw (s_conn s2)) = None" using assms(5) s2(1) by simp
  let ?f1 = "\<lambda>reply. reply(''m_result'' \<mapsto> VInt64 (word_of_int enterResultOK), ''m_playerSlotIndex'' \<mapsto> VUint64 (scast (SlotIndex c)))"
  let ?f2 = "\<lambda>reply. in_struct ''m_myPlayerInfo'' (\<lambda>info. fillMyPlayerInfo h info c (s_playerOID s2)) (reply(
         ''m_result'' \<mapsto> VInt64 (word_of_int enterResultOK), ''m_warpToken'' \<mapsto> VInt64 (s_warpToken s2)))"
  obtain z1 c1 where z1: "Send (s_conn s2) ''S2C_EnterWorld'' (?f1 z1) = (Inr (), c1)"
    "send_reply ''S2C_EnterWorld'' ?f1 s2 = (Inr (), s2\<lparr>s_conn := c1\<rparr>)" "sk_room (cn_raw c1) = None"
    by (rule send_reply_sends [OF plain_replies(4) room])
  then have room1: "sk_room (cn_raw (s_conn (s2\<lparr>s_conn := c1\<rparr>))) = None" by simp
  obtain z2 c2 where z2: "ZeroValues rom ''S2C_EnterWorldComplete'' = Inr z2"
    "Send (s_conn (s2\<lparr>s_conn := c1\<rparr>)) ''S2C_EnterWorldComplete'' (?f2 z2) = (Inr (), c2)"
    "send_reply ''S2C_EnterWorldComplete'' ?f2 (s2\<lparr>s_conn := c1\<rparr>) = (Inr (), s2\<lparr>s_conn := c1, s_conn := c2\<rparr>)"
    by (rule send_reply_sends [OF enter_reply room1])
  obtain info where info: "?f2 z2 ''m_myPlayerInfo'' = Some (VValues info)"
    "info ''m_OID'' = Some (VInt64 (s_playerOID s2))" "info ''m_name'' = Some (VString (Name c))"
    "info ''m_mapIndex'' = Some (VInt64 (scast (MapID c)))" by (rule sent_info [OF z2(1)])
  have d: "dispatch h m s ''C2S_EnterWorld'' vs = (Inr (), s2\<lparr>s_conn := c2\<rparr>)"
    using assms(1-3) t z1(2) z2(3)
    by (simp add: dispatch_def handleEnterWorld_def store_call_def sendEnterWorldResult_def sendEnterWorldComplete_def s2_def [symmetric])
  have r2: "?f2 z2 ''m_result'' = Some (VInt64 0)" "?f2 z2 ''m_warpToken'' = Some (VInt64 (s_warpToken s2))"
    by (simp_all add: in_struct_other enterResultOK_def)
  have "sends (s_conn s) [(''S2C_EnterWorld'', ?f1 z1), (''S2C_EnterWorldComplete'', ?f2 z2)] = (Inr (), c2)"
    using z1(1) z2(2) s2(1) by simp
  with d r2 info s2 player slot show ?thesis
    by (intro exI [of _ "?f1 z1"] exI [of _ "?f2 z2"] exI [of _ info] exI [of _ "s2\<lparr>s_conn := c2\<rparr>"])
      (simp add: enterResultOK_def)
qed

definition ask_slot_1 :: vals where
  "ask_slot_1 = [''m_playerSlotIndex'' \<mapsto> VUint64 1]"

lemma enter_sequence_witness:
  "\<exists>s'. dispatch sample_handler sample_moment (lobby_session archer_db) ''C2S_EnterWorld'' ask_slot_1 = (Inr (), s') \<and>
     s_inWorld s' \<and> s_playerOID s' = 1000000001"
proof -
  let ?c = "archer\<lparr>ID := 1, CreatedAt := 1789801837\<rparr>" and ?s = "lobby_session archer_db"
  have a: "AccountID archer = 3" "DeletedTime archer = 0" "SlotIndex archer = 1"
    by (simp_all add: archer_def no_character_def)
  have f: "db_faults archer_db = []" using archer_created(2) by (simp add: archer_db_eq)
  have "ListCharacters archer_db 3 = (Inr (selected archer_db 3), archer_db)"
    using f by (simp add: ListCharacters_eq next_fault_def op_begun_healthy)
  moreover have "selected archer_db 3 = [?c]" by (simp add: selected_def archer_db_eq a)
  ultimately have l: "op_ListCharacters (h_Store sample_handler) (s_db ?s) (s_accountID ?s) = (Inr [?c], archer_db)" by simp
  have c: "find (\<lambda>c. (scast (SlotIndex c) :: u64) = fst (asUint64 (ask_slot_1 ''m_playerSlotIndex''))) [?c] = Some ?c"
    by (simp add: ask_slot_1_def asUint64_def a)
  have r: "8 \<le> length (s_rng ?s)" "sk_room (cn_raw (s_conn ?s)) = None" by simp_all
  from enter_sequence [where s = ?s and h = sample_handler and m = sample_moment and vs = ask_slot_1, OF l c sample_simps(4) r]
  obtain s' where "dispatch sample_handler sample_moment ?s ''C2S_EnterWorld'' ask_slot_1 = (Inr (), s')"
    "s_inWorld s'" "s_playerOID s' = h_WorldID sample_handler * oidWorldMultiplier + ID ?c" by blast
  then show ?thesis by (auto simp: oidWorldMultiplier_def)
qed

end
