(* ===== verification/Conversation.thy ===== *)
theory Conversation
  imports GameLobby
begin

text \<open>
  A whole conversation: the client of the handshake sends requests over the encrypted connection,
  \<open>Serve\<close> handles them, and the client receives what was sent back. Codec, transport and handlers
  come together here: which requests are answered, by which replies, and in which order.
\<close>

section \<open>Sequences of messages\<close>

lemma sends_append:
  "sends c (ms @ ns) = (case sends c ms of (Inl e, c1) \<Rightarrow> (Inl e, c1) | (Inr _, c1) \<Rightarrow> sends c1 ns)"
  by (induction ms arbitrary: c) (simp_all split: prod.split sum.split)

lemma sends_keeps:
  "sends c ms = (Inr (), c') \<Longrightarrow>
     sk_rx (cn_raw c') = sk_rx (cn_raw c) \<and> cn_c2s c' = cn_c2s c \<and> sk_end (cn_raw c') = sk_end (cn_raw c) \<and>
     (sk_room (cn_raw c) = None \<longrightarrow> sk_room (cn_raw c') = None)"
proof (induction ms arbitrary: c)
  case (Cons m ms)
  then obtain c1 where s: "Send c (fst m) (snd m) = (Inr (), c1)" "sends c1 ms = (Inr (), c')"
    by (auto split: prod.splits sum.splits unit.splits)
  have "sk_rx (cn_raw c1) = sk_rx (cn_raw c)" "cn_c2s c1 = cn_c2s c" "sk_end (cn_raw c1) = sk_end (cn_raw c)"
    "sk_room (cn_raw c) = None \<Longrightarrow> sk_room (cn_raw c1) = None"
    using s(1) by (auto simp: Send_def writeFrame_def Write_def Let_def split: sum.splits prod.splits option.splits if_splits)
  with Cons.IH [OF s(2)] show ?case by simp
qed simp

section \<open>When a request is refused, and the replies to it otherwise\<close>

text \<open>
  \<open>refuses\<close> says when a handler ends the connection, by the state of the session and the store alone:
  a version check with other identifiers or another version than the server's; anything but that
  and the login before a login; a list, a creation or an entry that the store fails, a creation
  refused for a slot or a name apart; an entry for which the random source has no token left; a map
  entry without a character or with another token. No other request is refused.
\<close>

definition listing :: "'db handler \<Rightarrow> 'db session \<Rightarrow> (serr + character list) \<times> 'db" where
  "listing h s = op_ListCharacters (h_Store h) (s_db s) (s_accountID s)"

definition in_slot :: "vals \<Rightarrow> character list \<Rightarrow> character option" where
  "in_slot vs cs = find (\<lambda>c. (scast (SlotIndex c) :: u64) = fst (asUint64 (vs ''m_playerSlotIndex''))) cs"

definition other_version :: "'db handler \<Rightarrow> conn \<Rightarrow> vals \<Rightarrow> bool" where
  "other_version h c vs \<longleftrightarrow>
     fst (asInt64 (vs ''m_socketUID'')) \<noteq> SocketUID c \<or> fst (asInt64 (vs ''m_connectionKey'')) \<noteq> ConnectionKey c \<or>
     h_ProtocolVer h \<noteq> 0 \<and> (ucast (fst (asInt64 (vs ''m_protocolVer''))) :: i32) \<noteq> h_ProtocolVer h"

definition creation_fails :: "'db handler \<Rightarrow> 'db session \<Rightarrow> vals \<Rightarrow> bool" where
  "creation_fails h s vs \<longleftrightarrow>
     (let name = trim_space (fst (asString (vs ''m_name''))) in
      minNameLen \<le> rune_count name \<and> rune_count name \<le> maxNameLen \<and>
      (case listing h s of
         (Inl e, db) \<Rightarrow> True
       | (Inr cs, db) \<Rightarrow>
           (case freeSlot cs of
              None \<Rightarrow> False
            | Some slot \<Rightarrow>
                (case fst (op_CreateCharacter (h_Store h) db (new_character (s_accountID s) slot name
                     (fst (asUint64 (vs ''m_classType''))) (fst (asUint64 (vs ''m_headType''))))) of
                   Inl e \<Rightarrow> e \<noteq> ErrNameTaken \<and> e \<noteq> ErrSlotTaken
                 | Inr c \<Rightarrow> False))))"

definition entry_fails :: "'db handler \<Rightarrow> 'db session \<Rightarrow> vals \<Rightarrow> bool" where
  "entry_fails h s vs \<longleftrightarrow>
     (case fst (listing h s) of
        Inl e \<Rightarrow> True
      | Inr cs \<Rightarrow> in_slot vs cs \<noteq> None \<and> length (s_rng s) < 8)"

definition refuses :: "'db handler \<Rightarrow> 'db session \<Rightarrow> string \<Rightarrow> vals \<Rightarrow> bool" where
  "refuses h s name vs \<longleftrightarrow>
     (if name = ''C2S_VersionCheck'' then other_version h (s_conn s) vs
      else if name = ''C2S_SessionAuthLogin'' then False
      else if \<not> s_authed s then True
      else if name = ''C2S_PlayerList'' then \<not> is_ok (fst (listing h s))
      else if name = ''C2S_CreatePlayer'' then creation_fails h s vs
      else if name = ''C2S_EnterWorld'' then entry_fails h s vs
      else if name = ''C2S_MapEnter'' then s_character s = None \<or> fst (asInt64 (vs ''m_warpToken'')) \<noteq> s_warpToken s
      else if name = ''C2S_MapEnterComplete'' then s_character s = None
      else False)"

text \<open>
  The names of the replies to a request that is not refused, in order: two to an entry with a
  character in the slot, none to options and to messages the server does not handle, and otherwise
  the one message named like the request.
\<close>

definition handled_requests :: "string list" where
  "handled_requests =
     [''C2S_VersionCheck'', ''C2S_SessionAuthLogin'', ''C2S_WaitingUserCount'', ''C2S_PlayerList'', ''C2S_CreatePlayer'',
      ''C2S_EnterWorld'', ''C2S_MapEnter'', ''C2S_MapEnterPreComplete'', ''C2S_MapEnterComplete'',
      ''C2S_PlayerLoadFirstCall'', ''C2S_Logout'']"

definition reply_names :: "'db handler \<Rightarrow> 'db session \<Rightarrow> string \<Rightarrow> vals \<Rightarrow> string list" where
  "reply_names h s name vs =
     (if name = ''C2S_EnterWorld'' then
        ''S2C_EnterWorld'' #
        (case fst (listing h s) of
           Inl e \<Rightarrow> []
         | Inr cs \<Rightarrow> if in_slot vs cs = None then [] else [''S2C_EnterWorldComplete''])
      else if name \<in> set handled_requests then [''S2C'' @ drop 3 name]
      else [])"

lemma reply_names_simps:
  "reply_names h s ''C2S_SetOptions'' vs = []"
  "reply_names h s ''C2S_VersionCheck'' vs = [''S2C_VersionCheck'']"
  "reply_names h s ''C2S_SessionAuthLogin'' vs = [''S2C_SessionAuthLogin'']"
  "reply_names h s ''C2S_WaitingUserCount'' vs = [''S2C_WaitingUserCount'']"
  "reply_names h s ''C2S_PlayerList'' vs = [''S2C_PlayerList'']"
  "reply_names h s ''C2S_CreatePlayer'' vs = [''S2C_CreatePlayer'']"
  "reply_names h s ''C2S_MapEnter'' vs = [''S2C_MapEnter'']"
  "reply_names h s ''C2S_MapEnterPreComplete'' vs = [''S2C_MapEnterPreComplete'']"
  "reply_names h s ''C2S_MapEnterComplete'' vs = [''S2C_MapEnterComplete'']"
  "reply_names h s ''C2S_PlayerLoadFirstCall'' vs = [''S2C_PlayerLoadFirstCall'']"
  "reply_names h s ''C2S_Logout'' vs = [''S2C_Logout'']"
  by (simp_all add: reply_names_def handled_requests_def)

text \<open>What a step of the handlers says when the network takes everything: nothing if it fails, these messages otherwise.\<close>

definition says :: "bool \<Rightarrow> string list \<Rightarrow> conn \<Rightarrow> (herr + unit) \<times> 'db session \<Rightarrow> bool" where
  "says fails names c rs \<longleftrightarrow>
     (if fails then \<not> is_ok (fst rs) \<and> s_conn (snd rs) = c
      else fst rs = Inr () \<and> (\<exists>ms. sends c ms = (Inr (), s_conn (snd rs)) \<and> map fst ms = names))"

lemma says_error [simp]: "says True names c (Inl e, s) = (s_conn s = c)"
  by (simp add: says_def)

lemma says_nothing: "s_conn s = c \<Longrightarrow> says False [] c (Inr (), s)"
  by (auto simp: says_def intro: exI [of _ "[]"])

lemma says_reply:
  assumes "replies name f" "sk_room (cn_raw (s_conn s)) = None"
  shows "says False [name] (s_conn s) (send_reply name f s)"
proof -
  obtain z c where "Send (s_conn s) name (f z) = (Inr (), c)" "send_reply name f s = (Inr (), s\<lparr>s_conn := c\<rparr>)"
    by (rule send_reply_sends [OF assms])
  then show ?thesis by (auto simp: says_def intro!: exI [of _ "[(name, f z)]"])
qed

text \<open>A call of the store and an entry leave the connection alone.\<close>

lemma store_call_conn: "store_call f s = (r, s1) \<Longrightarrow> s_conn s = s_conn s1"
  by (auto simp: store_call_def split: prod.splits)

lemma store_list: "store_call (\<lambda>db. op_ListCharacters (h_Store h) db (s_accountID s)) s = (fst (listing h s), s\<lparr>s_db := snd (listing h s)\<rparr>)"
  by (simp add: store_call_def listing_def split_beta)

lemma loginResult_says:
  "sk_room (cn_raw (s_conn s)) = None \<Longrightarrow> says False [''S2C_SessionAuthLogin''] (s_conn s) (sendLoginResult s code key r)"
  unfolding sendLoginResult_def by (rule says_reply [OF plain_replies(2)])

lemma login_says:
  assumes "sk_room (cn_raw (s_conn s)) = None"
  shows "says False [''S2C_SessionAuthLogin''] (s_conn s) (handleLogin h m s vs)"
proof -
  have l: "says False [''S2C_SessionAuthLogin''] (s_conn s) (sendLoginResult s' code key r)" if "s_conn s = s_conn s'"
    for s' :: "'a session" and code key r
    using loginResult_says [of s'] assms that by simp
  have "says False [''S2C_SessionAuthLogin''] (s_conn s)
      (sendLoginResult (s'\<lparr>s_accountID := a, s_accountCode := u, s_authed := True\<rparr>) code key r)"
    if "s_conn s = s_conn s'" for s' :: "'a session" and a u code key r
    using l [of "s'\<lparr>s_accountID := a, s_accountCode := u, s_authed := True\<rparr>"] that by simp
  with l show ?thesis
    by (auto simp: handleLogin_def Let_def store_call_conn split: sum.split prod.split)
qed

lemma playerList_says:
  assumes "sk_room (cn_raw (s_conn s)) = None"
  shows "says (\<not> is_ok (fst (listing h s))) [''S2C_PlayerList''] (s_conn s) (handlePlayerList h s)"
proof -
  let ?s1 = "s\<lparr>s_db := snd (listing h s)\<rparr>"
  have "sk_room (cn_raw (s_conn ?s1)) = None" using assms by simp
  from says_reply [OF list_reply this] show ?thesis
    by (cases "fst (listing h s)") (simp_all add: handlePlayerList_def store_list)
qed

lemma createResult_says:
  assumes "sk_room (cn_raw (s_conn s)) = None"
  shows "says False [''S2C_CreatePlayer''] (s_conn s) (sendCreateResult s r None)"
    "says False [''S2C_CreatePlayer''] (s_conn s) (sendCreateResult s r (Some (toLobbyPlayerInfo c)))"
  using says_reply [OF create_reply(1) assms] says_reply [OF create_reply(2) assms]
  by (simp_all add: sendCreateResult_def)

lemma create_says:
  assumes "sk_room (cn_raw (s_conn s)) = None"
  shows "says (creation_fails h s vs) [''S2C_CreatePlayer''] (s_conn s) (handleCreatePlayer h s vs)"
proof -
  let ?name = "trim_space (fst (asString (vs ''m_name'')))"
  let ?new = "\<lambda>slot. new_character (s_accountID s) slot ?name (fst (asUint64 (vs ''m_classType''))) (fst (asUint64 (vs ''m_headType'')))"
  let ?s1 = "s\<lparr>s_db := snd (listing h s)\<rparr>"
  have l: "says False [''S2C_CreatePlayer''] (s_conn s) (sendCreateResult s' r None)"
    "says False [''S2C_CreatePlayer''] (s_conn s) (sendCreateResult s' r (Some (toLobbyPlayerInfo c)))"
    if "s_conn s' = s_conn s" for s' :: "'a session" and r c
    using createResult_says [of s'] assms that by simp_all
  show ?thesis
  proof (cases "rune_count ?name < minNameLen \<or> maxNameLen < rune_count ?name")
    case True
    then have "\<not> creation_fails h s vs" by (auto simp: creation_fails_def Let_def)
    with True l show ?thesis by (simp add: handleCreatePlayer_def Let_def)
  next
    case name: False
    show ?thesis
    proof (cases "fst (listing h s)")
      case (Inl e)
      then have "creation_fails h s vs" using name by (simp add: creation_fails_def Let_def split_beta)
      then show ?thesis using name Inl by (simp add: handleCreatePlayer_def Let_def store_list)
    next
      case cs: (Inr cs)
      show ?thesis
      proof (cases "freeSlot cs")
        case None
        then have "\<not> creation_fails h s vs" using cs by (simp add: creation_fails_def Let_def split_beta)
        then show ?thesis using name cs None l by (simp add: handleCreatePlayer_def Let_def store_list)
      next
        case (Some slot)
        obtain r db where c: "op_CreateCharacter (h_Store h) (snd (listing h s)) (?new slot) = (r, db)"
          by (metis prod.exhaust)
        have fails: "creation_fails h s vs \<longleftrightarrow> (case r of Inl e \<Rightarrow> e \<noteq> ErrNameTaken \<and> e \<noteq> ErrSlotTaken | Inr _ \<Rightarrow> False)"
          using name cs Some c by (simp add: creation_fails_def Let_def split_beta)
        have "handleCreatePlayer h s vs =
          (case (r, s\<lparr>s_db := db\<rparr>) of
             (Inl ErrNameTaken, s2) \<Rightarrow> sendCreateResult s2 createResultDupName None
           | (Inl ErrSlotTaken, s2) \<Rightarrow> sendCreateResult s2 createResultNoFreeSlot None
           | (Inl e, s2) \<Rightarrow> (Inl (StoreError ''create player'' e), s2)
           | (Inr created, s2) \<Rightarrow> sendCreateResult s2 createResultOK (Some (toLobbyPlayerInfo created)))"
          using name cs Some c by (simp add: handleCreatePlayer_def Let_def store_list store_call_def)
        then show ?thesis using l fails by (simp split: sum.split serr.split)
      qed
    qed
  qed
qed

lemma enter_replies:
  assumes "sk_room (cn_raw (s_conn s)) = None"
  obtains f g c where
    "(case sendEnterWorldResult s enterResultOK (SlotIndex ch) of
        (Inl e, s4) \<Rightarrow> (Inl e, s4) | (Inr _, s4) \<Rightarrow> sendEnterWorldComplete h s4 ch) = (Inr (), s\<lparr>s_conn := c\<rparr>)"
    "sends (s_conn s) [(''S2C_EnterWorld'', f), (''S2C_EnterWorldComplete'', g)] = (Inr (), c)"
proof -
  obtain f c1 where one: "Send (s_conn s) ''S2C_EnterWorld'' f = (Inr (), c1)"
    "sendEnterWorldResult s enterResultOK (SlotIndex ch) = (Inr (), s\<lparr>s_conn := c1\<rparr>)" "sk_room (cn_raw c1) = None"
    unfolding sendEnterWorldResult_def by (rule send_reply_sends [OF plain_replies(4) assms]) blast
  let ?s = "s\<lparr>s_conn := c1\<rparr>"
  have room: "sk_room (cn_raw (s_conn ?s)) = None" using one(3) by simp
  obtain g c2 where "Send c1 ''S2C_EnterWorldComplete'' g = (Inr (), c2)"
    "sendEnterWorldComplete h ?s ch = (Inr (), ?s\<lparr>s_conn := c2\<rparr>)"
    unfolding sendEnterWorldComplete_def by (rule send_reply_sends [OF enter_reply room]) auto
  then show thesis using one by (intro that [of c2 f g]) simp_all
qed

lemma entered_conn: "s_conn (entered h ch token rng s) = s_conn s"
  by (simp add: session_updates)

lemma newWarpToken_ok: "is_ok (newWarpToken rng) \<longleftrightarrow> 8 \<le> length rng"
  by (auto simp: newWarpToken_def rand_Read_def is_ok_rbind Let_def)

lemma enter_says:
  assumes "sk_room (cn_raw (s_conn s)) = None"
  shows "says (entry_fails h s vs) (reply_names h s ''C2S_EnterWorld'' vs) (s_conn s) (handleEnterWorld h s vs)"
proof (cases "fst (listing h s)")
  case (Inl e)
  then show ?thesis by (simp add: handleEnterWorld_def store_list entry_fails_def)
next
  case (Inr cs)
  let ?s1 = "s\<lparr>s_db := snd (listing h s)\<rparr>"
  have room: "sk_room (cn_raw (s_conn ?s1)) = None" using assms by simp
  show ?thesis
  proof (cases "in_slot vs cs")
    case None
    have "says False [''S2C_EnterWorld''] (s_conn ?s1) (sendEnterWorldResult ?s1 r k)" for r k
      unfolding sendEnterWorldResult_def by (rule says_reply [OF plain_replies(4) room])
    then show ?thesis
      using Inr None by (simp add: handleEnterWorld_def store_list entry_fails_def reply_names_def in_slot_def)
  next
    case (Some ch)
    show ?thesis
    proof (cases "newWarpToken (s_rng s)")
      case (Inl e)
      then have "entry_fails h s vs" using Inr Some newWarpToken_ok [of "s_rng s"] by (simp add: entry_fails_def)
      then show ?thesis using Inr Some Inl by (simp add: handleEnterWorld_def store_list in_slot_def)
    next
      case token: (Inr tr)
      obtain token rng where tr: "tr = (token, rng)" by force
      have ok: "\<not> entry_fails h s vs" using Inr Some token newWarpToken_ok [of "s_rng s"] by (simp add: entry_fails_def)
      let ?e = "entered h ch token rng ?s1"
      have "sk_room (cn_raw (s_conn ?e)) = None" using room by (simp add: entered_conn)
      then obtain f g c where e: "(case sendEnterWorldResult ?e enterResultOK (SlotIndex ch) of
          (Inl x, s4) \<Rightarrow> (Inl x, s4) | (Inr _, s4) \<Rightarrow> sendEnterWorldComplete h s4 ch) = (Inr (), ?e\<lparr>s_conn := c\<rparr>)"
        "sends (s_conn ?e) [(''S2C_EnterWorld'', f), (''S2C_EnterWorldComplete'', g)] = (Inr (), c)"
        by (rule enter_replies)
      have "handleEnterWorld h s vs = (Inr (), ?e\<lparr>s_conn := c\<rparr>)"
        using Inr Some token tr e(1) by (simp add: handleEnterWorld_def store_list in_slot_def)
      moreover have "reply_names h s ''C2S_EnterWorld'' vs = [''S2C_EnterWorld'', ''S2C_EnterWorldComplete'']"
        using Inr Some by (simp add: reply_names_def)
      ultimately show ?thesis
        using ok e(2) by (simp add: says_def entered_conn)
          (intro exI [of _ "[(''S2C_EnterWorld'', f), (''S2C_EnterWorldComplete'', g)]"], simp)
    qed
  qed
qed

lemma versionCheck_says:
  assumes "sk_room (cn_raw (s_conn s)) = None"
  shows "says (other_version h (s_conn s) vs) [''S2C_VersionCheck''] (s_conn s) (handleVersionCheck h m s vs)"
  using says_reply [OF plain_replies(1) assms] by (auto simp: handleVersionCheck_def other_version_def Let_def)

lemma options_says: "says False [] (s_conn s) (handleSetOptions h s vs)"
  by (auto simp: handleSetOptions_def Let_def store_call_def split: prod.split intro!: says_nothing)

lemma map_says:
  assumes "sk_room (cn_raw (s_conn s)) = None"
  shows "says (s_character s = None \<or> fst (asInt64 (vs ''m_warpToken'')) \<noteq> s_warpToken s) [''S2C_MapEnter'']
      (s_conn s) (handleMapEnter h m s vs)"
    "says (s_character s = None) [''S2C_MapEnterComplete''] (s_conn s) (handleMapEnterComplete s)"
    "says False [''S2C_MapEnterPreComplete''] (s_conn s) (handleMapEnterPreComplete s)"
    "says False [''S2C_PlayerLoadFirstCall''] (s_conn s) (handlePlayerLoadFirstCall s)"
    "says False [''S2C_WaitingUserCount''] (s_conn s) (handleWaitingUserCount m s)"
    "says False [''S2C_Logout''] (s_conn s) (handleLogout s)"
  by (auto simp: handleMapEnter_def handleMapEnterComplete_def handleMapEnterPreComplete_def handlePlayerLoadFirstCall_def
      handleWaitingUserCount_def handleLogout_def Let_def says_reply [OF map_reply assms] says_reply [OF plain_replies(3) assms]
      says_reply [OF plain_replies(5) assms] says_reply [OF plain_replies(6) assms] says_reply [OF plain_replies(7) assms]
      says_reply [OF plain_replies(8) assms] split: option.split)

text \<open>Every request is refused as \<open>refuses\<close> says, without a word, and answered by \<open>reply_names\<close> otherwise.\<close>

lemma dispatch_says:
  assumes "sk_room (cn_raw (s_conn s)) = None"
  shows "says (refuses h s name vs) (reply_names h s name vs) (s_conn s) (dispatch h m s name vs)"
proof -
  note says = login_says [OF assms] playerList_says [OF assms] create_says [OF assms] enter_says [OF assms]
    versionCheck_says [OF assms] map_says [OF assms] options_says
  show ?thesis
  proof (cases "name \<in> set handled_requests \<or> name = ''C2S_SetOptions''")
    case True
    then show ?thesis
      unfolding handled_requests_def list.set insert_iff empty_iff
      by (elim disjE FalseE) (simp_all add: dispatch_def refuses_def reply_names_simps says)
  next
    case False
    then have "reply_names h s name vs = []" by (auto simp: reply_names_def handled_requests_def)
    with False show ?thesis
      by (simp add: handled_requests_def dispatch_def refuses_def says_nothing)
  qed
qed

section \<open>The conversation\<close>

text \<open>What receiving changes in a connection does not matter for sending.\<close>

definition heard :: "rabbit \<Rightarrow> byte list \<Rightarrow> conn \<Rightarrow> conn" where
  "heard r rx c = c\<lparr>cn_raw := (cn_raw c)\<lparr>sk_rx := rx\<rparr>, cn_c2s := r\<rparr>"

lemma Send_heard: "Send (heard r rx c) name vs = map_prod id (heard r rx) (Send c name vs)"
  by (simp add: heard_def Send_def writeFrame_def Write_def Let_def split_beta split: sum.split option.split)

lemma sends_heard: "sends (heard r rx c) ms = map_prod id (heard r rx) (sends c ms)"
  by (induction ms arbitrary: c) (simp_all add: Send_heard split: prod.split sum.split)

lemma sends_heardE:
  assumes "sends (heard r rx c) ms = (Inr (), c')"
  obtains c1 where "sends c ms = (Inr (), c1)" "c' = heard r rx c1"
  using assms by (cases "sends c ms") (simp add: sends_heard)

text \<open>
  How a connection and its client take turns. From a session at turn \<open>k\<close>, the requests the client
  still has on the way, the lists of replies sent from here on, how it ends and with which session:
  a cancelled context ends it whatever is left; a client that hung up with nothing left ends it;
  the next request, received as the client sent it, ends it if the session \<open>refuses\<close> it, with an
  error of its handler and nothing sent; otherwise its handler succeeds, having sent the replies
  with the names \<open>reply_names\<close> gives, and the conversation goes on with the session it leaves.
\<close>

definition request_vals :: "string \<times> vals \<Rightarrow> vals" where
  "request_vals q = fst (snd (received q))"

inductive talks ::
    "'db handler \<Rightarrow> (nat \<Rightarrow> moment) \<Rightarrow> nat \<Rightarrow> 'db session \<Rightarrow> (string \<times> vals) list \<Rightarrow> (string \<times> vals) list list \<Rightarrow>
      ending \<Rightarrow> 'db session \<Rightarrow> bool"
    for h ctx where
  cancelled: "talks h ctx k s reqs [] ContextDone s" if "mo_cancelled (ctx k)"
| hung_up: "talks h ctx k s [] [] (RecvFailed ErrEOF) s" if "\<not> mo_cancelled (ctx k)"
| refused: "talks h ctx k s (q # qs) [] (HandlerFailed (fst q) x) s'"
    if "\<not> mo_cancelled (ctx k)" "Recv (s_conn s) = (Inr (received q), c)"
      "refuses h (s\<lparr>s_conn := c\<rparr>) (fst q) (request_vals q)"
      "dispatch h (ctx k) (s\<lparr>s_conn := c\<rparr>) (fst q) (request_vals q) = (Inl x, s')" "s_conn s' = c"
| answered: "talks h ctx k s (q # qs) (r # rs) e s'"
    if "\<not> mo_cancelled (ctx k)" "Recv (s_conn s) = (Inr (received q), c)"
      "\<not> refuses h (s\<lparr>s_conn := c\<rparr>) (fst q) (request_vals q)"
      "dispatch h (ctx k) (s\<lparr>s_conn := c\<rparr>) (fst q) (request_vals q) = (Inr (), s1)"
      "sends c r = (Inr (), s_conn s1)" "map fst r = reply_names h (s\<lparr>s_conn := c\<rparr>) (fst q) (request_vals q)"
      "talks h ctx (Suc k) s1 qs rs e s'"

inductive_cases talks_answeredE: "talks h ctx k s (q # qs) (r # rs) e s'"

text \<open>At the clean end of the stream every request has been answered.\<close>

lemma talks_all: "talks h ctx k s reqs rs e s' \<Longrightarrow> e = RecvFailed t \<Longrightarrow> length rs = length reqs"
  by (induction rule: talks.induct) simp_all

text \<open>One turn of the loop: the next request of a client in step is received and dispatched.\<close>

lemma loop_turn:
  assumes "\<not> mo_cancelled (ctx k)" "Send p (fst q) (snd q) = (Inr (), p1)" "fits q" "cn_c2s (s_conn s) = cn_s2c p"
    and "sk_tx (cn_raw p) @ sk_rx (cn_raw (s_conn s)) = sk_tx (cn_raw p1) @ rest"
  shows "serve_loop h ctx k s =
    (case dispatch h (ctx k) (s\<lparr>s_conn := heard (cn_s2c p1) rest (s_conn s)\<rparr>) (fst q) (fst (snd (received q))) of
       (Inl e, s1) \<Rightarrow> (HandlerFailed (fst q) e, s1)
     | (Inr _, s1) \<Rightarrow> serve_loop h ctx (Suc k) s1)"
proof -
  have "Recv (s_conn s) = (Inr (received q), heard (cn_s2c p1) rest (s_conn s))"
    unfolding heard_def by (rule Send_Recv [OF assms(2,3,4,5)])
  moreover obtain mo vs tail where mo: "received q = (mo, vs, tail)" by (metis prod.exhaust)
  moreover obtain msg where "mo = Some msg" "msgName msg = fst q"
    using Send_ok [OF assms(2)] received_name [of q] mo by auto
  ultimately show ?thesis
    using assms(1) by (simp add: serve_loop.simps [of h ctx k s] split: prod.split sum.split)
qed

lemma loop_end:
  assumes "sk_rx (cn_raw (s_conn s)) = []" "sk_end (cn_raw (s_conn s)) = PeerClosed"
  shows "serve_loop h ctx k s = (if mo_cancelled (ctx k) then ContextDone else RecvFailed ErrEOF, s)"
proof -
  have "Recv (s_conn s) = (Inl ErrEOF, s_conn s)"
    using assms by (simp add: Recv_def readFrame_def ReadFull_def Let_def)
  then show ?thesis by (simp add: serve_loop.simps [of h ctx k s])
qed

text \<open>What the turn sends, and that the two ends are in step after it.\<close>

lemma turn_says:
  assumes "Send p (fst q) (snd q) = (Inr (), p1)" "fits q" "cn_c2s (s_conn s) = cn_s2c p"
    and "sk_tx (cn_raw p) @ sk_rx (cn_raw (s_conn s)) = sk_tx (cn_raw p1) @ rest" "sk_room (cn_raw (s_conn s)) = None"
  defines "c \<equiv> heard (cn_s2c p1) rest (s_conn s)"
  shows "Recv (s_conn s) = (Inr (received q), c)"
    and "says (refuses h (s\<lparr>s_conn := c\<rparr>) (fst q) (request_vals q)) (reply_names h (s\<lparr>s_conn := c\<rparr>) (fst q) (request_vals q)) c
      (dispatch h m (s\<lparr>s_conn := c\<rparr>) (fst q) (request_vals q))"
proof -
  show "Recv (s_conn s) = (Inr (received q), c)"
    unfolding heard_def c_def by (rule Send_Recv [OF assms(1-4)])
  have "sk_room (cn_raw (s_conn (s\<lparr>s_conn := c\<rparr>))) = None" using assms(5) by (simp add: heard_def c_def)
  from dispatch_says [OF this] show "says (refuses h (s\<lparr>s_conn := c\<rparr>) (fst q) (request_vals q))
      (reply_names h (s\<lparr>s_conn := c\<rparr>) (fst q) (request_vals q)) c (dispatch h m (s\<lparr>s_conn := c\<rparr>) (fst q) (request_vals q))"
    by simp
qed

lemma loop_talks:
  assumes "serve_loop h ctx k s = (e, s')" "sends p reqs = (Inr (), p')" "list_all fits reqs"
    and "cn_c2s (s_conn s) = cn_s2c p" "sk_tx (cn_raw p) @ sk_rx (cn_raw (s_conn s)) = sk_tx (cn_raw p')"
    and "sk_end (cn_raw (s_conn s)) = PeerClosed" "sk_room (cn_raw (s_conn s)) = None"
  shows "\<exists>rs r rx c. talks h ctx k s reqs rs e s' \<and> sends (s_conn s) (concat rs) = (Inr (), c) \<and> s_conn s' = heard r rx c"
  using assms
proof (induction reqs arbitrary: k s p)
  case Nil
  have rx: "sk_rx (cn_raw (s_conn s)) = []" using Nil.prems(2,5) by simp
  have t: "talks h ctx k s [] [] e s'" "s' = s"
    using Nil.prems(1) loop_end [OF rx Nil.prems(6), of h ctx k] by (auto intro: cancelled hung_up split: if_splits)
  show ?case
    by (rule exI [of _ "[]"], rule exI [of _ "cn_c2s (s_conn s)"], rule exI [of _ "[]"], rule exI [of _ "s_conn s"])
      (use t in \<open>simp add: heard_def rx [symmetric]\<close>)
next
  case (Cons q qs)
  show ?case
  proof (cases "mo_cancelled (ctx k)")
    case True
    then have "e = ContextDone" "s' = s" using Cons.prems(1) by (simp_all add: serve_loop.simps [of h ctx k s])
    then show ?thesis
      by (intro exI [of _ "[]"] exI [of _ "cn_c2s (s_conn s)"] exI [of _ "sk_rx (cn_raw (s_conn s))"])
        (simp add: heard_def cancelled True)
  next
    case False
    obtain p1 where p1: "Send p (fst q) (snd q) = (Inr (), p1)" "sends p1 qs = (Inr (), p')"
      using Cons.prems(2) by (auto split: prod.splits sum.splits unit.splits)
    obtain rest where rest: "sk_tx (cn_raw p') = sk_tx (cn_raw p1) @ rest" using sends_tx [OF p1(2)] by blast
    have q: "fits q" "sk_tx (cn_raw p) @ sk_rx (cn_raw (s_conn s)) = sk_tx (cn_raw p1) @ rest"
      using Cons.prems(3,5) rest by simp_all
    let ?c = "heard (cn_s2c p1) rest (s_conn s)"
    note turn = turn_says(1) [OF p1(1) q(1) Cons.prems(4) q(2) Cons.prems(7)]
      turn_says(2) [where h = h and m = "ctx k", OF p1(1) q(1) Cons.prems(4) q(2) Cons.prems(7)]
    obtain d s1 where d: "dispatch h (ctx k) (s\<lparr>s_conn := ?c\<rparr>) (fst q) (request_vals q) = (d, s1)" by fastforce
    have loop: "serve_loop h ctx k s = (case d of Inl x \<Rightarrow> (HandlerFailed (fst q) x, s1) | Inr _ \<Rightarrow> serve_loop h ctx (Suc k) s1)"
      using loop_turn [where ctx = ctx and k = k and h = h, OF False p1(1) q(1) Cons.prems(4) q(2)] d
      by (simp add: request_vals_def)
    show ?thesis
    proof (cases "refuses h (s\<lparr>s_conn := ?c\<rparr>) (fst q) (request_vals q)")
      case True
      then obtain x where x: "d = Inl x" "s_conn s1 = ?c"
        using turn(2) d by (cases d) (simp_all add: says_def)
      then have "talks h ctx k s (q # qs) [] e s'"
        using refused [where ctx = ctx and k = k and h = h and s = s, OF False turn(1) True, of x s1] d Cons.prems(1) loop by simp
      moreover have "s' = s1" using x loop Cons.prems(1) by simp
      ultimately show ?thesis
        using x(2) by (intro exI [of _ "[]"] exI [of _ "cn_s2c p1"] exI [of _ rest] exI [of _ "s_conn s"]) simp
    next
      case ok: False
      obtain ms where ms: "d = Inr ()" "sends ?c ms = (Inr (), s_conn s1)"
        "map fst ms = reply_names h (s\<lparr>s_conn := ?c\<rparr>) (fst q) (request_vals q)"
        using turn(2) d ok by (auto simp: says_def)
      obtain c where c: "sends (s_conn s) ms = (Inr (), c)" "s_conn s1 = heard (cn_s2c p1) rest c"
        using ms(2) by (rule sends_heardE)
      note kept = sends_keeps [OF c(1)]
      have "serve_loop h ctx (Suc k) s1 = (e, s')" using Cons.prems(1) loop ms(1) by simp
      from Cons.IH [OF this p1(2)] obtain rs r2 rx2 c2 where rs: "talks h ctx (Suc k) s1 qs rs e s'"
        "sends (s_conn s1) (concat rs) = (Inr (), c2)" "s_conn s' = heard r2 rx2 c2"
        using Cons.prems(3,6,7) c(2) kept rest by (auto simp: heard_def)
      obtain c3 where c3: "sends c (concat rs) = (Inr (), c3)" "c2 = heard (cn_s2c p1) rest c3"
        using rs(2) unfolding c(2) by (rule sends_heardE)
      have "talks h ctx k s (q # qs) (ms # rs) e s'"
        using answered [where ctx = ctx and k = k and h = h and s = s, OF False turn(1) ok _ ms(2,3) rs(1)] d ms(1) by simp
      then show ?thesis
        using rs(3) c(1) c3 by (intro exI [of _ "ms # rs"] exI [of _ r2] exI [of _ rx2] exI [of _ c3]) (simp add: sends_append heard_def)
    qed
  qed
qed

section \<open>Properties\<close>

text \<open>C4. A conversation from end to end. A client in step with the server sends any requests whose bodies
  fit their frames (at most 65533 bytes) and hangs up; the network takes everything the server
  sends. Then the connection is one run of \<open>talks\<close>: each request is received as the client sent it
  and in its order, and either the session it finds \<open>refuses\<close> it, for one of the reasons listed
  there, and the connection ends with nothing sent in return, or its handler succeeds and sends
  the replies \<open>reply_names\<close> gives and nothing else. Apart from such a refusal the connection ends
  early only in a turn that finds the context cancelled; when it ends with the end of the stream,
  all requests have been answered. What the client receives is exactly these replies, in this
  order, under these names and as \<open>Decode\<close> reads what \<open>Encode\<close> made of them, with no byte left over,
  as long as they fit their frames too.\<close>
theorem conversation:
  assumes "Serve h ctx i c db rng = (e, s)" "sends p reqs = (Inr (), p')" "list_all fits reqs"
    and "cn_c2s c = cn_s2c p" "cn_c2s p = cn_s2c c"
    and "sk_end (cn_raw c) = PeerClosed" "sk_room (cn_raw c) = None"
    and "sk_tx (cn_raw p) @ sk_rx (cn_raw c) = sk_tx (cn_raw p')"
    and "sk_tx (cn_raw c) @ sk_rx (cn_raw p) = sk_tx (cn_raw (s_conn s))"
  shows "\<exists>rs s0. talks h ctx 0 (new_session i c db rng) reqs rs e s0 \<and> s = hang_up s0 \<and>
    (e = RecvFailed ErrEOF \<longrightarrow> length rs = length reqs) \<and>
    (list_all fits (concat rs) \<longrightarrow>
      (\<exists>q. recvs (length (concat rs)) p' = (Inr (map received (concat rs)), q) \<and> sk_rx (cn_raw q) = [] \<and>
        map (\<lambda>m. map_option msgName (fst (received m))) (concat rs) = map (\<lambda>m. Some (fst m)) (concat rs)))"
proof -
  obtain s0 where s0: "serve_loop h ctx 0 (new_session i c db rng) = (e, s0)" "s = hang_up s0"
    using assms(1) by (auto simp: Serve_def split: prod.splits)
  obtain rs r rx c1 where rs: "talks h ctx 0 (new_session i c db rng) reqs rs e s0"
    "sends c (concat rs) = (Inr (), c1)" "s_conn s0 = heard r rx c1"
    using loop_talks [OF s0(1) assms(2,3)] assms(4,6-8) by auto
  have "sk_tx (cn_raw (s_conn s)) = sk_tx (cn_raw c1)"
    using rs(3) by (simp add: s0(2) hang_up_def Close_def world_do_def Let_def heard_def split: option.split)
  moreover have "cn_c2s p' = cn_s2c c" "sk_rx (cn_raw p') = sk_rx (cn_raw p)"
    using sends_keeps [OF assms(2)] assms(5) by simp_all
  ultimately have "list_all fits (concat rs) \<Longrightarrow> recvs (length (concat rs)) p' =
      (Inr (map received (concat rs)), p'\<lparr>cn_raw := (cn_raw p')\<lparr>sk_rx := []\<rparr>, cn_c2s := cn_s2c c1\<rparr>)"
    using assms(9) by (intro sends_recvs [OF rs(2)]) simp_all
  moreover have "map_option msgName (fst (received m)) = Some (fst m)" if "m \<in> set (concat rs)" for m
    using sends_encoded [OF rs(2) that] received_name by blast
  moreover have "e = RecvFailed ErrEOF \<longrightarrow> length rs = length reqs" using talks_all [OF rs(1)] by blast
  ultimately show ?thesis using rs(1) s0(2) by (intro exI [of _ rs] exI [of _ s0]) simp
qed

end
