(* ===== verification/Visit.thy ===== *)
theory Visit
  imports Conversation
begin

text \<open>
  One visit from beginning to end, evaluated on the definitions: a client that the region vouches
  for logs in, enters the world with the character in slot 1 and hangs up. It is the concrete input
  of the properties about whole connections.
\<close>

section \<open>The client and its world\<close>

definition tana_region :: region where
  "tana_region rq =
     Inr (200, Some (JObject [(''accountId'', JNumber ''3''), (''userCode'', JString ''tana'' ''tana''), (''worldId'', JNumber ''1'')]))"

definition tana_moment :: moment where
  "tana_moment = sample_moment\<lparr>mo_region := tana_region\<rparr>"

definition tana_login :: vals where
  "tana_login =
     [''m_worldGroupID'' \<mapsto> VInt64 0, ''m_accountCode'' \<mapsto> VString ''tana'', ''m_sessionKey'' \<mapsto> VInt64 5,
      ''m_deviceOS'' \<mapsto> VUint64 0, ''m_deviceID'' \<mapsto> VString [], ''m_deviceLangCode'' \<mapsto> VString [],
      ''m_countryCode'' \<mapsto> VString [], ''m_platformType'' \<mapsto> VUint64 0, ''m_deviceName'' \<mapsto> VString [],
      ''m_useGameGuard'' \<mapsto> VBool False, ''m_systemLan'' \<mapsto> VString [], ''m_processorType'' \<mapsto> VString []]"

definition tana_requests :: "(string \<times> vals) list" where
  "tana_requests = [(''C2S_SessionAuthLogin'', tana_login), (''C2S_EnterWorld'', ask_slot_1)]"

definition tana_client :: conn where
  "tana_client = sample_conn\<lparr>cn_c2s := cn_s2c sample_conn, cn_s2c := cn_c2s sample_conn\<rparr>"

definition tana_server :: conn where
  "tana_server =
     sample_conn\<lparr>cn_raw := (cn_raw sample_conn)\<lparr>sk_rx := sk_tx (cn_raw (snd (sends tana_client tana_requests)))\<rparr>\<rparr>"

section \<open>The requests on the wire\<close>

lemma tana_text: "length (units_of_string ''tana'') = 4" "length (units_of_string []) = 0" "valid_utf8 ''tana''"
  by (simp_all add: units_of_string_def utf16_encode_def runes_of_ascii utf16_units.simps valid_utf8_ascii)

lemma tana_login_body: "\<exists>body. Encode rom ''C2S_SessionAuthLogin'' tana_login = Inr body \<and> length body \<le> 65533"
  by (simp add: encode_eval tana_login_def enc_string_def enc_bool_def length_w_str tana_text w_u32_def w_u8_def)

lemma tana_login_norm:
  "norm_message rom \<lparr>msgName = ''C2S_SessionAuthLogin'', msgDir = ''C2S'', msgID = 0x11C4978B, msgFields =
   [Field ''m_worldGroupID'' ty_Int32, Field ''m_accountCode'' ty_String,
    Field ''m_sessionKey'' ty_Int32, Field ''m_deviceOS'' ty_Byte,
    Field ''m_deviceID'' ty_String, Field ''m_deviceLangCode'' ty_String,
    Field ''m_countryCode'' ty_String, Field ''m_platformType'' ty_Byte,
    Field ''m_deviceName'' ty_String, Field ''m_useGameGuard'' ty_Boolean,
    Field ''m_systemLan'' ty_String, Field ''m_processorType'' ty_String]\<rparr> tana_login = Some tana_login"
  by (simp add: norm_message_def codec_fuel_def rom_eval tana_login_def norm_with_def norm_string_def tana_text)

lemma ask_slot_body: "Encode rom ''C2S_EnterWorld'' ask_slot_1 = Inr (w_u32 0x0A8477ED @ w_u8 1)"
  by (simp add: encode_eval ask_slot_1_def)

lemma ask_slot_norm:
  "norm_message rom \<lparr>msgName = ''C2S_EnterWorld'', msgDir = ''C2S'', msgID = 0x0A8477ED,
     msgFields = [Field ''m_playerSlotIndex'' ty_Byte]\<rparr> ask_slot_1 = Some ask_slot_1"
  by (simp add: norm_message_def codec_fuel_def rom_eval ask_slot_1_def norm_with_def)

lemma tana_carried:
  "fits (''C2S_SessionAuthLogin'', tana_login)" "fst (snd (received (''C2S_SessionAuthLogin'', tana_login))) = tana_login"
  "fits (''C2S_EnterWorld'', ask_slot_1)" "fst (snd (received (''C2S_EnterWorld'', ask_slot_1))) = ask_slot_1"
proof -
  obtain body where b: "Encode rom ''C2S_SessionAuthLogin'' tana_login = Inr body" "length body \<le> 65533"
    using tana_login_body by blast
  show "fits (''C2S_SessionAuthLogin'', tana_login)" using b by (simp add: fits_def)
  show "fst (snd (received (''C2S_SessionAuthLogin'', tana_login))) = tana_login"
    using Decode_Encode [OF coherent_rom full_names_known_rom b(1) handler_messages(2) tana_login_norm, of "[]"] b
    by (simp add: received_def)
  show "fits (''C2S_EnterWorld'', ask_slot_1)" by (simp add: fits_def ask_slot_body w_u32_def w_u8_def)
  show "fst (snd (received (''C2S_EnterWorld'', ask_slot_1))) = ask_slot_1"
    using Decode_Encode [OF coherent_rom full_names_known_rom ask_slot_body handler_messages(7) ask_slot_norm, of "[]"]
    by (simp add: received_def ask_slot_body)
qed

lemma tana_sends:
  obtains p1 p2 where "Send tana_client ''C2S_SessionAuthLogin'' tana_login = (Inr (), p1)"
    "Send p1 ''C2S_EnterWorld'' ask_slot_1 = (Inr (), p2)" "sends tana_client tana_requests = (Inr (), p2)"
proof -
  obtain body where b: "Encode rom ''C2S_SessionAuthLogin'' tana_login = Inr body" using tana_login_body by blast
  obtain p1 where p1: "Send tana_client ''C2S_SessionAuthLogin'' tana_login = (Inr (), p1)" "sk_room (cn_raw p1) = None"
    by (simp add: Send_def b writeFrame_def Write_def tana_client_def sample_conn_def Let_def split_beta)
  obtain p2 where p2: "Send p1 ''C2S_EnterWorld'' ask_slot_1 = (Inr (), p2)"
    using p1(2) by (simp add: Send_def ask_slot_body writeFrame_def Write_def Let_def split_beta)
  from p1(1) p2 show thesis by (intro that) (simp_all add: tana_requests_def)
qed

section \<open>The turns of the loop\<close>

lemma tana_digits: "ParseInt 64 ''3'' = Inr 3" "ParseInt 64 ''1'' = Inr 1"
  by (simp_all add: ParseInt_def ParseUnsigned_def digits_value_def is_digit_def in_range_def Let_def)

lemma tana_session:
  "decode_session (Some (JObject [(''accountId'', JNumber ''3''), (''userCode'', JString ''tana'' ''tana''), (''worldId'', JNumber ''1'')])) =
     Some (no_session\<lparr>sAccountID := 3, UserCode := ''tana'', WorldID := 1\<rparr>)"
  by (simp add: set_member_def field_of_def tags_def tana_digits no_session_def)

lemma tana_validated:
  "Validate tana_region c 5 ''tana'' = Inr (no_session\<lparr>sAccountID := 3, UserCode := ''tana'', WorldID := 1\<rparr>)"
  by (simp add: Validate_def tana_region_def tana_session del: decode_session.simps)

lemma tana_stored:
  obtains db where "UpsertAccount archer_db 3 ''tana'' = (Inr (), db)"
    "ListCharacters db 3 = (Inr [archer\<lparr>ID := 1, CreatedAt := 1789801837\<rparr>], db)"
proof -
  have f: "db_faults archer_db = []" using archer_created(2) by (simp add: archer_db_eq)
  obtain db where u: "UpsertAccount archer_db 3 ''tana'' = (Inr (), db)" "db_faults db = []" "db_characters db = db_characters archer_db"
    using f storable_samples(1)
    by (cases "list_ex (\<lambda>a. ar_account_id a = 3) (db_accounts archer_db)") (simp_all add: UpsertAccount_eq next_fault_def upsert_account_def op_begun_healthy)
  have a: "AccountID archer = 3" "DeletedTime archer = 0" "SlotIndex archer = 1"
    by (simp_all add: archer_def no_character_def)
  have "selected db 3 = [archer\<lparr>ID := 1, CreatedAt := 1789801837\<rparr>]"
    using u(3) by (simp add: selected_def archer_db_eq a)
  then have "ListCharacters db 3 = (Inr [archer\<lparr>ID := 1, CreatedAt := 1789801837\<rparr>], db)"
    using u(2) by (simp add: ListCharacters_eq next_fault_def op_begun_healthy)
  with u(1) show thesis by (rule that)
qed

lemma login_turn:
  assumes "sk_room (cn_raw (s_conn s)) = None" "s_db s = archer_db" "UpsertAccount archer_db 3 ''tana'' = (Inr (), db)"
  obtains c name vs where
    "dispatch sample_handler tana_moment s ''C2S_SessionAuthLogin'' tana_login =
       (Inr (), s\<lparr>s_db := db, s_accountID := 3, s_accountCode := ''tana'', s_authed := True, s_conn := c\<rparr>)"
    "sends (s_conn s) [(name, vs)] = (Inr (), c)"
proof -
  let ?s = "s\<lparr>s_db := db, s_accountID := 3, s_accountCode := ''tana'', s_authed := True\<rparr>"
  have room: "sk_room (cn_raw (s_conn ?s)) = None" using assms(1) by simp
  have v: "fst (asString (tana_login ''m_accountCode'')) = ''tana''" "(ucast (fst (asInt64 (tana_login ''m_sessionKey''))) :: i32) = 5"
    by (simp_all add: tana_login_def asString_def asInt64_def)
  obtain z c where "Send (s_conn ?s) ''S2C_SessionAuthLogin'' z = (Inr (), c)"
    "sendLoginResult ?s ''tana'' 5 resultOK = (Inr (), ?s\<lparr>s_conn := c\<rparr>)"
    unfolding sendLoginResult_def by (rule send_reply_sends [OF plain_replies(2) room]) blast
  then show thesis
    using assms(2,3) v
    by (intro that [of c "''S2C_SessionAuthLogin''" z])
      (simp_all add: dispatch_def handleLogin_def store_call_def tana_moment_def tana_validated no_session_def)
qed

lemma enter_turn:
  assumes "sk_room (cn_raw (s_conn s)) = None" "s_authed s" "s_accountID s = 3" "8 \<le> length (s_rng s)"
    and "ListCharacters (s_db s) 3 = (Inr [ch], s_db s)" "SlotIndex ch = 1"
  obtains token rng c f g where
    "dispatch sample_handler tana_moment s ''C2S_EnterWorld'' ask_slot_1 =
       (Inr (), (entered sample_handler ch token rng s)\<lparr>s_conn := c\<rparr>)"
    "sends (s_conn s) [(''S2C_EnterWorld'', f), (''S2C_EnterWorldComplete'', g)] = (Inr (), c)"
proof -
  obtain token rng where t: "newWarpToken (s_rng s) = Inr (token, rng)"
    using assms(4) by (simp add: newWarpToken_def rand_Read_def Let_def)
  have "sk_room (cn_raw (s_conn (entered sample_handler ch token rng s))) = None"
    using assms(1) by (simp add: entered_conn)
  then obtain f g c where e: "(case sendEnterWorldResult (entered sample_handler ch token rng s) enterResultOK (SlotIndex ch) of
      (Inl e, s4) \<Rightarrow> (Inl e, s4) | (Inr _, s4) \<Rightarrow> sendEnterWorldComplete sample_handler s4 ch) =
      (Inr (), (entered sample_handler ch token rng s)\<lparr>s_conn := c\<rparr>)"
    "sends (s_conn s) [(''S2C_EnterWorld'', f), (''S2C_EnterWorldComplete'', g)] = (Inr (), c)"
    unfolding entered_conn [of sample_handler ch token rng s, symmetric] by (rule enter_replies)
  have "store_call (\<lambda>db. op_ListCharacters (h_Store sample_handler) db (s_accountID s)) s = (Inr [ch], s)"
    using assms(3,5) by (simp add: store_call_def)
  moreover have "find (\<lambda>c. (scast (SlotIndex c) :: u64) = fst (asUint64 (ask_slot_1 ''m_playerSlotIndex''))) [ch] = Some ch"
    using assms(6) by (simp add: ask_slot_1_def asUint64_def)
  ultimately have "dispatch sample_handler tana_moment s ''C2S_EnterWorld'' ask_slot_1 =
      (Inr (), (entered sample_handler ch token rng s)\<lparr>s_conn := c\<rparr>)"
    using assms(2) t e(1) by (simp add: dispatch_def handleEnterWorld_def del: find.simps)
  then show thesis using e(2) by (rule that)
qed

text \<open>The session the visit ends with.\<close>

definition tana_visit :: "ending \<times> db session" where
  "tana_visit = Serve sample_handler (\<lambda>_. tana_moment) 7 tana_server archer_db (replicate 8 1)"

lemma tana_visits:
  "\<exists>s p. tana_visit = (RecvFailed ErrEOF, s) \<and> s_cmds s = [Join p, Leave 1] \<and> CharacterID p = 1"
proof -
  let ?s = "new_session 7 tana_server archer_db (replicate 8 1)"
  let ?ch = "archer\<lparr>ID := 1, CreatedAt := 1789801837\<rparr>"
  obtain p1 p2 where p: "Send tana_client ''C2S_SessionAuthLogin'' tana_login = (Inr (), p1)"
    "Send p1 ''C2S_EnterWorld'' ask_slot_1 = (Inr (), p2)" "sends tana_client tana_requests = (Inr (), p2)"
    by (rule tana_sends)
  obtain r1 where r1: "sk_tx (cn_raw p1) = sk_tx (cn_raw tana_client) @ r1" using Send_ok [OF p(1)] by metis
  obtain r2 where r2: "sk_tx (cn_raw p2) = sk_tx (cn_raw p1) @ r2" using Send_ok [OF p(2)] by metis
  obtain db where db: "UpsertAccount archer_db 3 ''tana'' = (Inr (), db)" "ListCharacters db 3 = (Inr [?ch], db)"
    by (rule tana_stored)
  have run: "\<not> mo_cancelled tana_moment" by (simp add: tana_moment_def sample_moment_def)
  have init: "sk_tx (cn_raw tana_client) = []" "sk_rx (cn_raw tana_server) = r1 @ r2" "cn_c2s tana_server = cn_s2c tana_client"
    "sk_room (cn_raw tana_server) = None" "sk_end (cn_raw tana_server) = PeerClosed"
    using p(3) r1 r2 by (simp_all add: tana_server_def) (simp_all add: tana_client_def sample_conn_def)
  let ?h1 = "heard (cn_s2c p1) r2 tana_server"
  have room1: "sk_room (cn_raw (s_conn (?s\<lparr>s_conn := ?h1\<rparr>))) = None" using init(4) by (simp add: heard_def)
  obtain c1 name vs where one: "dispatch sample_handler tana_moment (?s\<lparr>s_conn := ?h1\<rparr>) ''C2S_SessionAuthLogin'' tana_login =
      (Inr (), ?s\<lparr>s_conn := ?h1, s_db := db, s_accountID := 3, s_accountCode := ''tana'', s_authed := True, s_conn := c1\<rparr>)"
    "sends (s_conn (?s\<lparr>s_conn := ?h1\<rparr>)) [(name, vs)] = (Inr (), c1)"
    by (rule login_turn [OF room1 _ db(1)]) simp_all
  let ?s1 = "?s\<lparr>s_db := db, s_accountID := 3, s_accountCode := ''tana'', s_authed := True, s_conn := c1\<rparr>"
  note kept1 = sends_keeps [OF one(2)]
  have loop1: "serve_loop sample_handler (\<lambda>_. tana_moment) 0 ?s = serve_loop sample_handler (\<lambda>_. tana_moment) 1 ?s1"
    using loop_turn [of "\<lambda>_. tana_moment" 0 tana_client "(''C2S_SessionAuthLogin'', tana_login)" p1 ?s r2 sample_handler]
      run p(1) init r1 one(1) by (simp add: tana_carried)
  have conn1: "cn_c2s c1 = cn_s2c p1" "sk_rx (cn_raw c1) = r2" "sk_end (cn_raw c1) = PeerClosed" "sk_room (cn_raw c1) = None"
    using kept1 init(4,5) by (simp_all add: heard_def)
  let ?h2 = "heard (cn_s2c p2) [] c1"
  have room2: "sk_room (cn_raw (s_conn (?s1\<lparr>s_conn := ?h2\<rparr>))) = None" using conn1(4) by (simp add: heard_def)
  obtain token rng c2 f g where two: "dispatch sample_handler tana_moment (?s1\<lparr>s_conn := ?h2\<rparr>) ''C2S_EnterWorld'' ask_slot_1 =
      (Inr (), (entered sample_handler ?ch token rng (?s1\<lparr>s_conn := ?h2\<rparr>))\<lparr>s_conn := c2\<rparr>)"
    "sends (s_conn (?s1\<lparr>s_conn := ?h2\<rparr>)) [(''S2C_EnterWorld'', f), (''S2C_EnterWorldComplete'', g)] = (Inr (), c2)"
    by (rule enter_turn [OF room2, of ?ch]) (use db(2) in \<open>simp_all add: archer_def no_character_def\<close>)
  let ?s2 = "(entered sample_handler ?ch token rng (?s1\<lparr>s_conn := ?h2\<rparr>))\<lparr>s_conn := c2\<rparr>"
  note kept2 = sends_keeps [OF two(2)]
  have "serve_loop sample_handler (\<lambda>_. tana_moment) 1 ?s1 = serve_loop sample_handler (\<lambda>_. tana_moment) 2 ?s2"
    using loop_turn [of "\<lambda>_. tana_moment" 1 p1 "(''C2S_EnterWorld'', ask_slot_1)" p2 ?s1 "[]" sample_handler]
      run p(2) conn1 r2 two(1) by (simp add: tana_carried numeral_2_eq_2)
  moreover have "serve_loop sample_handler (\<lambda>_. tana_moment) 2 ?s2 = (RecvFailed ErrEOF, ?s2)"
    using kept2 conn1(3) run by (subst loop_end) (simp_all add: heard_def)
  ultimately have "tana_visit = (RecvFailed ErrEOF, hang_up ?s2)"
    using loop1 by (simp add: tana_visit_def Serve_def)
  then show ?thesis by (auto simp: hang_up_cmds session_updates)
qed

section \<open>What the client hears\<close>

lemma enter_names:
  "reply_names h s ''C2S_EnterWorld'' vs \<in> {[''S2C_EnterWorld''], [''S2C_EnterWorld'', ''S2C_EnterWorldComplete'']}"
  by (cases "fst (listing h s)") (simp_all add: reply_names_def)

lemma conversation_witness:
  "\<exists>rs s0. talks sample_handler (\<lambda>_. tana_moment) 0 (new_session 7 tana_server archer_db (replicate 8 1))
       tana_requests rs (RecvFailed ErrEOF) s0 \<and>
     map (map fst) rs \<in> {[[''S2C_SessionAuthLogin''], [''S2C_EnterWorld'']],
       [[''S2C_SessionAuthLogin''], [''S2C_EnterWorld'', ''S2C_EnterWorldComplete'']]}"
proof -
  obtain s p2 where v: "Serve sample_handler (\<lambda>_. tana_moment) 7 tana_server archer_db (replicate 8 1) = (RecvFailed ErrEOF, s)"
    and p2: "sends tana_client tana_requests = (Inr (), p2)"
    using tana_visits tana_sends unfolding tana_visit_def by metis
  let ?heard = "heard (cn_s2c tana_server) (sk_tx (cn_raw (s_conn s)))"
  have sent: "sends (?heard tana_client) tana_requests = (Inr (), ?heard p2)" using p2 by (simp add: sends_heard)
  have fit: "list_all fits tana_requests" by (simp add: tana_requests_def tana_carried)
  obtain rs s0 where t: "talks sample_handler (\<lambda>_. tana_moment) 0 (new_session 7 tana_server archer_db (replicate 8 1))
      tana_requests rs (RecvFailed ErrEOF) s0" "length rs = length tana_requests"
    using conversation [OF v sent fit] p2 by (simp add: heard_def tana_server_def tana_client_def sample_conn_def) blast
  from t(2) obtain r1 r2 where rs: "rs = [r1, r2]" by (auto simp: tana_requests_def length_Suc_conv)
  have "map fst r1 = [''S2C_SessionAuthLogin'']" "\<exists>h s vs. map fst r2 = reply_names (h :: db handler) s ''C2S_EnterWorld'' vs"
    using t(1) unfolding rs tana_requests_def
    by (elim talks_answeredE; simp add: reply_names_simps; blast)+
  moreover from this obtain h :: "db handler" and s1 vs where "map fst r2 = reply_names h s1 ''C2S_EnterWorld'' vs" by blast
  ultimately have "map (map fst) rs \<in> {[[''S2C_SessionAuthLogin''], [''S2C_EnterWorld'']],
       [[''S2C_SessionAuthLogin''], [''S2C_EnterWorld'', ''S2C_EnterWorldComplete'']]}"
    using enter_names [of h s1 vs] by (simp add: rs)
  then show ?thesis using t(1) by - (rule exI [of _ rs], rule exI [of _ s0], rule conjI)
qed

end
