(* ===== verification/Population.thy ===== *)
theory Population
  imports Visit
begin

text \<open>
  The connections and the world together: every connection hands its commands to the world, those
  of different connections meet in the channel in any order, and the goroutine of the world
  executes them. What is in the players' table when all connections have ended?
\<close>

section \<open>Interleavings\<close>

text \<open>The orders in which the commands of several connections can be accepted: each keeps its own order.\<close>

primrec interleavings :: "'a list list \<Rightarrow> 'a list set" where
  "interleavings [] = {[]}"
| "interleavings (xs # xss) = (\<Union>zs\<in>interleavings xss. shuffles xs zs)"

lemma interleavings_filter: "zs \<in> interleavings xss \<Longrightarrow> filter P zs \<in> interleavings (map (filter P) xss)"
proof (induction xss arbitrary: zs)
  case (Cons xs xss)
  then obtain ys where ys: "ys \<in> interleavings xss" "zs \<in> shuffles xs ys" by auto
  then have "filter P zs \<in> shuffles (filter P xs) (filter P ys)" unfolding filter_shuffles [symmetric] by blast
  with Cons.IH [OF ys(1)] show ?case by auto
qed simp

lemma interleavings_set: "zs \<in> interleavings xss \<Longrightarrow> set zs = (\<Union>xs\<in>set xss. set xs)"
  by (induction xss arbitrary: zs) (auto dest: set_shuffles)

text \<open>Where only one of the lists has anything, it is the interleaving.\<close>

lemma interleavings_single:
  assumes "zs \<in> interleavings xss" "i < length xss" "\<And>j. j < length xss \<Longrightarrow> j \<noteq> i \<Longrightarrow> xss ! j = []"
  shows "zs = xss ! i"
  using assms
proof (induction xss arbitrary: zs i)
  case (Cons xs xss)
  then obtain ys where ys: "ys \<in> interleavings xss" "zs \<in> shuffles xs ys" by auto
  show ?case
  proof (cases i)
    case 0
    have "xss ! j = []" if "j < length xss" for j using Cons.prems(3) [of "Suc j"] that 0 by simp
    then have "\<forall>x\<in>set xss. x = []" by (auto simp: in_set_conv_nth)
    then have "set ys = {}" using interleavings_set [OF ys(1)] by auto
    then show ?thesis using ys(2) 0 by simp
  next
    case (Suc n)
    have "xs = []" using Cons.prems(3) [of 0] Suc by simp
    moreover have "ys = xss ! n"
      using Cons.IH [OF ys(1), of n] Cons.prems(2,3) Suc by (metis Suc_inject Suc_less_eq length_Cons nth_Cons_Suc)
    ultimately show ?thesis using ys(2) Suc by simp
  qed
qed simp

lemma interleavings_own:
  assumes "zs \<in> interleavings xss" "i < length xss"
    and "\<And>j. j < length xss \<Longrightarrow> j \<noteq> i \<Longrightarrow> filter P (xss ! j) = []"
  shows "filter P zs = filter P (xss ! i)"
  using interleavings_single [OF interleavings_filter [OF assms(1), of P], of i] assms(2,3) by simp

section \<open>Who is left\<close>

text \<open>A session that a connection ended with, and the characters it entered the world with.\<close>

definition ended :: "'db session \<Rightarrow> bool" where
  "ended s \<longleftrightarrow> (\<exists>h ctx i c db rng e. Serve h ctx i c db rng = (e, s))"

definition entered_as :: "'db session \<Rightarrow> i64 set" where
  "entered_as s = target ` set (s_cmds s)"

lemma ended_cmds:
  assumes "ended s"
  obtains ps where "s_cmds s = map Join ps @ (if ps = [] then [] else [Leave (CharacterID (last ps))])"
  using assms served_cmds by (metis ended_def snd_conv)

lemma ended_present:
  assumes "ended s"
  shows "fold exec (s_cmds s) Map.empty k \<noteq> None \<longleftrightarrow> k \<in> entered_as s \<and> Leave k \<notin> set (s_cmds s)"
proof -
  obtain ps where ps: "s_cmds s = map Join ps @ (if ps = [] then [] else [Leave (CharacterID (last ps))])"
    using assms by (rule ended_cmds)
  from joins_left [of ps, folded ps] have "fold exec (s_cmds s) Map.empty k \<noteq> None \<longleftrightarrow>
      k \<in> CharacterID ` set ps - (if ps = [] then {} else {CharacterID (last ps)})" by blast
  also have "\<dots> \<longleftrightarrow> k \<in> entered_as s \<and> Leave k \<notin> set (s_cmds s)"
    by (auto simp: ps entered_as_def image_image)
  finally show ?thesis .
qed

lemma left_behind:
  assumes "list_all ended ss" "world_run (New t) es w" "all_sent es \<in> interleavings (map s_cmds ss)" "w_cmds w = []"
    and "\<forall>i<length ss. \<forall>j<length ss. i \<noteq> j \<longrightarrow> entered_as (ss ! i) \<inter> entered_as (ss ! j) = {}"
  shows "{k. w_players w k \<noteq> None} = (\<Union>s\<in>set ss. {k \<in> entered_as s. Leave k \<notin> set (s_cmds s)})"
proof -
  note run = run_invariant [OF assms(2)]
  have ran: "all_ran es = all_sent es" and w: "w_players w = fold exec (all_sent es) Map.empty"
    using run assms(4) by (simp_all add: New_def)
  have own: "w_players w k = fold exec (s_cmds (ss ! i)) Map.empty k" if "i < length ss" "k \<in> entered_as (ss ! i)" for i k
  proof -
    have "filter (\<lambda>c. target c = k) (s_cmds (ss ! j)) = []" if "j < length ss" "j \<noteq> i" for j
    proof -
      have "entered_as (ss ! j) \<inter> entered_as (ss ! i) = {}" using assms(5) \<open>i < length ss\<close> that by blast
      then have "k \<notin> entered_as (ss ! j)" using \<open>k \<in> entered_as (ss ! i)\<close> by blast
      then show ?thesis by (auto simp: filter_empty_conv entered_as_def)
    qed
    then have "filter (\<lambda>c. target c = k) (all_sent es) = filter (\<lambda>c. target c = k) (s_cmds (ss ! i))"
      using interleavings_own [OF assms(3), of i "\<lambda>c. target c = k"] that(1) by simp
    then show ?thesis
      unfolding w players.fold_own [of "all_sent es"] players.fold_own [of "s_cmds (ss ! i)"] by simp
  qed
  have absent: "w_players w k = None" if "k \<notin> (\<Union>s\<in>set ss. entered_as s)" for k
  proof -
    have "target c \<noteq> k" if "c \<in> set (all_sent es)" for c
      using that interleavings_set [OF assms(3)] \<open>k \<notin> _\<close> by (auto simp: entered_as_def)
    then show ?thesis unfolding w by (subst players.fold_untouched) auto
  qed
  show ?thesis
  proof (intro set_eqI)
    fix k
    show "k \<in> {k. w_players w k \<noteq> None} \<longleftrightarrow> k \<in> (\<Union>s\<in>set ss. {k \<in> entered_as s. Leave k \<notin> set (s_cmds s)})"
    proof (cases "\<exists>i<length ss. k \<in> entered_as (ss ! i)")
      case False
      then have "\<forall>s\<in>set ss. k \<notin> entered_as s" by (metis in_set_conv_nth)
      then show ?thesis using absent [of k] by auto
    next
      case True
      then obtain i where i: "i < length ss" "k \<in> entered_as (ss ! i)" by blast
      have "ended (ss ! i)" using assms(1) i(1) by (simp add: list_all_length)
      from ended_present [OF this, of k] own [OF i] have "w_players w k \<noteq> None \<longleftrightarrow> Leave k \<notin> set (s_cmds (ss ! i))"
        using i(2) by simp
      moreover have "s = ss ! i" if s: "s \<in> set ss" "k \<in> entered_as s" for s
      proof -
        obtain j where j: "j < length ss" "s = ss ! j" using s(1) by (metis in_set_conv_nth)
        have "j = i" using assms(5) i j s(2) by blast
        then show ?thesis using j(2) by simp
      qed
      ultimately have "w_players w k \<noteq> None \<longleftrightarrow> (\<exists>s\<in>set ss. k \<in> entered_as s \<and> Leave k \<notin> set (s_cmds s))"
        using i nth_mem [OF i(1)] by blast
      then show ?thesis by blast
    qed
  qed
qed

lemma single_entry:
  assumes "ended s" "length (s_cmds s) \<le> 2"
  shows "{k \<in> entered_as s. Leave k \<notin> set (s_cmds s)} = {}"
proof -
  obtain ps where ps: "s_cmds s = map Join ps @ (if ps = [] then [] else [Leave (CharacterID (last ps))])"
    using assms(1) by (rule ended_cmds)
  then have "length ps \<le> 1" using assms(2) by (auto split: if_splits)
  then show ?thesis by (cases ps) (auto simp: ps entered_as_def)
qed

section \<open>Properties\<close>

text \<open>C11. After all connections have ended: let their commands reach the world in any order that keeps each
  connection's own, let the world have executed all of them, and let no two connections have
  entered with the same character. Then the characters still in the world are exactly those a
  connection entered with and left behind by entering with another one; if every connection
  entered at most once the world is empty.\<close>
theorem who_stays:
  assumes "list_all ended ss" "world_run (New t) es w" "all_sent es \<in> interleavings (map s_cmds ss)" "w_cmds w = []"
    and "\<forall>i<length ss. \<forall>j<length ss. i \<noteq> j \<longrightarrow> entered_as (ss ! i) \<inter> entered_as (ss ! j) = {}"
  shows "{k. w_players w k \<noteq> None} = (\<Union>s\<in>set ss. {k \<in> entered_as s. Leave k \<notin> set (s_cmds s)}) \<and>
    (list_all (\<lambda>s. length (s_cmds s) \<le> 2) ss \<longrightarrow> w_players w = Map.empty)"
proof -
  note left = left_behind [OF assms]
  moreover have "{k. w_players w k \<noteq> None} = {}" if "list_all (\<lambda>s. length (s_cmds s) \<le> 2) ss"
    unfolding left using single_entry assms(1) that by (auto simp: list_all_iff)
  ultimately show ?thesis by fastforce
qed

lemma who_stays_witness:
  "\<exists>p w. s_cmds (snd tana_visit) = [Join p, Leave 1] \<and>
     world_run (New 50) [Sent (Join p), Sent (Leave 1), Ran (Join p), Ran (Leave 1)] w \<and> w_players w = Map.empty"
proof -
  obtain s p where v: "tana_visit = (RecvFailed ErrEOF, s)" "s_cmds s = [Join p, Leave 1]" "CharacterID p = 1"
    using tana_visits by blast
  let ?w = "New 50\<lparr>w_players := (Map.empty(1 \<mapsto> p))(1 := None)\<rparr>"
  have "world_run (New 50) [Sent (Join p)] (New 50\<lparr>w_cmds := [Join p]\<rparr>)"
    using run_snoc [OF run_nil do_send [of "New 50" "Join p"]] by (simp add: New_def chan_cap_def)
  then have "world_run (New 50) [Sent (Join p), Sent (Leave 1)] (New 50\<lparr>w_cmds := [Join p, Leave 1]\<rparr>)"
    using run_snoc do_send [of "New 50\<lparr>w_cmds := [Join p]\<rparr>" "Leave 1"] by (fastforce simp: New_def chan_cap_def)
  then have "world_run (New 50) [Sent (Join p), Sent (Leave 1), Ran (Join p)] (New 50\<lparr>w_cmds := [Leave 1], w_players := [1 \<mapsto> p]\<rparr>)"
    using run_snoc run_cmd [of "New 50\<lparr>w_cmds := [Join p, Leave 1]\<rparr>" "Join p" "[Leave 1]"] v(3)
    by (fastforce simp: New_def)
  then have run: "world_run (New 50) [Sent (Join p), Sent (Leave 1), Ran (Join p), Ran (Leave 1)] ?w"
    using run_snoc run_cmd [of "New 50\<lparr>w_cmds := [Leave 1], w_players := [1 \<mapsto> p]\<rparr>" "Leave 1" "[]"]
    by (fastforce simp: New_def)
  have "ended s" using v(1) unfolding ended_def tana_visit_def by blast
  then have "list_all ended [s]" by simp
  moreover have "all_sent [Sent (Join p), Sent (Leave 1), Ran (Join p), Ran (Leave 1)] \<in> interleavings (map s_cmds [s])"
    by (simp add: all_sent_def v(2))
  ultimately have "list_all (\<lambda>s. length (s_cmds s) \<le> 2) [s] \<longrightarrow> w_players ?w = Map.empty"
    using who_stays [OF _ run, of "[s]"] by (simp add: New_def)
  then have "w_players ?w = Map.empty" by (simp add: v(2))
  moreover have "s_cmds (snd tana_visit) = [Join p, Leave 1]" unfolding v(1) snd_conv by (rule v(2))
  ultimately show ?thesis using run by blast
qed

end
