(* ===== verification/Server.thy ===== *)
theory Server
  imports GameLobby Config
begin

text \<open>
  The server of \<open>cmd/server/main.go\<close>: start-up from the configuration, the accept loop, and
  \<open>serveConn\<close>, the handshake and the handler for one accepted socket. Every connection runs in a
  goroutine of its own against one database, so the store a connection sees is one on which the
  others act between its calls; what holds then holds for any interleaving.
\<close>

section \<open>The store among other connections\<close>

text \<open>The calls of the store the handlers make, and their effect on the database.\<close>

datatype store_op =
    UpsertOp i64 string
  | OptionsOp i64 u32
  | ListOp i64
  | CreateOp character

fun run_op :: "store_op \<Rightarrow> db \<Rightarrow> db" where
  "run_op (UpsertOp a code) db = snd (UpsertAccount db a code)"
| "run_op (OptionsOp a opts) db = snd (SaveOptions db a opts)"
| "run_op (ListOp a) db = snd (ListCharacters db a)"
| "run_op (CreateOp c) db = snd (CreateCharacter db c)"

text \<open>
  The database as one connection finds it: \<open>sh_pending\<close> holds, for each call it is going to make,
  the calls other connections get in before it, and \<open>sh_calls\<close> collects its own.
\<close>

record shared =
  sh_db :: db
  sh_pending :: "store_op list list"
  sh_calls :: "store_op list"

definition others_first :: "shared \<Rightarrow> db" where
  "others_first sh = (case sh_pending sh of [] \<Rightarrow> sh_db sh | ops # _ \<Rightarrow> fold run_op ops (sh_db sh))"

definition among :: "store_op \<Rightarrow> (db \<Rightarrow> 'r \<times> db) \<Rightarrow> shared \<Rightarrow> 'r \<times> shared" where
  "among op f sh =
     (case f (others_first sh) of
        (r, db) \<Rightarrow> (r, \<lparr>sh_db = db, sh_pending = drop 1 (sh_pending sh), sh_calls = sh_calls sh @ [op]\<rparr>))"

definition shared_store :: "shared store_ops" where
  "shared_store =
     \<lparr>op_UpsertAccount = \<lambda>sh a code. among (UpsertOp a code) (\<lambda>db. UpsertAccount db a code) sh,
      op_SaveOptions = \<lambda>sh a opts. among (OptionsOp a opts) (\<lambda>db. SaveOptions db a opts) sh,
      op_ListCharacters = \<lambda>sh a. among (ListOp a) (\<lambda>db. ListCharacters db a) sh,
      op_CreateCharacter = \<lambda>sh c. among (CreateOp c) (\<lambda>db. CreateCharacter db c) sh\<rparr>"

text \<open>What a connection may do to the database: a character it creates is active and in a lobby slot.\<close>

fun lobby_op :: "store_op \<Rightarrow> bool" where
  "lobby_op (CreateOp c) \<longleftrightarrow> DeletedTime c = 0 \<and> 0 \<le> sint (SlotIndex c) \<and> sint (SlotIndex c) < maxCharacterSlots"
| "lobby_op _ \<longleftrightarrow> True"

lemma lobby_slots_below: "lobby_slots db \<longleftrightarrow> wf_db db \<and> (\<forall>a. pg.slots_below maxCharacterSlots db a)"
  by (auto simp: lobby_slots_def pg.slots_below_def set_selected list_all_iff)

lemma lobby_slots_same: "lobby_slots db \<Longrightarrow> wf_db db' \<and> selected db' = selected db \<Longrightarrow> lobby_slots db'"
  by (simp add: lobby_slots_below pg.slots_below_def)

lemma lobby_slots_run_op:
  assumes "lobby_slots db" "lobby_op op"
  shows "lobby_slots (run_op op db)"
proof (cases op)
  case (UpsertOp a code)
  obtain r db' where u: "UpsertAccount db a code = (r, db')" by fastforce
  show ?thesis using lobby_slots_same [OF assms(1)] pg.upsert [OF _ u] assms(1) by (simp add: UpsertOp u lobby_slots_def)
next
  case (OptionsOp a opts)
  obtain r db' where u: "SaveOptions db a opts = (r, db')" by fastforce
  show ?thesis using lobby_slots_same [OF assms(1)] pg.save [OF _ u] assms(1) by (simp add: OptionsOp u lobby_slots_def)
next
  case (ListOp a)
  obtain r db' where u: "ListCharacters db a = (r, db')" by fastforce
  show ?thesis using lobby_slots_same [OF assms(1)] pg.list [OF _ u] assms(1) by (simp add: ListOp u lobby_slots_def)
next
  case (CreateOp c)
  obtain r db' where u: "CreateCharacter db c = (r, db')" by fastforce
  show ?thesis using pg.create_keeps_below [OF _ _ u, of maxCharacterSlots] assms by (simp add: CreateOp u lobby_slots_below)
qed

lemma lobby_slots_run_ops: "lobby_slots db \<Longrightarrow> list_all lobby_op ops \<Longrightarrow> lobby_slots (fold run_op ops db)"
  by (induction ops arbitrary: db) (simp_all add: lobby_slots_run_op)

text \<open>The invariant of a connection: the database as it leaves it, and what it and the others do.\<close>

definition sound :: "shared \<Rightarrow> bool" where
  "sound sh \<longleftrightarrow> lobby_slots (sh_db sh) \<and> list_all (list_all lobby_op) (sh_pending sh) \<and> list_all lobby_op (sh_calls sh)"

lemma sound_among:
  assumes "sound sh" "lobby_op op" "\<And>db. snd (f db) = run_op op db" "among op f sh = (r, sh')"
  shows "sound sh'"
proof -
  have "lobby_slots (others_first sh)"
    using assms(1) lobby_slots_run_ops by (cases "sh_pending sh") (simp_all add: sound_def others_first_def)
  then have "lobby_slots (snd (f (others_first sh)))" using assms(2,3) by (simp add: lobby_slots_run_op)
  moreover have "sh' = \<lparr>sh_db = snd (f (others_first sh)), sh_pending = drop 1 (sh_pending sh), sh_calls = sh_calls sh @ [op]\<rparr>"
    using assms(4) by (auto simp: among_def split: prod.splits)
  ultimately show ?thesis
    using assms(1,2) by (cases "sh_pending sh") (simp_all add: sound_def)
qed

lemma shared_ops [simp]:
  "op_UpsertAccount shared_store sh a code = among (UpsertOp a code) (\<lambda>db. UpsertAccount db a code) sh"
  "op_SaveOptions shared_store sh a opts = among (OptionsOp a opts) (\<lambda>db. SaveOptions db a opts) sh"
  "op_ListCharacters shared_store sh a = among (ListOp a) (\<lambda>db. ListCharacters db a) sh"
  "op_CreateCharacter shared_store sh c = among (CreateOp c) (\<lambda>db. CreateCharacter db c) sh"
  by (simp_all add: shared_store_def)

interpretation interleaved: served_invariant "h\<lparr>h_Store := shared_store\<rparr>" "\<lambda>_. True" "\<lambda>s. sound (s_db s)" for h
proof unfold_locales
  show "sound (s_db (s\<lparr>s_db := db\<rparr>))"
    if "sound (s_db s)" "freeSlot cs = Some slot"
      "op_CreateCharacter (h_Store (h\<lparr>h_Store := shared_store\<rparr>)) (s_db s) (new_character (s_accountID s) slot name cl ht) = (rc, db)"
    for s :: "shared session" and cs slot name cl ht rc db
    using that freeSlot_bounds [of cs slot] by (auto elim!: sound_among)
  show "sound (s_db (entered (h\<lparr>h_Store := shared_store\<rparr>) c token rng (s\<lparr>s_db := db\<rparr>)))"
    if "sound (s_db s)" "op_ListCharacters (h_Store (h\<lparr>h_Store := shared_store\<rparr>)) (s_db s) (s_accountID s) = (Inr cs, db)"
    for s :: "shared session" and cs db c token rng
  proof -
    have "sound db" using that by (auto elim!: sound_among)
    then show ?thesis by (simp add: session_updates)
  qed
qed (auto elim!: sound_among)

section \<open>One accepted socket\<close>

text \<open>
  \<open>serveConn\<close>: what is left of the socket and the store, and the commands handed to the world. A
  socket whose handshake failed is closed here, that of a served connection by \<open>Serve\<close>.
\<close>

definition serveConn ::
    "'db handler \<Rightarrow> (nat \<Rightarrow> moment) \<Rightarrow> nat \<Rightarrow> socket \<Rightarrow> 'db \<Rightarrow> rng \<Rightarrow> socket \<times> 'db \<times> cmd list" where
  "serveConn h ctx i raw db rng =
     (case Handshake raw rng of
        (Inl e, raw1) \<Rightarrow> (raw1\<lparr>sk_closed := True\<rparr>, db, [])
      | (Inr (conn, rng1), raw1) \<Rightarrow>
          (case Serve h ctx i conn db rng1 of (e, s) \<Rightarrow> (cn_raw (s_conn s), s_db s, s_cmds s)))"

lemma Serve_sound:
  assumes "sound sh" "h_Store h = shared_store"
  shows "sound (s_db (snd (Serve h ctx i c sh rng)))"
proof -
  have "h\<lparr>h_Store := shared_store\<rparr> = h" using assms(2) by (cases h) simp
  then have "sound (s_db (snd (serve_loop h ctx 0 (new_session i c sh rng))))"
    using interleaved.loop_keeps [where h = h and ctx = ctx and s = "new_session i c sh rng" and k = 0] assms(1) by simp
  then show ?thesis by (simp add: Serve_eq)
qed

text \<open>C5. Connections do not spoil each other's characters: while others make any calls of the kind the
  handlers make, between any two calls of this one, a connection leaves every active character in
  the slots 0 to 2 and no account with more than three, and its own calls are of that kind too, so
  the same holds for all of them together. Its socket is closed in every case, also when the
  handshake fails.\<close>
theorem connections_interleave:
  assumes "lobby_slots db" "list_all (list_all lobby_op) others" "h_Store h = shared_store"
    and "serveConn h ctx i raw \<lparr>sh_db = db, sh_pending = others, sh_calls = []\<rparr> rng = (raw', sh, cmds)"
  shows "lobby_slots (sh_db sh) \<and> length (selected (sh_db sh) a) \<le> 3 \<and> list_all lobby_op (sh_calls sh) \<and>
    sk_closed raw'"
proof -
  have s: "sound \<lparr>sh_db = db, sh_pending = others, sh_calls = []\<rparr>" using assms(1,2) by (simp add: sound_def)
  have "sound sh \<and> sk_closed raw'"
    using assms(4) Serve_sound [OF s assms(3)] s
    by (auto simp: serveConn_def Serve_eq split_beta split: prod.splits sum.splits)
  moreover from this have "length (selected (sh_db sh) a) \<le> 3"
    using pg.count_below [of "sh_db sh" maxCharacterSlots a]
    by (simp add: sound_def lobby_slots_below) (simp add: maxCharacterSlots_def)
  ultimately show ?thesis by (simp add: sound_def)
qed

definition shared_handler :: "shared handler" where
  "shared_handler =
     \<lparr>h_Auth = NewClient ''http://127.0.0.1:8002'' False, h_Store = shared_store, h_ProtocolVer = 0, h_WorldID = 1\<rparr>"

lemma connections_interleave_witness:
  "case serveConn shared_handler (\<lambda>_. sample_moment) 7 (cn_raw sample_conn)
      \<lparr>sh_db = archer_db, sh_pending = [[UpsertOp 5 ''kel'', CreateOp (archer\<lparr>AccountID := 5\<rparr>)]], sh_calls = []\<rparr> (replicate 48 1) of
     (raw', sh, cmds) \<Rightarrow> lobby_slots (sh_db sh) \<and> length (selected (sh_db sh) 3) \<le> 3 \<and> sk_closed raw'"
proof -
  let ?o = "[[UpsertOp 5 ''kel'', CreateOp (archer\<lparr>AccountID := 5\<rparr>)]]"
  have o: "list_all (list_all lobby_op) ?o" by (simp add: archer_def no_character_def maxCharacterSlots_def)
  have h: "h_Store shared_handler = shared_store" by (simp add: shared_handler_def)
  show ?thesis using connections_interleave [OF lobby_slots_archer o h] by (simp split: prod.split)
qed

section \<open>Start-up and the accept loop\<close>

text \<open>
  What \<open>Accept\<close> returns: a socket, or an error, with the state of the context then. The loop goes on
  after an error unless the context is cancelled. The result is the sockets handed to \<open>serveConn\<close>,
  and whether the loop was left.
\<close>

datatype accept = Accepted socket | AcceptFailed bool

fun accept_loop :: "accept list \<Rightarrow> socket list \<times> bool" where
  "accept_loop [] = ([], False)"
| "accept_loop (Accepted raw # as) = (case accept_loop as of (raws, left_loop) \<Rightarrow> (raw # raws, left_loop))"
| "accept_loop (AcceptFailed cancelled # as) = (if cancelled then ([], True) else accept_loop as)"

text \<open>
  \<open>run\<close>, with the pools open at its end. The operations of the store and the listener are
  parameters. The goroutine of the world starts a ticker of the configured period, and
  \<open>time.NewTicker\<close> panics unless it is positive, which ends the process without deferred calls of
  this goroutine. When that goroutine gets to run is up to the scheduler: \<open>early\<close> says that \<open>run\<close>
  gets past \<open>net.Listen\<close> before it, so that an error of \<open>Listen\<close> is returned first; a server that
  waits in \<open>Accept\<close> is overtaken by the panic in any case. \<open>run\<close> sets no protocol version.
\<close>

datatype 'db launch =
    ConfigFailed cfgerr
  | DatabaseFailed open_error
  | TickerPanics
  | ListenFailed
  | Serving "'db handler" world "socket list" bool

definition run ::
    "dotenv \<Rightarrow> environment \<Rightarrow> pgx \<Rightarrow> 'db store_ops \<Rightarrow> (string \<Rightarrow> bool) \<Rightarrow> bool \<Rightarrow> accept list \<Rightarrow>
      'db launch \<times> string list" where
  "run dotenv E px st listen early as =
     (case Load dotenv E of
        Inl e \<Rightarrow> (ConfigFailed e, [])
      | Inr cfg \<Rightarrow>
          (case New_store px (cfg_DatabaseURL cfg) [] of
             (Inl e, pools) \<Rightarrow> (DatabaseFailed e, pools)
           | (Inr pool, pools) \<Rightarrow>
               let authClient = NewClient (cfg_RegionInternalURL cfg) (cfg_ConsumeSession cfg);
                   gameWorld = New (cfg_TickInterval cfg);
                   h = \<lparr>h_Auth = authClient, h_Store = st, h_ProtocolVer = 0, h_WorldID = cfg_WorldID cfg\<rparr> in
               if sint (w_tick gameWorld) \<le> 0 \<and> \<not> early then (TickerPanics, pools)
               else if \<not> listen (cfg_GameListenAddr cfg) then (ListenFailed, Close_store pool pools)
               else if sint (w_tick gameWorld) \<le> 0 then (TickerPanics, pools)
               else
                 (case accept_loop as of
                    (raws, left_loop) \<Rightarrow>
                      (Serving h gameWorld raws left_loop, if left_loop then Close_store pool pools else pools))))"

text \<open>
  \<open>main\<close>: the exit status of the process, if it has ended. An error of \<open>run\<close> is 1, a panic is 2, and
  a loop that was left is a regular end once the connections are drained.
\<close>

definition main_status :: "'db launch \<Rightarrow> nat option" where
  "main_status l =
     (case l of
        ConfigFailed e \<Rightarrow> Some 1
      | DatabaseFailed e \<Rightarrow> Some 1
      | ListenFailed \<Rightarrow> Some 1
      | TickerPanics \<Rightarrow> Some 2
      | Serving h w raws left_loop \<Rightarrow> if left_loop then Some 0 else None)"

lemma accept_loop_eq:
  "accept_loop as = ([raw. Accepted raw \<leftarrow> takeWhile (\<lambda>a. a \<noteq> AcceptFailed True) as], AcceptFailed True \<in> set as)"
  by (induction as rule: accept_loop.induct) auto

lemma any_version:
  "h_ProtocolVer h = 0 \<Longrightarrow> fst (dispatch h m s ''C2S_VersionCheck'' values) \<noteq> Inl (VersionDiffers v)"
  by (simp add: dispatch_def handleVersionCheck_def send_reply_def Let_def split_beta split: sum.split)

text \<open>C38. How the server starts and what it then does: it serves the sockets accepted before the first
  failure of \<open>Accept\<close> under a cancelled context, and leaves the loop exactly at that failure; its
  world ticks with the period of the configured rate, which is positive and at most a second, and
  it hosts the configured world. It panics exactly when the configuration loads, the database can
  be opened and reached, and the rate is above a thousand million, which leaves no period at all;
  only an error of \<open>Listen\<close> that is returned before the world's goroutine gets to run comes first. A
  failure to start has its cause. A server that runs accepts every protocol version a client
  reports. Whenever \<open>run\<close> returns, the database pool is closed again.\<close>
theorem startup:
  "case run dotenv E px st listen early as of (l, pools) \<Rightarrow>
     (pools = []) = (l \<noteq> TickerPanics \<and> main_status l \<noteq> None) \<and>
     (l = TickerPanics) =
       (\<exists>cfg hz. Load dotenv E = Inr cfg \<and> px_open px (cfg_DatabaseURL cfg) \<and> px_ping px (cfg_DatabaseURL cfg) \<and>
          envInt (snd (dotenv E)) ''ROM_TICK_HZ'' 20 = Inr hz \<and> second < hz \<and>
          \<not> (early \<and> \<not> listen (cfg_GameListenAddr cfg))) \<and>
     (case l of
        Serving h w raws left_loop \<Rightarrow>
          (\<exists>hz. envInt (snd (dotenv E)) ''ROM_TICK_HZ'' 20 = Inr hz \<and> 0 < hz \<and> hz \<le> second \<and>
             sint (w_tick w) = second div hz) \<and>
          0 < sint (w_tick w) \<and> sint (w_tick w) \<le> second \<and> w_players w = Map.empty \<and>
          envInt (snd (dotenv E)) ''ROM_WORLD_ID'' 1 = Inr (sint (h_WorldID h)) \<and>
          raws = [raw. Accepted raw \<leftarrow> takeWhile (\<lambda>a. a \<noteq> AcceptFailed True) as] \<and>
          left_loop = (AcceptFailed True \<in> set as) \<and>
          (\<forall>m s values v. fst (dispatch h m s ''C2S_VersionCheck'' values) \<noteq> Inl (VersionDiffers v))
      | TickerPanics \<Rightarrow> main_status l = Some 2
      | ConfigFailed e \<Rightarrow> Load dotenv E = Inl e
      | DatabaseFailed e \<Rightarrow> \<exists>cfg. Load dotenv E = Inr cfg \<and>
          e = (if px_open px (cfg_DatabaseURL cfg) then PingFailed else OpenPoolFailed)
      | ListenFailed \<Rightarrow> \<exists>cfg. Load dotenv E = Inr cfg \<and> \<not> listen (cfg_GameListenAddr cfg))"
proof (cases "Load dotenv E")
  case (Inl e)
  then show ?thesis by (simp add: run_def main_status_def)
next
  case (Inr cfg)
  obtain hz world port where c: "envInt (snd (dotenv E)) ''ROM_TICK_HZ'' 20 = Inr hz" "0 < hz"
    "sint (cfg_TickInterval cfg) = second div hz" "sint (cfg_TickInterval cfg) \<le> second"
    "sint (cfg_TickInterval cfg) = 0 \<longleftrightarrow> second < hz"
    "envInt (snd (dotenv E)) ''ROM_WORLD_ID'' 1 = Inr world" "sint (cfg_WorldID cfg) = world"
    using Load_Inr [OF Inr] by metis
  have n: "0 \<le> sint (cfg_TickInterval cfg)" using c(2,3) by (simp add: second_def pos_imp_zdiv_nonneg_iff)
  have late: "sint (cfg_TickInterval cfg) \<le> 0 \<longleftrightarrow> second < hz" using n c(5) by linarith
  show ?thesis
  proof (cases "px_open px (cfg_DatabaseURL cfg) \<and> px_ping px (cfg_DatabaseURL cfg)")
    case True
    then show ?thesis
      using Inr c n late
      by (cases early; cases "listen (cfg_GameListenAddr cfg)"; cases "second < hz")
        (simp_all add: run_def Let_def New_def New_store_def Close_store_def main_status_def accept_loop_eq any_version)
  next
    case False
    then show ?thesis
      using Inr by (auto simp: run_def Let_def New_store_def Close_store_def main_status_def)
  qed
qed

end
