(* ===== verification/Gen.thy ===== *)
theory Gen
  imports Codec GoStrconv "HOL-Library.AList" "HOL-Library.Char_ord" "HOL-Library.List_Lexorder"
begin

text \<open>
  The catalog generator, \<open>cmd/gen/main.go\<close>: from the exported metadata to the tables of
  \<open>catalog_gen.go\<close>. The tables it writes are the catalog record the codec runs on, so what the
  generator guarantees and what the codec needs meet here. A Go map that is built up is an
  association list with one entry per key; its order is not used before the keys are sorted.
\<close>

section \<open>The metadata\<close>

record typed_message =
  tm_Name :: string
  tm_Dir :: string
  tm_ID :: i64
  tm_Fields :: "field list"

record dump_field =
  df_Name :: string
  df_Type :: string
  df_IsStatic :: bool

record dump_type =
  dt_Full :: string
  dt_Fields :: "dump_field list"

type_synonym layouts = "(string \<times> field list) list"
type_synonym bases = "string \<Rightarrow> string option"

text \<open>
  How the generator can end without its file: a missing flag, a file that cannot be read or parsed, a
  hierarchy of classes it walks forever, a slice out of range, source gofmt rejects, a file that
  cannot be written.
\<close>

datatype generr =
    MissingFlag
  | ReadFailed string
  | ParseFailed string
  | Diverges
  | SliceOutOfRange
  | GofmtFailed
  | OutputFailed string

definition extraBaseFields :: layouts where
  "extraBaseFields = [(''Network.IBSerializableList'', [Field ''__state__'' ''System.Byte''])]"

definition fixedArrays_table :: "(string \<times> nat) list" where
  "fixedArrays_table =
     [(''Protocol.ItemOptions|m_optionIndex'', 10),
      (''Protocol.AbilityValue|m_data'', 249),
      (''Protocol.S2C_ContentsSetting|m_levelLimits'', 10),
      (''Protocol.S2C_ContentsSetting|m_values'', 3),
      (''Protocol.S2C_EquipList|m_usePresetSlot'', 2),
      (''Protocol.S2C_EquipList|m_equipItemList'', 2),
      (''Protocol.S2C_EquipList|m_equipCostume'', 2),
      (''Protocol.S2C_EquipList|m_equipPet'', 2),
      (''Protocol.S2C_EquipList|m_monolithEquipItemList'', 2)]"

section \<open>Layouts\<close>

text \<open>The inner loop of \<open>loadOwn\<close>: static fields are skipped, a field without a type spoils the class.\<close>

fun own_fields :: "dump_field list \<Rightarrow> field list option" where
  "own_fields [] = Some []"
| "own_fields (f # fs) =
     (if df_Type f = [] then None
      else if df_IsStatic f then own_fields fs
      else map_option (\<lambda>rest. Field (df_Name f) (df_Type f) # rest) (own_fields fs))"

definition add_own :: "dump_type \<Rightarrow> layouts \<Rightarrow> layouts" where
  "add_own t own =
     (if dt_Fields t = [] then own
      else (case own_fields (dt_Fields t) of None \<Rightarrow> own | Some flds \<Rightarrow> AList.update (dt_Full t) flds own))"

definition loadOwn :: "dump_type list \<Rightarrow> layouts" where
  "loadOwn types = fold (\<lambda>(name, flds). AList.update name flds) extraBaseFields (fold add_own types [])"

definition layout_of :: "layouts \<Rightarrow> string \<Rightarrow> field list" where
  "layout_of own name = (case map_of own name of Some flds \<Rightarrow> flds | None \<Rightarrow> [])"

text \<open>The loop of \<open>chain\<close> has no other end than a class without a base: \<open>None\<close> is a loop for ever.\<close>

partial_function (option) chain :: "bases \<Rightarrow> string \<Rightarrow> string list option" where
  "chain bs cur =
     (case bs cur of
        None \<Rightarrow> Some (if cur \<noteq> [] then [cur] else [])
      | Some nxt \<Rightarrow> Option.bind (chain bs nxt) (\<lambda>rest. Some (cur # rest)))"

definition fieldsOf :: "string list \<Rightarrow> layouts \<Rightarrow> field list" where
  "fieldsOf classes own = concat (map (layout_of own) (rev classes))"

definition struct_layout :: "layouts \<Rightarrow> bases \<Rightarrow> string \<Rightarrow> field list option" where
  "struct_layout own bs name =
     map_option (\<lambda>ch. let layout = fieldsOf ch own in if layout = [] then layout_of own name else layout) (chain bs name)"

definition buildStructs :: "layouts \<Rightarrow> bases \<Rightarrow> layouts option" where
  "buildStructs own bs =
     those (map (\<lambda>(name, _). map_option (Pair name) (struct_layout own bs name)) own)"

definition messageFields :: "typed_message \<Rightarrow> bases \<Rightarrow> layouts \<Rightarrow> field list option" where
  "messageFields m bs own =
     map_option (\<lambda>ch. (if 1 < length ch then fieldsOf (tl ch) own else []) @ tm_Fields m) (chain bs (''Protocol.'' @ tm_Name m))"

section \<open>Reachable structs\<close>

text \<open>
  The type \<open>collectReachable\<close> looks up: one array suffix and one list prefix taken off. The prefix
  alone, without anything after it, makes the second slice run backwards.
\<close>

definition elem_base :: "string \<Rightarrow> string option" where
  "elem_base ftype =
     (let base = (if is_array_type ftype then array_elem ftype else ftype) in
      if take (length listPrefix) base = listPrefix then
        (if length base - 1 < length listPrefix then None else Some (list_elem base))
      else Some base)"

text \<open>
  The recursion over the layouts, with the types still to be visited on a stack: a layout's fields
  are visited before what was there already, as the recursive calls do.
\<close>

function collect :: "layouts \<Rightarrow> string list \<Rightarrow> string list \<Rightarrow> string list option" where
  "collect S [] R = Some R"
| "collect S (t # ts) R =
     (case elem_base t of
        None \<Rightarrow> None
      | Some base \<Rightarrow>
          if base \<in> set R then collect S ts R
          else (case map_of S base of
                  None \<Rightarrow> collect S ts R
                | Some layout \<Rightarrow> collect S (map fType layout @ ts) (base # R)))"
  by pat_completeness auto
termination
proof (relation "inv_image (measure (\<lambda>(S, R). card (fst ` set S - set R)) <*lex*> measure length) (\<lambda>(S, ts, R). ((S, R), ts))")
  fix S :: layouts and t ts R base layout
  assume "base \<notin> set R" "map_of S base = Some layout"
  then have "fst ` set S - set (base # R) \<subset> fst ` set S - set R"
    by (force dest: map_of_SomeD)
  then have "card (fst ` set S - set (base # R)) < card (fst ` set S - set R)"
    by (intro psubset_card_mono) simp_all
  then show "((S, map fType layout @ ts, base # R), S, t # ts, R) \<in>
      inv_image (measure (\<lambda>(S, R). card (fst ` set S - set R)) <*lex*> measure length) (\<lambda>(S, ts, R). ((S, R), ts))"
    by simp
qed auto

definition collectReachable :: "string \<Rightarrow> layouts \<Rightarrow> string list \<Rightarrow> string list option" where
  "collectReachable ftype S R = collect S [ftype] R"

text \<open>The stack is only a way to write it: types are collected one after the other.\<close>

lemma collect_append: "collect S (ts @ us) R = Option.bind (collect S ts R) (collect S us)"
  by (induction S ts R rule: collect.induct) (auto split: option.splits)

lemma collect_Cons: "collect S (t # ts) R = Option.bind (collectReachable t S R) (collect S ts)"
  using collect_append [of S "[t]" ts R] by (simp add: collectReachable_def)

lemma collectReachable_fun: "collectReachable t S = collect S [t]"
  by (rule ext) (simp only: collectReachable_def)

text \<open>This is the recursive equation of the code.\<close>

lemma collectReachable_rec:
  "collectReachable ftype S R =
     (case elem_base ftype of
        None \<Rightarrow> None
      | Some base \<Rightarrow>
          if base \<in> set R then Some R
          else (case map_of S base of
                  None \<Rightarrow> Some R
                | Some layout \<Rightarrow> foldl (\<lambda>acc f. Option.bind acc (collectReachable (fType f) S)) (Some (base # R)) layout))"
proof -
  have "collect S (map fType layout) R' = foldl (\<lambda>acc f. Option.bind acc (collectReachable (fType f) S)) (Some R') layout"
    for layout R'
  proof (induction layout rule: rev_induct)
    case (snoc f fs)
    then show ?case by (simp add: collect_append collectReachable_fun del: collect.simps)
  qed simp
  then show ?thesis by (simp add: collectReachable_def split: option.split)
qed

section \<open>The generator\<close>

text \<open>
  The loop of \<open>main\<close> over the messages, which resolves each and extends the set of reachable structs.
\<close>

fun resolve ::
    "bases \<Rightarrow> layouts \<Rightarrow> layouts \<Rightarrow> typed_message list \<Rightarrow> string list \<Rightarrow> generr + ((typed_message \<times> field list) list \<times> string list)" where
  "resolve bs own S [] R = Inr ([], R)"
| "resolve bs own S (m # ms) R =
     (case messageFields m bs own of
        None \<Rightarrow> Inl Diverges
      | Some full \<Rightarrow>
          (case collect S (map fType full) R of
             None \<Rightarrow> Inl SliceOutOfRange
           | Some R1 \<Rightarrow> rbind (resolve bs own S ms R1) (\<lambda>(out, R2). Inr ((m, full) # out, R2))))"

text \<open>
  What \<open>emit\<close> writes, as the values of the variables it declares: opcodes are cut to 32 bits, keys
  are sorted, and of the messages only reachable ones are listed under their full names.
\<close>

definition messageFull :: "typed_message list \<Rightarrow> string \<Rightarrow> bool" where
  "messageFull ms name \<longleftrightarrow> name \<in> (\<lambda>m. ''Protocol.'' @ tm_Name m) ` set ms"

definition opcode :: "typed_message \<Rightarrow> u32" where
  "opcode m = ucast (tm_ID m)"

definition tables :: "(typed_message \<times> field list) list \<Rightarrow> layouts \<Rightarrow> string list \<Rightarrow> typed_message list \<Rightarrow> catalog" where
  "tables out S R ms =
     \<lparr>messages = map (\<lambda>(m, full). (opcode m, \<lparr>msgName = tm_Name m, msgDir = tm_Dir m, msgID = opcode m, msgFields = full\<rparr>)) out,
      structs = map (\<lambda>name. (name, layout_of S name)) (sort R),
      fixedArrays = sort_key fst fixedArrays_table,
      messageFullNames = sort (filter (messageFull ms) R)\<rparr>"

definition generate :: "typed_message list \<Rightarrow> dump_type list \<Rightarrow> bases \<Rightarrow> generr + catalog" where
  "generate ms types bs =
     (let own = loadOwn types in
      case buildStructs own bs of
        None \<Rightarrow> Inl Diverges
      | Some S \<Rightarrow> rbind (resolve bs own S ms []) (\<lambda>(out, R). Inr (tables out S R ms)))"

section \<open>The text\<close>

text \<open>
  The source \<open>emit\<close> hands to gofmt. \<open>%q\<close> is \<open>strconv.Quote\<close>; which runes above ASCII it prints as they
  are is the table of \<open>unicode.IsPrint\<close>, a parameter. \<open>%08X\<close> is eight hexadecimal digits.
\<close>

definition hexdigit :: "bool \<Rightarrow> nat \<Rightarrow> char" where
  "hexdigit upper d = char_of (if d < 10 then 48 + d else (if upper then 55 else 87) + d)"

definition hex :: "bool \<Rightarrow> nat \<Rightarrow> nat \<Rightarrow> string" where
  "hex upper width n = map (\<lambda>i. hexdigit upper (n div 16 ^ i mod 16)) (rev [0..<width])"

definition X08 :: "u32 \<Rightarrow> string" where
  "X08 w = hex True 8 (unat w)"

definition tab :: string where "tab = [CHR 0x09]"
definition nl :: string where "nl = [CHR 0x0A]"
definition bs_char :: char where "bs_char = CHR 0x5C"

definition quote_rune :: "(rune \<Rightarrow> bool) \<Rightarrow> rune \<Rightarrow> string" where
  "quote_rune is_print r =
     (if r = 0x22 \<or> r = 0x5C then [bs_char, char_of r]
      else if 0x20 \<le> r \<and> r < 0x7F \<or> 0x80 \<le> r \<and> is_print r then encode_rune r
      else if r = 7 then bs_char # ''a'' else if r = 8 then bs_char # ''b'' else if r = 12 then bs_char # ''f''
      else if r = 10 then bs_char # ''n'' else if r = 13 then bs_char # ''r'' else if r = 9 then bs_char # ''t''
      else if r = 11 then bs_char # ''v''
      else if r < 0x20 \<or> r = 0x7F then bs_char # ''x'' @ hex False 2 r
      else if r < 0x10000 then bs_char # ''u'' @ hex False 4 r
      else bs_char # ''U'' @ hex False 8 r)"

function quote_body :: "(rune \<Rightarrow> bool) \<Rightarrow> string \<Rightarrow> string" where
  "quote_body is_print [] = []"
| "quote_body is_print (c # cs) =
     (let (r, width) = decode_rune (c # cs) in
      (if width = 1 \<and> r = rune_error then bs_char # ''x'' @ hex False 2 (of_char c) else quote_rune is_print r)
      @ quote_body is_print (drop (width - 1) cs))"
  by pat_completeness auto
termination
  by (relation "measure (\<lambda>(_, s). length s)") auto

definition Quote :: "(rune \<Rightarrow> bool) \<Rightarrow> string \<Rightarrow> string" where
  "Quote is_print s = CHR 0x22 # quote_body is_print s @ [CHR 0x22]"

definition emit_field :: "(rune \<Rightarrow> bool) \<Rightarrow> field \<Rightarrow> string" where
  "emit_field is_print f =
     tab @ tab @ ''{Name: '' @ Quote is_print (fName f) @ '', Type: '' @ Quote is_print (fType f) @ ''},'' @ nl"

definition emit_opcode :: "typed_message \<Rightarrow> string" where
  "emit_opcode m = tab @ ''Op'' @ tm_Name m @ '' uint32 = 0x'' @ X08 (opcode m) @ nl"

definition emit_message :: "(rune \<Rightarrow> bool) \<Rightarrow> u32 \<times> message \<Rightarrow> string" where
  "emit_message is_print km =
     (case km of (k, m) \<Rightarrow>
        tab @ ''0x'' @ X08 k @ '': {Name: '' @ Quote is_print (msgName m) @ '', Dir: '' @ Quote is_print (msgDir m) @
        '', ID: 0x'' @ X08 (msgID m) @ '', Fields: []Field{'' @ nl @
        concat (map (emit_field is_print) (msgFields m)) @ tab @ ''}},'' @ nl)"

definition emit_struct :: "(rune \<Rightarrow> bool) \<Rightarrow> string \<times> field list \<Rightarrow> string" where
  "emit_struct is_print nf =
     (case nf of (name, layout) \<Rightarrow>
        tab @ Quote is_print name @ '': {'' @ nl @ concat (map (emit_field is_print) layout) @ tab @ ''},'' @ nl)"

definition emit :: "(rune \<Rightarrow> bool) \<Rightarrow> typed_message list \<Rightarrow> catalog \<Rightarrow> string" where
  "emit is_print ms cat =
     ''// Code generated by cmd/gen; DO NOT EDIT.'' @ nl @ nl @
     ''package protocol'' @ nl @ nl @
     ''// Message opcodes (__ID__). These rotate on every client update.'' @ nl @
     ''const ('' @ nl @ concat (map emit_opcode ms) @ '')'' @ nl @ nl @
     ''var messages = map[uint32]*Message{'' @ nl @
     concat (map (emit_message is_print) (messages cat)) @ ''}'' @ nl @ nl @
     ''var structs = map[string][]Field{'' @ nl @
     concat (map (emit_struct is_print) (structs cat)) @ ''}'' @ nl @ nl @
     ''var fixedArrays = map[string]int{'' @ nl @
     concat (map (\<lambda>(k, n). tab @ Quote is_print k @ '': '' @ Itoa (int n) @ '','' @ nl) (fixedArrays cat)) @ ''}'' @ nl @ nl @
     ''var messageFullNames = map[string]bool{'' @ nl @
     concat (map (\<lambda>k. tab @ Quote is_print k @ '': true,'' @ nl) (messageFullNames cat)) @ ''}'' @ nl"

section \<open>The command\<close>

text \<open>
  What \<open>main\<close> works with: the files (\<open>os.ReadFile\<close>), \<open>encoding/json\<close> into the three types, gofmt,
  and which files can be written.
\<close>

record inputs =
  in_file :: "string \<Rightarrow> string option"
  in_typed :: "string \<Rightarrow> typed_message list option"
  in_dump :: "string \<Rightarrow> dump_type list option"
  in_bases :: "string \<Rightarrow> bases option"
  in_gofmt :: "string \<Rightarrow> string option"
  in_print :: "rune \<Rightarrow> bool"
  in_writable :: "string \<Rightarrow> bool"

definition readJSON :: "inputs \<Rightarrow> (string \<Rightarrow> 'v option) \<Rightarrow> string \<Rightarrow> generr + 'v" where
  "readJSON io unmarshal path =
     (case in_file io path of
        None \<Rightarrow> Inl (ReadFailed path)
      | Some data \<Rightarrow> (case unmarshal data of None \<Rightarrow> Inl (ParseFailed path) | Some v \<Rightarrow> Inr v))"

definition loadTyped :: "inputs \<Rightarrow> string \<Rightarrow> generr + typed_message list" where
  "loadTyped io path = readJSON io (in_typed io) path"

definition loadBases :: "inputs \<Rightarrow> string \<Rightarrow> generr + bases" where
  "loadBases io path = readJSON io (in_bases io) path"

text \<open>The flags, as name and value: the last setting of a flag counts.\<close>

definition flag_String :: "(string \<times> string) list \<Rightarrow> string \<Rightarrow> string \<Rightarrow> string" where
  "flag_String args name unset = (case map_of (rev args) name of Some v \<Rightarrow> v | None \<Rightarrow> unset)"

text \<open>The end of \<open>emit\<close>: the result and the file written. Source that gofmt rejects is written as it is.\<close>

definition write_source :: "inputs \<Rightarrow> string \<Rightarrow> string \<Rightarrow> (generr + unit) \<times> (string \<times> string) option" where
  "write_source io path src =
     (case in_gofmt io src of
        None \<Rightarrow> (Inl GofmtFailed, if in_writable io path then Some (path, src) else None)
      | Some formatted \<Rightarrow>
          if in_writable io path then (Inr (), Some (path, formatted)) else (Inl (OutputFailed path), None))"

definition gen_main :: "inputs \<Rightarrow> (string \<times> string) list \<Rightarrow> (generr + unit) \<times> (string \<times> string) option" where
  "gen_main io args =
     (let typedPath = flag_String args ''typed'' [];
          dumpPath = flag_String args ''dump'' [];
          basesPath = flag_String args ''bases'' [];
          outPath = flag_String args ''out'' ''internal/protocol/catalog_gen.go'' in
      if typedPath = [] \<or> dumpPath = [] \<or> basesPath = [] then (Inl MissingFlag, None)
      else
        (case rbind (loadTyped io typedPath) (\<lambda>ms.
              rbind (readJSON io (in_dump io) dumpPath) (\<lambda>types.
              rbind (loadBases io basesPath) (\<lambda>bs.
              rbind (generate ms types bs) (\<lambda>cat. Inr (emit (in_print io) ms cat))))) of
           Inl e \<Rightarrow> (Inl e, None)
         | Inr src \<Rightarrow> write_source io outPath src))"

text \<open>The command succeeds exactly when it has written formatted source; otherwise it writes at most raw source.\<close>

lemma gen_main_writes:
  assumes "gen_main io args = (r, file)"
  shows "r = Inr () \<longleftrightarrow> file \<noteq> None \<and> r \<noteq> Inl GofmtFailed"
    and "file = Some (path, text) \<Longrightarrow> path = flag_String args ''out'' ''internal/protocol/catalog_gen.go'' \<and> in_writable io path \<and>
      (\<exists>ms types bs cat. generate ms types bs = Inr cat \<and>
        (in_gofmt io (emit (in_print io) ms cat) = Some text \<or> r = Inl GofmtFailed \<and> text = emit (in_print io) ms cat))"
  using assms
  by (auto simp: gen_main_def write_source_def Let_def rbind_eq_Inr split: if_splits sum.splits option.splits)

end
