(* ===== verification/GenProofs.thy ===== *)
theory GenProofs
  imports Gen CodecTotal
begin

text \<open>
  What the generator guarantees: when it ends, which structs its tables hold, and that the codec
  cannot tell these tables from the complete metadata.
\<close>

section \<open>Chains of classes\<close>

definition base_rel :: "bases \<Rightarrow> (string \<times> string) set" where
  "base_rel bs = {(c, d). bs c = Some d}"

text \<open>A class whose ancestors run in a circle.\<close>

definition cyclic :: "bases \<Rightarrow> string \<Rightarrow> bool" where
  "cyclic bs c \<longleftrightarrow> (\<exists>a. (c, a) \<in> (base_rel bs)\<^sup>* \<and> (a, a) \<in> (base_rel bs)\<^sup>+)"

lemma chain_step: "bs c = Some d \<Longrightarrow> chain bs c = map_option ((#) c) (chain bs d)"
  by (subst chain.simps) (cases "chain bs d"; simp)

lemma chain_root: "bs c = None \<Longrightarrow> chain bs c = Some (if c = [] then [] else [c])"
  by (subst chain.simps) simp

lemma chain_shorter:
  "(c, d) \<in> (base_rel bs)\<^sup>+ \<Longrightarrow> chain bs c = Some l \<Longrightarrow> \<exists>l'. chain bs d = Some l' \<and> length l' < length l"
proof (induction arbitrary: l rule: trancl_induct)
  case (base d)
  then show ?case by (auto simp: base_rel_def chain_step)
next
  case (step d e)
  from step.IH [OF step.prems] obtain l' where l: "chain bs d = Some l'" "length l' < length l" by blast
  then show ?case using step.hyps(2) by (auto simp: base_rel_def chain_step)
qed

lemma chain_acyclic: "chain bs c = Some l \<Longrightarrow> \<not> cyclic bs c"
proof
  assume l: "chain bs c = Some l" and "cyclic bs c"
  then obtain a where a: "(c, a) \<in> (base_rel bs)\<^sup>*" "(a, a) \<in> (base_rel bs)\<^sup>+" by (auto simp: cyclic_def)
  obtain l' where l': "chain bs a = Some l'"
    using a(1) l chain_shorter [of c a bs l] by (auto simp: rtrancl_eq_or_trancl)
  show False using chain_shorter [OF a(2) l'] l' by auto
qed

lemma chain_returns:
  assumes "finite (dom bs)" "\<not> cyclic bs c"
  shows "chain bs c \<noteq> None"
proof -
  let ?r = "base_rel bs \<inter> {x. (c, x) \<in> (base_rel bs)\<^sup>*} \<times> UNIV"
  have "base_rel bs \<subseteq> (\<lambda>x. (x, the (bs x))) ` dom bs" by (force simp: base_rel_def)
  then have "finite ?r" using assms(1) by (meson finite_Int finite_imageI finite_subset)
  moreover have "acyclic ?r"
  proof (rule acyclicI, intro allI notI)
    fix x assume x: "(x, x) \<in> ?r\<^sup>+"
    then have "(x, x) \<in> (base_rel bs)\<^sup>+" by (rule trancl_mono) simp
    moreover have "(c, x) \<in> (base_rel bs)\<^sup>*" using x by (auto dest: tranclD)
    ultimately show False using assms(2) by (auto simp: cyclic_def)
  qed
  ultimately have wf: "wf (?r\<inverse>)" by (rule finite_acyclic_wf_converse)
  have "(c, x) \<in> (base_rel bs)\<^sup>* \<longrightarrow> chain bs x \<noteq> None" for x
  proof (induction x rule: wf_induct_rule [OF wf])
    case (1 x)
    show ?case
    proof
      assume x: "(c, x) \<in> (base_rel bs)\<^sup>*"
      show "chain bs x \<noteq> None"
      proof (cases "bs x")
        case (Some y)
        then have "(x, y) \<in> ?r" using x by (simp add: base_rel_def)
        moreover have "(c, y) \<in> (base_rel bs)\<^sup>*" using x Some by (auto simp: base_rel_def intro: rtrancl_into_rtrancl)
        ultimately show ?thesis using 1 [of y] Some by (simp add: chain_step)
      qed (simp add: chain_root)
    qed
  qed
  then show ?thesis by simp
qed

lemma chain_None: "finite (dom bs) \<Longrightarrow> chain bs c = None \<longleftrightarrow> cyclic bs c"
  using chain_returns chain_acyclic by (metis not_Some_eq)

lemma those_None: "those xs = None \<longleftrightarrow> None \<in> set xs"
  by (induction xs) (auto split: option.split)

lemma buildStructs_None: "buildStructs own bs = None \<longleftrightarrow> (\<exists>c \<in> fst ` set own. chain bs c = None)"
  by (force simp: buildStructs_def those_None struct_layout_def)

lemma those_Some: "those xs = Some ys \<longleftrightarrow> xs = map Some ys"
  by (induction xs arbitrary: ys) (auto split: option.splits)

lemma map_of_those:
  "map (\<lambda>(name, _). map_option (Pair name) (f name)) xs = map Some ys \<Longrightarrow>
     map_of ys name = (if name \<in> fst ` set xs then f name else None)"
proof (induction xs arbitrary: ys)
  case (Cons x xs)
  obtain k v where x: "x = (k, v)" by fastforce
  from Cons.prems obtain l zs where z: "ys = (k, l) # zs" "f k = Some l"
    "map (\<lambda>(name, _). map_option (Pair name) (f name)) xs = map Some zs" by (auto simp: x)
  show ?case using Cons.IH [OF z(3)] z(1,2) by (simp add: x)
qed simp

lemma map_of_buildStructs:
  "buildStructs own bs = Some S \<Longrightarrow> map_of S name = (if name \<in> fst ` set own then struct_layout own bs name else None)"
  unfolding buildStructs_def those_Some by (rule map_of_those)

section \<open>Reachable structs\<close>

text \<open>
  The structs a list of types needs: those the types themselves lead to, and those the fields of a
  needed struct lead to.
\<close>

inductive needed :: "layouts \<Rightarrow> string list \<Rightarrow> string \<Rightarrow> bool" for S ts where
  root: "t \<in> set ts \<Longrightarrow> elem_base t = Some b \<Longrightarrow> map_of S b = Some l \<Longrightarrow> needed S ts b"
| nested: "needed S ts a \<Longrightarrow> map_of S a = Some l \<Longrightarrow> f \<in> set l \<Longrightarrow> elem_base (fType f) = Some b \<Longrightarrow>
    map_of S b = Some l' \<Longrightarrow> needed S ts b"

inductive_cases neededE: "needed S ts b"

text \<open>A type is provided for by a set of collected structs.\<close>

definition provided :: "layouts \<Rightarrow> string list \<Rightarrow> string \<Rightarrow> bool" where
  "provided S R t \<longleftrightarrow> (\<exists>b. elem_base t = Some b \<and> (b \<in> set R \<or> map_of S b = None))"

text \<open>A successful collection, type by type: skipped, or entered for the first time.\<close>

lemma collect_rule [consumes 1, case_names finished skipped enter]:
  assumes "collect S ts R = Some R'"
    and "\<And>R. Q [] R R"
    and "\<And>t ts b R R'. elem_base t = Some b \<Longrightarrow> b \<in> set R \<or> map_of S b = None \<Longrightarrow>
      collect S ts R = Some R' \<Longrightarrow> Q ts R R' \<Longrightarrow> Q (t # ts) R R'"
    and "\<And>t ts b layout R R'. elem_base t = Some b \<Longrightarrow> b \<notin> set R \<Longrightarrow> map_of S b = Some layout \<Longrightarrow>
      collect S (map fType layout @ ts) (b # R) = Some R' \<Longrightarrow> Q (map fType layout @ ts) (b # R) R' \<Longrightarrow> Q (t # ts) R R'"
  shows "Q ts R R'"
  using assms
proof (induction S ts R rule: collect.induct)
  case (2 S t ts R)
  note q = "2.prems"(2-4)
  from "2.prems"(1) obtain b where b: "elem_base t = Some b" by (auto split: option.splits)
  consider "b \<in> set R" | "b \<notin> set R" "map_of S b = None"
    | layout where "b \<notin> set R" "map_of S b = Some layout" by auto
  then show ?case
  proof cases
    case 1
    then have c: "collect S ts R = Some R'" using "2.prems"(1) b by simp
    show ?thesis by (rule q(2) [OF b _ c "2.IH"(1) [OF b 1 c q]]) (use 1 in simp)
  next
    case 2
    then have c: "collect S ts R = Some R'" using "2.prems"(1) b by simp
    show ?thesis by (rule q(2) [OF b _ c "2.IH"(2) [OF b 2 c q]]) (use 2 in simp)
  next
    case 3
    then have c: "collect S (map fType layout @ ts) (b # R) = Some R'" using "2.prems"(1) b by simp
    show ?thesis by (rule q(3) [OF b 3 c "2.IH"(3) [OF b 3 c q]])
  qed
qed simp

lemma collect_mono: "collect S ts R = Some R' \<Longrightarrow> set R \<subseteq> set R'"
  by (induction rule: collect_rule) simp_all

lemma collect_distinct: "collect S ts R = Some R' \<Longrightarrow> distinct R \<Longrightarrow> distinct R'"
  by (induction rule: collect_rule) simp_all

lemma collect_known: "collect S ts R = Some R' \<Longrightarrow> b \<in> set R' \<Longrightarrow> b \<in> set R \<or> map_of S b \<noteq> None"
  by (induction rule: collect_rule) auto

lemma provided_mono: "set R \<subseteq> set R' \<Longrightarrow> provided S R t \<Longrightarrow> provided S R' t"
  by (auto simp: provided_def)

lemma collect_provides:
  assumes "collect S ts R = Some R'"
    and "\<And>a l f. a \<in> set R \<Longrightarrow> map_of S a = Some l \<Longrightarrow> f \<in> set l \<Longrightarrow> fType f \<in> set ts \<or> provided S R (fType f)"
  shows "(\<forall>t\<in>set ts. provided S R' t) \<and>
    (\<forall>a\<in>set R'. \<forall>l. map_of S a = Some l \<longrightarrow> (\<forall>f\<in>set l. provided S R' (fType f)))"
  using assms
proof (induction rule: collect_rule)
  case (finished R)
  have "provided S R (fType f)" if "a \<in> set R" "map_of S a = Some l" "f \<in> set l" for a l f
    using finished.prems [OF that] by simp
  then show ?case by (intro conjI ballI allI impI) (simp, blast)
next
  case (skipped t ts b R R')
  have p: "provided S R t" using skipped.hyps(1,2) by (auto simp: provided_def)
  have "(\<forall>t\<in>set ts. provided S R' t) \<and> (\<forall>a\<in>set R'. \<forall>l. map_of S a = Some l \<longrightarrow> (\<forall>f\<in>set l. provided S R' (fType f)))"
    by (rule skipped.IH) (use skipped.prems p in auto)
  then show ?case using provided_mono [OF collect_mono [OF skipped.hyps(3)] p] by simp
next
  case (enter t ts b layout R R')
  have "(\<forall>t\<in>set (map fType layout @ ts). provided S R' t) \<and>
      (\<forall>a\<in>set R'. \<forall>l. map_of S a = Some l \<longrightarrow> (\<forall>f\<in>set l. provided S R' (fType f)))"
  proof (rule enter.IH)
    fix a l' f assume a: "a \<in> set (b # R)" "map_of S a = Some l'" "f \<in> set l'"
    show "fType f \<in> set (map fType layout @ ts) \<or> provided S (b # R) (fType f)"
      using a enter.hyps(1,3) enter.prems [of a l' f] by (auto simp: provided_def)
  qed
  moreover have "provided S R' t" using enter.hyps(1) collect_mono [OF enter.hyps(4)] by (auto simp: provided_def)
  ultimately show ?case by simp
qed

lemma collect_sound:
  assumes "collect S ts R = Some R'" "\<forall>b\<in>set R. needed S T b"
    and "\<forall>t\<in>set ts. t \<in> set T \<or> (\<exists>a l f. needed S T a \<and> map_of S a = Some l \<and> f \<in> set l \<and> t = fType f)"
  shows "\<forall>b\<in>set R'. needed S T b"
  using assms
proof (induction rule: collect_rule)
  case (finished R)
  then show ?case by blast
next
  case (skipped t ts b R R')
  show ?case by (rule skipped.IH [OF skipped.prems(1)]) (use skipped.prems(2) in auto)
next
  case (enter t ts b layout R R')
  have n: "needed S T b"
    using enter.prems(2) enter.hyps(1,3) by (auto intro: needed.intros)
  show ?case
  proof (rule enter.IH)
    show "\<forall>c\<in>set (b # R). needed S T c" using enter.prems(1) n by simp
    show "\<forall>t\<in>set (map fType layout @ ts). t \<in> set T \<or> (\<exists>a l f. needed S T a \<and> map_of S a = Some l \<and> f \<in> set l \<and> t = fType f)"
    proof
      fix u assume "u \<in> set (map fType layout @ ts)"
      then consider f where "f \<in> set layout" "u = fType f" | "u \<in> set ts" by auto
      then show "u \<in> set T \<or> (\<exists>a l f. needed S T a \<and> map_of S a = Some l \<and> f \<in> set l \<and> u = fType f)"
      proof cases
        case 1
        then show ?thesis using n enter.hyps(3) by blast
      next
        case 2
        then have "u \<in> set (t # ts)" by simp
        then show ?thesis by (rule bspec [OF enter.prems(2)])
      qed
    qed
  qed
qed

lemma collect_needed:
  assumes "collect S ts [] = Some R"
  shows "set R = {b. needed S ts b}"
proof -
  have p: "\<forall>t\<in>set ts. provided S R t" "\<forall>a\<in>set R. \<forall>l. map_of S a = Some l \<longrightarrow> (\<forall>f\<in>set l. provided S R (fType f))"
    using collect_provides [OF assms] by simp_all
  have "b \<in> set R" if "needed S ts b" for b
    using that
  proof induction
    case (root t b l)
    then show ?case using p(1) by (force simp: provided_def)
  next
    case (nested a l f b l')
    then have "provided S R (fType f)" using p(2) by blast
    then show ?case using nested by (simp add: provided_def)
  qed
  moreover have "\<forall>b\<in>set R. needed S ts b"
    by (rule collect_sound [OF assms]) (simp, blast)
  ultimately show ?thesis by blast
qed

section \<open>What generation computes\<close>

text \<open>All messages, resolved in order, and one collection over the types of all their fields.\<close>

lemma resolve_ok:
  "resolve bs own S ms R = Inr (out, R') \<Longrightarrow>
     map fst out = ms \<and> list_all (\<lambda>(m, full). messageFields m bs own = Some full) out \<and>
     collect S (concat (map (map fType \<circ> snd) out)) R = Some R'"
proof (induction ms arbitrary: R out)
  case (Cons m ms)
  from Cons.prems obtain full R1 out' where r: "messageFields m bs own = Some full" "collect S (map fType full) R = Some R1"
    "resolve bs own S ms R1 = Inr (out', R')" "out = (m, full) # out'"
    by (auto simp: rbind_eq_Inr split: option.splits)
  then show ?case using Cons.IH [OF r(3)] by (simp add: collect_append)
qed simp

lemma resolve_diverges:
  "resolve bs own S ms R = Inl Diverges \<Longrightarrow> \<exists>m\<in>set ms. messageFields m bs own = None"
  by (induction ms arbitrary: R) (auto simp: rbind_def split: option.splits sum.splits)

definition field_types :: "(typed_message \<times> field list) list \<Rightarrow> string list" where
  "field_types out = concat (map (map fType \<circ> snd) out)"

lemma generate_ok:
  assumes "generate ms types bs = Inr cat"
  obtains S out R where "buildStructs (loadOwn types) bs = Some S" "map fst out = ms"
    "list_all (\<lambda>(m, full). messageFields m bs (loadOwn types) = Some full) out"
    "collect S (field_types out) [] = Some R" "cat = tables out S R ms"
proof -
  from assms obtain S out R where
    r: "buildStructs (loadOwn types) bs = Some S" "resolve bs (loadOwn types) S ms [] = Inr (out, R)" "cat = tables out S R ms"
    by (auto simp: generate_def Let_def rbind_eq_Inr split: option.splits)
  show ?thesis using resolve_ok [OF r(2)] by (intro that [OF r(1) _ _ _ r(3)]) (simp_all add: field_types_def)
qed

lemma field_types_tables:
  "field_types out = concat (map (\<lambda>(_, m). map fType (msgFields m)) (messages (tables out S R ms)))"
  by (simp add: field_types_def tables_def o_def split_beta)

lemma tables_simps [simp]:
  "fixedArrays (tables out S R ms) = sort_key fst fixedArrays_table"
  "map fst (structs (tables out S R ms)) = sort R"
  "messageFullNames (tables out S R ms) = sort (filter (messageFull ms) R)"
  by (simp_all add: tables_def o_def)

lemma map_of_tables:
  assumes "collect S ts [] = Some R"
  shows "map_of (structs (tables out S R ms)) b = (if b \<in> set R then map_of S b else None)"
proof -
  have "b \<in> set R \<Longrightarrow> Some (layout_of S b) = map_of S b"
    using collect_known [OF assms, of b] by (auto simp: layout_of_def)
  then show ?thesis by (simp add: tables_def map_of_map_restrict [where f = "layout_of S", unfolded o_def] restrict_map_def)
qed

section \<open>The codec on the tables\<close>

text \<open>
  Types without containers inside containers other than an array of lists: what
  \<open>collectReachable\<close> takes apart.
\<close>

definition bare :: "string \<Rightarrow> bool" where
  "bare t \<longleftrightarrow> primitiveEncoders t \<noteq> None \<or> \<not> is_array_type t \<and> \<not> is_list_type t"

definition flat_type :: "string \<Rightarrow> bool" where
  "flat_type t \<longleftrightarrow>
     (let e = (if is_array_type t then array_elem t else t) in
      bare t \<or> bare e \<or> \<not> is_array_type e \<and> is_list_type e \<and> bare (list_elem e))"

definition flat_catalog :: "catalog \<Rightarrow> bool" where
  "flat_catalog cat \<longleftrightarrow>
     list_all (\<lambda>(_, m). list_all (\<lambda>f. flat_type (fType f)) (msgFields m)) (messages cat) \<and>
     list_all (\<lambda>(_, l). list_all (\<lambda>f. flat_type (fType f)) l) (structs cat)"

text \<open>Types of which the codec looks up only collected structs.\<close>

definition settled :: "layouts \<Rightarrow> string list \<Rightarrow> string \<Rightarrow> bool" where
  "settled S R b \<longleftrightarrow> primitiveEncoders b \<noteq> None \<or>
     \<not> is_array_type b \<and> \<not> is_list_type b \<and> (b \<in> set R \<or> map_of S b = None)"

definition settled_list :: "layouts \<Rightarrow> string list \<Rightarrow> string \<Rightarrow> bool" where
  "settled_list S R e \<longleftrightarrow> settled S R e \<or> \<not> is_array_type e \<and> is_list_type e \<and> settled S R (list_elem e)"

definition settled_type :: "layouts \<Rightarrow> string list \<Rightarrow> string \<Rightarrow> bool" where
  "settled_type S R t \<longleftrightarrow> settled_list S R t \<or> is_array_type t \<and> settled_list S R (array_elem t)"

lemma prefix_backwards: "\<not> length listPrefix \<le> length listPrefix - Suc 0"
  by (simp add: listPrefix_def)

lemma provided_settled: "flat_type t \<Longrightarrow> provided S R t \<Longrightarrow> settled_type S R t"
  by (auto simp: flat_type_def bare_def provided_def settled_type_def settled_list_def settled_def elem_base_def Let_def
      is_list_type_def linorder_not_less prefix_backwards split: if_splits)

lemma settled_array:
  "settled_type S R t \<Longrightarrow> primitiveEncoders t = None \<Longrightarrow> is_array_type t \<Longrightarrow> settled_type S R (array_elem t)"
  by (auto simp: settled_type_def settled_list_def settled_def)

lemma settled_listed:
  "settled_type S R t \<Longrightarrow> primitiveEncoders t = None \<Longrightarrow> \<not> is_array_type t \<Longrightarrow> is_list_type t \<Longrightarrow>
     settled_type S R (list_elem t)"
  by (auto simp: settled_type_def settled_list_def settled_def)

lemma settled_struct:
  "settled_type S R t \<Longrightarrow> primitiveEncoders t = None \<Longrightarrow> \<not> is_array_type t \<Longrightarrow> \<not> is_list_type t \<Longrightarrow>
     t \<in> set R \<or> map_of S t = None"
  by (auto simp: settled_type_def settled_list_def settled_def)

definition pruned :: "catalog \<Rightarrow> layouts \<Rightarrow> string list \<Rightarrow> bool" where
  "pruned cat S R \<longleftrightarrow> (\<forall>b. map_of (structs cat) b = (if b \<in> set R then map_of S b else None)) \<and>
     (\<forall>a\<in>set R. \<forall>l. map_of S a = Some l \<longrightarrow> (\<forall>f\<in>set l. settled_type S R (fType f)))"

lemma pruned_lookup: "pruned cat S R \<Longrightarrow> t \<in> set R \<or> map_of S t = None \<Longrightarrow> map_of (structs cat) t = map_of S t"
  by (auto simp: pruned_def)

lemma pruned_field:
  "pruned cat S R \<Longrightarrow> map_of (structs cat) t = Some l \<Longrightarrow> f \<in> set l \<Longrightarrow> settled_type S R (fType f)"
  by (auto simp: pruned_def split: if_splits)

lemma same_opcodes [simp]:
  "byName (cat\<lparr>structs := S\<rparr>) = byName cat" "Lookup (cat\<lparr>structs := S\<rparr>) = Lookup cat"
  "elem_opcode (cat\<lparr>structs := S\<rparr>) = elem_opcode cat"
  by (auto simp: fun_eq_iff byName_def Lookup_def elem_opcode_def OpcodeOf_def)

lemma decode_message_fields_cong:
  "(\<And>f r. f \<in> set layout \<Longrightarrow> dec (fType f) (fName f) r = dec' (fType f) (fName f) r) \<Longrightarrow>
     decode_message_fields dec layout out r = decode_message_fields dec' layout out r"
  by (induction layout arbitrary: out r) (auto split: sum.split)

lemma encode_pruned:
  assumes "pruned cat S R" "settled_type S R t"
  shows "encodeValue cat n t v owner nm = encodeValue (cat\<lparr>structs := S\<rparr>) n t v owner nm"
  using assms(2)
proof (induction n arbitrary: t v owner nm)
  case (Suc n)
  show ?case
  proof (cases "primitiveEncoders t")
    case None
    consider "is_array_type t" | "\<not> is_array_type t" "is_list_type t" | "\<not> is_array_type t" "\<not> is_list_type t" by blast
    then show ?thesis
    proof cases
      case 1
      have "map_res (\<lambda>item. encodeValue cat n (array_elem t) item owner nm) items =
          map_res (\<lambda>item. encodeValue (cat\<lparr>structs := S\<rparr>) n (array_elem t) item owner nm) items" for items
        by (intro map_res_cong refl Suc.IH settled_array [OF Suc.prems None 1])
      then show ?thesis using None 1 by (simp split: option.split)
    next
      case 2
      have "map_res (\<lambda>item. encodeValue cat n (list_elem t) item owner nm) items =
          map_res (\<lambda>item. encodeValue (cat\<lparr>structs := S\<rparr>) n (list_elem t) item owner nm) items" for items
        by (intro map_res_cong refl Suc.IH settled_listed [OF Suc.prems None 2])
      then show ?thesis using None 2 by (simp split: option.split)
    next
      case 3
      note lk = pruned_lookup [OF assms(1) settled_struct [OF Suc.prems None 3]]
      show ?thesis
      proof (cases "map_of S t")
        case (Some layout)
        have "encode_fields (\<lambda>u fv nm. encodeValue cat n u fv t nm) t layout flds =
            encode_fields (\<lambda>u fv nm. encodeValue (cat\<lparr>structs := S\<rparr>) n u fv t nm) t layout flds" for flds
          by (intro encode_fields_cong Suc.IH pruned_field [OF assms(1), of t layout]) (simp_all add: lk Some)
        then show ?thesis using None 3 lk Some by (simp split: option.split)
      qed (use None 3 lk in simp)
    qed
  qed simp
qed simp

lemma primitive_domains: "primitiveDecoders t = None \<longleftrightarrow> primitiveEncoders t = None"
  by (simp add: prim_dom)

lemma decode_pruned:
  assumes "pruned cat S R" "settled_type S R t"
  shows "decodeValue cat n t owner nm r = decodeValue (cat\<lparr>structs := S\<rparr>) n t owner nm r"
  using assms(2)
proof (induction n arbitrary: t owner nm r)
  case (Suc n)
  show ?case
  proof (cases "primitiveEncoders t")
    case None
    then have p: "primitiveDecoders t = None" by (simp add: primitive_domains)
    consider "is_array_type t" | "\<not> is_array_type t" "is_list_type t" | "\<not> is_array_type t" "\<not> is_list_type t" by blast
    then show ?thesis
    proof cases
      case 1
      have "decode_items (decodeValue cat n (array_elem t) owner nm) k r =
          decode_items (decodeValue (cat\<lparr>structs := S\<rparr>) n (array_elem t) owner nm) k r" for k r
        by (intro decode_items_cong Suc.IH settled_array [OF Suc.prems None 1])
      then show ?thesis using p 1 by (simp split: option.split)
    next
      case 2
      have "decode_items (decodeValue cat n (list_elem t) owner nm) k r =
          decode_items (decodeValue (cat\<lparr>structs := S\<rparr>) n (list_elem t) owner nm) k r" for k r
        by (intro decode_items_cong Suc.IH settled_listed [OF Suc.prems None 2])
      then show ?thesis using p 2 by simp
    next
      case 3
      note lk = pruned_lookup [OF assms(1) settled_struct [OF Suc.prems None 3]]
      show ?thesis
      proof (cases "map_of S t")
        case (Some layout)
        have "decode_layout (\<lambda>u nm. decodeValue cat n u t nm) layout out r =
            decode_layout (\<lambda>u nm. decodeValue (cat\<lparr>structs := S\<rparr>) n u t nm) layout out r" for out r
          by (intro decode_layout_cong Suc.IH pruned_field [OF assms(1), of t layout]) (simp_all add: lk Some)
        then show ?thesis using p 3 lk Some by simp
      qed (use p 3 lk in simp)
    qed
  next
    case (Some enc)
    then obtain dec where "primitiveDecoders t = Some dec" by (metis primitive_domains not_None_eq)
    then show ?thesis by simp
  qed
qed simp

lemma zeroFields_cong:
  "(\<And>f. f \<in> set layout \<Longrightarrow> zero (fType f) (fName f) = zero' (fType f) (fName f)) \<Longrightarrow>
     zeroFields zero layout out = zeroFields zero' layout out"
  by (induction layout arbitrary: out) (simp_all add: rbind_def split: sum.split)

lemma zero_pruned:
  assumes "pruned cat S R" "settled_type S R t"
  shows "zeroValue cat n t owner nm = zeroValue (cat\<lparr>structs := S\<rparr>) n t owner nm"
  using assms(2)
proof (induction n arbitrary: t owner nm)
  case (Suc n)
  show ?case
  proof (cases "zero_primitive t")
    case z: None
    then have None: "primitiveEncoders t = None" by (simp add: prim_dom)
    consider "is_array_type t" | "\<not> is_array_type t" "is_list_type t" | "\<not> is_array_type t" "\<not> is_list_type t" by blast
    then show ?thesis
    proof cases
      case 1
      then show ?thesis using z Suc.IH [OF settled_array [OF Suc.prems None 1]] by (simp split: option.split)
    next
      case 3
      note lk = pruned_lookup [OF assms(1) settled_struct [OF Suc.prems None 3]]
      show ?thesis
      proof (cases "map_of S t")
        case (Some layout)
        have "zeroFields (\<lambda>u nm. zeroValue cat n u t nm) layout out =
            zeroFields (\<lambda>u nm. zeroValue (cat\<lparr>structs := S\<rparr>) n u t nm) layout out" for out
          by (intro zeroFields_cong Suc.IH pruned_field [OF assms(1), of t layout]) (simp_all add: lk Some)
        then show ?thesis using z 3 lk Some by simp
      qed (use z 3 lk in simp)
    qed (use z in simp)
  qed simp
qed simp

lemma generated_pruned:
  assumes "generate ms types bs = Inr cat" "buildStructs (loadOwn types) bs = Some S" "flat_catalog cat"
  obtains R where "pruned cat S R"
    "\<And>k m f. (k, m) \<in> set (messages cat) \<Longrightarrow> f \<in> set (msgFields m) \<Longrightarrow> settled_type S R (fType f)"
proof -
  from assms(1) obtain S' out R where g: "buildStructs (loadOwn types) bs = Some S'"
    "collect S' (field_types out) [] = Some R" "cat = tables out S' R ms" by (rule generate_ok)
  have S: "S' = S" using g(1) assms(2) by simp
  note p = collect_provides [OF g(2)]
  note look = map_of_tables [OF g(2), of out ms, folded g(3), unfolded S]
  have "settled_type S R (fType f)" if "a \<in> set R" "map_of S a = Some l" "f \<in> set l" for a l f
  proof (rule provided_settled)
    have "map_of (structs cat) a = Some l" using look that by simp
    then show "flat_type (fType f)" using assms(3) that(3)
      by (fastforce simp: flat_catalog_def list_all_iff dest: map_of_SomeD)
    show "provided S R (fType f)" using p that unfolding S by simp
  qed
  then have "pruned cat S R" using look by (simp add: pruned_def)
  moreover have "settled_type S R (fType f)" if m: "(k, m) \<in> set (messages cat)" "f \<in> set (msgFields m)" for k m f
  proof (rule provided_settled)
    show "flat_type (fType f)" using assms(3) m by (fastforce simp: flat_catalog_def list_all_iff)
    have "fType f \<in> set (field_types out)" using m by (force simp: field_types_tables [of out S' R ms] g(3))
    then show "provided S R (fType f)" using p unfolding S by simp
  qed
  ultimately show ?thesis by (rule that)
qed

section \<open>Metadata for the concrete inputs\<close>

text \<open>
  A message with a list of items; the items have a base class with the extra leading byte; another
  class is in the dump but no message reaches it.
\<close>

definition sample_typed :: "typed_message list" where
  "sample_typed = [\<lparr>tm_Name = ''S2C_Items'', tm_Dir = ''S2C'', tm_ID = 0x1234,
     tm_Fields = [Field ''m_items'' ''System.Collections.Generic.List<Protocol.Item>'']\<rparr>]"

definition sample_dump :: "dump_type list" where
  "sample_dump =
     [\<lparr>dt_Full = ''Protocol.Item'', dt_Fields =
        [\<lparr>df_Name = ''__ID__'', df_Type = ''System.UInt32'', df_IsStatic = True\<rparr>,
         \<lparr>df_Name = ''m_id'', df_Type = ''System.Int32'', df_IsStatic = False\<rparr>]\<rparr>,
      \<lparr>dt_Full = ''Protocol.Unused'', dt_Fields = [\<lparr>df_Name = ''m_x'', df_Type = ''System.Byte'', df_IsStatic = False\<rparr>]\<rparr>]"

definition sample_bases :: bases where
  "sample_bases = [''Protocol.Item'' \<mapsto> ''Network.IBSerializableList'']"

definition sample_structs :: layouts where
  "sample_structs =
     [(''Protocol.Item'', [Field ''__state__'' ''System.Byte'', Field ''m_id'' ''System.Int32'']),
      (''Protocol.Unused'', [Field ''m_x'' ''System.Byte'']),
      (''Network.IBSerializableList'', [Field ''__state__'' ''System.Byte''])]"

lemma sample_own:
  "loadOwn sample_dump =
     [(''Protocol.Item'', [Field ''m_id'' ''System.Int32'']), (''Protocol.Unused'', [Field ''m_x'' ''System.Byte'']),
      (''Network.IBSerializableList'', [Field ''__state__'' ''System.Byte''])]"
  by (simp add: loadOwn_def sample_dump_def add_own_def extraBaseFields_def)

lemma sample_built: "buildStructs (loadOwn sample_dump) sample_bases = Some sample_structs"
  unfolding sample_own
  by (simp add: buildStructs_def struct_layout_def chain_step chain_root sample_bases_def fieldsOf_def layout_of_def sample_structs_def)

definition sample_tables :: catalog where
  "sample_tables = tables [(hd sample_typed, tm_Fields (hd sample_typed))] sample_structs [''Protocol.Item''] sample_typed"

lemma sample_generated: "generate sample_typed sample_dump sample_bases = Inr sample_tables"
  unfolding generate_def Let_def sample_built
  by (simp add: sample_tables_def sample_typed_def messageFields_def chain_root sample_bases_def fieldsOf_def
      elem_base_def is_array_type_def listPrefix_def list_elem_def sample_structs_def)

lemma sample_flat: "flat_catalog sample_tables"
  by (simp add: sample_tables_def tables_def flat_catalog_def sample_typed_def flat_type_def bare_def is_array_type_def
      is_list_type_def listPrefix_def list_elem_def layout_of_def sample_structs_def Let_def)

text \<open>The text of an opcode and of a struct, as it stands in the file.\<close>

lemma sample_text:
  "emit_opcode (hd sample_typed) = tab @ ''OpS2C_Items uint32 = 0x00001234'' @ nl"
  "emit_struct (\<lambda>_. False) (''Protocol.Item'', [Field ''m_id'' ''System.Int32'']) =
     tab @ [CHR 0x22] @ ''Protocol.Item'' @ [CHR 0x22] @ '': {'' @ nl @
     tab @ tab @ ''{Name: '' @ [CHR 0x22] @ ''m_id'' @ [CHR 0x22] @ '', Type: '' @ [CHR 0x22] @ ''System.Int32'' @ [CHR 0x22] @ ''},'' @ nl @
     tab @ ''},'' @ nl"
  by (simp_all add: emit_opcode_def emit_struct_def emit_field_def Quote_def quote_rune_def encode_rune_def is_scalar_def
      sample_typed_def opcode_def X08_def hex_def hexdigit_def upt_rec rune_error_def char_of_def bit_0)

section \<open>Properties\<close>

text \<open>C8. The codec cannot tell the generated tables from the complete metadata: although only the
  structs some message reaches are written, every message encodes to the same bytes, every body
  decodes to the same values and every message has the same zero values as with the layouts of all dumped classes, provided no type of the
  catalog nests containers deeper than an array of lists.\<close>
theorem pruning_is_invisible:
  assumes "generate ms types bs = Inr cat" "buildStructs (loadOwn types) bs = Some S" "flat_catalog cat"
  shows "Encode cat name vs = Encode (cat\<lparr>structs := S\<rparr>) name vs \<and>
    Decode cat body = Decode (cat\<lparr>structs := S\<rparr>) body \<and>
    ZeroValues cat name = ZeroValues (cat\<lparr>structs := S\<rparr>) name"
proof -
  from generated_pruned [OF assms] obtain R where p: "pruned cat S R"
    and ok: "\<And>k m f. (k, m) \<in> set (messages cat) \<Longrightarrow> f \<in> set (msgFields m) \<Longrightarrow> settled_type S R (fType f)"
    by blast
  have "Encode cat name vs = Encode (cat\<lparr>structs := S\<rparr>) name vs"
  proof (cases "byName cat name")
    case (Some msg)
    then obtain k where k: "(k, msg) \<in> set (messages cat)" using byName_SomeD by fastforce
    have "encode_fields (\<lambda>t v nm. encodeValue cat codec_fuel t v (full_name msg) nm) name (msgFields msg) vs =
        encode_fields (\<lambda>t v nm. encodeValue (cat\<lparr>structs := S\<rparr>) codec_fuel t v (full_name msg) nm) name (msgFields msg) vs"
      by (intro encode_fields_cong encode_pruned [OF p] ok [OF k])
    then show ?thesis by (simp add: Encode_def Some)
  qed (simp add: Encode_def)
  moreover have "Decode cat body = Decode (cat\<lparr>structs := S\<rparr>) body"
  proof (cases "Lookup cat (le_word (take 4 body))")
    case (Some msg)
    then have k: "(le_word (take 4 body), msg) \<in> set (messages cat)" by (simp add: Lookup_def map_of_SomeD)
    have "decode_message_fields (\<lambda>t nm. decodeValue cat codec_fuel t (full_name msg) nm) (msgFields msg) Map.empty r =
        decode_message_fields (\<lambda>t nm. decodeValue (cat\<lparr>structs := S\<rparr>) codec_fuel t (full_name msg) nm) (msgFields msg) Map.empty r" for r
      by (intro decode_message_fields_cong decode_pruned [OF p] ok [OF k])
    then show ?thesis by (simp add: Decode_def Some Let_def)
  qed (simp add: Decode_def Let_def)
  moreover have "ZeroValues cat name = ZeroValues (cat\<lparr>structs := S\<rparr>) name"
  proof (cases "byName cat name")
    case (Some msg)
    then obtain k where k: "(k, msg) \<in> set (messages cat)" using byName_SomeD by fastforce
    have "zeroFields (\<lambda>t nm. zeroValue cat codec_fuel t (full_name msg) nm) (msgFields msg) out =
        zeroFields (\<lambda>t nm. zeroValue (cat\<lparr>structs := S\<rparr>) codec_fuel t (full_name msg) nm) (msgFields msg) out" for out
      by (intro zeroFields_cong zero_pruned [OF p] ok [OF k])
    then show ?thesis by (simp add: ZeroValues_def Some)
  qed (simp add: ZeroValues_def)
  ultimately show ?thesis by blast
qed

lemma pruning_is_invisible_witness:
  "Encode sample_tables ''S2C_Items'' [''m_items'' \<mapsto> VList []] =
     Encode (sample_tables\<lparr>structs := sample_structs\<rparr>) ''S2C_Items'' [''m_items'' \<mapsto> VList []] \<and>
   map fst sample_structs = [''Protocol.Item'', ''Protocol.Unused'', ''Network.IBSerializableList''] \<and>
   map fst (structs sample_tables) = [''Protocol.Item'']"
  using pruning_is_invisible [OF sample_generated sample_built sample_flat, of "''S2C_Items''"]
  by (simp add: sample_tables_def) (simp add: sample_structs_def)

text \<open>
  The proviso is needed: of a list of lists the generator takes only the outer one apart, and the
  struct inside is missing from the tables although it is in the dump.
\<close>

definition nested_typed :: "typed_message list" where
  "nested_typed = [\<lparr>tm_Name = ''S2C_Rows'', tm_Dir = ''S2C'', tm_ID = 0x1235, tm_Fields =
     [Field ''m_rows'' ''System.Collections.Generic.List<System.Collections.Generic.List<Protocol.Item>>'']\<rparr>]"

lemma nested_list_lost:
  "generate nested_typed sample_dump sample_bases =
     Inr (tables [(hd nested_typed, tm_Fields (hd nested_typed))] sample_structs [] nested_typed)"
  unfolding generate_def Let_def sample_built
  by (simp add: nested_typed_def messageFields_def chain_root sample_bases_def fieldsOf_def
      elem_base_def is_array_type_def listPrefix_def list_elem_def sample_structs_def)

text \<open>The fields of a class come after those of its base.\<close>

lemma struct_layout_base:
  assumes "struct_layout own bs b = Some l" "bs b = Some d"
  obtains ch where "chain bs d = Some ch" "l = fieldsOf ch own @ layout_of own b"
proof -
  from assms obtain ch where ch: "chain bs d = Some ch"
    "l = (if fieldsOf (b # ch) own = [] then layout_of own b else fieldsOf (b # ch) own)"
    by (auto simp: struct_layout_def chain_step Let_def)
  then have "l = fieldsOf ch own @ layout_of own b" by (auto simp: fieldsOf_def)
  with ch(1) show ?thesis by (rule that)
qed

text \<open>C18. The generator's tables are well-formed. Each message sits under its own opcode and the names of
  the struct table are unique; the two indexes of the codec agree (\<open>coherent\<close>) exactly when the
  input names no message twice and gives no two of them the same opcode, which the generator does
  not check: with such input it writes tables with the same key twice. The struct table is sorted
  and holds exactly the structs the messages need, each with the fields of its base class before
  its own; the element messages are the needed ones among the messages; and every message has the
  fields of its base classes and its own.\<close>
theorem generated_tables:
  assumes "generate ms types bs = Inr cat" "buildStructs (loadOwn types) bs = Some S"
  shows "coherent cat = (distinct (map tm_Name ms) \<and> distinct (map opcode ms)) \<and>
    list_all (\<lambda>(k, m). k = msgID m) (messages cat) \<and> distinct (map fst (structs cat)) \<and> sorted (map fst (structs cat)) \<and>
    set (map fst (structs cat)) = {b. needed S (concat (map (\<lambda>(_, m). map fType (msgFields m)) (messages cat))) b} \<and>
    set (messageFullNames cat) = {b. b \<in> set (map fst (structs cat)) \<and> messageFull ms b} \<and>
    (\<forall>b l d. map_of (structs cat) b = Some l \<and> bs b = Some d \<longrightarrow>
       (\<exists>ch. chain bs d = Some ch \<and> l = fieldsOf ch (loadOwn types) @ layout_of (loadOwn types) b)) \<and>
    map (\<lambda>(_, m). Some (msgFields m)) (messages cat) = map (\<lambda>m. messageFields m bs (loadOwn types)) ms"
proof -
  from assms(1) obtain S' out R where g: "buildStructs (loadOwn types) bs = Some S'" "map fst out = ms"
    "list_all (\<lambda>(m, full). messageFields m bs (loadOwn types) = Some full) out"
    "collect S' (field_types out) [] = Some R" "cat = tables out S' R ms" by (rule generate_ok)
  have S: "S' = S" using g(1) assms(2) by simp
  have d: "distinct R" using collect_distinct [OF g(4)] by simp
  have "map (msgName \<circ> snd) (messages cat) = map tm_Name (map fst out)" "map fst (messages cat) = map opcode (map fst out)"
    by (simp_all add: g(5) tables_def split_beta)
  moreover have own: "list_all (\<lambda>(k, m). k = msgID m) (messages cat)" "distinct (map fst (structs cat))"
    using d by (simp_all add: g(5)) (simp add: tables_def list_all_iff split_beta)
  ultimately have "coherent cat = (distinct (map tm_Name ms) \<and> distinct (map opcode ms))"
    unfolding coherent_def g(2) by auto
  moreover note own
  moreover have "map (\<lambda>(_, m). Some (msgFields m)) (messages cat) = map (\<lambda>m. messageFields m bs (loadOwn types)) (map fst out)"
    using g(3) by (auto simp: g(5) tables_def list_all_iff split_beta)
  moreover have "set R = {b. needed S (concat (map (\<lambda>(_, m). map fType (msgFields m)) (messages cat))) b}"
    using collect_needed [OF g(4)] by (simp add: g(5) S field_types_tables [of out S R ms])
  moreover have "\<exists>ch. chain bs d = Some ch \<and> l = fieldsOf ch (loadOwn types) @ layout_of (loadOwn types) b"
    if l: "map_of (structs cat) b = Some l" "bs b = Some d" for b l d
  proof -
    have "struct_layout (loadOwn types) bs b = Some l"
      using l(1) map_of_tables [OF g(4), of out ms b] map_of_buildStructs [OF g(1)] by (simp add: g(5) split: if_splits)
    from struct_layout_base [OF this l(2)] show ?thesis by blast
  qed
  ultimately show ?thesis using g(2) by (simp add: g(5))
qed

lemma generated_tables_witness:
  "coherent sample_tables \<and> {''Protocol.Item''} =
     {b. needed sample_structs (concat (map (\<lambda>(_, m). map fType (msgFields m)) (messages sample_tables))) b}"
proof -
  have d: "distinct (map tm_Name sample_typed)" "distinct (map opcode sample_typed)" by (simp_all add: sample_typed_def)
  have "set (map fst (structs sample_tables)) = {''Protocol.Item''}" by (simp add: sample_tables_def)
  with generated_tables [OF sample_generated sample_built] d show ?thesis by simp
qed

text \<open>C40. The generator ends except on a circle of base classes: when it runs for ever, the ancestors of some
  dumped class or message run in a circle, and with any such circle no tables are written; with one
  above a dumped class it runs for ever indeed.\<close>
theorem generator_hangs:
  assumes "finite (dom bs)"
  shows "(generate ms types bs = Inl Diverges \<longrightarrow>
      (\<exists>c\<in>fst ` set (loadOwn types) \<union> (\<lambda>m. ''Protocol.'' @ tm_Name m) ` set ms. cyclic bs c)) \<and>
    ((\<exists>c\<in>fst ` set (loadOwn types) \<union> (\<lambda>m. ''Protocol.'' @ tm_Name m) ` set ms. cyclic bs c) \<longrightarrow>
      \<not> is_ok (generate ms types bs)) \<and>
    ((\<exists>c\<in>fst ` set (loadOwn types). cyclic bs c) \<longrightarrow> generate ms types bs = Inl Diverges)"
proof (intro conjI impI)
  note c = chain_None [OF assms]
  show "generate ms types bs = Inl Diverges" if "\<exists>c\<in>fst ` set (loadOwn types). cyclic bs c"
  proof -
    have "buildStructs (loadOwn types) bs = None" using that by (simp add: buildStructs_None c)
    then show ?thesis by (simp add: generate_def)
  qed
  show "\<exists>c\<in>fst ` set (loadOwn types) \<union> (\<lambda>m. ''Protocol.'' @ tm_Name m) ` set ms. cyclic bs c"
    if "generate ms types bs = Inl Diverges"
  proof (cases "buildStructs (loadOwn types) bs")
    case None
    then show ?thesis by (auto simp: buildStructs_None c)
  next
    case (Some S)
    then have "resolve bs (loadOwn types) S ms [] = Inl Diverges"
      using that by (auto simp: generate_def rbind_def split: sum.splits)
    then obtain m where "m \<in> set ms" "messageFields m bs (loadOwn types) = None" using resolve_diverges by blast
    then show ?thesis by (auto simp: messageFields_def c)
  qed
  show "\<not> is_ok (generate ms types bs)"
    if "\<exists>c\<in>fst ` set (loadOwn types) \<union> (\<lambda>m. ''Protocol.'' @ tm_Name m) ` set ms. cyclic bs c"
  proof
    assume "is_ok (generate ms types bs)"
    then obtain cat where "generate ms types bs = Inr cat" by (auto simp: is_ok_iff)
    then obtain S out R where g: "buildStructs (loadOwn types) bs = Some S" "map fst out = ms"
      "list_all (\<lambda>(m, full). messageFields m bs (loadOwn types) = Some full) out" by (rule generate_ok)
    have "\<not> cyclic bs c" if "c \<in> fst ` set (loadOwn types)" for c
      using g(1) that buildStructs_None [of "loadOwn types" bs] by (auto simp: c)
    moreover have "\<not> cyclic bs (''Protocol.'' @ tm_Name m)" if "m \<in> set ms" for m
    proof -
      from that obtain full where "messageFields m bs (loadOwn types) = Some full"
        using g(2,3) by (force simp: list_all_iff)
      then show ?thesis by (auto simp: messageFields_def c [symmetric])
    qed
    ultimately show False using that by blast
  qed
qed

lemma generator_hangs_witness:
  "generate [] sample_dump [''Protocol.Item'' \<mapsto> ''Protocol.Item''] = Inl Diverges"
proof -
  let ?bs = "[''Protocol.Item'' \<mapsto> ''Protocol.Item'']"
  have "(''Protocol.Item'', ''Protocol.Item'') \<in> (base_rel ?bs)\<^sup>+" by (rule r_into_trancl) (simp add: base_rel_def)
  then have "cyclic ?bs ''Protocol.Item''" by (auto simp: cyclic_def)
  then have "\<exists>c\<in>fst ` set (loadOwn sample_dump). cyclic ?bs c" by (simp add: sample_own)
  then show ?thesis using generator_hangs [of ?bs "[]" sample_dump] by simp
qed

end
