(* ===== verification/RomGenerated.thy ===== *)
theory RomGenerated
  imports GenProofs RomCatalog
begin

text \<open>
  The catalog of the repository is what its generator writes: with the tables of \<open>catalog_gen.go\<close>
  read back as metadata, the generator writes these tables again, none more and none less. Each
  message is given with its resolved fields, each struct with its whole layout and the static
  \<open>__ID__\<close> of a dumped class, and there are no base classes left.
\<close>

section \<open>The tables as metadata\<close>

definition typed_of :: "u32 \<times> message \<Rightarrow> typed_message" where
  "typed_of km =
     \<lparr>tm_Name = msgName (snd km), tm_Dir = msgDir (snd km), tm_ID = ucast (fst km), tm_Fields = msgFields (snd km)\<rparr>"

definition dumped :: "string \<times> field list \<Rightarrow> dump_type" where
  "dumped s =
     \<lparr>dt_Full = fst s, dt_Fields =
        \<lparr>df_Name = ''__ID__'', df_Type = ''System.UInt32'', df_IsStatic = True\<rparr> #
        map (\<lambda>f. \<lparr>df_Name = fName f, df_Type = fType f, df_IsStatic = False\<rparr>) (snd s)\<rparr>"

definition rom_typed :: "typed_message list" where
  "rom_typed = map typed_of rom_messages"

definition rom_dump :: "dump_type list" where
  "rom_dump = map dumped rom_structs"

section \<open>The types of the fields\<close>

definition known_type :: "string \<Rightarrow> bool" where
  "known_type t \<longleftrightarrow>
     t \<in> set primitive_types \<or> t \<in> fst ` set list_types \<or> t \<in> fst ` set array_types \<or> t \<in> fst ` set rom_structs"

lemma known_all:
  "list_all known_type primitive_types"
  "list_all (\<lambda>(t, e). known_type t) list_types"
  "list_all (\<lambda>(t, e). known_type t) array_types"
  "list_all (\<lambda>(t, l). known_type t) rom_structs"
  by (force simp: list_all_iff known_type_def)+

lemmas known_types =
  known_all(1) [unfolded primitive_types_def list.pred_inject]
  known_all(2) [unfolded list_types_def list.pred_inject prod.case]
  known_all(3) [unfolded array_types_def list.pred_inject prod.case]
  known_all(4) [unfolded all_structs struct_chunks list.pred_inject prod.case]

lemma known_entry:
  "list_all (\<lambda>f. known_type (fType f)) fs \<Longrightarrow>
     (\<lambda>(k, m). list_all (\<lambda>f. known_type (fType f)) (msgFields m)) (k, \<lparr>msgName = n, msgDir = d, msgID = i, msgFields = fs\<rparr>)"
  by simp

lemma known_field: "known_type t \<Longrightarrow> (\<lambda>f. known_type (fType f)) (Field n t)"
  by simp

lemma known_messages: "list_all (\<lambda>(k, m). list_all (\<lambda>f. known_type (fType f)) (msgFields m)) rom_messages"
  unfolding all_messages
  by (intro conjI) (rule walk_messages, (rule entries(1) | (rule entries(2), rule known_entry,
    (intro entries; (rule known_field, simp only: known_types))))+)+

lemma known_layout: "list_all (\<lambda>f. known_type (fType f)) fs \<Longrightarrow> (\<lambda>(t, l). list_all (\<lambda>f. known_type (fType f)) l) (t, fs)"
  by simp

lemma known_structs: "list_all (\<lambda>(t, l). list_all (\<lambda>f. known_type (fType f)) l) rom_structs"
  unfolding all_structs
  by (intro conjI) (rule walk_structs, (rule entries(1) | (rule entries(2), rule known_layout,
    (intro entries; (rule known_field, simp only: known_types))))+)+

text \<open>What the generator looks up for each kind of type.\<close>

definition rom_struct_name :: "string \<Rightarrow> bool" where
  "rom_struct_name b \<longleftrightarrow> b \<in> fst ` set rom_structs"

lemma head_entry: "t = CHR ''P'' # s \<Longrightarrow> (\<lambda>(t, l). hd t = CHR ''P'' \<and> t \<noteq> []) (t, l)"
  by simp

lemma struct_head: "list_all (\<lambda>(t, l). hd t = CHR ''P'' \<and> t \<noteq> []) rom_structs"
  unfolding all_structs
  by (intro conjI) (rule walk_structs, (rule entries(1) | (rule entries(2), rule head_entry, rule struct_names))+)+

lemma elem_base_list:
  assumes "is_list_type t" "\<not> is_array_type t"
  shows "elem_base t = Some (list_elem t)"
proof -
  have "length listPrefix < length t" using assms(1) by (simp add: is_list_type_def)
  then have "\<not> length t - 1 < length listPrefix" by linarith
  then show ?thesis using assms by (simp add: elem_base_def is_list_type_def)
qed

lemma elem_base_array: "is_array_type t \<Longrightarrow> \<not> is_array_type (array_elem t) \<Longrightarrow> elem_base t = elem_base (array_elem t)"
  by (simp add: elem_base_def)

lemma elem_base_struct:
  assumes "hd t = CHR ''P''" "t \<noteq> []" "\<not> is_array_type t"
  shows "elem_base t = Some t"
proof -
  from assms obtain cs where "t = CHR ''P'' # cs" by (cases t) auto
  then show ?thesis using assms(3) by (simp add: elem_base_def listPrefix_def)
qed

lemma struct_base: "rom_struct_name t \<Longrightarrow> elem_base t = Some t"
  using struct_head struct_kind by (auto simp: rom_struct_name_def list_all_iff intro!: elem_base_struct)

lemma list_base: "(t, e) \<in> set list_types \<Longrightarrow> elem_base t = Some e"
  using list_kind elem_base_list by (fastforce simp: list_all_iff)

text \<open>Of the primitive types only the array of characters loses something, and no struct has a name like them.\<close>

lemma primitive_base: "list_all (\<lambda>t. \<exists>b. elem_base t = Some b \<and> hd b = CHR ''S'' \<and> b \<noteq> []) primitive_types"
  by (simp add: primitive_types_def primitive_names elem_base_def is_array_type_def array_elem_def listPrefix_def)

lemma list_elements: "list_all (\<lambda>(t, e). rom_struct_name e \<or> e \<in> set primitive_types) list_types"
proof -
  have "list_all (\<lambda>(t, l). rom_struct_name t) rom_structs" by (force simp: list_all_iff rom_struct_name_def)
  note names = this [unfolded all_structs struct_chunks list.pred_inject prod.case]
  show ?thesis unfolding list_types_def
    by (intro entries; simp only: prod.case names simp_thms; simp add: primitive_types_def)
qed

lemma array_elements:
  "list_all (\<lambda>(t, e). \<not> is_array_type e \<and>
     (rom_struct_name e \<or> e \<in> set primitive_types \<or> e \<in> fst ` set list_types)) array_types"
proof -
  have "list_all (\<lambda>(t, l). rom_struct_name t) rom_structs" by (force simp: list_all_iff rom_struct_name_def)
  note names = this [unfolded all_structs struct_chunks list.pred_inject prod.case]
  have "list_all (\<lambda>(t, e). t \<in> fst ` set list_types) list_types" by (force simp: list_all_iff)
  note lists = this [unfolded list_types_def list.pred_inject prod.case, folded list_types_def]
  have "list_all (\<lambda>(t, e). \<not> is_array_type t) list_types" "list_all (\<lambda>(t, l). \<not> is_array_type t) rom_structs"
    using list_kind struct_kind by (auto simp: list_all_iff)
  note plain = this(1) [unfolded list_types_def list.pred_inject prod.case]
    this(2) [unfolded all_structs struct_chunks list.pred_inject prod.case]
  show ?thesis unfolding array_types_def
    by (intro entries; simp only: prod.case names lists plain simp_thms; simp add: primitive_types_def is_array_type_def primitive_names)
qed

section \<open>The layouts read back\<close>

definition rom_layouts :: layouts where
  "rom_layouts = rom_structs @ extraBaseFields"

lemma update_new: "k \<notin> fst ` set al \<Longrightarrow> AList.update k v al = al @ [(k, v)]"
  by (induction al) auto

lemma own_fields_dumped:
  "list_all (\<lambda>f. fType f \<noteq> []) l \<Longrightarrow>
     own_fields (map (\<lambda>f. \<lparr>df_Name = fName f, df_Type = fType f, df_IsStatic = False\<rparr>) l) = Some l"
  by (induction l) simp_all

lemma add_own_dumped:
  "list_all (\<lambda>f. fType f \<noteq> []) (snd s) \<Longrightarrow> fst s \<notin> fst ` set own \<Longrightarrow> add_own (dumped s) own = own @ [s]"
  by (simp add: add_own_def dumped_def own_fields_dumped update_new)

lemma fold_dumped:
  "list_all (\<lambda>s. list_all (\<lambda>f. fType f \<noteq> []) (snd s)) xs \<Longrightarrow> distinct (map fst (own @ xs)) \<Longrightarrow>
     fold add_own (map dumped xs) own = own @ xs"
  by (induction xs arbitrary: own) (auto simp: add_own_dumped)

lemma known_base:
  assumes "known_type t"
  obtains b where "elem_base t = Some b" "rom_struct_name b \<or> hd b = CHR ''S'' \<and> b \<noteq> []"
proof -
  have prim: "\<exists>b. elem_base t = Some b \<and> (rom_struct_name b \<or> hd b = CHR ''S'' \<and> b \<noteq> [])" if "t \<in> set primitive_types" for t
    using primitive_base that by (auto simp: list_all_iff)
  have lst: "\<exists>b. elem_base t = Some b \<and> (rom_struct_name b \<or> hd b = CHR ''S'' \<and> b \<noteq> [])" if "(t, e) \<in> set list_types" for t e
  proof -
    have "rom_struct_name e \<or> e \<in> set primitive_types" using list_elements that by (auto simp: list_all_iff)
    moreover have "hd e = CHR ''S'' \<and> e \<noteq> []" if "e \<in> set primitive_types"
      using that by (auto simp: primitive_types_def primitive_names)
    ultimately show ?thesis using list_base [OF that] by blast
  qed
  from assms consider "t \<in> set primitive_types" | e where "(t, e) \<in> set list_types"
    | e where "(t, e) \<in> set array_types" | "rom_struct_name t" by (auto simp: known_type_def rom_struct_name_def)
  then have "\<exists>b. elem_base t = Some b \<and> (rom_struct_name b \<or> hd b = CHR ''S'' \<and> b \<noteq> [])"
  proof cases
    case (3 e)
    then have a: "is_array_type t" "array_elem t = e" using array_kind by (auto simp: list_all_iff)
    have "\<not> is_array_type e" "rom_struct_name e \<or> e \<in> set primitive_types \<or> e \<in> fst ` set list_types"
      using array_elements 3 by (auto simp: list_all_iff)
    then show ?thesis using elem_base_array [OF a(1)] prim [of e] lst struct_base [of e] a(2) by auto
  qed (use prim lst struct_base in auto)
  then show ?thesis using that by blast
qed

lemma known_nonempty: "known_type t \<Longrightarrow> t \<noteq> []"
proof
  assume "known_type t" "t = []"
  then obtain b where "elem_base [] = Some b" "rom_struct_name b \<or> hd b = CHR ''S'' \<and> b \<noteq> []" using known_base by metis
  then show False using struct_head by (auto simp: elem_base_def is_array_type_def listPrefix_def rom_struct_name_def list_all_iff)
qed

lemma distinct_structs: "distinct (map fst rom_structs)"
  using coherent_rom by (simp add: coherent_def)

lemma no_extra: "''Network.IBSerializableList'' \<notin> fst ` set rom_structs"
  using struct_head by (fastforce simp: list_all_iff)

lemma rom_own: "loadOwn rom_dump = rom_layouts"
proof -
  have "list_all (\<lambda>s. list_all (\<lambda>f. fType f \<noteq> []) (snd s)) rom_structs"
    using known_structs known_nonempty by (fastforce simp: list_all_iff)
  then have "fold add_own (map dumped rom_structs) [] = rom_structs"
    using fold_dumped [of rom_structs "[]"] distinct_structs by simp
  then show ?thesis
    by (simp add: loadOwn_def rom_dump_def rom_layouts_def extraBaseFields_def update_new no_extra)
qed

lemma rom_layouts_lookup:
  "map_of rom_layouts b = (if rom_struct_name b then map_of rom_structs b else map_of extraBaseFields b)"
proof (cases "rom_struct_name b")
  case True
  then obtain l where "map_of rom_structs b = Some l" by (auto simp: rom_struct_name_def dest: weak_map_of_SomeI)
  then show ?thesis using True by (simp add: rom_layouts_def map_add_def extraBaseFields_def)
next
  case False
  then have "map_of rom_structs b = None" by (simp add: rom_struct_name_def map_of_eq_None_iff)
  then show ?thesis using False by (simp add: rom_layouts_def map_add_def split: option.split)
qed

lemma distinct_layouts: "distinct (map fst rom_layouts)"
  using distinct_structs no_extra by (simp add: rom_layouts_def extraBaseFields_def)

lemma rom_built: "buildStructs (loadOwn rom_dump) Map.empty = Some rom_layouts"
proof -
  have "struct_layout rom_layouts Map.empty name = Some l" if "(name, l) \<in> set rom_layouts" for name l
  proof -
    have "layout_of rom_layouts name = l" using distinct_layouts that by (simp add: layout_of_def)
    moreover have "name \<noteq> []" using that struct_head by (auto simp: rom_layouts_def extraBaseFields_def list_all_iff)
    ultimately show ?thesis by (simp add: struct_layout_def chain_root fieldsOf_def)
  qed
  then have "map (\<lambda>(name, _). map_option (Pair name) (struct_layout rom_layouts Map.empty name)) rom_layouts = map Some rom_layouts"
    by (intro map_cong refl) auto
  then show ?thesis by (simp add: rom_own buildStructs_def those_Some)
qed

section \<open>What the messages reach\<close>

definition rom_types :: "string list" where
  "rom_types = field_types (map (\<lambda>km. (typed_of km, msgFields (snd km))) rom_messages)"

lemma rom_types_known: "t \<in> set rom_types \<Longrightarrow> known_type t"
  using known_messages by (auto simp: rom_types_def field_types_def list_all_iff)

lemma collect_total:
  assumes "\<forall>t\<in>set ts. elem_base t \<noteq> None" "\<forall>b l. map_of S b = Some l \<longrightarrow> (\<forall>f\<in>set l. elem_base (fType f) \<noteq> None)"
  shows "collect S ts R \<noteq> None"
  using assms
proof (induction S ts R rule: collect.induct)
  case (2 S t ts R)
  then obtain b where b: "elem_base t = Some b" by auto
  have ts: "\<forall>t\<in>set ts. elem_base t \<noteq> None" using "2.prems"(1) by simp
  consider "b \<in> set R" | "b \<notin> set R" "map_of S b = None" | l where "b \<notin> set R" "map_of S b = Some l" by auto
  then show ?case
  proof cases
    case 1
    then show ?thesis using "2.IH"(1) [OF b 1 ts "2.prems"(2)] b by simp
  next
    case 2
    then show ?thesis using "2.IH"(2) [OF b 2 ts "2.prems"(2)] b by simp
  next
    case (3 l)
    have "\<forall>f\<in>set l. elem_base (fType f) \<noteq> None" using "2.prems"(2) 3(2) by blast
    then have "\<forall>t\<in>set (map fType l @ ts). elem_base t \<noteq> None" using ts by auto
    then show ?thesis using "2.IH"(3) [OF b 3 _ "2.prems"(2)] b 3 by simp
  qed
qed simp

lemma layout_types_known: "map_of rom_layouts b = Some l \<Longrightarrow> f \<in> set l \<Longrightarrow> known_type (fType f) \<or> fType f = ''System.Byte''"
  using known_structs
  by (fastforce simp: rom_layouts_lookup extraBaseFields_def list_all_iff split: if_splits dest: map_of_SomeD)

lemma known_byte: "''System.Byte'' = ty_Byte" "known_type ty_Byte"
  by (simp only: ty_Byte_def, simp only: known_types)

lemma rom_collects: "\<exists>R. collect rom_layouts rom_types [] = Some R"
proof -
  have "elem_base t \<noteq> None" if "known_type t" for t using known_base [OF that] by blast
  then have "collect rom_layouts rom_types [] \<noteq> None"
    using layout_types_known known_byte rom_types_known by (intro collect_total) (blast, metis)
  then show ?thesis by simp
qed

lemma needed_struct: "needed rom_layouts rom_types b \<Longrightarrow> rom_struct_name b"
proof -
  have known: "rom_struct_name b" if "known_type t" "elem_base t = Some b" "map_of rom_layouts b = Some l" for t b l
    using known_base [OF that(1)] that(2,3)
    by (auto simp: rom_layouts_lookup extraBaseFields_def split: if_splits)
  show "needed rom_layouts rom_types b \<Longrightarrow> rom_struct_name b"
  proof (induction rule: needed.induct)
    case (root t b l)
    then show ?case using known rom_types_known by blast
  next
    case (nested a l f b l')
    then have "known_type (fType f)" using layout_types_known known_byte by metis
    then show ?case using known nested by blast
  qed
qed

text \<open>
  Every struct is needed: a type that is reached makes the struct it leads to needed, the types of
  the messages are reached, and so are those in the layout of a needed struct.
\<close>

definition needs :: "string \<Rightarrow> bool" where
  "needs b \<longleftrightarrow> needed rom_layouts rom_types b"

definition reaches :: "string \<Rightarrow> bool" where
  "reaches t \<longleftrightarrow> (\<forall>b. elem_base t = Some b \<longrightarrow> rom_struct_name b \<longrightarrow> needs b)"

lemma rom_struct_layout: "rom_struct_name b \<Longrightarrow> \<exists>l. map_of rom_layouts b = Some l"
  by (auto simp: rom_layouts_lookup rom_struct_name_def dest: weak_map_of_SomeI)

lemma reaches_root: "t \<in> set rom_types \<Longrightarrow> reaches t"
  using rom_struct_layout by (auto simp: reaches_def needs_def intro: needed.root)

lemma reaches_messages: "list_all (\<lambda>(k, m). list_all (\<lambda>f. reaches (fType f)) (msgFields m)) rom_messages"
proof -
  have "reaches (fType f)" if "(k, m) \<in> set rom_messages" "f \<in> set (msgFields m)" for k m f
    by (rule reaches_root) (use that in \<open>force simp: rom_types_def field_types_def\<close>)
  then show ?thesis by (auto simp: list_all_iff)
qed

lemma reaches_structs: "list_all (\<lambda>(t, l). needs t \<longrightarrow> list_all (\<lambda>f. reaches (fType f)) l) rom_structs"
proof -
  have "reaches (fType f)" if "(t, l) \<in> set rom_structs" "needs t" "f \<in> set l" for t l f
  proof -
    have "map_of rom_layouts t = Some l" using that(1) rom_struct [OF that(1)] by (force simp: rom_layouts_lookup rom_struct_name_def)
    then show ?thesis using that rom_struct_layout by (auto simp: reaches_def needs_def intro: needed.nested)
  qed
  then show ?thesis by (auto simp: list_all_iff)
qed

lemma reaches_struct: "list_all (\<lambda>(t, l). reaches t = needs t) rom_structs"
proof -
  have "reaches t = needs t" if "rom_struct_name t" for t using that by (simp add: reaches_def struct_base)
  then show ?thesis by (force simp: list_all_iff rom_struct_name_def)
qed

lemma reaches_list: "list_all (\<lambda>(t, e). reaches t = (rom_struct_name e \<longrightarrow> needs e)) list_types"
  using list_base by (auto simp: list_all_iff reaches_def)

lemma reaches_array: "list_all (\<lambda>(t, e). reaches t = reaches e) array_types"
  using array_kind array_elements elem_base_array by (fastforce simp: list_all_iff reaches_def)

lemma names_all: "list_all (\<lambda>(t, l). rom_struct_name t) rom_structs"
  by (force simp: list_all_iff rom_struct_name_def)

lemmas struct_named = names_all [unfolded all_structs struct_chunks list.pred_inject prod.case]

lemmas reach_rules =
  reaches_struct [unfolded all_structs struct_chunks list.pred_inject prod.case]
  reaches_list [unfolded list_types_def list.pred_inject prod.case]
  reaches_array [unfolded array_types_def list.pred_inject prod.case]

lemmas message_reach = reaches_messages [unfolded all_messages message_chunks list.pred_inject prod.case message.simps field.sel]

lemmas needed_first = message_reach [simplified reach_rules struct_named simp_thms]

lemmas needed_second =
  reaches_structs [unfolded all_structs struct_chunks list.pred_inject prod.case field.sel,
    simplified needed_first reach_rules struct_named simp_thms]

lemma needs_all: "list_all (\<lambda>(t, l). needs t) rom_structs"
  unfolding all_structs struct_chunks list.pred_inject prod.case
  by (simp only: needed_first needed_second simp_thms list.pred_inject)

lemma collected_structs: "collect rom_layouts rom_types [] = Some R \<Longrightarrow> set R = set (map fst rom_structs) \<and> distinct R"
proof -
  assume c: "collect rom_layouts rom_types [] = Some R"
  have "needed rom_layouts rom_types b \<longleftrightarrow> rom_struct_name b" for b
    using needed_struct needs_all by (auto simp: list_all_iff needs_def rom_struct_name_def)
  then show ?thesis using collect_needed [OF c] collect_distinct [OF c] by (auto simp: rom_struct_name_def)
qed

section \<open>The order of the file\<close>

lemma str_lt_less_string: "str_lt xs ys \<Longrightarrow> xs < ys"
  by (induction xs ys rule: str_lt.induct) (auto simp: less_char_def neq_Nil_conv split: if_splits)

lemma climbs_sorted: "climbs name lo xs hi \<Longrightarrow> sorted (map name xs)"
proof (induction xs arbitrary: lo)
  case (Cons x xs)
  then have "\<forall>y\<in>set xs. name x \<le> name y"
    using climbs_distinct [of name "name x" xs hi] str_lt_less_string by (fastforce intro: less_imp_le)
  with Cons show ?case by auto
qed simp

lemma sorted_structs: "sorted (map fst rom_structs)"
  by (rule climbs_sorted [OF climbs_rom_structs])

lemma sort_collected:
  assumes "collect rom_layouts rom_types [] = Some R"
  shows "sort R = map fst rom_structs"
  using collected_structs [OF assms] sorted_structs distinct_structs
  by (intro sorted_distinct_set_unique) simp_all

lemma sizes_sorted: "sort_key fst fixedArrays_table = fixed_arrays"
  by (simp add: fixedArrays_table_def fixed_arrays_def less_eq_list_code less_char_def less_eq_char_def)

text \<open>Of the structs, only the element message has the name of a message.\<close>

lemma direction_entry:
  "take 4 n = ''C2S_'' \<or> take 4 n = ''S2C_'' \<Longrightarrow>
     (\<lambda>(k, m). take 4 (msgName m) = ''C2S_'' \<or> take 4 (msgName m) = ''S2C_'') (k, \<lparr>msgName = n, msgDir = d, msgID = i, msgFields = fs\<rparr>)"
  by simp

lemma message_directions:
  "list_all (\<lambda>(k, m). take 4 (msgName m) = ''C2S_'' \<or> take 4 (msgName m) = ''S2C_'') rom_messages"
  unfolding all_messages
  by (intro conjI) (rule walk_messages, (rule entries(1) | (rule entries(2), rule direction_entry, simp))+)+

lemma element_entry:
  "t = n \<Longrightarrow> n = ''Protocol.S2C_MoveNotice'' \<or> take 4 (drop 9 n) \<noteq> ''C2S_'' \<and> take 4 (drop 9 n) \<noteq> ''S2C_'' \<Longrightarrow>
     (\<lambda>(t, l). t = ''Protocol.S2C_MoveNotice'' \<or> take 4 (drop 9 t) \<noteq> ''C2S_'' \<and> take 4 (drop 9 t) \<noteq> ''S2C_'') (t, l)"
  by simp

lemma element_structs:
  "list_all (\<lambda>(t, l). t = ''Protocol.S2C_MoveNotice'' \<or> take 4 (drop 9 t) \<noteq> ''C2S_'' \<and> take 4 (drop 9 t) \<noteq> ''S2C_'') rom_structs"
  unfolding all_structs
  by (intro conjI) (rule walk_structs, (rule entries(1) | (rule entries(2), rule element_entry, rule struct_names, simp))+)+

lemma rom_element_message: "set (filter (messageFull rom_typed) (map fst rom_structs)) = {''Protocol.S2C_MoveNotice''}"
proof -
  have k: "''Protocol.S2C_MoveNotice'' \<in> fst ` set rom_structs"
    using struct_named by (simp add: rom_struct_name_def ty_S2C_MoveNotice_def)
  have m: "messageFull rom_typed ''Protocol.S2C_MoveNotice''"
  proof -
    obtain k m where "(k, m) \<in> set rom_messages" "msgName m = ''S2C_MoveNotice''"
      using rom_lookups(1) byName_SomeD [of rom "''S2C_MoveNotice''"] by fastforce
    then show ?thesis by (force simp: messageFull_def rom_typed_def typed_of_def)
  qed
  have only: "b = ''Protocol.S2C_MoveNotice''" if "messageFull rom_typed b" "b \<in> fst ` set rom_structs" for b
  proof -
    note key = that(2)
    from that(1) obtain k m where m: "(k, m) \<in> set rom_messages" "b = ''Protocol.'' @ msgName m"
      by (auto simp: messageFull_def rom_typed_def typed_of_def)
    then have "take 4 (drop 9 b) = ''C2S_'' \<or> take 4 (drop 9 b) = ''S2C_''"
      using message_directions by (auto simp: list_all_iff)
    moreover obtain l where "(b, l) \<in> set rom_structs" using key by auto
    ultimately show ?thesis using bspec [OF element_structs [unfolded list_all_iff], of "(b, l)", unfolded prod.case] by blast
  qed
  show ?thesis
  proof (rule set_eqI, rule iffI)
    fix b assume "b \<in> set (filter (messageFull rom_typed) (map fst rom_structs))"
    then have "messageFull rom_typed b" "b \<in> fst ` set rom_structs" by simp_all
    then have "b = ''Protocol.S2C_MoveNotice''" by (rule only)
    then show "b \<in> {''Protocol.S2C_MoveNotice''}" by (simp only: singleton_iff)
  next
    fix b assume "b \<in> {''Protocol.S2C_MoveNotice''}"
    then have b: "b = ''Protocol.S2C_MoveNotice''" by (rule singletonD)
    show "b \<in> set (filter (messageFull rom_typed) (map fst rom_structs))"
      unfolding set_filter set_map b using k m by blast
  qed
qed

lemma rom_elements:
  assumes "collect rom_layouts rom_types [] = Some R"
  shows "sort (filter (messageFull rom_typed) R) = message_full_names"
proof -
  have "set (filter (messageFull rom_typed) R) = {''Protocol.S2C_MoveNotice''}" "distinct R"
    using rom_element_message collected_structs [OF assms] by auto
  then show ?thesis
    by (intro sorted_distinct_set_unique) (simp_all add: message_full_names_def)
qed

section \<open>No nested containers\<close>

text \<open>The proviso of \<open>pruning_is_invisible\<close> holds of the catalog.\<close>

lemma bare_elements: "rom_struct_name e \<or> e \<in> set primitive_types \<Longrightarrow> bare e"
proof (elim disjE)
  assume "rom_struct_name e"
  then show "bare e" using struct_kind by (auto simp: rom_struct_name_def bare_def list_all_iff)
next
  assume "e \<in> set primitive_types"
  then have "zero_primitive e \<noteq> None" using primitive_kind by (auto simp: list_all_iff)
  then show "bare e" by (simp add: bare_def prim_dom)
qed

lemma flat_known: "known_type t \<Longrightarrow> flat_type t"
proof -
  have lst: "\<not> is_array_type t \<and> is_list_type t \<and> bare (list_elem t)" if "(t, e) \<in> set list_types" for t e
  proof -
    have "rom_struct_name e \<or> e \<in> set primitive_types" using list_elements that by (auto simp: list_all_iff)
    moreover have "\<not> is_array_type t" "is_list_type t" "list_elem t = e" using list_kind that by (auto simp: list_all_iff)
    ultimately show ?thesis using bare_elements by simp
  qed
  assume "known_type t"
  then consider "rom_struct_name t \<or> t \<in> set primitive_types" | e where "(t, e) \<in> set list_types"
    | e where "(t, e) \<in> set array_types" by (auto simp: known_type_def rom_struct_name_def)
  then show "flat_type t"
  proof cases
    case 1
    then show ?thesis using bare_elements by (simp add: flat_type_def)
  next
    case (2 e)
    then show ?thesis using lst by (simp add: flat_type_def)
  next
    case (3 e)
    then have a: "is_array_type t" "array_elem t = e" using array_kind by (auto simp: list_all_iff)
    have "rom_struct_name e \<or> e \<in> set primitive_types \<or> e \<in> fst ` set list_types"
      using array_elements 3 by (auto simp: list_all_iff)
    then show ?thesis using bare_elements lst a by (auto simp: flat_type_def Let_def)
  qed
qed

lemma flat_rom: "flat_catalog rom"
  using known_messages known_structs flat_known by (fastforce simp: flat_catalog_def list_all_iff)

section \<open>The fixed point\<close>

lemma rom_message_back:
  "(k, m) \<in> set rom_messages \<Longrightarrow>
     (opcode (typed_of (k, m)), \<lparr>msgName = msgName m, msgDir = msgDir m, msgID = opcode (typed_of (k, m)), msgFields = msgFields m\<rparr>) = (k, m)"
proof -
  assume "(k, m) \<in> set rom_messages"
  then have "msgID m = k" using own_opcode by (auto simp: list_all_iff)
  moreover have "opcode (typed_of (k, m)) = k" by (simp add: opcode_def typed_of_def)
  ultimately show ?thesis by simp
qed

lemma resolve_flat:
  assumes "collect S (concat (map (map fType \<circ> tm_Fields) ms)) R = Some R'"
  shows "resolve Map.empty own S ms R = Inr (map (\<lambda>m. (m, tm_Fields m)) ms, R')"
  using assms
proof (induction ms arbitrary: R)
  case (Cons m ms)
  then obtain R1 where "collect S (map fType (tm_Fields m)) R = Some R1"
    "collect S (concat (map (map fType \<circ> tm_Fields) ms)) R1 = Some R'"
    by (auto simp: collect_append bind_eq_Some_conv o_def)
  then show ?case using Cons.IH [of R1] by (simp add: messageFields_def chain_root o_def)
qed simp

text \<open>C7. The catalog of the repository is a fixed point of its generator: read back as metadata, the tables
  of \<open>catalog_gen.go\<close> make the generator write exactly these tables and opcode constants. So every struct in the file is
  reached by some message and none that is reached is missing, the entries are in order, and the
  array sizes and the one element message are those the generator knows.\<close>
theorem catalog_is_fixed_point:
  "generate rom_typed rom_dump Map.empty = Inr rom \<and> rom_opcodes = map (\<lambda>m. (tm_Name m, opcode m)) rom_typed"
proof
  show "rom_opcodes = map (\<lambda>m. (tm_Name m, opcode m)) rom_typed"
    by (auto simp: opcodes_of_messages rom_typed_def typed_of_def opcode_def)
next
  obtain R where R: "collect rom_layouts rom_types [] = Some R" using rom_collects by blast
  have t: "rom_types = concat (map (map fType \<circ> tm_Fields) rom_typed)"
    by (simp add: rom_types_def field_types_def rom_typed_def typed_of_def o_def)
  have "resolve Map.empty (loadOwn rom_dump) rom_layouts rom_typed [] = Inr (map (\<lambda>m. (m, tm_Fields m)) rom_typed, R)"
    by (rule resolve_flat) (simp add: R [unfolded t])
  moreover have "tables (map (\<lambda>m. (m, tm_Fields m)) rom_typed) rom_layouts R rom_typed = rom"
  proof -
    have "map (\<lambda>(m, full). (opcode m, \<lparr>msgName = tm_Name m, msgDir = tm_Dir m, msgID = opcode m, msgFields = full\<rparr>))
        (map (\<lambda>m. (m, tm_Fields m)) rom_typed) = map (\<lambda>km. km) rom_messages"
      unfolding rom_typed_def map_map comp_def prod.case
    proof (rule map_cong [OF refl])
      fix km assume "km \<in> set rom_messages"
      then show "(opcode (typed_of km), \<lparr>msgName = tm_Name (typed_of km), msgDir = tm_Dir (typed_of km),
          msgID = opcode (typed_of km), msgFields = tm_Fields (typed_of km)\<rparr>) = km"
        using rom_message_back [of "fst km" "snd km"] by (simp add: typed_of_def)
    qed
    moreover have "map (\<lambda>name. (name, layout_of rom_layouts name)) (map fst rom_structs) = rom_structs"
    proof -
      have "layout_of rom_layouts name = l" if "(name, l) \<in> set rom_structs" for name l
        using that rom_struct [OF that] by (force simp: layout_of_def rom_layouts_lookup rom_struct_name_def)
      then show ?thesis by (simp add: o_def) (intro map_idI, auto)
    qed
    ultimately show ?thesis
      by (simp add: tables_def rom_def sort_collected [OF R] rom_elements [OF R] sizes_sorted)
  qed
  ultimately show "generate rom_typed rom_dump Map.empty = Inr rom" unfolding generate_def Let_def rom_built by simp
qed

end
