(* ===== verification/Spec2Isabelle.thy ===== *)
theory Spec2Isabelle
  imports RomCodec RabbitVectors Session World Postgres Auth GameLobby Population Server RomGenerated
begin

text \<open>
  A verification development of rom-server-poc, a game server in Go. It models the code of
  \<open>cmd/\<close> and \<open>internal/\<close>: the message catalog with its generator, the wire codec, the transport, the
  region client, the connection handler, the world, the Postgres store, the configuration and the
  server process.

  \<^bold>\<open>The program.\<close> \<open>cmd/gen\<close> turns exported metadata into the tables of
  \<open>internal/protocol/catalog_gen.go\<close>; the codec of \<open>internal/protocol\<close> reads them at run time to
  encode and decode messages. \<open>cmd/server\<close> loads its configuration, opens the database, starts the
  goroutine of the world and accepts connections. Each connection is handshaken and encrypted by
  \<open>internal/transport\<close> and then served by \<open>internal/game\<close>, which asks the region service
  (\<open>internal/auth\<close>), calls the store (\<open>internal/persist\<close>, \<open>internal/persist/postgres\<close>) and hands
  commands to the world (\<open>internal/world\<close>) over a channel.

  \<^bold>\<open>What Go gives, modelled once.\<close>
  \<^item> \<open>Prelude\<close>: integers as words of their width, \<open>(value, error)\<close> pairs as a sum with the
    sequencing \<open>rbind\<close>, the loop over a slice that stops at an error, little-endian bytes.
  \<^item> \<open>GoStrings\<close>: strings as bytes, runes, UTF-8, UTF-16, \<open>strings.TrimSpace\<close>. \<open>GoStrconv\<close>: decimal
    numbers, booleans, \<open>Trim\<close>, \<open>ToLower\<close>. \<open>GoFloat\<close>: floats as IEEE bit patterns with the
    conversions the codec makes.

  \<^bold>\<open>Catalog and codec.\<close>
  \<^item> \<open>Catalog\<close> is \<open>catalog.go\<close>: fields, messages, and the lookups over the four tables, which are one
    record so that lemmas hold for any catalog.
  \<^item> \<open>Codec\<close> is \<open>codec.go\<close>, \<open>primitives.go\<close> and \<open>zero.go\<close>: reader and writer, primitive coders, and
    \<open>Encode\<close>, \<open>Decode\<close>, \<open>ZeroValues\<close> over dynamic values (\<open>goval\<close>, one constructor per Go type). A
    float-to-integer conversion whose result the language leaves open is an error of its own. The
    recursion over types takes fuel, \<open>codec_fuel = 16\<close>; the deepest type of the catalog needs
    eight (\<open>RomCatalog\<close>), and \<open>rom_fuel_enough\<close> shows that more fuel changes nothing.
  \<^item> \<open>CodecProofs\<close> and \<open>CodecTotal\<close> hold for any catalog: what is encoded decodes to the values a peer
    can see (\<open>normValue\<close>), a decoder consumes a prefix and nothing else (the locale
    \<open>element_reader\<close>), a decoded value encodes again, and \<open>resolves\<close> decides which types can be
    sized. \<open>Extent\<close> says on the bytes alone how far a value of each type reaches (\<open>wire_extent\<close>); the
    decoders read exactly that (the locale \<open>extent_reader\<close>), so \<open>Decode\<close> neither skips a byte nor reads
    one twice.
  \<^item> \<open>CatalogData\<close> has the tables of \<open>catalog_gen.go\<close> entry by entry; \<open>CatalogIndex\<close> and
    \<open>RomCatalog\<close> show that they are coherent and which messages can be sized, \<open>RomMessages\<close> looks
    up those the server handles, and \<open>RomCodec\<close> instantiates the codec's properties.
  \<^item> \<open>Gen\<close> is \<open>cmd/gen/main.go\<close>: own fields, chains of base classes, layouts, reachable structs, the
    tables and the source text written. The loop of \<open>chain\<close> is a partial function whose \<open>None\<close> is
    a loop for ever; \<open>collectReachable\<close> terminates because its set of structs grows.
    \<open>gen_main\<close> adds the flags, \<open>readJSON\<close>, gofmt and the file written.
    \<open>GenProofs\<close>: the generator ends unless base classes form a circle, writes exactly the needed
    structs in order, and the codec cannot tell its tables from the complete metadata.
    \<open>RomGenerated\<close>: the tables of the repository are a fixed point of the generator.

  \<^bold>\<open>Transport.\<close>
  \<^item> \<open>Rabbit\<close> is \<open>rabbit.go\<close> (counter addition, well-formed states, the keystream as one sequence);
    \<open>RabbitVectors\<close> evaluates the vectors of \<open>rabbit_test.go\<close>; \<open>Aes\<close> is the block decryption the key
    derivation uses.
  \<^item> \<open>Session\<close> is \<open>session.go\<close>: sockets as what a connection can observe of its peer, frames,
    \<open>Handshake\<close>, \<open>Send\<close>, \<open>Recv\<close>. The two ends stay in step over any messages that fit their frames,
    every received message takes at least six bytes, and a body over 65533 bytes, which does not
    fit, is announced with a wrapped length and lost.

  \<^bold>\<open>State.\<close>
  \<^item> \<open>World\<close> is \<open>world.go\<close>: the players' table, the closures of \<open>Join\<close>, \<open>Leave\<close> and \<open>Move\<close>, and the
    interleavings of \<open>Run\<close>, \<open>do\<close>, ticks and cancellation as a step relation with the channel of
    256 commands, which refines the sequential table (locale \<open>command_table\<close>).
  \<^item> \<open>Persist\<close> has the records and errors of \<open>store.go\<close> and the contract of a store as the locale
    \<open>store\<close>; \<open>Postgres\<close> models the two tables of the migrations with their keys and indexes and every
    statement of \<open>postgres/store.go\<close> on them, and discharges the contract. When the connection to
    the database fails is a plan in its state (\<open>fault\<close>): before the statement is sent, or after it
    was committed, when only the reply is lost. \<open>store_effects\<close> reads the tables as maps from their
    keys and says of every operation what it changes and answers. \<open>New\<close> and \<open>Close\<close> act on the pools
    that are open.

  \<^bold>\<open>Connections.\<close>
  \<^item> \<open>Auth\<close> is \<open>auth/client.go\<close>: the request, the decoding of the answer as \<open>encoding/json\<close> does it,
    and the comparison of the account code.
  \<^item> \<open>Game\<close> has the three files of \<open>internal/game\<close>: the session record, one definition per handler,
    \<open>dispatch\<close>, the loop of \<open>Serve\<close> and its deferred clean-up. The locale \<open>session_invariant\<close> says what a
    predicate has to survive to be kept by every handler, \<open>served_invariant\<close> by a whole connection.
  \<^item> \<open>GameReplies\<close>: no handler fails for want of an encodable reply. \<open>GameProofs\<close>: nothing happens
    before login, at most three characters. \<open>GameWorld\<close>: the warp token, the commands to the world,
    how a connection ends and in how many turns. \<open>GameLobby\<close>: the login gate, the characters that come into being, a deleted
    character that blocks its slot, a login reply too long for its frame.
  \<^item> \<open>Conversation\<close> puts codec, transport and handlers together. The relation \<open>talks\<close> is a run of the
    connection: each request is refused, exactly under the conditions of \<open>refuses\<close>, which ends it, or
    answered by the replies \<open>reply_names\<close> lists and nothing else; the client receives exactly those.
    \<open>Visit\<close> evaluates one visit, from the login the region vouches for to the end, as a concrete
    input. \<open>Population\<close> puts connections and world together: whatever the interleaving of their
    commands, it says which characters are left when all connections have ended.
  \<^item> \<open>Config\<close> is \<open>config.go\<close> over an environment of names and values. \<open>Server\<close> is
    \<open>cmd/server/main.go\<close>: start-up (\<open>early\<close> says whether an error of \<open>Listen\<close> is returned before
    the goroutine of the world starts its ticker), accept loop, exit status, \<open>serveConn\<close>; its store lets any calls of other
    connections happen between two calls of a connection, which gives the lobby invariant for
    every interleaving.

  \<^bold>\<open>Parameters.\<close> Code that is not in the repository is an argument: the region service with the HTTP
  transport (a function from requests to outcomes), \<open>godotenv\<close>, the JSON files of the generator as
  \<open>encoding/json\<close> reads them, gofmt and the table of \<open>unicode.IsPrint\<close>, which files can be read and
  written, what pgx answers to opening and pinging, and the listener. The context, the clock and the region are observed once per turn of a connection's
  loop. A random source is the list of the bytes it will give.

  \<^bold>\<open>Not modelled.\<close> Log lines and everything only they read (peer addresses, the start time of a
  session, player counts of the ticks); time-outs of HTTP and of the database; signals and the wait group that drains connections; file
  permissions and how the package \<open>flag\<close> splits a command line; memory that runs out; the tests, the Makefile, Docker and go.mod;
  the down parts of the migrations. \<open>Recv\<close> on a peer that neither sends nor closes does not return in
  the code; here a socket is given with all it will ever receive.
\<close>

end
